(* ===== verification/Prelude.thy ===== *)
theory Prelude
  imports Main "HOL-Library.AList"
begin

text \<open>
  What the components share: Go's instants and durations, error values with the sentinels they
  wrap, the byte-level string functions the code calls, tables with one row per key, and
  procedures that read and write a state and may fail. Facts for evaluating procedures are
  collected in \<open>proc_simps\<close>, facts about tables in \<open>table_simps\<close>.
\<close>

named_theorems proc_simps \<open>evaluation of procedures\<close>
named_theorems table_simps \<open>lookup after update in tables\<close>

section \<open>Instants and durations\<close>

text \<open>
  A \<open>time.Time\<close> is the number of nanoseconds since Go's zero time (1 January of year 1, UTC); the
  zero value is the one \<open>IsZero\<close> recognises. A \<open>time.Duration\<close> is a signed 64-bit count of
  nanoseconds: \<open>Time.Sub\<close> saturates at its bounds, which is written out, because the code
  subtracts zero times.
\<close>

type_synonym time = int
type_synonym duration = int

abbreviation zero_time :: time where "zero_time \<equiv> 0"

definition is_zero :: "time \<Rightarrow> bool" where "is_zero t \<longleftrightarrow> t = zero_time"
definition after :: "time \<Rightarrow> time \<Rightarrow> bool" where "after t u \<longleftrightarrow> u < t"
definition before :: "time \<Rightarrow> time \<Rightarrow> bool" where "before t u \<longleftrightarrow> t < u"

definition max_duration :: duration where "max_duration = 2 ^ 63 - 1"
definition min_duration :: duration where "min_duration = - (2 ^ 63)"

definition time_sub :: "time \<Rightarrow> time \<Rightarrow> duration" where
  "time_sub t u = max min_duration (min max_duration (t - u))"

definition truncate_time :: "time \<Rightarrow> duration \<Rightarrow> time" where
  "truncate_time t d = (if d \<le> 0 then t else t - t mod d)"

definition second :: duration where "second = 1000000000"
definition minute :: duration where "minute = 60 * second"
definition hour :: duration where "hour = 60 * minute"

lemmas time_defs = is_zero_def after_def before_def
lemmas duration_defs = hour_def minute_def second_def

lemma time_sub_exact:
  "\<bar>t - u\<bar> < 2 ^ 63 \<Longrightarrow> time_sub t u = t - u"
  by (simp add: time_sub_def max_duration_def min_duration_def)

lemma time_sub_gt_iff:
  "d < max_duration \<Longrightarrow> min_duration \<le> d \<Longrightarrow> d < time_sub t u \<longleftrightarrow> d < t - u"
  by (auto simp: time_sub_def)

lemma time_sub_ge_iff:
  "d \<le> max_duration \<Longrightarrow> min_duration < d \<Longrightarrow> d \<le> time_sub t u \<longleftrightarrow> d \<le> t - u"
  by (auto simp: time_sub_def)

lemma truncate_time_le: "truncate_time t d \<le> t"
  by (simp add: truncate_time_def)

lemma truncate_time_idem: "truncate_time (truncate_time t d) d = truncate_time t d"
  by (simp add: truncate_time_def minus_mod_eq_mult_div)

section \<open>Errors\<close>

text \<open>
  A Go error is the list of sentinels \<open>errors.Is\<close> finds in its chain and a text. The text keeps
  the literal parts of the format strings; rendered arguments (instants, quoted values) are left
  out. A function that returns only an error returns \<open>go_error option\<close>, \<open>None\<close> being nil; one that
  returns a value and an error returns a sum.
\<close>

datatype sentinel =
    SlotUnavailable | BookingNotFound | BookingRejected | BookingUnavailable | OutcomeUnknown
  | ConversationNotFound | InvalidTransition | ExternalReplyConflict
  | CustomerNotFound | InvalidEnvelope
  | DeliveryBusy | DeliveryUncertain | DeliveryRejected
  | ReminderNotFound | NotificationBusy
  | VerificationExpired | VerificationInvalid | VerificationLimited | VerificationUnavailable
  | PageExpired
  | TurnSuperseded
  | GraphUnavailable | GraphRejected | GraphAuthorization | OutsideServiceWindow

datatype go_error = GoErr (wraps: "sentinel list") (message: string)

type_synonym 'a result = "go_error + 'a"

definition errors_new :: "string \<Rightarrow> go_error" where "errors_new t = GoErr [] t"
definition sentinel_error :: "sentinel \<Rightarrow> go_error" where "sentinel_error s = GoErr [s] []"
definition wrapping :: "sentinel \<Rightarrow> string \<Rightarrow> go_error" where "wrapping s t = GoErr [s] t"

text \<open>\<open>fmt.Errorf("prefix: %w", err)\<close>\<close>
definition wrap_error :: "string \<Rightarrow> go_error \<Rightarrow> go_error" where
  "wrap_error p e = GoErr (wraps e) (p @ '': '' @ message e)"

definition errors_is :: "go_error \<Rightarrow> sentinel \<Rightarrow> bool" where
  "errors_is e s \<longleftrightarrow> s \<in> set (wraps e)"

text \<open>\<open>errors.Join\<close> of two possibly nil errors\<close>
fun errors_join :: "go_error option \<Rightarrow> go_error option \<Rightarrow> go_error option" where
  "errors_join None e = e"
| "errors_join e None = e"
| "errors_join (Some e) (Some f) = Some (GoErr (wraps e @ wraps f) (message e @ ''\<newline>'' @ message f))"

lemma errors_is_simps [simp]:
  "errors_is (errors_new t) s \<longleftrightarrow> False"
  "errors_is (sentinel_error s') s \<longleftrightarrow> s = s'"
  "errors_is (wrapping s' t) s \<longleftrightarrow> s = s'"
  "errors_is (wrap_error p e) s \<longleftrightarrow> errors_is e s"
  by (auto simp: errors_is_def errors_new_def sentinel_error_def wrapping_def wrap_error_def)

lemma errors_join_None [simp]: "errors_join e None = e"
  by (cases e) auto

lemma errors_join_eq_None [simp]: "errors_join e f = None \<longleftrightarrow> e = None \<and> f = None"
  by (cases e; cases f) auto

section \<open>Procedures\<close>

text \<open>
  A call that may read and write shared state and may fail. \<open>attempt m w k\<close> is Go's
  \<open>x, err := m(); if err != nil { return w(err) }; k(x)\<close>; \<open>observe m k\<close> continues with the result
  whatever it is, which is how the code logs an error and goes on.
\<close>

type_synonym ('s, 'a) proc = "'s \<Rightarrow> 'a result \<times> 's"

definition ret :: "'a \<Rightarrow> ('s, 'a) proc" where
  "ret x = (\<lambda>s. (Inr x, s))"

definition fail :: "go_error \<Rightarrow> ('s, 'a) proc" where
  "fail e = (\<lambda>s. (Inl e, s))"

definition attempt :: "('s, 'a) proc \<Rightarrow> (go_error \<Rightarrow> go_error) \<Rightarrow> ('a \<Rightarrow> ('s, 'b) proc) \<Rightarrow> ('s, 'b) proc" where
  "attempt m w k = (\<lambda>s. case m s of (Inl e, s') \<Rightarrow> (Inl (w e), s') | (Inr x, s') \<Rightarrow> k x s')"

definition observe :: "('s, 'a) proc \<Rightarrow> ('a result \<Rightarrow> ('s, 'b) proc) \<Rightarrow> ('s, 'b) proc" where
  "observe m k = (\<lambda>s. case m s of (r, s') \<Rightarrow> k r s')"

definition skip_if :: "bool \<Rightarrow> ('s, unit) proc \<Rightarrow> ('s, unit) proc" where
  "skip_if b m = (if b then ret () else m)"

lemma ret_apply [proc_simps]: "ret x s = (Inr x, s)"
  by (simp add: ret_def)

lemma fail_apply [proc_simps]: "fail e s = (Inl e, s)"
  by (simp add: fail_def)

lemma attempt_apply [proc_simps]:
  "attempt m w k s = (case m s of (Inl e, s') \<Rightarrow> (Inl (w e), s') | (Inr x, s') \<Rightarrow> k x s')"
  by (simp add: attempt_def)

lemma observe_apply [proc_simps]: "observe m k s = (case m s of (r, s') \<Rightarrow> k r s')"
  by (simp add: observe_def)

lemma attempt_Inr:
  "attempt m w k s = (Inr y, t) \<longleftrightarrow> (\<exists>x s'. m s = (Inr x, s') \<and> k x s' = (Inr y, t))"
  by (auto simp: attempt_def split: prod.splits sum.splits)

section \<open>Strings\<close>

text \<open>
  Go strings are byte sequences, and so is \<open>string\<close> here. \<open>strings.TrimSpace\<close> removes the
  UTF-8 encodings of the code points for which \<open>unicode.IsSpace\<close> holds.
\<close>

definition has_prefix :: "string \<Rightarrow> string \<Rightarrow> bool" where
  "has_prefix s p \<longleftrightarrow> take (length p) s = p"

definition trim_prefix :: "string \<Rightarrow> string \<Rightarrow> string" where
  "trim_prefix s p = (if has_prefix s p then drop (length p) s else s)"

definition space_codes :: "string list" where
  "space_codes =
     [[CHR 0x09], [CHR 0x0A], [CHR 0x0B], [CHR 0x0C], [CHR 0x0D], [CHR 0x20],
      [CHR 0xC2, CHR 0x85], [CHR 0xC2, CHR 0xA0], [CHR 0xE1, CHR 0x9A, CHR 0x80],
      [CHR 0xE2, CHR 0x80, CHR 0x80], [CHR 0xE2, CHR 0x80, CHR 0x81], [CHR 0xE2, CHR 0x80, CHR 0x82],
      [CHR 0xE2, CHR 0x80, CHR 0x83], [CHR 0xE2, CHR 0x80, CHR 0x84], [CHR 0xE2, CHR 0x80, CHR 0x85],
      [CHR 0xE2, CHR 0x80, CHR 0x86], [CHR 0xE2, CHR 0x80, CHR 0x87], [CHR 0xE2, CHR 0x80, CHR 0x88],
      [CHR 0xE2, CHR 0x80, CHR 0x89], [CHR 0xE2, CHR 0x80, CHR 0x8A], [CHR 0xE2, CHR 0x80, CHR 0xA8],
      [CHR 0xE2, CHR 0x80, CHR 0xA9], [CHR 0xE2, CHR 0x80, CHR 0xAF], [CHR 0xE2, CHR 0x81, CHR 0x9F],
      [CHR 0xE3, CHR 0x80, CHR 0x80]]"

definition leading_code :: "string list \<Rightarrow> string \<Rightarrow> string option" where
  "leading_code codes s = find (\<lambda>w. w \<noteq> [] \<and> has_prefix s w) codes"

lemma leading_code_shorter:
  assumes "leading_code codes s = Some w"
  shows "length (drop (length w) s) < length s"
proof -
  from assms have "w \<noteq> []" and "take (length w) s = w"
    by (auto simp: leading_code_def has_prefix_def find_Some_iff)
  then have "s \<noteq> []" by auto
  with \<open>w \<noteq> []\<close> show ?thesis by simp
qed

function strip :: "string list \<Rightarrow> string \<Rightarrow> string" where
  "strip codes s =
     (case leading_code codes s of None \<Rightarrow> s | Some w \<Rightarrow> strip codes (drop (length w) s))"
  by pat_completeness auto
termination
  by (relation "measure (\<lambda>(codes, s). length s)") (use leading_code_shorter in auto)

declare strip.simps [simp del]

definition trim_left :: "string \<Rightarrow> string" where
  "trim_left s = strip space_codes s"

definition trim_right :: "string \<Rightarrow> string" where
  "trim_right s = rev (strip (map rev space_codes) (rev s))"

definition trim_space :: "string \<Rightarrow> string" where
  "trim_space s = trim_right (trim_left s)"

lemma strip_no_leading: "leading_code codes (strip codes s) = None"
proof (induction codes s rule: strip.induct)
  case (1 codes s)
  then show ?case
    by (subst strip.simps) (simp split: option.splits)
qed

lemma strip_idem: "strip codes (strip codes s) = strip codes s"
  by (subst strip.simps) (simp add: strip_no_leading)

lemma strip_length: "length (strip codes s) \<le> length s"
proof (induction codes s rule: strip.induct)
  case (1 codes s)
  then show ?case
    by (subst strip.simps) (fastforce split: option.splits)
qed

lemma strip_id: "leading_code codes s = None \<Longrightarrow> strip codes s = s"
  by (simp add: strip.simps)

lemma trim_right_idem: "trim_right (trim_right s) = trim_right s"
  by (simp add: trim_right_def strip_idem)

lemma trim_space_Nil [simp]: "trim_space [] = []"
  by (simp add: trim_space_def trim_left_def trim_right_def strip_id leading_code_def
      has_prefix_def find_None_iff)

section \<open>Tables\<close>

text \<open>
  A Go map with string keys is an association list with one row per key, so that the code's
  loops over a map are loops over the rows. Go visits the rows in an unspecified order; every
  fact about such a loop is about the set of rows it collects.
\<close>

type_synonym 'a table = "(string \<times> 'a) list"

definition table_inv :: "'a table \<Rightarrow> bool" where
  "table_inv t \<longleftrightarrow> distinct (map fst t)"

abbreviation get_row :: "'a table \<Rightarrow> string \<Rightarrow> 'a option" where
  "get_row \<equiv> map_of"

abbreviation put_row :: "string \<Rightarrow> 'a \<Rightarrow> 'a table \<Rightarrow> 'a table" where
  "put_row \<equiv> AList.update"

abbreviation delete_row :: "string \<Rightarrow> 'a table \<Rightarrow> 'a table" where
  "delete_row \<equiv> AList.delete"

text \<open>Reading an absent key of a Go map gives the zero value of its element type.\<close>

definition row_or :: "'a \<Rightarrow> 'a table \<Rightarrow> string \<Rightarrow> 'a" where
  "row_or z t k = (case get_row t k of None \<Rightarrow> z | Some v \<Rightarrow> v)"

text \<open>The values of a table, one per key.\<close>

definition rows :: "'a table \<Rightarrow> 'a list" where
  "rows t = map snd t"

lemma get_put [table_simps, simp]: "get_row (put_row k v t) k' = (if k' = k then Some v else get_row t k')"
  by (simp add: update_conv')

lemma get_delete [table_simps, simp]: "get_row (delete_row k t) k' = (if k' = k then None else get_row t k')"
  by (simp add: AList.delete_conv')

lemma row_or_put [table_simps, simp]: "row_or z (put_row k v t) k' = (if k' = k then v else row_or z t k')"
  by (simp add: row_or_def)

lemma table_inv_put [table_simps, simp]: "table_inv t \<Longrightarrow> table_inv (put_row k v t)"
  by (simp add: table_inv_def distinct_update)

lemma table_inv_delete [table_simps, simp]: "table_inv t \<Longrightarrow> table_inv (delete_row k t)"
  by (simp add: table_inv_def distinct_delete)

lemma table_inv_Nil [table_simps, simp]: "table_inv []"
  by (simp add: table_inv_def)

lemma table_inv_filter [table_simps]: "table_inv t \<Longrightarrow> table_inv (filter P t)"
  by (simp add: table_inv_def distinct_map_filter)

lemma get_row_filter:
  "table_inv t \<Longrightarrow>
   get_row (filter (\<lambda>(k, v). P k v) t) k = (case get_row t k of None \<Rightarrow> None | Some v \<Rightarrow> if P k v then Some v else None)"
proof (induction t)
  case (Cons kv t)
  obtain k' v' where kv: "kv = (k', v')" by force
  from Cons.prems have "get_row t k' = None"
    by (auto simp: table_inv_def kv map_of_eq_None_iff)
  with Cons show ?case
    by (auto simp: kv table_inv_def)
qed simp

lemma set_rows: "table_inv t \<Longrightarrow> v \<in> set (rows t) \<longleftrightarrow> (\<exists>k. get_row t k = Some v)"
  by (force simp: rows_def table_inv_def dest: map_of_SomeD)

text \<open>A table every row of which satisfies \<open>P\<close>.\<close>

definition table_all :: "(string \<Rightarrow> 'a \<Rightarrow> bool) \<Rightarrow> 'a table \<Rightarrow> bool" where
  "table_all P t \<longleftrightarrow> table_inv t \<and> (\<forall>k v. get_row t k = Some v \<longrightarrow> P k v)"

lemma table_allD: "table_all P t \<Longrightarrow> get_row t k = Some v \<Longrightarrow> P k v"
  by (simp add: table_all_def)

lemma table_all_inv: "table_all P t \<Longrightarrow> table_inv t"
  by (simp add: table_all_def)

lemma table_all_Nil [table_simps, simp]: "table_all P []"
  by (simp add: table_all_def)

lemma table_all_put [table_simps, simp]: "table_all P t \<Longrightarrow> P k v \<Longrightarrow> table_all P (put_row k v t)"
  by (simp add: table_all_def)

lemma table_all_delete [table_simps, simp]: "table_all P t \<Longrightarrow> table_all P (delete_row k t)"
  by (simp add: table_all_def)

lemma table_all_filter [table_simps]: "table_all P t \<Longrightarrow> table_all P (filter (\<lambda>(k, v). Q k v) t)"
  by (auto simp: table_all_def table_inv_filter get_row_filter split: option.split_asm if_split_asm)

lemma table_all_row_or: "table_all P t \<Longrightarrow> P k z \<Longrightarrow> P k (row_or z t k)"
  by (cases "get_row t k") (simp_all add: row_or_def table_allD)

end
