(* ===== verification/Booking.thy ===== *)
theory Booking
  imports Prelude
begin

text \<open>
  The scheduling concepts of \<open>internal/domain/booking\<close>: services, staff, slots, bookings, the
  request that creates one, the draft a customer is shown before confirming, and the draft of a
  cancellation or a move. A service carries its rendered price label: the source renders it
  from two floating-point prices, which are quoted and never computed with. The validators return the first failing check, as the source's \<open>switch\<close> does; the
  lemmas characterise success, so a proof about a workflow never opens them.
\<close>

section \<open>Data\<close>

record service =
  sv_id :: string
  sv_name :: string
  sv_category :: string
  sv_description :: string
  sv_duration :: duration
  sv_price_label :: string

record staff =
  st_id :: string
  st_name :: string
  st_specialisation :: string
  st_bookable :: bool

record slot =
  sl_start :: time
  sl_duration :: duration
  sl_staff_id :: string

datatype status = StatusConfirmed | StatusCancelled | StatusOther string

record booking =
  bk_id :: string
  bk_external_id :: string
  bk_management_token :: string
  bk_customer_id :: string
  bk_service_ids :: "string list"
  bk_staff_id :: string
  bk_customer_name :: string
  bk_service_names :: "string list"
  bk_staff_name :: string
  bk_starts_at :: time
  bk_duration :: duration
  bk_status :: status
  bk_attended :: bool
  bk_no_show :: bool
  bk_treatment_duration :: duration
  bk_created_at :: time

record request =
  rq_idempotency_key :: string
  rq_customer_id :: string
  rq_customer_name :: string
  rq_phone :: string
  rq_email :: string
  rq_service_ids :: "string list"
  rq_staff_id :: string
  rq_starts_at :: time
  rq_duration :: duration
  rq_comment :: string

record selection =
  se_service_ids :: "string list"
  se_staff_id :: string
  se_starts_at :: time
  se_duration :: duration

record draft =
  dr_idempotency_key :: string
  dr_service_ids :: "string list"
  dr_service_names :: "string list"
  dr_price_label :: string
  dr_staff_id :: string
  dr_staff_name :: string
  dr_starts_at :: time
  dr_duration :: duration
  dr_phone :: string
  dr_customer_name :: string
  dr_awaiting_phone_verification :: bool
  dr_prepared_at :: time
  dr_prepared_from :: string

datatype change_kind = ChangeCancel | ChangeReschedule | ChangeOther string

record change_draft =
  cd_kind :: change_kind
  cd_reference :: string
  cd_new_start :: time
  cd_prepared_at :: time
  cd_prepared_from :: string

section \<open>Operations\<close>

definition slot_end :: "slot \<Rightarrow> time" where
  "slot_end s = sl_start s + sl_duration s"

definition booking_ends_at :: "booking \<Rightarrow> time" where
  "booking_ends_at b = bk_starts_at b + bk_duration b"

definition calendar_duration :: "booking \<Rightarrow> duration" where
  "calendar_duration b =
     (if bk_treatment_duration b > 0 \<and> bk_treatment_duration b \<le> bk_duration b
      then bk_treatment_duration b else bk_duration b)"

definition request_selection :: "request \<Rightarrow> selection" where
  "request_selection r =
     \<lparr>se_service_ids = rq_service_ids r, se_staff_id = rq_staff_id r,
      se_starts_at = rq_starts_at r, se_duration = rq_duration r\<rparr>"

definition request_validate :: "request \<Rightarrow> time \<Rightarrow> go_error option" where
  "request_validate r now =
     (if rq_idempotency_key r = [] then Some (wrapping BookingRejected ''idempotency key is empty'')
      else if rq_customer_id r = [] then Some (wrapping BookingRejected ''customer is empty'')
      else if rq_phone r = [] then Some (wrapping BookingRejected ''phone number is empty'')
      else if length (rq_service_ids r) = 0 then Some (wrapping BookingRejected ''no service chosen'')
      else if rq_staff_id r = [] then Some (wrapping BookingRejected ''no staff member chosen'')
      else if is_zero (rq_starts_at r) then Some (wrapping BookingRejected ''no start time chosen'')
      else if rq_duration r \<le> 0 then Some (wrapping BookingRejected ''appointment duration is not positive'')
      else if \<not> after (rq_starts_at r) now then Some (wrapping BookingRejected ''start time is not in the future'')
      else None)"

definition max_draft_age :: duration where
  "max_draft_age = hour"

definition draft_expired :: "draft \<Rightarrow> time \<Rightarrow> bool" where
  "draft_expired d now \<longleftrightarrow> max_draft_age < time_sub now (dr_prepared_at d)"

definition draft_ends_at :: "draft \<Rightarrow> time" where
  "draft_ends_at d = dr_starts_at d + dr_duration d"

definition draft_validate :: "draft \<Rightarrow> time \<Rightarrow> go_error option" where
  "draft_validate d now =
     (if dr_idempotency_key d = [] then Some (wrapping BookingRejected ''the draft has no idempotency key'')
      else if length (dr_service_ids d) = 0 then Some (wrapping BookingRejected ''the draft names no service'')
      else if dr_staff_id d = [] then Some (wrapping BookingRejected ''the draft names no specialist'')
      else if dr_phone d = [] then Some (wrapping BookingRejected ''the draft has no phone number'')
      else if is_zero (dr_starts_at d) then Some (wrapping BookingRejected ''the draft has no start time'')
      else if dr_duration d \<le> 0 then Some (wrapping BookingRejected ''the draft has no appointment duration'')
      else if dr_prepared_from d = [] then Some (wrapping BookingRejected ''the draft is not tied to a customer message'')
      else if draft_expired d now then Some (wrapping BookingRejected ''the draft was prepared too long ago'')
      else if \<not> after (dr_starts_at d) now then Some (wrapping BookingRejected ''the appointment time has passed'')
      else None)"

definition draft_to_request :: "draft \<Rightarrow> string \<Rightarrow> request" where
  "draft_to_request d customer_id =
     \<lparr>rq_idempotency_key = dr_idempotency_key d, rq_customer_id = customer_id,
      rq_customer_name = dr_customer_name d, rq_phone = dr_phone d, rq_email = [],
      rq_service_ids = dr_service_ids d, rq_staff_id = dr_staff_id d,
      rq_starts_at = dr_starts_at d, rq_duration = dr_duration d, rq_comment = []\<rparr>"

definition draft_selection :: "draft \<Rightarrow> selection" where
  "draft_selection d =
     \<lparr>se_service_ids = dr_service_ids d, se_staff_id = dr_staff_id d,
      se_starts_at = dr_starts_at d, se_duration = dr_duration d\<rparr>"

definition max_change_draft_age :: duration where
  "max_change_draft_age = hour"

definition change_validate :: "change_draft \<Rightarrow> change_kind \<Rightarrow> time \<Rightarrow> go_error option" where
  "change_validate d expected now =
     (if cd_kind d \<noteq> expected then Some (wrapping BookingRejected ''prepared change is of another kind'')
      else if cd_reference d = [] then Some (wrapping BookingRejected ''prepared change has no appointment reference'')
      else if is_zero (cd_prepared_at d) then Some (wrapping BookingRejected ''prepared change has no preparation time'')
      else if cd_prepared_from d = [] then Some (wrapping BookingRejected ''prepared change is not tied to a customer message'')
      else if max_change_draft_age < time_sub now (cd_prepared_at d) then Some (wrapping BookingRejected ''prepared change is too old'')
      else if expected = ChangeReschedule \<and> \<not> after (cd_new_start d) now then Some (wrapping BookingRejected ''new appointment time has passed'')
      else None)"

section \<open>What validation guarantees\<close>

lemma hour_bounds: "min_duration \<le> hour" "hour < max_duration" "0 < hour"
  by (simp_all add: duration_defs min_duration_def max_duration_def)

lemma draft_expired_iff: "draft_expired d now \<longleftrightarrow> hour < now - dr_prepared_at d"
  by (simp add: draft_expired_def max_draft_age_def time_sub_gt_iff hour_bounds)

lemma draft_validate_None:
  "draft_validate d now = None \<longleftrightarrow>
     dr_idempotency_key d \<noteq> [] \<and> dr_service_ids d \<noteq> [] \<and> dr_staff_id d \<noteq> [] \<and> dr_phone d \<noteq> [] \<and>
     dr_starts_at d \<noteq> 0 \<and> 0 < dr_duration d \<and> dr_prepared_from d \<noteq> [] \<and>
     now - dr_prepared_at d \<le> hour \<and> now < dr_starts_at d"
  by (auto simp: draft_validate_def draft_expired_iff time_defs split: if_splits)

lemma draft_validate_rejects: "draft_validate d now = Some e \<Longrightarrow> errors_is e BookingRejected"
  by (auto simp: draft_validate_def split: if_splits)

lemma request_validate_None:
  "request_validate r now = None \<longleftrightarrow>
     rq_idempotency_key r \<noteq> [] \<and> rq_customer_id r \<noteq> [] \<and> rq_phone r \<noteq> [] \<and> rq_service_ids r \<noteq> [] \<and>
     rq_staff_id r \<noteq> [] \<and> rq_starts_at r \<noteq> 0 \<and> 0 < rq_duration r \<and> now < rq_starts_at r"
  by (auto simp: request_validate_def time_defs split: if_splits)

lemma change_validate_None:
  "change_validate d expected now = None \<longleftrightarrow>
     cd_kind d = expected \<and> cd_reference d \<noteq> [] \<and> cd_prepared_at d \<noteq> 0 \<and> cd_prepared_from d \<noteq> [] \<and>
     now - cd_prepared_at d \<le> hour \<and> (expected = ChangeReschedule \<longrightarrow> now < cd_new_start d)"
  by (auto simp: change_validate_def max_change_draft_age_def time_sub_gt_iff hour_bounds time_defs
      not_less split: if_splits)

lemma change_validate_rejects: "change_validate d k now = Some e \<Longrightarrow> errors_is e BookingRejected"
  by (auto simp: change_validate_def split: if_splits)

lemma request_selection_of_draft:
  "request_selection (draft_to_request d c) = draft_selection d"
  by (simp add: request_selection_def draft_to_request_def draft_selection_def)

lemma calendar_duration_bounds:
  "0 < bk_duration b \<Longrightarrow> 0 < calendar_duration b \<and> calendar_duration b \<le> bk_duration b"
  by (simp add: calendar_duration_def)

end
