(* ===== verification/Messaging.thy ===== *)
theory Messaging
  imports Prelude
begin

text \<open>
  Channel-independent messages (\<open>internal/domain/messaging\<close>): inbound envelopes and their
  deduplication key, outgoing messages with their choices and links, channel health, and the
  errors that end a delivery for good. Providers and content types are Go strings with named
  constants; the key of a delivery is built from the provider's text.
\<close>

section \<open>Data\<close>

type_synonym provider = string
type_synonym content_type = string

abbreviation ProviderTelegram :: provider where "ProviderTelegram \<equiv> ''telegram''"
abbreviation ProviderWhatsApp :: provider where "ProviderWhatsApp \<equiv> ''whatsapp''"
abbreviation ProviderInstagram :: provider where "ProviderInstagram \<equiv> ''instagram''"
abbreviation ProviderMessenger :: provider where "ProviderMessenger \<equiv> ''messenger''"
abbreviation ProviderViber :: provider where "ProviderViber \<equiv> ''viber''"

abbreviation ContentTypeText :: content_type where "ContentTypeText \<equiv> ''text''"
abbreviation ContentTypeAudio :: content_type where "ContentTypeAudio \<equiv> ''audio''"
abbreviation ContentTypeUnsupported :: content_type where "ContentTypeUnsupported \<equiv> ''unsupported''"

record audio =
  au_reference :: string
  au_mime_type :: string
  au_filename :: string
  au_size_bytes :: int
  au_duration_seconds :: int

record content =
  co_type :: content_type
  co_text :: string
  co_audio :: "audio option"
  co_description :: string

record sender =
  sn_display_name :: string
  sn_language :: string
  sn_username :: string

record envelope =
  en_provider :: provider
  en_message_id :: string
  en_choice_message_id :: string
  en_user_id :: string
  en_thread_id :: string
  en_sent_at :: time
  en_received_at :: time
  en_sender :: sender
  en_content :: content

record choice =
  ch_label :: string

record link =
  lk_label :: string
  lk_url :: string

record outgoing =
  og_request_own_contact :: bool
  og_choice_token :: string
  og_provider :: provider
  og_thread_id :: string
  og_text :: string
  og_choices :: "choice list"
  og_links :: "link list"

record external_reply =
  er_provider :: provider
  er_message_id :: string
  er_thread_id :: string
  er_content :: content
  er_sent_at :: time
  er_received_at :: time

record channel_health =
  hl_known :: bool
  hl_blocked :: bool
  hl_proactive_paused :: bool
  hl_templates_known :: bool
  hl_templates :: "bool table"
  hl_checked_at :: time

definition zero_health :: channel_health where
  "zero_health = \<lparr>hl_known = False, hl_blocked = False, hl_proactive_paused = False,
     hl_templates_known = False, hl_templates = [], hl_checked_at = zero_time\<rparr>"

section \<open>Operations\<close>

definition envelope_validate :: "envelope \<Rightarrow> go_error option" where
  "envelope_validate e =
     (if en_provider e = [] then Some (wrapping InvalidEnvelope ''provider is empty'')
      else if en_message_id e = [] then Some (wrapping InvalidEnvelope ''external message id is empty'')
      else if en_user_id e = [] then Some (wrapping InvalidEnvelope ''external user id is empty'')
      else if en_thread_id e = [] then Some (wrapping InvalidEnvelope ''external thread id is empty'')
      else if co_type (en_content e) = [] then Some (wrapping InvalidEnvelope ''content type is empty'')
      else None)"

definition dedupe_key :: "envelope \<Rightarrow> string" where
  "dedupe_key e =
     (if en_provider e = ProviderTelegram
      then en_provider e @ '':'' @ en_thread_id e @ '':'' @ en_message_id e
      else en_provider e @ '':'' @ en_message_id e)"

definition max_choices :: nat where
  "max_choices = 100"

fun keep_choices :: "choice list \<Rightarrow> choice list \<Rightarrow> choice list" where
  "keep_choices [] kept = kept"
| "keep_choices (c # cs) kept =
     (let label = trim_space (ch_label c) in
      if label = [] then keep_choices cs kept
      else if label \<in> set (map ch_label kept) then keep_choices cs kept
      else let kept' = kept @ [\<lparr>ch_label = label\<rparr>] in
        if length kept' = max_choices then kept' else keep_choices cs kept')"

definition with_choices :: "outgoing \<Rightarrow> choice list \<Rightarrow> outgoing" where
  "with_choices out cs = out\<lparr>og_choices := keep_choices cs []\<rparr>"

text \<open>
  The scheme test lowers the URL first. No code point outside ASCII has a lower case in the
  scheme's text, so lowering ASCII letters decides the same test.
\<close>

definition ascii_lower :: "string \<Rightarrow> string" where
  "ascii_lower = map (\<lambda>c. if 65 \<le> (of_char c :: nat) \<and> (of_char c :: nat) \<le> 90 then char_of (of_char c + 32 :: nat) else c)"

fun keep_links :: "link list \<Rightarrow> link list \<Rightarrow> link list" where
  "keep_links [] kept = kept"
| "keep_links (l # ls) kept =
     (let label = trim_space (lk_label l); url = trim_space (lk_url l) in
      if label = [] \<or> \<not> has_prefix (ascii_lower url) ''https://'' \<or> url \<in> set (map lk_url kept)
      then keep_links ls kept
      else let kept' = kept @ [\<lparr>lk_label = label, lk_url = url\<rparr>] in
        if length kept' = 100 then kept' else keep_links ls kept')"

definition with_links :: "outgoing \<Rightarrow> link list \<Rightarrow> outgoing" where
  "with_links out ls = out\<lparr>og_links := keep_links ls []\<rparr>"

definition outgoing_validate :: "outgoing \<Rightarrow> go_error option" where
  "outgoing_validate out =
     (if og_provider out = [] then Some (wrapping InvalidEnvelope ''provider is empty'')
      else if og_thread_id out = [] then Some (wrapping InvalidEnvelope ''external thread id is empty'')
      else if og_text out = [] then Some (wrapping InvalidEnvelope ''text is empty'')
      else None)"

definition plain_message :: "provider \<Rightarrow> string \<Rightarrow> string \<Rightarrow> outgoing" where
  "plain_message p thread txt =
     \<lparr>og_request_own_contact = False, og_choice_token = [], og_provider = p,
      og_thread_id = thread, og_text = txt, og_choices = [], og_links = []\<rparr>"

definition envelope_reply :: "envelope \<Rightarrow> string \<Rightarrow> outgoing" where
  "envelope_reply e txt = plain_message (en_provider e) (en_thread_id e) txt"

definition external_reply_validate :: "external_reply \<Rightarrow> go_error option" where
  "external_reply_validate r =
     (let valid_provider = er_provider r = ProviderWhatsApp \<or> er_provider r = ProviderInstagram \<or>
        er_provider r = ProviderMessenger \<or> er_provider r = ProviderTelegram in
      if \<not> valid_provider \<or> er_message_id r = [] \<or> er_thread_id r = [] \<or> co_type (er_content r) = [] \<or>
         is_zero (er_sent_at r) \<or> is_zero (er_received_at r)
      then Some (wrapping InvalidEnvelope ''invalid external staff reply'') else None)"

definition health_allows :: "channel_health \<Rightarrow> string \<Rightarrow> string \<Rightarrow> bool" where
  "health_allows h template language =
     (if hl_blocked h then False
      else if template = [] then True
      else if hl_proactive_paused h then False
      else (case get_row (hl_templates h) (template @ '':'' @ language) of
        None \<Rightarrow> True | Some approved \<Rightarrow> approved))"

definition terminal_delivery :: "go_error option \<Rightarrow> bool" where
  "terminal_delivery err =
     (case err of None \<Rightarrow> False
      | Some e \<Rightarrow> errors_is e DeliveryUncertain \<or> errors_is e DeliveryRejected)"

section \<open>Choices and links\<close>

definition good_choices :: "choice list \<Rightarrow> bool" where
  "good_choices cs \<longleftrightarrow> distinct (map ch_label cs) \<and> [] \<notin> set (map ch_label cs) \<and> length cs \<le> max_choices"

lemma keep_choices_good:
  assumes "good_choices kept" "length kept < max_choices"
  shows "good_choices (keep_choices cs kept)"
  using assms
proof (induction cs kept rule: keep_choices.induct)
  case (2 c cs kept)
  let ?l = "trim_space (ch_label c)"
  show ?case
  proof (cases "?l = [] \<or> ?l \<in> set (map ch_label kept)")
    case True
    with 2 show ?thesis by (auto simp: Let_def)
  next
    case False
    with "2.prems" have "good_choices (kept @ [\<lparr>ch_label = ?l\<rparr>])"
      by (auto simp: good_choices_def)
    with False 2 show ?thesis by (simp add: Let_def)
  qed
qed simp

lemma keep_choices_from:
  "c \<in> set (keep_choices cs kept) \<Longrightarrow> c \<in> set kept \<or> ch_label c \<in> (trim_space \<circ> ch_label) ` set cs"
  by (induction cs kept rule: keep_choices.induct) (auto simp: Let_def split: if_splits)

lemma keep_choices_keeps: "set kept \<subseteq> set (keep_choices cs kept)"
  by (induction cs kept rule: keep_choices.induct) (auto simp: Let_def)

lemma keep_choices_complete:
  assumes "length (keep_choices cs kept) < max_choices" "c \<in> set cs" "trim_space (ch_label c) \<noteq> []"
  shows "trim_space (ch_label c) \<in> ch_label ` set (keep_choices cs kept)"
  using assms
proof (induction cs kept rule: keep_choices.induct)
  case (2 c' cs kept)
  let ?l = "trim_space (ch_label c')" and ?kept = "kept @ [\<lparr>ch_label = trim_space (ch_label c')\<rparr>]"
  show ?case
  proof (cases "?l = [] \<or> ?l \<in> set (map ch_label kept)")
    case True
    then have eq: "keep_choices (c' # cs) kept = keep_choices cs kept" by (auto simp: Let_def)
    show ?thesis
    proof (cases "c = c'")
      case True
      with \<open>?l = [] \<or> ?l \<in> set (map ch_label kept)\<close> "2.prems"(3) have "?l \<in> ch_label ` set kept"
        by auto
      with True eq show ?thesis using keep_choices_keeps [of kept cs] by auto
    next
      case False
      with "2.prems" have "c \<in> set cs" by simp
      with "2.IH"(1,2) True eq "2.prems" show ?thesis by (cases "?l = []") simp_all
    qed
  next
    case False
    with "2.prems"(1) have short: "length ?kept \<noteq> max_choices"
      and eq: "keep_choices (c' # cs) kept = keep_choices cs ?kept"
      by (auto simp: Let_def split: if_splits)
    show ?thesis
    proof (cases "c = c'")
      case True
      then show ?thesis unfolding eq using keep_choices_keeps [of ?kept cs] by force
    next
      case neq: False
      with "2.prems" have "c \<in> set cs" by simp
      with "2.IH"(3) False short "2.prems"(1,3) show ?thesis unfolding eq by simp
    qed
  qed
qed simp

definition good_links :: "link list \<Rightarrow> bool" where
  "good_links ls \<longleftrightarrow> distinct (map lk_url ls) \<and> length ls \<le> 100 \<and>
     list_all (\<lambda>l. lk_label l \<noteq> [] \<and> has_prefix (ascii_lower (lk_url l)) ''https://'') ls"

lemma keep_links_good:
  assumes "good_links kept" "length kept < 100"
  shows "good_links (keep_links ls kept)"
  using assms
proof (induction ls kept rule: keep_links.induct)
  case (2 l ls kept)
  let ?label = "trim_space (lk_label l)" and ?url = "trim_space (lk_url l)"
  show ?case
  proof (cases "?label = [] \<or> \<not> has_prefix (ascii_lower ?url) ''https://'' \<or> ?url \<in> set (map lk_url kept)")
    case True
    with 2 show ?thesis by (simp add: Let_def)
  next
    case False
    with "2.prems" have "good_links (kept @ [\<lparr>lk_label = ?label, lk_url = ?url\<rparr>])"
      by (auto simp: good_links_def)
    with False 2 show ?thesis by (simp add: Let_def)
  qed
qed simp

section \<open>Deduplication keys\<close>

lemma append_colon_inj:
  assumes "CHR '':'' \<notin> set a" "CHR '':'' \<notin> set c" "a @ '':'' @ b = c @ '':'' @ d"
  shows "a = c \<and> b = d"
  using assms
proof (induction a arbitrary: c)
  case Nil
  then show ?case by (cases c) auto
next
  case (Cons x a)
  then show ?case by (cases c) auto
qed

end
