(* ===== verification/Customer.thy ===== *)
theory Customer
  imports Messaging
begin

text \<open>
  Customers and their channel identities (\<open>internal/domain/customer\<close>), and the normalisation of
  phone numbers. Parsing, validating and formatting a number belong to the \<open>phonenumbers\<close>
  package: one parameter \<open>lib\<close> stands for the three calls on one input, \<open>None\<close> where the number
  is not valid and the E.164 text otherwise. The SHA-256 of a phone, in hexadecimal, is the
  parameter \<open>sha\<close>.
\<close>

section \<open>Data\<close>

record customer =
  cu_id :: string
  cu_name :: string
  cu_phone :: string
  cu_verified_phone :: string
  cu_created_at :: time
  cu_updated_at :: time

record channel_identity =
  ci_id :: string
  ci_customer_id :: string
  ci_provider :: provider
  ci_user_id :: string
  ci_display_name :: string
  ci_language :: string
  ci_created_at :: time

definition zero_customer :: customer where
  "zero_customer = \<lparr>cu_id = [], cu_name = [], cu_phone = [], cu_verified_phone = [],
     cu_created_at = zero_time, cu_updated_at = zero_time\<rparr>"

definition profile_id :: "(string \<Rightarrow> string) \<Rightarrow> string \<Rightarrow> string" where
  "profile_id sha phone = ''verified_phone_'' @ sha phone"

definition identity_key :: "channel_identity \<Rightarrow> string" where
  "identity_key c = ci_provider c @ '':'' @ ci_user_id c"

definition identity_validate :: "channel_identity \<Rightarrow> go_error option" where
  "identity_validate c =
     (if ci_customer_id c = [] then Some (errors_new ''channel identity: customer id is empty'')
      else if ci_provider c = [] then Some (errors_new ''channel identity: provider is empty'')
      else if ci_user_id c = [] then Some (errors_new ''channel identity: external user id is empty'')
      else None)"

section \<open>Phone numbers\<close>

definition is_digit :: "char \<Rightarrow> bool" where
  "is_digit c \<longleftrightarrow> c \<in> set ''0123456789''"

text \<open>
  The loop over the runes of the trimmed text: digits are kept, so is a \<open>+\<close> at byte 0, spaces
  (in any encoding) and \<open>( ) - .\<close> are dropped, and anything else refuses the text.
\<close>

function scan_phone :: "bool \<Rightarrow> string \<Rightarrow> string option" where
  "scan_phone at_start s =
     (case s of [] \<Rightarrow> Some []
      | c # s' \<Rightarrow>
        if is_digit c then map_option (Cons c) (scan_phone False s')
        else if c = CHR ''+'' \<and> at_start then map_option (Cons c) (scan_phone False s')
        else (case leading_code space_codes s of
            Some w \<Rightarrow> scan_phone False (drop (length w) s)
          | None \<Rightarrow> if c \<in> set ''()-.'' then scan_phone False s' else None))"
  by pat_completeness auto
termination
  by (relation "measure (\<lambda>(b, s). length s)") (use leading_code_shorter in force)+

declare scan_phone.simps [simp del]

definition international :: "string \<Rightarrow> string" where
  "international input =
     (let input = (if has_prefix input ''00'' then ''+'' @ drop 2 input else input) in
      if has_prefix input ''374'' \<and> length input = 11 then ''+'' @ input else input)"

definition is_national :: "string \<Rightarrow> bool" where
  "is_national input \<longleftrightarrow>
     length input = 8 \<or> (length input = 9 \<and> has_prefix input ''0'')"

definition normalize_phone :: "(string \<Rightarrow> string option) \<Rightarrow> string \<Rightarrow> string result" where
  "normalize_phone lib raw =
     (case scan_phone True (trim_space raw) of
        None \<Rightarrow> Inl (errors_new ''not a phone number'')
      | Some digits \<Rightarrow>
        let input = international digits in
        if \<not> has_prefix input ''+'' \<and> \<not> is_national input
        then Inl (errors_new ''not a usable phone number'')
        else (case lib input of
            None \<Rightarrow> Inl (errors_new ''that phone number is not valid'')
          | Some e164 \<Rightarrow> Inr e164))"

text \<open>
  What the code relies on: a formatted number is a \<open>+\<close> and digits, and parsing, validating and
  formatting it again gives it back (E.164 is the package's canonical form).
\<close>

definition e164_canonical :: "(string \<Rightarrow> string option) \<Rightarrow> bool" where
  "e164_canonical lib \<longleftrightarrow>
     (\<forall>i e. lib i = Some e \<longrightarrow> (\<exists>ds. e = CHR ''+'' # ds \<and> list_all is_digit ds) \<and> lib e = Some e)"

lemma scan_phone_Nil [simp]: "scan_phone b [] = Some []"
  by (subst scan_phone.simps) simp

lemma scan_phone_digit [simp]: "is_digit c \<Longrightarrow> scan_phone b (c # s) = map_option (Cons c) (scan_phone False s)"
  by (subst scan_phone.simps) simp

lemma scan_phone_plus [simp]: "scan_phone True (CHR ''+'' # s) = map_option (Cons CHR ''+'') (scan_phone False s)"
  by (subst scan_phone.simps) simp

lemma scan_digits: "list_all is_digit s \<Longrightarrow> scan_phone b s = Some s"
  by (induction s arbitrary: b) simp_all

lemma leading_code_head: "c \<notin> hd ` set codes \<Longrightarrow> leading_code codes (c # s) = None"
  by (force simp: leading_code_def find_None_iff has_prefix_def neq_Nil_conv)

lemma phone_char_no_space:
  assumes "is_digit c \<or> c = CHR ''+''"
  shows "c \<notin> hd ` set space_codes" "c \<notin> hd ` set (map rev space_codes)"
proof -
  have all: "\<forall>c \<in> set ''+0123456789''. c \<notin> hd ` set space_codes \<and> c \<notin> hd ` set (map rev space_codes)"
    by (simp add: space_codes_def)
  from assms have "c \<in> set ''+0123456789''" by (auto simp: is_digit_def)
  from bspec [OF all this] show "c \<notin> hd ` set space_codes" "c \<notin> hd ` set (map rev space_codes)"
    by blast+
qed

lemmas leading_code_phone = phone_char_no_space(1) [THEN leading_code_head]
lemmas trailing_code_phone = phone_char_no_space(2) [THEN leading_code_head]

lemma trim_e164:
  assumes "list_all is_digit ds"
  shows "trim_space (CHR ''+'' # ds) = CHR ''+'' # ds"
proof -
  have left: "trim_left (CHR ''+'' # ds) = CHR ''+'' # ds"
    by (simp add: trim_left_def strip_id leading_code_phone)
  have "leading_code (map rev space_codes) (rev (CHR ''+'' # ds)) = None"
  proof (cases "rev (CHR ''+'' # ds)")
    case (Cons c s)
    then have "c \<in> set (CHR ''+'' # ds)" by (metis list.set_intros(1) set_rev)
    with assms have "is_digit c \<or> c = CHR ''+''" by (auto simp: list_all_iff)
    then show ?thesis unfolding Cons by (rule trailing_code_phone)
  qed simp
  from strip_id [OF this] show ?thesis
    by (simp only: trim_space_def left trim_right_def rev_rev_ident)
qed

lemma international_e164: "international (CHR ''+'' # ds) = CHR ''+'' # ds"
  by (simp add: international_def has_prefix_def)

lemma normalize_phone_canonical:
  assumes "e164_canonical lib" "normalize_phone lib raw = Inr p"
  shows "(\<exists>ds. p = CHR ''+'' # ds \<and> list_all is_digit ds) \<and> lib p = Some p"
  using assms
  by (fastforce simp: normalize_phone_def e164_canonical_def Let_def split: option.splits if_splits)

lemma normalize_phone_idem:
  assumes "e164_canonical lib" "normalize_phone lib raw = Inr p"
  shows "normalize_phone lib p = Inr p"
proof -
  from normalize_phone_canonical [OF assms] obtain ds
    where p: "p = CHR ''+'' # ds" "list_all is_digit ds" and lib: "lib p = Some p" by blast
  then show ?thesis
    by (simp add: normalize_phone_def trim_e164 scan_digits international_e164 has_prefix_def)
qed

end
