(* ===== verification/Conversation.thy ===== *)
theory Conversation
  imports Booking Messaging
begin

text \<open>
  One exchange with one customer on one channel (\<open>internal/domain/conversation\<close>): who is
  answering it, the transitions between those states, the takeover by a staff reply sent outside
  the bot, and the resolution of a numbered answer. Unicode case folding (\<open>strings.EqualFold\<close>) is
  the parameter \<open>fold_eq\<close>. The whole life of a conversation is the step relation \<open>conv_step\<close>.

  A delayed notification tied to one version of an appointment (\<open>internal/domain/reminder\<close>): its
  record, its validation and the states in which another task has nothing left to do.
\<close>

section \<open>Data\<close>

datatype conv_state =
  StateAssistantActive | StateHumanRequested | StateHumanActive | StateClosed | StateOther string

record conversation =
  cv_preferred_language :: string
  cv_id :: string
  cv_customer_id :: string
  cv_provider :: provider
  cv_thread_id :: string
  cv_state :: conv_state
  cv_revision :: int
  cv_resumed_at :: time
  cv_draft :: "draft option"
  cv_handoff_at :: time
  cv_change :: "change_draft option"
  cv_created_at :: time
  cv_updated_at :: time
  cv_last_message_at :: time
  cv_last_choice :: string
  cv_pending_choice :: string
  cv_pending_event :: string
  cv_presented :: "string list"
  cv_category :: string
  cv_service :: string
  cv_staff :: string
  cv_page :: int
  cv_phase :: string
  cv_date :: string
  cv_reminder_opt_in :: bool

definition zero_conversation :: conversation where
  "zero_conversation =
     \<lparr>cv_preferred_language = [], cv_id = [], cv_customer_id = [], cv_provider = [], cv_thread_id = [],
      cv_state = StateOther [], cv_revision = 0, cv_resumed_at = zero_time, cv_draft = None,
      cv_handoff_at = zero_time, cv_change = None, cv_created_at = zero_time, cv_updated_at = zero_time,
      cv_last_message_at = zero_time, cv_last_choice = [], cv_pending_choice = [], cv_pending_event = [],
      cv_presented = [], cv_category = [], cv_service = [], cv_staff = [], cv_page = 0, cv_phase = [],
      cv_date = [], cv_reminder_opt_in = False\<rparr>"

datatype direction = DirectionInbound | DirectionOutbound

record stored_message =
  ms_id :: string
  ms_conversation_id :: string
  ms_direction :: direction
  ms_content_type :: content_type
  ms_text :: string
  ms_external_id :: string
  ms_created_at :: time

section \<open>Operations\<close>

definition conversation_key :: "provider \<Rightarrow> string \<Rightarrow> string" where
  "conversation_key p thread = p @ '':'' @ thread"

definition conv_key :: "conversation \<Rightarrow> string" where
  "conv_key c = conversation_key (cv_provider c) (cv_thread_id c)"

definition waiting_longer_than :: "conversation \<Rightarrow> duration \<Rightarrow> time \<Rightarrow> bool" where
  "waiting_longer_than c d now =
     (if cv_state c \<noteq> StateHumanRequested then False
      else if is_zero (cv_handoff_at c) then True
      else d < time_sub now (cv_handoff_at c))"

definition assistant_may_reply :: "conversation \<Rightarrow> bool" where
  "assistant_may_reply c \<longleftrightarrow> cv_state c = StateAssistantActive"

fun allowed_transitions :: "conv_state \<Rightarrow> conv_state list" where
  "allowed_transitions StateAssistantActive = [StateHumanRequested, StateHumanActive, StateClosed]"
| "allowed_transitions StateHumanRequested = [StateHumanActive, StateAssistantActive, StateClosed]"
| "allowed_transitions StateHumanActive = [StateAssistantActive, StateClosed]"
| "allowed_transitions StateClosed = [StateAssistantActive]"
| "allowed_transitions (StateOther s) = []"

definition enter_state :: "conversation \<Rightarrow> conv_state \<Rightarrow> time \<Rightarrow> conversation" where
  "enter_state c next_state at =
     (let c = c\<lparr>cv_state := next_state, cv_updated_at := at\<rparr>;
          c = (if next_state = StateAssistantActive then c\<lparr>cv_resumed_at := at\<rparr> else c)
      in if next_state = StateHumanRequested \<or> next_state = StateHumanActive then c\<lparr>cv_handoff_at := at\<rparr> else c)"

definition transition_to :: "conversation \<Rightarrow> conv_state \<Rightarrow> time \<Rightarrow> conversation result" where
  "transition_to c next_state at =
     (if cv_state c = next_state then Inr c
      else if next_state \<in> set (allowed_transitions (cv_state c)) then Inr (enter_state c next_state at)
      else Inl (sentinel_error InvalidTransition))"

definition observe_external_reply :: "conversation \<Rightarrow> time \<Rightarrow> time \<Rightarrow> conversation" where
  "observe_external_reply c sent_at received_at =
     (if \<not> is_zero (cv_resumed_at c) \<and> \<not> after sent_at (cv_resumed_at c) then c
      else c\<lparr>cv_revision := cv_revision c + 1, cv_state := StateHumanActive,
        cv_handoff_at := received_at, cv_updated_at := received_at, cv_last_message_at := received_at,
        cv_last_choice := [], cv_pending_choice := [], cv_pending_event := [], cv_presented := [],
        cv_draft := None, cv_change := None\<rparr>)"

text \<open>\<open>strconv.Atoi\<close>; a value out of the range of \<open>int\<close> is an error.\<close>

fun digits_value :: "int \<Rightarrow> string \<Rightarrow> int option" where
  "digits_value n [] = Some n"
| "digits_value n (c # s) =
     (if c \<in> set ''0123456789'' then digits_value (10 * n + (of_char c - 48)) s else None)"

definition atoi :: "string \<Rightarrow> int option" where
  "atoi s =
     (let negative = has_prefix s ''-''; body = (if negative \<or> has_prefix s ''+'' then drop 1 s else s) in
      if body = [] then None
      else (case digits_value 0 body of None \<Rightarrow> None
        | Some n \<Rightarrow> let n = (if negative then - n else n) in
            if - (2 ^ 63) \<le> n \<and> n < 2 ^ 63 then Some n else None))"

definition trim_suffix :: "string \<Rightarrow> string \<Rightarrow> string" where
  "trim_suffix s p =
     (if length p \<le> length s \<and> drop (length s - length p) s = p then take (length s - length p) s else s)"

definition numbered_choice :: "string list \<Rightarrow> string \<Rightarrow> string \<times> bool" where
  "numbered_choice presented chosen =
     (if chosen = [] \<or> list_ex (\<lambda>x. x \<in> {CHR '' '', CHR 0x09, CHR 0x0D, CHR 0x0A}) chosen then ([], False)
      else (case atoi chosen of
          None \<Rightarrow> ([], False)
        | Some position \<Rightarrow>
          if position < 1 \<or> int (length presented) < position then ([], False)
          else let label = trim_space (presented ! nat (position - 1)) in (label, label \<noteq> [])))"

definition resolve_presented_choice ::
  "(string \<Rightarrow> string \<Rightarrow> bool) \<Rightarrow> conversation \<Rightarrow> string \<Rightarrow> string \<times> bool" where
  "resolve_presented_choice fold_eq c txt =
     (let chosen = trim_space txt in
      case find (\<lambda>label. fold_eq chosen (trim_space label)) (cv_presented c) of
        Some label \<Rightarrow> (trim_space label, True)
      | None \<Rightarrow> numbered_choice (cv_presented c)
          (trim_space (trim_suffix (trim_suffix chosen ''.'') '')'')))"

section \<open>Transitions\<close>

lemma transition_to_Inr:
  "transition_to c s at = Inr c' \<longleftrightarrow>
     (cv_state c = s \<and> c' = c) \<or>
     (cv_state c \<noteq> s \<and> s \<in> set (allowed_transitions (cv_state c)) \<and> c' = enter_state c s at)"
  by (auto simp: transition_to_def)

lemma enter_state_fields [simp]:
  "cv_state (enter_state c s at) = s"
  "cv_id (enter_state c s at) = cv_id c"
  "cv_provider (enter_state c s at) = cv_provider c"
  "cv_thread_id (enter_state c s at) = cv_thread_id c"
  "cv_revision (enter_state c s at) = cv_revision c"
  "cv_draft (enter_state c s at) = cv_draft c"
  "cv_change (enter_state c s at) = cv_change c"
  "cv_resumed_at (enter_state c s at) = (if s = StateAssistantActive then at else cv_resumed_at c)"
  "cv_handoff_at (enter_state c s at) =
     (if s = StateHumanRequested \<or> s = StateHumanActive then at else cv_handoff_at c)"
  "cv_reminder_opt_in (enter_state c s at) = cv_reminder_opt_in c"
  "cv_customer_id (enter_state c s at) = cv_customer_id c"
  by (simp_all add: enter_state_def Let_def)

lemma transition_to_state: "transition_to c s at = Inr c' \<Longrightarrow> cv_state c' = s"
  by (auto simp: transition_to_Inr)

lemma transition_to_frame:
  "transition_to c s at = Inr c' \<Longrightarrow>
     cv_id c' = cv_id c \<and> conv_key c' = conv_key c \<and> cv_revision c' = cv_revision c \<and>
     cv_draft c' = cv_draft c \<and> cv_change c' = cv_change c"
  by (auto simp: transition_to_Inr conv_key_def)

lemma assistant_can_request_human:
  "assistant_may_reply c \<Longrightarrow> transition_to c StateHumanRequested at = Inr (enter_state c StateHumanRequested at)"
  by (simp add: transition_to_def assistant_may_reply_def)

section \<open>The life of a conversation\<close>

text \<open>
  Everything that changes who answers is one of two steps: a checked transition, or the takeover
  by a reply observed from the native inbox. The clock never runs backwards.
\<close>

inductive conv_step :: "time \<Rightarrow> conversation \<Rightarrow> time \<Rightarrow> conversation \<Rightarrow> bool" where
  transition: "transition_to c s now' = Inr c' \<Longrightarrow> now \<le> now' \<Longrightarrow> conv_step now c now' c'"
| takeover: "now \<le> now' \<Longrightarrow> conv_step now c now' (observe_external_reply c sent_at now')"

inductive conv_steps :: "time \<Rightarrow> conversation \<Rightarrow> time \<Rightarrow> conversation \<Rightarrow> bool" where
  start: "conv_steps now c now c"
| step: "conv_steps now c now' c' \<Longrightarrow> conv_step now' c' now'' c'' \<Longrightarrow> conv_steps now c now'' c''"

inductive_cases conv_stepE: "conv_step now c now' c'"

text \<open>
  The invariant of a stored conversation: whoever waits for a colleague, or is with one, has a
  recorded time for it, and no recorded time is in the future.
\<close>

definition conv_inv :: "time \<Rightarrow> conversation \<Rightarrow> bool" where
  "conv_inv now c \<longleftrightarrow>
     0 < now \<and>
     (cv_state c \<in> {StateHumanRequested, StateHumanActive} \<longrightarrow> cv_handoff_at c \<noteq> 0) \<and>
     cv_handoff_at c \<le> now \<and> cv_resumed_at c \<le> now \<and> 0 \<le> cv_revision c"

lemma conv_step_inv: "conv_step now c now' c' \<Longrightarrow> conv_inv now c \<Longrightarrow> conv_inv now' c'"
  by (erule conv_stepE) (auto simp: conv_inv_def transition_to_Inr observe_external_reply_def)

lemma conv_step_revision: "conv_step now c now' c' \<Longrightarrow> cv_revision c \<le> cv_revision c'"
  by (erule conv_stepE) (auto simp: transition_to_Inr observe_external_reply_def)

lemma conv_step_frame: "conv_step now c now' c' \<Longrightarrow> cv_id c' = cv_id c \<and> conv_key c' = conv_key c"
  by (erule conv_stepE) (auto simp: observe_external_reply_def conv_key_def dest: transition_to_frame)

lemma conv_steps_inv: "conv_steps now c now' c' \<Longrightarrow> conv_inv now c \<Longrightarrow> conv_inv now' c'"
  by (induction rule: conv_steps.induct) (auto intro: conv_step_inv)

lemma conv_steps_revision: "conv_steps now c now' c' \<Longrightarrow> cv_revision c \<le> cv_revision c'"
  by (induction rule: conv_steps.induct) (auto dest: conv_step_revision)

lemma observe_external_reply_takes_over:
  assumes "cv_resumed_at c = 0 \<or> cv_resumed_at c < sent_at"
  shows "cv_state (observe_external_reply c sent_at received_at) = StateHumanActive"
    and "cv_revision (observe_external_reply c sent_at received_at) = cv_revision c + 1"
    and "cv_draft (observe_external_reply c sent_at received_at) = None"
    and "cv_change (observe_external_reply c sent_at received_at) = None"
  using assms by (auto simp: observe_external_reply_def time_defs)

lemma observe_external_reply_stale:
  "cv_resumed_at c \<noteq> 0 \<Longrightarrow> sent_at \<le> cv_resumed_at c \<Longrightarrow> observe_external_reply c sent_at received_at = c"
  by (simp add: observe_external_reply_def time_defs)

lemma observe_external_reply_key [simp]:
  "conv_key (observe_external_reply c sent_at received_at) = conv_key c"
  "cv_id (observe_external_reply c sent_at received_at) = cv_id c"
  by (simp_all add: observe_external_reply_def conv_key_def)

section \<open>Numbered answers\<close>

lemma numbered_choice_True:
  assumes "numbered_choice presented chosen = (label, True)"
  shows "\<exists>p. atoi chosen = Some p \<and> 1 \<le> p \<and> p \<le> int (length presented) \<and>
     label = trim_space (presented ! nat (p - 1)) \<and> label \<noteq> []"
proof (cases "atoi chosen")
  case None
  with assms show ?thesis by (simp add: numbered_choice_def split: if_splits)
next
  case (Some p)
  with assms show ?thesis by (auto simp: numbered_choice_def Let_def split: if_splits)
qed

lemma resolve_presented_choice_member:
  assumes "resolve_presented_choice fold_eq c txt = (label, True)"
  shows "label \<in> trim_space ` set (cv_presented c)"
proof (cases "find (\<lambda>l. fold_eq (trim_space txt) (trim_space l)) (cv_presented c)")
  case (Some l)
  with assms have "label = trim_space l" by (simp add: resolve_presented_choice_def Let_def)
  moreover from Some have "l \<in> set (cv_presented c)" by (auto simp: find_Some_iff)
  ultimately show ?thesis by blast
next
  case None
  with assms have "numbered_choice (cv_presented c)
      (trim_space (trim_suffix (trim_suffix (trim_space txt) ''.'') '')'')) = (label, True)"
    by (simp only: resolve_presented_choice_def Let_def option.case)
  from numbered_choice_True [OF this] obtain p :: int
    where p: "1 \<le> p" "p \<le> int (length (cv_presented c))"
      and label: "label = trim_space (cv_presented c ! nat (p - 1))" by blast
  from p have "cv_presented c ! nat (p - 1) \<in> set (cv_presented c)" by (intro nth_mem) linarith
  with label show ?thesis by blast
qed

datatype reminder_status =
  StatusScheduled | StatusDelivering | StatusSent | StatusSkipped | StatusUnknown string

record reminder =
  rm_id :: string
  rm_booking_id :: string
  rm_customer_id :: string
  rm_conversation_id :: string
  rm_provider :: provider
  rm_thread_id :: string
  rm_language :: string
  rm_expected_start :: time
  rm_due_at :: time
  rm_status :: reminder_status
  rm_created_at :: time
  rm_claim_id :: string
  rm_claim_expires :: time
  rm_finished_at :: time

definition reminder_validate :: "reminder \<Rightarrow> go_error option" where
  "reminder_validate r =
     (if rm_id r = [] then Some (errors_new ''reminder id is empty'')
      else if rm_booking_id r = [] then Some (errors_new ''booking reference is empty'')
      else if rm_customer_id r = [] then Some (errors_new ''customer id is empty'')
      else if rm_conversation_id r = [] then Some (errors_new ''conversation id is empty'')
      else if rm_provider r = [] then Some (errors_new ''provider is empty'')
      else if rm_thread_id r = [] then Some (errors_new ''thread id is empty'')
      else if is_zero (rm_expected_start r) then Some (errors_new ''expected appointment start is empty'')
      else if is_zero (rm_due_at r) then Some (errors_new ''due time is empty'')
      else if rm_status r \<noteq> StatusScheduled then Some (errors_new ''new reminder status must be scheduled'')
      else if is_zero (rm_created_at r) then Some (errors_new ''creation time is empty'')
      else None)"

definition reminder_terminal :: "reminder \<Rightarrow> bool" where
  "reminder_terminal r \<longleftrightarrow> rm_status r = StatusSent \<or> rm_status r = StatusSkipped"

lemma reminder_validate_None:
  "reminder_validate r = None \<longleftrightarrow>
     rm_id r \<noteq> [] \<and> rm_booking_id r \<noteq> [] \<and> rm_customer_id r \<noteq> [] \<and> rm_conversation_id r \<noteq> [] \<and>
     rm_provider r \<noteq> [] \<and> rm_thread_id r \<noteq> [] \<and> rm_expected_start r \<noteq> 0 \<and> rm_due_at r \<noteq> 0 \<and>
     rm_status r = StatusScheduled \<and> rm_created_at r \<noteq> 0"
  by (auto simp: reminder_validate_def time_defs split: if_splits)

lemma reminder_terminal_update [simp]:
  "reminder_terminal (r\<lparr>rm_claim_id := c\<rparr>) = reminder_terminal r"
  "reminder_terminal (r\<lparr>rm_claim_expires := t\<rparr>) = reminder_terminal r"
  "reminder_terminal (r\<lparr>rm_finished_at := t\<rparr>) = reminder_terminal r"
  "reminder_terminal (r\<lparr>rm_status := s\<rparr>) \<longleftrightarrow> s = StatusSent \<or> s = StatusSkipped"
  by (simp_all add: reminder_terminal_def)

end
