(* ===== verification/DomainProperties.thy ===== *)
theory DomainProperties
  imports Booking Customer Conversation
begin

text \<open>
  The properties of the domain types: messages, phone numbers, drafts and conversations. The
  \<open>sample\<close> constants are concrete inputs for the witnesses.
\<close>

definition sample_envelope :: "string \<Rightarrow> string \<Rightarrow> string \<Rightarrow> envelope" where
  "sample_envelope p thread i =
     \<lparr>en_provider = p, en_message_id = i, en_choice_message_id = [], en_user_id = ''7'', en_thread_id = thread,
      en_sent_at = 5, en_received_at = 6, en_sender = \<lparr>sn_display_name = [], sn_language = [], sn_username = []\<rparr>,
      en_content = \<lparr>co_type = ContentTypeText, co_text = ''hi'', co_audio = None, co_description = []\<rparr>\<rparr>"

text \<open>
  The deduplication key of a delivery determines the provider, the message and, on Telegram
  (where message ids repeat between chats), the chat. Provider names and Telegram chat ids hold no
  colon.
\<close>

theorem dedupe_key_separates:
  assumes "CHR '':'' \<notin> set (en_provider e)" "CHR '':'' \<notin> set (en_provider f)"
    and "CHR '':'' \<notin> set (en_thread_id e)" "CHR '':'' \<notin> set (en_thread_id f)"
    and "dedupe_key e = dedupe_key f"
  shows "en_provider e = en_provider f \<and> en_message_id e = en_message_id f \<and>
    (en_provider e = ProviderTelegram \<longrightarrow> en_thread_id e = en_thread_id f)"
proof -
  let ?rest = "\<lambda>e. if en_provider e = ProviderTelegram then en_thread_id e @ '':'' @ en_message_id e else en_message_id e"
  have key: "dedupe_key e = en_provider e @ '':'' @ ?rest e" for e by (simp add: dedupe_key_def)
  note both = append_colon_inj [OF assms(1,2) assms(5) [unfolded key]]
  note provider = conjunct1 [OF both, symmetric] and rest = conjunct2 [OF both]
  show ?thesis
  proof (cases "en_provider e = ProviderTelegram")
    case True
    with rest provider have "en_thread_id e @ '':'' @ en_message_id e = en_thread_id f @ '':'' @ en_message_id f"
      by (simp only: if_True refl)
    note parts = append_colon_inj [OF assms(3,4) this]
    show ?thesis by (rule conjI [OF provider [symmetric] conjI [OF conjunct2 [OF parts] impI [OF conjunct1 [OF parts]]]])
  next
    case False
    with rest provider have "en_message_id e = en_message_id f" by (simp only: if_False)
    with False show ?thesis by (intro conjI impI provider [symmetric]) (assumption | rule notE)+
  qed
qed

theorem dedupe_key_separates_witness:
  "en_thread_id (sample_envelope ''telegram'' ''12'' ''3'') =
   en_thread_id ((sample_envelope ''telegram'' ''12'' ''3'')\<lparr>en_received_at := 9\<rparr>)"
  using dedupe_key_separates [of "sample_envelope ''telegram'' ''12'' ''3''"
      "(sample_envelope ''telegram'' ''12'' ''3'')\<lparr>en_received_at := 9\<rparr>"]
  by (simp add: sample_envelope_def dedupe_key_def)

text \<open>
  The buttons of an outgoing message can always be shown: at most a hundred, none blank, no two
  alike, each a trimmed label that was asked for; its links are distinct and all https.
\<close>

theorem outgoing_buttons:
  "good_choices (og_choices (with_choices out cs)) \<and>
   ch_label ` set (og_choices (with_choices out cs)) \<subseteq> (trim_space \<circ> ch_label) ` set cs \<and>
   good_links (og_links (with_links out ls))"
  using keep_choices_good [of "[]" cs] keep_links_good [of "[]" ls] keep_choices_from [of _ cs "[]"]
  by (auto simp: with_choices_def with_links_def good_choices_def good_links_def max_choices_def)

text \<open>
  A phone number that normalises is in E.164 form and normalises to itself, for a parser
  (\<open>phonenumbers\<close>) whose result is E.164 text that it accepts unchanged.
\<close>

theorem normalize_phone_stable:
  assumes "e164_canonical lib" "normalize_phone lib raw = Inr p"
  shows "(\<exists>ds. p = CHR ''+'' # ds \<and> list_all is_digit ds) \<and> normalize_phone lib p = Inr p"
  using normalize_phone_canonical [OF assms] normalize_phone_idem [OF assms] by blast

definition sample_lib :: "string \<Rightarrow> string option" where
  "sample_lib i = (if i = ''+37491000000'' then Some ''+37491000000'' else None)"

theorem normalize_phone_stable_witness:
  "normalize_phone sample_lib ''+37491000000'' = Inr ''+37491000000''"
proof -
  have "e164_canonical sample_lib" by (auto simp: e164_canonical_def sample_lib_def is_digit_def)
  moreover have "normalize_phone sample_lib ''00374 (91) 00-00-00 '' = Inr ''+37491000000''" by code_simp
  ultimately show ?thesis by (rule normalize_phone_stable [THEN conjunct2])
qed

text \<open>
  A draft may be confirmed exactly when it is complete, tied to a customer message, prepared at
  most an hour ago, and its appointment is still to come.
\<close>

theorem draft_valid_iff:
  "draft_validate d now = None \<longleftrightarrow>
     dr_idempotency_key d \<noteq> [] \<and> dr_service_ids d \<noteq> [] \<and> dr_staff_id d \<noteq> [] \<and> dr_phone d \<noteq> [] \<and>
     dr_starts_at d \<noteq> 0 \<and> 0 < dr_duration d \<and> dr_prepared_from d \<noteq> [] \<and>
     now - dr_prepared_at d \<le> hour \<and> now < dr_starts_at d"
  by (rule draft_validate_None)

text \<open>
  Through every sequence of transitions and staff takeovers, a conversation in human hands has
  the time it got there, its revision never decreases, and its identity is kept.
\<close>

theorem conversation_life:
  assumes "conv_steps now c now' c'" "conv_inv now c"
  shows "conv_inv now' c' \<and> cv_revision c \<le> cv_revision c' \<and> cv_id c' = cv_id c \<and> conv_key c' = conv_key c"
proof -
  from assms(1) have "cv_id c' = cv_id c \<and> conv_key c' = conv_key c"
    by (induction rule: conv_steps.induct) (auto dest: conv_step_frame)
  with conv_steps_inv [OF assms] conv_steps_revision [OF assms(1)] show ?thesis by blast
qed

definition sample_conversation :: conversation where
  "sample_conversation = zero_conversation\<lparr>cv_id := ''c1'', cv_customer_id := ''u1'', cv_provider := ProviderTelegram,
     cv_thread_id := ''12'', cv_state := StateAssistantActive, cv_presented := [''Yes, book it'', ''Another time'']\<rparr>"

theorem conversation_life_witness:
  "conv_inv 20 (observe_external_reply (enter_state sample_conversation StateHumanRequested 10) 15 20)"
proof -
  let ?asked = "enter_state sample_conversation StateHumanRequested 10"
  have "transition_to sample_conversation StateHumanRequested 10 = Inr ?asked"
    by (simp add: transition_to_def sample_conversation_def)
  then have "conv_steps 5 sample_conversation 10 ?asked"
    by (intro conv_steps.step [OF conv_steps.start] conv_step.transition) simp_all
  then have "conv_steps 5 sample_conversation 20 (observe_external_reply ?asked 15 20)"
    by (rule conv_steps.step) (rule conv_step.takeover, simp)
  moreover have "conv_inv 5 sample_conversation"
    by (simp add: conv_inv_def sample_conversation_def zero_conversation_def)
  ultimately show ?thesis using conversation_life by blast
qed

text \<open>
  A reply a staff member sent outside the assistant, later than the last return to it, takes
  the conversation over: the assistant may no longer answer, nothing stays to be confirmed or
  chosen, and the new revision makes every copy read before it fail to save.
\<close>

theorem takeover_silences:
  assumes "cv_resumed_at c = 0 \<or> cv_resumed_at c < sent_at"
  shows "let c' = observe_external_reply c sent_at received_at in
    \<not> assistant_may_reply c' \<and> cv_draft c' = None \<and> cv_change c' = None \<and> cv_presented c' = [] \<and>
    cv_revision c' = cv_revision c + 1"
  using observe_external_reply_takes_over [OF assms, of received_at] assms
  by (auto simp: Let_def assistant_may_reply_def observe_external_reply_def time_defs)

theorem takeover_silences_witness:
  "\<not> assistant_may_reply (observe_external_reply sample_conversation 15 20)"
  using takeover_silences [of sample_conversation 15 20]
  by (simp add: Let_def sample_conversation_def zero_conversation_def)

text \<open>A numbered or repeated answer resolves only to a label the customer was shown.\<close>

theorem resolved_choice_shown:
  assumes "resolve_presented_choice fold_eq c txt = (label, True)"
  shows "label \<in> trim_space ` set (cv_presented c)"
  by (rule resolve_presented_choice_member [OF assms])

theorem resolved_choice_shown_witness: "''Another time'' \<in> trim_space ` set (cv_presented sample_conversation)"
proof -
  have "resolve_presented_choice (=) sample_conversation ''2.'' = (''Another time'', True)" by code_simp
  then show ?thesis by (rule resolved_choice_shown)
qed

end
