(* ===== verification/Routing.thy ===== *)
theory Routing
  imports Booking Customer
begin

text \<open>
  The data of the notification service and its routing policy
  (\<open>internal/application/notifications\<close>): the private entry that is stored per event, record,
  phone or channel, and \<open>Plan\<close>, which turns a recipient's contact details and permissions into an
  ordered list of targets. Channels, purposes and the kinds and states of an entry are Go strings;
  event keys and template names are built from their text.
\<close>

section \<open>Data\<close>

type_synonym channel = string
type_synonym purpose = string

abbreviation Telegram :: channel where "Telegram \<equiv> ''telegram''"
abbreviation WhatsApp :: channel where "WhatsApp \<equiv> ''whatsapp''"
abbreviation SMS :: channel where "SMS \<equiv> ''sms''"

abbreviation BookingCreated :: purpose where "BookingCreated \<equiv> ''booking_created''"
abbreviation BookingChanged :: purpose where "BookingChanged \<equiv> ''booking_changed''"
abbreviation BookingCancelled :: purpose where "BookingCancelled \<equiv> ''booking_cancelled''"
abbreviation BookingReminder :: purpose where "BookingReminder \<equiv> ''booking_reminder''"
abbreviation Verification :: purpose where "Verification \<equiv> ''verification''"

record recipient =
  rp_phone :: string
  rp_telegram_chat :: string
  rp_telegram_phone :: string
  rp_whatsapp_opted_in :: bool
  rp_whatsapp_opt_in_phone :: string
  rp_telegram_opted_out :: bool
  rp_updates_requested :: bool

record policy =
  pl_order :: "channel list"
  pl_enabled :: "bool table"
  pl_templates :: "string table"
  pl_telegram_account :: bool

record target =
  tg_channel :: channel
  tg_address :: string
  tg_template_id :: string
  tg_studio_account :: bool

record event =
  ev_id :: string
  ev_record_id :: string
  ev_status :: string
  ev_received_at :: time

record snapshot =
  sp_booking :: booking
  sp_phone :: string
  sp_changed_at :: time
  sp_api_id :: string
  sp_online :: bool
  sp_attended :: bool

record contact =
  ct_chat :: string
  ct_phone :: string
  ct_language :: string
  ct_channel :: channel
  ct_requested_at :: time
  ct_expires_at :: time
  ct_blocked :: bool

record notice =
  nt_id :: string
  nt_snapshot :: snapshot
  nt_purpose :: purpose
  nt_fingerprint :: string

record phone_challenge =
  pc_phone :: string
  pc_hash :: string
  pc_state :: string
  pc_expires_at :: time
  pc_next_send_at :: time
  pc_window_started :: time
  pc_sends :: int
  pc_attempts :: int
  pc_contact_message_id :: string

record entry =
  ne_health :: channel_health
  ne_verification :: phone_challenge
  ne_kind :: string
  ne_state :: string
  ne_event :: event
  ne_contact :: contact
  ne_notice :: notice
  ne_fingerprint :: string
  ne_changed_at :: time
  ne_lease_owner :: string
  ne_lease_until :: time
  ne_order :: string
  ne_outcome :: string
  ne_attempted :: "channel list"
  ne_updated_at :: time
  ne_session_ciphertext :: string
  ne_next_lookup_at :: time
  ne_provider_state :: string
  ne_sms_failure_alerted_at :: time
  ne_calendar_id :: string
  ne_calendar_phone :: string
  ne_management_token :: string
  ne_management_phone :: string
  ne_confirmation_channel :: channel
  ne_operator_paused :: bool
  ne_operator_pause_reason :: string

section \<open>Zero values\<close>

definition zero_booking :: booking where
  "zero_booking = \<lparr>bk_id = [], bk_external_id = [], bk_management_token = [], bk_customer_id = [],
     bk_service_ids = [], bk_staff_id = [], bk_customer_name = [], bk_service_names = [],
     bk_staff_name = [], bk_starts_at = zero_time, bk_duration = 0, bk_status = StatusOther [],
     bk_attended = False, bk_no_show = False, bk_treatment_duration = 0, bk_created_at = zero_time\<rparr>"

definition zero_event :: event where
  "zero_event = \<lparr>ev_id = [], ev_record_id = [], ev_status = [], ev_received_at = zero_time\<rparr>"

definition zero_snapshot :: snapshot where
  "zero_snapshot = \<lparr>sp_booking = zero_booking, sp_phone = [], sp_changed_at = zero_time,
     sp_api_id = [], sp_online = False, sp_attended = False\<rparr>"

definition zero_contact :: contact where
  "zero_contact = \<lparr>ct_chat = [], ct_phone = [], ct_language = [], ct_channel = [],
     ct_requested_at = zero_time, ct_expires_at = zero_time, ct_blocked = False\<rparr>"

definition zero_notice :: notice where
  "zero_notice = \<lparr>nt_id = [], nt_snapshot = zero_snapshot, nt_purpose = [], nt_fingerprint = []\<rparr>"

definition zero_challenge :: phone_challenge where
  "zero_challenge = \<lparr>pc_phone = [], pc_hash = [], pc_state = [], pc_expires_at = zero_time,
     pc_next_send_at = zero_time, pc_window_started = zero_time, pc_sends = 0, pc_attempts = 0,
     pc_contact_message_id = []\<rparr>"

definition zero_entry :: entry where
  "zero_entry = \<lparr>ne_health = zero_health, ne_verification = zero_challenge, ne_kind = [], ne_state = [],
     ne_event = zero_event, ne_contact = zero_contact, ne_notice = zero_notice, ne_fingerprint = [],
     ne_changed_at = zero_time, ne_lease_owner = [], ne_lease_until = zero_time, ne_order = [],
     ne_outcome = [], ne_attempted = [], ne_updated_at = zero_time, ne_session_ciphertext = [],
     ne_next_lookup_at = zero_time, ne_provider_state = [], ne_sms_failure_alerted_at = zero_time,
     ne_calendar_id = [], ne_calendar_phone = [], ne_management_token = [], ne_management_phone = [],
     ne_confirmation_channel = [], ne_operator_paused = False, ne_operator_pause_reason = []\<rparr>"

lemma zero_entry_fields [simp]:
  "ne_kind zero_entry = []" "ne_state zero_entry = []" "ne_event zero_entry = zero_event"
  "ne_attempted zero_entry = []" "ne_outcome zero_entry = []" "ne_lease_until zero_entry = 0"
  "ne_lease_owner zero_entry = []" "ne_verification zero_entry = zero_challenge"
  by (simp_all add: zero_entry_def)

section \<open>The plan\<close>

fun valid_order :: "channel list \<Rightarrow> channel list \<Rightarrow> bool" where
  "valid_order seen [] = True"
| "valid_order seen (c # cs) =
     (if (c \<noteq> Telegram \<and> c \<noteq> WhatsApp) \<or> c \<in> set seen then False else valid_order (c # seen) cs)"

definition messenger_target :: "policy \<Rightarrow> recipient \<Rightarrow> purpose \<Rightarrow> string \<Rightarrow> channel \<Rightarrow> target list" where
  "messenger_target pol rcpt purp phone c =
     (if \<not> row_or False (pl_enabled pol) c then []
      else if c = Telegram then
        (if rp_telegram_opted_out rcpt then []
         else if trim_space (rp_telegram_chat rcpt) \<noteq> [] \<and> rp_telegram_phone rcpt = phone
         then [\<lparr>tg_channel = Telegram, tg_address = rp_telegram_chat rcpt, tg_template_id = [], tg_studio_account = False\<rparr>]
         else if pl_telegram_account pol \<and> rp_updates_requested rcpt
         then [\<lparr>tg_channel = Telegram, tg_address = phone, tg_template_id = [], tg_studio_account = True\<rparr>]
         else [])
      else if c = WhatsApp then
        (let template = trim_space (row_or [] (pl_templates pol) purp) in
         if rp_whatsapp_opted_in rcpt \<and> rp_whatsapp_opt_in_phone rcpt = phone \<and> template \<noteq> []
         then [\<lparr>tg_channel = WhatsApp, tg_address = phone, tg_template_id = template, tg_studio_account = False\<rparr>]
         else [])
      else [])"

definition messenger_targets :: "policy \<Rightarrow> recipient \<Rightarrow> purpose \<Rightarrow> string \<Rightarrow> channel list \<Rightarrow> target list" where
  "messenger_targets pol rcpt purp phone order =
     (if purp \<noteq> Verification then concat (map (messenger_target pol rcpt purp phone) order) else [])"

definition sms_target :: "string \<Rightarrow> target" where
  "sms_target phone = \<lparr>tg_channel = SMS, tg_address = phone, tg_template_id = [], tg_studio_account = False\<rparr>"

definition plan :: "(string \<Rightarrow> string option) \<Rightarrow> policy \<Rightarrow> recipient \<Rightarrow> purpose \<Rightarrow> target list result" where
  "plan lib pol rcpt purp =
     (if purp \<notin> {BookingCreated, BookingChanged, BookingCancelled, BookingReminder, Verification}
      then Inl (errors_new ''notifications: unsupported purpose'')
      else case normalize_phone lib (rp_phone rcpt) of
        Inl e \<Rightarrow> Inl (errors_new ''notifications: invalid recipient phone'')
      | Inr phone \<Rightarrow>
        let order = (if pl_order pol = [] then [Telegram, WhatsApp] else pl_order pol) in
        if \<not> valid_order [] order then Inl (errors_new ''notifications: invalid messenger order'')
        else Inr (messenger_targets pol rcpt purp phone order @
          (if row_or False (pl_enabled pol) SMS then [sms_target phone] else [])))"

section \<open>What a plan guarantees\<close>

lemma valid_order_iff:
  "valid_order seen cs \<longleftrightarrow> distinct cs \<and> set cs \<subseteq> {Telegram, WhatsApp} \<and> set cs \<inter> set seen = {}"
  by (induction seen cs rule: valid_order.induct) auto

lemma messenger_target_channel: "t \<in> set (messenger_target pol rcpt purp phone c) \<Longrightarrow> tg_channel t = c"
  by (auto simp: messenger_target_def Let_def split: if_splits)

lemma messenger_target_single: "length (messenger_target pol rcpt purp phone c) \<le> 1"
  by (simp add: messenger_target_def Let_def)

lemma messenger_target_distinct: "distinct (map tg_channel (messenger_target pol rcpt purp phone c))"
  using messenger_target_single [of pol rcpt purp phone c]
  by (cases "messenger_target pol rcpt purp phone c") auto

lemma messenger_targets_from:
  "tg_channel ` set (messenger_targets pol rcpt purp phone cs) \<subseteq> set cs"
  by (auto simp: messenger_targets_def dest: messenger_target_channel)

lemma messenger_targets_Cons:
  "messenger_targets pol rcpt purp phone (c # cs) =
     (if purp \<noteq> Verification then messenger_target pol rcpt purp phone c else []) @
     messenger_targets pol rcpt purp phone cs"
  by (simp add: messenger_targets_def)

lemma messenger_targets_distinct:
  "distinct cs \<Longrightarrow> distinct (map tg_channel (messenger_targets pol rcpt purp phone cs))"
proof (induction cs)
  case Nil
  then show ?case by (simp add: messenger_targets_def)
next
  case (Cons c cs)
  have "tg_channel ` set (messenger_targets pol rcpt purp phone cs) \<subseteq> set cs"
    by (rule messenger_targets_from)
  with Cons.prems have "c \<notin> tg_channel ` set (messenger_targets pol rcpt purp phone cs)" by auto
  then have "tg_channel ` set (messenger_target pol rcpt purp phone c) \<inter>
     tg_channel ` set (messenger_targets pol rcpt purp phone cs) = {}"
    by (auto dest: messenger_target_channel)
  with Cons messenger_target_distinct [of pol rcpt purp phone c] show ?case
    by (simp add: messenger_targets_Cons)
qed

text \<open>What permits one target, as the recipient's record and the policy say it.\<close>

definition permitted :: "policy \<Rightarrow> recipient \<Rightarrow> purpose \<Rightarrow> string \<Rightarrow> target \<Rightarrow> bool" where
  "permitted pol rcpt purp phone t \<longleftrightarrow>
     row_or False (pl_enabled pol) (tg_channel t) \<and>
     (if tg_channel t = SMS then tg_address t = phone
      else purp \<noteq> Verification \<and>
       (if tg_channel t = Telegram then \<not> rp_telegram_opted_out rcpt \<and>
          (if tg_studio_account t then tg_address t = phone \<and> pl_telegram_account pol \<and> rp_updates_requested rcpt
           else tg_address t = rp_telegram_chat rcpt \<and> rp_telegram_phone rcpt = phone)
        else tg_channel t = WhatsApp \<and> tg_address t = phone \<and> tg_template_id t \<noteq> [] \<and>
          rp_whatsapp_opted_in rcpt \<and> rp_whatsapp_opt_in_phone rcpt = phone))"

lemma messenger_target_permitted:
  assumes "purp \<noteq> Verification" "t \<in> set (messenger_target pol rcpt purp phone c)"
  shows "permitted pol rcpt purp phone t"
  using assms by (auto simp: messenger_target_def permitted_def Let_def split: if_splits)

lemma messenger_targets_permitted:
  assumes "t \<in> set (messenger_targets pol rcpt purp phone cs)"
  shows "permitted pol rcpt purp phone t"
  using assms by (auto simp: messenger_targets_def split: if_splits intro: messenger_target_permitted)

lemma plan_Inr:
  assumes "plan lib pol rcpt purp = Inr ts"
  obtains phone order where "normalize_phone lib (rp_phone rcpt) = Inr phone"
    "distinct order" "set order \<subseteq> {Telegram, WhatsApp}"
    "ts = messenger_targets pol rcpt purp phone order @
       (if row_or False (pl_enabled pol) SMS then [sms_target phone] else [])"
proof -
  let ?order = "if pl_order pol = [] then [Telegram, WhatsApp] else pl_order pol"
  from assms obtain phone where "normalize_phone lib (rp_phone rcpt) = Inr phone" "valid_order [] ?order"
    "ts = messenger_targets pol rcpt purp phone ?order @
       (if row_or False (pl_enabled pol) SMS then [sms_target phone] else [])"
    by (simp add: plan_def Let_def split: if_split_asm sum.split_asm)
  then show ?thesis using that valid_order_iff [of "[]" ?order] by blast
qed

lemma plan_channels:
  assumes "plan lib pol rcpt purp = Inr ts"
  shows "distinct (map tg_channel ts)" "SMS \<notin> tg_channel ` set (butlast ts)"
    "purp = Verification \<Longrightarrow> tg_channel ` set ts \<subseteq> {SMS}"
proof -
  obtain phone order where order: "distinct order" "set order \<subseteq> {Telegram, WhatsApp}"
    and ts: "ts = messenger_targets pol rcpt purp phone order @
       (if row_or False (pl_enabled pol) SMS then [sms_target phone] else [])"
    using plan_Inr [OF assms] by metis
  let ?ms = "messenger_targets pol rcpt purp phone order"
  note ms = messenger_targets_distinct [OF order(1), of pol rcpt purp phone]
  have no_sms: "SMS \<notin> tg_channel ` set ?ms"
    using messenger_targets_from [of pol rcpt purp phone order] order(2) by auto
  with ms show "distinct (map tg_channel ts)" by (simp add: ts sms_target_def)
  have "set (butlast ts) \<subseteq> set ?ms"
    by (auto simp: ts butlast_append dest: in_set_butlastD)
  with no_sms show "SMS \<notin> tg_channel ` set (butlast ts)" by blast
  show "purp = Verification \<Longrightarrow> tg_channel ` set ts \<subseteq> {SMS}"
    by (auto simp: ts messenger_targets_def sms_target_def)
qed

lemma plan_permitted:
  assumes "plan lib pol rcpt purp = Inr ts" "t \<in> set ts"
  shows "\<exists>phone. normalize_phone lib (rp_phone rcpt) = Inr phone \<and> permitted pol rcpt purp phone t"
proof -
  obtain phone order where phone: "normalize_phone lib (rp_phone rcpt) = Inr phone"
    and ts: "ts = messenger_targets pol rcpt purp phone order @
       (if row_or False (pl_enabled pol) SMS then [sms_target phone] else [])"
    using plan_Inr [OF assms(1)] by metis
  have "permitted pol rcpt purp phone t"
  proof (cases "t \<in> set (messenger_targets pol rcpt purp phone order)")
    case True
    then show ?thesis by (rule messenger_targets_permitted)
  next
    case False
    with assms(2) ts have "t = sms_target phone" "row_or False (pl_enabled pol) SMS"
      by (auto split: if_split_asm)
    then show ?thesis by (simp add: permitted_def sms_target_def)
  qed
  with phone show ?thesis by blast
qed

end
