(* ===== verification/MemoryStore.thy ===== *)
theory MemoryStore
  imports Conversation Routing "HOL-Library.List_Lexorder" "HOL-Library.Char_ord"
begin

text \<open>
  The in-process store (\<open>internal/adapters/persistence/memory\<close>), which every service of the
  application is composed with here. One mutex guards all of it, so each method is one atomic step
  on the record \<open>db\<close>. A method that may fail is a procedure; a pure read is one too, so that
  services can be written over any of them. The store's clock is an argument of the methods that
  read it. \<open>slices.SortFunc\<close> leaves the order of equal elements open: the stable sort used here is
  one of the orders it may give, and the lemmas about sorted results hold for all of them.
\<close>

section \<open>State\<close>

record processed_entry =
  pe_claim_id :: string
  pe_processed_at :: time
  pe_expires_at :: time

text \<open>The boundary of a page of conversations, ordered by the last message and then by the key.\<close>

datatype cursor = Cursor (cursor_last: time) (cursor_key: string)

record inbox_page =
  ip_id :: string
  ip_chat_id :: string
  ip_conversation_id :: string
  ip_next :: "cursor option"
  ip_history_before :: string
  ip_history_start :: string
  ip_previous :: string
  ip_expires_at :: time

record db =
  db_customers :: "customer table"
  db_identities :: "channel_identity table"
  db_aliases :: "string list table"
  db_entries :: "entry table"
  db_conversations :: "conversation table"
  db_conversation_keys :: "string table"
  db_messages :: "stored_message list table"
  db_processed :: "processed_entry table"
  db_latest_turn :: "string table"
  db_bookings :: "booking list table"
  db_reminders :: "reminder table"
  db_staff_threads :: "string table"
  db_inbox_pages :: "inbox_page table"
  db_processed_ttl :: duration
  db_claim_ttl :: duration

definition default_processed_ttl :: duration where "default_processed_ttl = 24 * hour"
definition default_claim_ttl :: duration where "default_claim_ttl = 5 * minute"

definition new_store :: db where
  "new_store = \<lparr>db_customers = [], db_identities = [], db_aliases = [], db_entries = [],
     db_conversations = [], db_conversation_keys = [], db_messages = [], db_processed = [],
     db_latest_turn = [], db_bookings = [], db_reminders = [], db_staff_threads = [],
     db_inbox_pages = [], db_processed_ttl = default_processed_ttl, db_claim_ttl = default_claim_ttl\<rparr>"

section \<open>Reminders\<close>

definition ensure_reminder :: "reminder \<Rightarrow> (db, unit) proc" where
  "ensure_reminder candidate db =
     (case reminder_validate candidate of Some e \<Rightarrow> (Inl e, db)
      | None \<Rightarrow> (Inr (), if get_row (db_reminders db) (rm_id candidate) = None
          then db\<lparr>db_reminders := put_row (rm_id candidate) candidate (db_reminders db)\<rparr> else db))"

definition find_reminder :: "string \<Rightarrow> (db, reminder) proc" where
  "find_reminder reminder_id db =
     (case get_row (db_reminders db) reminder_id of
        None \<Rightarrow> (Inl (sentinel_error ReminderNotFound), db) | Some r \<Rightarrow> (Inr r, db))"

definition list_scheduled_reminders :: "(db, reminder list) proc" where
  "list_scheduled_reminders db =
     (Inr (filter (\<lambda>r. rm_status r = StatusScheduled) (rows (db_reminders db))), db)"

definition claim_reminder :: "string \<Rightarrow> string \<Rightarrow> time \<Rightarrow> time \<Rightarrow> (db, reminder \<times> bool) proc" where
  "claim_reminder reminder_id claim_id at lease_until db =
     (case get_row (db_reminders db) reminder_id of
        None \<Rightarrow> (Inl (sentinel_error ReminderNotFound), db)
      | Some r \<Rightarrow>
        if reminder_terminal r \<or> (rm_status r = StatusDelivering \<and> after (rm_claim_expires r) at)
        then (Inr (r, False), db)
        else let r = r\<lparr>rm_status := StatusDelivering, rm_claim_id := claim_id, rm_claim_expires := lease_until\<rparr>
          in (Inr (r, True), db\<lparr>db_reminders := put_row reminder_id r (db_reminders db)\<rparr>))"

definition finish_reminder :: "string \<Rightarrow> string \<Rightarrow> reminder_status \<Rightarrow> time \<Rightarrow> (db, unit) proc" where
  "finish_reminder reminder_id claim_id st at db =
     (if st \<noteq> StatusSent \<and> st \<noteq> StatusSkipped
      then (Inl (errors_new ''finish reminder: status must be sent or skipped''), db)
      else case get_row (db_reminders db) reminder_id of
        None \<Rightarrow> (Inl (sentinel_error ReminderNotFound), db)
      | Some r \<Rightarrow>
        if rm_claim_id r \<noteq> claim_id \<or> rm_status r \<noteq> StatusDelivering
        then (Inl (errors_new ''finish reminder: claim is not owned by this delivery''), db)
        else let r = r\<lparr>rm_status := st, rm_finished_at := at, rm_claim_id := [], rm_claim_expires := zero_time\<rparr>
          in (Inr (), db\<lparr>db_reminders := put_row reminder_id r (db_reminders db)\<rparr>))"

definition release_reminder :: "string \<Rightarrow> string \<Rightarrow> (db, unit) proc" where
  "release_reminder reminder_id claim_id db =
     (case get_row (db_reminders db) reminder_id of
        None \<Rightarrow> (Inl (sentinel_error ReminderNotFound), db)
      | Some r \<Rightarrow>
        if rm_claim_id r \<noteq> claim_id \<or> rm_status r \<noteq> StatusDelivering then (Inr (), db)
        else let r = r\<lparr>rm_status := StatusScheduled, rm_claim_id := [], rm_claim_expires := zero_time\<rparr>
          in (Inr (), db\<lparr>db_reminders := put_row reminder_id r (db_reminders db)\<rparr>))"

section \<open>Customers and profiles\<close>

definition find_or_create_by_channel_identity ::
  "channel_identity \<Rightarrow> customer \<Rightarrow> (db, customer) proc" where
  "find_or_create_by_channel_identity identity candidate db =
     (case identity_validate identity of Some e \<Rightarrow> (Inl e, db)
      | None \<Rightarrow>
        (case get_row (db_identities db) (identity_key identity) of
           Some existing \<Rightarrow> (Inr (row_or zero_customer (db_customers db) (ci_customer_id existing)), db)
         | None \<Rightarrow> (Inr candidate,
             db\<lparr>db_customers := put_row (cu_id candidate) candidate (db_customers db),
                db_identities := put_row (identity_key identity) identity (db_identities db)\<rparr>)))"

definition update_contact :: "time \<Rightarrow> string \<Rightarrow> string \<Rightarrow> string \<Rightarrow> (db, unit) proc" where
  "update_contact now customer_id name phone db =
     (case get_row (db_customers db) customer_id of
        None \<Rightarrow> (Inl (sentinel_error CustomerNotFound), db)
      | Some stored \<Rightarrow>
        let stored = (if name \<noteq> [] then stored\<lparr>cu_name := name\<rparr> else stored);
            stored = (if phone \<noteq> [] then stored\<lparr>cu_phone := phone\<rparr> else stored);
            stored = stored\<lparr>cu_updated_at := now\<rparr>
        in (Inr (), db\<lparr>db_customers := put_row customer_id stored (db_customers db)\<rparr>))"

definition link_verified_identity ::
  "(string \<Rightarrow> string option) \<Rightarrow> (string \<Rightarrow> string) \<Rightarrow> time \<Rightarrow> channel_identity \<Rightarrow> customer \<Rightarrow> string \<Rightarrow>
   (db, customer) proc" where
  "link_verified_identity lib sha now identity old raw_phone db =
     (case normalize_phone lib raw_phone of Inl e \<Rightarrow> (Inl e, db)
      | Inr phone \<Rightarrow>
        (case get_row (db_identities db) (identity_key identity) of
           None \<Rightarrow> (Inl (sentinel_error CustomerNotFound), db)
         | Some stored \<Rightarrow>
           if ci_customer_id stored \<noteq> cu_id old then (Inl (sentinel_error CustomerNotFound), db)
           else
             let canonical_id = profile_id sha phone;
                 found = get_row (db_customers db) canonical_id;
                 canonical = (case found of Some c \<Rightarrow> c | None \<Rightarrow>
                   \<lparr>cu_id = canonical_id, cu_name = cu_name old, cu_phone = phone, cu_verified_phone = [],
                    cu_created_at = cu_created_at old, cu_updated_at = now\<rparr>);
                 db = (if found = None then db\<lparr>db_customers := put_row canonical_id canonical (db_customers db)\<rparr> else db);
                 aliases = row_or [] (db_aliases db) canonical_id;
                 db = (if cu_id old \<noteq> canonical_id \<and> \<not> has_prefix (cu_id old) ''verified_phone_'' \<and> cu_id old \<notin> set aliases
                       then db\<lparr>db_aliases := put_row canonical_id (aliases @ [cu_id old]) (db_aliases db)\<rparr> else db)
             in (Inr (canonical\<lparr>cu_verified_phone := phone\<rparr>),
                 db\<lparr>db_identities := put_row (identity_key identity) (stored\<lparr>ci_customer_id := canonical_id\<rparr>)
                     (db_identities db)\<rparr>)))"

section \<open>Conversations and their transcript\<close>

definition find_or_open :: "conversation \<Rightarrow> (db, conversation) proc" where
  "find_or_open candidate db =
     (case get_row (db_conversations db) (conv_key candidate) of
        Some existing \<Rightarrow> (Inr existing, db)
      | None \<Rightarrow> (Inr candidate,
          db\<lparr>db_conversations := put_row (conv_key candidate) candidate (db_conversations db),
             db_conversation_keys := put_row (cv_id candidate) (conv_key candidate) (db_conversation_keys db)\<rparr>))"

definition store_conversation :: "conversation \<Rightarrow> db \<Rightarrow> db" where
  "store_conversation conv db =
     db\<lparr>db_conversations := put_row (conv_key conv) conv (db_conversations db),
        db_conversation_keys := put_row (cv_id conv) (conv_key conv) (db_conversation_keys db)\<rparr>"

definition save_conversation :: "conversation \<Rightarrow> (db, unit) proc" where
  "save_conversation conv db =
     (case get_row (db_conversations db) (conv_key conv) of
        Some current \<Rightarrow>
          if cv_revision current \<noteq> cv_revision conv then (Inl (sentinel_error ExternalReplyConflict), db)
          else (Inr (), store_conversation conv db)
      | None \<Rightarrow> (Inr (), store_conversation conv db))"

definition find_by_id :: "string \<Rightarrow> (db, conversation) proc" where
  "find_by_id conversation_id db =
     (case get_row (db_conversation_keys db) conversation_id of
        None \<Rightarrow> (Inl (sentinel_error ConversationNotFound), db)
      | Some key \<Rightarrow> (Inr (row_or zero_conversation (db_conversations db) key), db))"

definition same_message :: "stored_message \<Rightarrow> stored_message \<Rightarrow> bool" where
  "same_message m stored \<longleftrightarrow>
     ms_id stored = ms_id m \<or> (ms_external_id m \<noteq> [] \<and> ms_external_id stored = ms_external_id m)"

definition append_message :: "stored_message \<Rightarrow> (db, unit) proc" where
  "append_message m db =
     (let stored = row_or [] (db_messages db) (ms_conversation_id m) in
      if list_ex (same_message m) stored then (Inr (), db)
      else (Inr (), db\<lparr>db_messages := put_row (ms_conversation_id m) (stored @ [m]) (db_messages db)\<rparr>))"

definition recent :: "string \<Rightarrow> int \<Rightarrow> (db, stored_message list) proc" where
  "recent conversation_id limit db =
     (let stored = row_or [] (db_messages db) conversation_id in
      (Inr (if limit > 0 \<and> int (length stored) > limit
            then drop (length stored - nat limit) stored else stored), db))"

definition register_turn :: "string \<Rightarrow> string \<Rightarrow> (db, unit) proc" where
  "register_turn key event_id db = (Inr (), db\<lparr>db_latest_turn := put_row key event_id (db_latest_turn db)\<rparr>)"

definition is_latest_turn :: "string \<Rightarrow> string \<Rightarrow> (db, bool) proc" where
  "is_latest_turn key event_id db = (Inr (row_or [] (db_latest_turn db) key = event_id), db)"

definition record_external_reply_observed ::
  "conversation \<Rightarrow> stored_message \<Rightarrow> time \<Rightarrow> time \<Rightarrow> (db, conversation \<times> bool) proc" where
  "record_external_reply_observed candidate m sent_at received_at db =
     (let conv = row_or candidate (db_conversations db) (conv_key candidate);
          stored = row_or [] (db_messages db) (cv_id conv) in
      if list_ex (\<lambda>p. ms_direction p = DirectionOutbound \<and> ms_external_id p = ms_external_id m) stored
      then (Inr (conv, False), db)
      else
        let m = m\<lparr>ms_conversation_id := cv_id conv\<rparr>;
            db = db\<lparr>db_messages := put_row (cv_id conv) (stored @ [m]) (db_messages db)\<rparr>;
            observed = observe_external_reply conv sent_at received_at
        in (Inr (observed, cv_revision observed \<noteq> cv_revision conv), store_conversation observed db))"

definition record_external_reply ::
  "conversation \<Rightarrow> stored_message \<Rightarrow> time \<Rightarrow> time \<Rightarrow> (db, unit) proc" where
  "record_external_reply candidate m sent_at received_at =
     attempt (record_external_reply_observed candidate m sent_at received_at) id (\<lambda>_. ret ())"

definition link_staff_thread :: "string \<Rightarrow> string \<Rightarrow> (db, unit) proc" where
  "link_staff_thread staff_message_id conversation_id db =
     (Inr (), db\<lparr>db_staff_threads := put_row staff_message_id conversation_id (db_staff_threads db)\<rparr>)"

definition conversation_for_staff_thread :: "string \<Rightarrow> (db, string) proc" where
  "conversation_for_staff_thread staff_message_id db =
     (Inr (row_or [] (db_staff_threads db) staff_message_id), db)"

section \<open>Appointments\<close>

fun replace_booking :: "booking \<Rightarrow> booking list \<Rightarrow> booking list" where
  "replace_booking b [] = [b]"
| "replace_booking b (stored # bs) =
     (if bk_external_id stored = bk_external_id b then b # bs else stored # replace_booking b bs)"

definition save_booking :: "booking \<Rightarrow> (db, unit) proc" where
  "save_booking b db =
     (Inr (), db\<lparr>db_bookings :=
        put_row (bk_customer_id b) (replace_booking b (row_or [] (db_bookings db) (bk_customer_id b))) (db_bookings db)\<rparr>)"

definition find_booking :: "string \<Rightarrow> (db, booking) proc" where
  "find_booking reference db =
     (case find (\<lambda>b. bk_external_id b = reference) (concat (rows (db_bookings db))) of
        Some b \<Rightarrow> (Inr b, db) | None \<Rightarrow> (Inl (sentinel_error BookingNotFound), db))"

definition list_bookings :: "string \<Rightarrow> (db, booking list) proc" where
  "list_bookings customer_id db =
     (Inr (sort_key bk_starts_at
        (concat (map (row_or [] (db_bookings db)) (customer_id # row_or [] (db_aliases db) customer_id)))), db)"

section \<open>Processed deliveries\<close>

definition claim_delivery :: "string \<Rightarrow> string \<Rightarrow> time \<Rightarrow> (db, bool) proc" where
  "claim_delivery key claim_id at db =
     (let grant = (Inr True, db\<lparr>db_processed := put_row key
          \<lparr>pe_claim_id = claim_id, pe_processed_at = zero_time, pe_expires_at = at + db_claim_ttl db\<rparr>
          (db_processed db)\<rparr>) in
      case get_row (db_processed db) key of
        None \<Rightarrow> grant
      | Some e \<Rightarrow>
        if after (pe_expires_at e) at
        then (if is_zero (pe_processed_at e) then (Inl (sentinel_error DeliveryBusy), db) else (Inr False, db))
        else grant)"

definition prune_processed :: "time \<Rightarrow> processed_entry table \<Rightarrow> processed_entry table" where
  "prune_processed now = filter (\<lambda>(k, e). after (pe_expires_at e) now)"

definition complete_delivery :: "time \<Rightarrow> string \<Rightarrow> string \<Rightarrow> time \<Rightarrow> (db, unit) proc" where
  "complete_delivery now key claim_id at db =
     (let refused = (Inl (errors_new ''complete delivery: claim is not owned by this request''), db) in
      case get_row (db_processed db) key of
        None \<Rightarrow> refused
      | Some e \<Rightarrow>
        if pe_claim_id e \<noteq> claim_id then refused
        else (Inr (), db\<lparr>db_processed := prune_processed now (put_row key
          \<lparr>pe_claim_id = [], pe_processed_at = at, pe_expires_at = at + db_processed_ttl db\<rparr> (db_processed db))\<rparr>))"

definition release_delivery :: "string \<Rightarrow> string \<Rightarrow> (db, unit) proc" where
  "release_delivery key claim_id db =
     (case get_row (db_processed db) key of
        None \<Rightarrow> (Inr (), db)
      | Some e \<Rightarrow>
        if pe_claim_id e = claim_id \<and> is_zero (pe_processed_at e)
        then (Inr (), db\<lparr>db_processed := delete_row key (db_processed db)\<rparr>) else (Inr (), db))"

section \<open>Notification entries\<close>

text \<open>
  Rows are copied in and out through JSON, which is the identity on the fields of an entry. The
  callback runs on the copies; its error leaves the store as it was. Variables the callback
  assigns for its caller are its value.
\<close>

definition get_notification :: "string \<Rightarrow> (db, entry) proc" where
  "get_notification key db = (Inr (row_or zero_entry (db_entries db) key), db)"

definition transact_notifications ::
  "string list \<Rightarrow> (entry table \<Rightarrow> ('a \<times> entry table) result) \<Rightarrow> (db, 'a) proc" where
  "transact_notifications keys fn db =
     (case fn (fold (\<lambda>k. put_row k (row_or zero_entry (db_entries db) k)) keys []) of
        Inl e \<Rightarrow> (Inl e, db)
      | Inr (x, rs) \<Rightarrow>
        (Inr x, db\<lparr>db_entries := fold (\<lambda>k. put_row k (row_or zero_entry rs k)) keys (db_entries db)\<rparr>))"

definition pending_notifications :: "(db, entry list) proc" where
  "pending_notifications db =
     (Inr (filter (\<lambda>e. \<not> (ne_kind e \<noteq> ''event'' \<or> ne_state e = ''done'')) (rows (db_entries db))), db)"

definition pending_sms_notifications :: "(db, entry list) proc" where
  "pending_sms_notifications db =
     (Inr (take 20 (sort_key ne_updated_at
        (filter (\<lambda>e. \<not> (ne_kind e \<noteq> ''event'' \<or>
           (ne_outcome e \<noteq> ''accepted_sms'' \<and> ne_outcome e \<noteq> ''uncertain_sms'' \<and> ne_outcome e \<noteq> ''sms_alert_retryable'')))
          (rows (db_entries db))))), db)"

section \<open>The staff inbox\<close>

definition conversation_limit :: int where "conversation_limit = 8"
definition history_limit :: int where "history_limit = 5"

definition inbox_limit :: "int \<Rightarrow> int \<Rightarrow> int" where
  "inbox_limit limit maximum = (if limit \<le> 0 \<or> limit > maximum then maximum else limit)"

definition conv_cursor :: "conversation \<Rightarrow> cursor" where
  "conv_cursor c = Cursor (cv_last_message_at c) (conv_key c)"

instantiation cursor :: linorder
begin

definition less_eq_cursor :: "cursor \<Rightarrow> cursor \<Rightarrow> bool" where
  "less_eq_cursor a b \<longleftrightarrow> cursor_last a < cursor_last b \<or> (cursor_last a = cursor_last b \<and> cursor_key a \<le> cursor_key b)"

definition less_cursor :: "cursor \<Rightarrow> cursor \<Rightarrow> bool" where
  "less_cursor a b \<longleftrightarrow> cursor_last a < cursor_last b \<or> (cursor_last a = cursor_last b \<and> cursor_key a < cursor_key b)"

instance
  by standard (auto simp: less_eq_cursor_def less_cursor_def intro: cursor.expand)

end

definition telegram_conversations ::
  "cursor option \<Rightarrow> int \<Rightarrow> (db, conversation list \<times> cursor option) proc" where
  "telegram_conversations boundary limit db =
     (let limit = nat (inbox_limit limit conversation_limit);
          items = filter (\<lambda>c. cv_provider c = ProviderTelegram \<and>
            (case boundary of None \<Rightarrow> True | Some b \<Rightarrow>
              \<not> (after (cv_last_message_at c) (cursor_last b) \<or>
                 (cv_last_message_at c = cursor_last b \<and> cursor_key b \<le> conv_key c))))
            (rows (db_conversations db));
          items = rev (sort_key conv_cursor items) in
      if length items > limit
      then (Inr (take limit items, Some (conv_cursor (take limit items ! (limit - 1)))), db)
      else (Inr (items, None), db))"

definition inbox_customer :: "string \<Rightarrow> (db, customer) proc" where
  "inbox_customer customer_id db = (Inr (row_or zero_customer (db_customers db) customer_id), db)"

definition inbox_history ::
  "string \<Rightarrow> string \<Rightarrow> int \<Rightarrow> (db, stored_message list \<times> string) proc" where
  "inbox_history conversation_id boundary limit db =
     (let limit = nat (inbox_limit limit history_limit);
          items = filter (\<lambda>m. boundary = [] \<or> ms_id m < boundary) (row_or [] (db_messages db) conversation_id);
          items = rev (sort_key ms_id items) in
      if length items > limit
      then (Inr (rev (take limit items), ms_id (take limit items ! (limit - 1))), db)
      else (Inr (rev items, []), db))"

definition save_inbox_page :: "time \<Rightarrow> inbox_page \<Rightarrow> (db, unit) proc" where
  "save_inbox_page now page db =
     (Inr (), db\<lparr>db_inbox_pages := put_row (ip_id page) page
        (filter (\<lambda>(k, p). after (ip_expires_at p) now) (db_inbox_pages db))\<rparr>)"

definition find_inbox_page :: "time \<Rightarrow> string \<Rightarrow> (db, inbox_page) proc" where
  "find_inbox_page now page_id db =
     (case get_row (db_inbox_pages db) page_id of
        None \<Rightarrow> (Inl (sentinel_error PageExpired), db)
      | Some page \<Rightarrow> if \<not> after (ip_expires_at page) now then (Inl (sentinel_error PageExpired), db) else (Inr page, db))"

end
