(* ===== verification/Leases.thy ===== *)
theory Leases
  imports Prelude
begin

text \<open>
  The contract of a processing lease, the interface between a worker and the store that keeps
  deliveries and reminders from being handled twice. A worker claims a key under a claim id of
  its own, does the work, and finishes or releases the claim; a crashed worker's lease expires.
  The laws speak about what is observable: who holds a key and until when, and whether the key
  is settled. The lemmas are proved once here, for any store that keeps the laws.
\<close>

datatype claim_result = Granted | Busy | Done | Unknown

text \<open>One call of a worker on the store. \<open>Finish\<close> carries the instant it records and the store's clock.\<close>

datatype lease_event =
    Claim string string time
  | Finish string string time time
  | Release string string

text \<open>
  An event that leaves the lease of \<open>k\<close> by \<open>c\<close>, which ends at \<open>u\<close>, in place: the holder neither
  finishes nor releases it, and the event happens before the lease ends.
\<close>

fun preserves :: "string \<Rightarrow> string \<Rightarrow> time \<Rightarrow> lease_event \<Rightarrow> bool" where
  "preserves k c u (Claim k' c' t) \<longleftrightarrow> (k' = k \<longrightarrow> t < u)"
| "preserves k c u (Finish k' c' t0 clock) \<longleftrightarrow> (k', c') \<noteq> (k, c) \<and> clock < u"
| "preserves k c u (Release k' c') \<longleftrightarrow> (k', c') \<noteq> (k, c)"

text \<open>The workers' claim ids are never empty: they are freshly generated.\<close>

fun named :: "lease_event \<Rightarrow> bool" where
  "named (Claim k c t) \<longleftrightarrow> True"
| "named (Finish k c t clock) \<longleftrightarrow> c \<noteq> []"
| "named (Release k c) \<longleftrightarrow> c \<noteq> []"

locale lease =
  fixes inv :: "'s \<Rightarrow> bool"
    and claim :: "string \<Rightarrow> string \<Rightarrow> time \<Rightarrow> 's \<Rightarrow> claim_result \<times> 's"
    and finish :: "string \<Rightarrow> string \<Rightarrow> time \<Rightarrow> time \<Rightarrow> 's \<Rightarrow> bool \<times> 's"
    and release :: "string \<Rightarrow> string \<Rightarrow> 's \<Rightarrow> 's"
    and known :: "'s \<Rightarrow> string \<Rightarrow> bool"
    and holder :: "'s \<Rightarrow> string \<Rightarrow> (string \<times> time) option"
    and settled :: "'s \<Rightarrow> string \<Rightarrow> time \<Rightarrow> bool"
    and keep :: "'s \<Rightarrow> duration"
  assumes claim_inv: "inv s \<Longrightarrow> inv (snd (claim k c t0 s))"
    and finish_inv: "inv s \<Longrightarrow> inv (snd (finish k c t0 clock s))"
    and release_inv: "inv s \<Longrightarrow> inv (release k c s)"
    and claim_granted: "inv s \<Longrightarrow> claim k c t0 s = (Granted, s') \<Longrightarrow>
        \<not> settled s k t0 \<and> (\<forall>c' u. holder s k = Some (c', u) \<longrightarrow> u \<le> t0) \<and>
        (\<exists>u. holder s' k = Some (c, u))"
    and claim_busy: "inv s \<Longrightarrow> claim k c t0 s = (Busy, s') \<Longrightarrow>
        s' = s \<and> (\<exists>c' u. holder s k = Some (c', u) \<and> t0 < u)"
    and claim_done: "inv s \<Longrightarrow> claim k c t0 s = (Done, s') \<Longrightarrow> s' = s \<and> settled s k t0"
    and claim_unknown: "inv s \<Longrightarrow> claim k c t0 s = (Unknown, s') \<Longrightarrow> s' = s \<and> \<not> known s k"
    and claim_frame: "inv s \<Longrightarrow> claim k c t0 s = (r, s') \<Longrightarrow> k' \<noteq> k \<Longrightarrow>
        holder s' k' = holder s k' \<and> settled s' k' = settled s k'"
    and finish_owned: "inv s \<Longrightarrow> holder s k = Some (c, u) \<Longrightarrow> c \<noteq> [] \<Longrightarrow> t0 \<noteq> zero_time \<Longrightarrow>
        finish k c t0 clock s = (ok, s') \<Longrightarrow>
        ok \<and> holder s' k = None \<and> (clock < t0 + keep s \<longrightarrow> (\<forall>t < t0 + keep s. settled s' k t))"
    and finish_foreign: "inv s \<Longrightarrow> \<forall>u. holder s k \<noteq> Some (c, u) \<Longrightarrow> c \<noteq> [] \<Longrightarrow>
        finish k c t0 clock s = (False, s)"
    and finish_frame: "inv s \<Longrightarrow> finish k c t0 clock s = (ok, s') \<Longrightarrow> k' \<noteq> k \<Longrightarrow>
        holder s k' = Some (c', u) \<Longrightarrow> clock < u \<Longrightarrow> holder s' k' = Some (c', u)"
    and release_owned: "inv s \<Longrightarrow> holder s k = Some (c, u) \<Longrightarrow> c \<noteq> [] \<Longrightarrow>
        holder (release k c s) k = None \<and> settled (release k c s) k = settled s k \<and> known (release k c s) k"
    and release_foreign: "inv s \<Longrightarrow> \<forall>u. holder s k \<noteq> Some (c, u) \<Longrightarrow> c \<noteq> [] \<Longrightarrow> release k c s = s"
    and release_frame: "inv s \<Longrightarrow> k' \<noteq> k \<Longrightarrow>
        holder (release k c s) k' = holder s k' \<and> settled (release k c s) k' = settled s k'"
begin

fun exec :: "lease_event \<Rightarrow> 's \<Rightarrow> 's" where
  "exec (Claim k c t0) s = snd (claim k c t0 s)"
| "exec (Finish k c t0 clock) s = snd (finish k c t0 clock s)"
| "exec (Release k c) s = release k c s"

definition run :: "lease_event list \<Rightarrow> 's \<Rightarrow> 's" where
  "run es s = fold exec es s"

lemma exec_inv: "inv s \<Longrightarrow> inv (exec e s)"
  by (cases e) (simp_all add: claim_inv finish_inv release_inv)

lemma run_inv: "inv s \<Longrightarrow> inv (run es s)"
  by (induction es arbitrary: s) (simp_all add: run_def exec_inv)

text \<open>A live lease cannot be taken: the claim is refused and nothing changes.\<close>

lemma live_claim_refused:
  assumes "inv s" "holder s k = Some (c, u)" "t0 < u"
  shows "fst (claim k c' t0 s) \<noteq> Granted" "snd (claim k c' t0 s) = s"
proof -
  obtain r s' where eq: "claim k c' t0 s = (r, s')" by force
  have "r \<noteq> Granted" using claim_granted [OF assms(1)] eq assms(2,3) by fastforce
  moreover have "s' = s" if "r \<noteq> Granted"
    using that eq claim_busy [OF assms(1)] claim_done [OF assms(1)] claim_unknown [OF assms(1)]
    by (cases r) blast+
  ultimately show "fst (claim k c' t0 s) \<noteq> Granted" "snd (claim k c' t0 s) = s"
    by (simp_all add: eq)
qed

text \<open>A granted claim holds the key.\<close>

lemma granted_holder: "inv s \<Longrightarrow> claim k c t0 s = (Granted, s') \<Longrightarrow> \<exists>u. holder s' k = Some (c, u)"
  using claim_granted by blast

lemma exec_preserves:
  assumes "inv s" "holder s k = Some (c, u)" "preserves k c u e" "named e"
  shows "holder (exec e s) k = Some (c, u)"
proof (cases e)
  case (Claim k' c' t0)
  obtain r s' where eq: "claim k' c' t0 s = (r, s')" by force
  show ?thesis
  proof (cases "k' = k")
    case True
    with assms Claim show ?thesis by (simp add: live_claim_refused)
  next
    case False
    with assms Claim claim_frame [OF _ eq, of k] show ?thesis by (simp add: eq)
  qed
next
  case (Finish k' c' t0 clock)
  obtain ok s' where eq: "finish k' c' t0 clock s = (ok, s')" by force
  show ?thesis
  proof (cases "k' = k")
    case True
    with assms Finish have "c' \<noteq> c" "c' \<noteq> []" by auto
    with assms(1,2) True finish_foreign [of s k c' t0 clock] show ?thesis by (simp add: Finish)
  next
    case False
    with assms Finish finish_frame [OF _ eq, of k c u] show ?thesis by (simp add: eq)
  qed
next
  case (Release k' c')
  show ?thesis
  proof (cases "k' = k")
    case True
    with assms Release have "c' \<noteq> c" "c' \<noteq> []" by auto
    with assms(1,2) True release_foreign [of s k c'] show ?thesis by (simp add: Release)
  next
    case False
    with assms Release release_frame [of s k k' c'] show ?thesis by simp
  qed
qed

text \<open>Mutual exclusion: while a lease lives, no interleaving of other workers' calls takes it.\<close>

lemma run_preserves:
  assumes "inv s" "holder s k = Some (c, u)" "list_all (preserves k c u) es" "list_all named es"
  shows "holder (run es s) k = Some (c, u)"
  using assms
proof (induction es arbitrary: s)
  case (Cons e es)
  then have "holder (exec e s) k = Some (c, u)" by (intro exec_preserves) auto
  with Cons exec_inv [of s e] show ?case by (simp add: run_def)
qed (simp add: run_def)

lemma exclusive:
  assumes "inv s" "claim k c t0 s = (Granted, s')" "holder s' k = Some (c, u)"
    and "list_all (preserves k c u) es" "list_all named es" and "t1 < u"
  shows "fst (claim k c' t1 (run es s')) \<noteq> Granted"
proof -
  have "inv s'" using claim_inv [OF assms(1), of k c t0] assms(2) by simp
  with assms(3-6) show ?thesis by (intro live_claim_refused(1) [where c = c and u = u] run_inv run_preserves)
qed

text \<open>Fencing: a worker that lost its lease to another can neither finish nor release.\<close>

lemma fenced:
  assumes "inv s" "claim k c' t0 s = (Granted, s')" "c \<noteq> c'" "c \<noteq> []"
  shows "finish k c t1 clock s' = (False, s')" "release k c s' = s'"
proof -
  have "inv s'" using claim_inv [OF assms(1), of k c' t0] assms(2) by simp
  moreover from granted_holder [OF assms(1,2)] assms(3) have "\<forall>u. holder s' k \<noteq> Some (c, u)" by auto
  ultimately show "finish k c t1 clock s' = (False, s')" "release k c s' = s'"
    using finish_foreign release_foreign assms(4) by blast+
qed

text \<open>A finished key is settled: later claims are told the work is done.\<close>

lemma settled_claim_refused:
  assumes "inv s" "settled s k t0"
  shows "fst (claim k c t0 s) \<noteq> Granted"
proof
  assume "fst (claim k c t0 s) = Granted"
  then have "claim k c t0 s = (Granted, snd (claim k c t0 s))" by (metis prod.collapse)
  from claim_granted [OF assms(1) this] assms(2) show False by blast
qed

lemma finished_not_granted:
  assumes "inv s" "holder s k = Some (c, u)" "c \<noteq> []" "t0 \<noteq> zero_time"
    and "finish k c t0 clock s = (ok, s')" "clock < t0 + keep s" "t < t0 + keep s"
  shows "ok" "fst (claim k c' t s') \<noteq> Granted"
proof -
  have "inv s'" using finish_inv [OF assms(1), of k c t0 clock] assms(5) by simp
  with finish_owned [OF assms(1-5)] assms(6,7)
  show "ok" "fst (claim k c' t s') \<noteq> Granted" using settled_claim_refused by blast+
qed

lemma released_claimable:
  assumes "inv s" "holder s k = Some (c, u)" "c \<noteq> []" "\<not> settled s k t"
  shows "fst (claim k c' t (release k c s)) = Granted"
proof -
  obtain r s' where eq: "claim k c' t (release k c s) = (r, s')" by force
  note inv = release_inv [OF assms(1), of k c]
  from release_owned [OF assms(1-3)] assms(4) have *: "holder (release k c s) k = None"
    "\<not> settled (release k c s) k t" "known (release k c s) k" by simp_all
  show ?thesis
    using claim_busy [OF inv] claim_done [OF inv] claim_unknown [OF inv] * eq by (cases r) fastforce+
qed

end

end
