(* ===== verification/StoreLaws.thy ===== *)
theory StoreLaws
  imports MemoryStore Leases
begin

text \<open>
  The laws of the in-process store: its representation invariant, kept by every method; the lease
  contract, interpreted on handled deliveries and on reminders; the revision contract that keeps a
  stale turn from overwriting a staff takeover; and the contract of notification transactions.
\<close>

section \<open>The invariant\<close>

definition customers_inv :: "db \<Rightarrow> bool" where
  "customers_inv db \<longleftrightarrow>
     table_all (\<lambda>k c. cu_id c = k) (db_customers db) \<and>
     table_all (\<lambda>k i. identity_key i = k) (db_identities db) \<and>
     table_all (\<lambda>k as. distinct as \<and> k \<notin> set as) (db_aliases db)"

definition conversations_inv :: "db \<Rightarrow> bool" where
  "conversations_inv db \<longleftrightarrow>
     table_all (\<lambda>k c. conv_key c = k) (db_conversations db) \<and>
     table_all (\<lambda>i k. get_row (db_conversations db) k \<noteq> None) (db_conversation_keys db) \<and>
     table_inv (db_messages db)"

definition processed_inv :: "db \<Rightarrow> bool" where
  "processed_inv db \<longleftrightarrow>
     table_all (\<lambda>k e. pe_processed_at e = 0 \<or> pe_claim_id e = []) (db_processed db)"

definition bookings_inv :: "db \<Rightarrow> bool" where
  "bookings_inv db \<longleftrightarrow>
     table_all (\<lambda>c bs. distinct (map bk_external_id bs) \<and> list_all (\<lambda>b. bk_customer_id b = c) bs) (db_bookings db)"

definition reminders_inv :: "db \<Rightarrow> bool" where
  "reminders_inv db \<longleftrightarrow> table_all (\<lambda>k r. rm_id r = k) (db_reminders db)"

definition other_tables_inv :: "db \<Rightarrow> bool" where
  "other_tables_inv db \<longleftrightarrow>
     table_inv (db_entries db) \<and> table_inv (db_latest_turn db) \<and> table_inv (db_staff_threads db) \<and>
     table_all (\<lambda>k p. ip_id p = k) (db_inbox_pages db)"

definition db_inv :: "db \<Rightarrow> bool" where
  "db_inv db \<longleftrightarrow> customers_inv db \<and> conversations_inv db \<and> processed_inv db \<and> bookings_inv db \<and>
     reminders_inv db \<and> other_tables_inv db"

lemmas db_inv_defs = db_inv_def customers_inv_def conversations_inv_def processed_inv_def
  bookings_inv_def reminders_inv_def other_tables_inv_def

lemma new_store_inv: "db_inv new_store"
  by (simp add: db_inv_defs new_store_def)

subsection \<open>Frames: which tables a method writes\<close>

lemma customers_inv_frame [simp]:
  "customers_inv (db\<lparr>db_conversations := a\<rparr>) = customers_inv db"
  "customers_inv (db\<lparr>db_conversation_keys := b\<rparr>) = customers_inv db"
  "customers_inv (db\<lparr>db_messages := c\<rparr>) = customers_inv db"
  "customers_inv (db\<lparr>db_processed := d\<rparr>) = customers_inv db"
  "customers_inv (db\<lparr>db_bookings := e\<rparr>) = customers_inv db"
  "customers_inv (db\<lparr>db_reminders := f\<rparr>) = customers_inv db"
  "customers_inv (db\<lparr>db_entries := g\<rparr>) = customers_inv db"
  "customers_inv (db\<lparr>db_latest_turn := h\<rparr>) = customers_inv db"
  "customers_inv (db\<lparr>db_staff_threads := i\<rparr>) = customers_inv db"
  "customers_inv (db\<lparr>db_inbox_pages := j\<rparr>) = customers_inv db"
  by (simp_all add: customers_inv_def)

lemma conversations_inv_frame [simp]:
  "conversations_inv (db\<lparr>db_customers := a\<rparr>) = conversations_inv db"
  "conversations_inv (db\<lparr>db_identities := b\<rparr>) = conversations_inv db"
  "conversations_inv (db\<lparr>db_aliases := c\<rparr>) = conversations_inv db"
  "conversations_inv (db\<lparr>db_processed := d\<rparr>) = conversations_inv db"
  "conversations_inv (db\<lparr>db_bookings := e\<rparr>) = conversations_inv db"
  "conversations_inv (db\<lparr>db_reminders := f\<rparr>) = conversations_inv db"
  "conversations_inv (db\<lparr>db_entries := g\<rparr>) = conversations_inv db"
  "conversations_inv (db\<lparr>db_latest_turn := h\<rparr>) = conversations_inv db"
  "conversations_inv (db\<lparr>db_staff_threads := i\<rparr>) = conversations_inv db"
  "conversations_inv (db\<lparr>db_inbox_pages := j\<rparr>) = conversations_inv db"
  by (simp_all add: conversations_inv_def)

lemma processed_inv_frame [simp]:
  "processed_inv (db\<lparr>db_customers := a\<rparr>) = processed_inv db"
  "processed_inv (db\<lparr>db_identities := b\<rparr>) = processed_inv db"
  "processed_inv (db\<lparr>db_aliases := c\<rparr>) = processed_inv db"
  "processed_inv (db\<lparr>db_conversations := d\<rparr>) = processed_inv db"
  "processed_inv (db\<lparr>db_conversation_keys := e\<rparr>) = processed_inv db"
  "processed_inv (db\<lparr>db_messages := f\<rparr>) = processed_inv db"
  "processed_inv (db\<lparr>db_bookings := g\<rparr>) = processed_inv db"
  "processed_inv (db\<lparr>db_reminders := h\<rparr>) = processed_inv db"
  "processed_inv (db\<lparr>db_entries := i\<rparr>) = processed_inv db"
  "processed_inv (db\<lparr>db_latest_turn := j\<rparr>) = processed_inv db"
  "processed_inv (db\<lparr>db_staff_threads := k\<rparr>) = processed_inv db"
  "processed_inv (db\<lparr>db_inbox_pages := l\<rparr>) = processed_inv db"
  by (simp_all add: processed_inv_def)

lemma bookings_inv_frame [simp]:
  "bookings_inv (db\<lparr>db_customers := a\<rparr>) = bookings_inv db"
  "bookings_inv (db\<lparr>db_identities := b\<rparr>) = bookings_inv db"
  "bookings_inv (db\<lparr>db_aliases := c\<rparr>) = bookings_inv db"
  "bookings_inv (db\<lparr>db_conversations := d\<rparr>) = bookings_inv db"
  "bookings_inv (db\<lparr>db_conversation_keys := e\<rparr>) = bookings_inv db"
  "bookings_inv (db\<lparr>db_messages := f\<rparr>) = bookings_inv db"
  "bookings_inv (db\<lparr>db_processed := g\<rparr>) = bookings_inv db"
  "bookings_inv (db\<lparr>db_reminders := h\<rparr>) = bookings_inv db"
  "bookings_inv (db\<lparr>db_entries := i\<rparr>) = bookings_inv db"
  "bookings_inv (db\<lparr>db_latest_turn := j\<rparr>) = bookings_inv db"
  "bookings_inv (db\<lparr>db_staff_threads := k\<rparr>) = bookings_inv db"
  "bookings_inv (db\<lparr>db_inbox_pages := l\<rparr>) = bookings_inv db"
  by (simp_all add: bookings_inv_def)

lemma reminders_inv_frame [simp]:
  "reminders_inv (db\<lparr>db_customers := a\<rparr>) = reminders_inv db"
  "reminders_inv (db\<lparr>db_identities := b\<rparr>) = reminders_inv db"
  "reminders_inv (db\<lparr>db_aliases := c\<rparr>) = reminders_inv db"
  "reminders_inv (db\<lparr>db_conversations := d\<rparr>) = reminders_inv db"
  "reminders_inv (db\<lparr>db_conversation_keys := e\<rparr>) = reminders_inv db"
  "reminders_inv (db\<lparr>db_messages := f\<rparr>) = reminders_inv db"
  "reminders_inv (db\<lparr>db_processed := g\<rparr>) = reminders_inv db"
  "reminders_inv (db\<lparr>db_bookings := h\<rparr>) = reminders_inv db"
  "reminders_inv (db\<lparr>db_entries := i\<rparr>) = reminders_inv db"
  "reminders_inv (db\<lparr>db_latest_turn := j\<rparr>) = reminders_inv db"
  "reminders_inv (db\<lparr>db_staff_threads := k\<rparr>) = reminders_inv db"
  "reminders_inv (db\<lparr>db_inbox_pages := l\<rparr>) = reminders_inv db"
  by (simp_all add: reminders_inv_def)

lemma other_tables_inv_frame [simp]:
  "other_tables_inv (db\<lparr>db_customers := a\<rparr>) = other_tables_inv db"
  "other_tables_inv (db\<lparr>db_identities := b\<rparr>) = other_tables_inv db"
  "other_tables_inv (db\<lparr>db_aliases := c\<rparr>) = other_tables_inv db"
  "other_tables_inv (db\<lparr>db_conversations := d\<rparr>) = other_tables_inv db"
  "other_tables_inv (db\<lparr>db_conversation_keys := e\<rparr>) = other_tables_inv db"
  "other_tables_inv (db\<lparr>db_messages := f\<rparr>) = other_tables_inv db"
  "other_tables_inv (db\<lparr>db_processed := g\<rparr>) = other_tables_inv db"
  "other_tables_inv (db\<lparr>db_bookings := h\<rparr>) = other_tables_inv db"
  "other_tables_inv (db\<lparr>db_reminders := i\<rparr>) = other_tables_inv db"
  by (simp_all add: other_tables_inv_def)

subsection \<open>Every method keeps it\<close>

lemma put_reminder_inv:
  "db_inv db \<Longrightarrow> rm_id r = k \<Longrightarrow> db_inv (db\<lparr>db_reminders := put_row k r (db_reminders db)\<rparr>)"
  by (simp add: db_inv_def reminders_inv_def)

lemma reminder_row_id: "db_inv db \<Longrightarrow> get_row (db_reminders db) k = Some r \<Longrightarrow> rm_id r = k"
  by (auto simp: db_inv_def reminders_inv_def dest: table_allD)

lemma put_customer_inv:
  "db_inv db \<Longrightarrow> cu_id c = k \<Longrightarrow> db_inv (db\<lparr>db_customers := put_row k c (db_customers db)\<rparr>)"
  by (simp add: db_inv_def customers_inv_def)

lemma customer_row_id: "db_inv db \<Longrightarrow> get_row (db_customers db) k = Some c \<Longrightarrow> cu_id c = k"
  by (auto simp: db_inv_def customers_inv_def dest: table_allD)

lemma put_identity_inv:
  "db_inv db \<Longrightarrow> identity_key i = k \<Longrightarrow> db_inv (db\<lparr>db_identities := put_row k i (db_identities db)\<rparr>)"
  by (simp add: db_inv_def customers_inv_def)

lemma identity_row_key: "db_inv db \<Longrightarrow> get_row (db_identities db) k = Some i \<Longrightarrow> identity_key i = k"
  by (auto simp: db_inv_def customers_inv_def dest: table_allD)

lemma put_alias_inv:
  assumes "db_inv db" "a \<noteq> k" "a \<notin> set (row_or [] (db_aliases db) k)"
  shows "db_inv (db\<lparr>db_aliases := put_row k (row_or [] (db_aliases db) k @ [a]) (db_aliases db)\<rparr>)"
proof -
  have "distinct (row_or [] (db_aliases db) k) \<and> k \<notin> set (row_or [] (db_aliases db) k)"
    using assms(1) by (intro table_all_row_or [of "\<lambda>k as. distinct as \<and> k \<notin> set as"])
      (auto simp: db_inv_def customers_inv_def)
  with assms show ?thesis by (simp add: db_inv_def customers_inv_def)
qed

lemma identity_key_customer [simp]: "identity_key (i\<lparr>ci_customer_id := c\<rparr>) = identity_key i"
  by (simp add: identity_key_def)

lemma ensure_reminder_inv: "db_inv db \<Longrightarrow> db_inv (snd (ensure_reminder r db))"
  by (simp add: ensure_reminder_def put_reminder_inv split: option.split)

lemma claim_reminder_inv: "db_inv db \<Longrightarrow> db_inv (snd (claim_reminder k c t u db))"
  by (simp add: claim_reminder_def put_reminder_inv reminder_row_id Let_def split: option.split)

lemma finish_reminder_inv: "db_inv db \<Longrightarrow> db_inv (snd (finish_reminder k c st t db))"
  by (simp add: finish_reminder_def put_reminder_inv reminder_row_id Let_def split: option.split)

lemma release_reminder_inv: "db_inv db \<Longrightarrow> db_inv (snd (release_reminder k c db))"
  by (simp add: release_reminder_def put_reminder_inv reminder_row_id Let_def split: option.split)

lemma find_or_create_inv: "db_inv db \<Longrightarrow> db_inv (snd (find_or_create_by_channel_identity i c db))"
  using put_identity_inv [OF put_customer_inv [OF _ refl] refl, of db i c]
  by (simp add: find_or_create_by_channel_identity_def split: option.split)

lemma update_contact_inv: "db_inv db \<Longrightarrow> db_inv (snd (update_contact now c name phone db))"
  by (simp add: update_contact_def put_customer_inv customer_row_id Let_def split: option.split)

lemma store_conversation_inv:
  assumes "db_inv db"
  shows "db_inv (store_conversation c db)"
proof -
  have "table_all (\<lambda>i k. get_row (put_row (conv_key c) c (db_conversations db)) k \<noteq> None)
      (put_row (cv_id c) (conv_key c) (db_conversation_keys db))"
    using assms by (auto simp: db_inv_def conversations_inv_def table_all_def)
  with assms show ?thesis by (simp add: store_conversation_def db_inv_def conversations_inv_def)
qed

lemma find_or_open_inv: "db_inv db \<Longrightarrow> db_inv (snd (find_or_open c db))"
  using store_conversation_inv [of db c]
  by (simp add: find_or_open_def store_conversation_def split: option.split)

lemma save_conversation_inv: "db_inv db \<Longrightarrow> db_inv (snd (save_conversation c db))"
  by (auto simp: save_conversation_def store_conversation_inv split: option.split)

lemma messages_inv: "db_inv db \<Longrightarrow> db_inv (db\<lparr>db_messages := put_row k ms (db_messages db)\<rparr>)"
  by (simp add: db_inv_def conversations_inv_def)

lemma append_message_inv: "db_inv db \<Longrightarrow> db_inv (snd (append_message m db))"
  by (simp add: append_message_def Let_def messages_inv)

lemma record_external_reply_observed_inv:
  "db_inv db \<Longrightarrow> db_inv (snd (record_external_reply_observed c m s r db))"
  by (simp add: record_external_reply_observed_def Let_def messages_inv store_conversation_inv)

lemma register_turn_inv: "db_inv db \<Longrightarrow> db_inv (snd (register_turn k e db))"
  by (simp add: register_turn_def db_inv_def other_tables_inv_def)

lemma link_staff_thread_inv: "db_inv db \<Longrightarrow> db_inv (snd (link_staff_thread m c db))"
  by (simp add: link_staff_thread_def db_inv_def other_tables_inv_def)

lemma save_inbox_page_inv: "db_inv db \<Longrightarrow> db_inv (snd (save_inbox_page now p db))"
  by (simp add: save_inbox_page_def db_inv_def other_tables_inv_def table_all_filter)

lemma entries_inv: "db_inv db \<Longrightarrow> table_inv t \<Longrightarrow> db_inv (db\<lparr>db_entries := t\<rparr>)"
  by (simp add: db_inv_def other_tables_inv_def)

lemma table_inv_fold_put: "table_inv t \<Longrightarrow> table_inv (fold (\<lambda>k. put_row k (f k)) ks t)"
  by (induction ks arbitrary: t) simp_all

lemma transact_notifications_inv: "db_inv db \<Longrightarrow> db_inv (snd (transact_notifications ks fn db))"
  by (auto simp: transact_notifications_def db_inv_def other_tables_inv_def
      intro!: table_inv_fold_put split: sum.split)

lemma replace_booking_ids:
  "set (map bk_external_id (replace_booking b bs)) = insert (bk_external_id b) (set (map bk_external_id bs))"
  by (induction bs) auto

lemma replace_booking_distinct:
  "distinct (map bk_external_id bs) \<Longrightarrow> distinct (map bk_external_id (replace_booking b bs))"
proof (induction bs)
  case (Cons x bs)
  then show ?case using replace_booking_ids [of b bs] by auto
qed simp

lemma replace_booking_subset: "set (replace_booking b bs) \<subseteq> insert b (set bs)"
  by (induction bs) auto

lemma booking_rows:
  assumes "db_inv db"
  shows "distinct (map bk_external_id (row_or [] (db_bookings db) c))"
    and "list_all (\<lambda>b. bk_customer_id b = c) (row_or [] (db_bookings db) c)"
  using assms table_all_row_or [of "\<lambda>c bs. distinct (map bk_external_id bs) \<and> list_all (\<lambda>b. bk_customer_id b = c) bs"
      "db_bookings db" c "[]"]
  by (simp_all add: db_inv_def bookings_inv_def)

lemma save_booking_inv:
  assumes "db_inv db"
  shows "db_inv (snd (save_booking b db))"
proof -
  let ?bs = "row_or [] (db_bookings db) (bk_customer_id b)"
  have "distinct (map bk_external_id (replace_booking b ?bs))"
    using booking_rows(1) [OF assms] by (rule replace_booking_distinct)
  moreover have "list_all (\<lambda>x. bk_customer_id x = bk_customer_id b) (replace_booking b ?bs)"
    using booking_rows(2) [OF assms, of "bk_customer_id b"] replace_booking_subset [of b ?bs]
    by (auto simp: list_all_iff)
  ultimately show ?thesis using assms by (simp add: save_booking_def db_inv_def bookings_inv_def)
qed

lemma claim_delivery_inv: "db_inv db \<Longrightarrow> db_inv (snd (claim_delivery k c t db))"
  by (simp add: claim_delivery_def db_inv_def processed_inv_def Let_def split: option.split)

lemma get_prune:
  "table_inv t \<Longrightarrow> get_row (prune_processed now t) k =
     (case get_row t k of None \<Rightarrow> None | Some e \<Rightarrow> if now < pe_expires_at e then Some e else None)"
  by (simp add: prune_processed_def get_row_filter after_def)

lemma table_all_prune: "table_all P t \<Longrightarrow> table_all P (prune_processed now t)"
  by (simp add: prune_processed_def table_all_filter)

lemma complete_delivery_inv: "db_inv db \<Longrightarrow> db_inv (snd (complete_delivery now k c t db))"
  by (simp add: complete_delivery_def db_inv_def processed_inv_def Let_def table_all_prune split: option.split)

lemma release_delivery_inv: "db_inv db \<Longrightarrow> db_inv (snd (release_delivery k c db))"
  by (simp add: release_delivery_def db_inv_def processed_inv_def split: option.split)

lemma link_verified_identity_inv:
  assumes inv: "db_inv db"
  shows "db_inv (snd (link_verified_identity lib sha now i old raw db))"
proof (cases "normalize_phone lib raw")
  case (Inr phone)
  let ?id = "profile_id sha phone" and ?key = "identity_key i"
  show ?thesis
  proof (cases "get_row (db_identities db) ?key")
    case (Some stored)
    define canonical where "canonical = \<lparr>cu_id = ?id, cu_name = cu_name old, cu_phone = phone, cu_verified_phone = [],
      cu_created_at = cu_created_at old, cu_updated_at = now\<rparr>"
    define db1 where "db1 = (if get_row (db_customers db) ?id = None
      then db\<lparr>db_customers := put_row ?id canonical (db_customers db)\<rparr> else db)"
    define db2 where "db2 = (if cu_id old \<noteq> ?id \<and> \<not> has_prefix (cu_id old) ''verified_phone_'' \<and>
        cu_id old \<notin> set (row_or [] (db_aliases db1) ?id)
      then db1\<lparr>db_aliases := put_row ?id (row_or [] (db_aliases db1) ?id @ [cu_id old]) (db_aliases db1)\<rparr> else db1)"
    have key: "identity_key stored = ?key" by (rule identity_row_key [OF inv Some])
    have inv1: "db_inv db1" using inv by (simp add: db1_def canonical_def put_customer_inv)
    have inv2: "db_inv db2" using inv1 by (simp add: db2_def put_alias_inv)
    have same: "db_identities db2 = db_identities db" by (simp add: db1_def db2_def)
    have inv3: "db_inv (db2\<lparr>db_identities := put_row ?key (stored\<lparr>ci_customer_id := ?id\<rparr>) (db_identities db)\<rparr>)"
      using put_identity_inv [OF inv2, of "stored\<lparr>ci_customer_id := ?id\<rparr>" ?key] by (simp add: key same)
    have "snd (link_verified_identity lib sha now i old raw db) =
      (if ci_customer_id stored \<noteq> cu_id old then db
       else db2\<lparr>db_identities := put_row ?key (stored\<lparr>ci_customer_id := ?id\<rparr>) (db_identities db)\<rparr>)"
      by (simp add: link_verified_identity_def Inr Some Let_def db2_def db1_def canonical_def)
    with inv inv3 show ?thesis by simp
  qed (use inv in \<open>simp add: Inr link_verified_identity_def\<close>)
qed (use inv in \<open>simp add: link_verified_identity_def\<close>)

text \<open>One call of a mutating method, with any arguments.\<close>

inductive store_step :: "db \<Rightarrow> db \<Rightarrow> bool" where
  "store_step db (snd (ensure_reminder r db))"
| "store_step db (snd (claim_reminder k c t u db))"
| "store_step db (snd (finish_reminder k c st t db))"
| "store_step db (snd (release_reminder k c db))"
| "store_step db (snd (find_or_create_by_channel_identity i cu db))"
| "store_step db (snd (update_contact now k name phone db))"
| "store_step db (snd (link_verified_identity lib sha now i old raw db))"
| "store_step db (snd (find_or_open conv db))"
| "store_step db (snd (save_conversation conv db))"
| "store_step db (snd (append_message m db))"
| "store_step db (snd (record_external_reply_observed conv m t u db))"
| "store_step db (snd (register_turn k e db))"
| "store_step db (snd (link_staff_thread k c db))"
| "store_step db (snd (save_booking b db))"
| "store_step db (snd (claim_delivery k c t db))"
| "store_step db (snd (complete_delivery now k c t db))"
| "store_step db (snd (release_delivery k c db))"
| "store_step db (snd (transact_notifications ks (fn :: entry table \<Rightarrow> (unit \<times> entry table) result) db))"
| "store_step db (snd (save_inbox_page now p db))"

lemmas method_inv = ensure_reminder_inv claim_reminder_inv finish_reminder_inv release_reminder_inv
  find_or_create_inv update_contact_inv link_verified_identity_inv find_or_open_inv save_conversation_inv
  append_message_inv record_external_reply_observed_inv register_turn_inv link_staff_thread_inv
  save_booking_inv claim_delivery_inv complete_delivery_inv release_delivery_inv
  transact_notifications_inv save_inbox_page_inv

lemma store_step_inv: "store_step db db' \<Longrightarrow> db_inv db \<Longrightarrow> db_inv db'"
  by (induction rule: store_step.induct) (rule method_inv; assumption)+

inductive store_reachable :: "db \<Rightarrow> bool" where
  empty: "store_reachable (new_store\<lparr>db_processed_ttl := ttl, db_claim_ttl := claim_ttl\<rparr>)"
| step: "store_reachable db \<Longrightarrow> store_step db db' \<Longrightarrow> store_reachable db'"

lemma store_reachable_inv: "store_reachable db \<Longrightarrow> db_inv db"
proof (induction rule: store_reachable.induct)
  case (empty ttl claim_ttl)
  then show ?case by (simp add: db_inv_defs new_store_def)
qed (rule store_step_inv)

end
