(* ===== verification/StoreContracts.thy ===== *)
theory StoreContracts
  imports StoreLaws "HOL-Library.Multiset"
begin

text \<open>
  The interfaces the services rely on, interpreted on the in-process store: the lease contract on
  handled deliveries and on reminders, the revision contract that keeps a stale turn from
  overwriting a staff takeover, and the reads and writes of appointments and transcripts.

  Paging through the staff inbox (\<open>memory/staffinbox.go\<close>). A page holds the conversations that
  come right before its boundary, newest first; the boundary of the next page is its last
  conversation. Walking the pages of a store that does not change meanwhile visits every Telegram
  conversation once, newest first, and ends.
\<close>

section \<open>Leases on handled deliveries\<close>

definition delivery_claim :: "string \<Rightarrow> string \<Rightarrow> time \<Rightarrow> db \<Rightarrow> claim_result \<times> db" where
  "delivery_claim k c t db =
     (case claim_delivery k c t db of
        (Inl _, db') \<Rightarrow> (Busy, db') | (Inr granted, db') \<Rightarrow> (if granted then Granted else Done, db'))"

definition delivery_finish :: "string \<Rightarrow> string \<Rightarrow> time \<Rightarrow> time \<Rightarrow> db \<Rightarrow> bool \<times> db" where
  "delivery_finish k c t now db =
     (case complete_delivery now k c t db of (Inl _, db') \<Rightarrow> (False, db') | (Inr _, db') \<Rightarrow> (True, db'))"

definition delivery_release :: "string \<Rightarrow> string \<Rightarrow> db \<Rightarrow> db" where
  "delivery_release k c db = snd (release_delivery k c db)"

definition delivery_holder :: "db \<Rightarrow> string \<Rightarrow> (string \<times> time) option" where
  "delivery_holder db k =
     (case get_row (db_processed db) k of None \<Rightarrow> None
      | Some e \<Rightarrow> if is_zero (pe_processed_at e) then Some (pe_claim_id e, pe_expires_at e) else None)"

definition delivery_settled :: "db \<Rightarrow> string \<Rightarrow> time \<Rightarrow> bool" where
  "delivery_settled db k t =
     (case get_row (db_processed db) k of None \<Rightarrow> False
      | Some e \<Rightarrow> \<not> is_zero (pe_processed_at e) \<and> after (pe_expires_at e) t)"

lemmas delivery_defs = delivery_claim_def delivery_finish_def delivery_release_def
  delivery_holder_def delivery_settled_def claim_delivery_def complete_delivery_def release_delivery_def

lemma processed_row: "processed_inv db \<Longrightarrow> get_row (db_processed db) k = Some e \<Longrightarrow>
    pe_processed_at e = 0 \<or> pe_claim_id e = []"
  by (auto simp: processed_inv_def dest: table_allD)

lemma processed_table: "processed_inv db \<Longrightarrow> table_inv (db_processed db)"
  by (auto simp: processed_inv_def dest: table_all_inv)

interpretation deliveries: lease processed_inv delivery_claim delivery_finish delivery_release
  "\<lambda>_ _. True" delivery_holder delivery_settled db_processed_ttl
proof
  fix s s' :: db and k k' c c' :: string and t0 u clock :: time and ok :: bool and r
  assume inv: "processed_inv s"
  note table = processed_table [OF inv]
  show "processed_inv (snd (delivery_claim k c t0 s))"
    using inv by (simp add: delivery_claim_def claim_delivery_def Let_def processed_inv_def split: option.split)
  show "processed_inv (snd (delivery_finish k c t0 clock s))"
    using inv by (simp add: delivery_finish_def complete_delivery_def Let_def processed_inv_def table_all_prune split: option.split)
  show "processed_inv (delivery_release k c s)"
    using inv by (simp add: delivery_release_def release_delivery_def processed_inv_def split: option.split)
  show "\<not> delivery_settled s k t0 \<and> (\<forall>c' u. delivery_holder s k = Some (c', u) \<longrightarrow> u \<le> t0) \<and>
      (\<exists>u. delivery_holder s' k = Some (c, u))" if "delivery_claim k c t0 s = (Granted, s')"
    using that by (auto simp: delivery_defs time_defs Let_def split: option.splits if_splits)
  show "s' = s \<and> (\<exists>c' u. delivery_holder s k = Some (c', u) \<and> t0 < u)" if "delivery_claim k c t0 s = (Busy, s')"
    using that by (auto simp: delivery_defs time_defs Let_def split: option.splits if_splits)
  show "s' = s \<and> delivery_settled s k t0" if "delivery_claim k c t0 s = (Done, s')"
    using that by (auto simp: delivery_defs time_defs Let_def split: option.splits if_splits)
  show "s' = s \<and> \<not> True" if "delivery_claim k c t0 s = (Unknown, s')"
    using that by (auto simp: delivery_claim_def split: prod.splits sum.splits if_splits)
  show "delivery_holder s' k' = delivery_holder s k' \<and> delivery_settled s' k' = delivery_settled s k'"
    if "delivery_claim k c t0 s = (r, s')" "k' \<noteq> k"
    using that by (auto simp: delivery_defs time_defs Let_def fun_eq_iff split: option.splits if_splits)
  show "ok \<and> delivery_holder s' k = None \<and>
      (clock < t0 + db_processed_ttl s \<longrightarrow> (\<forall>t < t0 + db_processed_ttl s. delivery_settled s' k t))"
    if "delivery_holder s k = Some (c, u)" "c \<noteq> []" "t0 \<noteq> zero_time" "delivery_finish k c t0 clock s = (ok, s')"
    using that table by (auto simp: delivery_defs time_defs Let_def get_prune split: option.splits if_splits)
  show "delivery_finish k c t0 clock s = (False, s)"
    if "\<forall>u. delivery_holder s k \<noteq> Some (c, u)" "c \<noteq> []"
    using that processed_row [OF inv, of k]
    by (auto simp: delivery_defs time_defs Let_def split: option.splits if_splits)
  show "delivery_holder s' k' = Some (c', u)"
    if "delivery_finish k c t0 clock s = (ok, s')" "k' \<noteq> k" "delivery_holder s k' = Some (c', u)" "clock < u"
    using that table by (auto simp: delivery_defs time_defs Let_def get_prune split: option.splits if_splits)
  show "delivery_holder (delivery_release k c s) k = None \<and>
      delivery_settled (delivery_release k c s) k = delivery_settled s k \<and> True"
    if "delivery_holder s k = Some (c, u)" "c \<noteq> []"
    using that by (auto simp: delivery_defs time_defs fun_eq_iff split: option.splits if_splits)
  show "delivery_release k c s = s" if "\<forall>u. delivery_holder s k \<noteq> Some (c, u)" "c \<noteq> []"
    using that processed_row [OF inv, of k] by (auto simp: delivery_defs time_defs split: option.splits if_splits)
  show "delivery_holder (delivery_release k c s) k' = delivery_holder s k' \<and>
      delivery_settled (delivery_release k c s) k' = delivery_settled s k'" if "k' \<noteq> k"
    using that by (auto simp: delivery_defs time_defs fun_eq_iff split: option.splits if_splits)
qed

section \<open>Leases on reminders\<close>

definition reminder_claim :: "duration \<Rightarrow> string \<Rightarrow> string \<Rightarrow> time \<Rightarrow> db \<Rightarrow> claim_result \<times> db" where
  "reminder_claim d k c t db =
     (case claim_reminder k c t (t + d) db of
        (Inl _, db') \<Rightarrow> (Unknown, db')
      | (Inr (r, claimed), db') \<Rightarrow> (if claimed then Granted else if reminder_terminal r then Done else Busy, db'))"

definition reminder_finish :: "bool \<Rightarrow> string \<Rightarrow> string \<Rightarrow> time \<Rightarrow> time \<Rightarrow> db \<Rightarrow> bool \<times> db" where
  "reminder_finish sent k c t now db =
     (case finish_reminder k c (if sent then StatusSent else StatusSkipped) t db of
        (Inl _, db') \<Rightarrow> (False, db') | (Inr _, db') \<Rightarrow> (True, db'))"

definition reminder_release :: "string \<Rightarrow> string \<Rightarrow> db \<Rightarrow> db" where
  "reminder_release k c db = snd (release_reminder k c db)"

definition reminder_known :: "db \<Rightarrow> string \<Rightarrow> bool" where
  "reminder_known db k \<longleftrightarrow> get_row (db_reminders db) k \<noteq> None"

definition reminder_holder :: "db \<Rightarrow> string \<Rightarrow> (string \<times> time) option" where
  "reminder_holder db k =
     (case get_row (db_reminders db) k of None \<Rightarrow> None
      | Some r \<Rightarrow> if rm_status r = StatusDelivering then Some (rm_claim_id r, rm_claim_expires r) else None)"

definition reminder_settled :: "db \<Rightarrow> string \<Rightarrow> time \<Rightarrow> bool" where
  "reminder_settled db k t =
     (case get_row (db_reminders db) k of None \<Rightarrow> False | Some r \<Rightarrow> reminder_terminal r)"

lemmas reminder_lease_defs = reminder_claim_def reminder_finish_def reminder_release_def reminder_known_def
  reminder_holder_def reminder_settled_def claim_reminder_def finish_reminder_def release_reminder_def

interpretation reminder_leases: lease "\<lambda>_. True" "reminder_claim d" "reminder_finish sent" reminder_release
  reminder_known reminder_holder reminder_settled "\<lambda>_. keep" for d sent keep
proof
  fix s s' :: db and k k' c c' :: string and t0 u clock :: time and ok :: bool and r
  show "\<not> reminder_settled s k t0 \<and> (\<forall>c' u. reminder_holder s k = Some (c', u) \<longrightarrow> u \<le> t0) \<and>
      (\<exists>u. reminder_holder s' k = Some (c, u))" if "reminder_claim d k c t0 s = (Granted, s')"
    using that by (auto simp: reminder_lease_defs time_defs Let_def split: option.splits if_splits)
  show "s' = s \<and> (\<exists>c' u. reminder_holder s k = Some (c', u) \<and> t0 < u)" if "reminder_claim d k c t0 s = (Busy, s')"
    using that by (auto simp: reminder_lease_defs time_defs Let_def split: option.splits if_splits)
  show "s' = s \<and> reminder_settled s k t0" if "reminder_claim d k c t0 s = (Done, s')"
    using that by (auto simp: reminder_lease_defs time_defs Let_def split: option.splits if_splits)
  show "s' = s \<and> \<not> reminder_known s k" if "reminder_claim d k c t0 s = (Unknown, s')"
    using that by (auto simp: reminder_lease_defs time_defs Let_def split: option.splits if_splits)
  show "reminder_holder s' k' = reminder_holder s k' \<and> reminder_settled s' k' = reminder_settled s k'"
    if "reminder_claim d k c t0 s = (r, s')" "k' \<noteq> k"
    using that by (auto simp: reminder_lease_defs time_defs Let_def fun_eq_iff split: option.splits if_splits)
  show "ok \<and> reminder_holder s' k = None \<and> (clock < t0 + keep \<longrightarrow> (\<forall>t < t0 + keep. reminder_settled s' k t))"
    if "reminder_holder s k = Some (c, u)" "c \<noteq> []" "t0 \<noteq> zero_time" "reminder_finish sent k c t0 clock s = (ok, s')"
    using that by (auto simp: reminder_lease_defs Let_def split: option.splits if_splits)
  show "reminder_finish sent k c t0 clock s = (False, s)" if "\<forall>u. reminder_holder s k \<noteq> Some (c, u)" "c \<noteq> []"
    using that by (auto simp: reminder_lease_defs Let_def split: option.splits if_splits)
  show "reminder_holder s' k' = Some (c', u)"
    if "reminder_finish sent k c t0 clock s = (ok, s')" "k' \<noteq> k" "reminder_holder s k' = Some (c', u)" "clock < u"
    using that by (auto simp: reminder_lease_defs Let_def split: option.splits if_splits)
  show "reminder_holder (reminder_release k c s) k = None \<and>
      reminder_settled (reminder_release k c s) k = reminder_settled s k \<and> reminder_known (reminder_release k c s) k"
    if "reminder_holder s k = Some (c, u)" "c \<noteq> []"
    using that by (auto simp: reminder_lease_defs reminder_terminal_def Let_def fun_eq_iff split: option.splits if_splits)
  show "reminder_release k c s = s" if "\<forall>u. reminder_holder s k \<noteq> Some (c, u)" "c \<noteq> []"
    using that by (auto simp: reminder_lease_defs Let_def split: option.splits if_splits)
  show "reminder_holder (reminder_release k c s) k' = reminder_holder s k' \<and>
      reminder_settled (reminder_release k c s) k' = reminder_settled s k'" if "k' \<noteq> k"
    using that by (auto simp: reminder_lease_defs Let_def fun_eq_iff split: option.splits if_splits)
qed simp_all

section \<open>A stale turn cannot undo a takeover\<close>

text \<open>
  A repository whose saves are checked against the external-reply revision. A turn of the
  assistant reads a conversation, works on it for a while and saves it; a staff reply that arrives
  meanwhile raises the revision.
\<close>

locale conversation_repository =
  fixes inv :: "'s \<Rightarrow> bool"
    and find_conversation :: "'s \<Rightarrow> string \<Rightarrow> conversation option"
    and save :: "conversation \<Rightarrow> 's \<Rightarrow> bool \<times> 's"
    and takeover :: "conversation \<Rightarrow> stored_message \<Rightarrow> time \<Rightarrow> time \<Rightarrow> 's \<Rightarrow> bool \<times> 's"
  assumes save_inv: "inv s \<Longrightarrow> inv (snd (save c s))"
    and takeover_inv: "inv s \<Longrightarrow> inv (snd (takeover c m t u s))"
    and save_conflict: "find_conversation s (conv_key c) = Some stored \<Longrightarrow> cv_revision stored \<noteq> cv_revision c \<Longrightarrow>
        save c s = (False, s)"
    and save_other: "k \<noteq> conv_key c \<Longrightarrow> find_conversation (snd (save c s)) k = find_conversation s k"
    and save_stores: "save c s = (True, s') \<Longrightarrow> find_conversation s' (conv_key c) = Some c"
    and takeover_recorded: "inv s \<Longrightarrow> find_conversation s (conv_key c) = Some stored \<Longrightarrow>
        takeover c m t u s = (True, s') \<Longrightarrow>
        \<exists>c'. find_conversation s' (conv_key c) = Some c' \<and> cv_state c' = StateHumanActive \<and>
          cv_revision c' = cv_revision stored + 1"
begin

definition save_all :: "conversation list \<Rightarrow> 's \<Rightarrow> 's" where
  "save_all cs s = fold (\<lambda>c s. snd (save c s)) cs s"

lemma save_all_keeps:
  assumes "find_conversation s k = Some stored"
    and "list_all (\<lambda>c. conv_key c \<noteq> k \<or> cv_revision c \<noteq> cv_revision stored) cs"
  shows "find_conversation (save_all cs s) k = Some stored"
  using assms
proof (induction cs arbitrary: s)
  case (Cons c cs)
  have "find_conversation (snd (save c s)) k = Some stored"
  proof (cases "conv_key c = k")
    case True
    with Cons.prems save_conflict [of s c stored] show ?thesis by simp
  next
    case False
    with Cons.prems(1) save_other [of k c s] show ?thesis by simp
  qed
  with Cons show ?case by (simp add: save_all_def)
qed (simp add: save_all_def)

lemma takeover_survives:
  assumes "inv s" "find_conversation s (conv_key c) = Some stored" "takeover c m t u s = (True, s')"
    and "list_all (\<lambda>x. conv_key x \<noteq> conv_key c \<or> cv_revision x \<le> cv_revision stored) cs"
  shows "\<exists>c'. find_conversation (save_all cs s') (conv_key c) = Some c' \<and> cv_state c' = StateHumanActive"
proof -
  from takeover_recorded [OF assms(1-3)] obtain c' where
    c': "find_conversation s' (conv_key c) = Some c'" "cv_state c' = StateHumanActive"
      "cv_revision c' = cv_revision stored + 1" by blast
  have "list_all (\<lambda>x. conv_key x \<noteq> conv_key c \<or> cv_revision x \<noteq> cv_revision c') cs"
    using assms(4) c'(3) by (auto simp: list_all_iff)
  from save_all_keeps [OF c'(1) this] c'(2) show ?thesis by blast
qed

end

definition try_save :: "conversation \<Rightarrow> db \<Rightarrow> bool \<times> db" where
  "try_save c db = (case save_conversation c db of (Inl _, db') \<Rightarrow> (False, db') | (Inr _, db') \<Rightarrow> (True, db'))"

definition record_takeover :: "conversation \<Rightarrow> stored_message \<Rightarrow> time \<Rightarrow> time \<Rightarrow> db \<Rightarrow> bool \<times> db" where
  "record_takeover c m t u db =
     (case record_external_reply_observed c m t u db of
        (Inl _, db') \<Rightarrow> (False, db') | (Inr (_, changed), db') \<Rightarrow> (changed, db'))"

lemma conversation_row_key:
  "conversations_inv db \<Longrightarrow> get_row (db_conversations db) k = Some c \<Longrightarrow> conv_key c = k"
  by (auto simp: conversations_inv_def dest: table_allD)

lemma conversations_store: "conversations_inv db \<Longrightarrow> conversations_inv (store_conversation c db)"
  by (auto simp: store_conversation_def conversations_inv_def table_all_def)

lemma conversations_messages: "conversations_inv db \<Longrightarrow>
    conversations_inv (db\<lparr>db_messages := put_row k ms (db_messages db)\<rparr>)"
  by (simp add: conversations_inv_def)

interpretation conversation_store: conversation_repository conversations_inv
  "\<lambda>db k. get_row (db_conversations db) k" try_save record_takeover
proof
  fix s s' :: db and c stored :: conversation and m t u and k :: string
  show "conversations_inv (snd (try_save c s))" if "conversations_inv s"
    using that by (auto simp: try_save_def save_conversation_def conversations_store split: option.split)
  show "conversations_inv (snd (record_takeover c m t u s))" if "conversations_inv s"
    using that by (simp add: record_takeover_def record_external_reply_observed_def Let_def
        conversations_store conversations_messages)
  show "try_save c s = (False, s)"
    if "get_row (db_conversations s) (conv_key c) = Some stored" "cv_revision stored \<noteq> cv_revision c"
    using that by (simp add: try_save_def save_conversation_def)
  show "get_row (db_conversations (snd (try_save c s))) k = get_row (db_conversations s) k" if "k \<noteq> conv_key c"
    using that by (simp add: try_save_def save_conversation_def store_conversation_def split: option.split)
  show "get_row (db_conversations s') (conv_key c) = Some c" if "try_save c s = (True, s')"
    using that by (auto simp: try_save_def save_conversation_def store_conversation_def split: option.splits if_splits)
  show "\<exists>c'. get_row (db_conversations s') (conv_key c) = Some c' \<and> cv_state c' = StateHumanActive \<and>
          cv_revision c' = cv_revision stored + 1"
    if "conversations_inv s" "get_row (db_conversations s) (conv_key c) = Some stored"
      "record_takeover c m t u s = (True, s')"
  proof -
    from that(1,2) have "conv_key stored = conv_key c" by (rule conversation_row_key)
    with that(2,3) show ?thesis
      by (auto simp: record_takeover_def record_external_reply_observed_def Let_def row_or_def
          store_conversation_def observe_external_reply_def conv_key_def split: if_splits)
  qed
qed

section \<open>Appointments\<close>

lemma list_bookings_result:
  "\<exists>bs. list_bookings c db = (Inr bs, db) \<and> sorted (map bk_starts_at bs) \<and>
     mset bs = (\<Sum>k \<leftarrow> c # row_or [] (db_aliases db) c. mset (row_or [] (db_bookings db) k))"
  by (simp add: list_bookings_def mset_concat comp_def)

lemma list_bookings_owner:
  assumes "db_inv db" "list_bookings c db = (Inr bs, db')" "b \<in> set bs"
  shows "bk_customer_id b = c \<or> bk_customer_id b \<in> set (row_or [] (db_aliases db) c)"
proof -
  from assms(2,3) have "\<exists>k \<in> set (c # row_or [] (db_aliases db) c). b \<in> set (row_or [] (db_bookings db) k)"
    by (auto simp: list_bookings_def)
  then obtain k where k: "k \<in> set (c # row_or [] (db_aliases db) c)" "b \<in> set (row_or [] (db_bookings db) k)"
    by blast
  with booking_rows(2) [OF assms(1), of k] show ?thesis by (auto simp: list_all_iff)
qed

lemma find_booking_reference: "find_booking r db = (Inr b, db') \<Longrightarrow> bk_external_id b = r"
  by (auto simp: find_booking_def find_Some_iff split: option.splits)

lemma find_booking_missing:
  assumes "db_inv db" "find_booking r db = (Inl e, db')" "b \<in> set (row_or [] (db_bookings db) c)"
  shows "errors_is e BookingNotFound" "bk_external_id b \<noteq> r"
proof -
  from assms(2) have e: "e = sentinel_error BookingNotFound"
    and none: "find (\<lambda>b. bk_external_id b = r) (concat (rows (db_bookings db))) = None"
    by (auto simp: find_booking_def split: option.splits)
  from e show "errors_is e BookingNotFound" by simp
  have "table_inv (db_bookings db)"
    using assms(1) by (auto simp: db_inv_def bookings_inv_def dest: table_all_inv)
  note table = set_rows [OF this]
  from assms(3) obtain bs where bs: "get_row (db_bookings db) c = Some bs" "b \<in> set bs"
    by (cases "get_row (db_bookings db) c") (auto simp: row_or_def)
  have "bs \<in> set (rows (db_bookings db))" unfolding table using bs(1) by (rule exI)
  with bs(2) have "b \<in> set (concat (rows (db_bookings db)))" by auto
  with none show "bk_external_id b \<noteq> r" by (auto simp: find_None_iff)
qed

lemma save_booking_rows:
  "row_or [] (db_bookings (snd (save_booking b db))) c =
     (if c = bk_customer_id b then replace_booking b (row_or [] (db_bookings db) c) else row_or [] (db_bookings db) c)"
  by (simp add: save_booking_def)

lemma replace_booking_set:
  "distinct (map bk_external_id bs) \<Longrightarrow>
   set (replace_booking b bs) = insert b {x \<in> set bs. bk_external_id x \<noteq> bk_external_id b}"
  by (induction bs) (auto simp: image_iff)

section \<open>Transcripts\<close>

lemma append_message_twice:
  "append_message m (snd (append_message m db)) = (Inr (), snd (append_message m db))"
  by (simp add: append_message_def Let_def same_message_def)

lemma append_message_recent:
  assumes "\<not> list_ex (same_message m) (row_or [] (db_messages db) (ms_conversation_id m))" "0 < n"
  shows "\<exists>ms. fst (recent (ms_conversation_id m) n (snd (append_message m db))) = Inr (ms @ [m]) \<and>
     int (length (ms @ [m])) \<le> n"
  using assms by (auto simp: append_message_def recent_def Let_def)

lemma recent_suffix:
  "\<exists>ms. recent c n db = (Inr ms, db) \<and> (0 < n \<longrightarrow> int (length ms) \<le> n) \<and>
     (\<exists>before. row_or [] (db_messages db) c = before @ ms) \<and>
     (n \<le> 0 \<or> int (length (row_or [] (db_messages db) c)) \<le> n \<longrightarrow> ms = row_or [] (db_messages db) c)"
proof -
  let ?all = "row_or [] (db_messages db) c"
  have "\<exists>before. ?all = before @ drop k ?all" for k by (metis append_take_drop_id)
  then show ?thesis by (auto simp: recent_def Let_def)
qed

text \<open>The generic fact: cutting a strictly descending list at an element's key.\<close>

lemma filter_below_drop:
  fixes f :: "'a \<Rightarrow> 'b :: linorder"
  assumes "sorted_wrt (\<lambda>x y. f y < f x) xs" "0 < n" "n < length xs"
  shows "filter (\<lambda>x. f x < f (xs ! (n - 1))) xs = drop n xs"
proof -
  let ?b = "f (xs ! (n - 1))"
  have "filter (\<lambda>x. f x < ?b) (take n xs) = []"
  proof -
    have "\<not> f x < ?b" if "x \<in> set (take n xs)" for x
    proof -
      from that obtain i where i: "i < n" "x = xs ! i" using assms(3) by (auto simp: in_set_conv_nth)
      show ?thesis
      proof (cases "i = n - 1")
        case False
        with i have "i < n - 1" by simp
        with assms have "?b < f (xs ! i)" by (intro sorted_wrt_nth_less [OF assms(1)]) auto
        with i show ?thesis by simp
      qed (use i in simp)
    qed
    then show ?thesis by (simp add: filter_empty_conv)
  qed
  moreover have "filter (\<lambda>x. f x < ?b) (drop n xs) = drop n xs"
  proof -
    have "f x < ?b" if "x \<in> set (drop n xs)" for x
    proof -
      from that obtain j where "j < length xs - n" "x = xs ! (n + j)" by (auto simp: in_set_conv_nth)
      with assms show ?thesis by (auto intro: sorted_wrt_nth_less [OF assms(1)])
    qed
    then show ?thesis by (simp add: filter_id_conv)
  qed
  ultimately show ?thesis
    by (metis append_Nil append_take_drop_id filter_append)
qed

lemma descending_distinct:
  fixes f :: "'a \<Rightarrow> 'b :: linorder"
  assumes "distinct (map f xs)"
  shows "sorted_wrt (\<lambda>x y. f y < f x) (rev (sort_key f xs))"
proof -
  have "sorted (map f (sort_key f xs))" by simp
  moreover have "distinct (map f (sort_key f xs))" using assms by (simp add: distinct_map)
  ultimately have "sorted_wrt (<) (map f (sort_key f xs))" using strict_sorted_iff by blast
  then show ?thesis by (simp add: sorted_wrt_rev sorted_wrt_map)
qed

section \<open>Conversations\<close>

definition telegram_inbox :: "db \<Rightarrow> conversation list" where
  "telegram_inbox db = rev (sort_key conv_cursor (filter (\<lambda>c. cv_provider c = ProviderTelegram) (rows (db_conversations db))))"

text \<open>The staff's next-page button, pressed until there is no next page.\<close>

function walk_pages :: "nat \<Rightarrow> db \<Rightarrow> int \<Rightarrow> cursor option \<Rightarrow> conversation list" where
  "walk_pages 0 db limit boundary = []"
| "walk_pages (Suc fuel) db limit boundary =
     (case telegram_conversations boundary limit db of
        (Inl _, _) \<Rightarrow> []
      | (Inr (items, None), _) \<Rightarrow> items
      | (Inr (items, Some next_boundary), _) \<Rightarrow> items @ walk_pages fuel db limit (Some next_boundary))"
  by pat_completeness auto
termination by (relation "measure (\<lambda>(fuel, _). fuel)") auto

lemma inbox_limit_bounds: "0 < m \<Longrightarrow> 0 < inbox_limit n m \<and> inbox_limit n m \<le> m"
  by (auto simp: inbox_limit_def)

lemma not_below_boundary:
  "(case boundary of None \<Rightarrow> True | Some b \<Rightarrow>
      \<not> (after (cv_last_message_at c) (cursor_last b) \<or>
         (cv_last_message_at c = cursor_last b \<and> cursor_key b \<le> conv_key c))) \<longleftrightarrow>
   (case boundary of None \<Rightarrow> True | Some b \<Rightarrow> conv_cursor c < b)"
  by (auto simp: conv_cursor_def less_cursor_def time_defs split: option.split)

lemma telegram_inbox_descending:
  assumes "conversations_inv db"
  shows "sorted_wrt (\<lambda>x y. conv_cursor y < conv_cursor x) (telegram_inbox db)"
proof -
  let ?t = "db_conversations db"
  have "map conv_key (rows ?t) = map fst ?t"
  proof -
    have "conv_key c = k" if "(k, c) \<in> set ?t" for k c
      using that assms conversation_row_key [OF assms, of k c]
      by (auto simp: conversations_inv_def dest!: table_all_inv simp: table_inv_def)
    then show ?thesis by (auto simp: rows_def)
  qed
  with assms have "distinct (map conv_key (rows ?t))"
    by (auto simp: conversations_inv_def dest!: table_all_inv simp: table_inv_def)
  then have "distinct (map conv_cursor (rows ?t))"
    by (auto simp: distinct_map conv_cursor_def intro!: inj_onI dest: inj_onD)
  then show ?thesis
    unfolding telegram_inbox_def by (intro descending_distinct) (rule distinct_map_filter)
qed

lemma telegram_page:
  assumes "conversations_inv db" "xs = (case boundary of None \<Rightarrow> telegram_inbox db
      | Some b \<Rightarrow> filter (\<lambda>c. conv_cursor c < b) (telegram_inbox db))"
    and n: "n = nat (inbox_limit limit conversation_limit)"
  shows "telegram_conversations boundary limit db =
     (if length xs > n then (Inr (take n xs, Some (conv_cursor (xs ! (n - 1)))), db) else (Inr (xs, None), db))"
proof -
  have "0 < n" using inbox_limit_bounds [of conversation_limit limit] n by (simp add: conversation_limit_def)
  have sorted: "rev (sort_key conv_cursor (filter (\<lambda>c. cv_provider c = ProviderTelegram \<and>
      (case boundary of None \<Rightarrow> True | Some b \<Rightarrow> conv_cursor c < b)) (rows (db_conversations db)))) = xs"
    by (cases boundary)
      (simp_all add: assms(2) telegram_inbox_def rev_filter [symmetric] filter_sort conj_commute)
  from \<open>0 < n\<close> show ?thesis
    unfolding telegram_conversations_def not_below_boundary Let_def sorted n [symmetric] by simp
qed

lemma walk_from:
  assumes "conversations_inv db" and n: "n = nat (inbox_limit limit conversation_limit)"
    and "xs = (case boundary of None \<Rightarrow> telegram_inbox db
      | Some b \<Rightarrow> filter (\<lambda>c. conv_cursor c < b) (telegram_inbox db))"
    and "length xs < fuel"
  shows "walk_pages fuel db limit boundary = xs"
  using assms(3,4)
proof (induction fuel arbitrary: boundary xs)
  case (Suc fuel)
  note page = telegram_page [OF assms(1) Suc.prems(1) n]
  have "0 < n" using inbox_limit_bounds [of conversation_limit limit] n by (simp add: conversation_limit_def)
  show ?case
  proof (cases "length xs > n")
    case True
    let ?b = "conv_cursor (xs ! (n - 1))"
    have "sorted_wrt (\<lambda>x y. conv_cursor y < conv_cursor x) xs"
      using telegram_inbox_descending [OF assms(1)] Suc.prems(1)
      by (auto split: option.splits intro: sorted_wrt_filter)
    from filter_below_drop [OF this \<open>0 < n\<close> True]
    have below: "filter (\<lambda>c. conv_cursor c < ?b) xs = drop n xs" .
    have "xs ! (n - 1) \<in> set xs" using True \<open>0 < n\<close> by auto
    then have "filter (\<lambda>c. conv_cursor c < ?b) (telegram_inbox db) = filter (\<lambda>c. conv_cursor c < ?b) xs"
      using Suc.prems(1) by (auto split: option.splits intro!: filter_cong)
    with below have "walk_pages fuel db limit (Some ?b) = drop n xs"
      using Suc.prems(2) True \<open>0 < n\<close> by (intro Suc.IH) auto
    with page True show ?thesis by simp
  next
    case False
    with page show ?thesis by simp
  qed
qed simp

section \<open>History\<close>

lemma inbox_history_page:
  assumes "distinct (map ms_id (row_or [] (db_messages db) c))" "inbox_history c boundary limit db = (Inr (ms, older), db')"
  shows "sorted_wrt (\<lambda>x y. ms_id x < ms_id y) ms" "int (length ms) \<le> history_limit"
    "set ms \<subseteq> set (row_or [] (db_messages db) c)" "boundary \<noteq> [] \<Longrightarrow> \<forall>m \<in> set ms. ms_id m < boundary"
proof -
  let ?n = "nat (inbox_limit limit history_limit)"
  let ?items = "filter (\<lambda>m. boundary = [] \<or> ms_id m < boundary) (row_or [] (db_messages db) c)"
  let ?sorted = "rev (sort_key ms_id ?items)"
  have "0 < history_limit" by (simp add: history_limit_def)
  note n = inbox_limit_bounds [OF this, of limit]
  from assms(2) have ms: "ms = rev (take ?n ?sorted)"
    by (auto simp: inbox_history_def Let_def split: if_splits)
  have "distinct (map ms_id ?items)" using assms(1) by (rule distinct_map_filter)
  then have "sorted_wrt (\<lambda>x y. ms_id y < ms_id x) ?sorted" by (rule descending_distinct)
  then have "sorted_wrt (\<lambda>x y. ms_id y < ms_id x) (take ?n ?sorted)" by (rule sorted_wrt_take)
  then show "sorted_wrt (\<lambda>x y. ms_id x < ms_id y) ms" by (simp add: ms sorted_wrt_rev)
  have "length ms \<le> ?n" by (simp add: ms)
  with n show "int (length ms) \<le> history_limit" by linarith
  have "set ms \<subseteq> set ?items" using set_take_subset [of ?n ?sorted] by (auto simp: ms)
  then show "set ms \<subseteq> set (row_or [] (db_messages db) c)"
    and "boundary \<noteq> [] \<Longrightarrow> \<forall>m \<in> set ms. ms_id m < boundary" by auto
qed

end
