(* ===== verification/FireStore.thy ===== *)
theory FireStore
  imports MemoryStore
begin

text \<open>
  The hosted store (\<open>internal/adapters/persistence/firestore\<close>): the same interfaces as the in-process
  store, over collections of documents. The client library is not part of the repository; what the
  code relies on is its documented behaviour: a transaction is one atomic step, a query returns each
  matching document once, in the order of the keys unless it asks for another, and a document reads
  back as it was written. So each method is one step on the record \<open>documents\<close>, and an outage is a
  fault of the environment, as for the other store. A document holds its own fields, apart from the
  domain types: durations are kept in whole seconds. The hash is the parameter \<open>sha\<close>.
\<close>

section \<open>Documents\<close>

record customer_doc =
  dc_linked :: "string list"
  dc_name :: string
  dc_phone :: string
  dc_created_at :: time
  dc_updated_at :: time

record identity_doc =
  di_customer_id :: string
  di_provider :: provider
  di_user_id :: string
  di_display_name :: string
  di_language :: string
  di_created_at :: time

record draft_doc =
  dd_idempotency_key :: string
  dd_service_ids :: "string list"
  dd_service_names :: "string list"
  dd_price_label :: string
  dd_awaiting :: bool
  dd_staff_id :: string
  dd_staff_name :: string
  dd_starts_at :: time
  dd_seconds :: int
  dd_phone :: string
  dd_customer_name :: string
  dd_prepared_at :: time
  dd_prepared_from :: string

record change_doc =
  dh_kind :: change_kind
  dh_reference :: string
  dh_new_start :: time
  dh_prepared_at :: time
  dh_prepared_from :: string

record conversation_doc =
  dv_preferred_language :: string
  dv_reminder_opt_in :: bool
  dv_category :: string
  dv_service :: string
  dv_staff :: string
  dv_page :: int
  dv_phase :: string
  dv_date :: string
  dv_id :: string
  dv_customer_id :: string
  dv_provider :: provider
  dv_thread_id :: string
  dv_state :: conv_state
  dv_draft :: "draft_doc option"
  dv_change :: "change_doc option"
  dv_created_at :: time
  dv_updated_at :: time
  dv_last_message_at :: time
  dv_last_choice :: string
  dv_pending_choice :: string
  dv_pending_event :: string
  dv_presented :: "string list"
  dv_handoff_at :: time
  dv_revision :: int
  dv_resumed_at :: time

record message_doc =
  dm_id :: string
  dm_sort_id :: string
  dm_conversation_id :: string
  dm_direction :: direction
  dm_content_type :: content_type
  dm_text :: string
  dm_external_id :: string
  dm_created_at :: time

record turn_doc =
  dt_event_id :: string
  dt_updated_at :: time

record processed_doc =
  dp_processed_at :: time
  dp_claim_id :: string
  dp_expires_at :: time

record booking_doc =
  dk_treatment_seconds :: int
  dk_id :: string
  dk_external_id :: string
  dk_management_token :: string
  dk_customer_id :: string
  dk_service_ids :: "string list"
  dk_staff_id :: string
  dk_customer_name :: string
  dk_service_names :: "string list"
  dk_staff_name :: string
  dk_starts_at :: time
  dk_seconds :: int
  dk_status :: status
  dk_created_at :: time

record reminder_doc =
  dn_id :: string
  dn_booking_id :: string
  dn_customer_id :: string
  dn_conversation_id :: string
  dn_provider :: provider
  dn_thread_id :: string
  dn_language :: string
  dn_expected_start :: time
  dn_due_at :: time
  dn_status :: reminder_status
  dn_created_at :: time
  dn_claim_id :: string
  dn_claim_expires :: time
  dn_finished_at :: time

record staff_thread_doc =
  ds_conversation_id :: string
  ds_created_at :: time

record documents =
  fd_customers :: "customer_doc table"
  fd_identities :: "identity_doc table"
  fd_conversations :: "conversation_doc table"
  fd_messages :: "message_doc table table"
  fd_processed :: "processed_doc table"
  fd_turns :: "turn_doc table"
  fd_bookings :: "booking_doc table"
  fd_staff_threads :: "staff_thread_doc table"
  fd_reminders :: "reminder_doc table"
  fd_notifications :: "entry table"
  fd_inbox_pages :: "inbox_page table"

definition no_documents :: documents where
  "no_documents = \<lparr>fd_customers = [], fd_identities = [], fd_conversations = [], fd_messages = [],
     fd_processed = [], fd_turns = [], fd_bookings = [], fd_staff_threads = [], fd_reminders = [],
     fd_notifications = [], fd_inbox_pages = []\<rparr>"

definition processed_retention :: duration where "processed_retention = 7 * 24 * hour"
definition claim_retention :: duration where "claim_retention = 5 * minute"

text \<open>The status the client library gives for a document that is not there.\<close>

definition document_missing :: go_error where "document_missing = errors_new ''NotFound''"

text \<open>The documents of a collection that a query selects, in the order of their keys.\<close>

definition query :: "('a \<Rightarrow> bool) \<Rightarrow> 'a table \<Rightarrow> (string \<times> 'a) list" where
  "query P t = filter (\<lambda>(k, d). P d) (sort_key fst t)"

section \<open>Conversions\<close>

text \<open>
  \<open>int64(d.Seconds())\<close>. The division in floating point is exact for whole seconds, and truncates
  below 48 days.
\<close>

definition whole_seconds :: "duration \<Rightarrow> int" where
  "whole_seconds d = (if d \<ge> 0 then d div second else - (- d div second))"

definition draft_to_doc :: "draft \<Rightarrow> draft_doc" where
  "draft_to_doc d =
     \<lparr>dd_idempotency_key = dr_idempotency_key d, dd_service_ids = dr_service_ids d,
      dd_service_names = dr_service_names d, dd_price_label = dr_price_label d,
      dd_awaiting = dr_awaiting_phone_verification d, dd_staff_id = dr_staff_id d, dd_staff_name = dr_staff_name d,
      dd_starts_at = dr_starts_at d, dd_seconds = whole_seconds (dr_duration d), dd_phone = dr_phone d,
      dd_customer_name = dr_customer_name d, dd_prepared_at = dr_prepared_at d,
      dd_prepared_from = dr_prepared_from d\<rparr>"

definition draft_of_doc :: "draft_doc \<Rightarrow> draft" where
  "draft_of_doc d =
     \<lparr>dr_idempotency_key = dd_idempotency_key d, dr_service_ids = dd_service_ids d,
      dr_service_names = dd_service_names d, dr_price_label = dd_price_label d, dr_staff_id = dd_staff_id d,
      dr_staff_name = dd_staff_name d, dr_starts_at = dd_starts_at d, dr_duration = dd_seconds d * second,
      dr_phone = dd_phone d, dr_customer_name = dd_customer_name d,
      dr_awaiting_phone_verification = dd_awaiting d, dr_prepared_at = dd_prepared_at d,
      dr_prepared_from = dd_prepared_from d\<rparr>"

definition change_to_doc :: "change_draft \<Rightarrow> change_doc" where
  "change_to_doc d =
     \<lparr>dh_kind = cd_kind d, dh_reference = cd_reference d, dh_new_start = cd_new_start d,
      dh_prepared_at = cd_prepared_at d, dh_prepared_from = cd_prepared_from d\<rparr>"

definition change_of_doc :: "change_doc \<Rightarrow> change_draft" where
  "change_of_doc d =
     \<lparr>cd_kind = dh_kind d, cd_reference = dh_reference d, cd_new_start = dh_new_start d,
      cd_prepared_at = dh_prepared_at d, cd_prepared_from = dh_prepared_from d\<rparr>"

definition to_conversation_doc :: "conversation \<Rightarrow> conversation_doc" where
  "to_conversation_doc c =
     \<lparr>dv_preferred_language = cv_preferred_language c, dv_reminder_opt_in = cv_reminder_opt_in c,
      dv_category = cv_category c, dv_service = cv_service c, dv_staff = cv_staff c, dv_page = cv_page c,
      dv_phase = cv_phase c, dv_date = cv_date c, dv_id = cv_id c, dv_customer_id = cv_customer_id c,
      dv_provider = cv_provider c, dv_thread_id = cv_thread_id c, dv_state = cv_state c,
      dv_draft = map_option draft_to_doc (cv_draft c), dv_change = map_option change_to_doc (cv_change c),
      dv_created_at = cv_created_at c, dv_updated_at = cv_updated_at c, dv_last_message_at = cv_last_message_at c,
      dv_last_choice = cv_last_choice c, dv_pending_choice = cv_pending_choice c,
      dv_pending_event = cv_pending_event c, dv_presented = cv_presented c, dv_handoff_at = cv_handoff_at c,
      dv_revision = cv_revision c, dv_resumed_at = cv_resumed_at c\<rparr>"

definition from_conversation_doc :: "conversation_doc \<Rightarrow> conversation" where
  "from_conversation_doc d =
     \<lparr>cv_preferred_language = dv_preferred_language d, cv_id = dv_id d, cv_customer_id = dv_customer_id d,
      cv_provider = dv_provider d, cv_thread_id = dv_thread_id d, cv_state = dv_state d,
      cv_revision = dv_revision d, cv_resumed_at = dv_resumed_at d,
      cv_draft = map_option draft_of_doc (dv_draft d), cv_handoff_at = dv_handoff_at d,
      cv_change = map_option change_of_doc (dv_change d), cv_created_at = dv_created_at d,
      cv_updated_at = dv_updated_at d, cv_last_message_at = dv_last_message_at d,
      cv_last_choice = dv_last_choice d, cv_pending_choice = dv_pending_choice d,
      cv_pending_event = dv_pending_event d, cv_presented = dv_presented d, cv_category = dv_category d,
      cv_service = dv_service d, cv_staff = dv_staff d, cv_page = dv_page d, cv_phase = dv_phase d,
      cv_date = dv_date d, cv_reminder_opt_in = dv_reminder_opt_in d\<rparr>"

definition to_message_doc :: "stored_message \<Rightarrow> message_doc" where
  "to_message_doc m =
     \<lparr>dm_id = ms_id m, dm_sort_id = ms_id m, dm_conversation_id = ms_conversation_id m,
      dm_direction = ms_direction m, dm_content_type = ms_content_type m, dm_text = ms_text m,
      dm_external_id = ms_external_id m, dm_created_at = ms_created_at m\<rparr>"

definition from_message_doc :: "message_doc \<Rightarrow> stored_message" where
  "from_message_doc d =
     \<lparr>ms_id = dm_id d, ms_conversation_id = dm_conversation_id d, ms_direction = dm_direction d,
      ms_content_type = dm_content_type d, ms_text = dm_text d, ms_external_id = dm_external_id d,
      ms_created_at = dm_created_at d\<rparr>"

definition to_booking_doc :: "booking \<Rightarrow> booking_doc" where
  "to_booking_doc b =
     \<lparr>dk_treatment_seconds = whole_seconds (bk_treatment_duration b), dk_id = bk_id b,
      dk_external_id = bk_external_id b, dk_management_token = bk_management_token b,
      dk_customer_id = bk_customer_id b, dk_service_ids = bk_service_ids b, dk_staff_id = bk_staff_id b,
      dk_customer_name = bk_customer_name b, dk_service_names = bk_service_names b,
      dk_staff_name = bk_staff_name b, dk_starts_at = bk_starts_at b, dk_seconds = whole_seconds (bk_duration b),
      dk_status = bk_status b, dk_created_at = bk_created_at b\<rparr>"

definition from_booking_doc :: "booking_doc \<Rightarrow> booking" where
  "from_booking_doc d =
     \<lparr>bk_id = dk_id d, bk_external_id = dk_external_id d, bk_management_token = dk_management_token d,
      bk_customer_id = dk_customer_id d, bk_service_ids = dk_service_ids d, bk_staff_id = dk_staff_id d,
      bk_customer_name = dk_customer_name d, bk_service_names = dk_service_names d,
      bk_staff_name = dk_staff_name d, bk_starts_at = dk_starts_at d, bk_duration = dk_seconds d * second,
      bk_status = dk_status d, bk_attended = False, bk_no_show = False,
      bk_treatment_duration = dk_treatment_seconds d * second, bk_created_at = dk_created_at d\<rparr>"

definition to_reminder_doc :: "reminder \<Rightarrow> reminder_doc" where
  "to_reminder_doc r =
     \<lparr>dn_id = rm_id r, dn_booking_id = rm_booking_id r, dn_customer_id = rm_customer_id r,
      dn_conversation_id = rm_conversation_id r, dn_provider = rm_provider r, dn_thread_id = rm_thread_id r,
      dn_language = rm_language r, dn_expected_start = rm_expected_start r, dn_due_at = rm_due_at r,
      dn_status = rm_status r, dn_created_at = rm_created_at r, dn_claim_id = rm_claim_id r,
      dn_claim_expires = rm_claim_expires r, dn_finished_at = rm_finished_at r\<rparr>"

definition from_reminder_doc :: "reminder_doc \<Rightarrow> reminder" where
  "from_reminder_doc d =
     \<lparr>rm_id = dn_id d, rm_booking_id = dn_booking_id d, rm_customer_id = dn_customer_id d,
      rm_conversation_id = dn_conversation_id d, rm_provider = dn_provider d, rm_thread_id = dn_thread_id d,
      rm_language = dn_language d, rm_expected_start = dn_expected_start d, rm_due_at = dn_due_at d,
      rm_status = dn_status d, rm_created_at = dn_created_at d, rm_claim_id = dn_claim_id d,
      rm_claim_expires = dn_claim_expires d, rm_finished_at = dn_finished_at d\<rparr>"

definition customer_of_doc :: "string \<Rightarrow> customer_doc \<Rightarrow> customer" where
  "customer_of_doc customer_id d =
     \<lparr>cu_id = customer_id, cu_name = dc_name d, cu_phone = dc_phone d, cu_verified_phone = [],
      cu_created_at = dc_created_at d, cu_updated_at = dc_updated_at d\<rparr>"

end
