(* ===== verification/FireLaws.thy ===== *)
theory FireLaws
  imports FireStore StoreContracts
begin

text \<open>
  The methods of the hosted store (\<open>firestore/store.go\<close>, \<open>profiles.go\<close>, \<open>external_reply.go\<close>,
  \<open>notifications.go\<close>, \<open>staffinbox.go\<close>), one step each on the record \<open>documents\<close>. Where the code reads
  the wall clock the instant is an argument.

  The hosted store keeps what it is given (round trips of the documents), and keeps the contracts the
  services rely on: the lease contract on deliveries and on reminders, and the revision contract on
  conversations. The locales are those interpreted on the in-process store.
\<close>

section \<open>Customers and profiles\<close>

definition new_identity :: "channel_identity \<Rightarrow> customer \<Rightarrow> documents \<Rightarrow> documents" where
  "new_identity identity candidate fd =
     fd\<lparr>fd_customers := put_row (cu_id candidate)
          \<lparr>dc_linked = [], dc_name = cu_name candidate, dc_phone = cu_phone candidate,
           dc_created_at = cu_created_at candidate, dc_updated_at = cu_updated_at candidate\<rparr> (fd_customers fd),
        fd_identities := put_row (identity_key identity)
          \<lparr>di_customer_id = cu_id candidate, di_provider = ci_provider identity, di_user_id = ci_user_id identity,
           di_display_name = ci_display_name identity, di_language = ci_language identity,
           di_created_at = ci_created_at identity\<rparr> (fd_identities fd)\<rparr>"

definition fire_find_or_create :: "channel_identity \<Rightarrow> customer \<Rightarrow> (documents, customer) proc" where
  "fire_find_or_create identity candidate fd =
     (case identity_validate identity of
        Some e \<Rightarrow> (Inl e, fd)
      | None \<Rightarrow>
        let created = (Inr candidate, new_identity identity candidate fd) in
        case get_row (fd_identities fd) (identity_key identity) of
          None \<Rightarrow> created
        | Some existing \<Rightarrow> (case get_row (fd_customers fd) (di_customer_id existing) of
            None \<Rightarrow> created
          | Some d \<Rightarrow> (Inr (customer_of_doc (di_customer_id existing) d), fd)))"

definition fire_update_contact :: "time \<Rightarrow> string \<Rightarrow> string \<Rightarrow> string \<Rightarrow> (documents, unit) proc" where
  "fire_update_contact now customer_id name phone fd =
     (case get_row (fd_customers fd) customer_id of
        None \<Rightarrow> (Inl (sentinel_error CustomerNotFound), fd)
      | Some d \<Rightarrow>
        let d = d\<lparr>dc_updated_at := now\<rparr>;
            d = (if name \<noteq> [] then d\<lparr>dc_name := name\<rparr> else d);
            d = (if phone \<noteq> [] then d\<lparr>dc_phone := phone\<rparr> else d)
        in (Inr (), fd\<lparr>fd_customers := put_row customer_id d (fd_customers fd)\<rparr>))"

text \<open>A channel that is not known gives the client's own error here, not \<open>ErrNotFound\<close>.\<close>

definition fire_link_verified_identity ::
  "(string \<Rightarrow> string option) \<Rightarrow> (string \<Rightarrow> string) \<Rightarrow> time \<Rightarrow> channel_identity \<Rightarrow> customer \<Rightarrow> string \<Rightarrow>
   (documents, customer) proc" where
  "fire_link_verified_identity lib sha now identity old raw_phone fd =
     (case normalize_phone lib raw_phone of
        Inl e \<Rightarrow> (Inl e, fd)
      | Inr phone \<Rightarrow>
        (case get_row (fd_identities fd) (identity_key identity) of
           None \<Rightarrow> (Inl document_missing, fd)
         | Some existing \<Rightarrow>
           if di_customer_id existing \<noteq> cu_id old then (Inl (sentinel_error CustomerNotFound), fd)
           else
             let canonical_id = profile_id sha phone;
                 d = (case get_row (fd_customers fd) canonical_id of Some d \<Rightarrow> d | None \<Rightarrow>
                   \<lparr>dc_linked = [], dc_name = cu_name old, dc_phone = phone, dc_created_at = cu_created_at old,
                    dc_updated_at = now\<rparr>);
                 d = (if cu_id old \<noteq> canonical_id \<and> \<not> has_prefix (cu_id old) ''verified_phone_'' \<and>
                     cu_id old \<notin> set (dc_linked d)
                   then d\<lparr>dc_linked := dc_linked d @ [cu_id old]\<rparr> else d)
             in (Inr ((customer_of_doc canonical_id d)\<lparr>cu_verified_phone := phone\<rparr>),
                 fd\<lparr>fd_customers := put_row canonical_id d (fd_customers fd),
                    fd_identities := put_row (identity_key identity) (existing\<lparr>di_customer_id := canonical_id\<rparr>)
                      (fd_identities fd)\<rparr>)))"

section \<open>Conversations and their transcript\<close>

definition fire_find_or_open :: "conversation \<Rightarrow> (documents, conversation) proc" where
  "fire_find_or_open candidate fd =
     (case get_row (fd_conversations fd) (conv_key candidate) of
        Some d \<Rightarrow> (Inr (from_conversation_doc d), fd)
      | None \<Rightarrow> (Inr candidate, fd\<lparr>fd_conversations :=
          put_row (conv_key candidate) (to_conversation_doc candidate) (fd_conversations fd)\<rparr>))"

definition fire_save_conversation :: "conversation \<Rightarrow> (documents, unit) proc" where
  "fire_save_conversation conv fd =
     (let save = (Inr (), fd\<lparr>fd_conversations := put_row (conv_key conv) (to_conversation_doc conv) (fd_conversations fd)\<rparr>) in
      case get_row (fd_conversations fd) (conv_key conv) of
        None \<Rightarrow> save
      | Some current \<Rightarrow>
        if dv_revision current \<noteq> cv_revision conv
        then (Inl (wrap_error ''firestore: save conversation'' (sentinel_error ExternalReplyConflict)), fd) else save)"

definition fire_find_by_id :: "string \<Rightarrow> (documents, conversation) proc" where
  "fire_find_by_id conversation_id fd =
     (case query (\<lambda>d. dv_id d = conversation_id) (fd_conversations fd) of
        [] \<Rightarrow> (Inl (sentinel_error ConversationNotFound), fd)
      | (_, d) # _ \<Rightarrow> (Inr (from_conversation_doc d), fd))"

definition message_document_id :: "(string \<Rightarrow> string) \<Rightarrow> stored_message \<Rightarrow> string" where
  "message_document_id sha m =
     (if ms_external_id m \<noteq> []
      then ''incoming-'' @ sha (ms_conversation_id m @ [CHR 0x00] @ ms_external_id m) else ms_id m)"

definition put_message :: "string \<Rightarrow> string \<Rightarrow> message_doc \<Rightarrow> documents \<Rightarrow> documents" where
  "put_message conversation_id document_id d fd =
     fd\<lparr>fd_messages := put_row conversation_id
          (put_row document_id d (row_or [] (fd_messages fd) conversation_id)) (fd_messages fd)\<rparr>"

definition fire_append_message :: "(string \<Rightarrow> string) \<Rightarrow> stored_message \<Rightarrow> (documents, unit) proc" where
  "fire_append_message sha m fd =
     (let document_id = message_document_id sha m; stored = row_or [] (fd_messages fd) (ms_conversation_id m) in
      if get_row stored document_id \<noteq> None then (Inr (), fd)
      else (Inr (), put_message (ms_conversation_id m) document_id (to_message_doc m) fd))"

definition fire_recent :: "string \<Rightarrow> int \<Rightarrow> (documents, stored_message list) proc" where
  "fire_recent conversation_id limit fd =
     (let limit = (if limit \<le> 0 then 50 else limit);
          stored = map snd (row_or [] (fd_messages fd) conversation_id);
          newest = take (nat limit) (rev (sort_key dm_sort_id stored)) in
      (Inr (rev (map from_message_doc newest)), fd))"

definition turn_document_id :: "(string \<Rightarrow> string) \<Rightarrow> string \<Rightarrow> string" where
  "turn_document_id sha key = sha key"

definition fire_register_turn :: "(string \<Rightarrow> string) \<Rightarrow> string \<Rightarrow> string \<Rightarrow> time \<Rightarrow> (documents, unit) proc" where
  "fire_register_turn sha key event_id at fd =
     (Inr (), fd\<lparr>fd_turns := put_row (turn_document_id sha key) \<lparr>dt_event_id = event_id, dt_updated_at = at\<rparr> (fd_turns fd)\<rparr>)"

definition fire_is_latest_turn :: "(string \<Rightarrow> string) \<Rightarrow> string \<Rightarrow> string \<Rightarrow> (documents, bool) proc" where
  "fire_is_latest_turn sha key event_id fd =
     (case get_row (fd_turns fd) (turn_document_id sha key) of
        None \<Rightarrow> (Inl (wrap_error ''firestore: read conversation turn'' document_missing), fd)
      | Some d \<Rightarrow> (Inr (dt_event_id d = event_id), fd))"

definition fire_record_external_reply_observed ::
  "(string \<Rightarrow> string) \<Rightarrow> conversation \<Rightarrow> stored_message \<Rightarrow> time \<Rightarrow> time \<Rightarrow> (documents, conversation \<times> bool) proc" where
  "fire_record_external_reply_observed sha candidate m sent_at received_at fd =
     (let conv = (case get_row (fd_conversations fd) (conv_key candidate) of
          Some d \<Rightarrow> from_conversation_doc d | None \<Rightarrow> candidate);
          document_id = ''external-'' @ sha (ms_external_id m) in
      if get_row (row_or [] (fd_messages fd) (cv_id conv)) document_id \<noteq> None then (Inr (conv, False), fd)
      else
        let observed = observe_external_reply conv sent_at received_at;
            fd = put_message (cv_id conv) document_id (to_message_doc (m\<lparr>ms_conversation_id := cv_id conv\<rparr>)) fd
        in (Inr (observed, cv_revision observed \<noteq> cv_revision conv),
            fd\<lparr>fd_conversations := put_row (conv_key candidate) (to_conversation_doc observed) (fd_conversations fd)\<rparr>))"

definition fire_record_external_reply ::
  "(string \<Rightarrow> string) \<Rightarrow> conversation \<Rightarrow> stored_message \<Rightarrow> time \<Rightarrow> time \<Rightarrow> (documents, unit) proc" where
  "fire_record_external_reply sha candidate m sent_at received_at =
     attempt (fire_record_external_reply_observed sha candidate m sent_at received_at) id (\<lambda>_. ret ())"

definition fire_link_staff_thread :: "time \<Rightarrow> string \<Rightarrow> string \<Rightarrow> (documents, unit) proc" where
  "fire_link_staff_thread now staff_message_id conversation_id fd =
     (Inr (), fd\<lparr>fd_staff_threads := put_row staff_message_id
        \<lparr>ds_conversation_id = conversation_id, ds_created_at = now\<rparr> (fd_staff_threads fd)\<rparr>)"

definition fire_conversation_for_staff_thread :: "string \<Rightarrow> (documents, string) proc" where
  "fire_conversation_for_staff_thread staff_message_id fd =
     (Inr (case get_row (fd_staff_threads fd) staff_message_id of None \<Rightarrow> [] | Some d \<Rightarrow> ds_conversation_id d), fd)"

section \<open>Processed deliveries\<close>

definition fire_claim_delivery :: "string \<Rightarrow> string \<Rightarrow> time \<Rightarrow> (documents, bool) proc" where
  "fire_claim_delivery key claim_id at fd =
     (let grant = (Inr True, fd\<lparr>fd_processed := put_row key
          \<lparr>dp_processed_at = zero_time, dp_claim_id = claim_id, dp_expires_at = at + claim_retention\<rparr> (fd_processed fd)\<rparr>) in
      case get_row (fd_processed fd) key of
        None \<Rightarrow> grant
      | Some d \<Rightarrow>
        if after (dp_expires_at d) at
        then (if is_zero (dp_processed_at d)
          then (Inl (wrap_error ''firestore: claim delivery'' (sentinel_error DeliveryBusy)), fd) else (Inr False, fd))
        else grant)"

definition fire_complete_delivery :: "string \<Rightarrow> string \<Rightarrow> time \<Rightarrow> (documents, unit) proc" where
  "fire_complete_delivery key claim_id at fd =
     (let wrap = wrap_error ''firestore: complete delivery'' in
      case get_row (fd_processed fd) key of
        None \<Rightarrow> (Inl (wrap document_missing), fd)
      | Some d \<Rightarrow>
        if dp_claim_id d \<noteq> claim_id then (Inl (wrap (errors_new ''claim is not owned by this request'')), fd)
        else (Inr (), fd\<lparr>fd_processed := put_row key
          \<lparr>dp_processed_at = at, dp_claim_id = [], dp_expires_at = at + processed_retention\<rparr> (fd_processed fd)\<rparr>))"

definition fire_release_delivery :: "string \<Rightarrow> string \<Rightarrow> (documents, unit) proc" where
  "fire_release_delivery key claim_id fd =
     (case get_row (fd_processed fd) key of
        None \<Rightarrow> (Inr (), fd)
      | Some d \<Rightarrow>
        if dp_claim_id d \<noteq> claim_id \<or> \<not> is_zero (dp_processed_at d) then (Inr (), fd)
        else (Inr (), fd\<lparr>fd_processed := delete_row key (fd_processed fd)\<rparr>))"

text \<open>The policy on \<open>expires_at\<close> deletes an expired document some time later.\<close>

definition expire_document :: "string \<Rightarrow> time \<Rightarrow> documents \<Rightarrow> documents" where
  "expire_document key now fd =
     (case get_row (fd_processed fd) key of
        Some d \<Rightarrow> if after (dp_expires_at d) now then fd else fd\<lparr>fd_processed := delete_row key (fd_processed fd)\<rparr>
      | None \<Rightarrow> fd)"

section \<open>Appointments\<close>

definition fire_save_booking :: "booking \<Rightarrow> (documents, unit) proc" where
  "fire_save_booking b fd = (Inr (), fd\<lparr>fd_bookings := put_row (bk_external_id b) (to_booking_doc b) (fd_bookings fd)\<rparr>)"

definition fire_find_booking :: "string \<Rightarrow> (documents, booking) proc" where
  "fire_find_booking reference fd =
     (if reference = [] \<or> CHR ''/'' \<in> set reference then (Inl (sentinel_error BookingNotFound), fd)
      else case get_row (fd_bookings fd) reference of
        None \<Rightarrow> (Inl (sentinel_error BookingNotFound), fd)
      | Some d \<Rightarrow> (Inr (from_booking_doc d), fd))"

text \<open>The customer's own bookings and those of the linked profiles, in groups of thirty ids.\<close>

fun groups_of :: "nat \<Rightarrow> 'a list \<Rightarrow> 'a list list" where
  "groups_of n [] = []"
| "groups_of n (x # xs) = (x # take (n - 1) xs) # groups_of n (drop (n - 1) xs)"

definition fire_list_bookings :: "string \<Rightarrow> (documents, booking list) proc" where
  "fire_list_bookings customer_id fd =
     (let linked = (case get_row (fd_customers fd) customer_id of None \<Rightarrow> [] | Some d \<Rightarrow> dc_linked d);
          docs = concat (map (\<lambda>ids. query (\<lambda>d. dk_customer_id d \<in> set ids) (fd_bookings fd)) (groups_of 30 (customer_id # linked)))
      in (Inr (sort_key bk_starts_at (map (from_booking_doc \<circ> snd) docs)), fd))"

section \<open>Reminders\<close>

definition put_reminder :: "string \<Rightarrow> reminder \<Rightarrow> documents \<Rightarrow> documents" where
  "put_reminder reminder_id r fd = fd\<lparr>fd_reminders := put_row reminder_id (to_reminder_doc r) (fd_reminders fd)\<rparr>"

definition fire_ensure_reminder :: "reminder \<Rightarrow> (documents, unit) proc" where
  "fire_ensure_reminder candidate fd =
     (case reminder_validate candidate of
        Some e \<Rightarrow> (Inl e, fd)
      | None \<Rightarrow> (Inr (), if get_row (fd_reminders fd) (rm_id candidate) \<noteq> None then fd
          else put_reminder (rm_id candidate) candidate fd))"

definition fire_find_reminder :: "string \<Rightarrow> (documents, reminder) proc" where
  "fire_find_reminder reminder_id fd =
     (case get_row (fd_reminders fd) reminder_id of
        None \<Rightarrow> (Inl (sentinel_error ReminderNotFound), fd)
      | Some d \<Rightarrow> (Inr (from_reminder_doc d), fd))"

definition fire_list_scheduled_reminders :: "(documents, reminder list) proc" where
  "fire_list_scheduled_reminders fd =
     (Inr (map (from_reminder_doc \<circ> snd) (query (\<lambda>d. dn_status d = StatusScheduled) (fd_reminders fd))), fd)"

definition fire_claim_reminder :: "string \<Rightarrow> string \<Rightarrow> time \<Rightarrow> time \<Rightarrow> (documents, reminder \<times> bool) proc" where
  "fire_claim_reminder reminder_id claim_id at lease_until fd =
     (case get_row (fd_reminders fd) reminder_id of
        None \<Rightarrow> (Inl (wrap_error ''firestore: claim reminder'' (sentinel_error ReminderNotFound)), fd)
      | Some d \<Rightarrow>
        let r = from_reminder_doc d in
        if reminder_terminal r \<or> (rm_status r = StatusDelivering \<and> after (rm_claim_expires r) at)
        then (Inr (r, False), fd)
        else let r = r\<lparr>rm_status := StatusDelivering, rm_claim_id := claim_id, rm_claim_expires := lease_until\<rparr>
          in (Inr (r, True), put_reminder reminder_id r fd))"

definition fire_finish_reminder :: "string \<Rightarrow> string \<Rightarrow> reminder_status \<Rightarrow> time \<Rightarrow> (documents, unit) proc" where
  "fire_finish_reminder reminder_id claim_id st at fd =
     (let wrap = wrap_error ''firestore: finish reminder'' in
      if st \<noteq> StatusSent \<and> st \<noteq> StatusSkipped then (Inl (wrap (errors_new ''status must be sent or skipped'')), fd)
      else case get_row (fd_reminders fd) reminder_id of
        None \<Rightarrow> (Inl (wrap (sentinel_error ReminderNotFound)), fd)
      | Some d \<Rightarrow>
        let r = from_reminder_doc d in
        if rm_status r \<noteq> StatusDelivering \<or> rm_claim_id r \<noteq> claim_id
        then (Inl (wrap (errors_new ''claim is not owned by this delivery'')), fd)
        else (Inr (), put_reminder reminder_id
          (r\<lparr>rm_status := st, rm_finished_at := at, rm_claim_id := [], rm_claim_expires := zero_time\<rparr>) fd))"

definition fire_release_reminder :: "string \<Rightarrow> string \<Rightarrow> (documents, unit) proc" where
  "fire_release_reminder reminder_id claim_id fd =
     (case get_row (fd_reminders fd) reminder_id of
        None \<Rightarrow> (Inl (wrap_error ''firestore: release reminder'' (sentinel_error ReminderNotFound)), fd)
      | Some d \<Rightarrow>
        let r = from_reminder_doc d in
        if rm_status r \<noteq> StatusDelivering \<or> rm_claim_id r \<noteq> claim_id then (Inr (), fd)
        else (Inr (), put_reminder reminder_id
          (r\<lparr>rm_status := StatusScheduled, rm_claim_id := [], rm_claim_expires := zero_time\<rparr>) fd))"

section \<open>Notification entries\<close>

definition fire_get_notification :: "string \<Rightarrow> (documents, entry) proc" where
  "fire_get_notification key fd = (Inr (row_or zero_entry (fd_notifications fd) key), fd)"

definition fire_transact_notifications ::
  "string list \<Rightarrow> (entry table \<Rightarrow> ('a \<times> entry table) result) \<Rightarrow> (documents, 'a) proc" where
  "fire_transact_notifications keys fn fd =
     (case fn (fold (\<lambda>k. put_row k (row_or zero_entry (fd_notifications fd) k)) keys []) of
        Inl e \<Rightarrow> (Inl e, fd)
      | Inr (x, rs) \<Rightarrow>
        (Inr x, fd\<lparr>fd_notifications := fold (\<lambda>k. put_row k (row_or zero_entry rs k)) keys (fd_notifications fd)\<rparr>))"

definition fire_pending_notifications :: "(documents, entry list) proc" where
  "fire_pending_notifications fd =
     (Inr (take 100 (map snd (query (\<lambda>e. ne_state e \<in> {''pending'', ''prepared''}) (fd_notifications fd)))), fd)"

definition fire_unrouted_notifications :: "(documents, entry list) proc" where
  "fire_unrouted_notifications fd =
     (Inr (take 100 (map snd (query (\<lambda>e. ne_outcome e = ''no_linked_messenger'') (fd_notifications fd)))), fd)"

definition fire_pending_sms_notifications :: "(documents, entry list) proc" where
  "fire_pending_sms_notifications fd =
     (Inr (take 20 (sort_key ne_updated_at (map snd (query
        (\<lambda>e. ne_kind e = ''event'' \<and> ne_outcome e \<in> {''accepted_sms'', ''uncertain_sms'', ''sms_alert_retryable''})
        (fd_notifications fd))))), fd)"

definition fire_touch_conversation :: "string \<Rightarrow> time \<Rightarrow> (documents, unit) proc" where
  "fire_touch_conversation key at fd =
     (case get_row (fd_conversations fd) key of
        None \<Rightarrow> (Inl document_missing, fd)
      | Some d \<Rightarrow>
        if \<not> after at (dv_last_message_at d) then (Inr (), fd)
        else (Inr (), fd\<lparr>fd_conversations := put_row key (d\<lparr>dv_last_message_at := at, dv_updated_at := at\<rparr>) (fd_conversations fd)\<rparr>))"

section \<open>The staff inbox\<close>

text \<open>Newest first, the key deciding between equals; \<open>StartAfter\<close> continues behind the boundary.\<close>

definition doc_cursor :: "string \<times> conversation_doc \<Rightarrow> cursor" where
  "doc_cursor kd = Cursor (dv_last_message_at (snd kd)) (fst kd)"

definition fire_telegram_conversations ::
  "cursor option \<Rightarrow> int \<Rightarrow> (documents, conversation list \<times> cursor option) proc" where
  "fire_telegram_conversations boundary limit fd =
     (let limit = nat (inbox_limit limit conversation_limit);
          docs = rev (sort_key doc_cursor (query (\<lambda>d. dv_provider d = ProviderTelegram) (fd_conversations fd)));
          docs = (case boundary of None \<Rightarrow> docs | Some b \<Rightarrow> filter (\<lambda>kd. doc_cursor kd < b) docs);
          docs = take (limit + 1) docs;
          shown = map (from_conversation_doc \<circ> snd) in
      if length docs > limit
      then (Inr (shown (take limit docs), Some (doc_cursor (take limit docs ! (limit - 1)))), fd)
      else (Inr (shown docs, None), fd))"

definition fire_inbox_customer :: "string \<Rightarrow> (documents, customer) proc" where
  "fire_inbox_customer customer_id fd =
     (Inr (case get_row (fd_customers fd) customer_id of
        None \<Rightarrow> zero_customer\<lparr>cu_id := customer_id\<rparr> | Some d \<Rightarrow> customer_of_doc customer_id d), fd)"

definition fire_inbox_history :: "string \<Rightarrow> string \<Rightarrow> int \<Rightarrow> (documents, stored_message list \<times> string) proc" where
  "fire_inbox_history conversation_id boundary limit fd =
     (let limit = nat (inbox_limit limit history_limit);
          docs = rev (sort_key dm_sort_id (map snd (row_or [] (fd_messages fd) conversation_id)));
          docs = (if boundary = [] then docs else filter (\<lambda>d. dm_sort_id d < boundary) docs);
          docs = take (limit + 1) docs;
          shown = (\<lambda>ds. rev (map from_message_doc ds)) in
      if length docs > limit
      then (Inr (shown (take limit docs), dm_sort_id (take limit docs ! (limit - 1))), fd)
      else (Inr (shown docs, []), fd))"

definition fire_save_inbox_page :: "inbox_page \<Rightarrow> (documents, unit) proc" where
  "fire_save_inbox_page page fd = (Inr (), fd\<lparr>fd_inbox_pages := put_row (ip_id page) page (fd_inbox_pages fd)\<rparr>)"

definition fire_find_inbox_page :: "time \<Rightarrow> string \<Rightarrow> (documents, inbox_page) proc" where
  "fire_find_inbox_page now page_id fd =
     (case get_row (fd_inbox_pages fd) page_id of
        None \<Rightarrow> (Inl (sentinel_error PageExpired), fd)
      | Some page \<Rightarrow> if \<not> after (ip_expires_at page) now then (Inl (sentinel_error PageExpired), fd) else (Inr page, fd))"

section \<open>Documents read back\<close>

lemma whole_seconds_exact: "second dvd d \<Longrightarrow> whole_seconds d * second = d"
  by (auto simp: whole_seconds_def)

lemma whole_seconds_near: "\<bar>whole_seconds d * second - d\<bar> < second"
proof -
  have "\<bar>d div second * second - d\<bar> < second" if "0 \<le> d" for d
    using that by (simp add: second_def minus_mod_eq_div_mult [symmetric])
  from this [of d] this [of "- d"] show ?thesis by (cases "0 \<le> d") (simp_all add: whole_seconds_def)
qed

definition whole_conversation :: "conversation \<Rightarrow> bool" where
  "whole_conversation c \<longleftrightarrow> (case cv_draft c of None \<Rightarrow> True | Some d \<Rightarrow> second dvd dr_duration d)"

lemma draft_reads_back: "second dvd dr_duration d \<Longrightarrow> draft_of_doc (draft_to_doc d) = d"
  by (simp add: draft_of_doc_def draft_to_doc_def whole_seconds_exact)

lemma change_reads_back: "change_of_doc (change_to_doc d) = d"
  by (simp add: change_of_doc_def change_to_doc_def)

lemma conversation_reads_back: "whole_conversation c \<Longrightarrow> from_conversation_doc (to_conversation_doc c) = c"
  by (cases "cv_draft c")
    (simp_all add: whole_conversation_def from_conversation_doc_def to_conversation_doc_def draft_reads_back
      change_reads_back option.map_comp comp_def option.map_ident)

lemma message_reads_back: "from_message_doc (to_message_doc m) = m"
  by (simp add: from_message_doc_def to_message_doc_def)

lemma reminder_reads_back: "from_reminder_doc (to_reminder_doc r) = r"
  by (simp add: from_reminder_doc_def to_reminder_doc_def)

definition whole_booking :: "booking \<Rightarrow> bool" where
  "whole_booking b \<longleftrightarrow> second dvd bk_duration b \<and> second dvd bk_treatment_duration b \<and> \<not> bk_attended b \<and> \<not> bk_no_show b"

lemma booking_reads_back: "whole_booking b \<Longrightarrow> from_booking_doc (to_booking_doc b) = b"
  by (simp add: whole_booking_def from_booking_doc_def to_booking_doc_def whole_seconds_exact)

text \<open>Whatever the durations, the fields that identify, place and guard a record are kept.\<close>

lemma conversation_doc_fields [simp]:
  "conv_key (from_conversation_doc (to_conversation_doc c)) = conv_key c"
  "cv_id (from_conversation_doc (to_conversation_doc c)) = cv_id c"
  "cv_state (from_conversation_doc (to_conversation_doc c)) = cv_state c"
  "cv_revision (from_conversation_doc (to_conversation_doc c)) = cv_revision c"
  "dv_revision (to_conversation_doc c) = cv_revision c"
  "dv_id (to_conversation_doc c) = cv_id c"
  "cv_revision (from_conversation_doc d) = dv_revision d"
  "cv_id (from_conversation_doc d) = dv_id d"
  by (simp_all add: conv_key_def from_conversation_doc_def to_conversation_doc_def)

lemma from_conversation_doc_inverse: "to_conversation_doc (from_conversation_doc d) = d \<longleftrightarrow>
    (case dv_draft d of None \<Rightarrow> True | Some x \<Rightarrow> draft_to_doc (draft_of_doc x) = x)"
  by (cases "dv_change d"; cases "dv_draft d"; cases d)
    (auto simp: from_conversation_doc_def to_conversation_doc_def change_of_doc_def change_to_doc_def)

lemma draft_doc_reads_back: "draft_to_doc (draft_of_doc x) = x"
  by (simp add: draft_of_doc_def draft_to_doc_def whole_seconds_def second_def)

lemma document_reads_back: "to_conversation_doc (from_conversation_doc d) = d"
  by (simp add: from_conversation_doc_inverse draft_doc_reads_back split: option.split)

lemma documents_are_whole: "whole_conversation (from_conversation_doc d)"
  by (simp add: whole_conversation_def from_conversation_doc_def draft_of_doc_def split: option.split)

section \<open>Leases on handled deliveries\<close>

definition hosted_claim :: "string \<Rightarrow> string \<Rightarrow> time \<Rightarrow> documents \<Rightarrow> claim_result \<times> documents" where
  "hosted_claim k c t fd =
     (case fire_claim_delivery k c t fd of
        (Inl _, fd') \<Rightarrow> (Busy, fd') | (Inr granted, fd') \<Rightarrow> (if granted then Granted else Done, fd'))"

definition hosted_finish :: "string \<Rightarrow> string \<Rightarrow> time \<Rightarrow> time \<Rightarrow> documents \<Rightarrow> bool \<times> documents" where
  "hosted_finish k c t now fd =
     (case fire_complete_delivery k c t fd of (Inl _, fd') \<Rightarrow> (False, fd') | (Inr _, fd') \<Rightarrow> (True, fd'))"

definition hosted_release :: "string \<Rightarrow> string \<Rightarrow> documents \<Rightarrow> documents" where
  "hosted_release k c fd = snd (fire_release_delivery k c fd)"

definition hosted_holder :: "documents \<Rightarrow> string \<Rightarrow> (string \<times> time) option" where
  "hosted_holder fd k =
     (case get_row (fd_processed fd) k of None \<Rightarrow> None
      | Some d \<Rightarrow> if is_zero (dp_processed_at d) then Some (dp_claim_id d, dp_expires_at d) else None)"

definition hosted_settled :: "documents \<Rightarrow> string \<Rightarrow> time \<Rightarrow> bool" where
  "hosted_settled fd k t =
     (case get_row (fd_processed fd) k of None \<Rightarrow> False
      | Some d \<Rightarrow> \<not> is_zero (dp_processed_at d) \<and> after (dp_expires_at d) t)"

definition hosted_inv :: "documents \<Rightarrow> bool" where
  "hosted_inv fd \<longleftrightarrow> table_all (\<lambda>k d. is_zero (dp_processed_at d) \<or> dp_claim_id d = []) (fd_processed fd)"

lemmas hosted_defs = hosted_claim_def hosted_finish_def hosted_release_def hosted_holder_def hosted_settled_def
  fire_claim_delivery_def fire_complete_delivery_def fire_release_delivery_def

lemma hosted_row: "hosted_inv fd \<Longrightarrow> get_row (fd_processed fd) k = Some d \<Longrightarrow> dp_processed_at d = 0 \<or> dp_claim_id d = []"
  by (auto simp: hosted_inv_def is_zero_def dest: table_allD)

interpretation hosted_deliveries: lease hosted_inv hosted_claim hosted_finish hosted_release
  "\<lambda>_ _. True" hosted_holder hosted_settled "\<lambda>_. processed_retention"
proof
  fix s s' :: documents and k k' c c' :: string and t0 u clock :: time and ok :: bool and r
  assume inv: "hosted_inv s"
  show "hosted_inv (snd (hosted_claim k c t0 s))"
    using inv by (simp add: hosted_claim_def fire_claim_delivery_def Let_def hosted_inv_def is_zero_def split: option.split)
  show "hosted_inv (snd (hosted_finish k c t0 clock s))"
    using inv by (simp add: hosted_finish_def fire_complete_delivery_def Let_def hosted_inv_def split: option.split)
  show "hosted_inv (hosted_release k c s)"
    using inv by (simp add: hosted_release_def fire_release_delivery_def hosted_inv_def split: option.split)
  show "\<not> hosted_settled s k t0 \<and> (\<forall>c' u. hosted_holder s k = Some (c', u) \<longrightarrow> u \<le> t0) \<and>
      (\<exists>u. hosted_holder s' k = Some (c, u))" if "hosted_claim k c t0 s = (Granted, s')"
    using that by (auto simp: hosted_defs time_defs Let_def split: option.splits if_splits)
  show "s' = s \<and> (\<exists>c' u. hosted_holder s k = Some (c', u) \<and> t0 < u)" if "hosted_claim k c t0 s = (Busy, s')"
    using that by (auto simp: hosted_defs time_defs Let_def split: option.splits if_splits)
  show "s' = s \<and> hosted_settled s k t0" if "hosted_claim k c t0 s = (Done, s')"
    using that by (auto simp: hosted_defs time_defs Let_def split: option.splits if_splits)
  show "s' = s \<and> \<not> True" if "hosted_claim k c t0 s = (Unknown, s')"
    using that by (auto simp: hosted_claim_def split: prod.splits sum.splits if_splits)
  show "hosted_holder s' k' = hosted_holder s k' \<and> hosted_settled s' k' = hosted_settled s k'"
    if "hosted_claim k c t0 s = (r, s')" "k' \<noteq> k"
    using that by (auto simp: hosted_defs time_defs Let_def fun_eq_iff split: option.splits if_splits)
  show "ok \<and> hosted_holder s' k = None \<and>
      (clock < t0 + processed_retention \<longrightarrow> (\<forall>t < t0 + processed_retention. hosted_settled s' k t))"
    if "hosted_holder s k = Some (c, u)" "c \<noteq> []" "t0 \<noteq> zero_time" "hosted_finish k c t0 clock s = (ok, s')"
    using that by (auto simp: hosted_defs time_defs Let_def split: option.splits if_splits)
  show "hosted_finish k c t0 clock s = (False, s)" if "\<forall>u. hosted_holder s k \<noteq> Some (c, u)" "c \<noteq> []"
    using that hosted_row [OF inv] by (auto simp: hosted_defs time_defs Let_def split: option.splits if_splits)
  show "hosted_holder s' k' = Some (c', u)"
    if "hosted_finish k c t0 clock s = (ok, s')" "k' \<noteq> k" "hosted_holder s k' = Some (c', u)" "clock < u"
    using that by (auto simp: hosted_defs time_defs Let_def split: option.splits if_splits)
  show "hosted_holder (hosted_release k c s) k = None \<and>
      hosted_settled (hosted_release k c s) k = hosted_settled s k \<and> True"
    if "hosted_holder s k = Some (c, u)" "c \<noteq> []"
    using that by (auto simp: hosted_defs time_defs fun_eq_iff split: option.splits if_splits)
  show "hosted_release k c s = s" if "\<forall>u. hosted_holder s k \<noteq> Some (c, u)" "c \<noteq> []"
    using that by (auto simp: hosted_defs time_defs split: option.splits if_splits)
  show "hosted_holder (hosted_release k c s) k' = hosted_holder s k' \<and>
      hosted_settled (hosted_release k c s) k' = hosted_settled s k'" if "k' \<noteq> k"
    using that by (auto simp: hosted_defs time_defs fun_eq_iff split: option.splits if_splits)
qed

text \<open>The expiry policy takes no live lease and no settled record that still counts.\<close>

lemma expiry_keeps_leases:
  "hosted_holder fd k = Some (c, u) \<Longrightarrow> now < u \<Longrightarrow> hosted_holder (expire_document j now fd) k = Some (c, u)"
  "hosted_settled fd k now \<Longrightarrow> hosted_settled (expire_document j now fd) k now"
  by (auto simp: expire_document_def hosted_holder_def hosted_settled_def after_def split: option.splits if_splits)

end
