(* ===== verification/FireRefines.thy ===== *)
theory FireRefines
  imports FireLaws "HOL-Library.Multiset"
begin

text \<open>
  The hosted store refines the in-process one. \<open>represents\<close> relates documents to the tables of the
  in-process store by what a lookup gives; \<open>agree\<close> says that two methods, run from related states,
  answer alike and end in related states. The leases of deliveries are left out: the two stores
  forget finished deliveries at different times, and both keep the lease contract instead.
\<close>

section \<open>The relation\<close>

definition booked_for :: "documents \<Rightarrow> string \<Rightarrow> booking multiset" where
  "booked_for fd c = mset (map (from_booking_doc \<circ> snd) (filter (\<lambda>(k, d). dk_customer_id d = c) (fd_bookings fd)))"

definition transcript_of :: "documents \<Rightarrow> string \<Rightarrow> stored_message list" where
  "transcript_of fd c = map from_message_doc (sort_key dm_sort_id (map snd (row_or [] (fd_messages fd) c)))"

definition represents :: "(string \<Rightarrow> string) \<Rightarrow> documents \<Rightarrow> db \<Rightarrow> bool" where
  "represents sha fd db \<longleftrightarrow>
     (\<forall>k. get_row (db_customers db) k = map_option (customer_of_doc k) (get_row (fd_customers fd) k)) \<and>
     (\<forall>k. row_or [] (db_aliases db) k = (case get_row (fd_customers fd) k of None \<Rightarrow> [] | Some d \<Rightarrow> dc_linked d)) \<and>
     (\<forall>k. map_option ci_customer_id (get_row (db_identities db) k) = map_option di_customer_id (get_row (fd_identities fd) k)) \<and>
     (\<forall>k. get_row (db_conversations db) k = map_option from_conversation_doc (get_row (fd_conversations fd) k)) \<and>
     (\<forall>k. get_row (db_latest_turn db) k = map_option dt_event_id (get_row (fd_turns fd) (turn_document_id sha k))) \<and>
     (\<forall>k. get_row (db_staff_threads db) k = map_option ds_conversation_id (get_row (fd_staff_threads fd) k)) \<and>
     (\<forall>k. get_row (db_reminders db) k = map_option from_reminder_doc (get_row (fd_reminders fd) k)) \<and>
     (\<forall>k. get_row (db_entries db) k = get_row (fd_notifications fd) k) \<and>
     (\<forall>c. mset (row_or [] (db_bookings db) c) = booked_for fd c) \<and>
     (\<forall>c. row_or [] (db_messages db) c = transcript_of fd c) \<and>
     (\<forall>i k. get_row (db_conversation_keys db) i = Some k \<longleftrightarrow>
        (\<exists>d. get_row (fd_conversations fd) k = Some d \<and> dv_id d = i)) \<and>
     table_inv (db_bookings db)"

lemma represents_lookups:
  assumes "represents sha fd db"
  shows "get_row (db_customers db) k = map_option (customer_of_doc k) (get_row (fd_customers fd) k)"
    and "row_or [] (db_aliases db) k = (case get_row (fd_customers fd) k of None \<Rightarrow> [] | Some d \<Rightarrow> dc_linked d)"
    and "map_option ci_customer_id (get_row (db_identities db) k) = map_option di_customer_id (get_row (fd_identities fd) k)"
    and "get_row (db_conversations db) k = map_option from_conversation_doc (get_row (fd_conversations fd) k)"
    and "get_row (db_latest_turn db) k = map_option dt_event_id (get_row (fd_turns fd) (turn_document_id sha k))"
    and "get_row (db_staff_threads db) k = map_option ds_conversation_id (get_row (fd_staff_threads fd) k)"
    and "get_row (db_reminders db) k = map_option from_reminder_doc (get_row (fd_reminders fd) k)"
    and "get_row (db_entries db) k = get_row (fd_notifications fd) k"
    and "mset (row_or [] (db_bookings db) k) = booked_for fd k"
    and "row_or [] (db_messages db) k = transcript_of fd k"
    and "get_row (db_conversation_keys db) i = Some k \<longleftrightarrow>
      (\<exists>d. get_row (fd_conversations fd) k = Some d \<and> dv_id d = i)"
    and "table_inv (db_bookings db)"
  using assms by (simp_all add: represents_def)

text \<open>Two outcomes are alike when they answer alike, or fail for the same reason.\<close>

fun alike :: "('a \<Rightarrow> 'b \<Rightarrow> bool) \<Rightarrow> 'a result \<Rightarrow> 'b result \<Rightarrow> bool" where
  "alike R (Inr x) (Inr y) = R x y"
| "alike R (Inl e) (Inl e') = (wraps e = wraps e')"
| "alike R _ _ = False"

definition agree ::
  "(string \<Rightarrow> string) \<Rightarrow> (documents \<Rightarrow> bool) \<Rightarrow> ('a \<Rightarrow> 'b \<Rightarrow> bool) \<Rightarrow> (documents, 'a) proc \<Rightarrow> (db, 'b) proc \<Rightarrow> bool" where
  "agree sha P R m n \<longleftrightarrow> (\<forall>fd db. represents sha fd db \<longrightarrow> P fd \<longrightarrow>
     alike R (fst (m fd)) (fst (n db)) \<and> represents sha (snd (m fd)) (snd (n db)))"

lemma agreeI:
  "(\<And>fd db. represents sha fd db \<Longrightarrow> P fd \<Longrightarrow>
     alike R (fst (m fd)) (fst (n db)) \<and> represents sha (snd (m fd)) (snd (n db))) \<Longrightarrow> agree sha P R m n"
  by (auto simp: agree_def)

lemma wraps_simps [simp]:
  "wraps (wrap_error p e) = wraps e" "wraps (sentinel_error s) = [s]" "wraps (errors_new t) = []"
  by (simp_all add: wrap_error_def sentinel_error_def errors_new_def)

section \<open>Reminders\<close>

abbreviation "always \<equiv> \<lambda>fd :: documents. True"

lemma agree_reminders:
  "agree sha always (=) (fire_ensure_reminder r) (ensure_reminder r)"
  "agree sha always (=) (fire_find_reminder i) (find_reminder i)"
  "agree sha always (=) (fire_claim_reminder i c t u) (claim_reminder i c t u)"
  "agree sha always (=) (fire_finish_reminder i c st t) (finish_reminder i c st t)"
  "agree sha always (=) (fire_release_reminder i c) (release_reminder i c)"
proof -
  note defs = represents_def booked_for_def transcript_of_def put_reminder_def reminder_reads_back Let_def
  show "agree sha always (=) (fire_ensure_reminder r) (ensure_reminder r)"
    by (intro agreeI) (auto simp: defs fire_ensure_reminder_def ensure_reminder_def split: option.split)
  show "agree sha always (=) (fire_find_reminder i) (find_reminder i)"
    by (intro agreeI) (auto simp: defs fire_find_reminder_def find_reminder_def split: option.split)
  show "agree sha always (=) (fire_claim_reminder i c t u) (claim_reminder i c t u)"
    by (intro agreeI) (auto simp: defs fire_claim_reminder_def claim_reminder_def split: option.split)
  show "agree sha always (=) (fire_finish_reminder i c st t) (finish_reminder i c st t)"
    by (intro agreeI) (auto simp: defs fire_finish_reminder_def finish_reminder_def split: option.split)
  show "agree sha always (=) (fire_release_reminder i c) (release_reminder i c)"
    by (intro agreeI) (auto simp: defs fire_release_reminder_def release_reminder_def split: option.split)
qed

section \<open>Notification rows, staff threads and turns\<close>

lemma same_copies: "\<forall>k. get_row t k = get_row u k \<Longrightarrow>
    fold (\<lambda>k. put_row k (row_or z t k)) keys rs = fold (\<lambda>k. put_row k (row_or z u k)) keys rs"
  by (simp add: row_or_def)

lemma get_row_fold_put: "get_row (fold (\<lambda>k. put_row k (f k)) keys t) k = (if k \<in> set keys then Some (f k) else get_row t k)"
  by (induction keys arbitrary: t) auto

lemma agree_rows:
  "agree sha always (=) (fire_get_notification k) (get_notification k)"
  "agree sha always (=) (fire_transact_notifications keys fn) (transact_notifications keys fn)"
  "agree sha always (=) (fire_link_staff_thread t m i) (link_staff_thread m i)"
  "agree sha always (=) (fire_conversation_for_staff_thread m) (conversation_for_staff_thread m)"
proof -
  note defs = represents_def booked_for_def transcript_of_def Let_def row_or_def
  show "agree sha always (=) (fire_get_notification k) (get_notification k)"
    by (intro agreeI) (auto simp: defs fire_get_notification_def get_notification_def)
  show "agree sha always (=) (fire_transact_notifications keys fn) (transact_notifications keys fn)"
  proof (intro agreeI)
    fix fd db assume R: "represents sha fd db"
    then have "\<forall>k. get_row (db_entries db) k = get_row (fd_notifications fd) k" by (simp add: represents_def)
    note same = same_copies [OF this, of zero_entry keys "[]"]
    show "alike (=) (fst (fire_transact_notifications keys fn fd)) (fst (transact_notifications keys fn db)) \<and>
      represents sha (snd (fire_transact_notifications keys fn fd)) (snd (transact_notifications keys fn db))"
      using R by (auto simp: fire_transact_notifications_def transact_notifications_def same represents_def
          booked_for_def transcript_of_def get_row_fold_put split: sum.split)
  qed
  show "agree sha always (=) (fire_link_staff_thread t m i) (link_staff_thread m i)"
    by (intro agreeI) (auto simp: defs fire_link_staff_thread_def link_staff_thread_def)
  show "agree sha always (=) (fire_conversation_for_staff_thread m) (conversation_for_staff_thread m)"
    by (intro agreeI) (auto simp: defs fire_conversation_for_staff_thread_def conversation_for_staff_thread_def
        split: option.split)
qed

lemma agree_turns:
  assumes "inj sha"
  shows "agree sha always (=) (fire_register_turn sha k e t) (register_turn k e)"
    and "agree sha (\<lambda>fd. get_row (fd_turns fd) (turn_document_id sha k) \<noteq> None) (=)
      (fire_is_latest_turn sha k e) (is_latest_turn k e)"
proof -
  have "turn_document_id sha a = turn_document_id sha b \<longleftrightarrow> a = b" for a b
    using assms by (simp add: turn_document_id_def inj_eq)
  then show "agree sha always (=) (fire_register_turn sha k e t) (register_turn k e)"
    by (intro agreeI) (auto simp: represents_def booked_for_def transcript_of_def fire_register_turn_def register_turn_def)
  show "agree sha (\<lambda>fd. get_row (fd_turns fd) (turn_document_id sha k) \<noteq> None) (=)
      (fire_is_latest_turn sha k e) (is_latest_turn k e)"
    by (intro agreeI) (auto simp: represents_def fire_is_latest_turn_def is_latest_turn_def row_or_def split: option.split)
qed

section \<open>Customers\<close>

lemma customer_of_doc_simps [simp]:
  "cu_id (customer_of_doc k d) = k" "cu_name (customer_of_doc k d) = dc_name d"
  "cu_phone (customer_of_doc k d) = dc_phone d" "cu_created_at (customer_of_doc k d) = dc_created_at d"
  "cu_verified_phone (customer_of_doc k d) = []" "cu_updated_at (customer_of_doc k d) = dc_updated_at d"
  by (simp_all add: customer_of_doc_def)

definition known_customers :: "documents \<Rightarrow> bool" where
  "known_customers fd \<longleftrightarrow> (\<forall>k d. get_row (fd_identities fd) k = Some d \<longrightarrow> get_row (fd_customers fd) (di_customer_id d) \<noteq> None)"

lemma agree_find_or_create:
  "agree sha (\<lambda>fd. known_customers fd \<and> ci_customer_id identity = cu_id candidate \<and> cu_verified_phone candidate = [] \<and>
      get_row (fd_customers fd) (cu_id candidate) = None) (=)
    (fire_find_or_create identity candidate) (find_or_create_by_channel_identity identity candidate)"
proof (intro agreeI)
  fix fd db
  assume R: "represents sha fd db" and P: "known_customers fd \<and> ci_customer_id identity = cu_id candidate \<and>
    cu_verified_phone candidate = [] \<and> get_row (fd_customers fd) (cu_id candidate) = None"
  let ?k = "identity_key identity"
  have new: "candidate = customer_of_doc (cu_id candidate) \<lparr>dc_linked = [], dc_name = cu_name candidate,
      dc_phone = cu_phone candidate, dc_created_at = cu_created_at candidate, dc_updated_at = cu_updated_at candidate\<rparr>"
    using P by (simp add: customer_of_doc_def)
  have ids: "map_option ci_customer_id (get_row (db_identities db) ?k) = map_option di_customer_id (get_row (fd_identities fd) ?k)"
    using R by (simp add: represents_def)
  show "alike (=) (fst (fire_find_or_create identity candidate fd)) (fst (find_or_create_by_channel_identity identity candidate db)) \<and>
    represents sha (snd (fire_find_or_create identity candidate fd)) (snd (find_or_create_by_channel_identity identity candidate db))"
  proof (cases "get_row (fd_identities fd) ?k")
    case None
    then have "get_row (db_identities db) ?k = None" using ids by simp
    then show ?thesis using None R P new
      by (auto simp: fire_find_or_create_def find_or_create_by_channel_identity_def new_identity_def represents_def
          booked_for_def transcript_of_def row_or_def Let_def split: option.split)
  next
    case (Some d)
    then obtain i where i: "get_row (db_identities db) ?k = Some i" "ci_customer_id i = di_customer_id d" using ids by auto
    obtain x where "get_row (fd_customers fd) (di_customer_id d) = Some x"
      using P Some by (auto simp: known_customers_def)
    then show ?thesis using Some i R
      by (auto simp: fire_find_or_create_def find_or_create_by_channel_identity_def represents_def row_or_def Let_def
          split: option.split)
  qed
qed

lemma agree_update_contact:
  "agree sha always (=) (fire_update_contact now i name phone) (update_contact now i name phone)"
  by (intro agreeI) (auto simp: represents_def booked_for_def transcript_of_def fire_update_contact_def update_contact_def
      customer_of_doc_def Let_def split: option.split)

lemma represents_profile:
  assumes "represents sha fd db"
    and "\<And>j. get_row (db_customers db') j = (if j = k then Some (customer_of_doc k d) else get_row (db_customers db) j)"
    and "\<And>j. row_or [] (db_aliases db') j = (if j = k then dc_linked d else row_or [] (db_aliases db) j)"
    and "\<And>j. get_row (db_identities db') j = (if j = i then Some y else get_row (db_identities db) j)"
    and "ci_customer_id y = di_customer_id x"
    and "db_conversations db' = db_conversations db" "db_latest_turn db' = db_latest_turn db"
    "db_staff_threads db' = db_staff_threads db" "db_reminders db' = db_reminders db" "db_entries db' = db_entries db"
    "db_bookings db' = db_bookings db" "db_messages db' = db_messages db"
    "db_conversation_keys db' = db_conversation_keys db"
  shows "represents sha (fd\<lparr>fd_customers := put_row k d (fd_customers fd), fd_identities := put_row i x (fd_identities fd)\<rparr>) db'"
  unfolding represents_def booked_for_def transcript_of_def
  using represents_lookups [OF assms(1), unfolded booked_for_def transcript_of_def]
  by (intro conjI allI) (simp_all add: assms(2-))

lemma agree_link_identity:
  "agree sha (\<lambda>fd. get_row (fd_identities fd) (identity_key identity) \<noteq> None) (=)
    (fire_link_verified_identity lib h now identity old raw) (link_verified_identity lib h now identity old raw)"
proof (intro agreeI)
  fix fd db
  assume R: "represents sha fd db" and P: "get_row (fd_identities fd) (identity_key identity) \<noteq> None"
  let ?i = "identity_key identity"
  obtain d where d: "get_row (fd_identities fd) ?i = Some d" using P by auto
  with R obtain i where i: "get_row (db_identities db) ?i = Some i" "ci_customer_id i = di_customer_id d"
    using represents_lookups(3) [OF R, of ?i] by auto
  let ?hosted = "fire_link_verified_identity lib h now identity old raw fd"
  let ?local = "link_verified_identity lib h now identity old raw db"
  show "alike (=) (fst ?hosted) (fst ?local) \<and> represents sha (snd ?hosted) (snd ?local)"
  proof (cases "normalize_phone lib raw")
    case (Inr phone)
    note defs = fire_link_verified_identity_def link_verified_identity_def
    let ?c = "profile_id h phone"
    consider "di_customer_id d \<noteq> cu_id old" | "di_customer_id d = cu_id old" by blast
    then show ?thesis
    proof cases
      case 2
      have cust: "get_row (db_customers db) ?c = map_option (customer_of_doc ?c) (get_row (fd_customers fd) ?c)"
        and aka: "row_or [] (db_aliases db) ?c = (case get_row (fd_customers fd) ?c of None \<Rightarrow> [] | Some x \<Rightarrow> dc_linked x)"
        using represents_lookups(1,2) [OF R] by simp_all
      obtain x where x: "x = (case get_row (fd_customers fd) ?c of Some d \<Rightarrow> d | None \<Rightarrow>
          \<lparr>dc_linked = [], dc_name = cu_name old, dc_phone = phone, dc_created_at = cu_created_at old, dc_updated_at = now\<rparr>)"
        by simp
      have linked: "row_or [] (db_aliases db) ?c = dc_linked x" using aka by (simp add: x split: option.split)
      have same: "(case get_row (db_customers db) ?c of Some c \<Rightarrow> c | None \<Rightarrow>
           \<lparr>cu_id = ?c, cu_name = cu_name old, cu_phone = phone, cu_verified_phone = [],
            cu_created_at = cu_created_at old, cu_updated_at = now\<rparr>) = customer_of_doc ?c x"
        using cust by (simp add: x customer_of_doc_def split: option.split)
      have upd: "customer_of_doc ?c (x\<lparr>dc_linked := l\<rparr>) = customer_of_doc ?c x" for l
        by (simp add: customer_of_doc_def)
      have stored: "get_row (db_customers db) ?c = Some y \<Longrightarrow> y = customer_of_doc ?c x" for y
        using cust by (auto simp: x split: option.splits)
      have unseen: "get_row (db_customers db) ?c = None \<Longrightarrow> \<lparr>cu_id = ?c, cu_name = cu_name old, cu_phone = phone,
          cu_verified_phone = [], cu_created_at = cu_created_at old, cu_updated_at = now\<rparr> = customer_of_doc ?c x"
        using same by simp
      show ?thesis
      proof (cases "cu_id old \<noteq> ?c \<and> \<not> has_prefix (cu_id old) ''verified_phone_'' \<and> cu_id old \<notin> set (dc_linked x)")
        case True
        show ?thesis
          using d i Inr 2 True
          by (simp add: defs Let_def x [symmetric] same linked upd)
            (intro conjI impI represents_profile [OF R, where y = "i\<lparr>ci_customer_id := ?c\<rparr>"];
             auto simp: upd linked unseen dest: stored)
      next
        case False
        then show ?thesis
          using d i Inr 2
          by (simp add: defs Let_def x [symmetric] same linked)
            (intro conjI impI represents_profile [OF R, where y = "i\<lparr>ci_customer_id := ?c\<rparr>"];
             auto simp: linked unseen dest: stored)
      qed
    qed (use R d i Inr in \<open>simp add: defs\<close>)
  qed (use R in \<open>simp add: fire_link_verified_identity_def link_verified_identity_def\<close>)
qed

end
