(* ===== verification/FireConversations.thy ===== *)
theory FireConversations
  imports FireRefines
begin

text \<open>
  The refinement continued: conversations, transcripts and appointments, whose tables the two stores
  arrange differently. \<open>documents_inv\<close> is what the hosted collections keep of their keys.
\<close>

section \<open>Tables\<close>

lemma mset_put:
  "table_inv t \<Longrightarrow> mset (put_row k v t) = add_mset (k, v) (filter_mset (\<lambda>p. fst p \<noteq> k) (mset t))"
proof (induction t)
  case (Cons p t)
  then have "fst p \<notin> fst ` set t" "table_inv t" by (auto simp: table_inv_def)
  moreover have "filter_mset (\<lambda>q. fst q \<noteq> fst p) (mset t) = mset t"
  proof -
    have "filter (\<lambda>q. fst q \<noteq> fst p) t = t"
      using \<open>fst p \<notin> fst ` set t\<close> by (intro filter_True) (metis image_eqI)
    then show ?thesis by (simp flip: mset_filter)
  qed
  ultimately show ?case using Cons.IH by (cases p) auto
qed simp

lemma put_new: "get_row t k = None \<Longrightarrow> put_row k v t = t @ [(k, v)]"
  by (induction t) (auto split: if_splits)

lemma sort_key_last:
  assumes "\<And>y. y \<in> set xs \<Longrightarrow> f y \<le> f x"
  shows "sort_key f (xs @ [x]) = sort_key f xs @ [x]"
proof (rule properties_for_sort_key)
  show "mset (sort_key f xs @ [x]) = mset (xs @ [x])" by simp
  show "filter (\<lambda>y. f k = f y) (sort_key f xs @ [x]) = filter (\<lambda>y. f k = f y) (xs @ [x])" if "k \<in> set (sort_key f xs @ [x])" for k
    by (simp add: sort_key_stable [of f "f k"] eq_commute [of "f k"])
  show "sorted (map f (sort_key f xs @ [x]))" using assms by (simp add: sorted_append)
qed

lemma set_query: "table_inv t \<Longrightarrow> (k, d) \<in> set (query P t) \<longleftrightarrow> get_row t k = Some d \<and> P d"
  by (auto simp: query_def table_inv_def)

section \<open>The keys of the collections\<close>

definition generated_id :: "string \<Rightarrow> bool" where
  "generated_id i \<longleftrightarrow> \<not> has_prefix i ''incoming-'' \<and> \<not> has_prefix i ''external-''"

definition keyed_message :: "(string \<Rightarrow> string) \<Rightarrow> string \<Rightarrow> string \<Rightarrow> message_doc \<Rightarrow> bool" where
  "keyed_message sha c j d \<longleftrightarrow> dm_conversation_id d = c \<and> dm_sort_id d = dm_id d \<and> generated_id (dm_id d) \<and>
     j = (if dm_external_id d = [] then dm_id d
       else if dm_direction d = DirectionInbound then ''incoming-'' @ sha (c @ [CHR 0x00] @ dm_external_id d)
       else ''external-'' @ sha (dm_external_id d))"

definition documents_inv :: "(string \<Rightarrow> string) \<Rightarrow> documents \<Rightarrow> bool" where
  "documents_inv sha fd \<longleftrightarrow>
     table_all (\<lambda>k d. conv_key (from_conversation_doc d) = k) (fd_conversations fd) \<and>
     (\<forall>j k d e. get_row (fd_conversations fd) j = Some d \<longrightarrow> get_row (fd_conversations fd) k = Some e \<longrightarrow>
        dv_id d = dv_id e \<longrightarrow> j = k) \<and>
     (\<forall>c. table_all (keyed_message sha c) (row_or [] (fd_messages fd) c)) \<and>
     table_all (\<lambda>k d. dk_external_id d = k) (fd_bookings fd) \<and>
     table_all (\<lambda>k d. distinct (k # dc_linked d)) (fd_customers fd) \<and> known_customers fd"

lemma inv_conversation: "documents_inv sha fd \<Longrightarrow> get_row (fd_conversations fd) k = Some d \<Longrightarrow> conv_key (from_conversation_doc d) = k"
  by (auto simp: documents_inv_def dest: table_allD)

lemma inv_same_id:
  "documents_inv sha fd \<Longrightarrow> get_row (fd_conversations fd) j = Some d \<Longrightarrow> get_row (fd_conversations fd) k = Some e \<Longrightarrow>
   dv_id d = dv_id e \<Longrightarrow> j = k"
  by (auto simp: documents_inv_def)

lemma inv_messages: "documents_inv sha fd \<Longrightarrow> table_all (keyed_message sha c) (row_or [] (fd_messages fd) c)"
  by (simp add: documents_inv_def)

lemma inv_bookings: "documents_inv sha fd \<Longrightarrow> table_all (\<lambda>k d. dk_external_id d = k) (fd_bookings fd)"
  by (simp add: documents_inv_def)

text \<open>A conversation keeps its identifier, and no other conversation has it.\<close>

definition owns_id :: "documents \<Rightarrow> conversation \<Rightarrow> bool" where
  "owns_id fd c \<longleftrightarrow> (\<forall>k d. get_row (fd_conversations fd) k = Some d \<longrightarrow> (k = conv_key c \<longleftrightarrow> dv_id d = cv_id c))"

text \<open>A candidate for a new conversation has an identifier of its own.\<close>

definition may_open :: "documents \<Rightarrow> conversation \<Rightarrow> bool" where
  "may_open fd c \<longleftrightarrow> (get_row (fd_conversations fd) (conv_key c) = None \<longrightarrow> owns_id fd c)"

section \<open>Conversations\<close>

lemma represents_conversation:
  assumes "represents sha fd db" "owns_id fd c" "whole_conversation c"
  shows "represents sha (fd\<lparr>fd_conversations := put_row (conv_key c) (to_conversation_doc c) (fd_conversations fd)\<rparr>)
    (store_conversation c db)"
proof -
  have keys: "(if i = cv_id c then Some (conv_key c) else get_row (db_conversation_keys db) i) = Some k \<longleftrightarrow>
      (\<exists>d. (if k = conv_key c then Some (to_conversation_doc c) else get_row (fd_conversations fd) k) = Some d \<and> dv_id d = i)" for i k
    using represents_lookups(11) [OF assms(1), of i k] assms(2) by (auto simp: owns_id_def)
  show ?thesis
    unfolding represents_def booked_for_def transcript_of_def store_conversation_def
    using represents_lookups(1-10,12) [OF assms(1), unfolded booked_for_def transcript_of_def] keys
    by (intro conjI allI) (simp_all add: conversation_reads_back assms(3))
qed

lemma agree_save_conversation:
  "agree sha (\<lambda>fd. owns_id fd c \<and> whole_conversation c) (=) (fire_save_conversation c) (save_conversation c)"
proof (intro agreeI)
  fix fd db assume R: "represents sha fd db" and P: "owns_id fd c \<and> whole_conversation c"
  show "alike (=) (fst (fire_save_conversation c fd)) (fst (save_conversation c db)) \<and>
    represents sha (snd (fire_save_conversation c fd)) (snd (save_conversation c db))"
    using represents_conversation [OF R] represents_lookups(4) [OF R, of "conv_key c"] P R
    by (cases "get_row (fd_conversations fd) (conv_key c)")
      (auto simp: fire_save_conversation_def save_conversation_def Let_def)
qed

lemma agree_find_or_open:
  "agree sha (\<lambda>fd. may_open fd c \<and> whole_conversation c) (=) (fire_find_or_open c) (find_or_open c)"
proof (intro agreeI)
  fix fd db assume R: "represents sha fd db" and P: "may_open fd c \<and> whole_conversation c"
  show "alike (=) (fst (fire_find_or_open c fd)) (fst (find_or_open c db)) \<and>
    represents sha (snd (fire_find_or_open c fd)) (snd (find_or_open c db))"
    using represents_conversation [OF R] represents_lookups(4) [OF R, of "conv_key c"] P R
    by (cases "get_row (fd_conversations fd) (conv_key c)")
      (auto simp: fire_find_or_open_def find_or_open_def store_conversation_def may_open_def)
qed

lemma agree_find_by_id:
  "agree sha (documents_inv sha) (=) (fire_find_by_id i) (find_by_id i)"
proof (intro agreeI)
  fix fd db assume R: "represents sha fd db" and P: "documents_inv sha fd"
  note keys = represents_lookups(11) [OF R, of i]
  have inv: "table_inv (fd_conversations fd)" using P by (auto simp: documents_inv_def dest: table_all_inv)
  show "alike (=) (fst (fire_find_by_id i fd)) (fst (find_by_id i db)) \<and>
    represents sha (snd (fire_find_by_id i fd)) (snd (find_by_id i db))"
  proof (cases "query (\<lambda>d. dv_id d = i) (fd_conversations fd)")
    case Nil
    then have "get_row (db_conversation_keys db) i = None"
      using keys set_query [OF inv, of _ _ "\<lambda>d. dv_id d = i"] by (metis empty_iff list.set(1) not_None_eq)
    with Nil R show ?thesis by (simp add: fire_find_by_id_def find_by_id_def)
  next
    case (Cons kd rest)
    obtain k d where kd: "kd = (k, d)" by force
    then have d: "get_row (fd_conversations fd) k = Some d" "dv_id d = i"
      using Cons set_query [OF inv, of k d "\<lambda>d. dv_id d = i"] by auto
    then have "get_row (db_conversation_keys db) i = Some k" using keys by blast
    with Cons kd d R represents_lookups(4) [OF R, of k] show ?thesis
      by (simp add: fire_find_by_id_def find_by_id_def row_or_def)
  qed
qed

section \<open>Transcripts\<close>

lemma transcript_put:
  assumes "get_row (row_or [] (fd_messages fd) c) j = None"
    and "\<And>k d. get_row (row_or [] (fd_messages fd) c) k = Some d \<Longrightarrow> dm_sort_id d < dm_sort_id x"
    and "table_inv (row_or [] (fd_messages fd) c)"
  shows "transcript_of (put_message c j x fd) c' =
    (if c' = c then transcript_of fd c @ [from_message_doc x] else transcript_of fd c')"
proof -
  let ?t = "row_or [] (fd_messages fd) c"
  have "dm_sort_id d \<le> dm_sort_id x" if "d \<in> set (map snd ?t)" for d
    using that assms(2,3) by (force simp: table_inv_def dest: map_of_is_SomeI)
  then have "sort_key dm_sort_id (map snd ?t @ [x]) = sort_key dm_sort_id (map snd ?t) @ [x]"
    by (rule sort_key_last)
  then show ?thesis by (simp add: transcript_of_def put_message_def put_new [OF assms(1)])
qed

lemma set_transcript:
  assumes "table_inv (row_or [] (fd_messages fd) c)"
  shows "m \<in> set (transcript_of fd c) \<longleftrightarrow>
    (\<exists>j d. get_row (row_or [] (fd_messages fd) c) j = Some d \<and> m = from_message_doc d)"
  using assms by (force simp: transcript_of_def table_inv_def)

lemma represents_message:
  assumes "represents sha fd db" "transcript_of (put_message c j x fd) = (transcript_of fd)(c := ms)"
  shows "represents sha (put_message c j x fd) (db\<lparr>db_messages := put_row c ms (db_messages db)\<rparr>)"
proof -
  have same: "fd_customers (put_message c j x fd) = fd_customers fd" "fd_identities (put_message c j x fd) = fd_identities fd"
    "fd_conversations (put_message c j x fd) = fd_conversations fd" "fd_turns (put_message c j x fd) = fd_turns fd"
    "fd_staff_threads (put_message c j x fd) = fd_staff_threads fd" "fd_reminders (put_message c j x fd) = fd_reminders fd"
    "fd_notifications (put_message c j x fd) = fd_notifications fd" "fd_bookings (put_message c j x fd) = fd_bookings fd"
    by (simp_all add: put_message_def)
  show ?thesis
    unfolding represents_def booked_for_def same assms(2)
    using represents_lookups [OF assms(1), unfolded booked_for_def] by (intro conjI allI) simp_all
qed

text \<open>The next message of a conversation: a generated id, greater than those before it.\<close>

definition next_message :: "documents \<Rightarrow> string \<Rightarrow> stored_message \<Rightarrow> bool" where
  "next_message fd c m \<longleftrightarrow> generated_id (ms_id m) \<and>
     (\<forall>j d. get_row (row_or [] (fd_messages fd) c) j = Some d \<longrightarrow> dm_sort_id d < ms_id m)"

definition may_append :: "documents \<Rightarrow> stored_message \<Rightarrow> bool" where
  "may_append fd m \<longleftrightarrow> next_message fd (ms_conversation_id m) m \<and>
     (ms_external_id m \<noteq> [] \<longrightarrow> ms_direction m = DirectionInbound \<and>
       (\<forall>j d. get_row (row_or [] (fd_messages fd) (ms_conversation_id m)) j = Some d \<longrightarrow>
         dm_direction d = DirectionOutbound \<longrightarrow> dm_external_id d \<noteq> ms_external_id m))"

lemma message_doc_fields [simp]:
  "ms_id (from_message_doc d) = dm_id d" "ms_external_id (from_message_doc d) = dm_external_id d"
  "ms_direction (from_message_doc d) = dm_direction d"
  "dm_sort_id (to_message_doc m) = ms_id m" "dm_id (to_message_doc m) = ms_id m"
  "dm_conversation_id (to_message_doc m) = ms_conversation_id m"
  "dm_external_id (to_message_doc m) = ms_external_id m" "dm_direction (to_message_doc m) = ms_direction m"
  by (simp_all add: from_message_doc_def to_message_doc_def)

lemma appended_before:
  assumes inj: "inj sha" and inv: "documents_inv sha fd" and may: "may_append fd m"
  shows "list_ex (same_message m) (transcript_of fd (ms_conversation_id m)) \<longleftrightarrow>
    get_row (row_or [] (fd_messages fd) (ms_conversation_id m)) (message_document_id sha m) \<noteq> None"
proof -
  let ?c = "ms_conversation_id m"
  let ?t = "row_or [] (fd_messages fd) ?c"
  have t: "table_inv ?t" using inv_messages [OF inv] by (rule table_all_inv)
  have keyed: "keyed_message sha ?c j d" if "get_row ?t j = Some d" for j d
    using inv_messages [OF inv] that by (rule table_allD)
  have less: "dm_id d < ms_id m" if "get_row ?t j = Some d" for j d
    using that may keyed [OF that] unfolding may_append_def next_message_def keyed_message_def by metis
  have gen: "generated_id (ms_id m)" using may by (simp add: may_append_def next_message_def)
  have alone: "same_message m (from_message_doc d) \<longleftrightarrow> ms_external_id m \<noteq> [] \<and> dm_external_id d = ms_external_id m"
    if "get_row ?t j = Some d" for j d
    using less [OF that] by (simp add: same_message_def order.strict_implies_not_eq)
  have same: "list_ex (same_message m) (transcript_of fd ?c) \<longleftrightarrow>
      (\<exists>j d. get_row ?t j = Some d \<and> ms_external_id m \<noteq> [] \<and> dm_external_id d = ms_external_id m)"
    unfolding list_ex_iff Bex_def set_transcript [OF t] using alone by blast
  show ?thesis
  proof (cases "ms_external_id m = []")
    case True
    have "get_row ?t (ms_id m) = None"
    proof (rule ccontr)
      assume "get_row ?t (ms_id m) \<noteq> None"
      then obtain d where d: "get_row ?t (ms_id m) = Some d" by auto
      from keyed [OF d] less [OF d] gen show False
        by (auto simp: keyed_message_def generated_id_def has_prefix_def split: if_splits)
    qed
    with True same show ?thesis by (simp add: message_document_id_def)
  next
    case False
    let ?j = "''incoming-'' @ sha (?c @ [CHR 0x00] @ ms_external_id m)"
    have "dm_external_id d = ms_external_id m" if "get_row ?t ?j = Some d" for d
    proof (cases "dm_external_id d = []")
      case True
      with keyed [OF that] have "generated_id ?j" by (auto simp: keyed_message_def)
      then show ?thesis by (simp add: generated_id_def has_prefix_def)
    qed (use keyed [OF that] inj in \<open>auto simp: keyed_message_def inj_eq split: if_splits\<close>)
    moreover have "j = ?j" if "get_row ?t j = Some d" "dm_external_id d = ms_external_id m" for j d
    proof -
      have "dm_direction d = DirectionInbound"
        using that may False by (cases "dm_direction d") (auto simp: may_append_def)
      with keyed [OF that(1)] that(2) False show ?thesis by (simp add: keyed_message_def)
    qed
    ultimately show ?thesis unfolding same using False by (auto simp: message_document_id_def)
  qed
qed

lemma agree_append:
  assumes "inj sha"
  shows "agree sha (\<lambda>fd. documents_inv sha fd \<and> may_append fd m) (=) (fire_append_message sha m) (append_message m)"
proof (intro agreeI)
  fix fd db assume R: "represents sha fd db" and P: "documents_inv sha fd \<and> may_append fd m"
  let ?c = "ms_conversation_id m"
  note before = appended_before [OF assms, of fd m]
  note stored = represents_lookups(10) [OF R, of ?c]
  have "transcript_of (put_message ?c (message_document_id sha m) (to_message_doc m) fd) =
      (transcript_of fd)(?c := transcript_of fd ?c @ [m])"
    if "get_row (row_or [] (fd_messages fd) ?c) (message_document_id sha m) = None"
    using transcript_put [OF that] P table_all_inv [OF inv_messages]
    by (force simp: may_append_def next_message_def message_reads_back)
  then show "alike (=) (fst (fire_append_message sha m fd)) (fst (append_message m db)) \<and>
    represents sha (snd (fire_append_message sha m fd)) (snd (append_message m db))"
    using R P before represents_message [OF R, of ?c "message_document_id sha m" "to_message_doc m" "transcript_of fd ?c @ [m]"]
    by (simp add: fire_append_message_def append_message_def Let_def stored)
qed

lemma agree_recent:
  "0 < n \<Longrightarrow> agree sha always (=) (fire_recent c n) (recent c n)"
proof (intro agreeI)
  fix fd db assume n: "0 < n" and R: "represents sha fd db"
  let ?s = "sort_key dm_sort_id (map snd (row_or [] (fd_messages fd) c))"
  have "rev (map from_message_doc (take (nat n) (rev ?s))) = drop (length ?s - nat n) (map from_message_doc ?s)"
    by (simp add: take_rev rev_map drop_map)
  moreover have "transcript_of fd c = map from_message_doc ?s" by (simp add: transcript_of_def)
  ultimately show "alike (=) (fst (fire_recent c n fd)) (fst (recent c n db)) \<and>
    represents sha (snd (fire_recent c n fd)) (snd (recent c n db))"
    using n R represents_lookups(10) [OF R, of c] by (simp add: fire_recent_def recent_def Let_def)
qed

section \<open>Messages sent by a colleague\<close>

text \<open>A reply from the provider's own application: its id there is what tells it from another.\<close>

definition may_observe :: "documents \<Rightarrow> conversation \<Rightarrow> stored_message \<Rightarrow> bool" where
  "may_observe fd candidate m \<longleftrightarrow> may_open fd candidate \<and> whole_conversation candidate \<and>
     ms_direction m = DirectionOutbound \<and> ms_external_id m \<noteq> [] \<and>
     next_message fd (case get_row (fd_conversations fd) (conv_key candidate) of
       Some d \<Rightarrow> dv_id d | None \<Rightarrow> cv_id candidate) m"

lemma external_document_id:
  assumes "inj sha" and inv: "documents_inv sha fd" and "ms_external_id m \<noteq> []"
  shows "list_ex (\<lambda>p. ms_direction p = DirectionOutbound \<and> ms_external_id p = ms_external_id m) (transcript_of fd c) \<longleftrightarrow>
    get_row (row_or [] (fd_messages fd) c) (''external-'' @ sha (ms_external_id m)) \<noteq> None"
proof -
  let ?t = "row_or [] (fd_messages fd) c"
  let ?j = "''external-'' @ sha (ms_external_id m)"
  have t: "table_inv ?t" using inv_messages [OF inv] by (rule table_all_inv)
  have keyed: "keyed_message sha c j d" if "get_row ?t j = Some d" for j d
    using inv_messages [OF inv] that by (rule table_allD)
  have "dm_direction d = DirectionOutbound \<and> dm_external_id d = ms_external_id m" if "get_row ?t ?j = Some d" for d
  proof (cases "dm_external_id d = []")
    case True
    with keyed [OF that] have "generated_id ?j" by (auto simp: keyed_message_def)
    then show ?thesis by (simp add: generated_id_def has_prefix_def)
  next
    case False
    with keyed [OF that] assms(1) show ?thesis
      by (cases "dm_direction d") (auto simp: keyed_message_def inj_eq)
  qed
  moreover have "j = ?j" if "get_row ?t j = Some d" "dm_direction d = DirectionOutbound" "dm_external_id d = ms_external_id m" for j d
    using keyed [OF that(1)] that(2,3) assms(3) by (simp add: keyed_message_def)
  ultimately have "get_row ?t ?j \<noteq> None \<longleftrightarrow> (\<exists>j d. get_row ?t j = Some d \<and>
      dm_direction d = DirectionOutbound \<and> dm_external_id d = ms_external_id m)" by blast
  moreover have "list_ex (\<lambda>p. ms_direction p = DirectionOutbound \<and> ms_external_id p = ms_external_id m) (transcript_of fd c) \<longleftrightarrow>
      (\<exists>j d. get_row ?t j = Some d \<and> dm_direction d = DirectionOutbound \<and> dm_external_id d = ms_external_id m)"
    unfolding list_ex_iff Bex_def set_transcript [OF t] by (metis message_doc_fields(2,3))
  ultimately show ?thesis by simp
qed

lemma observed_fields [simp]:
  "conv_key (observe_external_reply c s r) = conv_key c" "cv_id (observe_external_reply c s r) = cv_id c"
  "whole_conversation c \<Longrightarrow> whole_conversation (observe_external_reply c s r)"
  by (simp_all add: observe_external_reply_def conv_key_def whole_conversation_def)

definition current_conversation :: "documents \<Rightarrow> conversation \<Rightarrow> conversation" where
  "current_conversation fd candidate =
     (case get_row (fd_conversations fd) (conv_key candidate) of Some d \<Rightarrow> from_conversation_doc d | None \<Rightarrow> candidate)"

lemma current_conversation:
  assumes "documents_inv sha fd" "may_open fd candidate" "whole_conversation candidate"
  shows "conv_key (current_conversation fd candidate) = conv_key candidate"
    and "whole_conversation (current_conversation fd candidate)"
    and "owns_id fd (current_conversation fd candidate)"
proof -
  let ?r = "get_row (fd_conversations fd) (conv_key candidate)"
  show "conv_key (current_conversation fd candidate) = conv_key candidate"
    using inv_conversation [OF assms(1)] by (cases ?r) (simp_all add: current_conversation_def)
  show "whole_conversation (current_conversation fd candidate)"
    using assms(3) documents_are_whole by (cases ?r) (simp_all add: current_conversation_def)
  show "owns_id fd (current_conversation fd candidate)"
  proof (cases ?r)
    case None
    with assms(2) show ?thesis by (simp add: current_conversation_def may_open_def)
  next
    case (Some d)
    then have key: "conv_key (from_conversation_doc d) = conv_key candidate" by (rule inv_conversation [OF assms(1)])
    have "cv_id (from_conversation_doc d) = dv_id d" by (simp add: from_conversation_doc_def)
    with Some key show ?thesis
      by (auto simp: current_conversation_def owns_id_def dest: inv_same_id [OF assms(1) _ Some])
  qed
qed

lemma agree_record_external:
  assumes "inj sha"
  shows "agree sha (\<lambda>fd. documents_inv sha fd \<and> may_observe fd candidate m) (=)
    (fire_record_external_reply_observed sha candidate m s r) (record_external_reply_observed candidate m s r)"
proof (intro agreeI)
  fix fd db assume R: "represents sha fd db" and P: "documents_inv sha fd \<and> may_observe fd candidate m"
  let ?conv = "current_conversation fd candidate"
  let ?c = "cv_id ?conv"
  let ?j = "''external-'' @ sha (ms_external_id m)"
  let ?m = "m\<lparr>ms_conversation_id := ?c\<rparr>"
  let ?fd = "put_message ?c ?j (to_message_doc ?m) fd"
  let ?db = "db\<lparr>db_messages := put_row ?c (transcript_of fd ?c @ [?m]) (db_messages db)\<rparr>"
  have may: "may_open fd candidate" "whole_conversation candidate" "next_message fd ?c m" "ms_external_id m \<noteq> []"
    using P by (simp_all add: may_observe_def current_conversation_def from_conversation_doc_def split: option.splits)
  note conv = current_conversation [OF conjunct1 [OF P] may(1,2)]
  have same: "row_or candidate (db_conversations db) (conv_key candidate) = ?conv"
    using represents_lookups(4) [OF R, of "conv_key candidate"]
    by (simp add: row_or_def current_conversation_def split: option.split)
  have hosted: "fire_record_external_reply_observed sha candidate m s r fd =
      (if get_row (row_or [] (fd_messages fd) ?c) ?j \<noteq> None then (Inr (?conv, False), fd)
       else (Inr (observe_external_reply ?conv s r, cv_revision (observe_external_reply ?conv s r) \<noteq> cv_revision ?conv),
         ?fd\<lparr>fd_conversations := put_row (conv_key candidate) (to_conversation_doc (observe_external_reply ?conv s r))
           (fd_conversations ?fd)\<rparr>))"
    by (simp add: fire_record_external_reply_observed_def current_conversation_def Let_def put_message_def)
  have in_process: "record_external_reply_observed candidate m s r db =
      (if list_ex (\<lambda>p. ms_direction p = DirectionOutbound \<and> ms_external_id p = ms_external_id m) (transcript_of fd ?c)
       then (Inr (?conv, False), db)
       else (Inr (observe_external_reply ?conv s r, cv_revision (observe_external_reply ?conv s r) \<noteq> cv_revision ?conv),
         store_conversation (observe_external_reply ?conv s r) ?db))"
    by (simp add: record_external_reply_observed_def Let_def same represents_lookups(10) [OF R])
  have "represents sha ?fd ?db" if "get_row (row_or [] (fd_messages fd) ?c) ?j = None"
    using transcript_put [OF that, of "to_message_doc ?m"] may(3) table_all_inv [OF inv_messages [OF conjunct1 [OF P]]]
    by (intro represents_message [OF R]) (auto simp: next_message_def message_reads_back)
  then have "represents sha (?fd\<lparr>fd_conversations := put_row (conv_key candidate)
       (to_conversation_doc (observe_external_reply ?conv s r)) (fd_conversations ?fd)\<rparr>)
      (store_conversation (observe_external_reply ?conv s r) ?db)"
    if "get_row (row_or [] (fd_messages fd) ?c) ?j = None"
    using represents_conversation [of sha ?fd ?db "observe_external_reply ?conv s r"] that conv
    by (simp add: owns_id_def put_message_def)
  then show "alike (=) (fst (fire_record_external_reply_observed sha candidate m s r fd))
      (fst (record_external_reply_observed candidate m s r db)) \<and>
    represents sha (snd (fire_record_external_reply_observed sha candidate m s r fd))
      (snd (record_external_reply_observed candidate m s r db))"
    using R external_document_id [OF assms conjunct1 [OF P] may(4), of ?c] by (auto simp: hosted in_process)
qed

end
