(* ===== verification/FireRuns.thy ===== *)
theory FireRuns
  imports FireConversations
begin

text \<open>
  The refinement for appointments. The in-process store keeps a customer's appointments in a row of
  the customer, the hosted one keeps a document for each: they answer with the same appointments, and
  each in the order of the starts, which leaves the order of equal starts open.

  Sequences of calls on the two stores. \<open>store_call\<close> has a constructor for each method, \<open>hosted_call\<close>
  and \<open>in_process_call\<close> run it, and \<open>may_call\<close> says when its arguments are ones the services pass:
  fresh identifiers for new records, whole seconds, references without a slash. A run of such calls
  gives the same answers from both stores.
\<close>

section \<open>The appointments of a customer\<close>

lemma booked_for_image:
  "booked_for fd c = image_mset (from_booking_doc \<circ> snd) (filter_mset (\<lambda>p. dk_customer_id (snd p) = c) (mset (fd_bookings fd)))"
  by (simp add: booked_for_def case_prod_beta')

lemma booking_doc_fields [simp]:
  "bk_external_id (from_booking_doc d) = dk_external_id d" "bk_customer_id (from_booking_doc d) = dk_customer_id d"
  "dk_external_id (to_booking_doc b) = bk_external_id b" "dk_customer_id (to_booking_doc b) = bk_customer_id b"
  by (simp_all add: from_booking_doc_def to_booking_doc_def)

lemma booked_row:
  assumes "documents_inv sha fd"
  shows "b \<in># booked_for fd c \<longleftrightarrow>
    (\<exists>k d. get_row (fd_bookings fd) k = Some d \<and> dk_external_id d = k \<and> dk_customer_id d = c \<and> b = from_booking_doc d)"
proof -
  have t: "table_inv (fd_bookings fd)" using inv_bookings [OF assms] by (rule table_all_inv)
  have "(k, d) \<in> set (fd_bookings fd) \<longleftrightarrow> get_row (fd_bookings fd) k = Some d" for k d
    using t by (simp add: table_inv_def)
  then show ?thesis
    using table_allD [OF inv_bookings [OF assms]] by (force simp: booked_for_image)
qed

lemma booked_distinct:
  assumes "documents_inv sha fd" "mset bs = booked_for fd c"
  shows "distinct (map bk_external_id bs)"
proof -
  let ?t = "filter (\<lambda>(k, d). dk_customer_id d = c) (fd_bookings fd)"
  have t: "table_inv (fd_bookings fd)" using inv_bookings [OF assms(1)] by (rule table_all_inv)
  have "map (bk_external_id \<circ> (from_booking_doc \<circ> snd)) ?t = map fst ?t"
    using table_allD [OF inv_bookings [OF assms(1)]] t by (auto simp: table_inv_def)
  moreover have "distinct (map fst ?t)" using t by (simp add: table_inv_def distinct_map_filter)
  moreover have "mset (map bk_external_id bs) = mset (map (bk_external_id \<circ> (from_booking_doc \<circ> snd)) ?t)"
    using arg_cong [OF assms(2), of "image_mset bk_external_id"]
    by (simp add: booked_for_def image_mset.compositionality comp_assoc)
  ultimately show ?thesis by (metis mset_eq_imp_distinct_iff)
qed

section \<open>Saving\<close>

text \<open>
  An appointment belongs to one customer for good, and has a reference that the client library
  accepts as the name of a document.
\<close>

definition valid_reference :: "string \<Rightarrow> bool" where
  "valid_reference r \<longleftrightarrow> r \<noteq> [] \<and> CHR ''/'' \<notin> set r"

definition may_save :: "documents \<Rightarrow> booking \<Rightarrow> bool" where
  "may_save fd b \<longleftrightarrow> whole_booking b \<and> valid_reference (bk_external_id b) \<and>
     (\<forall>d. get_row (fd_bookings fd) (bk_external_id b) = Some d \<longrightarrow> dk_customer_id d = bk_customer_id b)"

lemma mset_replace_booking:
  "distinct (map bk_external_id bs) \<Longrightarrow>
   mset (replace_booking b bs) = add_mset b (filter_mset (\<lambda>x. bk_external_id x \<noteq> bk_external_id b) (mset bs))"
proof (induction bs)
  case (Cons x bs)
  then show ?case
  proof (cases "bk_external_id x = bk_external_id b")
    case True
    with Cons.prems have "filter (\<lambda>x. bk_external_id x \<noteq> bk_external_id b) bs = bs"
      by (intro filter_True) (metis distinct.simps(2) image_eqI list.set_map list.simps(9))
    with True show ?thesis by (simp flip: mset_filter)
  qed simp
qed simp

lemma booked_after_save:
  assumes inv: "documents_inv sha fd" and may: "may_save fd b"
  shows "booked_for (snd (fire_save_booking b fd)) c =
    (if c = bk_customer_id b then add_mset b (filter_mset (\<lambda>x. bk_external_id x \<noteq> bk_external_id b) (booked_for fd c))
     else booked_for fd c)"
proof -
  let ?M = "mset (fd_bookings fd)"
  have t: "table_inv (fd_bookings fd)" using inv_bookings [OF inv] by (rule table_all_inv)
  have keyed: "dk_external_id (snd p) = fst p \<and> get_row (fd_bookings fd) (fst p) = Some (snd p)" if "p \<in># ?M" for p
    using that t table_allD [OF inv_bookings [OF inv]] by (cases p) (auto simp: table_inv_def)
  have put: "booked_for (snd (fire_save_booking b fd)) c =
      image_mset (from_booking_doc \<circ> snd) (filter_mset (\<lambda>p. dk_customer_id (snd p) = c)
        (add_mset (bk_external_id b, to_booking_doc b) (filter_mset (\<lambda>p. fst p \<noteq> bk_external_id b) ?M)))"
    by (simp add: booked_for_image fire_save_booking_def mset_put [OF t])
  have b: "from_booking_doc (to_booking_doc b) = b" using may by (simp add: may_save_def booking_reads_back)
  have other: "filter_mset (\<lambda>p. dk_customer_id (snd p) = c) (filter_mset (\<lambda>p. fst p \<noteq> bk_external_id b) ?M) =
      filter_mset (\<lambda>p. dk_customer_id (snd p) = c) ?M" if "c \<noteq> bk_customer_id b"
    using that may keyed by (auto simp: filter_filter_mset may_save_def intro!: filter_mset_cong)
  have mine: "filter_mset (\<lambda>x. bk_external_id x \<noteq> bk_external_id b) (booked_for fd c) =
      image_mset (from_booking_doc \<circ> snd) (filter_mset (\<lambda>p. dk_customer_id (snd p) = c) (filter_mset (\<lambda>p. fst p \<noteq> bk_external_id b) ?M))"
    using keyed by (auto simp: booked_for_image filter_mset_image_mset filter_filter_mset
        intro!: arg_cong [where f = "image_mset _"] filter_mset_cong)
  show ?thesis
  proof (cases "c = bk_customer_id b")
    case True
    then show ?thesis unfolding mine put by (simp add: b del: filter_filter_mset)
  next
    case False
    then show ?thesis unfolding put by (simp add: other booked_for_image del: filter_filter_mset)
  qed
qed

lemma agree_save_booking:
  "agree sha (\<lambda>fd. documents_inv sha fd \<and> may_save fd b) (=) (fire_save_booking b) (save_booking b)"
proof (intro agreeI)
  fix fd db assume R: "represents sha fd db" and P: "documents_inv sha fd \<and> may_save fd b"
  let ?fd = "snd (fire_save_booking b fd)"
  have row: "mset (row_or [] (db_bookings (snd (save_booking b db))) c) = booked_for ?fd c" for c
  proof (cases "c = bk_customer_id b")
    case True
    note old = represents_lookups(9) [OF R, of c]
    have "distinct (map bk_external_id (row_or [] (db_bookings db) c))"
      using booked_distinct [OF conjunct1 [OF P] old] .
    then show ?thesis
      using True old booked_after_save [OF conjunct1 [OF P] conjunct2 [OF P], of c]
      by (simp add: save_booking_def row_or_put mset_replace_booking)
  next
    case False
    then show ?thesis
      using represents_lookups(9) [OF R, of c] booked_after_save [OF conjunct1 [OF P] conjunct2 [OF P], of c]
      by (simp add: save_booking_def row_or_put)
  qed
  have same: "fd_customers ?fd = fd_customers fd" "fd_identities ?fd = fd_identities fd"
    "fd_conversations ?fd = fd_conversations fd" "fd_turns ?fd = fd_turns fd" "fd_messages ?fd = fd_messages fd"
    "fd_staff_threads ?fd = fd_staff_threads fd" "fd_reminders ?fd = fd_reminders fd"
    "fd_notifications ?fd = fd_notifications fd"
    by (simp_all add: fire_save_booking_def)
  have "transcript_of ?fd = transcript_of fd" by (simp add: transcript_of_def same fun_eq_iff)
  then have "represents sha ?fd (snd (save_booking b db))"
    unfolding represents_def same row
    using represents_lookups(1-8,10-12) [OF R] by (intro conjI allI) (simp_all add: save_booking_def)
  then show "alike (=) (fst (fire_save_booking b fd)) (fst (save_booking b db)) \<and>
      represents sha (snd (fire_save_booking b fd)) (snd (save_booking b db))"
    by (simp add: fire_save_booking_def save_booking_def)
qed

section \<open>Finding and listing\<close>

lemma find_SomeD: "find P xs = Some x \<Longrightarrow> x \<in> set xs \<and> P x"
  by (auto simp: find_Some_iff)

lemma row_of_booking:
  assumes R: "represents sha fd db" and inv: "documents_inv sha fd"
  shows "b \<in> set (concat (rows (db_bookings db))) \<longleftrightarrow>
    (\<exists>d. get_row (fd_bookings fd) (bk_external_id b) = Some d \<and> b = from_booking_doc d)"
proof -
  have "b \<in> set (concat (rows (db_bookings db))) \<longleftrightarrow> (\<exists>c. b \<in> set (row_or [] (db_bookings db) c))"
  proof -
    have "b \<in> set (concat (rows (db_bookings db))) \<longleftrightarrow> (\<exists>c bs. get_row (db_bookings db) c = Some bs \<and> b \<in> set bs)"
      using set_rows [OF represents_lookups(12) [OF R]] by (simp add: Bex_def) blast
    moreover have "(\<exists>bs. get_row (db_bookings db) c = Some bs \<and> b \<in> set bs) \<longleftrightarrow> b \<in> set (row_or [] (db_bookings db) c)" for c
      by (cases "get_row (db_bookings db) c") (simp_all add: row_or_def)
    ultimately show ?thesis by simp
  qed
  also have "\<dots> \<longleftrightarrow> (\<exists>c. b \<in># booked_for fd c)"
    using represents_lookups(9) [OF R] by (metis set_mset_mset)
  also have "\<dots> \<longleftrightarrow> (\<exists>d. get_row (fd_bookings fd) (bk_external_id b) = Some d \<and> b = from_booking_doc d)"
    unfolding booked_row [OF inv] using table_allD [OF inv_bookings [OF inv]] by (metis booking_doc_fields(1))
  finally show ?thesis .
qed

lemma agree_find_booking:
  "agree sha (\<lambda>fd. documents_inv sha fd \<and> valid_reference r) (=) (fire_find_booking r) (find_booking r)"
proof (intro agreeI)
  fix fd db assume R: "represents sha fd db" and P: "documents_inv sha fd \<and> valid_reference r"
  note row = row_of_booking [OF R conjunct1 [OF P]]
  let ?found = "find (\<lambda>b. bk_external_id b = r) (concat (rows (db_bookings db)))"
  have found: "?found = map_option from_booking_doc (get_row (fd_bookings fd) r)"
  proof (cases ?found)
    case None
    then have none: "b \<notin> set (concat (rows (db_bookings db)))" if "bk_external_id b = r" for b
      using that by (auto simp: find_None_iff)
    have "get_row (fd_bookings fd) r = None"
    proof (rule ccontr)
      assume "get_row (fd_bookings fd) r \<noteq> None"
      then obtain d where d: "get_row (fd_bookings fd) r = Some d" by blast
      then have "bk_external_id (from_booking_doc d) = r"
        using table_allD [OF inv_bookings [OF conjunct1 [OF P]]] by simp
      with none d show False unfolding row by blast
    qed
    with None show ?thesis by simp
  next
    case (Some b)
    then have b: "b \<in> set (concat (rows (db_bookings db)))" "bk_external_id b = r" by (blast dest: find_SomeD)+
    from b(1) obtain d where "get_row (fd_bookings fd) (bk_external_id b) = Some d" "b = from_booking_doc d"
      unfolding row by blast
    with Some b(2) show ?thesis by simp
  qed
  show "alike (=) (fst (fire_find_booking r fd)) (fst (find_booking r db)) \<and>
      represents sha (snd (fire_find_booking r fd)) (snd (find_booking r db))"
    using R P found by (auto simp: fire_find_booking_def find_booking_def valid_reference_def split: option.split)
qed

lemma mset_query: "mset (query P t) = filter_mset (\<lambda>p. P (snd p)) (mset t)"
  by (simp add: query_def case_prod_beta')

lemma concat_groups: "concat (groups_of n xs) = xs"
  by (induction n xs rule: groups_of.induct) simp_all

lemma mset_groups:
  "distinct (concat gs) \<Longrightarrow>
   mset (concat (map (\<lambda>ids. query (\<lambda>d. f d \<in> set ids) t) gs)) =
   (\<Sum>i \<leftarrow> concat gs. filter_mset (\<lambda>p. f (snd p) = i) (mset t))"
proof (induction gs)
  case (Cons ids gs)
  have by_id: "filter_mset (\<lambda>p. f (snd p) \<in> set ids) M = (\<Sum>i \<leftarrow> ids. filter_mset (\<lambda>p. f (snd p) = i) M)"
    if "distinct ids" for M and ids
    using that
  proof (induction ids)
    case (Cons i ids)
    have "filter_mset (\<lambda>p. f (snd p) \<in> set (i # ids)) M =
        filter_mset (\<lambda>p. f (snd p) = i) M + filter_mset (\<lambda>p. f (snd p) \<in> set ids) M"
      using Cons.prems by (induction M) auto
    with Cons show ?case by simp
  qed simp
  with Cons show ?case by (simp add: mset_query by_id [of ids "mset t"])
qed simp

lemma agree_list_bookings:
  "agree sha (documents_inv sha) (\<lambda>bs bs'. mset bs = mset bs' \<and> map bk_starts_at bs = map bk_starts_at bs')
    (fire_list_bookings c) (list_bookings c)"
proof (intro agreeI)
  fix fd db assume R: "represents sha fd db" and P: "documents_inv sha fd"
  obtain ids where ids: "ids = c # (case get_row (fd_customers fd) c of None \<Rightarrow> [] | Some d \<Rightarrow> dc_linked d)" by simp
  have "table_all (\<lambda>k d. distinct (k # dc_linked d)) (fd_customers fd)" using P by (simp add: documents_inv_def)
  then have "distinct ids"
    by (auto simp: ids split: option.split dest: table_allD)
  then have "mset (concat (map (\<lambda>ids. query (\<lambda>d. dk_customer_id d \<in> set ids) (fd_bookings fd)) (groups_of 30 ids))) =
      (\<Sum>i \<leftarrow> ids. filter_mset (\<lambda>p. dk_customer_id (snd p) = i) (mset (fd_bookings fd)))"
    using mset_groups [of "groups_of 30 ids" dk_customer_id "fd_bookings fd"] by (simp add: concat_groups)
  moreover have "image_mset (from_booking_doc \<circ> snd) (\<Sum>i \<leftarrow> is. filter_mset (\<lambda>p. dk_customer_id (snd p) = i) (mset (fd_bookings fd))) =
      (\<Sum>i \<leftarrow> is. booked_for fd i)" for "is"
    by (induction "is") (simp_all add: booked_for_image del: image_mset.comp image_mset.compositionality comp_apply)
  ultimately have hosted: "mset (map (from_booking_doc \<circ> snd)
      (concat (map (\<lambda>ids. query (\<lambda>d. dk_customer_id d \<in> set ids) (fd_bookings fd)) (groups_of 30 ids)))) =
      (\<Sum>i \<leftarrow> ids. booked_for fd i)" by (simp only: mset_map)
  have in_process: "mset (concat (map (row_or [] (db_bookings db)) ids)) = (\<Sum>i \<leftarrow> ids. booked_for fd i)"
    by (simp add: mset_concat comp_def represents_lookups(9) [OF R])
  have answers: "fire_list_bookings c fd = (Inr (sort_key bk_starts_at (map (from_booking_doc \<circ> snd)
      (concat (map (\<lambda>ids. query (\<lambda>d. dk_customer_id d \<in> set ids) (fd_bookings fd)) (groups_of 30 ids))))), fd)"
    "list_bookings c db = (Inr (sort_key bk_starts_at (concat (map (row_or [] (db_bookings db)) ids))), db)"
    by (simp_all add: fire_list_bookings_def list_bookings_def ids represents_lookups(2) [OF R] Let_def)
  have sorted: "map bk_starts_at (sort_key bk_starts_at xs) = map bk_starts_at (sort_key bk_starts_at ys)"
    if "mset xs = mset ys" for xs ys
  proof -
    have "mset (map bk_starts_at (sort_key bk_starts_at xs)) = mset (map bk_starts_at (sort_key bk_starts_at ys))"
      using that by simp
    then show ?thesis by (metis properties_for_sort sorted_sort_key)
  qed
  show "alike (\<lambda>bs bs'. mset bs = mset bs' \<and> map bk_starts_at bs = map bk_starts_at bs')
      (fst (fire_list_bookings c fd)) (fst (list_bookings c db)) \<and>
    represents sha (snd (fire_list_bookings c fd)) (snd (list_bookings c db))"
    using sorted [OF trans [OF hosted in_process [symmetric]]] hosted in_process R
    unfolding answers by (simp only: fst_conv snd_conv alike.simps mset_sort)
qed

section \<open>Calls and answers\<close>

datatype store_call =
    CallFindOrCreate channel_identity customer
  | CallUpdateContact time string string string
  | CallLinkIdentity time channel_identity customer string
  | CallOpenConversation conversation
  | CallSaveConversation conversation
  | CallFindConversation string
  | CallAppend stored_message
  | CallRecent string int
  | CallRegisterTurn string string time
  | CallLatestTurn string string
  | CallExternalReply conversation stored_message time time
  | CallLinkThread time string string
  | CallThread string
  | CallSaveBooking booking
  | CallFindBooking string
  | CallListBookings string
  | CallEnsureReminder reminder
  | CallFindReminder string
  | CallClaimReminder string string time time
  | CallFinishReminder string string reminder_status time
  | CallReleaseReminder string string
  | CallGetNotification string
  | CallTransact "string list" "entry table \<Rightarrow> (unit \<times> entry table) result"

datatype answer =
    Nothing
  | GotCustomer customer
  | GotConversation conversation
  | GotMessages "stored_message list"
  | GotFlag bool
  | GotId string
  | GotObserved "conversation \<times> bool"
  | GotBooking booking
  | GotBookings "booking list"
  | GotReminder reminder
  | GotClaim "reminder \<times> bool"
  | GotEntry entry

text \<open>Appointments with the same start may come in either order.\<close>

fun same_answer :: "answer \<Rightarrow> answer \<Rightarrow> bool" where
  "same_answer (GotBookings bs) (GotBookings bs') = (mset bs = mset bs' \<and> map bk_starts_at bs = map bk_starts_at bs')"
| "same_answer x y = (x = y)"

lemma same_answer_refl [simp]: "same_answer x x"
  by (cases x) simp_all

definition answering :: "('a \<Rightarrow> answer) \<Rightarrow> ('s, 'a) proc \<Rightarrow> ('s, answer) proc" where
  "answering f m s = (case m s of (Inl e, s') \<Rightarrow> (Inl e, s') | (Inr x, s') \<Rightarrow> (Inr (f x), s'))"

lemma snd_answering [simp]: "snd (answering f m s) = snd (m s)"
  by (simp add: answering_def split: prod.split sum.split)

lemma agree_answering:
  assumes "agree sha P R m n" "\<And>fd. Q fd \<Longrightarrow> P fd" "\<And>x y. R x y \<Longrightarrow> same_answer (f x) (f y)"
  shows "agree sha Q same_answer (answering f m) (answering f n)"
proof (intro agreeI)
  fix fd db assume "represents sha fd db" "Q fd"
  with assms(1,2) have "alike R (fst (m fd)) (fst (n db))" "represents sha (snd (m fd)) (snd (n db))"
    by (auto simp: agree_def)
  then show "alike same_answer (fst (answering f m fd)) (fst (answering f n db)) \<and>
      represents sha (snd (answering f m fd)) (snd (answering f n db))"
    by (cases "m fd"; cases "n db"; cases "fst (m fd)"; cases "fst (n db)") (auto simp: answering_def assms(3))
qed

fun hosted_call :: "(string \<Rightarrow> string option) \<Rightarrow> (string \<Rightarrow> string) \<Rightarrow> store_call \<Rightarrow> (documents, answer) proc" where
  "hosted_call lib sha (CallFindOrCreate i c) = answering GotCustomer (fire_find_or_create i c)"
| "hosted_call lib sha (CallUpdateContact now i name phone) = answering (\<lambda>_. Nothing) (fire_update_contact now i name phone)"
| "hosted_call lib sha (CallLinkIdentity now i old raw) = answering GotCustomer (fire_link_verified_identity lib sha now i old raw)"
| "hosted_call lib sha (CallOpenConversation c) = answering GotConversation (fire_find_or_open c)"
| "hosted_call lib sha (CallSaveConversation c) = answering (\<lambda>_. Nothing) (fire_save_conversation c)"
| "hosted_call lib sha (CallFindConversation i) = answering GotConversation (fire_find_by_id i)"
| "hosted_call lib sha (CallAppend m) = answering (\<lambda>_. Nothing) (fire_append_message sha m)"
| "hosted_call lib sha (CallRecent c n) = answering GotMessages (fire_recent c n)"
| "hosted_call lib sha (CallRegisterTurn k e t) = answering (\<lambda>_. Nothing) (fire_register_turn sha k e t)"
| "hosted_call lib sha (CallLatestTurn k e) = answering GotFlag (fire_is_latest_turn sha k e)"
| "hosted_call lib sha (CallExternalReply c m s r) = answering GotObserved (fire_record_external_reply_observed sha c m s r)"
| "hosted_call lib sha (CallLinkThread now m i) = answering (\<lambda>_. Nothing) (fire_link_staff_thread now m i)"
| "hosted_call lib sha (CallThread m) = answering GotId (fire_conversation_for_staff_thread m)"
| "hosted_call lib sha (CallSaveBooking b) = answering (\<lambda>_. Nothing) (fire_save_booking b)"
| "hosted_call lib sha (CallFindBooking r) = answering GotBooking (fire_find_booking r)"
| "hosted_call lib sha (CallListBookings c) = answering GotBookings (fire_list_bookings c)"
| "hosted_call lib sha (CallEnsureReminder r) = answering (\<lambda>_. Nothing) (fire_ensure_reminder r)"
| "hosted_call lib sha (CallFindReminder i) = answering GotReminder (fire_find_reminder i)"
| "hosted_call lib sha (CallClaimReminder i c t u) = answering GotClaim (fire_claim_reminder i c t u)"
| "hosted_call lib sha (CallFinishReminder i c st t) = answering (\<lambda>_. Nothing) (fire_finish_reminder i c st t)"
| "hosted_call lib sha (CallReleaseReminder i c) = answering (\<lambda>_. Nothing) (fire_release_reminder i c)"
| "hosted_call lib sha (CallGetNotification k) = answering GotEntry (fire_get_notification k)"
| "hosted_call lib sha (CallTransact keys fn) = answering (\<lambda>_. Nothing) (fire_transact_notifications keys fn)"

fun in_process_call :: "(string \<Rightarrow> string option) \<Rightarrow> (string \<Rightarrow> string) \<Rightarrow> store_call \<Rightarrow> (db, answer) proc" where
  "in_process_call lib sha (CallFindOrCreate i c) = answering GotCustomer (find_or_create_by_channel_identity i c)"
| "in_process_call lib sha (CallUpdateContact now i name phone) = answering (\<lambda>_. Nothing) (update_contact now i name phone)"
| "in_process_call lib sha (CallLinkIdentity now i old raw) = answering GotCustomer (link_verified_identity lib sha now i old raw)"
| "in_process_call lib sha (CallOpenConversation c) = answering GotConversation (find_or_open c)"
| "in_process_call lib sha (CallSaveConversation c) = answering (\<lambda>_. Nothing) (save_conversation c)"
| "in_process_call lib sha (CallFindConversation i) = answering GotConversation (find_by_id i)"
| "in_process_call lib sha (CallAppend m) = answering (\<lambda>_. Nothing) (append_message m)"
| "in_process_call lib sha (CallRecent c n) = answering GotMessages (recent c n)"
| "in_process_call lib sha (CallRegisterTurn k e t) = answering (\<lambda>_. Nothing) (register_turn k e)"
| "in_process_call lib sha (CallLatestTurn k e) = answering GotFlag (is_latest_turn k e)"
| "in_process_call lib sha (CallExternalReply c m s r) = answering GotObserved (record_external_reply_observed c m s r)"
| "in_process_call lib sha (CallLinkThread now m i) = answering (\<lambda>_. Nothing) (link_staff_thread m i)"
| "in_process_call lib sha (CallThread m) = answering GotId (conversation_for_staff_thread m)"
| "in_process_call lib sha (CallSaveBooking b) = answering (\<lambda>_. Nothing) (save_booking b)"
| "in_process_call lib sha (CallFindBooking r) = answering GotBooking (find_booking r)"
| "in_process_call lib sha (CallListBookings c) = answering GotBookings (list_bookings c)"
| "in_process_call lib sha (CallEnsureReminder r) = answering (\<lambda>_. Nothing) (ensure_reminder r)"
| "in_process_call lib sha (CallFindReminder i) = answering GotReminder (find_reminder i)"
| "in_process_call lib sha (CallClaimReminder i c t u) = answering GotClaim (claim_reminder i c t u)"
| "in_process_call lib sha (CallFinishReminder i c st t) = answering (\<lambda>_. Nothing) (finish_reminder i c st t)"
| "in_process_call lib sha (CallReleaseReminder i c) = answering (\<lambda>_. Nothing) (release_reminder i c)"
| "in_process_call lib sha (CallGetNotification k) = answering GotEntry (get_notification k)"
| "in_process_call lib sha (CallTransact keys fn) = answering (\<lambda>_. Nothing) (transact_notifications keys fn)"

section \<open>The calls the services make\<close>

fun may_call :: "(string \<Rightarrow> string) \<Rightarrow> documents \<Rightarrow> store_call \<Rightarrow> bool" where
  "may_call sha fd (CallFindOrCreate i c) \<longleftrightarrow>
     ci_customer_id i = cu_id c \<and> cu_verified_phone c = [] \<and> get_row (fd_customers fd) (cu_id c) = None"
| "may_call sha fd (CallLinkIdentity now i old raw) \<longleftrightarrow> get_row (fd_identities fd) (identity_key i) \<noteq> None"
| "may_call sha fd (CallOpenConversation c) \<longleftrightarrow> may_open fd c \<and> whole_conversation c"
| "may_call sha fd (CallSaveConversation c) \<longleftrightarrow> owns_id fd c \<and> whole_conversation c"
| "may_call sha fd (CallAppend m) \<longleftrightarrow> may_append fd m"
| "may_call sha fd (CallRecent c n) \<longleftrightarrow> 0 < n"
| "may_call sha fd (CallLatestTurn k e) \<longleftrightarrow> get_row (fd_turns fd) (turn_document_id sha k) \<noteq> None"
| "may_call sha fd (CallExternalReply c m s r) \<longleftrightarrow> may_observe fd c m"
| "may_call sha fd (CallSaveBooking b) \<longleftrightarrow> may_save fd b"
| "may_call sha fd (CallFindBooking r) \<longleftrightarrow> valid_reference r"
| "may_call sha fd _ \<longleftrightarrow> True"

lemma agree_recent_call: "agree sha (\<lambda>fd. 0 < n) (=) (fire_recent c n) (recent c n)"
  using agree_recent [of n sha c] by (simp add: agree_def)

lemmas agree_methods = agree_find_or_create agree_update_contact agree_link_identity agree_find_or_open
  agree_save_conversation agree_find_by_id agree_recent_call agree_save_booking agree_find_booking agree_list_bookings
  agree_reminders agree_rows

lemma agree_call:
  assumes "inj sha"
  shows "agree sha (\<lambda>fd. documents_inv sha fd \<and> may_call sha fd call) same_answer
    (hosted_call lib sha call) (in_process_call lib sha call)"
  by (cases call; simp only: hosted_call.simps in_process_call.simps may_call.simps;
    rule agree_answering, rule agree_methods agree_append [OF assms] agree_turns [OF assms] agree_record_external [OF assms];
    simp add: documents_inv_def)

section \<open>What the calls keep\<close>

lemma inv_unchanged:
  assumes "documents_inv sha fd" "fd_conversations fd' = fd_conversations fd" "fd_messages fd' = fd_messages fd"
    "fd_bookings fd' = fd_bookings fd" "fd_customers fd' = fd_customers fd" "fd_identities fd' = fd_identities fd"
  shows "documents_inv sha fd'"
  using assms by (simp add: documents_inv_def known_customers_def)

lemma inv_profile:
  assumes "documents_inv sha fd" "distinct (k # dc_linked d)"
  shows "documents_inv sha (fd\<lparr>fd_customers := put_row k d (fd_customers fd)\<rparr>)"
  using assms by (auto simp: documents_inv_def known_customers_def)

lemma inv_identity:
  assumes "documents_inv sha fd" "distinct (k # dc_linked d)" "di_customer_id x = k"
  shows "documents_inv sha (fd\<lparr>fd_customers := put_row k d (fd_customers fd), fd_identities := put_row i x (fd_identities fd)\<rparr>)"
  using assms by (auto simp: documents_inv_def known_customers_def)

lemma inv_linked: "documents_inv sha fd \<Longrightarrow> get_row (fd_customers fd) k = Some d \<Longrightarrow> distinct (k # dc_linked d)"
  unfolding documents_inv_def by (blast dest: table_allD)

lemma inv_customers:
  assumes "documents_inv sha fd"
  shows "ci_customer_id i = cu_id c \<Longrightarrow> documents_inv sha (snd (fire_find_or_create i c fd))"
    and "documents_inv sha (snd (fire_update_contact now k name phone fd))"
    and "documents_inv sha (snd (fire_link_verified_identity lib h now i old raw fd))"
proof -
  show "documents_inv sha (snd (fire_find_or_create i c fd))"
    using assms by (auto simp: fire_find_or_create_def new_identity_def Let_def intro!: inv_identity split: option.split)
  show "documents_inv sha (snd (fire_update_contact now k name phone fd))"
    using assms inv_linked [OF assms, of k]
    by (auto simp: fire_update_contact_def Let_def intro!: inv_profile split: option.split)
  show "documents_inv sha (snd (fire_link_verified_identity lib h now i old raw fd))"
    using assms inv_linked [OF assms]
    by (auto simp: fire_link_verified_identity_def Let_def intro!: inv_identity split: option.split sum.split)
qed

lemma inv_conversations:
  assumes "documents_inv sha fd" "owns_id fd c"
  shows "documents_inv sha (fd\<lparr>fd_conversations := put_row (conv_key c) (to_conversation_doc c) (fd_conversations fd)\<rparr>)"
  using assms by (auto simp: documents_inv_def known_customers_def owns_id_def)

lemma inv_put_message:
  assumes "documents_inv sha fd" "keyed_message sha c j x"
  shows "documents_inv sha (put_message c j x fd)"
  using assms by (simp add: documents_inv_def known_customers_def put_message_def)

lemma inv_external:
  assumes inv: "documents_inv sha fd" and may: "may_observe fd c m"
  shows "documents_inv sha (snd (fire_record_external_reply_observed sha c m s r fd))"
proof -
  let ?conv = "current_conversation fd c"
  let ?m = "to_message_doc (m\<lparr>ms_conversation_id := cv_id ?conv\<rparr>)"
  let ?j = "''external-'' @ sha (ms_external_id m)"
  have c: "may_open fd c" "whole_conversation c" using may by (simp_all add: may_observe_def)
  note conv = current_conversation [OF inv c]
  have "keyed_message sha (cv_id ?conv) ?j ?m"
    using may by (simp add: keyed_message_def may_observe_def next_message_def)
  then have put: "documents_inv sha (put_message (cv_id ?conv) ?j ?m fd)" by (rule inv_put_message [OF inv])
  have own: "owns_id (put_message (cv_id ?conv) ?j ?m fd) (observe_external_reply ?conv s r)"
    using conv(3) by (simp add: owns_id_def put_message_def)
  show ?thesis
    using inv inv_conversations [OF put own] conv(1)
    by (simp add: fire_record_external_reply_observed_def current_conversation_def Let_def)
qed

lemma inv_call:
  assumes inv: "documents_inv sha fd" and may: "may_call sha fd call"
  shows "documents_inv sha (snd (hosted_call lib sha call fd))"
proof (cases call)
  case CallFindOrCreate
  with may show ?thesis by (simp add: inv_customers [OF inv])
next
  case CallUpdateContact
  then show ?thesis by (simp add: inv_customers [OF inv])
next
  case CallLinkIdentity
  then show ?thesis by (simp add: inv_customers [OF inv])
next
  case CallOpenConversation
  with may inv inv_conversations [OF inv] show ?thesis
    by (simp add: fire_find_or_open_def may_open_def split: option.split)
next
  case CallSaveConversation
  with may inv inv_conversations [OF inv] show ?thesis
    by (simp add: fire_save_conversation_def Let_def split: option.split)
next
  case (CallAppend m)
  with may have "keyed_message sha (ms_conversation_id m) (message_document_id sha m) (to_message_doc m)"
    by (auto simp: keyed_message_def may_append_def next_message_def message_document_id_def)
  with CallAppend inv inv_put_message [OF inv] show ?thesis by (simp add: fire_append_message_def Let_def)
next
  case (CallExternalReply c m s r)
  with may show ?thesis by (simp add: inv_external [OF inv])
next
  case CallSaveBooking
  with inv show ?thesis by (simp add: fire_save_booking_def documents_inv_def known_customers_def)
next
  case (CallClaimReminder i c t u)
  with inv show ?thesis
    by (auto simp: fire_claim_reminder_def put_reminder_def Let_def intro!: inv_unchanged [OF inv] split: option.split)
qed (use inv in \<open>simp_all add: fire_find_by_id_def fire_recent_def fire_register_turn_def fire_is_latest_turn_def
    fire_link_staff_thread_def fire_conversation_for_staff_thread_def fire_find_booking_def fire_list_bookings_def
    fire_ensure_reminder_def fire_find_reminder_def fire_finish_reminder_def fire_release_reminder_def put_reminder_def
    fire_get_notification_def fire_transact_notifications_def Let_def inv_unchanged [OF inv] split: option.split list.split sum.split\<close>)

section \<open>Runs\<close>

fun answers_of :: "('call \<Rightarrow> ('s, 'a) proc) \<Rightarrow> 's \<Rightarrow> 'call list \<Rightarrow> 'a result list \<times> 's" where
  "answers_of f s [] = ([], s)"
| "answers_of f s (c # cs) = (let (a, s') = f c s; (rest, s'') = answers_of f s' cs in (a # rest, s''))"

fun may_run :: "('s \<Rightarrow> 'call \<Rightarrow> bool) \<Rightarrow> ('call \<Rightarrow> ('s, 'a) proc) \<Rightarrow> 's \<Rightarrow> 'call list \<Rightarrow> bool" where
  "may_run may f s [] = True"
| "may_run may f s (c # cs) = (may s c \<and> may_run may f (snd (f c s)) cs)"

text \<open>
  The interface: two providers of the same calls, related states, and answers that count as the same.
\<close>

locale simulation =
  fixes rel :: "'s \<Rightarrow> 't \<Rightarrow> bool" and inv :: "'s \<Rightarrow> bool" and may :: "'s \<Rightarrow> 'call \<Rightarrow> bool"
    and same :: "'a \<Rightarrow> 'b \<Rightarrow> bool" and concrete :: "'call \<Rightarrow> ('s, 'a) proc" and abstract :: "'call \<Rightarrow> ('t, 'b) proc"
  assumes answers: "rel s t \<Longrightarrow> inv s \<Longrightarrow> may s c \<Longrightarrow> alike same (fst (concrete c s)) (fst (abstract c t))"
    and related: "rel s t \<Longrightarrow> inv s \<Longrightarrow> may s c \<Longrightarrow> rel (snd (concrete c s)) (snd (abstract c t))"
    and kept: "inv s \<Longrightarrow> may s c \<Longrightarrow> inv (snd (concrete c s))"
begin

lemma runs_alike:
  "rel s t \<Longrightarrow> inv s \<Longrightarrow> may_run may concrete s cs \<Longrightarrow>
   list_all2 (alike same) (fst (answers_of concrete s cs)) (fst (answers_of abstract t cs)) \<and>
   rel (snd (answers_of concrete s cs)) (snd (answers_of abstract t cs)) \<and> inv (snd (answers_of concrete s cs))"
proof (induction cs arbitrary: s t)
  case (Cons c cs)
  then have may: "may s c" "may_run may concrete (snd (concrete c s)) cs" by simp_all
  note step = answers [OF Cons.prems(1,2) may(1)] related [OF Cons.prems(1,2) may(1)] kept [OF Cons.prems(2) may(1)]
  from Cons.IH [OF step(2,3) may(2)] step(1) show ?case
    by (simp add: case_prod_beta' Let_def)
qed simp

end

definition hash_ok :: "(string \<Rightarrow> string) \<Rightarrow> bool" where "hash_ok sha \<longleftrightarrow> inj sha"

interpretation hosted_in_process: simulation
  "\<lambda>s t. hash_ok sha \<and> represents sha s t" "documents_inv sha" "may_call sha" same_answer
  "hosted_call lib sha" "in_process_call lib sha"
  for lib sha
proof
  fix s t c
  assume "hash_ok sha \<and> represents sha s t" and rest: "documents_inv sha s" "may_call sha s c"
  then have "agree sha (\<lambda>fd. documents_inv sha fd \<and> may_call sha fd c) same_answer
      (hosted_call lib sha c) (in_process_call lib sha c)" "represents sha s t" "hash_ok sha"
    by (simp_all add: hash_ok_def agree_call)
  then show "alike same_answer (fst (hosted_call lib sha c s)) (fst (in_process_call lib sha c t))"
    and "hash_ok sha \<and> represents sha (snd (hosted_call lib sha c s)) (snd (in_process_call lib sha c t))"
    using rest by (simp_all add: agree_def)
qed (rule inv_call)

lemma empty_stores: "represents sha no_documents new_store" "documents_inv sha no_documents"
  by (simp_all add: represents_def booked_for_def transcript_of_def documents_inv_def known_customers_def
      no_documents_def new_store_def row_or_def)

end
