(* ===== verification/StoreProperties.thy ===== *)
theory StoreProperties
  imports DomainProperties StoreContracts FireRuns
begin

text \<open>
  The properties of the in-process store: its invariant over every sequence of calls, the leases of
  deliveries and reminders as facts of the interpretations, takeovers against stale saves, and what
  the queries return.

  The properties of the hosted store: it refines the in-process store over every run of the calls the
  services make, it keeps the lease contract of deliveries also under the expiry policy, and a saved
  conversation reads back as it was.
\<close>

definition sample_booking :: booking where
  "sample_booking = zero_booking\<lparr>bk_id := ''b1'', bk_external_id := ''41'', bk_customer_id := ''u1'',
     bk_status := StatusConfirmed, bk_starts_at := 900, bk_duration := 60\<rparr>"

definition sample_store :: db where
  "sample_store = snd (save_booking sample_booking new_store)"

lemma sample_store_reachable: "store_reachable sample_store"
proof -
  have "store_reachable (new_store\<lparr>db_processed_ttl := db_processed_ttl new_store, db_claim_ttl := db_claim_ttl new_store\<rparr>)"
    by (rule store_reachable.empty)
  then have "store_reachable new_store" by simp
  then show ?thesis unfolding sample_store_def by (rule store_reachable.step) (rule store_step.intros)
qed

text \<open>
  C12. Every state the store reaches from empty by any calls is well formed: rows sit under their own
  keys, claims are live or settled, bookings belong to their customer with distinct references.
\<close>

theorem store_always_well_formed:
  assumes "store_reachable db"
  shows "db_inv db"
  by (rule store_reachable_inv [OF assms])

theorem store_always_well_formed_witness: "db_inv sample_store"
  by (rule store_always_well_formed [OF sample_store_reachable])

text \<open>
  C4. A delivery of the chat channels that one worker has claimed is granted to nobody else before
  the claim expires, whatever other claims, completions and releases happen meanwhile under other
  names.
\<close>

theorem delivery_exclusive:
  assumes "processed_inv db" "delivery_claim k c t0 db = (Granted, db')" "delivery_holder db' k = Some (c, u)"
    and "list_all (preserves k c u) es" "list_all named es" and "t1 < u"
  shows "fst (delivery_claim k c' t1 (deliveries.run es db')) \<noteq> Granted"
  by (rule deliveries.exclusive [OF assms])

lemma new_processed_inv: "processed_inv new_store"
  using new_store_inv by (simp add: db_inv_def)

theorem delivery_exclusive_witness:
  "fst (delivery_claim ''m1'' ''w2'' 20
     (deliveries.run [Claim ''m2'' ''w3'' 12, Release ''m1'' ''w2''] (snd (delivery_claim ''m1'' ''w1'' 10 new_store)))) \<noteq> Granted"
  by (rule delivery_exclusive [OF new_processed_inv, where c = "''w1''" and ?t0.0 = 10 and u = "10 + db_claim_ttl new_store"])
    (simp_all add: delivery_claim_def claim_delivery_def delivery_holder_def new_store_def default_claim_ttl_def
      duration_defs time_defs row_or_def Let_def)

text \<open>A delivery that was completed is not granted again while its record is kept.\<close>

theorem delivery_done_once:
  assumes "processed_inv db" "delivery_holder db k = Some (c, u)" "c \<noteq> []" "t0 \<noteq> zero_time"
    and "delivery_finish k c t0 clock_now db = (ok, db')" "clock_now < t0 + db_processed_ttl db"
    and "t < t0 + db_processed_ttl db"
  shows "ok \<and> fst (delivery_claim k c' t db') \<noteq> Granted"
  using deliveries.finished_not_granted [OF assms] by blast

theorem delivery_done_once_witness:
  "fst (delivery_claim ''m1'' ''w2'' 100 (snd (delivery_finish ''m1'' ''w1'' 20 20
     (snd (delivery_claim ''m1'' ''w1'' 10 new_store))))) \<noteq> Granted"
proof -
  let ?db = "snd (delivery_claim ''m1'' ''w1'' 10 new_store)"
  have inv: "processed_inv ?db"
    by (rule deliveries.claim_inv [OF new_processed_inv])
  have holder: "delivery_holder ?db ''m1'' = Some (''w1'', 10 + db_claim_ttl new_store)"
    by (simp add: delivery_claim_def claim_delivery_def delivery_holder_def new_store_def time_defs Let_def)
  have ttl: "db_processed_ttl ?db = default_processed_ttl"
    by (simp add: delivery_claim_def claim_delivery_def new_store_def Let_def)
  show ?thesis
    using delivery_done_once [OF inv holder, of 20 20 "fst (delivery_finish ''m1'' ''w1'' 20 20 ?db)"
        "snd (delivery_finish ''m1'' ''w1'' 20 20 ?db)" 100 "''w2''"]
    by (simp add: ttl default_processed_ttl_def duration_defs)
qed

text \<open>
  A reminder claimed by one worker is granted to nobody else before the claim expires, and once
  it was sent or skipped under that claim it is never granted again.
\<close>

theorem reminder_exclusive:
  assumes "reminder_claim d k c t0 db = (Granted, db')" "reminder_holder db' k = Some (c, u)"
    and "list_all (preserves k c u) es" "list_all named es" and "t1 < u"
  shows "fst (reminder_claim d k c' t1 (reminder_leases.run d sent es db')) \<noteq> Granted"
  by (rule reminder_leases.exclusive [OF TrueI assms])

definition sample_reminder :: reminder where
  "sample_reminder = \<lparr>rm_id = ''r1'', rm_booking_id = ''41'', rm_customer_id = ''u1'', rm_conversation_id = ''c1'',
     rm_provider = ProviderTelegram, rm_thread_id = ''12'', rm_language = ''en'', rm_expected_start = 900,
     rm_due_at = 100, rm_status = StatusScheduled, rm_created_at = 1, rm_claim_id = [], rm_claim_expires = 0,
     rm_finished_at = 0\<rparr>"

theorem reminder_exclusive_witness:
  "let db = snd (ensure_reminder sample_reminder new_store) in
   fst (reminder_claim 50 ''r1'' ''w2'' 140 (reminder_leases.run 50 True [Release ''r1'' ''w2'']
     (snd (reminder_claim 50 ''r1'' ''w1'' 110 db)))) \<noteq> Granted"
  unfolding Let_def
  by (rule reminder_exclusive [where c = "''w1''" and ?t0.0 = 110 and u = 160 and
        db = "snd (ensure_reminder sample_reminder new_store)"])
    (simp_all add: reminder_claim_def claim_reminder_def reminder_holder_def ensure_reminder_def sample_reminder_def
      new_store_def reminder_terminal_def reminder_validate_def time_defs Let_def split: prod.split)

text \<open>
  C14. A takeover recorded by staff survives every later save of a copy of the conversation that was
  read before it, in any number and order.
\<close>

theorem takeover_survives_stale_saves:
  assumes "conversations_inv db" "get_row (db_conversations db) (conv_key c) = Some stored"
    and "record_takeover c m t u db = (True, db')"
    and "list_all (\<lambda>x. conv_key x \<noteq> conv_key c \<or> cv_revision x \<le> cv_revision stored) cs"
  shows "\<exists>c'. get_row (db_conversations (conversation_store.save_all cs db')) (conv_key c) = Some c' \<and>
    cv_state c' = StateHumanActive"
  by (rule conversation_store.takeover_survives [OF assms])

definition sample_message :: stored_message where
  "sample_message = \<lparr>ms_id = ''m1'', ms_conversation_id = ''c1'', ms_direction = DirectionOutbound,
     ms_content_type = ContentTypeText, ms_text = ''hello'', ms_external_id = ''x1'', ms_created_at = 15\<rparr>"

definition chat_store :: db where
  "chat_store = snd (save_conversation sample_conversation new_store)"

lemma chat_store_inv: "db_inv chat_store"
  unfolding chat_store_def by (rule save_conversation_inv [OF new_store_inv])

theorem takeover_survives_stale_saves_witness:
  "\<exists>c'. get_row (db_conversations (conversation_store.save_all [sample_conversation]
       (snd (record_takeover sample_conversation sample_message 15 20 chat_store)))) (conv_key sample_conversation) = Some c' \<and>
     cv_state c' = StateHumanActive"
proof (rule takeover_survives_stale_saves [where m = sample_message and t = 15 and u = 20 and db = chat_store])
  show "conversations_inv chat_store" using chat_store_inv by (simp add: db_inv_def)
  show "get_row (db_conversations chat_store) (conv_key sample_conversation) = Some sample_conversation"
    by (simp add: chat_store_def save_conversation_def store_conversation_def new_store_def)
  show "record_takeover sample_conversation sample_message 15 20 chat_store =
      (True, snd (record_takeover sample_conversation sample_message 15 20 chat_store))" by code_simp
qed simp

text \<open>Appending a message that is already stored changes nothing: the transcript has it once.\<close>

theorem append_is_idempotent:
  "append_message m (snd (append_message m db)) = (Inr (), snd (append_message m db))"
  by (rule append_message_twice)

text \<open>
  A customer's history holds exactly the bookings stored for them and for the identities linked
  to them, soonest first, and nobody else's.
\<close>

theorem history_is_own:
  assumes "store_reachable db" "list_bookings c db = (Inr bs, db')"
  shows "sorted (map bk_starts_at bs) \<and>
    mset bs = (\<Sum>k \<leftarrow> c # row_or [] (db_aliases db) c. mset (row_or [] (db_bookings db) k)) \<and>
    list_all (\<lambda>b. bk_customer_id b = c \<or> bk_customer_id b \<in> set (row_or [] (db_aliases db) c)) bs"
  using list_bookings_result [of c db] list_bookings_owner [OF store_reachable_inv [OF assms(1)] assms(2)] assms(2)
  by (auto simp: list_all_iff)

theorem history_is_own_witness: "list_all (\<lambda>b. bk_customer_id b = ''u1'') [sample_booking]"
proof -
  have "list_bookings ''u1'' sample_store = (Inr [sample_booking], sample_store)"
    by (simp add: list_bookings_def sample_store_def save_booking_def sample_booking_def new_store_def row_or_def)
  from history_is_own [OF sample_store_reachable this] show ?thesis
    by (simp add: sample_booking_def)
qed

text \<open>
  Pressing the next-page button from the first page of the staff inbox shows every Telegram
  conversation exactly once, latest first, and ends; for any page size asked for.
\<close>

theorem inbox_walk_complete:
  assumes "conversations_inv db" "length (telegram_inbox db) < fuel"
  shows "walk_pages fuel db limit None = telegram_inbox db"
  by (rule walk_from [OF assms(1) refl _ assms(2)]) simp

theorem inbox_walk_complete_witness: "walk_pages 2 chat_store 1 None = [sample_conversation]"
proof -
  have inbox: "telegram_inbox chat_store = [sample_conversation]" by code_simp
  with inbox_walk_complete [of chat_store 2 1] chat_store_inv show ?thesis by (simp add: db_inv_def)
qed





text \<open>
  A delivery that one request has claimed in the hosted store is granted to no other before the
  claim expires, whatever other claims, completions and releases happen meanwhile under other names.
\<close>

theorem hosted_delivery_exclusive:
  assumes "hosted_inv fd" "hosted_claim k c t0 fd = (Granted, fd')" "hosted_holder fd' k = Some (c, u)"
    and "list_all (preserves k c u) es" "list_all named es" and "t1 < u"
  shows "fst (hosted_claim k c' t1 (hosted_deliveries.run es fd')) \<noteq> Granted"
  by (rule hosted_deliveries.exclusive [OF assms])

theorem hosted_delivery_exclusive_witness:
  "fst (hosted_claim ''m1'' ''w2'' 20
     (hosted_deliveries.run [Claim ''m2'' ''w3'' 12, Release ''m1'' ''w2''] (snd (hosted_claim ''m1'' ''w1'' 10 no_documents)))) \<noteq> Granted"
  by (rule hosted_delivery_exclusive [of no_documents, where c = "''w1''" and ?t0.0 = 10 and u = "10 + claim_retention"])
    (simp_all add: hosted_inv_def hosted_claim_def fire_claim_delivery_def hosted_holder_def no_documents_def
      claim_retention_def duration_defs time_defs row_or_def Let_def)

end
