(* ===== verification/World.thy ===== *)
theory World
  imports StoreContracts
begin

text \<open>
  The world a service acts on: the store, a tick that numbers the calls leaving the service, and
  the log of the effects it asked other systems for, each with the error it got back. An
  environment answers the calls by their tick: the clock readings, the generated ids, the outcome
  of each effect, and whether a call to the store works, is lost on the way, or is done with its
  reply lost. Nothing is assumed about it, so every theorem covers every pattern of failures; a
  theorem about the in-process store, which does not fail, takes \<open>reliable\<close> as a hypothesis.
\<close>

text \<open>What staff are told of a conversation (\<open>HandoffNotice\<close> in \<open>assistant/handoff.go\<close>); the wording of an unresolved booking stays symbolic.\<close>

datatype handoff_detail = NoDetail | GivenDetail string | UnresolvedBooking draft

record handoff_notice =
  hn_conversation :: string
  hn_reason :: string
  hn_detail :: handoff_detail
  hn_provider :: provider
  hn_customer :: customer
  hn_handle :: string
  hn_user_id :: string
  hn_recent :: "stored_message list"
  hn_draft :: "draft option"
  hn_requested_at :: time

datatype effect =
    ScheduleWake string string time
  | SendMessage outgoing
  | SendReminderTemplate outgoing string booking string
  | ScheduleNotification string string time
  | SendNotification target notice string
  | AlertStaff string string
  | AlertHealth channel_health
  | SendCode string string string time
  | CreateBooking request
  | CancelBooking booking
  | RescheduleBooking booking time
  | RetireChoices string string
  | NotifyHandoff handoff_notice
  | NotifyInbound handoff_notice string

record world =
  w_db :: db
  w_tick :: nat
  w_log :: "(effect \<times> go_error option) list"

datatype fault = Works | RequestLost go_error | ReplyLost go_error

record env =
  e_now :: "nat \<Rightarrow> time"
  e_fresh :: "nat \<Rightarrow> string"
  e_fault :: "nat \<Rightarrow> fault"
  e_outcome :: "nat \<Rightarrow> go_error option"

definition tick :: "world \<Rightarrow> world" where
  "tick w = w\<lparr>w_tick := Suc (w_tick w)\<rparr>"

definition ask :: "(nat \<Rightarrow> 'a result) \<Rightarrow> (world, 'a) proc" where
  "ask f w = (f (w_tick w), tick w)"

definition clock :: "'e env_scheme \<Rightarrow> (world, time) proc" where
  "clock env = ask (\<lambda>n. Inr (e_now env n))"

definition fresh :: "'e env_scheme \<Rightarrow> (world, string) proc" where
  "fresh env = ask (\<lambda>n. Inr (e_fresh env n))"

definition store :: "'e env_scheme \<Rightarrow> (db, 'a) proc \<Rightarrow> (world, 'a) proc" where
  "store env m w =
     (case e_fault env (w_tick w) of
        Works \<Rightarrow> (fst (m (w_db w)), tick (w\<lparr>w_db := snd (m (w_db w))\<rparr>))
      | RequestLost e \<Rightarrow> (Inl e, tick w)
      | ReplyLost e \<Rightarrow> (Inl e, tick (w\<lparr>w_db := snd (m (w_db w))\<rparr>)))"

definition perform :: "'e env_scheme \<Rightarrow> effect \<Rightarrow> (world, unit) proc" where
  "perform env eff w =
     (case e_outcome env (w_tick w) of None \<Rightarrow> Inr () | Some e \<Rightarrow> Inl e,
      tick (w\<lparr>w_log := w_log w @ [(eff, e_outcome env (w_tick w))]\<rparr>))"

definition reliable :: "'e env_scheme \<Rightarrow> bool" where
  "reliable env \<longleftrightarrow> (\<forall>n. e_fault env n = Works)"

lemma tick_simps [simp]:
  "w_db (tick w) = w_db w" "w_log (tick w) = w_log w" "w_tick (tick w) = Suc (w_tick w)"
  by (simp_all add: tick_def)

lemma reliable_store:
  "reliable env \<Longrightarrow> store env m w = (fst (m (w_db w)), tick (w\<lparr>w_db := snd (m (w_db w))\<rparr>))"
  by (simp add: store_def reliable_def)

lemma clock_apply [proc_simps]: "clock env w = (Inr (e_now env (w_tick w)), tick w)"
  by (simp add: clock_def ask_def)

lemma fresh_apply [proc_simps]: "fresh env w = (Inr (e_fresh env (w_tick w)), tick w)"
  by (simp add: fresh_def ask_def)

lemma ask_apply [proc_simps]: "ask f w = (f (w_tick w), tick w)"
  by (simp add: ask_def)

section \<open>Effects of one kind\<close>

text \<open>
  The effects a procedure adds to the log, restricted to one kind \<open>K\<close>. A procedure is quiet for \<open>K\<close>
  when it adds none, and this is a property of its parts.
\<close>

definition logged :: "(effect \<Rightarrow> bool) \<Rightarrow> world \<Rightarrow> (effect \<times> go_error option) list" where
  "logged K w = filter (\<lambda>(e, r). K e) (w_log w)"

definition quiet :: "(effect \<Rightarrow> bool) \<Rightarrow> (world, 'a) proc \<Rightarrow> bool" where
  "quiet K m \<longleftrightarrow> (\<forall>w. logged K (snd (m w)) = logged K w)"

named_theorems quiet_intros \<open>procedures without effects of a kind\<close>

lemma quietD: "quiet K m \<Longrightarrow> m w = (r, w') \<Longrightarrow> logged K w' = logged K w"
  unfolding quiet_def by (metis snd_conv)

lemma logged_tick [simp]: "logged K (tick w) = logged K w"
  by (simp add: logged_def)

lemma logged_db [simp]: "logged K (w\<lparr>w_db := d\<rparr>) = logged K w"
  by (simp add: logged_def)

lemma quiet_ret [quiet_intros]: "quiet K (ret x)"
  by (simp add: quiet_def ret_def)

lemma quiet_fail [quiet_intros]: "quiet K (fail e)"
  by (simp add: quiet_def fail_def)

lemma quiet_ask [quiet_intros]: "quiet K (ask f)"
  by (simp add: quiet_def ask_def)

lemma quiet_clock [quiet_intros]: "quiet K (clock env)"
  by (simp add: clock_def quiet_ask)

lemma quiet_fresh [quiet_intros]: "quiet K (fresh env)"
  by (simp add: fresh_def quiet_ask)

lemma quiet_store [quiet_intros]: "quiet K (store env m)"
  by (simp add: quiet_def store_def split: fault.split)

lemma quiet_perform [quiet_intros]: "\<not> K eff \<Longrightarrow> quiet K (perform env eff)"
  by (simp add: quiet_def perform_def logged_def)

lemma quiet_attempt [quiet_intros]:
  assumes "quiet K m" "\<And>x. quiet K (k x)"
  shows "quiet K (attempt m f k)"
proof (unfold quiet_def, intro allI)
  fix w
  obtain r w' where eq: "m w = (r, w')" by force
  from quietD [OF assms(1) eq] assms(2) show "logged K (snd (attempt m f k w)) = logged K w"
    by (cases r) (simp_all add: attempt_apply eq quiet_def)
qed

lemma quiet_observe [quiet_intros]:
  assumes "quiet K m" "\<And>r. quiet K (k r)"
  shows "quiet K (observe m k)"
proof (unfold quiet_def, intro allI)
  fix w
  obtain r w' where eq: "m w = (r, w')" by force
  from quietD [OF assms(1) eq] assms(2) show "logged K (snd (observe m k w)) = logged K w"
    by (simp add: observe_apply eq quiet_def)
qed

lemma quiet_if [quiet_intros]:
  "(b \<Longrightarrow> quiet K m) \<Longrightarrow> (\<not> b \<Longrightarrow> quiet K n) \<Longrightarrow> quiet K (if b then m else n)"
  by simp

lemma quiet_case_option [quiet_intros]:
  "(x = None \<Longrightarrow> quiet K m) \<Longrightarrow> (\<And>y. x = Some y \<Longrightarrow> quiet K (n y)) \<Longrightarrow>
   quiet K (case x of None \<Rightarrow> m | Some y \<Rightarrow> n y)"
  by (cases x) simp_all

lemma quiet_case_sum [quiet_intros]:
  "(\<And>y. x = Inl y \<Longrightarrow> quiet K (m y)) \<Longrightarrow> (\<And>y. x = Inr y \<Longrightarrow> quiet K (n y)) \<Longrightarrow>
   quiet K (case x of Inl y \<Rightarrow> m y | Inr y \<Rightarrow> n y)"
  by (cases x) simp_all

lemma quiet_case_prod [quiet_intros]:
  "(\<And>a b. x = (a, b) \<Longrightarrow> quiet K (m a b)) \<Longrightarrow> quiet K (case x of (a, b) \<Rightarrow> m a b)"
  by (cases x) simp

lemma quiet_Let [quiet_intros]: "quiet K (m x) \<Longrightarrow> quiet K (let y = x in m y)"
  by simp

section \<open>At most one effect of a kind\<close>

text \<open>
  A procedure that asks for at most one effect of kind \<open>K\<close>: one that satisfies \<open>P\<close>, and then the
  procedure fails (as \<open>failed\<close> reads its result) exactly when that effect got an error back.
\<close>

definition at_most_one ::
  "(effect \<Rightarrow> bool) \<Rightarrow> (effect \<Rightarrow> bool) \<Rightarrow> ('a result \<Rightarrow> bool) \<Rightarrow> (world, 'a) proc \<Rightarrow> bool" where
  "at_most_one K P failed m \<longleftrightarrow>
     (\<forall>w. logged K (snd (m w)) = logged K w \<or>
        (\<exists>eff x. logged K (snd (m w)) = logged K w @ [(eff, x)] \<and> P eff \<and> (failed (fst (m w)) \<longleftrightarrow> x \<noteq> None)))"

named_theorems at_most_one_intros \<open>procedures with at most one effect of a kind\<close>

lemma at_most_oneD:
  assumes "at_most_one K P failed m" "m w = (r, w')"
  shows "logged K w' = logged K w \<or>
     (\<exists>eff x. logged K w' = logged K w @ [(eff, x)] \<and> P eff \<and> (failed r \<longleftrightarrow> x \<noteq> None))"
  using assms(1) [unfolded at_most_one_def, rule_format, of w] by (simp only: assms(2) fst_conv snd_conv)

lemma at_most_one_quiet: "quiet K m \<Longrightarrow> at_most_one K P failed m"
  by (simp add: at_most_one_def quiet_def)

lemma at_most_one_attempt:
  assumes "quiet K m" "\<And>x w w'. m w = (Inr x, w') \<Longrightarrow> at_most_one K P failed (k x)"
  shows "at_most_one K P failed (attempt m f k)"
proof (unfold at_most_one_def, intro allI)
  fix w
  obtain r w' where eq: "m w = (r, w')" by force
  note q = quietD [OF assms(1) eq]
  show "logged K (snd (attempt m f k w)) = logged K w \<or>
      (\<exists>eff x. logged K (snd (attempt m f k w)) = logged K w @ [(eff, x)] \<and> P eff \<and>
        (failed (fst (attempt m f k w)) \<longleftrightarrow> x \<noteq> None))"
  proof (cases r)
    case (Inl e)
    with eq q show ?thesis by (simp add: attempt_apply)
  next
    case (Inr x)
    with eq have run: "attempt m f k w = k x w'" by (simp add: attempt_apply)
    from assms(2) [of w x w'] eq Inr have "at_most_one K P failed (k x)" by simp
    then show ?thesis unfolding run at_most_one_def q [symmetric] by (rule spec)
  qed
qed

lemma at_most_one_observe:
  assumes "quiet K m" "\<And>r w w'. m w = (r, w') \<Longrightarrow> at_most_one K P failed (k r)"
  shows "at_most_one K P failed (observe m k)"
proof (unfold at_most_one_def, intro allI)
  fix w
  obtain r w' where eq: "m w = (r, w')" by force
  then have run: "observe m k w = k r w'" by (simp add: observe_apply)
  note q = quietD [OF assms(1) eq]
  from assms(2) [OF eq] show "logged K (snd (observe m k w)) = logged K w \<or>
      (\<exists>eff x. logged K (snd (observe m k w)) = logged K w @ [(eff, x)] \<and> P eff \<and>
        (failed (fst (observe m k w)) \<longleftrightarrow> x \<noteq> None))"
    unfolding run at_most_one_def q [symmetric] by (rule spec)
qed

text \<open>The send itself, followed by a recording that is quiet and never fails.\<close>

lemma perform_logged:
  "logged K (snd (perform env eff w)) = logged K w @ (if K eff then [(eff, e_outcome env (w_tick w))] else [])"
  "fst (perform env eff w) = (case e_outcome env (w_tick w) of None \<Rightarrow> Inr () | Some e \<Rightarrow> Inl e)"
  by (simp_all add: perform_def logged_def)

lemma at_most_one_send:
  assumes "K eff" "P eff" "quiet K m" "\<And>w. \<not> failed (fst (m w))" "\<And>e. failed (Inl e)"
  shows "at_most_one K P failed (attempt (perform env eff) f (\<lambda>_. m))"
proof (unfold at_most_one_def, intro allI disjI2)
  fix w
  obtain r w' where eq: "perform env eff w = (r, w')" by force
  from perform_logged(1) [of K env eff w] perform_logged(2) [of env eff w] assms(1) eq
  have log: "logged K w' = logged K w @ [(eff, e_outcome env (w_tick w))]"
    and r: "r = (case e_outcome env (w_tick w) of None \<Rightarrow> Inr () | Some e \<Rightarrow> Inl e)" by simp_all
  have "logged K (snd (m w')) = logged K w'" using assms(3) by (simp add: quiet_def)
  with log r eq assms(2,4,5) show "\<exists>eff' x. logged K (snd (attempt (perform env eff) f (\<lambda>_. m) w)) =
      logged K w @ [(eff', x)] \<and> P eff' \<and> (failed (fst (attempt (perform env eff) f (\<lambda>_. m) w)) \<longleftrightarrow> x \<noteq> None)"
    by (cases "e_outcome env (w_tick w)") (simp_all add: attempt_apply)
qed

end
