(* ===== verification/Reminders.thy ===== *)
theory Reminders
  imports World
begin

text \<open>
  Planning and delivering appointment reminders (\<open>internal/application/reminders\<close>), composed with
  the store. The rendered text and links of a reminder, the rendering of an instant, the first
  sixteen bytes of SHA-256 in hexadecimal, the registered senders, the language resolver and the
  reader of a live booking are fields of the service's environment. The deferred release of the
  claim is the last step of a delivery that returns early with an error.
\<close>

section \<open>The environment\<close>

datatype reminder_sender = PlainSender | TemplateSender "string \<Rightarrow> bool"

record reminder_env = env +
  re_senders :: "provider \<Rightarrow> reminder_sender option"
  re_resolve_language :: "(nat \<Rightarrow> provider \<Rightarrow> string \<Rightarrow> string \<Rightarrow> string result) option"
  re_conversations :: bool
  re_reader :: "(nat \<Rightarrow> booking \<Rightarrow> booking result) option"
  re_lead_time :: duration
  re_text :: "string \<Rightarrow> booking \<Rightarrow> string"
  re_links :: "string \<Rightarrow> booking \<Rightarrow> link list"
  re_calendar_url :: "string \<Rightarrow> booking \<Rightarrow> string"
  re_hash :: "string \<Rightarrow> string"
  re_render_time :: "time \<Rightarrow> string"

definition max_task_delay :: duration where "max_task_delay = 29 * 24 * hour"
definition claim_duration :: duration where "claim_duration = 5 * minute"

text \<open>\<open>appointmentmessage.ParseLanguage\<close>: no letter outside ASCII lowers to a letter of \<open>hy\<close> or \<open>ru\<close>.\<close>

definition parse_language :: "string \<Rightarrow> string" where
  "parse_language lang =
     (let base = takeWhile (\<lambda>c. c \<noteq> CHR ''-'') (ascii_lower (trim_space lang)) in
      if base = ''hy'' then ''hy'' else if base = ''ru'' then ''ru'' else ''en'')"

definition supports_reminder :: "'e reminder_env_scheme \<Rightarrow> provider \<Rightarrow> string \<Rightarrow> bool" where
  "supports_reminder env provider lang =
     (if provider = ProviderTelegram then re_senders env provider \<noteq> None
      else case re_senders env provider of
        Some (TemplateSender supports) \<Rightarrow> provider = ProviderWhatsApp \<and> supports (parse_language lang)
      | _ \<Rightarrow> False)"

section \<open>Scheduling a wake\<close>

definition hash_id :: "'e reminder_env_scheme \<Rightarrow> string \<Rightarrow> string \<Rightarrow> string" where
  "hash_id env prefix v = prefix @ ''-'' @ re_hash env v"

definition reminder_id :: "'e reminder_env_scheme \<Rightarrow> booking \<Rightarrow> string" where
  "reminder_id env b = hash_id env ''reminder''
     (bk_id b @ [CHR 0x00] @ bk_external_id b @ [CHR 0x00] @ re_render_time env (bk_starts_at b))"

definition task_id :: "'e reminder_env_scheme \<Rightarrow> string \<Rightarrow> time \<Rightarrow> string" where
  "task_id env rid run_at = hash_id env ''reminder-task'' (rid @ [CHR 0x00] @ re_render_time env run_at)"

function wake_loop :: "time \<Rightarrow> time \<Rightarrow> time \<Rightarrow> time" where
  "wake_loop now due run_at =
     (if \<not> after run_at now \<and> before run_at due then wake_loop now due (run_at + max_task_delay) else run_at)"
  by pat_completeness auto
termination
  by (relation "measure (\<lambda>(now, due, run_at). nat (now + 1 - run_at))")
    (auto simp: time_defs max_task_delay_def duration_defs)

declare wake_loop.simps [simp del]

definition wake_at :: "reminder \<Rightarrow> time \<Rightarrow> time" where
  "wake_at r now =
     (let run_at = rm_due_at r in
      if after run_at (now + max_task_delay)
      then let run_at = wake_loop now (rm_due_at r) (rm_created_at r + max_task_delay)
        in if after run_at (rm_due_at r) then rm_due_at r else run_at
      else run_at)"

definition schedule_wake :: "'e reminder_env_scheme \<Rightarrow> reminder \<Rightarrow> time \<Rightarrow> (world, unit) proc" where
  "schedule_wake env r now =
     (let run_at = wake_at r now in
      attempt (perform env (ScheduleWake (task_id env (rm_id r) run_at) (rm_id r) run_at))
        (wrap_error ''schedule reminder wake'') ret)"

section \<open>Planning\<close>

definition new_reminder :: "'e reminder_env_scheme \<Rightarrow> booking \<Rightarrow> conversation \<Rightarrow> string \<Rightarrow> time \<Rightarrow> reminder" where
  "new_reminder env b conv lang created =
     \<lparr>rm_id = reminder_id env b, rm_booking_id = bk_external_id b, rm_customer_id = bk_customer_id b,
      rm_conversation_id = cv_id conv, rm_provider = cv_provider conv, rm_thread_id = cv_thread_id conv,
      rm_language = lang, rm_expected_start = bk_starts_at b, rm_due_at = bk_starts_at b - re_lead_time env,
      rm_status = StatusScheduled, rm_created_at = created, rm_claim_id = [], rm_claim_expires = zero_time,
      rm_finished_at = zero_time\<rparr>"

definition plan_reminder ::
  "'e reminder_env_scheme \<Rightarrow> booking \<Rightarrow> conversation \<Rightarrow> string \<Rightarrow> (world, unit) proc" where
  "plan_reminder env b conv lang =
     (if \<not> supports_reminder env (cv_provider conv) lang \<or>
         (cv_provider conv \<noteq> ProviderTelegram \<and> \<not> cv_reminder_opt_in conv)
      then ret ()
      else attempt (clock env) id (\<lambda>now.
        if \<not> after (bk_starts_at b - re_lead_time env) now then ret ()
        else attempt (clock env) id (\<lambda>created.
          let r = new_reminder env b conv lang created in
          case reminder_validate r of
            Some e \<Rightarrow> fail (wrap_error ''plan reminder'' e)
          | None \<Rightarrow>
            attempt (store env (ensure_reminder r)) (wrap_error ''plan reminder'') (\<lambda>_.
            attempt (store env (find_reminder (rm_id r))) (wrap_error ''plan reminder: read persisted reminder'') (\<lambda>stored.
              if reminder_terminal stored then ret ()
              else attempt (clock env) id (\<lambda>now. schedule_wake env stored now))))))"

section \<open>Delivering\<close>

text \<open>The appointment as it is now, and whether the reminder still describes it.\<close>

definition still_current :: "'e reminder_env_scheme \<Rightarrow> reminder \<Rightarrow> booking \<Rightarrow> (world, booking \<times> bool) proc" where
  "still_current env r b =
     attempt (clock env) id (\<lambda>now.
       ret (b, bk_status b = StatusConfirmed \<and> bk_starts_at b = rm_expected_start r \<and> after (bk_starts_at b) now))"

definition replan_moved :: "'e reminder_env_scheme \<Rightarrow> reminder \<Rightarrow> booking \<Rightarrow> (world, unit) proc" where
  "replan_moved env r b =
     (if bk_status b = StatusConfirmed \<and> bk_starts_at b \<noteq> rm_expected_start r
      then attempt
        (if re_conversations env then store env (find_by_id (rm_conversation_id r))
         else ret (zero_conversation\<lparr>cv_id := rm_conversation_id r, cv_customer_id := rm_customer_id r,
           cv_provider := rm_provider r, cv_thread_id := rm_thread_id r\<rparr>)) id
        (\<lambda>conv. plan_reminder env b conv (rm_language r))
      else ret ())"

definition current_booking :: "'e reminder_env_scheme \<Rightarrow> reminder \<Rightarrow> (world, booking \<times> bool) proc" where
  "current_booking env r =
     attempt (store env (list_bookings (rm_customer_id r))) id (\<lambda>booked.
       case find (\<lambda>b. bk_external_id b = rm_booking_id r) booked of
         None \<Rightarrow> ret (zero_booking, False)
       | Some b \<Rightarrow>
         (case re_reader env of
            Some read_booking \<Rightarrow>
              if bk_status b = StatusConfirmed
              then observe (ask (\<lambda>n. read_booking n b)) (\<lambda>reply. case reply of
                  Inl e \<Rightarrow> if errors_is e BookingNotFound then ret (b, False) else fail e
                | Inr refreshed \<Rightarrow>
                  attempt (store env (save_booking refreshed)) id (\<lambda>_.
                  attempt (replan_moved env r refreshed) id (\<lambda>_.
                    still_current env r refreshed)))
              else still_current env r b
          | None \<Rightarrow> still_current env r b))"

text \<open>
  Ending a claim: from here on the claim is not released again, and the value is the error the
  delivery returns.
\<close>

definition finish_claim ::
  "'e reminder_env_scheme \<Rightarrow> reminder \<Rightarrow> string \<Rightarrow> reminder_status \<Rightarrow> time \<Rightarrow> (world, go_error option) proc" where
  "finish_claim env r claim_id st at =
     observe (store env (finish_reminder (rm_id r) claim_id st at)) (\<lambda>reply.
       ret (case reply of Inl e \<Rightarrow> Some (wrap_error ''finish reminder'' e) | Inr _ \<Rightarrow> None))"

definition resolve_language :: "'e reminder_env_scheme \<Rightarrow> reminder \<Rightarrow> (world, reminder) proc" where
  "resolve_language env r =
     (case re_resolve_language env of
        None \<Rightarrow> ret r
      | Some resolve \<Rightarrow> attempt (ask (\<lambda>n. resolve n (rm_provider r) (rm_thread_id r) (rm_language r))) id
          (\<lambda>lang. ret (r\<lparr>rm_language := lang\<rparr>)))"

definition has_consent :: "'e reminder_env_scheme \<Rightarrow> reminder \<Rightarrow> (world, bool) proc" where
  "has_consent env r =
     (if rm_provider r = ProviderTelegram then ret True
      else if \<not> re_conversations env then fail (errors_new ''reminder consent repository unavailable'')
      else attempt (store env (find_by_id (rm_conversation_id r))) id (\<lambda>conv. ret (cv_reminder_opt_in conv)))"

definition reminder_message :: "'e reminder_env_scheme \<Rightarrow> reminder \<Rightarrow> booking \<Rightarrow> outgoing" where
  "reminder_message env r b =
     (let lang = parse_language (rm_language r) in
      with_links (plain_message (rm_provider r) (rm_thread_id r) (re_text env lang b)) (re_links env lang b))"

definition reminder_effect :: "'e reminder_env_scheme \<Rightarrow> reminder_sender \<Rightarrow> reminder \<Rightarrow> booking \<Rightarrow> effect" where
  "reminder_effect env sender r b =
     (let lang = parse_language (rm_language r); out = reminder_message env r b in
      case sender of
        TemplateSender _ \<Rightarrow> if rm_provider r = ProviderWhatsApp
          then SendReminderTemplate out lang b (re_calendar_url env lang b) else SendMessage out
      | PlainSender \<Rightarrow> SendMessage out)"

definition record_sent ::
  "'e reminder_env_scheme \<Rightarrow> reminder \<Rightarrow> string \<Rightarrow> booking \<Rightarrow> time \<Rightarrow> (world, go_error option) proc" where
  "record_sent env r claim_id b now =
     observe (finish_claim env r claim_id StatusSent now) (\<lambda>_.
     attempt (fresh env) id (\<lambda>mid.
     observe (store env (append_message
         \<lparr>ms_id = mid, ms_conversation_id = rm_conversation_id r, ms_direction = DirectionOutbound,
          ms_content_type = ContentTypeText, ms_text = og_text (reminder_message env r b),
          ms_external_id = [], ms_created_at = now\<rparr>)) (\<lambda>_.
       ret None)))"

definition deliver_body ::
  "'e reminder_env_scheme \<Rightarrow> reminder \<Rightarrow> string \<Rightarrow> time \<Rightarrow> (world, go_error option) proc" where
  "deliver_body env claimed claim_id now =
     attempt (resolve_language env claimed) id (\<lambda>claimed.
     if \<not> supports_reminder env (rm_provider claimed) (rm_language claimed)
     then finish_claim env claimed claim_id StatusSkipped now
     else attempt (has_consent env claimed) id (\<lambda>consent.
       if \<not> consent then finish_claim env claimed claim_id StatusSkipped now
       else attempt (current_booking env claimed) (wrap_error ''deliver reminder: read booking'') (\<lambda>(b, current).
         if \<not> current then finish_claim env claimed claim_id StatusSkipped now
         else case re_senders env (rm_provider claimed) of
           None \<Rightarrow> fail (errors_new (''deliver reminder: no sender configured for '' @ rm_provider claimed))
         | Some sender \<Rightarrow>
           attempt (perform env (reminder_effect env sender claimed b)) (wrap_error ''deliver reminder: send'') (\<lambda>_.
             record_sent env claimed claim_id b now))))"

definition deliver_claimed ::
  "'e reminder_env_scheme \<Rightarrow> reminder \<Rightarrow> string \<Rightarrow> time \<Rightarrow> (world, unit) proc" where
  "deliver_claimed env claimed claim_id now =
     observe (deliver_body env claimed claim_id now) (\<lambda>reply. case reply of
       Inr None \<Rightarrow> ret ()
     | Inr (Some e) \<Rightarrow> fail e
     | Inl e \<Rightarrow> observe (store env (release_reminder (rm_id claimed) claim_id)) (\<lambda>_. fail e))"

definition deliver_reminder :: "'e reminder_env_scheme \<Rightarrow> string \<Rightarrow> (world, unit) proc" where
  "deliver_reminder env rid =
     attempt (store env (find_reminder rid)) (wrap_error ''deliver reminder'') (\<lambda>r.
     if reminder_terminal r then ret ()
     else attempt (clock env) id (\<lambda>now.
       if after (rm_due_at r) now then schedule_wake env r now
       else attempt (fresh env) id (\<lambda>claim_id.
         attempt (store env (claim_reminder (rm_id r) claim_id now (now + claim_duration)))
           (wrap_error ''deliver reminder: claim'') (\<lambda>(claimed, owned).
           if \<not> owned then (if reminder_terminal claimed then ret () else fail (sentinel_error DeliveryBusy))
           else deliver_claimed env claimed claim_id now))))"

section \<open>Reconciling\<close>

fun reconcile_loop ::
  "'e reminder_env_scheme \<Rightarrow> time \<Rightarrow> reminder list \<Rightarrow> int \<Rightarrow> go_error option \<Rightarrow> (world, int \<times> go_error option) proc" where
  "reconcile_loop env now [] scheduled errs = ret (scheduled, errs)"
| "reconcile_loop env now (r # rs) scheduled errs =
     (if \<not> supports_reminder env (rm_provider r) (rm_language r) \<or> \<not> after (rm_expected_start r) now \<or>
         \<not> after (rm_due_at r) now
      then reconcile_loop env now rs scheduled errs
      else observe (schedule_wake env r now) (\<lambda>reply. case reply of
          Inl e \<Rightarrow> reconcile_loop env now rs scheduled (errors_join errs (Some (wrap_error (rm_id r) e)))
        | Inr _ \<Rightarrow> reconcile_loop env now rs (scheduled + 1) errs))"

definition reconcile_reminders :: "'e reminder_env_scheme \<Rightarrow> (world, int \<times> go_error option) proc" where
  "reconcile_reminders env =
     attempt (store env list_scheduled_reminders) (wrap_error ''reconcile reminders: list'') (\<lambda>pending.
     attempt (clock env) id (\<lambda>now. reconcile_loop env now pending 0 None))"

end
