(* ===== verification/ReminderLaws.thy ===== *)
theory ReminderLaws
  imports Reminders
begin

text \<open>
  What the reminder service guarantees: a wake is scheduled in the future, at most 29 days ahead
  and never past the due time, so a chain of wakes ends; a delivery sends at most one message, to
  the appointment as it is now; after a send that was accepted it never reports an error, and a
  delivery that failed before leaves the reminder claimable.
\<close>

section \<open>Wakes\<close>

lemma max_task_delay_pos: "0 < max_task_delay"
  by (simp add: max_task_delay_def duration_defs)

lemma wake_loop_bounds:
  assumes "run_at \<le> now + max_task_delay"
  shows "run_at \<le> wake_loop now due run_at \<and> wake_loop now due run_at \<le> now + max_task_delay \<and>
     (now < wake_loop now due run_at \<or> due \<le> wake_loop now due run_at)"
  using assms
proof (induction now due run_at rule: wake_loop.induct)
  case (1 now due run_at)
  show ?case
  proof (cases "run_at \<le> now \<and> run_at < due")
    case True
    then have "wake_loop now due run_at = wake_loop now due (run_at + max_task_delay)"
      by (subst wake_loop.simps) (simp add: time_defs)
    with 1 True max_task_delay_pos show ?thesis by (auto simp: time_defs)
  next
    case False
    then have "wake_loop now due run_at = run_at"
      by (subst wake_loop.simps) (auto simp: time_defs)
    with False 1 show ?thesis by auto
  qed
qed

lemma wake_loop_grid: "\<exists>n. wake_loop now due run_at = run_at + int n * max_task_delay"
proof (induction now due run_at rule: wake_loop.induct)
  case (1 now due run_at)
  show ?case
  proof (cases "\<not> after run_at now \<and> before run_at due")
    case True
    with 1 obtain n where n: "wake_loop now due (run_at + max_task_delay) = run_at + max_task_delay + int n * max_task_delay"
      by blast
    have "wake_loop now due run_at = run_at + int (Suc n) * max_task_delay"
      by (subst wake_loop.simps) (use True n in \<open>simp add: algebra_simps\<close>)
    then show ?thesis by blast
  next
    case False
    then have "wake_loop now due run_at = run_at + int 0 * max_task_delay"
      by (subst wake_loop.simps) auto
    then show ?thesis by blast
  qed
qed

lemma wake_at_bounds:
  assumes "rm_created_at r \<le> now" "now < rm_due_at r"
  shows "now < wake_at r now" "wake_at r now \<le> now + max_task_delay" "wake_at r now \<le> rm_due_at r"
  using wake_loop_bounds [of "rm_created_at r + max_task_delay" now "rm_due_at r"] assms max_task_delay_pos
  by (auto simp: wake_at_def time_defs Let_def)

lemma wake_at_deterministic:
  "wake_at r now = rm_due_at r \<or> (\<exists>n. wake_at r now = rm_created_at r + int n * max_task_delay)"
proof -
  obtain n where "wake_loop now (rm_due_at r) (rm_created_at r + max_task_delay) =
      rm_created_at r + max_task_delay + int n * max_task_delay"
    using wake_loop_grid by blast
  then have "wake_loop now (rm_due_at r) (rm_created_at r + max_task_delay) =
      rm_created_at r + int (Suc n) * max_task_delay" by (simp add: algebra_simps)
  then show ?thesis unfolding wake_at_def Let_def by metis
qed

text \<open>
  The chain of wakes: each early wake schedules the next one. It reaches the due time after at
  most one wake per started 29 days, plus one.
\<close>

fun wake_chain :: "reminder \<Rightarrow> time \<Rightarrow> nat \<Rightarrow> time" where
  "wake_chain r now 0 = now"
| "wake_chain r now (Suc n) =
     (let at = wake_chain r now n in if after (rm_due_at r) at then wake_at r at else at)"

lemma wake_chain_due:
  assumes "rm_created_at r \<le> now" "now \<le> rm_due_at r"
  shows "now \<le> wake_chain r now n \<and> wake_chain r now n \<le> rm_due_at r \<and>
     (wake_chain r now n = rm_due_at r \<or> now + int n \<le> wake_chain r now n)"
proof (induction n)
  case (Suc n)
  show ?case
  proof (cases "wake_chain r now n < rm_due_at r")
    case True
    with Suc assms have "rm_created_at r \<le> wake_chain r now n" by linarith
    from wake_at_bounds [OF this True] Suc True show ?thesis by (auto simp: time_defs Let_def)
  next
    case False
    with Suc show ?thesis by (auto simp: time_defs Let_def)
  qed
qed (use assms in auto)

lemma wake_chain_step:
  assumes "rm_created_at r \<le> now" "now < rm_due_at r" "rm_due_at r \<le> now + max_task_delay"
  shows "wake_at r now = rm_due_at r"
  using assms by (simp add: wake_at_def time_defs)

section \<open>Sending at most once\<close>

text \<open>The messages a reminder delivery can put in front of a customer.\<close>

fun is_message :: "effect \<Rightarrow> bool" where
  "is_message (SendMessage out) = True"
| "is_message (SendReminderTemplate out lang b url) = True"
| "is_message _ = False"

definition messages :: "world \<Rightarrow> (effect \<times> go_error option) list" where
  "messages w = logged is_message w"

lemma quiet_schedule_wake [quiet_intros]: "quiet is_message (schedule_wake env r now)"
  unfolding schedule_wake_def by (intro quiet_intros) simp

lemma quiet_plan [quiet_intros]: "quiet is_message (plan_reminder env b conv lang)"
  unfolding plan_reminder_def by (intro quiet_intros)

lemma quiet_still_current [quiet_intros]: "quiet K (still_current env r b)"
  unfolding still_current_def by (intro quiet_intros)

lemma quiet_replan [quiet_intros]: "quiet is_message (replan_moved env r b)"
  unfolding replan_moved_def by (intro quiet_intros)

lemma quiet_current_booking [quiet_intros]: "quiet is_message (current_booking env r)"
  unfolding current_booking_def by (intro quiet_intros)

lemma quiet_finish_claim [quiet_intros]: "quiet K (finish_claim env r c st now)"
  unfolding finish_claim_def by (intro quiet_intros)

lemma quiet_resolve [quiet_intros]: "quiet K (resolve_language env r)"
  unfolding resolve_language_def by (intro quiet_intros)

lemma quiet_consent [quiet_intros]: "quiet K (has_consent env r)"
  unfolding has_consent_def by (intro quiet_intros)

lemma quiet_record_sent [quiet_intros]: "quiet K (record_sent env r c b now)"
  unfolding record_sent_def by (intro quiet_intros)

lemma reminder_effect_message [simp]: "is_message (reminder_effect env sender r b)"
  by (simp add: reminder_effect_def Let_def split: reminder_sender.split)

lemma record_sent_ok: "fst (record_sent env r c b now w) = Inr None"
  by (simp add: record_sent_def finish_claim_def proc_simps split: prod.split sum.split)

text \<open>The appointment a delivery talks about: confirmed, and at the time the reminder was planned for.\<close>

lemma still_current_True:
  "still_current env r b w = (Inr (b', True), w') \<Longrightarrow>
     b' = b \<and> bk_status b = StatusConfirmed \<and> bk_starts_at b = rm_expected_start r"
  by (auto simp: still_current_def proc_simps)

lemma attempt_Inr_cont:
  assumes "attempt m f k w = (Inr y, w')" "\<And>x w1 w2. k x w1 = (Inr y, w2) \<Longrightarrow> Q"
  shows Q
  using assms by (auto simp: attempt_Inr)

lemma current_booking_True:
  assumes "current_booking env r w = (Inr (b, True), w')"
  shows "bk_status b = StatusConfirmed \<and> bk_starts_at b = rm_expected_start r"
proof -
  have observed: "Q" if "observe (ask f) (\<lambda>reply. case reply of
        Inl e \<Rightarrow> if errors_is e BookingNotFound then ret (b0, False) else fail e
      | Inr refreshed \<Rightarrow> attempt (store env (save_booking refreshed)) id (\<lambda>_.
          attempt (replan_moved env r refreshed) id (\<lambda>_. still_current env r refreshed))) w1 = (Inr (b, True), w2)"
    "\<And>b' w3 w4. still_current env r b' w3 = (Inr (b, True), w4) \<Longrightarrow> Q" for f w1 w2 b0 Q
    using that(1)
    by (cases "f (w_tick w1)")
      (auto simp: observe_apply ask_apply fail_def ret_def split: if_splits elim!: attempt_Inr_cont intro: that(2))
  show ?thesis
    using assms unfolding current_booking_def
    apply (elim attempt_Inr_cont)
    apply (auto simp: ret_def split: option.splits if_splits dest!: still_current_True elim!: observed)
    done
qed

definition about_current :: "'e reminder_env_scheme \<Rightarrow> reminder \<Rightarrow> effect \<Rightarrow> bool" where
  "about_current env r eff \<longleftrightarrow>
     (\<exists>sender lang b. eff = reminder_effect env sender (r\<lparr>rm_language := lang\<rparr>) b \<and>
        re_senders env (rm_provider r) = Some sender \<and> supports_reminder env (rm_provider r) lang \<and>
        bk_status b = StatusConfirmed \<and> bk_starts_at b = rm_expected_start r)"

lemma resolve_language_only_language:
  "resolve_language env r w = (Inr r', w') \<Longrightarrow> \<exists>lang. r' = r\<lparr>rm_language := lang\<rparr>"
proof (cases "re_resolve_language env")
  case None
  assume "resolve_language env r w = (Inr r', w')"
  with None have "r' = r\<lparr>rm_language := rm_language r\<rparr>" by (simp add: resolve_language_def ret_def)
  then show ?thesis ..
qed (auto simp: resolve_language_def proc_simps split: sum.splits)

definition body_failed :: "go_error option result \<Rightarrow> bool" where
  "body_failed r \<longleftrightarrow> r \<noteq> Inr None"

lemma deliver_body_once:
  "at_most_one is_message (about_current env claimed) body_failed (deliver_body env claimed c now)"
  unfolding deliver_body_def
proof (intro at_most_one_attempt quiet_intros)
  fix r w w'
  assume "resolve_language env claimed w = (Inr r, w')"
  then obtain lang where r: "r = claimed\<lparr>rm_language := lang\<rparr>" using resolve_language_only_language by blast
  have skip: "at_most_one is_message (about_current env claimed) body_failed (finish_claim env r c StatusSkipped now)"
    by (intro at_most_one_quiet quiet_intros)
  have send: "at_most_one is_message (about_current env claimed) body_failed
      (case x of (b, current) \<Rightarrow> if \<not> current then finish_claim env r c StatusSkipped now
        else case re_senders env (rm_provider r) of
          None \<Rightarrow> fail (errors_new (''deliver reminder: no sender configured for '' @ rm_provider r))
        | Some sender \<Rightarrow> attempt (perform env (reminder_effect env sender r b)) (wrap_error ''deliver reminder: send'')
            (\<lambda>_. record_sent env r c b now))"
    if supported: "supports_reminder env (rm_provider r) (rm_language r)"
      and current: "current_booking env r w1 = (Inr x, w2)" for x w1 w2
  proof (cases x)
    case (Pair b ok)
    show ?thesis
    proof (cases "ok \<and> re_senders env (rm_provider r) \<noteq> None")
      case True
      then obtain sender where sender: "re_senders env (rm_provider r) = Some sender" by auto
      have "about_current env claimed (reminder_effect env sender r b)"
        using current_booking_True [of env r w1 b w2] current True Pair sender supported
        by (auto simp: about_current_def r)
      then have "at_most_one is_message (about_current env claimed) body_failed
          (attempt (perform env (reminder_effect env sender r b)) (wrap_error ''deliver reminder: send'')
            (\<lambda>_. record_sent env r c b now))"
        by (intro at_most_one_send quiet_intros) (simp_all add: record_sent_ok body_failed_def)
      with True Pair sender show ?thesis by simp
    next
      case False
      with Pair skip show ?thesis by (cases ok) (auto intro!: at_most_one_quiet quiet_intros)
    qed
  qed
  show "at_most_one is_message (about_current env claimed) body_failed
     (if \<not> supports_reminder env (rm_provider r) (rm_language r) then finish_claim env r c StatusSkipped now
      else attempt (has_consent env r) id (\<lambda>consent.
        if \<not> consent then finish_claim env r c StatusSkipped now
        else attempt (current_booking env r) (wrap_error ''deliver reminder: read booking'') (\<lambda>(b, current).
          if \<not> current then finish_claim env r c StatusSkipped now
          else case re_senders env (rm_provider r) of
            None \<Rightarrow> fail (errors_new (''deliver reminder: no sender configured for '' @ rm_provider r))
          | Some sender \<Rightarrow> attempt (perform env (reminder_effect env sender r b)) (wrap_error ''deliver reminder: send'')
              (\<lambda>_. record_sent env r c b now))))"
    using skip send by (auto intro!: at_most_one_attempt quiet_intros)
qed

text \<open>The whole delivery: whatever fails, one attempt at most, and an error exactly when it failed.\<close>

definition unit_failed :: "unit result \<Rightarrow> bool" where
  "unit_failed r \<longleftrightarrow> r \<noteq> Inr ()"

lemma deliver_claimed_once:
  "at_most_one is_message (about_current env claimed) unit_failed (deliver_claimed env claimed c now)"
proof (unfold at_most_one_def, intro allI)
  fix w
  obtain res w1 where body: "deliver_body env claimed c now w = (res, w1)" by force
  obtain r2 w2 where out: "deliver_claimed env claimed c now w = (r2, w2)" by force
  have "logged is_message w2 = logged is_message w1 \<and> (unit_failed r2 \<longleftrightarrow> body_failed res)"
  proof (cases res)
    case (Inl e)
    obtain r3 w3 where rel: "store env (release_reminder (rm_id claimed) c) w1 = (r3, w3)" by force
    from out body Inl rel have "r2 = Inl e" "w2 = w3" by (simp_all add: deliver_claimed_def proc_simps)
    with quietD [OF quiet_store rel] Inl show ?thesis by (simp add: unit_failed_def body_failed_def)
  next
    case (Inr x)
    with out body show ?thesis
      by (cases x) (auto simp: deliver_claimed_def proc_simps unit_failed_def body_failed_def)
  qed
  with at_most_oneD [OF deliver_body_once body]
  show "logged is_message (snd (deliver_claimed env claimed c now w)) = logged is_message w \<or>
      (\<exists>eff x. logged is_message (snd (deliver_claimed env claimed c now w)) = logged is_message w @ [(eff, x)] \<and>
        about_current env claimed eff \<and> (unit_failed (fst (deliver_claimed env claimed c now w)) \<longleftrightarrow> x \<noteq> None))"
    by (simp add: out)
qed

text \<open>Which reminder a delivery talks about: the stored one, when it was due.\<close>

lemma about_current_claim:
  "about_current env (r\<lparr>rm_status := st, rm_claim_id := c, rm_claim_expires := u\<rparr>) = about_current env r"
  by (simp add: about_current_def reminder_effect_def reminder_message_def Let_def fun_eq_iff cong: reminder_sender.case_cong)

lemma store_Inr:
  "store env m w = (Inr x, w') \<Longrightarrow> fst (m (w_db w)) = Inr x \<and> w_db w' = snd (m (w_db w))"
  by (simp add: store_def split: fault.splits) (auto simp: tick_def)

lemma find_reminder_Inr: "fst (find_reminder rid db) = Inr r \<Longrightarrow> get_row (db_reminders db) rid = Some r"
  by (simp add: find_reminder_def split: option.splits)

lemma claim_reminder_owned:
  "fst (claim_reminder rid c t u db) = Inr (x, True) \<Longrightarrow>
     \<exists>r. get_row (db_reminders db) rid = Some r \<and>
       x = r\<lparr>rm_status := StatusDelivering, rm_claim_id := c, rm_claim_expires := u\<rparr>"
  by (auto simp: claim_reminder_def Let_def split: option.splits if_splits)

lemma find_reminder_db: "snd (find_reminder rid db) = db"
  by (simp add: find_reminder_def split: option.split)

lemma quiet_unchanged: "quiet K m \<Longrightarrow> m w = (r, w') \<Longrightarrow> logged K w' \<noteq> logged K w \<Longrightarrow> Q"
  using quietD by blast

lemma deliver_reminder_message:
  assumes inv: "reminders_inv (w_db w)" and run: "deliver_reminder env rid w = (res, w')"
    and sent: "logged is_message w' \<noteq> logged is_message w"
  shows "\<exists>r n eff x. get_row (db_reminders (w_db w)) rid = Some r \<and> \<not> reminder_terminal r \<and>
     rm_due_at r \<le> e_now env n \<and> about_current env r eff \<and>
     logged is_message w' = logged is_message w @ [(eff, x)] \<and> (res \<noteq> Inr () \<longleftrightarrow> x \<noteq> None)"
proof -
  obtain f w1 where found: "store env (find_reminder rid) w = (f, w1)" by force
  note log1 = quietD [OF quiet_store found, where K = is_message]
  obtain r where f: "f = Inr r"
    using run sent found log1 by (cases f) (auto simp: deliver_reminder_def attempt_apply)
  have row: "get_row (db_reminders (w_db w)) rid = Some r" and db1: "w_db w1 = w_db w"
    using store_Inr [OF found [unfolded f]] by (auto simp: find_reminder_db dest: find_reminder_Inr)
  have rid: "rm_id r = rid" using inv row by (auto simp: reminders_inv_def dest: table_allD)
  have step1: "deliver_reminder env rid w =
      (if reminder_terminal r then ret () else attempt (clock env) id (\<lambda>now.
        if after (rm_due_at r) now then schedule_wake env r now
        else attempt (fresh env) id (\<lambda>claim_id.
          attempt (store env (claim_reminder (rm_id r) claim_id now (now + claim_duration)))
            (wrap_error ''deliver reminder: claim'') (\<lambda>(x, owned).
            if \<not> owned then (if reminder_terminal x then ret () else fail (sentinel_error DeliveryBusy))
            else deliver_claimed env x claim_id now)))) w1"
    by (simp add: deliver_reminder_def attempt_apply found f)
  define now where "now = e_now env (w_tick w1)"
  define c where "c = e_fresh env (w_tick (tick w1))"
  have read_clock: "clock env w1 = (Inr now, tick w1)" by (simp add: clock_apply now_def)
  have new_claim: "fresh env (tick w1) = (Inr c, tick (tick w1))" by (simp add: fresh_apply c_def)
  have live: "\<not> reminder_terminal r"
    using sent run log1 by (auto simp: step1 ret_def)
  have due: "\<not> after (rm_due_at r) now"
  proof
    assume "after (rm_due_at r) now"
    with run live have "schedule_wake env r now (tick w1) = (res, w')"
      by (simp add: step1 attempt_apply clock_apply now_def)
    from quietD [OF quiet_schedule_wake this] sent log1 show False by simp
  qed
  have step2: "deliver_reminder env rid w = attempt (store env (claim_reminder rid c now (now + claim_duration)))
      (wrap_error ''deliver reminder: claim'') (\<lambda>(x, owned).
        if \<not> owned then (if reminder_terminal x then ret () else fail (sentinel_error DeliveryBusy))
        else deliver_claimed env x c now) (tick (tick w1))"
    using live due by (simp add: step1 attempt_apply read_clock new_claim rid)
  obtain g w2 where claim: "store env (claim_reminder rid c now (now + claim_duration)) (tick (tick w1)) = (g, w2)"
    by force
  note log2 = quietD [OF quiet_store claim, where K = is_message]
  obtain x where g: "g = Inr (x, True)"
    using run sent log1 log2 claim
    by (cases g) (auto simp: step2 attempt_apply ret_def fail_def split: if_splits)
  have x: "x = r\<lparr>rm_status := StatusDelivering, rm_claim_id := c, rm_claim_expires := now + claim_duration\<rparr>"
    using store_Inr [OF claim [unfolded g]] row db1 by (auto dest: claim_reminder_owned)
  have "deliver_claimed env x c now w2 = (res, w')"
    using run claim g by (simp add: step2 attempt_apply)
  from at_most_oneD [OF deliver_claimed_once this] sent log1 log2
  obtain eff y where "logged is_message w' = logged is_message w @ [(eff, y)]" "about_current env x eff"
      "unit_failed res \<longleftrightarrow> y \<noteq> None" by auto
  with row live due show ?thesis
    by (auto simp: x about_current_claim unit_failed_def now_def time_defs not_less)
qed

section \<open>Failures leave the reminder claimable\<close>

text \<open>On the in-process store, a delivery that fails after it took the claim gives it back.\<close>

lemma observe_store_reliable:
  "reliable env \<Longrightarrow> observe (store env m) k w = k (fst (m (w_db w))) (tick (w\<lparr>w_db := snd (m (w_db w))\<rparr>))"
  by (simp add: observe_apply reliable_store)

lemma release_reminder_holder:
  "reminder_holder (snd (release_reminder rid c db)) rid \<noteq> Some (c, u)"
  by (auto simp: release_reminder_def reminder_holder_def Let_def split: option.split)

lemma deliver_claimed_failure_released:
  assumes "reliable env" "deliver_body env claimed c now w = (Inl e, w1)"
    "deliver_claimed env claimed c now w = (res, w')"
  shows "res = Inl e \<and> (\<forall>u. reminder_holder (w_db w') (rm_id claimed) \<noteq> Some (c, u))"
  using assms release_reminder_holder
  by (auto simp: deliver_claimed_def observe_apply reliable_store fail_def)

lemma terminal_delivery_is_idle:
  assumes "reliable env" "get_row (db_reminders (w_db w)) rid = Some r" "reminder_terminal r"
  shows "deliver_reminder env rid w = (Inr (), tick w)"
  using assms by (simp add: deliver_reminder_def attempt_apply reliable_store find_reminder_def ret_def)

end
