(* ===== verification/NotificationRows.thy ===== *)
theory NotificationRows
  imports World
begin

text \<open>
  The transactions of the notification service (\<open>internal/application/notifications\<close>): each
  definition is the body of one callback the service passes to the repository, as a function on
  the rows it locks. The sequential service composes them with the store; the interleaved model of
  concurrent workers takes the same definitions as its atomic steps. Clock readings inside one
  callback are one instant. \<open>Key\<close> hashes an id with SHA-256, written in hexadecimal: the parameter
  \<open>sha\<close>.
\<close>

definition notification_key :: "(string \<Rightarrow> string) \<Rightarrow> string \<Rightarrow> string \<Rightarrow> string" where
  "notification_key sha kind i = kind @ ''_'' @ sha i"

abbreviation row_of :: "entry table \<Rightarrow> string \<Rightarrow> entry" where
  "row_of \<equiv> row_or zero_entry"

text \<open>A callback on one row, as a callback on the locked rows.\<close>

definition on_row :: "string \<Rightarrow> (entry \<Rightarrow> ('a \<times> entry) result) \<Rightarrow> entry table \<Rightarrow> ('a \<times> entry table) result" where
  "on_row key fn rs = (case fn (row_of rs key) of Inl e \<Rightarrow> Inl e | Inr (x, r) \<Rightarrow> Inr (x, put_row key r rs))"

section \<open>The life of an event\<close>

definition ingest_event :: "event \<Rightarrow> entry \<Rightarrow> (unit \<times> entry) result" where
  "ingest_event e row =
     Inr ((), if ne_kind row = [] then zero_entry\<lparr>ne_kind := ''event'', ne_state := ''pending'', ne_event := e,
       ne_updated_at := ev_received_at e\<rparr> else row)"

definition idle_event :: "entry \<Rightarrow> bool" where
  "idle_event row \<longleftrightarrow> ne_kind row \<noteq> ''event'' \<or> ne_state row = ''done''"

definition lease_row :: "string \<Rightarrow> time \<Rightarrow> entry \<Rightarrow> (entry \<times> entry) result" where
  "lease_row owner now stored =
     (if idle_event stored then Inr (stored, stored)
      else if after (ne_lease_until stored) now then Inl (sentinel_error NotificationBusy)
      else let stored = stored\<lparr>ne_lease_owner := owner, ne_lease_until := now + 2 * minute\<rparr> in Inr (stored, stored))"

definition unlease_row :: "string \<Rightarrow> entry \<Rightarrow> (unit \<times> entry) result" where
  "unlease_row owner row =
     Inr ((), if ne_lease_owner row = owner then row\<lparr>ne_lease_until := zero_time\<rparr> else row)"

text \<open>The time from which native bookings of this kind carry their own permission.\<close>

definition native_request_since :: "time \<Rightarrow> time \<Rightarrow> snapshot \<Rightarrow> time" where
  "native_request_since booking_since manual_since snap =
     (if has_prefix (sp_api_id snap) ''omnichannel-'' \<or> has_prefix (sp_api_id snap) ''emotion-web-'' then zero_time
      else if sp_online snap then booking_since else manual_since)"

definition native_permission ::
  "(string \<Rightarrow> string option) \<Rightarrow> time \<Rightarrow> string \<Rightarrow> snapshot \<Rightarrow> entry \<Rightarrow> contact" where
  "native_permission lib since event_status snap rec =
     (if ne_kind rec = [] \<and> event_status = ''create'' \<and> \<not> is_zero since \<and>
         \<not> before (bk_created_at (sp_booking snap)) since
      then (case normalize_phone lib (sp_phone snap) of
          Inl _ \<Rightarrow> ne_contact rec
        | Inr phone \<Rightarrow> zero_contact\<lparr>ct_phone := phone, ct_requested_at := bk_created_at (sp_booking snap)\<rparr>)
      else ne_contact rec)"

definition notice_purpose :: "snapshot \<Rightarrow> entry \<Rightarrow> purpose" where
  "notice_purpose snap rec =
     (if bk_status (sp_booking snap) = StatusCancelled then BookingCancelled
      else if ne_kind rec = [] then BookingCreated else BookingChanged)"

definition updated_record :: "contact \<Rightarrow> time \<Rightarrow> snapshot \<Rightarrow> string \<Rightarrow> string \<Rightarrow> entry \<Rightarrow> entry" where
  "updated_record permission now snap fp new_calendar_id rec =
     (let fresh_id = ne_calendar_id rec = [] \<or> ne_calendar_phone rec \<noteq> sp_phone snap in
      zero_entry\<lparr>ne_kind := ''record'', ne_fingerprint := fp, ne_changed_at := sp_changed_at snap,
        ne_updated_at := now, ne_contact := permission,
        ne_calendar_id := (if fresh_id then new_calendar_id else ne_calendar_id rec),
        ne_calendar_phone := sp_phone snap,
        ne_management_token := (if fresh_id then [] else ne_management_token rec),
        ne_management_phone := (if fresh_id then [] else ne_management_phone rec),
        ne_confirmation_channel := ne_confirmation_channel rec\<rparr>)"

text \<open>
  Preparing a notice: duplicates and stale reads of the record end the event, and so do bookings
  the assistant confirmed itself, bookings older than the integration, and visits in the past.
\<close>

definition prepare_rows ::
  "(string \<Rightarrow> string option) \<Rightarrow> time \<Rightarrow> time \<Rightarrow> string \<Rightarrow> string \<Rightarrow> string \<Rightarrow> time \<Rightarrow> string \<Rightarrow> snapshot \<Rightarrow> string \<Rightarrow> bool \<Rightarrow> string \<Rightarrow>
   entry table \<Rightarrow> (entry \<times> entry table) result" where
  "prepare_rows lib since activated_at key record_key owner now event_status snap fp owned new_calendar_id rs =
     (let event = row_of rs key; rec = row_of rs record_key; b = sp_booking snap; first = ne_kind rec = [] in
      if ne_lease_owner event \<noteq> owner then Inl (sentinel_error NotificationBusy)
      else if ne_fingerprint rec = fp \<or> (\<not> is_zero (ne_changed_at rec) \<and> before (sp_changed_at snap) (ne_changed_at rec))
      then let event = event\<lparr>ne_state := ''done'', ne_outcome := ''duplicate_or_stale''\<rparr>
        in Inr (event, put_row key event rs)
      else
        let permission = native_permission lib since event_status snap rec;
            event = event\<lparr>ne_notice := \<lparr>nt_id = ev_id (ne_event event), nt_snapshot = snap,
                nt_purpose = notice_purpose snap rec, nt_fingerprint = fp\<rparr>,
              ne_state := ''prepared'', ne_updated_at := now\<rparr>;
            event = (if owned \<or> (first \<and> (is_zero (bk_created_at b) \<or> before (bk_created_at b) activated_at)) \<or>
                (bk_status b \<noteq> StatusCancelled \<and> \<not> after (bk_starts_at b) now)
              then event\<lparr>ne_state := ''done'', ne_outcome := ''existing_or_assistant_booking''\<rparr> else event)
        in Inr (event, put_row key event
             (put_row record_key (updated_record permission now snap fp new_calendar_id rec) rs)))"

section \<open>One attempt to send\<close>

text \<open>What the transaction before a send tells the worker.\<close>

record intent =
  it_send :: bool
  it_already_rejected :: bool
  it_prior_outcome :: string

definition send_intent :: "time \<Rightarrow> string \<Rightarrow> entry \<Rightarrow> (intent \<times> entry) result" where
  "send_intent now route delivery =
     (let idle = \<lparr>it_send = False, it_already_rejected = False, it_prior_outcome = ne_outcome delivery\<rparr> in
      if ne_state delivery = ''sending'' \<or> ne_state delivery = ''done'' then Inr (idle, delivery)
      else if route \<in> set (ne_attempted delivery) then Inr (idle\<lparr>it_already_rejected := True\<rparr>, delivery)
      else Inr (idle\<lparr>it_send := True\<rparr>,
        delivery\<lparr>ne_kind := ''delivery'', ne_state := ''sending'', ne_outcome := ''uncertain_'' @ route,
          ne_updated_at := now, ne_attempted := ne_attempted delivery @ [route]\<rparr>))"

definition send_outcome :: "string \<Rightarrow> bool \<Rightarrow> bool \<Rightarrow> string" where
  "send_outcome route failed rejected =
     (if failed then (if rejected then ''rejected_'' else ''uncertain_'') else ''accepted_'') @ route"

definition record_outcome :: "string \<Rightarrow> bool \<Rightarrow> bool \<Rightarrow> entry \<Rightarrow> (unit \<times> entry) result" where
  "record_outcome route failed rejected row =
     Inr ((), row\<lparr>ne_state := (if failed \<and> rejected then ''retryable_rejection'' else ''done''),
       ne_outcome := send_outcome route failed rejected\<rparr>)"

definition confirm_channel :: "string \<Rightarrow> channel \<Rightarrow> entry \<Rightarrow> (unit \<times> entry) result" where
  "confirm_channel phone c row =
     Inr ((), if ne_calendar_phone row = phone then row\<lparr>ne_confirmation_channel := c\<rparr> else row)"

definition repair_permission :: "string \<Rightarrow> time \<Rightarrow> entry \<Rightarrow> (entry \<times> entry) result" where
  "repair_permission phone requested_at row =
     (let row = (if ne_calendar_phone row = phone \<and> is_zero (ct_requested_at (ne_contact row))
        then row\<lparr>ne_contact := zero_contact\<lparr>ct_phone := phone, ct_requested_at := requested_at\<rparr>\<rparr> else row)
      in Inr (row, row))"

section \<open>Receipts\<close>

text \<open>A confirmed failure of the WhatsApp message makes the notice deliverable on another route.\<close>

definition fallback_due :: "entry \<Rightarrow> entry \<Rightarrow> bool" where
  "fallback_due event delivery =
     (if ne_provider_state delivery \<noteq> ''failed'' \<or>
         (ne_outcome delivery \<noteq> ''accepted_whatsapp'' \<and> ne_outcome delivery \<noteq> ''uncertain_whatsapp'') then False
      else if ne_state event \<noteq> ''done'' \<and> ne_state event \<noteq> ''prepared'' then False
      else if ne_state event = ''done'' \<and> ne_outcome event \<noteq> ''accepted_whatsapp'' \<and>
         ne_outcome event \<noteq> ''uncertain_whatsapp'' then False
      else True)"

definition prepare_whatsapp_fallback :: "time \<Rightarrow> entry \<times> entry \<Rightarrow> entry \<times> entry" where
  "prepare_whatsapp_fallback now = (\<lambda>(event, delivery).
     if \<not> fallback_due event delivery then (event, delivery)
     else (event\<lparr>ne_state := ''prepared'', ne_outcome := [], ne_updated_at := now\<rparr>,
           delivery\<lparr>ne_state := ''retryable_rejection'', ne_outcome := ''rejected_whatsapp'', ne_updated_at := now\<rparr>))"

definition put_pair :: "string \<Rightarrow> string \<Rightarrow> entry \<times> entry \<Rightarrow> entry table \<Rightarrow> entry table" where
  "put_pair key delivery_key = (\<lambda>(event, delivery) rs. put_row delivery_key delivery (put_row key event rs))"

definition finish_rows ::
  "string \<Rightarrow> string \<Rightarrow> string \<Rightarrow> time \<Rightarrow> string option \<Rightarrow> entry table \<Rightarrow> (unit \<times> entry table) result" where
  "finish_rows key owner outcome now delivery_key rs =
     (let row = row_of rs key in
      if ne_lease_owner row \<noteq> owner then Inl (sentinel_error NotificationBusy)
      else let row = row\<lparr>ne_state := ''done'', ne_outcome := outcome, ne_updated_at := now\<rparr> in
        Inr ((), case delivery_key of None \<Rightarrow> put_row key row rs
          | Some dk \<Rightarrow> put_pair key dk (prepare_whatsapp_fallback now (row, row_of rs dk)) rs))"

definition resume_rows :: "string \<Rightarrow> string \<Rightarrow> time \<Rightarrow> entry table \<Rightarrow> (unit \<times> entry table) result" where
  "resume_rows key delivery_key now rs =
     (let event = row_of rs key; delivery = row_of rs delivery_key in
      if after (ne_lease_until event) now
      then (if ne_provider_state delivery = ''failed'' \<and>
              (ne_outcome delivery = ''accepted_whatsapp'' \<or> ne_outcome delivery = ''uncertain_whatsapp'')
            then Inl (sentinel_error NotificationBusy) else Inr ((), rs))
      else Inr ((), put_pair key delivery_key (prepare_whatsapp_fallback now (event, delivery)) rs))"

text \<open>
  A receipt is ignored when WhatsApp was not tried, when it is older than the state on record, and
  a delivery receipt takes back a failure that no other route has used yet.
\<close>

definition receipt_ignored :: "string \<Rightarrow> entry \<Rightarrow> bool" where
  "receipt_ignored receipt row \<longleftrightarrow>
     WhatsApp \<notin> set (ne_attempted row) \<or>
     ne_provider_state row = ''read'' \<or> (ne_provider_state row = ''delivered'' \<and> receipt \<noteq> ''read'') \<or>
     (ne_provider_state row = ''failed'' \<and> receipt = ''sent'')"

definition receipt_supersedes :: "string \<Rightarrow> entry \<Rightarrow> bool" where
  "receipt_supersedes receipt row \<longleftrightarrow>
     (receipt = ''delivered'' \<or> receipt = ''read'') \<and> ne_state row = ''retryable_rejection'' \<and>
     ne_outcome row = ''rejected_whatsapp''"

definition observe_receipt :: "time \<Rightarrow> string \<Rightarrow> entry \<Rightarrow> entry" where
  "observe_receipt now receipt row = row\<lparr>ne_provider_state := receipt, ne_updated_at := now\<rparr>"

definition take_back :: "time \<Rightarrow> entry \<times> entry \<Rightarrow> entry \<times> entry" where
  "take_back now = (\<lambda>(event, row).
     (if ne_state event = ''prepared''
      then event\<lparr>ne_state := ''done'', ne_outcome := ''accepted_whatsapp'', ne_updated_at := now\<rparr> else event,
      row\<lparr>ne_state := ''done'', ne_outcome := ''accepted_whatsapp''\<rparr>))"

definition whatsapp_receipt :: "time \<Rightarrow> string \<Rightarrow> entry \<times> entry \<Rightarrow> bool \<times> entry \<times> entry" where
  "whatsapp_receipt now receipt = (\<lambda>(event, row).
     if receipt_ignored receipt row then (False, event, row)
     else if receipt = ''failed'' then (True, prepare_whatsapp_fallback now (event, observe_receipt now receipt row))
     else if receipt_supersedes receipt row then (False, take_back now (event, observe_receipt now receipt row))
     else (False, event, observe_receipt now receipt row))"

definition whatsapp_status_rows ::
  "string \<Rightarrow> string \<Rightarrow> time \<Rightarrow> string \<Rightarrow> entry table \<Rightarrow> (bool \<times> entry table) result" where
  "whatsapp_status_rows key delivery_key now receipt rs =
     (case whatsapp_receipt now receipt (row_of rs key, row_of rs delivery_key) of
        (failed, pair) \<Rightarrow> Inr (failed, put_pair key delivery_key pair rs))"

section \<open>Contacts and permissions\<close>

definition contact_lifetime :: duration where "contact_lifetime = 180 * 24 * hour"

definition allow_phone_rows :: "string \<Rightarrow> string \<Rightarrow> string \<Rightarrow> string \<Rightarrow> time \<Rightarrow> entry table \<Rightarrow> (unit \<times> entry table) result" where
  "allow_phone_rows booking_key telegram_key phone lang now rs =
     (let permission = zero_entry\<lparr>ne_kind := ''staff_permission'', ne_contact := zero_contact\<lparr>ct_phone := phone,
            ct_language := lang, ct_requested_at := now, ct_expires_at := now + contact_lifetime\<rparr>\<rparr>;
          rs = put_row booking_key permission rs;
          tg = row_of rs telegram_key
      in Inr ((), put_row telegram_key (tg\<lparr>ne_contact := ne_contact tg\<lparr>ct_blocked := False\<rparr>\<rparr>) rs))"

definition block_row :: "string \<Rightarrow> time \<Rightarrow> entry \<Rightarrow> entry" where
  "block_row phone now row =
     row\<lparr>ne_kind := ''contact'', ne_contact := ne_contact row\<lparr>ct_phone := phone, ct_blocked := True,
       ct_expires_at := zero_time\<rparr>, ne_updated_at := now\<rparr>"

definition block_phone_rows :: "string list \<Rightarrow> string \<Rightarrow> time \<Rightarrow> entry table \<Rightarrow> (unit \<times> entry table) result" where
  "block_phone_rows keys phone now rs =
     Inr ((), fold (\<lambda>k rs. put_row k (block_row phone now (row_of rs k)) rs) keys rs)"

definition request_contact_row :: "string \<Rightarrow> string \<Rightarrow> time \<Rightarrow> entry \<Rightarrow> (unit \<times> entry) result" where
  "request_contact_row chat lang now row =
     Inr ((), row\<lparr>ne_kind := ''contact'', ne_contact := ne_contact row\<lparr>ct_chat := chat, ct_language := lang,
       ct_requested_at := now\<rparr>\<rparr>)"

definition link_telegram_rows ::
  "string \<Rightarrow> string \<Rightarrow> string option \<Rightarrow> string \<Rightarrow> string \<Rightarrow> string \<Rightarrow> time \<Rightarrow> entry table \<Rightarrow> (unit \<times> entry table) result" where
  "link_telegram_rows chat_key phone_key old_phone_key chat phone old_phone now rs =
     (let own = ne_contact (row_of rs chat_key); by_phone = ne_contact (row_of rs phone_key) in
      if ct_phone own \<noteq> old_phone then Inl (errors_new ''contact changed; request linking again'')
      else if ct_phone own = phone \<and> after (ct_expires_at own) now \<and> ct_chat by_phone = chat then Inr ((), rs)
      else if is_zero (ct_requested_at own) \<or> time_sub now (ct_requested_at own) > 10 * minute
      then Inl (errors_new ''contact request expired; use /notifications'')
      else if ct_chat by_phone \<noteq> [] \<and> ct_chat by_phone \<noteq> chat \<and> after (ct_expires_at by_phone) now
      then Inl (errors_new ''this phone is already linked; please contact the studio'')
      else
        let rs = (case old_phone_key of None \<Rightarrow> rs
              | Some k \<Rightarrow> if ct_chat (ne_contact (row_of rs k)) = chat then put_row k zero_entry rs else rs);
            own = row_of rs chat_key;
            own = own\<lparr>ne_contact := ne_contact own\<lparr>ct_phone := phone, ct_channel := Telegram,
              ct_expires_at := now + contact_lifetime, ct_blocked := False, ct_requested_at := zero_time\<rparr>\<rparr>
        in Inr ((), put_row phone_key own (put_row chat_key own rs)))"

definition withdraw :: "entry \<Rightarrow> entry" where
  "withdraw row = row\<lparr>ne_contact := ne_contact row\<lparr>ct_expires_at := zero_time, ct_blocked := True\<rparr>\<rparr>"

definition unlink_telegram_rows ::
  "string \<Rightarrow> string \<Rightarrow> string \<Rightarrow> string \<Rightarrow> entry table \<Rightarrow> (unit \<times> entry table) result" where
  "unlink_telegram_rows chat_key phone_key chat old_phone rs =
     (if ct_phone (ne_contact (row_of rs chat_key)) \<noteq> old_phone
      then Inl (errors_new ''contact changed; try again'')
      else
        let rs = put_row chat_key (withdraw (row_of rs chat_key)) rs
        in Inr ((), if ct_chat (ne_contact (row_of rs phone_key)) = chat
             then put_row phone_key (withdraw (row_of rs phone_key)) rs else rs))"

definition link_whatsapp_row :: "string \<Rightarrow> string \<Rightarrow> bool \<Rightarrow> time \<Rightarrow> entry \<Rightarrow> (unit \<times> entry) result" where
  "link_whatsapp_row phone lang enabled now row =
     Inr ((), zero_entry\<lparr>ne_kind := ''contact'', ne_contact :=
       (if \<not> enabled then zero_contact\<lparr>ct_phone := phone, ct_channel := WhatsApp, ct_blocked := True\<rparr>
        else zero_contact\<lparr>ct_phone := phone, ct_channel := WhatsApp, ct_language := lang,
          ct_expires_at := now + contact_lifetime\<rparr>)\<rparr>)"

definition language_row :: "string \<Rightarrow> bool \<Rightarrow> time \<Rightarrow> entry \<Rightarrow> (string \<times> entry) result" where
  "language_row hint explicit now row =
     (let stored = ct_language (ne_contact row) in
      if hint \<noteq> [] \<and> (explicit \<or> stored = [])
      then Inr (hint, row\<lparr>ne_kind := ''language'', ne_contact := ne_contact row\<lparr>ct_language := hint\<rparr>,
        ne_updated_at := now, ne_state := (if explicit then ''explicit'' else ''inferred'')\<rparr>)
      else Inr (if stored \<noteq> [] then stored else ''ru'', row))"

section \<open>SMS observations\<close>

definition awaiting_sms :: "entry \<Rightarrow> bool" where
  "awaiting_sms row \<longleftrightarrow> ne_kind row = ''event'' \<and> ne_state row = ''done'' \<and>
     (ne_outcome row = ''accepted_sms'' \<or> ne_outcome row = ''uncertain_sms'' \<or> ne_outcome row = ''sms_alert_retryable'')"

definition sms_failure_outcome :: "string \<Rightarrow> string" where
  "sms_failure_outcome provider_state =
     (if provider_state = ''sms_cancelled'' then ''cancelled_sms'' else ''failed_sms'')"

datatype sms_claim = SmsIdle | SmsAlert string | SmsRead notice

definition sms_claim_row :: "bool \<Rightarrow> string \<Rightarrow> time \<Rightarrow> entry \<Rightarrow> (sms_claim \<times> entry) result" where
  "sms_claim_row can_alert owner now row =
     (if \<not> awaiting_sms row \<or> after (ne_lease_until row) now \<or> after (ne_next_lookup_at row) now
      then Inr (SmsIdle, row)
      else
        let row = row\<lparr>ne_lease_owner := owner, ne_lease_until := now + minute, ne_updated_at := now,
              ne_next_lookup_at := now + 5 * minute\<rparr> in
        if ne_outcome row = ''sms_alert_retryable''
        then (if \<not> can_alert then Inr (SmsIdle, row\<lparr>ne_lease_owner := [], ne_lease_until := zero_time\<rparr>)
              else Inr (SmsAlert (ev_record_id (ne_event row)),
                row\<lparr>ne_outcome := sms_failure_outcome (ne_provider_state row), ne_sms_failure_alerted_at := now,
                  ne_lease_owner := [], ne_lease_until := zero_time\<rparr>))
        else Inr (SmsRead (ne_notice row), row))"

definition sms_expired :: "time \<Rightarrow> entry \<Rightarrow> bool" where
  "sms_expired now row \<longleftrightarrow> \<not> is_zero (ev_received_at (ne_event row)) \<and>
     \<not> before now (ev_received_at (ne_event row) + 24 * hour)"

definition sms_status_row ::
  "bool \<Rightarrow> string \<Rightarrow> time \<Rightarrow> string result \<Rightarrow> entry \<Rightarrow> (string option \<times> entry) result" where
  "sms_status_row can_alert owner now reading row =
     (if ne_lease_owner row \<noteq> owner \<or> \<not> awaiting_sms row then Inr (None, row)
      else
        let row = row\<lparr>ne_lease_owner := [], ne_lease_until := zero_time\<rparr>; expired = sms_expired now row in
        case reading of
          Inl _ \<Rightarrow> Inr (None, if expired then row\<lparr>ne_outcome := ''unconfirmed_sms''\<rparr> else row)
        | Inr st \<Rightarrow>
          if st \<in> {''Pending'', ''Processed'', ''Sent'', ''Cancelling'', ''Delivered''}
          then let row = row\<lparr>ne_provider_state := ''sms_'' @ ascii_lower st\<rparr> in
            Inr (None, if expired then row\<lparr>ne_outcome := (if st = ''Delivered'' then ''delivered_sms'' else ''unconfirmed_sms'')\<rparr> else row)
          else if st = ''Failed'' \<or> st = ''Cancelled''
          then let row = row\<lparr>ne_provider_state := ''sms_'' @ ascii_lower st,
                ne_outcome := (if st = ''Cancelled'' then ''cancelled_sms'' else ''failed_sms'')\<rparr> in
            if is_zero (ne_sms_failure_alerted_at row) \<and> can_alert
            then Inr (Some (ev_record_id (ne_event row)), row\<lparr>ne_sms_failure_alerted_at := now\<rparr>)
            else Inr (None, row)
          else Inl (errors_new ''unrecognized SMS delivery state''))"

definition sms_alert_rejected_row :: "time \<Rightarrow> entry \<Rightarrow> (unit \<times> entry) result" where
  "sms_alert_rejected_row reserved_at row =
     Inr ((), if ne_sms_failure_alerted_at row \<noteq> reserved_at \<or>
         (ne_outcome row \<noteq> ''failed_sms'' \<and> ne_outcome row \<noteq> ''cancelled_sms'')
       then row else row\<lparr>ne_outcome := ''sms_alert_retryable'', ne_sms_failure_alerted_at := zero_time\<rparr>)"

section \<open>Recovery, reminders and echoes\<close>

definition unrouted_row :: "time \<Rightarrow> entry \<Rightarrow> (bool \<times> entry) result" where
  "unrouted_row now r =
     (if ne_state r = ''done'' \<and> ne_outcome r = ''no_linked_messenger'' \<and> ne_attempted r = [] \<and>
         \<not> after (ne_lease_until r) now
      then Inr (True, r\<lparr>ne_state := ''prepared'', ne_outcome := []\<rparr>) else Inr (False, r))"

definition web_reminder_row :: "string \<Rightarrow> string \<Rightarrow> snapshot \<Rightarrow> string \<Rightarrow> time \<Rightarrow> entry \<Rightarrow> (unit \<times> entry) result" where
  "web_reminder_row i record_id snap fp now row =
     Inr ((), if ne_kind row = []
       then zero_entry\<lparr>ne_kind := ''event'', ne_state := ''prepared'',
         ne_event := \<lparr>ev_id = i, ev_record_id = record_id, ev_status = ''reminder'', ev_received_at = now\<rparr>,
         ne_notice := \<lparr>nt_id = i, nt_snapshot = snap, nt_purpose = BookingReminder, nt_fingerprint = fp\<rparr>,
         ne_updated_at := now\<rparr>
       else row)"

definition direct_send_row :: "time \<Rightarrow> entry \<Rightarrow> (unit \<times> entry) result" where
  "direct_send_row now row =
     Inr ((), zero_entry\<lparr>ne_kind := ''direct_outbound'', ne_state := ''done'', ne_updated_at := now,
       ne_contact := zero_contact\<lparr>ct_expires_at := now + 7 * 24 * hour\<rparr>\<rparr>)"

section \<open>Channel health\<close>

definition health_claim_row :: "string \<Rightarrow> time \<Rightarrow> entry \<Rightarrow> (bool \<times> entry) result" where
  "health_claim_row owner now row =
     (if ne_operator_paused row \<or> after (ne_lease_until row) now \<or> after (ne_next_lookup_at row) now
      then Inr (False, row)
      else Inr (True, row\<lparr>ne_kind := ''channel_health'', ne_lease_owner := owner, ne_lease_until := now + minute\<rparr>))"

text \<open>The fingerprint compares the flags and the sorted list of templates that are paused.\<close>

definition health_fingerprint :: "channel_health \<Rightarrow> bool \<times> bool \<times> string list" where
  "health_fingerprint h = (hl_blocked h, hl_proactive_paused h,
     sort (map fst (filter (\<lambda>(k, approved). \<not> approved) (hl_templates h))))"

definition restricted_health :: "channel_health \<Rightarrow> bool" where
  "restricted_health h \<longleftrightarrow> hl_blocked h \<or> hl_proactive_paused h \<or> list_ex Not (rows (hl_templates h))"

definition health_probe_row ::
  "string \<Rightarrow> time \<Rightarrow> channel_health result \<Rightarrow> entry \<Rightarrow> (channel_health option \<times> entry) result" where
  "health_probe_row owner now probe row =
     (if ne_lease_owner row \<noteq> owner then Inr (None, row)
      else
        let row = row\<lparr>ne_lease_owner := [], ne_lease_until := zero_time\<rparr> in
        if ne_operator_paused row then Inr (None, row)
        else let row = row\<lparr>ne_next_lookup_at := now + 5 * minute\<rparr> in
          case probe of Inl _ \<Rightarrow> Inr (None, row)
          | Inr health \<Rightarrow>
            if \<not> hl_known health then Inr (None, row)
            else let previous = ne_health row;
                health = (if \<not> hl_templates_known health
                  then health\<lparr>hl_templates := hl_templates previous, hl_templates_known := hl_templates_known previous\<rparr>
                  else health)\<lparr>hl_checked_at := now\<rparr>;
                alert = health_fingerprint previous \<noteq> health_fingerprint health \<and>
                  (hl_known previous \<or> restricted_health health)
              in Inr (if alert then Some health else None, row\<lparr>ne_health := health, ne_updated_at := now\<rparr>))"

definition health_block_row :: "time \<Rightarrow> entry \<Rightarrow> (unit \<times> entry) result" where
  "health_block_row now row =
     Inr ((), row\<lparr>ne_kind := ''channel_health'', ne_lease_owner := [], ne_lease_until := zero_time,
       ne_health := ne_health row\<lparr>hl_known := True, hl_blocked := True, hl_checked_at := now\<rparr>,
       ne_updated_at := now, ne_next_lookup_at := now + minute\<rparr>)"

end
