(* ===== verification/DeliveryRace.thy ===== *)
theory DeliveryRace
  imports NotificationRows
begin

text \<open>
  Workers delivering one notice at the same time. The atomic steps are the transactions of
  \<open>NotificationRows\<close>, so any interleaving of deliveries, receipts and recoveries is a run of this
  relation. \<open>ra_sends\<close> lists the routes handed to a provider, \<open>ra_open\<close> those whose outcome is not
  recorded yet, \<open>ra_dead\<close> the routes for which there is proof of non-delivery: a definite rejection
  or a failure receipt.
\<close>

record race =
  ra_event :: entry
  ra_delivery :: entry
  ra_sends :: "string list"
  ra_open :: "string list"
  ra_dead :: "string list"

definition set_pair :: "entry \<times> entry \<Rightarrow> race \<Rightarrow> race" where
  "set_pair = (\<lambda>(event, delivery) s. s\<lparr>ra_event := event, ra_delivery := delivery\<rparr>)"

inductive race_step :: "race \<Rightarrow> race \<Rightarrow> bool" where
  send: "send_intent now route (ra_delivery s) = Inr (it, d) \<Longrightarrow>
     race_step s (if it_send it
       then s\<lparr>ra_delivery := d, ra_sends := ra_sends s @ [route], ra_open := route # ra_open s\<rparr>
       else s\<lparr>ra_delivery := d\<rparr>)"
| outcome: "route \<in> set (ra_open s) \<Longrightarrow> record_outcome route failed rejected (ra_delivery s) = Inr ((), d) \<Longrightarrow>
     race_step s (s\<lparr>ra_delivery := d, ra_open := remove1 route (ra_open s),
       ra_dead := (if failed \<and> rejected then route # ra_dead s else ra_dead s)\<rparr>)"
| receipt: "whatsapp_receipt now receipt (ra_event s, ra_delivery s) = (failed, pair) \<Longrightarrow>
     race_step s (set_pair pair (if failed then s\<lparr>ra_dead := WhatsApp # ra_dead s\<rparr> else s))"
| resume: "race_step s (set_pair (prepare_whatsapp_fallback now (ra_event s, ra_delivery s)) s)"
| finish: "race_step s (set_pair (prepare_whatsapp_fallback now
       ((ra_event s)\<lparr>ne_state := ''done'', ne_outcome := out, ne_updated_at := now\<rparr>, ra_delivery s)) s)"

inductive_cases race_stepE: "race_step s t"

text \<open>A step is prompt unless it records the outcome of a route after another one has been tried.\<close>

definition prompt_step :: "race \<Rightarrow> race \<Rightarrow> bool" where
  "prompt_step s t \<longleftrightarrow> race_step s t \<and>
     (length (ra_open t) < length (ra_open s) \<longrightarrow> ra_open t = remove1 (last (ra_sends s)) (ra_open s))"

definition race_start :: "entry \<Rightarrow> race" where
  "race_start event = \<lparr>ra_event = event, ra_delivery = zero_entry, ra_sends = [], ra_open = [], ra_dead = []\<rparr>"

inductive race_run :: "(race \<Rightarrow> race \<Rightarrow> bool) \<Rightarrow> race \<Rightarrow> race \<Rightarrow> bool" for R where
  start: "race_run R s s"
| step: "race_run R s t \<Longrightarrow> R t u \<Longrightarrow> race_run R s u"

section \<open>Every route is tried once\<close>

lemma fallback_attempted [simp]:
  "ne_attempted (snd (prepare_whatsapp_fallback now (e, d))) = ne_attempted d"
  by (simp add: prepare_whatsapp_fallback_def)

lemma observe_receipt_fields [simp]:
  "ne_attempted (observe_receipt now r d) = ne_attempted d" "ne_state (observe_receipt now r d) = ne_state d"
  "ne_outcome (observe_receipt now r d) = ne_outcome d" "ne_provider_state (observe_receipt now r d) = r"
  by (simp_all add: observe_receipt_def)

lemma take_back_fields [simp]:
  "ne_attempted (snd (take_back now (e, d))) = ne_attempted d" "ne_state (snd (take_back now (e, d))) = ''done''"
  "ne_outcome (snd (take_back now (e, d))) = ''accepted_whatsapp''"
  "ne_provider_state (snd (take_back now (e, d))) = ne_provider_state d"
  by (simp_all add: take_back_def)

lemma receipt_cases:
  assumes "whatsapp_receipt now r (e, d) = (failed, pair)"
  obtains (ignored) "\<not> failed" "pair = (e, d)"
  | (failed) failed "r = ''failed''" "pair = prepare_whatsapp_fallback now (e, observe_receipt now r d)"
  | (superseded) "\<not> failed" "r \<noteq> ''failed''" "receipt_supersedes r d" "pair = take_back now (e, observe_receipt now r d)"
  | (noted) "\<not> failed" "r \<noteq> ''failed''" "pair = (e, observe_receipt now r d)"
  using assms unfolding whatsapp_receipt_def prod.case by (simp split: if_split_asm)

lemma receipt_attempted:
  assumes "whatsapp_receipt now r (e, d) = (failed, pair)"
  shows "ne_attempted (snd pair) = ne_attempted d"
  using assms by (rule receipt_cases) simp_all

definition routes_once :: "race \<Rightarrow> bool" where
  "routes_once s \<longleftrightarrow> ne_attempted (ra_delivery s) = ra_sends s \<and> distinct (ra_sends s)"

lemma set_pair_fields [simp]:
  "ra_sends (set_pair p s) = ra_sends s" "ra_delivery (set_pair p s) = snd p" "ra_event (set_pair p s) = fst p"
  "ra_open (set_pair p s) = ra_open s" "ra_dead (set_pair p s) = ra_dead s"
  by (simp_all add: set_pair_def split_def)

lemma send_intent_cases:
  assumes "send_intent now route d = Inr (it, d')"
  shows "(\<not> it_send it \<and> d' = d) \<or>
     (it_send it \<and> ne_state d \<noteq> ''sending'' \<and> ne_state d \<noteq> ''done'' \<and> route \<notin> set (ne_attempted d) \<and>
      d' = d\<lparr>ne_kind := ''delivery'', ne_state := ''sending'', ne_outcome := ''uncertain_'' @ route,
          ne_updated_at := now, ne_attempted := ne_attempted d @ [route]\<rparr>)"
  using assms by (auto simp: send_intent_def Let_def split: if_splits)

lemma race_step_routes_once: "race_step s t \<Longrightarrow> routes_once s \<Longrightarrow> routes_once t"
proof (induction rule: race_step.induct)
  case (send now route s it d)
  from send_intent_cases [OF send.hyps] send.prems show ?case by (auto simp: routes_once_def)
next
  case (receipt now receipt s failed pair)
  from receipt_attempted [OF receipt.hyps] receipt.prems show ?case
    by (simp add: routes_once_def)
qed (auto simp: routes_once_def record_outcome_def)

lemma race_run_routes_once: "race_run race_step s t \<Longrightarrow> routes_once s \<Longrightarrow> routes_once t"
  by (induction rule: race_run.induct) (auto intro: race_step_routes_once)

lemma race_start_routes_once: "routes_once (race_start event)"
  by (simp add: routes_once_def race_start_def)

section \<open>One live notice\<close>

text \<open>
  The outcome of the delivery row names the last route tried, and a row that allows another
  attempt has proof that every earlier attempt reached nobody.
\<close>

definition outcome_of :: "string \<Rightarrow> string \<Rightarrow> bool" where
  "outcome_of route out \<longleftrightarrow> out \<in> {''accepted_'' @ route, ''uncertain_'' @ route, ''rejected_'' @ route}"

definition row_tells :: "race \<Rightarrow> bool" where
  "row_tells s \<longleftrightarrow>
     ne_state (ra_delivery s) \<in> {''sending'', ''done'', ''retryable_rejection''} \<and>
     outcome_of (last (ra_sends s)) (ne_outcome (ra_delivery s)) \<and>
     set (butlast (ra_sends s)) \<subseteq> set (ra_dead s) \<and>
     (ne_state (ra_delivery s) = ''retryable_rejection'' \<longrightarrow> set (ra_sends s) \<subseteq> set (ra_dead s))"

definition one_live :: "race \<Rightarrow> bool" where
  "one_live s \<longleftrightarrow>
     routes_once s \<and> set (ra_open s) \<subseteq> set (ra_sends s) \<and>
     (ne_provider_state (ra_delivery s) = ''failed'' \<longrightarrow> WhatsApp \<in> set (ra_dead s)) \<and>
     (ra_sends s = [] \<longrightarrow> ne_outcome (ra_delivery s) = []) \<and>
     (ra_sends s \<noteq> [] \<longrightarrow> row_tells s)"

lemma outcome_of_whatsapp:
  "outcome_of route ''accepted_whatsapp'' \<longleftrightarrow> route = WhatsApp"
  "outcome_of route ''uncertain_whatsapp'' \<longleftrightarrow> route = WhatsApp"
  "outcome_of route ''rejected_whatsapp'' \<longleftrightarrow> route = WhatsApp"
  by (auto simp: outcome_of_def)

lemma set_last_dead:
  "xs \<noteq> [] \<Longrightarrow> set (butlast xs) \<subseteq> D \<Longrightarrow> last xs \<in> D \<Longrightarrow> set xs \<subseteq> D"
  by (metis append_butlast_last_id insert_subset list.simps(15) set_append Un_subset_iff set_ConsD
      empty_set subset_insertI empty_subsetI)

lemma one_liveD:
  assumes "one_live s"
  shows "routes_once s" "set (ra_open s) \<subseteq> set (ra_sends s)"
    "ne_provider_state (ra_delivery s) = ''failed'' \<Longrightarrow> WhatsApp \<in> set (ra_dead s)"
    "ra_sends s = [] \<Longrightarrow> ne_outcome (ra_delivery s) = []" "ra_sends s \<noteq> [] \<Longrightarrow> row_tells s"
  using assms unfolding one_live_def by blast+

lemma row_tellsD:
  assumes "row_tells s"
  shows "ne_state (ra_delivery s) \<in> {''sending'', ''done'', ''retryable_rejection''}"
    "outcome_of (last (ra_sends s)) (ne_outcome (ra_delivery s))"
    "set (butlast (ra_sends s)) \<subseteq> set (ra_dead s)"
    "ne_state (ra_delivery s) = ''retryable_rejection'' \<Longrightarrow> set (ra_sends s) \<subseteq> set (ra_dead s)"
  using assms unfolding row_tells_def by blast+

lemma one_live_whatsapp:
  assumes "one_live s" "ne_outcome (ra_delivery s) = out"
    "out = ''accepted_whatsapp'' \<or> out = ''uncertain_whatsapp'' \<or> out = ''rejected_whatsapp''"
  shows "ra_sends s \<noteq> []" "last (ra_sends s) = WhatsApp"
proof -
  from assms(3) have "out \<noteq> []" by (elim disjE) simp_all
  with one_liveD(4) [OF assms(1)] assms(2) show some: "ra_sends s \<noteq> []" by metis
  from row_tellsD(2) [OF one_liveD(5) [OF assms(1) some]] assms(2)
  have "outcome_of (last (ra_sends s)) out" by simp
  with assms(3) show "last (ra_sends s) = WhatsApp"
    by (elim disjE) (simp_all only: outcome_of_whatsapp)
qed

text \<open>The effect of the fallback on the delivery row.\<close>

definition fallback_row :: "time \<Rightarrow> entry \<Rightarrow> entry" where
  "fallback_row now d = d\<lparr>ne_state := ''retryable_rejection'', ne_outcome := ''rejected_whatsapp'', ne_updated_at := now\<rparr>"

lemma fallback_row_fields [simp]:
  "ne_state (fallback_row now d) = ''retryable_rejection''" "ne_outcome (fallback_row now d) = ''rejected_whatsapp''"
  "ne_attempted (fallback_row now d) = ne_attempted d" "ne_provider_state (fallback_row now d) = ne_provider_state d"
  by (simp_all add: fallback_row_def)

lemma fallback_cases:
  obtains (kept) "snd (prepare_whatsapp_fallback now (e, d)) = d"
  | (reopened) "ne_provider_state d = ''failed''" "ne_outcome d = ''accepted_whatsapp'' \<or> ne_outcome d = ''uncertain_whatsapp''"
      "snd (prepare_whatsapp_fallback now (e, d)) = fallback_row now d"
proof (cases "fallback_due e d")
  case True
  then have "ne_provider_state d = ''failed''" "ne_outcome d = ''accepted_whatsapp'' \<or> ne_outcome d = ''uncertain_whatsapp''"
    unfolding fallback_due_def by (metis (full_types))+
  with True that(2) show ?thesis by (simp add: prepare_whatsapp_fallback_def fallback_row_def)
qed (simp add: prepare_whatsapp_fallback_def that(1))

lemma one_live_fallback:
  assumes live: "one_live s"
  shows "one_live (set_pair (prepare_whatsapp_fallback now (e, ra_delivery s)) s)"
proof (cases rule: fallback_cases [of now e "ra_delivery s"])
  case kept
  with live show ?thesis by (simp add: one_live_def routes_once_def row_tells_def)
next
  case reopened
  from reopened(2) one_live_whatsapp [OF live refl]
  have some: "ra_sends s \<noteq> []" and last: "last (ra_sends s) = WhatsApp" by blast+
  have dead: "set (ra_sends s) \<subseteq> set (ra_dead s)"
    by (rule set_last_dead [OF some row_tellsD(3) [OF one_liveD(5) [OF live some]]])
      (simp only: last one_liveD(3) [OF live reopened(1)])
  have tells: "row_tells (set_pair (prepare_whatsapp_fallback now (e, ra_delivery s)) s)"
  proof -
    have "set (butlast (ra_sends s)) \<subseteq> set (ra_dead s)" using dead by (blast dest: in_set_butlastD)
    moreover have "outcome_of (last (ra_sends s)) ''rejected_whatsapp''" unfolding last by (simp only: outcome_of_whatsapp)
    ultimately show ?thesis
      using dead by (simp only: row_tells_def set_pair_fields reopened(3) fallback_row_fields) blast
  qed
  have "routes_once (set_pair (prepare_whatsapp_fallback now (e, ra_delivery s)) s)"
    using one_liveD(1) [OF live] by (simp only: routes_once_def set_pair_fields reopened(3) fallback_row_fields)
  with one_liveD(2,3) [OF live] some tells reopened(1) show ?thesis
    unfolding one_live_def by (simp only: set_pair_fields reopened(3) fallback_row_fields) blast
qed

lemma one_live_provider_state:
  "one_live s \<Longrightarrow> r \<noteq> ''failed'' \<or> WhatsApp \<in> set (ra_dead s) \<Longrightarrow>
   one_live (s\<lparr>ra_delivery := observe_receipt now r (ra_delivery s)\<rparr>)"
  by (auto simp: one_live_def routes_once_def row_tells_def)

lemma one_live_dead: "one_live s \<Longrightarrow> one_live (s\<lparr>ra_dead := c # ra_dead s\<rparr>)"
  by (auto simp: one_live_def routes_once_def row_tells_def)

lemma one_live_event: "one_live s \<Longrightarrow> one_live (s\<lparr>ra_event := e\<rparr>)"
  by (simp add: one_live_def routes_once_def row_tells_def)

lemma one_live_receipt:
  assumes live: "one_live s" and rec: "whatsapp_receipt now r (ra_event s, ra_delivery s) = (failed, pair)"
  shows "one_live (set_pair pair (if failed then s\<lparr>ra_dead := WhatsApp # ra_dead s\<rparr> else s))"
  using rec
proof (cases rule: receipt_cases)
  case ignored
  with live show ?thesis by (simp add: set_pair_def)
next
  case failed
  let ?s = "s\<lparr>ra_dead := WhatsApp # ra_dead s, ra_delivery := observe_receipt now r (ra_delivery s)\<rparr>"
  have "one_live ?s"
    using one_live_provider_state [OF one_live_dead [OF live, of WhatsApp], of r now] by simp
  from one_live_fallback [OF this, of now "ra_event s"] failed show ?thesis
    by (simp add: set_pair_def split_def)
next
  case superseded
  then have "ne_outcome (ra_delivery s) = ''rejected_whatsapp''" by (simp add: receipt_supersedes_def)
  note wa = one_live_whatsapp [OF live this disjI2 [OF disjI2 [OF refl]]]
  have row: "ne_state (snd pair) = ''done''" "ne_outcome (snd pair) = ''accepted_whatsapp''"
      "ne_attempted (snd pair) = ne_attempted (ra_delivery s)" "ne_provider_state (snd pair) = r"
    by (simp_all only: superseded(4) take_back_fields observe_receipt_fields)
  have "outcome_of (last (ra_sends s)) ''accepted_whatsapp''" unfolding wa(2) by (simp only: outcome_of_whatsapp)
  then have "row_tells (set_pair pair s)"
    using row_tellsD(3) [OF one_liveD(5) [OF live wa(1)]]
    unfolding row_tells_def set_pair_fields row by simp
  moreover have "routes_once (set_pair pair s)"
    using one_liveD(1) [OF live] by (simp only: routes_once_def set_pair_fields row)
  ultimately have "one_live (set_pair pair s)"
    using one_liveD(2) [OF live] wa(1) superseded(2) unfolding one_live_def set_pair_fields row by blast
  with superseded(1) show ?thesis by simp
next
  case noted
  with one_live_event [OF one_live_provider_state [OF live, of r now], of "ra_event s"] show ?thesis
    by (simp add: set_pair_def)
qed

lemma one_live_send:
  assumes live: "one_live s" and sent: "send_intent now route (ra_delivery s) = Inr (it, d)" "it_send it"
  shows "one_live (s\<lparr>ra_delivery := d, ra_sends := ra_sends s @ [route], ra_open := route # ra_open s\<rparr>)"
proof -
  from send_intent_cases [OF sent(1)] sent(2) have free: "ne_state (ra_delivery s) \<noteq> ''sending''"
      "ne_state (ra_delivery s) \<noteq> ''done''" "route \<notin> set (ne_attempted (ra_delivery s))"
    and d: "ne_state d = ''sending''" "ne_outcome d = ''uncertain_'' @ route"
      "ne_attempted d = ne_attempted (ra_delivery s) @ [route]" "ne_provider_state d = ne_provider_state (ra_delivery s)"
    by auto
  have dead: "set (ra_sends s) \<subseteq> set (ra_dead s)"
  proof (cases "ra_sends s = []")
    case False
    note tells = one_liveD(5) [OF live False]
    from row_tellsD(1) [OF tells] free have "ne_state (ra_delivery s) = ''retryable_rejection''" by blast
    then show ?thesis by (rule row_tellsD(4) [OF tells])
  qed simp
  from one_liveD(1,2,3) [OF live] free(3) dead d show ?thesis
    unfolding one_live_def row_tells_def routes_once_def outcome_of_def by auto
qed

lemma one_live_outcome:
  assumes live: "one_live s" and open_route: "route \<in> set (ra_open s)" and last: "last (ra_sends s) = route"
    and d: "record_outcome route failed rejected (ra_delivery s) = Inr ((), d)"
  shows "one_live (s\<lparr>ra_delivery := d, ra_open := remove1 route (ra_open s),
       ra_dead := (if failed \<and> rejected then route # ra_dead s else ra_dead s)\<rparr>)"
proof -
  from open_route one_liveD(2) [OF live] have some: "ra_sends s \<noteq> []" by auto
  from d have fields: "ne_state d = (if failed \<and> rejected then ''retryable_rejection'' else ''done'')"
      "ne_outcome d = send_outcome route failed rejected" "ne_attempted d = ne_attempted (ra_delivery s)"
      "ne_provider_state d = ne_provider_state (ra_delivery s)" by (auto simp: record_outcome_def)
  have tells: "outcome_of route (send_outcome route failed rejected)" by (auto simp: outcome_of_def send_outcome_def)
  have before: "set (butlast (ra_sends s)) \<subseteq> set (ra_dead s)" by (rule row_tellsD(3) [OF one_liveD(5) [OF live some]])
  have all: "set (ra_sends s) \<subseteq> set (route # ra_dead s)"
    by (rule set_last_dead [OF some]) (use before last in auto)
  from one_liveD(1,2,3) [OF live] some before all tells set_remove1_subset [of route "ra_open s"] show ?thesis
    unfolding one_live_def row_tells_def routes_once_def by (auto simp: fields last)
qed

lemma remove1_eq_member:
  assumes "x \<in> set xs" "remove1 x xs = remove1 y xs"
  shows "x = y"
proof (rule ccontr)
  assume "x \<noteq> y"
  from assms(2) have "count (mset xs - {#x#}) x = count (mset xs - {#y#}) x" by (metis mset_remove1)
  moreover from assms(1) have "0 < count (mset xs) x" by (simp only: count_greater_zero_iff set_mset_mset)
  ultimately show False using \<open>x \<noteq> y\<close> by (simp del: count_greater_zero_iff)
qed

lemma prompt_step_one_live:
  assumes "prompt_step s t" "one_live s"
  shows "one_live t"
proof -
  from assms(1) have step: "race_step s t"
    and prompt: "length (ra_open t) < length (ra_open s) \<Longrightarrow> ra_open t = remove1 (last (ra_sends s)) (ra_open s)"
    by (simp_all add: prompt_step_def)
  from step show ?thesis
  proof (cases rule: race_step.cases)
    case (send now route it d)
    show ?thesis
    proof (cases "it_send it")
      case True
      with send one_live_send [OF assms(2) send(2)] show ?thesis by simp
    next
      case False
      with send_intent_cases [OF send(2)] send assms(2) show ?thesis by auto
    qed
  next
    case (outcome route failed rejected d)
    from outcome(1,2) have shorter: "length (ra_open t) < length (ra_open s)" and "ra_open t = remove1 route (ra_open s)"
      using length_pos_if_in_set [OF outcome(2)] by (simp_all add: length_remove1)
    with prompt [OF shorter] remove1_eq_member [OF outcome(2)] have "last (ra_sends s) = route" by simp
    from one_live_outcome [OF assms(2) outcome(2) this outcome(3)] outcome(1) show ?thesis by simp
  next
    case (receipt now receipt failed pair)
    from one_live_receipt [OF assms(2) receipt(2)] receipt(1) show ?thesis by simp
  next
    case (resume now)
    from one_live_fallback [OF assms(2), of now "ra_event s"] resume show ?thesis by simp
  next
    case (finish now out)
    from one_live_fallback [OF assms(2)] finish show ?thesis by simp
  qed
qed

lemma race_run_one_live: "race_run prompt_step s t \<Longrightarrow> one_live s \<Longrightarrow> one_live t"
  by (induction rule: race_run.induct) (auto intro: prompt_step_one_live)

lemma race_start_one_live: "one_live (race_start event)"
  by (simp add: one_live_def routes_once_def race_start_def zero_entry_def)

lemma one_live_sends: "one_live s \<Longrightarrow> set (butlast (ra_sends s)) \<subseteq> set (ra_dead s)"
  by (cases "ra_sends s = []") (auto dest: one_liveD(5) row_tellsD(3))

section \<open>A late outcome\<close>

text \<open>
  The transaction that records an outcome does not check that its route is still the last one
  tried. A worker whose send outlived its lease can therefore overwrite the row of the next worker,
  and the failure receipt of its own message then opens a third route while the second is live.
\<close>

definition late_event :: entry where
  "late_event = zero_entry\<lparr>ne_kind := ''event'', ne_state := ''prepared''\<rparr>"

definition after_send :: "time \<Rightarrow> string \<Rightarrow> race \<Rightarrow> race" where
  "after_send now route s =
     (case send_intent now route (ra_delivery s) of
        Inl e \<Rightarrow> s
      | Inr (it, d) \<Rightarrow> if it_send it
          then s\<lparr>ra_delivery := d, ra_sends := ra_sends s @ [route], ra_open := route # ra_open s\<rparr>
          else s\<lparr>ra_delivery := d\<rparr>)"

definition after_outcome :: "string \<Rightarrow> bool \<Rightarrow> bool \<Rightarrow> race \<Rightarrow> race" where
  "after_outcome route failed rejected s =
     (case record_outcome route failed rejected (ra_delivery s) of
        Inl e \<Rightarrow> s
      | Inr (u, d) \<Rightarrow> s\<lparr>ra_delivery := d, ra_open := remove1 route (ra_open s),
          ra_dead := (if failed \<and> rejected then route # ra_dead s else ra_dead s)\<rparr>)"

definition after_receipt :: "time \<Rightarrow> string \<Rightarrow> race \<Rightarrow> race" where
  "after_receipt now r s =
     (case whatsapp_receipt now r (ra_event s, ra_delivery s) of
        (failed, pair) \<Rightarrow> set_pair pair (if failed then s\<lparr>ra_dead := WhatsApp # ra_dead s\<rparr> else s))"

definition after_resume :: "time \<Rightarrow> race \<Rightarrow> race" where
  "after_resume now s = set_pair (prepare_whatsapp_fallback now (ra_event s, ra_delivery s)) s"

lemma send_intent_Inr: "\<exists>it d. send_intent now route delivery = Inr (it, d)"
  by (simp add: send_intent_def Let_def)

lemma after_steps:
  "race_step s (after_send now route s)"
  "route \<in> set (ra_open s) \<Longrightarrow> race_step s (after_outcome route failed rejected s)"
  "race_step s (after_receipt now r s)"
  "race_step s (after_resume now s)"
proof -
  obtain it d where *: "send_intent now route (ra_delivery s) = Inr (it, d)" using send_intent_Inr by blast
  from race_step.send [OF this] show "race_step s (after_send now route s)" by (simp add: after_send_def *)
  show "race_step s (after_outcome route failed rejected s)" if "route \<in> set (ra_open s)"
    using race_step.outcome [OF that, of failed rejected] by (simp add: after_outcome_def record_outcome_def)
  obtain f p where *: "whatsapp_receipt now r (ra_event s, ra_delivery s) = (f, p)" by (rule prod.exhaust)
  from race_step.receipt [OF this] show "race_step s (after_receipt now r s)" by (simp add: after_receipt_def *)
  show "race_step s (after_resume now s)" unfolding after_resume_def by (rule race_step.resume)
qed

definition late_run :: race where
  "late_run =
     after_send 9 SMS (after_resume 8 (after_outcome WhatsApp False False
       (after_send 5 Telegram (after_receipt 3 ''failed'' (after_send 1 WhatsApp (race_start late_event))))))"

lemma late_run_result: "ra_sends late_run = [WhatsApp, Telegram, SMS] \<and> ra_dead late_run = [WhatsApp]"
  by code_simp

lemma late_run_open:
  "WhatsApp \<in> set (ra_open (after_send 5 Telegram (after_receipt 3 ''failed'' (after_send 1 WhatsApp (race_start late_event)))))"
  by code_simp

lemma late_run_reachable: "race_run race_step (race_start late_event) late_run"
  unfolding late_run_def
  by (rule race_run.start race_run.step after_steps late_run_open)+

end
