(* ===== verification/Notifications.thy ===== *)
theory Notifications
  imports NotificationRows Reminders
begin

text \<open>
  The notification service (\<open>internal/application/notifications\<close>) over the store: native booking
  events are ingested, delivered along the routing plan, and followed by receipts. The reader of
  Altegio records, the sender's rejection flag, the SMS status reader and the channel health probe
  answer by the tick of the call. The JSON text of a fingerprint is the parameter \<open>nv_json\<close>, the
  rendering of an instant \<open>nv_render\<close>, a name-based UUID \<open>nv_uuid\<close>.

  The rest of the notification service: linking and withdrawing contacts, language preferences,
  WhatsApp receipts, SMS observation and its staff alert, web reminders, recovery of the durable
  backlog, and the echoes of direct sends.
\<close>

record notify_env = env +
  nv_lib :: "string \<Rightarrow> string option"
  nv_sha :: "string \<Rightarrow> string"
  nv_json :: "string \<Rightarrow> string \<Rightarrow> status \<Rightarrow> string list \<Rightarrow> time \<Rightarrow> duration \<Rightarrow> string"
  nv_render :: "time \<Rightarrow> string"
  nv_uuid :: "string \<Rightarrow> string"
  nv_is_uuid :: "string \<Rightarrow> bool"
  nv_reader :: "nat \<Rightarrow> string \<Rightarrow> snapshot result"
  nv_rejected :: "nat \<Rightarrow> bool"
  nv_activated_at :: time
  nv_templates :: "string table"
  nv_telegram_account :: bool
  nv_booking_since :: time
  nv_native_language :: string
  nv_sms_ready :: bool
  nv_sms_since :: time
  nv_manual_since :: time
  nv_sms_status :: "(nat \<Rightarrow> notice \<Rightarrow> string result) option"
  nv_sms_alert :: bool
  nv_health :: bool
  nv_health_provider :: provider
  nv_health_read :: "nat \<Rightarrow> channel_health result"
  nv_health_alert :: bool
  nv_unrouted :: "(db, entry list) proc option"
  nv_cancelled :: "nat \<Rightarrow> go_error option"

section \<open>Keys and small steps\<close>

definition key_of :: "'e notify_env_scheme \<Rightarrow> string \<Rightarrow> string \<Rightarrow> string" where
  "key_of env = notification_key (nv_sha env)"

definition transact ::
  "'e notify_env_scheme \<Rightarrow> string list \<Rightarrow> (entry table \<Rightarrow> ('a \<times> entry table) result) \<Rightarrow> (world, 'a) proc" where
  "transact env keys fn = store env (transact_notifications keys fn)"

definition transact_row :: "'e notify_env_scheme \<Rightarrow> string \<Rightarrow> (entry \<Rightarrow> ('a \<times> entry) result) \<Rightarrow> (world, 'a) proc" where
  "transact_row env key fn = transact env [key] (on_row key fn)"

definition get_entry :: "'e notify_env_scheme \<Rightarrow> string \<Rightarrow> (world, entry) proc" where
  "get_entry env key = store env (get_notification key)"

definition fingerprint :: "'e notify_env_scheme \<Rightarrow> snapshot \<Rightarrow> string" where
  "fingerprint env snap =
     (let b = sp_booking snap;
          phone = (case normalize_phone (nv_lib env) (sp_phone snap) of Inl _ \<Rightarrow> sp_phone snap | Inr p \<Rightarrow> p)
      in key_of env ''version''
        (nv_json env phone (bk_staff_id b) (bk_status b) (bk_service_ids b) (bk_starts_at b) (bk_duration b)))"

definition schedule_notification :: "'e notify_env_scheme \<Rightarrow> string \<Rightarrow> string \<Rightarrow> (world, unit) proc" where
  "schedule_notification env i attempt_name =
     attempt (clock env) id (\<lambda>now.
       perform env (ScheduleNotification (key_of env ''native'' (i @ '':'' @ attempt_name)) i (now + 2 * second)))"

definition ingest :: "'e notify_env_scheme \<Rightarrow> event \<Rightarrow> (world, unit) proc" where
  "ingest env e =
     attempt (clock env) id (\<lambda>now.
       let e = e\<lparr>ev_received_at := now\<rparr>; key = key_of env ''event'' (ev_id e) in
       attempt (transact_row env key (ingest_event e)) id (\<lambda>_. schedule_notification env (ev_id e) ''initial''))"

definition finish_event ::
  "'e notify_env_scheme \<Rightarrow> string \<Rightarrow> string \<Rightarrow> string \<Rightarrow> string option \<Rightarrow> (world, unit) proc" where
  "finish_event env key owner outcome delivery_key =
     attempt (clock env) id (\<lambda>now.
       transact env (key # (case delivery_key of None \<Rightarrow> [] | Some dk \<Rightarrow> [dk]))
         (finish_rows key owner outcome now delivery_key))"

definition resume_failed_whatsapp :: "'e notify_env_scheme \<Rightarrow> string \<Rightarrow> (world, unit) proc" where
  "resume_failed_whatsapp env i =
     (let key = key_of env ''event'' i in
      attempt (get_entry env key) id (\<lambda>event.
        if ne_kind event \<noteq> ''event'' then ret ()
        else let delivery_key = key_of env ''delivery'' (ev_record_id (ne_event event) @ '':'' @ i) in
          attempt (clock env) id (\<lambda>now. transact env [key, delivery_key] (resume_rows key delivery_key now))))"

section \<open>Delivery: preparing the notice\<close>

text \<open>The value \<open>None\<close> of a stage means the delivery ended there without an error.\<close>

definition stop :: "(world, unit) proc \<Rightarrow> (world, 'a option) proc" where
  "stop m = attempt m id (\<lambda>_. ret None)"

definition native_since :: "'e notify_env_scheme \<Rightarrow> snapshot \<Rightarrow> time" where
  "native_since env = native_request_since (nv_booking_since env) (nv_manual_since env)"

definition prepare_notice ::
  "'e notify_env_scheme \<Rightarrow> string \<Rightarrow> string \<Rightarrow> time \<Rightarrow> entry \<Rightarrow> (world, entry option) proc" where
  "prepare_notice env key owner now row =
     (let record_id = ev_record_id (ne_event row) in
      observe (ask (\<lambda>n. nv_reader env n record_id)) (\<lambda>reading. case reading of
        Inl e \<Rightarrow> if errors_is e BookingNotFound then stop (finish_event env key owner ''record_unavailable'' None) else fail e
      | Inr snap \<Rightarrow>
        observe (store env (find_booking record_id)) (\<lambda>found.
          let owned = (\<not> isl found \<or> has_prefix (sp_api_id snap) ''omnichannel-'');
              stored_error = (case found of Inl e \<Rightarrow> if errors_is e BookingNotFound then None else Some e | Inr _ \<Rightarrow> None)
          in case stored_error of Some e \<Rightarrow> fail e
          | None \<Rightarrow>
            let record_key = key_of env ''record'' record_id in
            attempt (fresh env) id (\<lambda>calendar_id.
            attempt (transact env [key, record_key]
                (prepare_rows (nv_lib env) (native_since env snap) (nv_activated_at env) key record_key owner now
                  (ev_status (ne_event row)) snap (fingerprint env snap) owned calendar_id)) id (\<lambda>row.
              if ne_state row = ''done'' then ret None else ret (Some row))))))"

text \<open>Reading the record again right before sending.\<close>

definition recheck_notice ::
  "'e notify_env_scheme \<Rightarrow> string \<Rightarrow> string \<Rightarrow> entry \<Rightarrow> (world, (snapshot \<times> string) option) proc" where
  "recheck_notice env key owner row =
     observe (ask (\<lambda>n. nv_reader env n (ev_record_id (ne_event row)))) (\<lambda>reading. case reading of
       Inl e \<Rightarrow> if errors_is e BookingNotFound then stop (finish_event env key owner ''record_unavailable'' None) else fail e
     | Inr latest \<Rightarrow>
       if fingerprint env latest \<noteq> nt_fingerprint (ne_notice row)
       then stop (finish_event env key owner ''superseded'' None)
       else attempt (clock env) id (\<lambda>now1.
         if bk_status (sp_booking latest) \<noteq> StatusCancelled \<and> \<not> after (bk_starts_at (sp_booking latest)) now1
         then stop (finish_event env key owner ''appointment_started'' None)
         else attempt (clock env) id (\<lambda>now2.
           if nt_purpose (ne_notice row) = BookingReminder \<and>
              (time_sub now2 (ev_received_at (ne_event row)) > 15 * minute \<or> bk_status (sp_booking latest) = StatusCancelled)
           then stop (finish_event env key owner ''reminder_expired'' None)
           else case normalize_phone (nv_lib env) (sp_phone latest) of
             Inl _ \<Rightarrow> stop (finish_event env key owner ''no_valid_phone'' None)
           | Inr phone \<Rightarrow> ret (Some (latest, phone)))))"

section \<open>Delivery: routing\<close>

text \<open>The stored contacts a route is computed from.\<close>

record contacts =
  cx_telegram :: entry
  cx_whatsapp :: entry
  cx_policy :: entry
  cx_staff :: entry
  cx_language :: entry
  cx_web :: entry
  cx_record :: entry

definition telegram_language :: "'e notify_env_scheme \<Rightarrow> contacts \<Rightarrow> string" where
  "telegram_language env cx =
     (if ct_language (ne_contact (cx_language cx)) \<noteq> [] then ct_language (ne_contact (cx_language cx))
      else if ct_language (ne_contact (cx_telegram cx)) = []
      then parse_language (if ct_language (ne_contact (cx_staff cx)) \<noteq> []
        then ct_language (ne_contact (cx_staff cx)) else nv_native_language env)
      else parse_language (ct_language (ne_contact (cx_telegram cx))))"

definition whatsapp_language :: "contacts \<Rightarrow> string" where
  "whatsapp_language cx =
     (if ct_language (ne_contact (cx_language cx)) \<noteq> [] then ct_language (ne_contact (cx_language cx))
      else parse_language (ct_language (ne_contact (cx_whatsapp cx))))"

definition native_requested :: "'e notify_env_scheme \<Rightarrow> string \<Rightarrow> snapshot \<Rightarrow> contacts \<Rightarrow> bool" where
  "native_requested env phone latest cx =
     (let since = native_since env latest; c = ne_contact (cx_record cx) in
      \<not> is_zero (ct_requested_at c) \<and> ct_phone c = phone \<and> \<not> is_zero since \<and> \<not> before (ct_requested_at c) since)"

definition web_requested :: "time \<Rightarrow> string \<Rightarrow> snapshot \<Rightarrow> contacts \<Rightarrow> bool" where
  "web_requested now phone latest cx \<longleftrightarrow>
     has_prefix (sp_api_id latest) ''emotion-web-v2-'' \<and> ct_phone (ne_contact (cx_web cx)) = phone \<and>
     after (ct_expires_at (ne_contact (cx_web cx))) now"

definition staff_requested :: "time \<Rightarrow> string \<Rightarrow> contacts \<Rightarrow> bool" where
  "staff_requested now phone cx =
     (let c = ne_contact (cx_staff cx) in ct_phone c = phone \<and> after (ct_expires_at c) now \<and> \<not> ct_blocked c)"

definition updates_requested :: "'e notify_env_scheme \<Rightarrow> time \<Rightarrow> string \<Rightarrow> snapshot \<Rightarrow> contacts \<Rightarrow> bool" where
  "updates_requested env now phone latest cx \<longleftrightarrow>
     native_requested env phone latest cx \<or> web_requested now phone latest cx \<or> staff_requested now phone cx"

definition sms_requested :: "'e notify_env_scheme \<Rightarrow> time \<Rightarrow> string \<Rightarrow> snapshot \<Rightarrow> contacts \<Rightarrow> bool" where
  "sms_requested env now phone latest cx \<longleftrightarrow>
     \<not> ct_blocked (ne_contact (cx_staff cx)) \<and>
     (staff_requested now phone cx \<or> (native_requested env phone latest cx \<and> \<not> sp_online latest) \<or>
      web_requested now phone latest cx \<or>
      (updates_requested env now phone latest cx \<and> \<not> is_zero (nv_sms_since env) \<and>
       \<not> before (ct_requested_at (ne_contact (cx_record cx))) (nv_sms_since env)))"

definition notice_recipient :: "'e notify_env_scheme \<Rightarrow> time \<Rightarrow> string \<Rightarrow> snapshot \<Rightarrow> contacts \<Rightarrow> recipient" where
  "notice_recipient env now phone latest cx =
     (let tg = ne_contact (cx_telegram cx); wa = ne_contact (cx_whatsapp cx);
          linked = after (ct_expires_at tg) now;
          opted_in = \<not> ct_blocked wa \<and> ct_phone wa = phone \<and> after (ct_expires_at wa) now
      in \<lparr>rp_phone = phone, rp_telegram_chat = (if linked then ct_chat tg else []),
          rp_telegram_phone = (if linked then ct_phone tg else []), rp_whatsapp_opted_in = opted_in,
          rp_whatsapp_opt_in_phone = (if opted_in then ct_phone wa else []),
          rp_telegram_opted_out = ct_blocked tg, rp_updates_requested = updates_requested env now phone latest cx\<rparr>)"

definition messenger_order :: "notice \<Rightarrow> contacts \<Rightarrow> channel list" where
  "messenger_order notc cx =
     (if nt_purpose notc = BookingReminder \<and> ne_confirmation_channel (cx_record cx) = WhatsApp then [WhatsApp, Telegram]
      else if ne_order (cx_policy cx) = ''whatsapp'' then [WhatsApp, Telegram] else [Telegram, WhatsApp])"

definition whatsapp_template :: "'e notify_env_scheme \<Rightarrow> notice \<Rightarrow> contacts \<Rightarrow> string" where
  "whatsapp_template env notc cx = row_or [] (nv_templates env) (nt_purpose notc @ '':'' @ whatsapp_language cx)"

definition notice_policy ::
  "'e notify_env_scheme \<Rightarrow> time \<Rightarrow> string \<Rightarrow> snapshot \<Rightarrow> notice \<Rightarrow> contacts \<Rightarrow> bool \<Rightarrow> policy" where
  "notice_policy env now phone latest notc cx whatsapp_ready =
     (let sms_only = (nt_purpose notc = BookingReminder \<and> ne_confirmation_channel (cx_record cx) = SMS) in
      \<lparr>pl_order = messenger_order notc cx,
       pl_enabled = [(Telegram, \<not> sms_only), (WhatsApp, whatsapp_ready \<and> \<not> sms_only),
         (SMS, nv_sms_ready env \<and> sms_requested env now phone latest cx)],
       pl_templates = [(nt_purpose notc, whatsapp_template env notc cx)],
       pl_telegram_account = nv_telegram_account env\<rparr>)"

definition notice_targets ::
  "'e notify_env_scheme \<Rightarrow> time \<Rightarrow> string \<Rightarrow> snapshot \<Rightarrow> notice \<Rightarrow> contacts \<Rightarrow> bool \<Rightarrow> target list result" where
  "notice_targets env now phone latest notc cx whatsapp_ready =
     plan (nv_lib env) (notice_policy env now phone latest notc cx whatsapp_ready)
       (notice_recipient env now phone latest cx) (nt_purpose notc)"

text \<open>Repairing the permission of a manual booking, then the contacts as they were read.\<close>

definition read_contacts ::
  "'e notify_env_scheme \<Rightarrow> string \<Rightarrow> snapshot \<Rightarrow> entry \<Rightarrow> (world, contacts) proc" where
  "read_contacts env phone latest row =
     (let record_key = key_of env ''record'' (ev_record_id (ne_event row)) in
      attempt (get_entry env (key_of env ''telegram_phone'' phone)) id (\<lambda>tg.
      attempt (get_entry env (key_of env ''whatsapp_phone'' phone)) id (\<lambda>wa.
      attempt (get_entry env ''policy'') id (\<lambda>pol.
      attempt (get_entry env (key_of env ''booking_phone'' phone)) id (\<lambda>staffp.
      attempt (get_entry env (key_of env ''language_phone'' phone)) id (\<lambda>lang.
      attempt (get_entry env (key_of env ''web_phone'' phone)) id (\<lambda>web.
      attempt (get_entry env record_key) id (\<lambda>rec.
      attempt
        (let since = native_since env latest; created = bk_created_at (sp_booking latest) in
         if is_zero (ct_requested_at (ne_contact rec)) \<and> ne_calendar_phone rec = phone \<and> \<not> sp_online latest \<and>
            \<not> is_zero created \<and> \<not> is_zero since \<and> \<not> before created since
         then transact_row env record_key (repair_permission phone created) else ret rec) id (\<lambda>rec.
        ret \<lparr>cx_telegram = tg, cx_whatsapp = wa, cx_policy = pol, cx_staff = staffp, cx_language = lang,
          cx_web = web, cx_record = rec\<rparr>)))))))))"

section \<open>Channel health\<close>

definition health_key :: "'e notify_env_scheme \<Rightarrow> string" where
  "health_key env = key_of env ''channel_health''
     (if nv_health_provider env = [] then ProviderWhatsApp else nv_health_provider env)"

definition health_refresh :: "'e notify_env_scheme \<Rightarrow> (world, unit) proc" where
  "health_refresh env =
     attempt (fresh env) id (\<lambda>owner.
     attempt (clock env) id (\<lambda>now.
     attempt (transact_row env (health_key env) (health_claim_row owner now)) id (\<lambda>claimed.
       if \<not> claimed then ret ()
       else observe (ask (nv_health_read env)) (\<lambda>probe.
         attempt (transact_row env (health_key env) (health_probe_row owner now probe)) id (\<lambda>alert.
           attempt (case alert of
               Some health \<Rightarrow> if nv_health_alert env then perform env (AlertHealth health) else ret ()
             | None \<Rightarrow> ret ()) (wrap_error ''notify channel health change'') (\<lambda>_.
             case probe of Inl e \<Rightarrow> fail e | Inr _ \<Rightarrow> ret ()))))))"

definition health_allows_send :: "'e notify_env_scheme \<Rightarrow> string \<Rightarrow> string \<Rightarrow> (world, bool) proc" where
  "health_allows_send env template language =
     attempt (get_entry env (health_key env)) id (\<lambda>row.
       if ne_operator_paused row then ret False
       else attempt (clock env) id (\<lambda>now.
         attempt (if \<not> after (ne_next_lookup_at row) now
             then observe (health_refresh env) (\<lambda>_. get_entry env (health_key env)) else ret row) id (\<lambda>row.
           ret (\<not> ne_operator_paused row \<and> health_allows (ne_health row) template language))))"

definition health_block :: "'e notify_env_scheme \<Rightarrow> (world, unit) proc" where
  "health_block env = attempt (clock env) id (\<lambda>now. transact_row env (health_key env) (health_block_row now))"

section \<open>Delivery: sending\<close>

definition route_of :: "target \<Rightarrow> string" where
  "route_of t = (if tg_studio_account t then ''telegram_account'' else tg_channel t)"

definition send_notification ::
  "'e notify_env_scheme \<Rightarrow> target \<Rightarrow> notice \<Rightarrow> string \<Rightarrow> (world, bool \<times> go_error option) proc" where
  "send_notification env t notc lang w =
     (case perform env (SendNotification t notc lang) w of
        (Inl e, w') \<Rightarrow> (Inr (nv_rejected env (w_tick w), Some e), w')
      | (Inr _, w') \<Rightarrow> (Inr (nv_rejected env (w_tick w), None), w'))"

fun send_targets ::
  "'e notify_env_scheme \<Rightarrow> string \<Rightarrow> string \<Rightarrow> string \<Rightarrow> time \<Rightarrow> entry \<Rightarrow> string \<Rightarrow> contacts \<Rightarrow> target list \<Rightarrow> (world, unit) proc" where
  "send_targets env key delivery_key owner now row phone cx [] = ret ()"
| "send_targets env key delivery_key owner now row phone cx (t # ts) =
     (let route = route_of t; notc = ne_notice row;
          lang = (if tg_channel t = WhatsApp then whatsapp_language cx else telegram_language env cx) in
      attempt (transact_row env delivery_key (send_intent now route)) id (\<lambda>it.
        if \<not> it_send it
        then (if it_already_rejected it \<and> ts \<noteq> [] then send_targets env key delivery_key owner now row phone cx ts
          else finish_event env key owner
            (if it_prior_outcome it = [] then ''already_attempted_or_uncertain'' else it_prior_outcome it) (Some delivery_key))
        else attempt (send_notification env t notc lang) id (\<lambda>(rejected, send_error).
          let failed = send_error \<noteq> None in
          attempt (if nt_purpose notc \<noteq> BookingReminder \<and> (\<not> failed \<or> \<not> rejected)
            then transact_row env (key_of env ''record'' (ev_record_id (ne_event row))) (confirm_channel phone (tg_channel t))
            else ret ()) id (\<lambda>_.
          attempt (transact_row env delivery_key (record_outcome route failed rejected)) id (\<lambda>_.
            if \<not> failed \<or> \<not> rejected \<or> ts = []
            then finish_event env key owner (send_outcome route failed rejected) (Some delivery_key)
            else send_targets env key delivery_key owner now row phone cx ts)))))"

definition deliver_leased ::
  "'e notify_env_scheme \<Rightarrow> string \<Rightarrow> string \<Rightarrow> time \<Rightarrow> entry \<Rightarrow> (world, unit) proc" where
  "deliver_leased env key owner now row =
     attempt (if ne_state row = ''pending'' then prepare_notice env key owner now row else ret (Some row)) id (\<lambda>prepared.
       case prepared of None \<Rightarrow> ret ()
     | Some row \<Rightarrow>
       attempt (recheck_notice env key owner row) id (\<lambda>checked. case checked of None \<Rightarrow> ret ()
       | Some (latest, phone) \<Rightarrow>
         attempt (read_contacts env phone latest row) id (\<lambda>cx.
           let template = whatsapp_template env (ne_notice row) cx in
           attempt (if template \<noteq> [] \<and> nv_health env
               then health_allows_send env template (whatsapp_language cx) else ret (template \<noteq> [])) id (\<lambda>whatsapp_ready.
             case notice_targets env now phone latest (ne_notice row) cx whatsapp_ready of
               Inl e \<Rightarrow> fail e
             | Inr [] \<Rightarrow> finish_event env key owner ''no_linked_messenger'' None
             | Inr targets \<Rightarrow> send_targets env key
                 (key_of env ''delivery'' (ev_record_id (ne_event row) @ '':'' @ ev_id (ne_event row)))
                 owner now row phone cx targets))))"

definition deliver_notification :: "'e notify_env_scheme \<Rightarrow> string \<Rightarrow> (world, unit) proc" where
  "deliver_notification env i =
     attempt (resume_failed_whatsapp env i) id (\<lambda>_.
     let key = key_of env ''event'' i in
     attempt (fresh env) id (\<lambda>owner.
     attempt (clock env) id (\<lambda>now.
     attempt (transact_row env key (lease_row owner now)) id (\<lambda>row.
       if idle_event row then ret ()
       else observe (deliver_leased env key owner now row) (\<lambda>reply.
         observe (transact_row env key (unlease_row owner)) (\<lambda>_.
           case reply of Inl e \<Rightarrow> fail e | Inr _ \<Rightarrow> ret ()))))))"

section \<open>Permissions and contacts\<close>

definition allow_phone :: "'e notify_env_scheme \<Rightarrow> string \<Rightarrow> string \<Rightarrow> (world, unit) proc" where
  "allow_phone env raw lang =
     (case normalize_phone (nv_lib env) raw of Inl e \<Rightarrow> fail e
      | Inr phone \<Rightarrow>
        if lang \<noteq> ''en'' \<and> lang \<noteq> ''ru'' \<and> lang \<noteq> ''hy'' then fail (errors_new ''unsupported notification language'')
        else let bk = key_of env ''booking_phone'' phone; tk = key_of env ''telegram_phone'' phone in
          attempt (clock env) id (\<lambda>now. transact env [bk, tk] (allow_phone_rows bk tk phone lang now)))"

definition withdrawal_keys :: "'e notify_env_scheme \<Rightarrow> string \<Rightarrow> string list" where
  "withdrawal_keys env phone =
     [key_of env ''booking_phone'' phone, key_of env ''telegram_phone'' phone, key_of env ''whatsapp_phone'' phone]"

definition block_phone :: "'e notify_env_scheme \<Rightarrow> string \<Rightarrow> (world, unit) proc" where
  "block_phone env raw =
     (case normalize_phone (nv_lib env) raw of Inl e \<Rightarrow> fail e
      | Inr phone \<Rightarrow> attempt (clock env) id (\<lambda>now.
          transact env (withdrawal_keys env phone) (block_phone_rows (withdrawal_keys env phone) phone now)))"

definition request_contact :: "'e notify_env_scheme \<Rightarrow> string \<Rightarrow> string \<Rightarrow> (world, unit) proc" where
  "request_contact env chat lang =
     attempt (clock env) id (\<lambda>now.
       transact_row env (key_of env ''telegram_chat'' chat) (request_contact_row chat (parse_language lang) now))"

definition link_telegram :: "'e notify_env_scheme \<Rightarrow> string \<Rightarrow> string \<Rightarrow> (world, unit) proc" where
  "link_telegram env chat raw =
     (case normalize_phone (nv_lib env) raw of Inl e \<Rightarrow> fail e
      | Inr phone \<Rightarrow>
        let ck = key_of env ''telegram_chat'' chat; pk = key_of env ''telegram_phone'' phone in
        attempt (get_entry env ck) id (\<lambda>old.
        let old_phone = ct_phone (ne_contact old);
            ok = (if old_phone \<noteq> [] \<and> old_phone \<noteq> phone then Some (key_of env ''telegram_phone'' old_phone) else None)
        in attempt (clock env) id (\<lambda>now.
          transact env ([ck, pk] @ (case ok of None \<Rightarrow> [] | Some k \<Rightarrow> [k]))
            (link_telegram_rows ck pk ok chat phone old_phone now))))"

definition unlink_telegram :: "'e notify_env_scheme \<Rightarrow> string \<Rightarrow> (world, unit) proc" where
  "unlink_telegram env chat =
     (let ck = key_of env ''telegram_chat'' chat in
      attempt (get_entry env ck) id (\<lambda>old.
        let old_phone = ct_phone (ne_contact old) in
        if old_phone = [] then ret ()
        else let pk = key_of env ''telegram_phone'' old_phone in
          transact env [ck, pk] (unlink_telegram_rows ck pk chat old_phone)))"

definition link_whatsapp :: "'e notify_env_scheme \<Rightarrow> string \<Rightarrow> string \<Rightarrow> bool \<Rightarrow> (world, unit) proc" where
  "link_whatsapp env raw lang enabled =
     (case normalize_phone (nv_lib env) raw of Inl e \<Rightarrow> fail e
      | Inr phone \<Rightarrow> attempt (clock env) id (\<lambda>now.
          transact_row env (key_of env ''whatsapp_phone'' phone) (link_whatsapp_row phone (parse_language lang) enabled now)))"

definition resolve_notification_language :: "'e notify_env_scheme \<Rightarrow> string \<Rightarrow> string \<Rightarrow> bool \<Rightarrow> (world, string) proc" where
  "resolve_notification_language env raw hint explicit =
     (case normalize_phone (nv_lib env) raw of Inl e \<Rightarrow> fail e
      | Inr phone \<Rightarrow>
        if hint \<noteq> [] \<and> hint \<noteq> ''ru'' \<and> hint \<noteq> ''en'' \<and> hint \<noteq> ''hy'' then fail (errors_new ''unsupported language'')
        else attempt (clock env) id (\<lambda>now.
          transact_row env (key_of env ''language_phone'' phone) (language_row hint explicit now)))"

section \<open>WhatsApp receipts\<close>

definition whatsapp_status :: "'e notify_env_scheme \<Rightarrow> string \<Rightarrow> string \<Rightarrow> string \<Rightarrow> (world, unit) proc" where
  "whatsapp_status env reference raw_phone receipt =
     (let prefix = ''native-booking:''; i = drop (length prefix) reference in
      if \<not> has_prefix reference prefix \<or> \<not> nv_is_uuid env i then ret ()
      else case normalize_phone (nv_lib env) raw_phone of Inl _ \<Rightarrow> ret ()
      | Inr phone \<Rightarrow>
        if receipt \<noteq> ''sent'' \<and> receipt \<noteq> ''delivered'' \<and> receipt \<noteq> ''read'' \<and> receipt \<noteq> ''failed'' then ret ()
        else let key = key_of env ''event'' i in
          attempt (get_entry env key) id (\<lambda>event.
            if ne_kind event \<noteq> ''event'' \<or> nt_id (ne_notice event) \<noteq> i then ret ()
            else case normalize_phone (nv_lib env) (sp_phone (nt_snapshot (ne_notice event))) of
              Inl _ \<Rightarrow> ret ()
            | Inr bound \<Rightarrow>
              if bound \<noteq> phone then ret ()
              else let dk = key_of env ''delivery'' (ev_record_id (ne_event event) @ '':'' @ i) in
                attempt (clock env) id (\<lambda>now.
                attempt (transact env [key, dk] (whatsapp_status_rows key dk now receipt)) id (\<lambda>failed.
                  if failed then schedule_notification env i ''whatsapp-failed'' else ret ()))))"

section \<open>SMS observation\<close>

definition send_sms_failure_alert ::
  "'e notify_env_scheme \<Rightarrow> string \<Rightarrow> string \<Rightarrow> string \<Rightarrow> time \<Rightarrow> (world, unit) proc" where
  "send_sms_failure_alert env key record_id i reserved_at w =
     observe (perform env (AlertStaff record_id i)) (\<lambda>reply. case reply of
       Inr _ \<Rightarrow> ret ()
     | Inl alert_error \<Rightarrow>
       let attention = wrap_error ''SMS failure alert requires attention'' alert_error in
       if nv_rejected env (w_tick w)
       then observe (transact_row env key (sms_alert_rejected_row reserved_at)) (\<lambda>cleanup. case cleanup of
           Inl e \<Rightarrow> fail (the (errors_join (Some attention) (Some e)))
         | Inr _ \<Rightarrow> fail attention)
       else fail attention) w"

definition check_sms ::
  "'e notify_env_scheme \<Rightarrow> (nat \<Rightarrow> notice \<Rightarrow> string result) \<Rightarrow> string \<Rightarrow> (world, unit) proc" where
  "check_sms env read_status i =
     (let key = key_of env ''event'' i in
      attempt (fresh env) id (\<lambda>owner.
      attempt (clock env) id (\<lambda>now.
      attempt (transact_row env key (sms_claim_row (nv_sms_alert env) owner now)) id (\<lambda>claim. case claim of
          SmsIdle \<Rightarrow> ret ()
        | SmsAlert record_id \<Rightarrow> send_sms_failure_alert env key record_id i now
        | SmsRead notc \<Rightarrow>
          observe (ask (\<lambda>n. read_status n notc)) (\<lambda>reading.
            attempt (transact_row env key (sms_status_row (nv_sms_alert env) owner now reading)) id (\<lambda>alert.
            attempt (case alert of Some record_id \<Rightarrow> send_sms_failure_alert env key record_id i now | None \<Rightarrow> ret ()) id (\<lambda>_.
              case reading of Inl e \<Rightarrow> fail e | Inr _ \<Rightarrow> ret ())))))))"

fun reconcile_sms_loop ::
  "'e notify_env_scheme \<Rightarrow> (nat \<Rightarrow> notice \<Rightarrow> string result) \<Rightarrow> entry list \<Rightarrow> go_error option \<Rightarrow> (world, go_error option) proc" where
  "reconcile_sms_loop env read_status [] result = ret result"
| "reconcile_sms_loop env read_status (row # rs) result =
     observe (ask (\<lambda>n. Inr (nv_cancelled env n))) (\<lambda>cancelled. case cancelled of
       Inr (Some e) \<Rightarrow> ret (errors_join result (Some e))
     | _ \<Rightarrow> observe (check_sms env read_status (ev_id (ne_event row))) (\<lambda>reply.
         reconcile_sms_loop env read_status rs
           (errors_join result (case reply of Inl e \<Rightarrow> Some e | Inr _ \<Rightarrow> None))))"

definition reconcile_sms :: "'e notify_env_scheme \<Rightarrow> (world, go_error option) proc" where
  "reconcile_sms env =
     (case nv_sms_status env of
        None \<Rightarrow> ret None
      | Some read_status \<Rightarrow>
        observe (store env pending_sms_notifications) (\<lambda>pending. case pending of
          Inl e \<Rightarrow> ret (Some e) | Inr rs \<Rightarrow> reconcile_sms_loop env read_status rs None))"

section \<open>Recovery\<close>

fun reconcile_unrouted_loop ::
  "'e notify_env_scheme \<Rightarrow> entry list \<Rightarrow> go_error option \<Rightarrow> (world, go_error option) proc" where
  "reconcile_unrouted_loop env [] result = ret result"
| "reconcile_unrouted_loop env (row # rs) result =
     attempt (clock env) id (\<lambda>now.
       if ne_kind row \<noteq> ''event'' \<or> ne_state row \<noteq> ''done'' \<or> ne_outcome row \<noteq> ''no_linked_messenger'' \<or>
          ne_attempted row \<noteq> [] \<or> before (ev_received_at (ne_event row)) (now - 24 * hour)
       then reconcile_unrouted_loop env rs result
       else observe (transact_row env (key_of env ''event'' (ev_id (ne_event row))) (unrouted_row now)) (\<lambda>reply.
         observe (case reply of
             Inl e \<Rightarrow> fail e
           | Inr ready \<Rightarrow> if ready
             then schedule_notification env (ev_id (ne_event row)) (''unrouted:'' @ nv_render env (truncate_time now (5 * minute)))
             else ret ()) (\<lambda>reply.
           reconcile_unrouted_loop env rs (errors_join result (case reply of Inl e \<Rightarrow> Some e | Inr _ \<Rightarrow> None)))))"

definition reconcile_unrouted :: "'e notify_env_scheme \<Rightarrow> (world, go_error option) proc" where
  "reconcile_unrouted env =
     (case nv_unrouted env of
        None \<Rightarrow> ret None
      | Some unrouted \<Rightarrow> observe (store env unrouted) (\<lambda>found. case found of
          Inl e \<Rightarrow> ret (Some e) | Inr rs \<Rightarrow> reconcile_unrouted_loop env rs None))"

fun reconcile_pending_loop ::
  "'e notify_env_scheme \<Rightarrow> entry list \<Rightarrow> go_error option \<Rightarrow> (world, go_error option) proc" where
  "reconcile_pending_loop env [] result = ret result"
| "reconcile_pending_loop env (row # rs) result =
     attempt (clock env) id (\<lambda>now.
       if ne_kind row \<noteq> ''event'' \<or> after (ne_lease_until row) now
       then reconcile_pending_loop env rs result
       else observe (schedule_notification env (ev_id (ne_event row)) (''recovery:'' @ nv_render env (truncate_time now hour))) (\<lambda>reply.
         reconcile_pending_loop env rs (errors_join result (case reply of Inl e \<Rightarrow> Some e | Inr _ \<Rightarrow> None))))"

definition reconcile_notifications :: "'e notify_env_scheme \<Rightarrow> (world, unit) proc" where
  "reconcile_notifications env =
     attempt (reconcile_unrouted env) id (\<lambda>unrouted_error.
     attempt (store env pending_notifications) id (\<lambda>pending.
     attempt (reconcile_pending_loop env pending unrouted_error) id (\<lambda>result.
     attempt (reconcile_sms env) id (\<lambda>sms_error.
     observe (if nv_health env then health_refresh env else ret ()) (\<lambda>health.
       case errors_join (errors_join result sms_error) (case health of Inl e \<Rightarrow> Some e | Inr _ \<Rightarrow> None) of
         None \<Rightarrow> ret () | Some e \<Rightarrow> fail e)))))"

section \<open>Web reminders and direct sends\<close>

definition queue_web_reminder ::
  "'e notify_env_scheme \<Rightarrow> string \<Rightarrow> string \<Rightarrow> string \<Rightarrow> int \<Rightarrow> (world, unit) proc" where
  "queue_web_reminder env record_id phone proof_token minutes =
     (if minutes \<noteq> 60 \<and> minutes \<noteq> 120 \<and> minutes \<noteq> 1440 then fail (errors_new ''invalid reminder choice'')
      else attempt (get_entry env (key_of env ''record'' record_id)) id (\<lambda>rec.
        if proof_token = [] \<or> ne_management_phone rec \<noteq> phone \<or> ne_calendar_phone rec \<noteq> phone \<or>
           ne_management_token rec \<noteq> proof_token
        then fail (sentinel_error BookingNotFound)
        else attempt (ask (\<lambda>n. nv_reader env n record_id)) id (\<lambda>snap.
          let b = sp_booking snap; due = bk_starts_at b - minutes * minute in
          attempt (clock env) id (\<lambda>now1.
          attempt (clock env) id (\<lambda>now2.
          attempt (clock env) id (\<lambda>now3.
            if sp_phone snap \<noteq> phone \<or> bk_status b \<noteq> StatusConfirmed \<or> \<not> after (bk_starts_at b) now1 \<or>
               before now2 due \<or> after now3 (due + 15 * minute)
            then fail (sentinel_error BookingNotFound)
            else
              let fp = fingerprint env snap;
                  i = nv_uuid env (''web-reminder:'' @ record_id @ '':'' @ fp @ '':'' @ nv_render env due) in
              attempt (clock env) id (\<lambda>now.
              attempt (transact_row env (key_of env ''event'' i) (web_reminder_row i record_id snap fp now)) id (\<lambda>_.
                schedule_notification env i ''initial''))))))))"

definition record_direct_send :: "'e notify_env_scheme \<Rightarrow> provider \<Rightarrow> string \<Rightarrow> (world, unit) proc" where
  "record_direct_send env p i =
     attempt (clock env) id (\<lambda>now.
       transact_row env (key_of env ''direct_outbound'' (p @ '':'' @ i)) (direct_send_row now))"

definition is_direct_send :: "'e notify_env_scheme \<Rightarrow> provider \<Rightarrow> string \<Rightarrow> (world, bool) proc" where
  "is_direct_send env p i =
     attempt (get_entry env (key_of env ''direct_outbound'' (p @ '':'' @ i))) id (\<lambda>row.
       ret (ne_kind row = ''direct_outbound''))"

end
