(* ===== verification/NotificationLaws.thy ===== *)
theory NotificationLaws
  imports Notifications
begin

text \<open>
  What the notification service guarantees on the store: a withdrawal silences every route, a live
  link is never taken over, an event that is done or leased sends nothing, a notice that the record
  has outlived is dropped, and staff are alerted once per definite SMS failure.
\<close>

section \<open>Transactions on the store\<close>

lemma row_or_fold_put:
  "row_or z (fold (\<lambda>k. put_row k (f k)) ks t) k' = (if k' \<in> set ks then f k' else row_or z t k')"
  by (induction ks arbitrary: t) auto

lemma transact_reliable:
  assumes "reliable env" "transact env keys fn w = (r, w')"
    and "fn (fold (\<lambda>k. put_row k (row_or zero_entry (db_entries (w_db w)) k)) keys []) = Inr (x, rs)"
  shows "r = Inr x \<and> row_or zero_entry (db_entries (w_db w')) k =
     (if k \<in> set keys then row_of rs k else row_or zero_entry (db_entries (w_db w)) k)"
  using assms by (auto simp: transact_def reliable_store transact_notifications_def row_or_fold_put)

lemma get_entry_reliable:
  "reliable env \<Longrightarrow> get_entry env key w = (Inr (row_or zero_entry (db_entries (w_db w)) key), tick w)"
  by (simp add: get_entry_def reliable_store get_notification_def)

text \<open>Keys of different kinds differ at their first character or further on.\<close>

lemma key_kinds:
  "key_of env ''booking_phone'' p \<noteq> key_of env ''telegram_phone'' q"
  "key_of env ''booking_phone'' p \<noteq> key_of env ''whatsapp_phone'' q"
  "key_of env ''telegram_phone'' p \<noteq> key_of env ''whatsapp_phone'' q"
  by (simp_all add: key_of_def notification_key_def)

section \<open>A withdrawal silences every route\<close>

lemma blocked_targets:
  assumes "ct_blocked (ne_contact (cx_staff cx))" "ct_blocked (ne_contact (cx_telegram cx))"
    "ct_blocked (ne_contact (cx_whatsapp cx))" "notice_targets env now phone latest notc cx ready = Inr ts"
  shows "ts = []"
proof -
  let ?pol = "notice_policy env now phone latest notc cx ready" and ?rcpt = "notice_recipient env now phone latest cx"
  obtain p order where ts: "ts = messenger_targets ?pol ?rcpt (nt_purpose notc) p order @
      (if row_or False (pl_enabled ?pol) SMS then [sms_target p] else [])"
    and order: "set order \<subseteq> {Telegram, WhatsApp}"
    using plan_Inr [OF assms(4) [unfolded notice_targets_def]] by metis
  have "\<not> sms_requested env now phone latest cx" using assms(1) by (simp add: sms_requested_def)
  then have sms: "\<not> row_or False (pl_enabled ?pol) SMS" by (simp add: notice_policy_def Let_def row_or_def)
  have "rp_telegram_opted_out ?rcpt" "\<not> rp_whatsapp_opted_in ?rcpt"
    using assms(2,3) by (simp_all add: notice_recipient_def Let_def)
  then have "messenger_target ?pol ?rcpt (nt_purpose notc) p c = []" for c
    by (simp add: messenger_target_def Let_def)
  then have "messenger_targets ?pol ?rcpt (nt_purpose notc) p order = []" by (simp add: messenger_targets_def)
  with ts sms show ?thesis by simp
qed

lemma block_row_blocked [simp]: "ct_blocked (ne_contact (block_row phone now row))"
  by (simp add: block_row_def)

lemma block_fold_blocked:
  "distinct keys \<Longrightarrow> k \<in> set keys \<Longrightarrow>
     ct_blocked (ne_contact (row_of (fold (\<lambda>k rs. put_row k (block_row phone now (row_of rs k)) rs) keys rs) k))"
proof (induction keys arbitrary: rs)
  case (Cons k' keys)
  have kept: "row_of (fold (\<lambda>k rs. put_row k (block_row phone now (row_of rs k)) rs) ks rs') k' = row_of rs' k'"
    if "k' \<notin> set ks" for ks rs'
    using that by (induction ks arbitrary: rs') auto
  show ?case
  proof (cases "k = k'")
    case True
    with Cons.prems kept [of keys] show ?thesis by simp
  next
    case False
    with Cons show ?thesis by simp
  qed
qed simp

lemma block_phone_blocked:
  assumes "reliable env" "normalize_phone (nv_lib env) raw = Inr phone" "block_phone env raw w = (r, w')"
    and "k \<in> set (withdrawal_keys env phone)"
  shows "r = Inr () \<and> ct_blocked (ne_contact (row_or zero_entry (db_entries (w_db w')) k))"
proof -
  let ?keys = "withdrawal_keys env phone" and ?now = "e_now env (w_tick w)"
  let ?rs = "fold (\<lambda>k. put_row k (row_or zero_entry (db_entries (w_db (tick w))) k)) ?keys []"
  from assms(2,3) have run: "transact env ?keys (block_phone_rows ?keys phone ?now) (tick w) = (r, w')"
    by (simp add: block_phone_def attempt_apply clock_apply)
  have fn: "block_phone_rows ?keys phone ?now ?rs =
      Inr ((), fold (\<lambda>k rs. put_row k (block_row phone ?now (row_of rs k)) rs) ?keys ?rs)"
    by (simp add: block_phone_rows_def)
  have "distinct ?keys" using key_kinds [of env phone phone] by (simp add: withdrawal_keys_def)
  from block_fold_blocked [OF this assms(4)] transact_reliable [OF assms(1) run fn, of k] assms(4)
  show ?thesis by simp
qed

lemma read_contacts_reliable:
  assumes "reliable env" "read_contacts env phone latest row w = (Inr cx, w')"
  shows "cx_telegram cx = row_or zero_entry (db_entries (w_db w)) (key_of env ''telegram_phone'' phone)"
    "cx_whatsapp cx = row_or zero_entry (db_entries (w_db w)) (key_of env ''whatsapp_phone'' phone)"
    "cx_staff cx = row_or zero_entry (db_entries (w_db w)) (key_of env ''booking_phone'' phone)"
  using assms(2)
  by (auto simp: read_contacts_def attempt_apply get_entry_reliable [OF assms(1)] ret_apply Let_def
      split: prod.splits sum.splits if_splits)

lemma withdrawal_silences:
  assumes "reliable env" "normalize_phone (nv_lib env) raw = Inr phone" "block_phone env raw w = (r, w1)"
    and "read_contacts env phone latest row w1 = (Inr cx, w2)"
    and "notice_targets env now phone latest notc cx ready = Inr ts"
  shows "r = Inr () \<and> ts = []"
proof -
  note blocked = block_phone_blocked [OF assms(1-3)]
  have "r = Inr ()" using blocked [of "key_of env ''booking_phone'' phone"] by (simp add: withdrawal_keys_def)
  moreover have "ts = []"
    using blocked read_contacts_reliable [OF assms(1,4)]
    by (intro blocked_targets [OF _ _ _ assms(5)]) (simp_all add: withdrawal_keys_def)
  ultimately show ?thesis ..
qed

section \<open>Links\<close>

lemma link_telegram_rows_live_link:
  assumes "ct_chat (ne_contact (row_of rs phone_key)) \<noteq> []" "ct_chat (ne_contact (row_of rs phone_key)) \<noteq> chat"
    and "now < ct_expires_at (ne_contact (row_of rs phone_key))"
  shows "\<exists>e. link_telegram_rows chat_key phone_key old_key chat phone old_phone now rs = Inl e"
  using assms by (auto simp: link_telegram_rows_def Let_def time_defs)

lemma link_telegram_rows_fresh_request:
  assumes "link_telegram_rows chat_key phone_key old_key chat phone old_phone now rs = Inr ((), rs')" "rs' \<noteq> rs"
  shows "ct_requested_at (ne_contact (row_of rs chat_key)) \<noteq> 0"
    "now - ct_requested_at (ne_contact (row_of rs chat_key)) \<le> 10 * minute"
    "ct_phone (ne_contact (row_of rs' phone_key)) = phone" "ct_requested_at (ne_contact (row_of rs' chat_key)) = 0 \<or> chat_key = phone_key"
proof -
  have bounds: "10 * minute < max_duration" "min_duration \<le> 10 * minute"
    by (simp_all add: minute_def second_def max_duration_def min_duration_def)
  let ?own = "ne_contact (row_of rs chat_key)"
  from assms have req: "\<not> (is_zero (ct_requested_at ?own) \<or> 10 * minute < time_sub now (ct_requested_at ?own))"
    by (auto simp: link_telegram_rows_def Let_def split: if_splits)
  then show "ct_requested_at ?own \<noteq> 0" "now - ct_requested_at ?own \<le> 10 * minute"
    using time_sub_gt_iff [OF bounds, of now "ct_requested_at ?own"] by (simp_all add: time_defs not_less)
  show "ct_phone (ne_contact (row_of rs' phone_key)) = phone"
    "ct_requested_at (ne_contact (row_of rs' chat_key)) = 0 \<or> chat_key = phone_key"
    using assms by (auto simp: link_telegram_rows_def Let_def split: if_splits)
qed

section \<open>Receipts\<close>

lemma receipt_final:
  assumes "ne_provider_state row = ''read'' \<or> (ne_provider_state row = ''delivered'' \<and> r \<noteq> ''read'')"
  shows "whatsapp_receipt now r (event, row) = (False, event, row)"
  using assms by (auto simp: whatsapp_receipt_def receipt_ignored_def)

section \<open>SMS alerts\<close>

lemma sms_alert_reserved:
  assumes "sms_status_row can_alert owner now reading row = Inr (Some record_id, row')"
  shows "can_alert" "ne_sms_failure_alerted_at row = 0" "ne_sms_failure_alerted_at row' = now"
    "\<not> awaiting_sms row'" "reading = Inr ''Failed'' \<or> reading = Inr ''Cancelled''"
proof -
  note d = assms [unfolded sms_status_row_def Let_def]
  from d obtain st where reading: "reading = Inr st" by (cases reading) (simp_all split: if_splits)
  from d have st: "st = ''Failed'' \<or> st = ''Cancelled''" by (auto simp: reading split: if_split_asm)
  then show "reading = Inr ''Failed'' \<or> reading = Inr ''Cancelled''" by (simp add: reading)
  from st d show "can_alert" "ne_sms_failure_alerted_at row = 0" "ne_sms_failure_alerted_at row' = now"
    "\<not> awaiting_sms row'"
    by (auto simp: reading is_zero_def awaiting_sms_def split: if_split_asm)
qed

lemma not_awaiting_idle: "\<not> awaiting_sms row \<Longrightarrow> sms_claim_row can_alert owner now row = Inr (SmsIdle, row)"
  by (simp add: sms_claim_row_def)

section \<open>What a delivery sends\<close>

fun is_notification :: "effect \<Rightarrow> bool" where
  "is_notification (SendNotification t n l) = True"
| "is_notification _ = False"

lemma quiet_transact [quiet_intros]: "quiet K (transact env keys fn)"
  unfolding transact_def by (intro quiet_intros)

lemma quiet_transact_row [quiet_intros]: "quiet K (transact_row env key fn)"
  unfolding transact_row_def by (intro quiet_intros)

lemma quiet_get_entry [quiet_intros]: "quiet K (get_entry env key)"
  unfolding get_entry_def by (intro quiet_intros)

lemma quiet_finish_event [quiet_intros]: "quiet K (finish_event env key owner out dk)"
  unfolding finish_event_def by (intro quiet_intros)

lemma quiet_stop [quiet_intros]: "quiet K m \<Longrightarrow> quiet K (stop m)"
  unfolding stop_def by (intro quiet_intros)

lemma quiet_resume [quiet_intros]: "quiet K (resume_failed_whatsapp env i)"
  unfolding resume_failed_whatsapp_def Let_def by (intro quiet_intros)

lemma quiet_prepare [quiet_intros]: "quiet K (prepare_notice env key owner now row)"
  unfolding prepare_notice_def Let_def by (intro quiet_intros)

lemma quiet_recheck [quiet_intros]: "quiet K (recheck_notice env key owner row)"
  unfolding recheck_notice_def by (intro quiet_intros)

lemma recheck_superseded:
  assumes "nv_reader env (w_tick w) (ev_record_id (ne_event row)) = Inr latest"
    and "fingerprint env latest \<noteq> nt_fingerprint (ne_notice row)" "recheck_notice env key owner row w = (Inr x, w')"
  shows "x = None"
  using assms by (auto simp: recheck_notice_def observe_apply ask_apply stop_def attempt_apply ret_apply
      split: prod.splits sum.splits)

lemma deliver_superseded:
  assumes "ne_state row \<noteq> ''pending''" "nv_reader env (w_tick w) (ev_record_id (ne_event row)) = Inr latest"
    and "fingerprint env latest \<noteq> nt_fingerprint (ne_notice row)"
    and "deliver_leased env key owner now row w = (r, w')"
  shows "logged is_notification w' = logged is_notification w"
proof -
  obtain c w1 where checked: "recheck_notice env key owner row w = (c, w1)" by force
  note q = quietD [OF quiet_recheck checked, where K = is_notification]
  show ?thesis
  proof (cases c)
    case (Inl e)
    with assms(1,4) checked q show ?thesis by (simp add: deliver_leased_def attempt_apply ret_apply)
  next
    case (Inr x)
    with recheck_superseded [OF assms(2,3) checked [unfolded Inr]] assms(1,4) checked q
    show ?thesis by (simp add: deliver_leased_def attempt_apply ret_apply)
  qed
qed

text \<open>An event that is unknown, done, or leased to another worker.\<close>

lemma lease_row_live:
  "\<not> idle_event row \<Longrightarrow> now < ne_lease_until row \<Longrightarrow> lease_row owner now row = Inl (sentinel_error NotificationBusy)"
  by (simp add: lease_row_def time_defs)

lemma lease_row_idle: "idle_event row \<Longrightarrow> lease_row owner now row = Inr (row, row)"
  by (simp add: lease_row_def)

definition entry_at :: "world \<Rightarrow> string \<Rightarrow> entry" where
  "entry_at w k = row_or zero_entry (db_entries (w_db w)) k"

lemma entry_at_tick [simp]: "entry_at (tick w) k = entry_at w k"
  by (simp add: entry_at_def)

definition locked :: "world \<Rightarrow> string list \<Rightarrow> entry table" where
  "locked w keys = fold (\<lambda>k. put_row k (entry_at w k)) keys []"

lemma locked_rows: "row_of (locked w keys) k = (if k \<in> set keys then entry_at w k else zero_entry)"
  unfolding locked_def row_or_fold_put by (simp add: row_or_def)

lemma transact_entry_at:
  assumes "reliable env" "transact env keys fn w = (r, w')"
  shows "case fn (locked w keys) of
      Inl e \<Rightarrow> r = Inl e \<and> w' = tick w
    | Inr (x, rs) \<Rightarrow> r = Inr x \<and> (\<forall>k. entry_at w' k = (if k \<in> set keys then row_of rs k else entry_at w k))"
  using assms
  by (auto simp: transact_def reliable_store transact_notifications_def entry_at_def locked_def row_or_fold_put split: sum.split)

lemma put_pair_same:
  "row_of (put_pair key dk (row_of rs key, row_of rs dk) rs) k = row_of rs k"
  by (simp add: put_pair_def)

lemma resume_rows_unchanged:
  assumes "ne_provider_state (row_of rs dk) \<noteq> ''failed''"
  shows "\<exists>rs'. resume_rows key dk now rs = Inr ((), rs') \<and> (\<forall>k. row_of rs' k = row_of rs k)"
proof -
  have "\<not> fallback_due (row_of rs key) (row_of rs dk)" using assms by (simp add: fallback_due_def)
  then have "prepare_whatsapp_fallback now (row_of rs key, row_of rs dk) = (row_of rs key, row_of rs dk)"
    by (simp add: prepare_whatsapp_fallback_def)
  with assms show ?thesis by (simp add: resume_rows_def Let_def put_pair_same)
qed

lemma resume_unchanged:
  assumes "reliable env" "ne_provider_state (entry_at w (key_of env ''delivery''
      (ev_record_id (ne_event (entry_at w (key_of env ''event'' i))) @ '':'' @ i))) \<noteq> ''failed''"
    and "resume_failed_whatsapp env i w = (r, w')"
  shows "r = Inr () \<and> (\<forall>k. entry_at w' k = entry_at w k)"
proof -
  define key where "key = key_of env ''event'' i"
  define dk where "dk = key_of env ''delivery'' (ev_record_id (ne_event (entry_at w key)) @ '':'' @ i)"
  have read_event: "get_entry env key w = (Inr (entry_at w key), tick w)"
    by (simp add: get_entry_reliable [OF assms(1)] entry_at_def)
  show ?thesis
  proof (cases "ne_kind (entry_at w key) = ''event''")
    case False
    with assms(3) show ?thesis
      by (auto simp: resume_failed_whatsapp_def key_def [symmetric] attempt_apply read_event ret_apply Let_def)
  next
    case True
    define now where "now = e_now env (w_tick (tick w))"
    have read_clock: "clock env (tick w) = (Inr now, tick (tick w))" by (simp add: clock_apply now_def)
    from assms(3) True have run: "transact env [key, dk] (resume_rows key dk now) (tick (tick w)) = (r, w')"
      by (simp add: resume_failed_whatsapp_def key_def [symmetric] attempt_apply read_event read_clock dk_def Let_def)
    have rows: "row_of (locked (tick (tick w)) [key, dk]) k = (if k \<in> set [key, dk] then entry_at w k else zero_entry)" for k
      by (simp add: locked_rows)
    have "ne_provider_state (row_of (locked (tick (tick w)) [key, dk]) dk) \<noteq> ''failed''"
      unfolding rows using assms(2) by (simp add: dk_def key_def)
    from resume_rows_unchanged [OF this, of key now] obtain rs' where
      rs': "resume_rows key dk now (locked (tick (tick w)) [key, dk]) = Inr ((), rs')"
      and same: "\<And>k. row_of rs' k = row_of (locked (tick (tick w)) [key, dk]) k" by blast
    from transact_entry_at [OF assms(1) run] show ?thesis unfolding rs' by (simp add: same rows)
  qed
qed

lemma deliver_refused:
  assumes "reliable env" "ne_provider_state (entry_at w (key_of env ''delivery''
      (ev_record_id (ne_event (entry_at w (key_of env ''event'' i))) @ '':'' @ i))) \<noteq> ''failed''"
    and "idle_event (entry_at w (key_of env ''event'' i)) \<or> (\<forall>n. e_now env n < ne_lease_until (entry_at w (key_of env ''event'' i)))"
    and "deliver_notification env i w = (r, w')"
  shows "logged is_notification w' = logged is_notification w \<and>
     r = (if idle_event (entry_at w (key_of env ''event'' i)) then Inr () else Inl (sentinel_error NotificationBusy))"
proof -
  define key where "key = key_of env ''event'' i"
  obtain r1 w1 where resumed: "resume_failed_whatsapp env i w = (r1, w1)" by force
  from resume_unchanged [OF assms(1,2) resumed] have r1: "r1 = Inr ()" and same: "\<And>k. entry_at w1 k = entry_at w k" by auto
  note q1 = quietD [OF quiet_resume resumed, where K = is_notification]
  define owner where "owner = e_fresh env (w_tick w1)"
  define now where "now = e_now env (w_tick (tick w1))"
  have named: "fresh env w1 = (Inr owner, tick w1)" "clock env (tick w1) = (Inr now, tick (tick w1))"
    by (simp_all add: fresh_apply clock_apply owner_def now_def)
  obtain r2 w2 where leased: "transact_row env key (lease_row owner now) (tick (tick w1)) = (r2, w2)" by force
  note q2 = quietD [OF quiet_transact_row leased, where K = is_notification]
  have row: "row_of (locked (tick (tick w1)) [key]) key = entry_at w key"
    by (simp add: locked_rows same)
  note ran = transact_entry_at [OF assms(1) leased [unfolded transact_row_def], unfolded on_row_def row]
  have r2: "r2 = (if idle_event (entry_at w key) then Inr (entry_at w key) else Inl (sentinel_error NotificationBusy))"
  proof (cases "idle_event (entry_at w key)")
    case True
    with ran show ?thesis by (simp add: lease_row_idle)
  next
    case False
    with assms(3) have "now < ne_lease_until (entry_at w key)" by (auto simp: key_def now_def)
    with ran False show ?thesis by (simp add: lease_row_live)
  qed
  have "deliver_notification env i w = (case r2 of Inl e \<Rightarrow> (Inl e, w2) | Inr row \<Rightarrow>
      (if idle_event row then ret ()
       else observe (deliver_leased env key owner now row) (\<lambda>reply.
         observe (transact_row env key (unlease_row owner)) (\<lambda>_.
           case reply of Inl e \<Rightarrow> fail e | Inr _ \<Rightarrow> ret ()))) w2)"
    by (simp add: deliver_notification_def key_def [symmetric] attempt_apply resumed r1 named leased Let_def split: sum.split)
  with assms(4) r2 q1 q2 show ?thesis by (auto simp: ret_apply key_def split: if_splits)
qed

end
