(* ===== verification/Cabinet.thy ===== *)
theory Cabinet
  imports NotificationLaws
begin

text \<open>
  Proof of phone ownership for the private cabinet (\<open>internal/application/cabinet\<close>): a request for
  a contact, a code by SMS, its confirmation. The HMAC over provider, user, phone and code is the
  parameter \<open>cb_digest\<close>, the random generator \<open>cb_random\<close>, the texts of the message \<open>cb_text\<close>. The
  bodies of the transactions are functions of the rows they lock, shared by the service over the
  store and by the trace of one user's challenge.

  What the cabinet guarantees about one user's challenge, over any sequence of its transactions
  with a clock that never runs backwards: at most five guesses per code, at most five codes per
  started hour and one per minute, and a proof of ownership only for the right code or an accepted
  contact.
\<close>

record cabinet_env = env +
  cb_lib :: "string \<Rightarrow> string option"
  cb_sha :: "string \<Rightarrow> string"
  cb_digest :: "provider \<Rightarrow> string \<Rightarrow> string \<Rightarrow> string \<Rightarrow> string"
  cb_sender :: bool
  cb_secret :: string
  cb_random :: "nat \<Rightarrow> nat option"
  cb_random_id :: "nat \<Rightarrow> string option"
  cb_text :: "string option \<Rightarrow> string \<Rightarrow> string"

section \<open>Transactions\<close>

definition identity_row_key :: "(string \<Rightarrow> string) \<Rightarrow> provider \<Rightarrow> string \<Rightarrow> string" where
  "identity_row_key sha p user = notification_key sha ''cabinet_identity'' (p @ '':'' @ user)"

definition challenge_row_key :: "(string \<Rightarrow> string) \<Rightarrow> provider \<Rightarrow> string \<Rightarrow> string" where
  "challenge_row_key sha p user = notification_key sha ''cabinet_challenge'' (p @ '':'' @ user)"

definition proof_lifetime :: duration where "proof_lifetime = 180 * 24 * hour"

definition proof_entry :: "string \<Rightarrow> string \<Rightarrow> time \<Rightarrow> entry" where
  "proof_entry phone user now = zero_entry\<lparr>ne_kind := ''cabinet_identity'',
     ne_contact := zero_contact\<lparr>ct_phone := phone, ct_chat := user, ct_expires_at := now + proof_lifetime\<rparr>\<rparr>"

definition begin_challenge :: "time \<Rightarrow> entry \<Rightarrow> (unit \<times> entry) result" where
  "begin_challenge now row =
     (let v = ne_verification row in
      Inr ((), if pc_state v = ''code'' \<and> after (pc_expires_at v) now then row
        else row\<lparr>ne_kind := ''cabinet_challenge'', ne_verification := v\<lparr>pc_state := ''phone'',
          pc_contact_message_id := [], pc_expires_at := now + 10 * minute\<rparr>\<rparr>))"

definition cancel_challenge :: "entry \<Rightarrow> (unit \<times> entry) result" where
  "cancel_challenge row =
     Inr ((), row\<lparr>ne_verification := ne_verification row\<lparr>pc_state := [], pc_hash := [], pc_contact_message_id := []\<rparr>\<rparr>)"

definition accept_contact :: "string \<Rightarrow> string \<Rightarrow> string \<Rightarrow> time \<Rightarrow> entry \<times> entry \<Rightarrow> (bool \<times> entry \<times> entry) result" where
  "accept_contact user phone message_id now = (\<lambda>(row, prf).
     (let v = ne_verification row in
      if pc_state v \<noteq> ''phone'' \<or> \<not> after (pc_expires_at v) now
      then (if message_id \<noteq> [] \<and> pc_contact_message_id v = message_id \<and> ct_phone (ne_contact prf) = phone \<and>
              after (ct_expires_at (ne_contact prf)) now
            then Inr (False, row, prf) else Inl (sentinel_error VerificationExpired))
      else Inr (True,
        row\<lparr>ne_verification := v\<lparr>pc_state := [], pc_hash := [], pc_contact_message_id := message_id\<rparr>\<rparr>,
        proof_entry phone user now)))"

text \<open>The send budget of one challenge: a minute between sends, five in a window of an hour.\<close>

definition admit_send :: "time \<Rightarrow> phone_challenge \<Rightarrow> phone_challenge result" where
  "admit_send now v =
     (if after (pc_next_send_at v) now then Inl (sentinel_error VerificationLimited)
      else let v = (if time_sub now (pc_window_started v) \<ge> hour
            then v\<lparr>pc_window_started := now, pc_sends := 0\<rparr> else v) in
        if pc_sends v \<ge> 5 then Inl (sentinel_error VerificationLimited) else Inr v)"

definition count_send :: "time \<Rightarrow> phone_challenge \<Rightarrow> phone_challenge" where
  "count_send now v = v\<lparr>pc_sends := pc_sends v + 1, pc_next_send_at := now + minute\<rparr>"

definition send_code_rows ::
  "string \<Rightarrow> string \<Rightarrow> time \<Rightarrow> time \<Rightarrow> entry \<times> entry \<Rightarrow> (entry \<times> entry) result" where
  "send_code_rows phone digest now expiry = (\<lambda>(own, budget).
     let v = ne_verification own in
     if pc_state v \<noteq> ''phone'' \<or> \<not> after (pc_expires_at v) now then Inl (sentinel_error VerificationExpired)
     else case admit_send now v of Inl e \<Rightarrow> Inl e
     | Inr v \<Rightarrow> (case admit_send now (ne_verification budget) of Inl e \<Rightarrow> Inl e
       | Inr b \<Rightarrow> Inr (own\<lparr>ne_verification := (count_send now v)\<lparr>pc_phone := phone, pc_hash := digest,
              pc_state := ''code'', pc_attempts := 0, pc_expires_at := expiry\<rparr>\<rparr>,
            budget\<lparr>ne_kind := ''cabinet_phone_budget'', ne_verification := count_send now b\<rparr>)))"

text \<open>
  One guess. The outcome is a value, not an error, because a failed guess must be written.
\<close>

datatype guess = GuessExpired | GuessLimited | GuessInvalid | GuessRight string

definition confirm_rows ::
  "(string \<Rightarrow> string \<Rightarrow> string) \<Rightarrow> string \<Rightarrow> string \<Rightarrow> time \<Rightarrow> entry \<times> entry \<Rightarrow> guess \<times> entry \<times> entry" where
  "confirm_rows digest user code now = (\<lambda>(own, prf).
     let v = ne_verification own in
     if pc_state v \<noteq> ''code'' \<or> \<not> after (pc_expires_at v) now then (GuessExpired, own, prf)
     else if pc_attempts v \<ge> 5 then (GuessLimited, own, prf)
     else let v = v\<lparr>pc_attempts := pc_attempts v + 1\<rparr> in
       if length code \<noteq> 6 \<or> pc_hash v \<noteq> digest (pc_phone v) code
       then (if pc_attempts v \<ge> 5
             then (GuessLimited, own\<lparr>ne_verification := v\<lparr>pc_state := ''locked''\<rparr>\<rparr>, prf)
             else (GuessInvalid, own\<lparr>ne_verification := v\<rparr>, prf))
       else (GuessRight (pc_phone v),
             own\<lparr>ne_verification := v\<lparr>pc_state := [], pc_hash := [], pc_phone := []\<rparr>\<rparr>,
             proof_entry (pc_phone v) user now))"

section \<open>The service over the store\<close>

definition on_pair :: "string \<Rightarrow> string \<Rightarrow> (entry \<times> entry \<Rightarrow> ('a \<times> entry \<times> entry) result) \<Rightarrow>
    entry table \<Rightarrow> ('a \<times> entry table) result" where
  "on_pair k1 k2 fn rs =
     (case fn (row_of rs k1, row_of rs k2) of Inl e \<Rightarrow> Inl e
      | Inr (x, r1, r2) \<Rightarrow> Inr (x, put_row k2 r2 (put_row k1 r1 rs)))"

definition cab_store :: "'e cabinet_env_scheme \<Rightarrow> string list \<Rightarrow> (entry table \<Rightarrow> ('a \<times> entry table) result) \<Rightarrow> (world, 'a) proc" where
  "cab_store env keys fn = store env (transact_notifications keys fn)"

definition cabinet_phone :: "'e cabinet_env_scheme \<Rightarrow> provider \<Rightarrow> string \<Rightarrow> (world, string) proc" where
  "cabinet_phone env p user =
     attempt (store env (get_notification (identity_row_key (cb_sha env) p user))) id (\<lambda>row.
     attempt (clock env) id (\<lambda>now.
       if after (ct_expires_at (ne_contact row)) now
       then (case normalize_phone (cb_lib env) (ct_phone (ne_contact row)) of Inl e \<Rightarrow> fail e | Inr phone \<Rightarrow> ret phone)
       else if p = ProviderWhatsApp
       then (case normalize_phone (cb_lib env) (''+'' @ trim_prefix user ''+'') of Inl _ \<Rightarrow> ret [] | Inr phone \<Rightarrow> ret phone)
       else if p = ProviderTelegram
       then attempt (store env (get_notification (notification_key (cb_sha env) ''telegram_chat'' user))) id (\<lambda>old.
         attempt (clock env) id (\<lambda>now.
           if after (ct_expires_at (ne_contact old)) now \<and> ct_chat (ne_contact old) = user
           then (case normalize_phone (cb_lib env) (ct_phone (ne_contact old)) of Inl e \<Rightarrow> fail e | Inr phone \<Rightarrow> ret phone)
           else ret []))
       else ret []))"

definition cabinet_begin :: "'e cabinet_env_scheme \<Rightarrow> provider \<Rightarrow> string \<Rightarrow> (world, unit) proc" where
  "cabinet_begin env p user =
     (let k = challenge_row_key (cb_sha env) p user in
      attempt (clock env) id (\<lambda>now. cab_store env [k] (on_row k (begin_challenge now))))"

definition cabinet_pending :: "'e cabinet_env_scheme \<Rightarrow> provider \<Rightarrow> string \<Rightarrow> (world, string) proc" where
  "cabinet_pending env p user =
     attempt (store env (get_notification (challenge_row_key (cb_sha env) p user))) id (\<lambda>row.
     attempt (clock env) id (\<lambda>now.
       let v = ne_verification row in
       if \<not> after (pc_expires_at v) now
       then (if pc_state v = ''code'' \<or> pc_state v = ''locked'' then ret ''expired'' else ret [])
       else ret (pc_state v)))"

definition cabinet_cancel :: "'e cabinet_env_scheme \<Rightarrow> provider \<Rightarrow> string \<Rightarrow> (world, unit) proc" where
  "cabinet_cancel env p user =
     (let k = challenge_row_key (cb_sha env) p user in cab_store env [k] (on_row k cancel_challenge))"

definition record_telegram_resolution :: "'e cabinet_env_scheme \<Rightarrow> string \<Rightarrow> string \<Rightarrow> time \<Rightarrow> (world, unit) proc" where
  "record_telegram_resolution env user raw now =
     (case normalize_phone (cb_lib env) raw of Inl _ \<Rightarrow> fail (sentinel_error VerificationInvalid)
      | Inr phone \<Rightarrow>
        if user = [] then fail (sentinel_error VerificationInvalid)
        else let k = identity_row_key (cb_sha env) ProviderTelegram user in
          cab_store env [k] (on_row k (\<lambda>_. Inr ((), proof_entry phone user now))))"

definition accept_telegram_contact :: "'e cabinet_env_scheme \<Rightarrow> string \<Rightarrow> string \<Rightarrow> string \<Rightarrow> (world, bool) proc" where
  "accept_telegram_contact env user raw message_id =
     (case normalize_phone (cb_lib env) raw of Inl _ \<Rightarrow> fail (sentinel_error VerificationInvalid)
      | Inr phone \<Rightarrow>
        if user = [] then fail (sentinel_error VerificationInvalid)
        else let own = challenge_row_key (cb_sha env) ProviderTelegram user;
                 prf = identity_row_key (cb_sha env) ProviderTelegram user in
          attempt (clock env) id (\<lambda>now.
            cab_store env [own, prf] (on_pair own prf (accept_contact user phone message_id now))))"

definition own_contact :: "'e cabinet_env_scheme \<Rightarrow> string \<Rightarrow> string \<Rightarrow> (world, unit) proc" where
  "own_contact env user phone = attempt (accept_telegram_contact env user phone []) id (\<lambda>_. ret ())"

text \<open>\<open>fmt.Sprintf("%06d", n)\<close> for \<open>n\<close> below a million.\<close>

definition six_digits :: "nat \<Rightarrow> string" where
  "six_digits n = map (\<lambda>d. char_of (48 + (n div 10 ^ d) mod 10)) [5, 4, 3, 2, 1, 0]"

definition cabinet_send :: "'e cabinet_env_scheme \<Rightarrow> provider \<Rightarrow> string \<Rightarrow> string \<Rightarrow> string option \<Rightarrow> (world, unit) proc" where
  "cabinet_send env p user raw language =
     (case normalize_phone (cb_lib env) raw of Inl _ \<Rightarrow> fail (sentinel_error VerificationInvalid)
      | Inr phone \<Rightarrow>
        if \<not> cb_sender env \<or> length (cb_secret env) < 32 then fail (sentinel_error VerificationUnavailable)
        else attempt (ask (\<lambda>n. case cb_random env n of
            None \<Rightarrow> Inl (sentinel_error VerificationUnavailable) | Some x \<Rightarrow> Inr (six_digits (x mod 1000000)))) id (\<lambda>code.
        attempt (ask (\<lambda>n. case cb_random_id env n of
            None \<Rightarrow> Inl (sentinel_error VerificationUnavailable) | Some x \<Rightarrow> Inr x)) id (\<lambda>random_id.
        let own = challenge_row_key (cb_sha env) p user;
            budget = notification_key (cb_sha env) ''cabinet_phone_budget'' phone in
        attempt (clock env) id (\<lambda>now.
        let expiry = now + 5 * minute in
        attempt (cab_store env [own, budget] (on_pair own budget (\<lambda>rs.
            case send_code_rows phone (cb_digest env p user phone code) now expiry rs of
              Inl e \<Rightarrow> Inl e | Inr rs \<Rightarrow> Inr ((), rs)))) id (\<lambda>_.
          perform env (SendCode phone (cb_text env language code) random_id expiry))))))"

definition cabinet_confirm :: "'e cabinet_env_scheme \<Rightarrow> provider \<Rightarrow> string \<Rightarrow> string \<Rightarrow> (world, string) proc" where
  "cabinet_confirm env p user code =
     (let own = challenge_row_key (cb_sha env) p user; prf = identity_row_key (cb_sha env) p user in
      attempt (clock env) id (\<lambda>now.
      attempt (cab_store env [own, prf] (on_pair own prf (\<lambda>rs. Inr (confirm_rows (cb_digest env p user) user code now rs)))) id
        (\<lambda>g. case g of
          GuessExpired \<Rightarrow> fail (sentinel_error VerificationExpired)
        | GuessLimited \<Rightarrow> fail (sentinel_error VerificationLimited)
        | GuessInvalid \<Rightarrow> fail (sentinel_error VerificationInvalid)
        | GuessRight phone \<Rightarrow> ret phone)))"

section \<open>The life of a challenge\<close>

text \<open>
  \<open>cs_guesses\<close> counts the guesses compared against the current code, \<open>cs_codes\<close> the codes sent
  since the start. The budget row of a phone is shared with other users: its content is arbitrary.
\<close>

record challenge_state =
  cs_own :: entry
  cs_proof :: entry
  cs_guesses :: nat
  cs_codes :: nat

definition guess_compared :: "time \<Rightarrow> entry \<Rightarrow> bool" where
  "guess_compared now own \<longleftrightarrow>
     pc_state (ne_verification own) = ''code'' \<and> after (pc_expires_at (ne_verification own)) now \<and>
     pc_attempts (ne_verification own) < 5"

inductive challenge_step ::
  "(string \<Rightarrow> string \<Rightarrow> string) \<Rightarrow> string \<Rightarrow> time \<Rightarrow> challenge_state \<Rightarrow> time \<Rightarrow> challenge_state \<Rightarrow> bool"
  for digest user where
  started: "begin_challenge now' (cs_own s) = Inr ((), own) \<Longrightarrow> now \<le> now' \<Longrightarrow>
     challenge_step digest user now s now' (s\<lparr>cs_own := own\<rparr>)"
| cancelled: "cancel_challenge (cs_own s) = Inr ((), own) \<Longrightarrow> now \<le> now' \<Longrightarrow>
     challenge_step digest user now s now' (s\<lparr>cs_own := own\<rparr>)"
| contact: "accept_contact user phone mid now' (cs_own s, cs_proof s) = Inr (first, own, prf) \<Longrightarrow> now \<le> now' \<Longrightarrow>
     challenge_step digest user now s now' (s\<lparr>cs_own := own, cs_proof := prf\<rparr>)"
| sent: "send_code_rows phone (digest phone code) now' (now' + 5 * minute) (cs_own s, budget) = Inr (own, budget') \<Longrightarrow>
     now \<le> now' \<Longrightarrow>
     challenge_step digest user now s now' (s\<lparr>cs_own := own, cs_guesses := 0, cs_codes := cs_codes s + 1\<rparr>)"
| guessed: "confirm_rows digest user code now' (cs_own s, cs_proof s) = (g, own, prf) \<Longrightarrow> now \<le> now' \<Longrightarrow>
     challenge_step digest user now s now' (s\<lparr>cs_own := own, cs_proof := prf,
       cs_guesses := cs_guesses s + (if guess_compared now' (cs_own s) then 1 else 0)\<rparr>)"

inductive challenge_run ::
  "(string \<Rightarrow> string \<Rightarrow> string) \<Rightarrow> string \<Rightarrow> time \<Rightarrow> challenge_state \<Rightarrow> time \<Rightarrow> challenge_state \<Rightarrow> bool"
  for digest user where
  start: "challenge_run digest user now s now s"
| step: "challenge_run digest user now s now' s' \<Longrightarrow> challenge_step digest user now' s' now'' s'' \<Longrightarrow>
     challenge_run digest user now s now'' s''"

definition new_challenge :: challenge_state where
  "new_challenge = \<lparr>cs_own = zero_entry, cs_proof = zero_entry, cs_guesses = 0, cs_codes = 0\<rparr>"

section \<open>Bounds\<close>

lemma admit_send_Inr:
  assumes "admit_send now v = Inr v'"
  shows "pc_next_send_at v \<le> now" "pc_sends v' < 5"
    "v' = v \<and> now - pc_window_started v < hour \<or>
     v' = v\<lparr>pc_window_started := now, pc_sends := 0\<rparr> \<and> hour \<le> now - pc_window_started v"
proof -
  have ge: "hour \<le> time_sub now (pc_window_started v) \<longleftrightarrow> hour \<le> now - pc_window_started v"
    using hour_bounds by (intro time_sub_ge_iff) (auto simp: min_duration_def duration_defs)
  from assms show "pc_next_send_at v \<le> now" "pc_sends v' < 5"
    "v' = v \<and> now - pc_window_started v < hour \<or>
     v' = v\<lparr>pc_window_started := now, pc_sends := 0\<rparr> \<and> hour \<le> now - pc_window_started v"
    by (auto simp: admit_send_def ge Let_def time_defs split: if_splits)
qed

text \<open>
  The invariant, from a start at \<open>t0\<close>: the sends of the current window and of the full hours before
  it account for every code, and the attempts on record for every guess.
\<close>

definition challenge_inv :: "time \<Rightarrow> time \<Rightarrow> challenge_state \<Rightarrow> bool" where
  "challenge_inv t0 now s \<longleftrightarrow>
     (let v = ne_verification (cs_own s) in
      0 \<le> pc_attempts v \<and> pc_attempts v \<le> 5 \<and> int (cs_guesses s) \<le> pc_attempts v \<and>
      0 \<le> pc_sends v \<and> pc_sends v \<le> 5 \<and> pc_window_started v \<le> now \<and> t0 \<le> now \<and> hour \<le> t0 \<and>
      (cs_codes s = 0 \<and> pc_window_started v = 0 \<or>
        (t0 \<le> pc_window_started v \<and>
         int (cs_codes s) \<le> 5 * ((pc_window_started v - t0) div hour) + pc_sends v \<and>
         int (cs_codes s) * minute \<le> pc_next_send_at v - t0)))"

lemma next_window:
  assumes "hour \<le> now - w"
  shows "(w - t0) div hour + 1 \<le> (now - t0) div hour"
proof -
  have "(w - t0) div hour + 1 = (w - t0 + hour) div hour" by (simp add: duration_defs)
  also have "\<dots> \<le> (now - t0) div hour"
    using assms hour_bounds by (intro zdiv_mono1) auto
  finally show ?thesis .
qed

lemma challenge_inv_sent:
  assumes inv: "challenge_inv t0 now s" and later: "now \<le> now'"
    and sent: "send_code_rows phone dig now' expiry (cs_own s, budget) = Inr (own, budget')"
  shows "challenge_inv t0 now' (s\<lparr>cs_own := own, cs_guesses := 0, cs_codes := cs_codes s + 1\<rparr>)"
proof -
  define v where "v = ne_verification (cs_own s)"
  from sent obtain v' where admit: "admit_send now' v = Inr v'"
    and own: "ne_verification own = (count_send now' v')\<lparr>pc_phone := phone, pc_hash := dig,
              pc_state := ''code'', pc_attempts := 0, pc_expires_at := expiry\<rparr>"
    by (auto simp: send_code_rows_def v_def Let_def split: if_splits sum.splits)
  note facts = admit_send_Inr [OF admit]
  from inv have old: "0 \<le> pc_sends v" "pc_sends v \<le> 5" "pc_window_started v \<le> now" "t0 \<le> now" "hour \<le> t0"
    and codes: "cs_codes s = 0 \<and> pc_window_started v = 0 \<or> (t0 \<le> pc_window_started v \<and>
         int (cs_codes s) \<le> 5 * ((pc_window_started v - t0) div hour) + pc_sends v \<and>
         int (cs_codes s) * minute \<le> pc_next_send_at v - t0)"
    by (simp_all add: challenge_inv_def v_def Let_def)
  have pos: "0 < hour" "0 < minute" by (simp_all add: duration_defs)
  have minutes: "(int (cs_codes s) + 1) * minute \<le> now' + minute - t0"
    using codes facts(1) old(4) later pos by (auto simp: algebra_simps)
  from facts(3) show ?thesis
  proof
    assume same: "v' = v \<and> now' - pc_window_started v < hour"
    with codes old later have "\<not> (cs_codes s = 0 \<and> pc_window_started v = 0)" by auto
    with codes have codes: "t0 \<le> pc_window_started v"
      "int (cs_codes s) \<le> 5 * ((pc_window_started v - t0) div hour) + pc_sends v" by auto
    with same facts(2) old later minutes show ?thesis
      by (simp add: challenge_inv_def own count_send_def Let_def algebra_simps)
  next
    assume new: "v' = v\<lparr>pc_window_started := now', pc_sends := 0\<rparr> \<and> hour \<le> now' - pc_window_started v"
    have "int (cs_codes s) \<le> 5 * ((now' - t0) div hour)"
    proof (cases "cs_codes s = 0")
      case True
      with old(4) later pos show ?thesis by (simp add: pos_imp_zdiv_nonneg_iff)
    next
      case False
      with codes new old(2) next_window [of now' "pc_window_started v" t0] show ?thesis by auto
    qed
    with new old later minutes show ?thesis
      by (simp add: challenge_inv_def own count_send_def Let_def algebra_simps)
  qed
qed

lemma challenge_inv_guessed:
  assumes inv: "challenge_inv t0 now s" and later: "now \<le> now'"
    and guess: "confirm_rows digest user code now' (cs_own s, cs_proof s) = (g, own, prf)"
  shows "challenge_inv t0 now' (s\<lparr>cs_own := own, cs_proof := prf,
       cs_guesses := cs_guesses s + (if guess_compared now' (cs_own s) then 1 else 0)\<rparr>)"
proof -
  let ?v = "ne_verification (cs_own s)" and ?w = "ne_verification own"
  have attempts: "pc_attempts ?w = pc_attempts ?v + (if guess_compared now' (cs_own s) then 1 else 0)"
    using guess by (auto simp: confirm_rows_def guess_compared_def Let_def split: if_splits)
  have budget: "pc_sends ?w = pc_sends ?v" "pc_window_started ?w = pc_window_started ?v"
      "pc_next_send_at ?w = pc_next_send_at ?v"
    using guess by (auto simp: confirm_rows_def Let_def split: if_splits)
  have "pc_attempts ?w \<le> 5" using inv attempts by (auto simp: challenge_inv_def guess_compared_def Let_def split: if_splits)
  with inv later attempts show ?thesis by (auto simp: challenge_inv_def budget Let_def)
qed

lemma challenge_step_inv:
  assumes "challenge_step digest user now s now' s'" "challenge_inv t0 now s"
  shows "challenge_inv t0 now' s'"
  using assms
proof (induction rule: challenge_step.induct)
  case (sent phone code now' s budget own budget' now)
  from challenge_inv_sent [OF sent.prems sent.hyps(2,1)] show ?case .
next
  case (guessed code now' s g own q now)
  from challenge_inv_guessed [OF guessed.prems guessed.hyps(2,1)] show ?case .
next
  case (started now' s own now)
  then show ?case
    by (auto simp: begin_challenge_def challenge_inv_def Let_def split: if_splits)
next
  case (cancelled s own now now')
  then show ?case by (auto simp: cancel_challenge_def challenge_inv_def Let_def)
next
  case (contact phone mid now' s first own q now)
  then show ?case by (auto simp: accept_contact_def challenge_inv_def Let_def split: if_splits)
qed

lemma challenge_run_inv:
  "challenge_run digest user now s now' s' \<Longrightarrow> challenge_inv t0 now s \<Longrightarrow> challenge_inv t0 now' s'"
  by (induction rule: challenge_run.induct) (auto intro: challenge_step_inv)

lemma new_challenge_inv: "hour \<le> t0 \<Longrightarrow> challenge_inv t0 t0 new_challenge"
  by (simp add: challenge_inv_def new_challenge_def zero_challenge_def hour_bounds order_trans [OF less_imp_le [OF hour_bounds(3)]])

lemma challenge_inv_guesses: "challenge_inv t0 now s \<Longrightarrow> cs_guesses s \<le> 5"
  by (simp add: challenge_inv_def Let_def)

lemma challenge_inv_codes:
  assumes "challenge_inv t0 now s"
  shows "int (cs_codes s) \<le> 5 * ((now - t0) div hour + 1)"
proof -
  let ?v = "ne_verification (cs_own s)"
  have pos: "0 < hour" by (simp add: duration_defs)
  show ?thesis
  proof (cases "cs_codes s = 0")
    case True
    from assms have "0 \<le> now - t0" by (simp add: challenge_inv_def Let_def)
    with pos have "0 \<le> (now - t0) div hour" by (simp add: pos_imp_zdiv_nonneg_iff)
    with True show ?thesis by simp
  next
    case False
    with assms have bounds: "int (cs_codes s) \<le> 5 * ((pc_window_started ?v - t0) div hour) + pc_sends ?v"
      "pc_sends ?v \<le> 5" "pc_window_started ?v \<le> now" by (auto simp: challenge_inv_def Let_def)
    have "(pc_window_started ?v - t0) div hour \<le> (now - t0) div hour"
      using bounds(3) pos by (intro zdiv_mono1) auto
    with bounds show ?thesis by simp
  qed
qed

section \<open>Proofs of ownership\<close>

lemma confirm_right:
  "confirm_rows digest user code now (own, prf) = (GuessRight phone, own', prf') \<Longrightarrow>
     pc_state (ne_verification own) = ''code'' \<and> now < pc_expires_at (ne_verification own) \<and>
     pc_attempts (ne_verification own) < 5 \<and> length code = 6 \<and> phone = pc_phone (ne_verification own) \<and>
     pc_hash (ne_verification own) = digest phone code \<and> prf' = proof_entry phone user now \<and>
     pc_state (ne_verification own') = []"
  by (auto simp: confirm_rows_def Let_def time_defs split: if_splits)

lemma confirm_wrong:
  "confirm_rows digest user code now (own, prf) = (g, own', prf') \<Longrightarrow> (\<nexists>phone. g = GuessRight phone) \<Longrightarrow> prf' = prf"
  by (auto simp: confirm_rows_def Let_def split: if_splits)

text \<open>A code works once: after it was accepted the next guess finds no challenge.\<close>

lemma confirm_once:
  assumes "confirm_rows digest user code now (own, prf) = (GuessRight phone, own', prf')"
  shows "confirm_rows digest user code' now' (own', prf') = (GuessExpired, own', prf')"
proof -
  from confirm_right [OF assms] have "pc_state (ne_verification own') \<noteq> ''code''" by simp
  then show ?thesis by (simp add: confirm_rows_def)
qed

text \<open>The proof on record changes only by the right code or an accepted contact.\<close>

lemma challenge_step_proof:
  assumes "challenge_step digest user now s now' s'" "cs_proof s' \<noteq> cs_proof s"
  shows "(\<exists>code. length code = 6 \<and> pc_state (ne_verification (cs_own s)) = ''code'' \<and>
        now' < pc_expires_at (ne_verification (cs_own s)) \<and>
        pc_hash (ne_verification (cs_own s)) = digest (pc_phone (ne_verification (cs_own s))) code \<and>
        cs_proof s' = proof_entry (pc_phone (ne_verification (cs_own s))) user now') \<or>
     (\<exists>phone. pc_state (ne_verification (cs_own s)) = ''phone'' \<and>
        now' < pc_expires_at (ne_verification (cs_own s)) \<and> cs_proof s' = proof_entry phone user now')"
  using assms
proof (induction rule: challenge_step.induct)
  case (contact phone mid now' s first own q now)
  then show ?case by (auto simp: accept_contact_def Let_def time_defs split: if_splits)
next
  case (guessed code now' s g own q now)
  show ?case
  proof (cases "\<exists>phone. g = GuessRight phone")
    case True
    then obtain phone where "g = GuessRight phone" by blast
    from confirm_right [OF guessed.hyps(1) [unfolded this]] show ?thesis by auto
  next
    case False
    with confirm_wrong [OF guessed.hyps(1)] guessed.prems show ?thesis by simp
  qed
qed simp_all

end
