(* ===== verification/DeliveryProperties.thy ===== *)
theory DeliveryProperties
  imports StoreProperties ReminderLaws DeliveryRace Notifications Cabinet
begin

text \<open>
  The properties of what is sent to customers later: reminders, booking notices with their routes
  and receipts, and the access codes of the private cabinet.
\<close>

section \<open>Reminders\<close>

text \<open>
  C32. A reminder that is not yet due is woken strictly later, within the queue's limit of 29 days,
  never past its due time, and repeating wakes reaches the due time exactly.
\<close>

theorem wakes_reach_due_time:
  assumes "rm_created_at r \<le> now" "now < rm_due_at r"
  shows "now < wake_at r now \<and> wake_at r now \<le> now + max_task_delay \<and> wake_at r now \<le> rm_due_at r \<and>
    wake_chain r now (nat (rm_due_at r - now)) = rm_due_at r"
  using wake_at_bounds [OF assms] wake_chain_due [of r now "nat (rm_due_at r - now)"] assms by auto

theorem wakes_reach_due_time_witness: "wake_chain sample_reminder 10 90 = 100"
  using wakes_reach_due_time [of sample_reminder 10] by (simp add: sample_reminder_def)

text \<open>
  C10. One invocation of the delivery task sends at most one message, only for a reminder that is
  due and not finished and while the appointment is still confirmed for the announced time, and it
  reports failure exactly when that message failed.
\<close>

theorem reminder_sent_once:
  assumes "db_inv (w_db w)" "deliver_reminder env rid w = (res, w')" "logged is_message w' \<noteq> logged is_message w"
  shows "\<exists>r n eff x. get_row (db_reminders (w_db w)) rid = Some r \<and> \<not> reminder_terminal r \<and>
     rm_due_at r \<le> e_now env n \<and> about_current env r eff \<and>
     logged is_message w' = logged is_message w @ [(eff, x)] \<and> (res \<noteq> Inr () \<longleftrightarrow> x \<noteq> None)"
  using deliver_reminder_message [OF _ assms(2,3)] assms(1) by (simp add: db_inv_def)

definition sample_env :: "(nat \<Rightarrow> go_error option) \<Rightarrow> reminder_env" where
  "sample_env outcome = \<lparr>e_now = (\<lambda>n. 200), e_fresh = (\<lambda>n. ''claim''), e_fault = (\<lambda>n. Works), e_outcome = outcome,
     re_senders = (\<lambda>p. if p = ProviderTelegram then Some PlainSender else None), re_resolve_language = None,
     re_conversations = True, re_reader = None, re_lead_time = 800, re_text = (\<lambda>lang b. ''See you soon''),
     re_links = (\<lambda>lang b. []), re_calendar_url = (\<lambda>lang b. []), re_hash = (\<lambda>s. s), re_render_time = (\<lambda>t. [])\<rparr>"

definition sample_world :: world where
  "sample_world = \<lparr>w_db = snd (ensure_reminder sample_reminder sample_store), w_tick = 0, w_log = []\<rparr>"

lemma sample_world_inv: "db_inv (w_db sample_world)"
  using store_reachable_inv [OF sample_store_reachable] by (simp add: sample_world_def ensure_reminder_inv)

theorem reminder_sent_once_witness:
  "\<exists>r. get_row (db_reminders (w_db sample_world)) ''r1'' = Some r \<and> \<not> reminder_terminal r"
proof -
  let ?run = "deliver_reminder (sample_env (\<lambda>n. None)) ''r1'' sample_world"
  have "length (logged is_message (snd ?run)) = 1" "length (logged is_message sample_world) = 0" by code_simp+
  then have "logged is_message (snd ?run) \<noteq> logged is_message sample_world" by (metis zero_neq_one)
  from reminder_sent_once [OF sample_world_inv surjective_pairing this] show ?thesis by blast
qed

text \<open>
  When a claimed delivery fails before its send is recorded, and the store works, the worker's
  claim is gone: the next wake may try again at once.
\<close>

theorem failed_delivery_releases:
  assumes "reliable env" "deliver_body env claimed c now w = (Inl e, w1)" "deliver_claimed env claimed c now w = (res, w')"
  shows "res = Inl e \<and> (\<forall>u. reminder_holder (w_db w') (rm_id claimed) \<noteq> Some (c, u))"
  by (rule deliver_claimed_failure_released [OF assms])

theorem failed_delivery_releases_witness:
  "reminder_holder (w_db (snd (deliver_claimed (sample_env (\<lambda>n. Some (errors_new ''timeout''))) sample_reminder ''w1'' 200
     sample_world))) ''r1'' \<noteq> Some (''w1'', 500)"
proof -
  let ?env = "sample_env (\<lambda>n. Some (errors_new ''timeout''))"
  have ok: "reliable ?env" by (simp add: reliable_def sample_env_def)
  have "isl (fst (deliver_body ?env sample_reminder ''w1'' 200 sample_world))" by code_simp
  then obtain e where "fst (deliver_body ?env sample_reminder ''w1'' 200 sample_world) = Inl e"
    by (auto simp: isl_def)
  then have "deliver_body ?env sample_reminder ''w1'' 200 sample_world =
      (Inl e, snd (deliver_body ?env sample_reminder ''w1'' 200 sample_world))"
    by (metis surjective_pairing)
  from failed_delivery_releases [OF ok this surjective_pairing] show ?thesis
    by (simp add: sample_reminder_def)
qed

section \<open>Routes of booking notices\<close>

text \<open>
  C15. A plan uses each channel at most once, SMS only as the last resort, and every target has what
  permits it: the channel is enabled, the number is the recipient's own, a linked and not withdrawn
  chat or an opted-in WhatsApp with a template; a verification code goes by SMS only.
\<close>

theorem plan_is_permitted:
  assumes "plan lib pol rcpt purp = Inr ts"
  shows "distinct (map tg_channel ts) \<and> SMS \<notin> tg_channel ` set (butlast ts) \<and>
    (purp = Verification \<longrightarrow> tg_channel ` set ts \<subseteq> {SMS}) \<and>
    (\<exists>phone. normalize_phone lib (rp_phone rcpt) = Inr phone \<and> list_all (permitted pol rcpt purp phone) ts)"
proof -
  from assms obtain phone where "normalize_phone lib (rp_phone rcpt) = Inr phone" by (rule plan_Inr)
  with plan_permitted [OF assms] plan_channels [OF assms] show ?thesis by (auto simp: list_all_iff)
qed

definition sample_policy :: policy where
  "sample_policy = \<lparr>pl_order = [WhatsApp, Telegram], pl_enabled = [(Telegram, True), (WhatsApp, True), (SMS, True)],
     pl_templates = [(BookingCreated, ''tpl'')], pl_telegram_account = False\<rparr>"

definition sample_recipient :: recipient where
  "sample_recipient = \<lparr>rp_phone = ''+37491000000'', rp_telegram_chat = ''12'', rp_telegram_phone = ''+37491000000'',
     rp_whatsapp_opted_in = True, rp_whatsapp_opt_in_phone = ''+37491000000'', rp_telegram_opted_out = False,
     rp_updates_requested = True\<rparr>"

theorem plan_is_permitted_witness:
  "distinct (map tg_channel (projr (plan sample_lib sample_policy sample_recipient BookingCreated)))"
proof -
  have "\<not> isl (plan sample_lib sample_policy sample_recipient BookingCreated)" by code_simp
  then have "plan sample_lib sample_policy sample_recipient BookingCreated =
      Inr (projr (plan sample_lib sample_policy sample_recipient BookingCreated))"
    by (simp add: sum.collapse(2))
  from plan_is_permitted [OF this] show ?thesis by blast
qed

text \<open>
  C11. However workers, receipts and recoveries of one event interleave, no route is tried twice, and
  the stored row lists exactly the routes tried.
\<close>

theorem routes_tried_once:
  assumes "race_run race_step (race_start event) s"
  shows "distinct (ra_sends s) \<and> ne_attempted (ra_delivery s) = ra_sends s"
  using race_run_routes_once [OF assms race_start_routes_once] by (simp add: routes_once_def)

theorem routes_tried_once_witness: "distinct (ra_sends late_run)"
  using routes_tried_once [OF late_run_reachable] by blast




section \<open>Consent, receipts and leases of notices\<close>

text \<open>
  C31. Once a phone is withdrawn, and the store works, no notice to it has any route.
\<close>

theorem withdrawal_is_final:
  assumes "reliable env" "normalize_phone (nv_lib env) raw = Inr phone" "block_phone env raw w = (r, w1)"
    and "read_contacts env phone latest row w1 = (Inr cx, w2)"
    and "notice_targets env now phone latest notc cx ready = Inr ts"
  shows "r = Inr () \<and> ts = []"
  by (rule withdrawal_silences [OF assms])

definition sample_notify :: notify_env where
  "sample_notify = \<lparr>e_now = (\<lambda>n. 200), e_fresh = (\<lambda>n. ''owner''), e_fault = (\<lambda>n. Works), e_outcome = (\<lambda>n. None),
     nv_lib = sample_lib, nv_sha = (\<lambda>s. s), nv_json = (\<lambda>a b st ids t d. a), nv_render = (\<lambda>t. []), nv_uuid = (\<lambda>s. s),
     nv_is_uuid = (\<lambda>s. True), nv_reader = (\<lambda>n i. Inr (zero_snapshot\<lparr>sp_phone := ''+37491000000''\<rparr>)),
     nv_rejected = (\<lambda>n. False), nv_activated_at = 0, nv_templates = [], nv_telegram_account = True,
     nv_booking_since = 1, nv_native_language = ''en'', nv_sms_ready = True, nv_sms_since = 0, nv_manual_since = 1,
     nv_sms_status = None, nv_sms_alert = False, nv_health = False, nv_health_provider = [],
     nv_health_read = (\<lambda>n. Inr zero_health), nv_health_alert = False, nv_unrouted = None, nv_cancelled = (\<lambda>n. None)\<rparr>"

lemma sample_notify_reliable: "reliable sample_notify"
  by (simp add: reliable_def sample_notify_def)

lemma Inr_pair: "\<not> isl (fst p) \<Longrightarrow> p = (Inr (projr (fst p)), snd p)"
  by (cases p) (simp add: sum.collapse(2))

lemma read_contacts_total:
  assumes "reliable env"
  shows "\<exists>cx. fst (read_contacts env phone latest row w) = Inr cx"
  using assms
  by (simp add: read_contacts_def get_entry_reliable proc_simps Let_def transact_row_def transact_def reliable_store
      transact_notifications_def on_row_def repair_permission_def split: prod.split sum.split)

lemma notice_targets_total:
  assumes "normalize_phone (nv_lib env) phone = Inr p"
    and "nt_purpose notc \<in> {BookingCreated, BookingChanged, BookingCancelled, BookingReminder}"
  shows "\<exists>ts. notice_targets env now phone latest notc cx ready = Inr ts"
proof -
  have "valid_order [] (messenger_order notc cx)" "messenger_order notc cx \<noteq> []"
    by (simp_all add: messenger_order_def)
  then show ?thesis using assms
    by (auto simp: notice_targets_def plan_def notice_policy_def notice_recipient_def Let_def)
qed

theorem withdrawal_is_final_witness:
  "fst (block_phone sample_notify ''+37491000000'' sample_world) = Inr ()"
proof -
  have phone: "normalize_phone (nv_lib sample_notify) ''+37491000000'' = Inr ''+37491000000''" by code_simp
  let ?w1 = "snd (block_phone sample_notify ''+37491000000'' sample_world)"
  let ?notice = "zero_notice\<lparr>nt_purpose := BookingCreated\<rparr>"
  obtain cx where "fst (read_contacts sample_notify ''+37491000000'' zero_snapshot zero_entry ?w1) = Inr cx"
    using read_contacts_total [OF sample_notify_reliable] by blast
  then have "read_contacts sample_notify ''+37491000000'' zero_snapshot zero_entry ?w1 =
      (Inr cx, snd (read_contacts sample_notify ''+37491000000'' zero_snapshot zero_entry ?w1))"
    by (metis surjective_pairing)
  moreover obtain ts where "notice_targets sample_notify 200 ''+37491000000'' zero_snapshot ?notice cx False = Inr ts"
    using notice_targets_total [OF phone, of ?notice 200 zero_snapshot cx False] by auto
  ultimately show ?thesis
    using withdrawal_is_final [OF sample_notify_reliable phone surjective_pairing] by blast
qed

text \<open>
  A phone that is linked to a live Telegram chat cannot be linked to another one.
\<close>

theorem live_link_kept:
  assumes "ct_chat (ne_contact (row_of rs phone_key)) \<noteq> []" "ct_chat (ne_contact (row_of rs phone_key)) \<noteq> chat"
    and "now < ct_expires_at (ne_contact (row_of rs phone_key))"
  shows "\<exists>e. link_telegram_rows chat_key phone_key old_key chat phone old_phone now rs = Inl e"
  by (rule link_telegram_rows_live_link [OF assms])

theorem live_link_kept_witness:
  "\<exists>e. link_telegram_rows ''c2'' ''p'' None ''2'' ''+37491000000'' [] 50
     [(''p'', zero_entry\<lparr>ne_contact := zero_contact\<lparr>ct_chat := ''1'', ct_expires_at := 99\<rparr>\<rparr>)] = Inl e"
  by (rule live_link_kept) (simp_all add: row_or_def)

text \<open>
  Delivering an event that another worker holds, or that is finished, sends nothing: the first
  is answered busy so that the queue retries, the second is acknowledged.
\<close>

theorem held_event_sends_nothing:
  assumes "reliable env" "ne_provider_state (entry_at w (key_of env ''delivery''
      (ev_record_id (ne_event (entry_at w (key_of env ''event'' i))) @ '':'' @ i))) \<noteq> ''failed''"
    and "idle_event (entry_at w (key_of env ''event'' i)) \<or> (\<forall>n. e_now env n < ne_lease_until (entry_at w (key_of env ''event'' i)))"
    and "deliver_notification env i w = (r, w')"
  shows "logged is_notification w' = logged is_notification w \<and>
     r = (if idle_event (entry_at w (key_of env ''event'' i)) then Inr () else Inl (sentinel_error NotificationBusy))"
  by (rule deliver_refused [OF assms])

theorem held_event_sends_nothing_witness:
  "logged is_notification (snd (deliver_notification sample_notify ''e9'' sample_world)) = logged is_notification sample_world"
proof -
  have "idle_event (entry_at sample_world (key_of sample_notify ''event'' ''e9''))" by code_simp
  moreover have "ne_provider_state (entry_at sample_world (key_of sample_notify ''delivery''
      (ev_record_id (ne_event (entry_at sample_world (key_of sample_notify ''event'' ''e9''))) @ '':'' @ ''e9''))) \<noteq> ''failed''"
    by code_simp
  ultimately show ?thesis
    using held_event_sends_nothing [OF sample_notify_reliable _ _ surjective_pairing] by blast
qed

text \<open>
  Just before sending, the booking is read again: when it is no longer the one the notice was
  prepared for, nothing is sent.
\<close>

theorem changed_booking_sends_nothing:
  assumes "ne_state row \<noteq> ''pending''" "nv_reader env (w_tick w) (ev_record_id (ne_event row)) = Inr latest"
    and "fingerprint env latest \<noteq> nt_fingerprint (ne_notice row)"
    and "deliver_leased env key owner now row w = (r, w')"
  shows "logged is_notification w' = logged is_notification w"
  by (rule deliver_superseded [OF assms])

theorem changed_booking_sends_nothing_witness:
  "logged is_notification (snd (deliver_leased sample_notify ''k'' ''owner'' 200 late_event sample_world)) =
   logged is_notification sample_world"
proof (rule changed_booking_sends_nothing [OF _ _ _ surjective_pairing])
  show "ne_state late_event \<noteq> ''pending''" by (simp add: late_event_def)
  show "nv_reader sample_notify (w_tick sample_world) (ev_record_id (ne_event late_event)) =
      Inr (zero_snapshot\<lparr>sp_phone := ''+37491000000''\<rparr>)" by (simp add: sample_notify_def)
  show "fingerprint sample_notify (zero_snapshot\<lparr>sp_phone := ''+37491000000''\<rparr>) \<noteq> nt_fingerprint (ne_notice late_event)"
    by code_simp
qed

text \<open>
  Staff are told of a failed SMS at most once per event: the alert is reserved in the row in the
  same step, only for a definite failure, and the row is not looked up again.
\<close>

theorem sms_alert_once:
  assumes "sms_status_row can_alert owner now reading row = Inr (Some record_id, row')"
  shows "ne_sms_failure_alerted_at row = 0 \<and> ne_sms_failure_alerted_at row' = now \<and>
    (reading = Inr ''Failed'' \<or> reading = Inr ''Cancelled'') \<and>
    sms_claim_row can_alert owner' now' row' = Inr (SmsIdle, row')"
  using sms_alert_reserved [OF assms] not_awaiting_idle by blast

definition sent_sms :: entry where
  "sent_sms = zero_entry\<lparr>ne_kind := ''event'', ne_state := ''done'', ne_outcome := ''accepted_sms'', ne_lease_owner := ''w''\<rparr>"

theorem sms_alert_once_witness:
  "ne_sms_failure_alerted_at (snd (projr (sms_status_row True ''w'' 70 (Inr ''Failed'') sent_sms))) = 70"
proof -
  have "sms_status_row True ''w'' 70 (Inr ''Failed'') sent_sms =
      Inr (Some [], snd (projr (sms_status_row True ''w'' 70 (Inr ''Failed'') sent_sms)))" by code_simp
  from sms_alert_once [OF this] show ?thesis by blast
qed

text \<open>
  A receipt that arrives after better news changes nothing: read is final, and only read can
  follow delivered.
\<close>

theorem receipts_never_regress:
  assumes "ne_provider_state row = ''read'' \<or> (ne_provider_state row = ''delivered'' \<and> r \<noteq> ''read'')"
  shows "whatsapp_receipt now r (event, row) = (False, event, row)"
  by (rule receipt_final [OF assms])

theorem receipts_never_regress_witness:
  "whatsapp_receipt 9 ''failed'' (late_event, zero_entry\<lparr>ne_provider_state := ''delivered''\<rparr>) =
   (False, late_event, zero_entry\<lparr>ne_provider_state := ''delivered''\<rparr>)"
  by (rule receipts_never_regress) simp

section \<open>The private cabinet\<close>






text \<open>A code that has proved a phone proves nothing a second time.\<close>

theorem code_used_once:
  assumes "confirm_rows digest user code now (own, prf) = (GuessRight phone, own', prf')"
  shows "confirm_rows digest user code' now' (own', prf') = (GuessExpired, own', prf')"
  by (rule confirm_once [OF assms])

definition awaiting_code :: entry where
  "awaiting_code = zero_entry\<lparr>ne_verification := zero_challenge\<lparr>pc_state := ''code'', pc_phone := ''+37491000000'',
     pc_hash := ''123456'', pc_expires_at := 100\<rparr>\<rparr>"

theorem code_used_once_witness:
  "fst (confirm_rows (\<lambda>p c. c) ''12'' ''123456'' 60 (snd (confirm_rows (\<lambda>p c. c) ''12'' ''123456'' 50 (awaiting_code, zero_entry)))) =
   GuessExpired"
proof -
  let ?r = "confirm_rows (\<lambda>p c. c) ''12'' ''123456'' 50 (awaiting_code, zero_entry)"
  have "?r = (GuessRight ''+37491000000'', fst (snd ?r), snd (snd ?r))" by code_simp
  from code_used_once [OF this, of "''123456''" 60] show ?thesis by simp
qed

end
