(* ===== verification/Session.thy ===== *)
theory Session
  imports Reminders Cabinet
begin

text \<open>
  The state one reply of the assistant is produced against (\<open>session\<close> in
  \<open>internal/application/assistant/tools.go\<close>), the options a tool puts in front of the customer, and
  the procedures of a turn: a procedure of the outside world lifted to a turn, and reads and
  updates of the session. The wording of fixed replies and buttons stays symbolic: a reply names
  its text, its language and what it renders.
\<close>

section \<open>Data\<close>

datatype offering =
    OfferWhatToolsSaid | OfferBookingConfirmation | OfferChangeConfirmation | OfferHelp | OfferMenu
  | OfferNavigation | OfferWorkflow

datatype reply_text =
    NoReply
  | CabinetText string string
  | BookingVerification string provider
  | ConfirmationText string booking string
  | CancelledText string booking
  | AskConsent reply_text string
  | Phrase string string
  | ModelText string
  | GreetedWith string reply_text
  | LanguageList
  | LanguageChosen string
  | VerifiedDraft string draft
  | AppointmentLines string "(booking \<times> string) list"
  | ServiceDetail string service bool
  | ServiceList string string "(string \<times> service option) list"
  | TimeAdditionText string
  | StaffPrompt string service
  | NoDates string
  | DatePrompt string service staff
  | TimePrompt string service bool time

abbreviation ReasonCustomerAsked :: string where "ReasonCustomerAsked \<equiv> ''customer_asked''"
abbreviation ReasonBookingUnresolved :: string where "ReasonBookingUnresolved \<equiv> ''booking_unresolved''"

record session =
  ss_request_contact :: bool
  ss_conv :: conversation
  ss_customer :: customer
  ss_incoming :: string
  ss_final_reply :: reply_text
  ss_final_links :: "link list"
  ss_handoff_reason :: string
  ss_handoff_detail :: handoff_detail
  ss_language :: string
  ss_choices :: "choice list"
  ss_candidates :: "choice list"
  ss_offering :: offering

section \<open>Options put in front of the customer\<close>

definition choices_of :: "string list \<Rightarrow> choice list" where
  "choices_of labels = map (\<lambda>l. \<lparr>ch_label = l\<rparr>) labels"

definition offer :: "string list \<Rightarrow> session \<Rightarrow> session" where
  "offer labels s =
     (if labels = [] then s\<lparr>ss_offering := OfferWhatToolsSaid, ss_choices := [], ss_candidates := []\<rparr>
      else s\<lparr>ss_offering := OfferWhatToolsSaid, ss_choices := [],
        ss_candidates := ss_candidates s @ choices_of labels\<rparr>)"

definition offer_all :: "string list \<Rightarrow> session \<Rightarrow> session" where
  "offer_all labels s =
     (if labels = [] then offer [] s
      else s\<lparr>ss_offering := OfferWorkflow, ss_candidates := choices_of labels, ss_choices := choices_of labels\<rparr>)"

fun admit_labels :: "string list \<Rightarrow> string list \<Rightarrow> choice list \<Rightarrow> choice list" where
  "admit_labels allowed [] chosen = chosen"
| "admit_labels allowed (l # ls) chosen =
     (let label = trim_space l in
      if label \<notin> set allowed then admit_labels allowed ls chosen
      else admit_labels (removeAll label allowed) ls (chosen @ [\<lparr>ch_label = label\<rparr>]))"

definition select_choices :: "string list \<Rightarrow> session \<Rightarrow> session" where
  "select_choices labels s =
     (if ss_offering s = OfferWorkflow \<or> ss_offering s = OfferNavigation then s
      else s\<lparr>ss_choices := admit_labels (map ch_label (ss_candidates s)) labels []\<rparr>)"

definition offer_fixed :: "offering \<Rightarrow> session \<Rightarrow> session" where
  "offer_fixed kind s = s\<lparr>ss_offering := kind, ss_choices := []\<rparr>"

definition present :: "string list \<Rightarrow> session \<Rightarrow> session" where
  "present labels s =
     s\<lparr>ss_offering := OfferNavigation, ss_candidates := choices_of labels, ss_choices := choices_of labels\<rparr>"

lemma admit_labels_sound:
  "set (map ch_label (admit_labels allowed ls chosen)) \<subseteq> set (map ch_label chosen) \<union> set allowed"
proof (induction allowed ls chosen rule: admit_labels.induct)
  case (2 allowed l ls chosen)
  show ?case
  proof (cases "trim_space l \<in> set allowed")
    case True
    have "set (map ch_label (admit_labels (removeAll (trim_space l) allowed) ls
        (chosen @ [\<lparr>ch_label = trim_space l\<rparr>]))) \<subseteq>
      set (map ch_label (chosen @ [\<lparr>ch_label = trim_space l\<rparr>])) \<union> set (removeAll (trim_space l) allowed)"
      by (rule "2.IH"(2) [OF refl]) (use True in simp)
    also have "\<dots> \<subseteq> set (map ch_label chosen) \<union> set allowed" using True by auto
    finally show ?thesis using True by (simp only: admit_labels.simps Let_def if_False not_not simp_thms)
  next
    case False
    with "2.IH"(1) [OF refl False] show ?thesis by (simp only: admit_labels.simps Let_def if_True simp_thms)
  qed
qed simp

lemma admit_labels_distinct:
  "distinct (map ch_label chosen) \<Longrightarrow> set (map ch_label chosen) \<inter> set allowed = {} \<Longrightarrow>
   distinct (map ch_label (admit_labels allowed ls chosen))"
proof (induction allowed ls chosen rule: admit_labels.induct)
  case (2 allowed l ls chosen)
  then show ?case
  proof (cases "trim_space l \<in> set allowed")
    case True
    have "distinct (map ch_label (admit_labels (removeAll (trim_space l) allowed) ls
        (chosen @ [\<lparr>ch_label = trim_space l\<rparr>])))"
      by (rule "2.IH"(2) [OF refl]) (use True "2.prems" in auto)
    with True show ?thesis by (simp add: Let_def)
  next
    case False
    with "2.IH"(1) [OF refl False] "2.prems" show ?thesis by (simp add: Let_def)
  qed
qed simp

section \<open>Turns\<close>

record turn =
  tn_world :: world
  tn_session :: session

definition outside :: "(world, 'a) proc \<Rightarrow> (turn, 'a) proc" where
  "outside m tn = (case m (tn_world tn) of (r, w) \<Rightarrow> (r, tn\<lparr>tn_world := w\<rparr>))"

definition with_session :: "(session \<Rightarrow> (turn, 'a) proc) \<Rightarrow> (turn, 'a) proc" where
  "with_session k tn = k (tn_session tn) tn"

definition modify :: "(session \<Rightarrow> session) \<Rightarrow> (turn, 'a) proc \<Rightarrow> (turn, 'a) proc" where
  "modify f k tn = k (tn\<lparr>tn_session := f (tn_session tn)\<rparr>)"

definition on_conv :: "(conversation \<Rightarrow> conversation) \<Rightarrow> session \<Rightarrow> session" where
  "on_conv f s = s\<lparr>ss_conv := f (ss_conv s)\<rparr>"

text \<open>\<open>x, err := f()\<close> for a value already at hand.\<close>

definition given :: "'a result \<Rightarrow> ('s, 'a) proc" where
  "given r = (case r of Inl e \<Rightarrow> fail e | Inr x \<Rightarrow> ret x)"

text \<open>An effect that answers with a value: it is logged with the error it got back.\<close>

definition invoke :: "effect \<Rightarrow> (nat \<Rightarrow> 'a result) \<Rightarrow> (world, 'a) proc" where
  "invoke eff f w =
     (f (w_tick w),
      tick (w\<lparr>w_log := w_log w @ [(eff, case f (w_tick w) of Inl e \<Rightarrow> Some e | Inr _ \<Rightarrow> None)]\<rparr>))"

definition try_transition :: "conv_state \<Rightarrow> time \<Rightarrow> conversation \<Rightarrow> conversation" where
  "try_transition st at c = (case transition_to c st at of Inl _ \<Rightarrow> c | Inr c' \<Rightarrow> c')"

lemma outside_apply [proc_simps]:
  "outside m tn = (case m (tn_world tn) of (r, w) \<Rightarrow> (r, tn\<lparr>tn_world := w\<rparr>))"
  by (simp add: outside_def)

lemma with_session_apply [proc_simps]: "with_session k tn = k (tn_session tn) tn"
  by (simp add: with_session_def)

lemma modify_apply [proc_simps]: "modify f k tn = k (tn\<lparr>tn_session := f (tn_session tn)\<rparr>)"
  by (simp add: modify_def)

lemma session_simps [simp]:
  "ss_conv (offer ls s) = ss_conv s" "ss_conv (offer_all ls s) = ss_conv s"
  "ss_conv (offer_fixed k s) = ss_conv s" "ss_conv (present ls s) = ss_conv s"
  "ss_conv (select_choices ls s) = ss_conv s"
  "ss_incoming (offer ls s) = ss_incoming s" "ss_incoming (offer_all ls s) = ss_incoming s"
  "ss_incoming (offer_fixed k s) = ss_incoming s" "ss_incoming (present ls s) = ss_incoming s"
  "ss_customer (offer ls s) = ss_customer s" "ss_customer (offer_all ls s) = ss_customer s"
  "ss_customer (offer_fixed k s) = ss_customer s" "ss_customer (present ls s) = ss_customer s"
  "ss_conv (on_conv f s) = f (ss_conv s)" "ss_incoming (on_conv f s) = ss_incoming s"
  "ss_customer (on_conv f s) = ss_customer s"
  by (simp_all add: offer_def offer_all_def offer_fixed_def present_def select_choices_def on_conv_def)

lemma try_transition_simps [simp]:
  "cv_draft (try_transition st at c) = cv_draft c" "cv_change (try_transition st at c) = cv_change c"
  by (simp_all add: try_transition_def transition_to_def enter_state_def Let_def)

lemma quiet_invoke [quiet_intros]: "\<not> K eff \<Longrightarrow> quiet K (invoke eff f)"
  by (simp add: quiet_def invoke_def logged_def)

lemma quiet_given [quiet_intros]: "quiet K (given r)"
  by (cases r) (simp_all add: given_def quiet_ret quiet_fail)

end
