(* ===== verification/BookingTools.thy ===== *)
theory BookingTools
  imports Session
begin

text \<open>
  The tools that prepare and create an appointment
  (\<open>internal/application/assistant/tools.go\<close>, \<open>service_availability.go\<close>,
  \<open>booking_verification.go\<close>, \<open>reminder_consent.go\<close>). The scheduling provider, the parsing and
  rendering of local times and the wording are fields of the environment; a call to the provider
  that creates, cancels or moves an appointment is an effect of the log, with the error it got.
  The JSON a tool returns to the model is a value of \<open>answer\<close> with the data the code encodes.
\<close>

section \<open>The environment\<close>

record filtered_calendar =
  fc_services_for_staff :: "nat \<Rightarrow> string \<Rightarrow> service list result"
  fc_staff_for_services :: "nat \<Rightarrow> string list \<Rightarrow> staff list result"
  fc_dates_for_services :: "nat \<Rightarrow> string \<Rightarrow> string list \<Rightarrow> time list result"
  fc_slots_for_services :: "nat \<Rightarrow> string \<Rightarrow> time \<Rightarrow> string list \<Rightarrow> slot list result"

record tool_env = reminder_env +
  tl_identity :: "cabinet_env option"
  tl_bookings :: bool
  tl_customers :: bool
  tl_reminders :: bool
  tl_lib :: "string \<Rightarrow> string option"
  tl_services :: "nat \<Rightarrow> service list result"
  tl_staff :: "nat \<Rightarrow> staff list result"
  tl_dates :: "nat \<Rightarrow> string \<Rightarrow> time list result"
  tl_slots :: "nat \<Rightarrow> string \<Rightarrow> time \<Rightarrow> slot list result"
  tl_filtered :: "filtered_calendar option"
  tl_check :: "nat \<Rightarrow> selection \<Rightarrow> go_error option"
  tl_create :: "nat \<Rightarrow> request \<Rightarrow> booking result"
  tl_reschedule :: "nat \<Rightarrow> booking \<Rightarrow> time \<Rightarrow> booking result"
  tl_phone_bookings :: "(nat \<Rightarrow> string \<Rightarrow> time \<Rightarrow> booking list result) option"
  tl_read_booking :: "(nat \<Rightarrow> booking \<Rightarrow> booking result) option"
  tl_management_proof :: "(nat \<Rightarrow> string \<Rightarrow> string \<Rightarrow> (string \<times> string) result) option"
  tl_parse_time :: "string \<Rightarrow> time option"
  tl_parse_day :: "string \<Rightarrow> time option"
  tl_day_start :: "time \<Rightarrow> time"
  tl_clock_text :: "time \<Rightarrow> string"
  tl_day_label :: "time \<Rightarrow> string"
  tl_links :: "string \<Rightarrow> string \<Rightarrow> string \<Rightarrow> link list"
  tl_words :: "string \<Rightarrow> string \<Rightarrow> string"
  tl_equal_fold :: "string \<Rightarrow> string \<Rightarrow> bool"
  tl_to_lower :: "string \<Rightarrow> string"

datatype answer =
    AskVerification
  | BookingUnverified
  | NotQualified string string string "(string \<times> string) list"
  | BookingPrepared string string time duration string string string
  | Booked string "string list" string time
  | BookingTaken
  | BookingUnknown
  | NoAppointments
  | Appointments "(string \<times> time \<times> string list \<times> string \<times> bool) list"
  | AlreadyCancelled string
  | CancelPrepared bool string time
  | Cancelled string "time option"
  | MovePrepared bool string time time
  | Moved string time
  | MoveTaken
  | ChangeUnknown
  | HandedOver
  | NoCategory string "(string \<times> int) list"
  | Services "service list" string
  | Categories "(string \<times> int) list"
  | StaffList "staff list" string
  | Dates "time list" string
  | Times string string "string list"

abbreviation now_in :: "'e env_scheme \<Rightarrow> (turn, time) proc" where
  "now_in env \<equiv> outside (clock env)"

abbreviation ask_in :: "(nat \<Rightarrow> 'a result) \<Rightarrow> (turn, 'a) proc" where
  "ask_in f \<equiv> outside (ask f)"

section \<open>Reading the catalogue\<close>

definition parse_appointment_time :: "'e tool_env_scheme \<Rightarrow> string \<Rightarrow> string \<Rightarrow> (turn, time) proc" where
  "parse_appointment_time env date clock_text =
     (case tl_parse_time env (trim_space date @ '' '' @ trim_space clock_text) of
        None \<Rightarrow> fail (errors_new ''could not read the date and time; use YYYY-MM-DD and HH:MM'')
      | Some starts_at \<Rightarrow> attempt (now_in env) id (\<lambda>now.
          if \<not> after starts_at now
          then attempt (now_in env) id (\<lambda>_. fail (errors_new ''has already passed''))
          else ret starts_at))"

definition find_service :: "'e tool_env_scheme \<Rightarrow> string \<Rightarrow> (turn, service) proc" where
  "find_service env service_id =
     attempt (ask_in (tl_services env)) id (\<lambda>services.
       case find (\<lambda>s. sv_id s = service_id) services of
         Some s \<Rightarrow> ret s
       | None \<Rightarrow> fail (errors_new ''there is no service with this id; call list_services''))"

definition find_staff :: "'e tool_env_scheme \<Rightarrow> string \<Rightarrow> (turn, staff) proc" where
  "find_staff env staff_id =
     attempt (ask_in (tl_staff env)) id (\<lambda>staff.
       case find (\<lambda>s. st_id s = staff_id) staff of
         Some s \<Rightarrow> ret s
       | None \<Rightarrow> fail (errors_new ''there is no specialist with this id; call list_staff''))"

definition is_time_addition :: "'e tool_env_scheme \<Rightarrow> service \<Rightarrow> bool" where
  "is_time_addition env s \<longleftrightarrow> tl_to_lower env (trim_space (sv_category s)) = ''add more time''"

definition require_service :: "'e tool_env_scheme \<Rightarrow> string \<Rightarrow> (turn, unit) proc" where
  "require_service env service_id =
     (if service_id = [] then fail (errors_new ''choose a service first and supply its service_id from list_services'')
      else attempt (find_service env service_id) id (\<lambda>_. ret ()))"

definition staff_for_service :: "'e tool_env_scheme \<Rightarrow> string \<Rightarrow> (turn, staff list) proc" where
  "staff_for_service env service_id =
     (if service_id = [] then ask_in (tl_staff env)
      else attempt (find_service env service_id) id (\<lambda>_.
        case tl_filtered env of
          Some calendar \<Rightarrow> ask_in (\<lambda>n. fc_staff_for_services calendar n [service_id])
        | None \<Rightarrow> ask_in (tl_staff env)))"

definition dates_for_service :: "'e tool_env_scheme \<Rightarrow> string \<Rightarrow> string \<Rightarrow> (turn, time list) proc" where
  "dates_for_service env staff_id service_id =
     (case tl_filtered env of
        Some calendar \<Rightarrow> attempt (require_service env service_id) id (\<lambda>_.
          ask_in (\<lambda>n. fc_dates_for_services calendar n staff_id [service_id]))
      | None \<Rightarrow> ask_in (\<lambda>n. tl_dates env n staff_id))"

definition slots_for_service :: "'e tool_env_scheme \<Rightarrow> string \<Rightarrow> time \<Rightarrow> string \<Rightarrow> (turn, slot list) proc" where
  "slots_for_service env staff_id day service_id =
     (case tl_filtered env of
        Some calendar \<Rightarrow> attempt (require_service env service_id) id (\<lambda>_.
          ask_in (\<lambda>n. fc_slots_for_services calendar n staff_id day [service_id]))
      | None \<Rightarrow> ask_in (\<lambda>n. tl_slots env n staff_id day))"

definition service_for_staff :: "'e tool_env_scheme \<Rightarrow> string \<Rightarrow> service \<Rightarrow> (turn, service \<times> bool) proc" where
  "service_for_staff env staff_id service =
     (case tl_filtered env of
        None \<Rightarrow> ret (service, True)
      | Some calendar \<Rightarrow> attempt (ask_in (\<lambda>n. fc_services_for_staff calendar n staff_id)) id (\<lambda>services.
          case find (\<lambda>s. sv_id s = sv_id service) services of
            Some candidate \<Rightarrow> ret (candidate, True)
          | None \<Rightarrow> ret (service, False)))"

definition offer_qualified_staff :: "'e tool_env_scheme \<Rightarrow> service \<Rightarrow> staff \<Rightarrow> (turn, answer) proc" where
  "offer_qualified_staff env service requested =
     attempt (staff_for_service env (sv_id service)) id (\<lambda>staff.
       let qualified = filter st_bookable staff in
       modify (offer_all (map st_name qualified))
         (ret (NotQualified (sv_name service) (sv_id service) (st_name requested)
           (map (\<lambda>s. (st_id s, st_name s)) qualified))))"

definition appointment_length ::
  "'e tool_env_scheme \<Rightarrow> string \<Rightarrow> time \<Rightarrow> string \<Rightarrow> duration \<Rightarrow> (turn, duration) proc" where
  "appointment_length env staff_id starts_at service_id service_duration =
     attempt (slots_for_service env staff_id (tl_day_start env starts_at) service_id) id (\<lambda>slots.
       case find (\<lambda>s. sl_start s = starts_at) slots of
         Some s \<Rightarrow> if sl_duration s > 0 then ret (sl_duration s)
           else if service_duration > 0 then ret service_duration
           else fail (wrapping BookingRejected ''no appointment length is set for this service or time'')
       | None \<Rightarrow> fail (wrapping SlotUnavailable ''is not one of the free times''))"

section \<open>Verification prompts and contact details\<close>

definition verification_prompt :: "'e tool_env_scheme \<Rightarrow> cabinet_env \<Rightarrow> (turn, reply_text) proc" where
  "verification_prompt env identity =
     modify (offer []) (with_session (\<lambda>s.
       let text = CabinetText (ss_language s);
           provider = cv_provider (ss_conv s); thread = cv_thread_id (ss_conv s) in
       observe (outside (cabinet_pending identity provider thread)) (\<lambda>reply. case reply of
         Inl _ \<Rightarrow> ret (text ''unavailable'')
       | Inr state \<Rightarrow> if state = ''code'' then ret (text ''code'')
         else observe (outside (cabinet_begin identity provider thread)) (\<lambda>reply. case reply of
           Inl _ \<Rightarrow> ret (text ''unavailable'')
         | Inr _ \<Rightarrow> if provider = ProviderTelegram
             then modify (\<lambda>s. s\<lparr>ss_request_contact := True\<rparr>) (ret (text ''contact''))
             else ret (text ''phone'')))))"

definition await_verification :: "conversation \<Rightarrow> conversation" where
  "await_verification c =
     c\<lparr>cv_draft := map_option (\<lambda>d. d\<lparr>dr_awaiting_phone_verification := True\<rparr>) (cv_draft c)\<rparr>"

definition booking_verification_prompt ::
  "'e tool_env_scheme \<Rightarrow> cabinet_env \<Rightarrow> string \<Rightarrow> (turn, reply_text) proc" where
  "booking_verification_prompt env identity phone =
     modify (on_conv await_verification)
      (attempt (verification_prompt env identity) id (\<lambda>prompt. with_session (\<lambda>s.
        if prompt \<noteq> CabinetText (ss_language s) ''phone'' \<and> prompt \<noteq> CabinetText (ss_language s) ''contact''
        then ret prompt
        else if cv_provider (ss_conv s) = ProviderTelegram
        then ret (BookingVerification (ss_language s) ProviderTelegram)
        else modify (present [phone, ''/verify_cancel''])
          (ret (BookingVerification (ss_language s) (cv_provider (ss_conv s)))))))"

definition remember_contact :: "'e tool_env_scheme \<Rightarrow> string \<Rightarrow> string \<Rightarrow> (turn, unit) proc" where
  "remember_contact env name phone = with_session (\<lambda>s.
     if \<not> tl_customers env \<or> phone = [] then ret ()
     else if cu_phone (ss_customer s) = phone \<and> (name = [] \<or> cu_name (ss_customer s) = name) then ret ()
     else attempt (now_in env) id (\<lambda>now.
       observe (outside (store env (update_contact now (cu_id (ss_customer s)) name phone))) (\<lambda>reply. case reply of
         Inl _ \<Rightarrow> ret ()
       | Inr _ \<Rightarrow> modify (\<lambda>s. let c = (ss_customer s)\<lparr>cu_phone := phone\<rparr> in
           s\<lparr>ss_customer := (if name \<noteq> [] then c\<lparr>cu_name := name\<rparr> else c)\<rparr>) (ret ()))))"

definition channel_name :: "provider \<Rightarrow> string" where
  "channel_name p =
     (if p = ProviderTelegram then ''Telegram'' else if p = ProviderWhatsApp then ''WhatsApp''
      else if p = ProviderMessenger then ''Facebook Messenger'' else if p = ProviderInstagram then ''Instagram''
      else if p = [] then ''chat'' else p)"

definition booking_comment :: "provider \<Rightarrow> string \<Rightarrow> string" where
  "booking_comment p customer_name =
     (let name = trim_space customer_name in
      ''Booked by the online assistant via '' @ channel_name p @ ''.'' @
      (if name \<noteq> [] then '' Name given in the chat: '' @ name else []))"

definition offer_reminder_consent :: "'e tool_env_scheme \<Rightarrow> session \<Rightarrow> session" where
  "offer_reminder_consent env s =
     (if cv_provider (ss_conv s) \<noteq> ProviderWhatsApp \<or> cv_reminder_opt_in (ss_conv s) then s
      else if \<not> tl_reminders env \<or> \<not> supports_reminder env (cv_provider (ss_conv s)) (ss_language s) then s
      else present [tl_words env (ss_language s) ''enable'', tl_words env (ss_language s) ''disable'']
        (s\<lparr>ss_final_reply := AskConsent (ss_final_reply s) (ss_language s)\<rparr>))"

section \<open>Preparing a booking\<close>

record prepare_args =
  pa_service_id :: string
  pa_staff_id :: string
  pa_date :: string
  pa_time :: string
  pa_phone :: string
  pa_full_name :: string

definition drop_proposals :: "conversation \<Rightarrow> conversation" where
  "drop_proposals c = c\<lparr>cv_draft := None, cv_change := None\<rparr>"

definition new_draft ::
  "string \<Rightarrow> service \<Rightarrow> staff \<Rightarrow> time \<Rightarrow> duration \<Rightarrow> string \<Rightarrow> string \<Rightarrow> time \<Rightarrow> string \<Rightarrow> draft" where
  "new_draft key service staff starts_at len phone name now message_id =
     \<lparr>dr_idempotency_key = ''omnichannel-'' @ key, dr_service_ids = [sv_id service],
      dr_service_names = [sv_name service], dr_price_label = sv_price_label service,
      dr_staff_id = st_id staff, dr_staff_name = st_name staff, dr_starts_at = starts_at,
      dr_duration = len, dr_phone = phone, dr_customer_name = name,
      dr_awaiting_phone_verification = False, dr_prepared_at = now, dr_prepared_from = message_id\<rparr>"

definition unproved_phone :: "'e tool_env_scheme \<Rightarrow> session \<Rightarrow> string \<Rightarrow> cabinet_env option" where
  "unproved_phone env s phone = (if cu_verified_phone (ss_customer s) \<noteq> phone then tl_identity env else None)"

definition propose_draft :: "'e tool_env_scheme \<Rightarrow> draft \<Rightarrow> service \<Rightarrow> staff \<Rightarrow> (turn, answer) proc" where
  "propose_draft env d service staff =
     attempt (now_in env) id (\<lambda>now. case draft_validate d now of Some e \<Rightarrow> fail e | None \<Rightarrow>
     attempt (ask_in (\<lambda>n. case tl_check env n (draft_selection d) of Some e \<Rightarrow> Inl e | None \<Rightarrow> Inr ())) id (\<lambda>_.
     modify (on_conv (\<lambda>c. c\<lparr>cv_draft := Some d, cv_change := None\<rparr>)) (with_session (\<lambda>s.
       case unproved_phone env s (dr_phone d) of
         Some identity \<Rightarrow> attempt (booking_verification_prompt env identity (dr_phone d)) id (\<lambda>prompt.
           modify (\<lambda>s. s\<lparr>ss_final_reply := prompt\<rparr>) (ret BookingUnverified))
       | None \<Rightarrow> modify (offer_fixed OfferBookingConfirmation)
           (ret (BookingPrepared (sv_name service) (st_name staff) (dr_starts_at d) (dr_duration d)
             (sv_price_label service) (dr_phone d) (dr_customer_name d)))))))"

definition prepare_booking :: "'e tool_env_scheme \<Rightarrow> prepare_args \<Rightarrow> (turn, answer) proc" where
  "prepare_booking env args =
     attempt (parse_appointment_time env (pa_date args) (pa_time args)) id (\<lambda>starts_at.
     attempt (given (normalize_phone (tl_lib env) (pa_phone args))) id (\<lambda>phone.
     modify (on_conv drop_proposals) (
     attempt (remember_contact env (trim_space (pa_full_name args)) phone) id (\<lambda>_.
     attempt (find_service env (pa_service_id args)) id (\<lambda>service.
     if is_time_addition env service then fail (errors_new ''extra time cannot be booked alone'')
     else attempt (find_staff env (pa_staff_id args)) id (\<lambda>staff.
     if \<not> st_bookable staff then fail (errors_new ''is not taking appointments at the moment'')
     else attempt (service_for_staff env (st_id staff) service) id (\<lambda>(service, qualified).
     if \<not> qualified then offer_qualified_staff env service staff
     else attempt (appointment_length env (st_id staff) starts_at (sv_id service) (sv_duration service)) id (\<lambda>len.
     attempt (outside (fresh env)) id (\<lambda>key.
     attempt (now_in env) id (\<lambda>now. with_session (\<lambda>s.
       propose_draft env (new_draft key service staff starts_at len phone (trim_space (pa_full_name args)) now
         (ss_incoming s)) service staff)))))))))))"

section \<open>Confirming a booking\<close>

text \<open>The loop over the services of the draft; the value says whether one of them is extra time.\<close>

fun any_time_addition :: "'e tool_env_scheme \<Rightarrow> string list \<Rightarrow> (turn, bool) proc" where
  "any_time_addition env [] = ret False"
| "any_time_addition env (sid # sids) =
     attempt (find_service env sid) id (\<lambda>service.
       if is_time_addition env service then ret True else any_time_addition env sids)"

definition clear_draft :: "conversation \<Rightarrow> conversation" where
  "clear_draft c = c\<lparr>cv_draft := None\<rparr>"

definition leave_catalogue :: "conversation \<Rightarrow> conversation" where
  "leave_catalogue c = c\<lparr>cv_category := [], cv_service := [], cv_staff := [], cv_page := 0\<rparr>"

definition record_booking :: "'e tool_env_scheme \<Rightarrow> booking \<Rightarrow> (turn, bool) proc" where
  "record_booking env b =
     (if \<not> tl_bookings env then ret False
      else observe (outside (store env (save_booking b))) (\<lambda>reply. ret (case reply of Inl _ \<Rightarrow> False | Inr _ \<Rightarrow> True)))"

definition plan_after :: "'e tool_env_scheme \<Rightarrow> bool \<Rightarrow> booking \<Rightarrow> (turn, unit) proc" where
  "plan_after env recorded b = with_session (\<lambda>s.
     if recorded \<and> tl_reminders env
     then observe (outside (plan_reminder env b (ss_conv s) (ss_language s))) (\<lambda>_. ret ())
     else ret ())"

definition confirmation_reply :: "'e tool_env_scheme \<Rightarrow> bool \<Rightarrow> booking \<Rightarrow> session \<Rightarrow> session" where
  "confirmation_reply env recorded b s =
     (let lang = parse_language (ss_language s);
          url = (if recorded then re_calendar_url env lang b else []) in
      s\<lparr>ss_final_reply := ConfirmationText lang b url,
        ss_final_links := tl_links env lang url (bk_external_id b)\<rparr>)"

definition booking_created :: "'e tool_env_scheme \<Rightarrow> draft \<Rightarrow> booking \<Rightarrow> (turn, answer) proc" where
  "booking_created env d created =
     (let created = created\<lparr>bk_customer_name := dr_customer_name d, bk_service_names := dr_service_names d,
        bk_staff_name := dr_staff_name d\<rparr> in
      modify (offer [] \<circ> on_conv (leave_catalogue \<circ> clear_draft)) (
      attempt (record_booking env created) id (\<lambda>recorded.
      attempt (plan_after env recorded created) id (\<lambda>_.
      modify (\<lambda>s. let s = confirmation_reply env recorded created s in
          if recorded then offer_reminder_consent env s else s)
        (ret (Booked (bk_external_id created) (dr_service_names d) (dr_staff_name d) (bk_starts_at created)))))))"

definition booking_unknown :: "'e tool_env_scheme \<Rightarrow> draft \<Rightarrow> (turn, answer) proc" where
  "booking_unknown env d =
     modify (\<lambda>s. s\<lparr>ss_handoff_reason := ReasonBookingUnresolved, ss_handoff_detail := UnresolvedBooking d\<rparr>) (
     attempt (now_in env) id (\<lambda>now.
     modify (on_conv (try_transition StateHumanRequested now)) (ret BookingUnknown)))"

definition booking_request :: "session \<Rightarrow> draft \<Rightarrow> request" where
  "booking_request s d = (draft_to_request d (cu_id (ss_customer s)))
     \<lparr>rq_comment := booking_comment (cv_provider (ss_conv s)) (dr_customer_name d)\<rparr>"

definition send_booking :: "'e tool_env_scheme \<Rightarrow> draft \<Rightarrow> (turn, answer) proc" where
  "send_booking env d = with_session (\<lambda>s.
     let request = booking_request s d in
     observe (outside (invoke (CreateBooking request) (\<lambda>n. tl_create env n request))) (\<lambda>reply. case reply of
       Inr created \<Rightarrow> booking_created env d created
     | Inl e \<Rightarrow>
       if errors_is e SlotUnavailable then modify (on_conv clear_draft) (ret BookingTaken)
       else if errors_is e OutcomeUnknown then booking_unknown env d
       else fail e))"

definition confirm_booking :: "'e tool_env_scheme \<Rightarrow> (turn, answer) proc" where
  "confirm_booking env = with_session (\<lambda>s. case cv_draft (ss_conv s) of
       None \<Rightarrow> fail (errors_new ''there is nothing to confirm; call prepare_booking first'')
     | Some d \<Rightarrow> attempt (now_in env) id (\<lambda>now. case draft_validate d now of
         Some e \<Rightarrow> modify (on_conv clear_draft) (fail e)
       | None \<Rightarrow>
         if dr_prepared_from d = ss_incoming s
         then fail (errors_new ''wait for the customer to confirm in a new message after seeing the summary'')
         else case unproved_phone env s (dr_phone d) of
           Some identity \<Rightarrow> attempt (booking_verification_prompt env identity (dr_phone d)) id (\<lambda>prompt.
             modify (\<lambda>s. s\<lparr>ss_final_reply := prompt\<rparr>) (ret BookingUnverified))
         | None \<Rightarrow> attempt (any_time_addition env (dr_service_ids d)) id (\<lambda>addition.
             if addition
             then modify (on_conv clear_draft) (fail (errors_new ''extra time cannot be booked alone''))
             else send_booking env d)))"

section \<open>Resuming after phone verification\<close>

definition resume_verified_booking :: "'e tool_env_scheme \<Rightarrow> string \<Rightarrow> (turn, draft option) proc" where
  "resume_verified_booking env phone = with_session (\<lambda>s. case cv_draft (ss_conv s) of
       None \<Rightarrow> ret None
     | Some d \<Rightarrow>
       if \<not> dr_awaiting_phone_verification d then ret None
       else if phone = [] \<or> dr_phone d \<noteq> phone then modify (on_conv clear_draft) (ret None)
       else attempt (now_in env) id (\<lambda>now.
         if draft_validate d now \<noteq> None then modify (on_conv clear_draft) (ret None)
         else let d' = d\<lparr>dr_awaiting_phone_verification := False, dr_prepared_from := ss_incoming s\<rparr> in
           modify (offer_fixed OfferBookingConfirmation \<circ> on_conv (\<lambda>c. c\<lparr>cv_draft := Some d'\<rparr>))
             (ret (Some d'))))"

end
