(* ===== verification/ChangeTools.thy ===== *)
theory ChangeTools
  imports BookingTools
begin

text \<open>
  The tools that cancel or move an existing appointment
  (\<open>internal/application/assistant/management.go\<close>), the ownership-scoped history they read
  (\<open>cabinet.go\<close>), and the hand-over to a colleague. The history is sorted by start time; the
  source's sort leaves the order of equal starts unspecified, here they keep their order.
\<close>

section \<open>The customer's appointments\<close>

text \<open>
  The loop over the live history: known appointments keep their local identity and management
  token, others get the identity of a management proof when there is one.
\<close>

fun adopt_live ::
  "'e tool_env_scheme \<Rightarrow> customer \<Rightarrow> booking table \<Rightarrow> booking list \<Rightarrow> (turn, booking list) proc" where
  "adopt_live env cust by_ref [] = ret []"
| "adopt_live env cust by_ref (b # bs) =
     attempt (case get_row by_ref (bk_external_id b) of
         Some old \<Rightarrow> ret (b\<lparr>bk_id := bk_id old, bk_customer_id := bk_customer_id old,
           bk_management_token := bk_management_token old\<rparr>)
       | None \<Rightarrow>
         let b = b\<lparr>bk_id := ''native_'' @ bk_external_id b, bk_customer_id := cu_id cust\<rparr> in
         (case tl_management_proof env of
            None \<Rightarrow> ret b
          | Some proof_of \<Rightarrow> attempt (ask_in (\<lambda>n. proof_of n (bk_external_id b) (cu_verified_phone cust))) id
              (\<lambda>(pid, token). ret (if pid \<noteq> [] \<and> token \<noteq> []
                then b\<lparr>bk_id := pid, bk_management_token := token\<rparr> else b)))) id (\<lambda>b.
     attempt (adopt_live env cust by_ref bs) id (\<lambda>bs. ret (b # bs)))"

fun refresh_local ::
  "'e tool_env_scheme \<Rightarrow> booking list \<Rightarrow> booking table \<Rightarrow> (turn, booking table) proc" where
  "refresh_local env [] by_ref = ret by_ref"
| "refresh_local env (b # bs) by_ref =
     attempt (case tl_read_booking env of
         Some read_booking \<Rightarrow>
           if bk_management_token b = [] then ret b
           else attempt (now_in env) id (\<lambda>now.
             if after (bk_starts_at b) now then ask_in (\<lambda>n. read_booking n b) else ret b)
       | None \<Rightarrow> ret b) id (\<lambda>b.
     refresh_local env bs (put_row (bk_external_id b) b by_ref))"

definition by_reference :: "booking list \<Rightarrow> booking table" where
  "by_reference bs = fold (\<lambda>b t. put_row (bk_external_id b) b t) bs []"

definition customer_bookings :: "'e tool_env_scheme \<Rightarrow> customer \<Rightarrow> (turn, booking list) proc" where
  "customer_bookings env cust =
     attempt (outside (store env (list_bookings (cu_id cust)))) id (\<lambda>local.
       case tl_phone_bookings env of
         Some read_phone \<Rightarrow>
           if cu_verified_phone cust \<noteq> []
           then attempt (now_in env) id (\<lambda>now.
             attempt (ask_in (\<lambda>n. read_phone n (cu_verified_phone cust) now)) id (\<lambda>live.
             attempt (adopt_live env cust (by_reference local) live) id (\<lambda>live.
               ret (sort_key bk_starts_at live))))
           else attempt (refresh_local env local []) id (\<lambda>t. ret (sort_key bk_starts_at (rows t)))
       | None \<Rightarrow> attempt (refresh_local env local []) id (\<lambda>t. ret (sort_key bk_starts_at (rows t))))"

definition owned_booking :: "'e tool_env_scheme \<Rightarrow> customer \<Rightarrow> string \<Rightarrow> (turn, booking) proc" where
  "owned_booking env cust reference =
     (if \<not> tl_bookings env then fail (errors_new ''appointment history is not available'')
      else attempt (customer_bookings env cust) id (\<lambda>booked.
        case find (\<lambda>b. bk_external_id b = trim_space reference) booked of
          Some b \<Rightarrow> if bk_management_token b = []
            then fail (wrapping BookingRejected ''this appointment requires staff assistance for changes; no online management proof is available'')
            else ret b
        | None \<Rightarrow> fail (wrapping BookingNotFound ''no appointment with this reference'')))"

section \<open>Cancelling\<close>

definition clear_change :: "conversation \<Rightarrow> conversation" where
  "clear_change c = c\<lparr>cv_change := None\<rparr>"

definition already_passed :: "go_error" where
  "already_passed = errors_new ''appointment has already started or passed''"

text \<open>
  The last step of both preparations: a change that is already prepared keeps its message and
  time, so asking twice does not undo a consent.
\<close>

definition propose_change :: "'e tool_env_scheme \<Rightarrow> change_draft \<Rightarrow> (bool \<Rightarrow> answer) \<Rightarrow> (turn, answer) proc" where
  "propose_change env d done = modify (on_conv clear_draft) (with_session (\<lambda>s.
     let propose = attempt (now_in env) id (\<lambda>prepared_at.
           modify (offer_fixed OfferChangeConfirmation \<circ>
               on_conv (\<lambda>c. c\<lparr>cv_change := Some (d\<lparr>cd_prepared_at := prepared_at, cd_prepared_from := ss_incoming s\<rparr>)\<rparr>))
             (ret (done False))) in
     case cv_change (ss_conv s) of
       Some p \<Rightarrow>
         if cd_kind p = cd_kind d \<and> cd_reference p = cd_reference d \<and>
            (cd_kind d = ChangeReschedule \<longrightarrow> cd_new_start p = cd_new_start d)
         then attempt (now_in env) id (\<lambda>now.
           if change_validate p (cd_kind d) now = None
           then modify (offer_fixed OfferChangeConfirmation) (ret (done True)) else propose)
         else propose
     | None \<Rightarrow> propose))"

definition change_to :: "change_kind \<Rightarrow> string \<Rightarrow> time \<Rightarrow> change_draft" where
  "change_to kind reference start = \<lparr>cd_kind = kind, cd_reference = reference, cd_new_start = start,
     cd_prepared_at = zero_time, cd_prepared_from = []\<rparr>"

definition prepare_cancellation :: "'e tool_env_scheme \<Rightarrow> string \<Rightarrow> (turn, answer) proc" where
  "prepare_cancellation env reference = with_session (\<lambda>s.
     attempt (owned_booking env (ss_customer s) reference) id (\<lambda>b.
     if bk_status b = StatusCancelled
     then modify (on_conv clear_change) (ret (AlreadyCancelled (bk_external_id b)))
     else attempt (now_in env) id (\<lambda>now.
       if \<not> after (bk_starts_at b) now then fail already_passed
       else propose_change env (change_to ChangeCancel (bk_external_id b) zero_time)
         (\<lambda>already. CancelPrepared already (bk_external_id b) (bk_starts_at b)))))"

definition cancellation_reply :: "booking \<Rightarrow> session \<Rightarrow> session" where
  "cancellation_reply b s = s\<lparr>ss_final_reply := CancelledText (parse_language (ss_language s)) b\<rparr>"

definition record_changed_booking :: "'e tool_env_scheme \<Rightarrow> booking \<Rightarrow> (turn, bool) proc" where
  "record_changed_booking env b =
     observe (outside (store env (save_booking b))) (\<lambda>reply. ret (case reply of Inl _ \<Rightarrow> False | Inr _ \<Rightarrow> True))"

definition unknown_change :: "'e tool_env_scheme \<Rightarrow> (turn, answer) proc" where
  "unknown_change env = attempt (now_in env) id (\<lambda>now.
     modify (on_conv (try_transition StateHumanRequested now)) (ret ChangeUnknown))"

definition cancel_owned :: "'e tool_env_scheme \<Rightarrow> booking \<Rightarrow> (turn, answer) proc" where
  "cancel_owned env b =
     observe (outside (perform env (CancelBooking b))) (\<lambda>reply. case reply of
       Inl e \<Rightarrow> if errors_is e OutcomeUnknown then unknown_change env else fail e
     | Inr _ \<Rightarrow>
       let b = b\<lparr>bk_status := StatusCancelled\<rparr> in
       modify (offer [] \<circ> on_conv clear_change) (
       attempt (record_changed_booking env b) id (\<lambda>_.
       modify (cancellation_reply b) (ret (Cancelled (bk_external_id b) (Some (bk_starts_at b)))))))"

definition confirm_cancellation :: "'e tool_env_scheme \<Rightarrow> (turn, answer) proc" where
  "confirm_cancellation env = with_session (\<lambda>s. case cv_change (ss_conv s) of
       None \<Rightarrow> fail (errors_new ''there is no cancellation to confirm; call prepare_cancellation first'')
     | Some d \<Rightarrow> attempt (now_in env) id (\<lambda>now. case change_validate d ChangeCancel now of
         Some e \<Rightarrow> fail e
       | None \<Rightarrow>
         if cd_prepared_from d = ss_incoming s
         then fail (errors_new ''wait for the customer to confirm cancellation in a new message after seeing the summary'')
         else attempt (owned_booking env (ss_customer s) (cd_reference d)) id (\<lambda>b.
           if bk_status b = StatusCancelled
           then modify (cancellation_reply b \<circ> offer [] \<circ> on_conv clear_change) (ret (Cancelled (bk_external_id b) None))
           else attempt (now_in env) id (\<lambda>now.
             if \<not> after (bk_starts_at b) now then modify (on_conv clear_change) (fail already_passed)
             else cancel_owned env b))))"

section \<open>Moving\<close>

definition cannot_be_moved :: "go_error" where
  "cannot_be_moved = errors_new ''appointment cannot be moved''"

definition moved_selection :: "booking \<Rightarrow> time \<Rightarrow> selection" where
  "moved_selection b start = \<lparr>se_service_ids = bk_service_ids b, se_staff_id = bk_staff_id b,
     se_starts_at = start, se_duration = bk_duration b\<rparr>"

definition prepare_reschedule :: "'e tool_env_scheme \<Rightarrow> string \<Rightarrow> string \<Rightarrow> string \<Rightarrow> (turn, answer) proc" where
  "prepare_reschedule env reference date clock_text = with_session (\<lambda>s.
     attempt (owned_booking env (ss_customer s) reference) id (\<lambda>b.
     if bk_status b \<noteq> StatusConfirmed then fail cannot_be_moved
     else attempt (now_in env) id (\<lambda>now.
     if \<not> after (bk_starts_at b) now then fail already_passed
     else attempt (parse_appointment_time env date clock_text) id (\<lambda>start.
     if start = bk_starts_at b then fail (errors_new ''the new appointment time is the same as the current time'')
     else attempt (ask_in (\<lambda>n. case tl_check env n (moved_selection b start) of Some e \<Rightarrow> Inl e | None \<Rightarrow> Inr ())) id (\<lambda>_.
       propose_change env (change_to ChangeReschedule (bk_external_id b) start)
         (\<lambda>already. MovePrepared already (bk_external_id b) (bk_starts_at b) start))))))"

definition booking_moved :: "'e tool_env_scheme \<Rightarrow> booking \<Rightarrow> (turn, answer) proc" where
  "booking_moved env moved =
     modify (offer [] \<circ> on_conv clear_change) (
     attempt (record_changed_booking env moved) id (\<lambda>recorded.
     attempt (plan_after env recorded moved) id (\<lambda>_.
     modify (\<lambda>s. let s = confirmation_reply env recorded moved s in
         if recorded then offer_reminder_consent env s else s)
       (ret (Moved (bk_external_id moved) (bk_starts_at moved))))))"

definition move_owned :: "'e tool_env_scheme \<Rightarrow> booking \<Rightarrow> time \<Rightarrow> (turn, answer) proc" where
  "move_owned env b start =
     observe (outside (invoke (RescheduleBooking b start) (\<lambda>n. tl_reschedule env n b start))) (\<lambda>reply. case reply of
       Inr moved \<Rightarrow> booking_moved env moved
     | Inl e \<Rightarrow>
       if errors_is e SlotUnavailable then modify (on_conv clear_change) (ret MoveTaken)
       else if errors_is e OutcomeUnknown then unknown_change env
       else fail e)"

definition confirm_reschedule :: "'e tool_env_scheme \<Rightarrow> (turn, answer) proc" where
  "confirm_reschedule env = with_session (\<lambda>s. case cv_change (ss_conv s) of
       None \<Rightarrow> fail (errors_new ''there is no reschedule to confirm; call prepare_reschedule first'')
     | Some d \<Rightarrow> attempt (now_in env) id (\<lambda>now. case change_validate d ChangeReschedule now of
         Some e \<Rightarrow> fail e
       | None \<Rightarrow>
         if cd_prepared_from d = ss_incoming s
         then fail (errors_new ''wait for the customer to confirm the reschedule in a new message after seeing the summary'')
         else attempt (owned_booking env (ss_customer s) (cd_reference d)) id (\<lambda>b.
           if bk_status b \<noteq> StatusConfirmed then modify (on_conv clear_change) (fail cannot_be_moved)
           else attempt (now_in env) id (\<lambda>now.
             if \<not> after (bk_starts_at b) now then modify (on_conv clear_change) (fail already_passed)
             else move_owned env b (cd_new_start d)))))"

section \<open>Asking for a person\<close>

definition request_handoff :: "'e tool_env_scheme \<Rightarrow> string \<Rightarrow> (turn, answer) proc" where
  "request_handoff env reason = with_session (\<lambda>s.
     attempt (now_in env) id (\<lambda>now.
       case transition_to (ss_conv s) StateHumanRequested now of
         Inl e \<Rightarrow> fail e
       | Inr c \<Rightarrow> modify (\<lambda>s. offer [] (s\<lparr>ss_conv := c, ss_handoff_reason := ReasonCustomerAsked,
             ss_handoff_detail := GivenDetail (trim_space reason)\<rparr>)) (ret HandedOver)))"

end
