(* ===== verification/ToolDispatch.thy ===== *)
theory ToolDispatch
  imports ChangeTools
begin

text \<open>
  The tools that read the catalogue and the customer's list
  (\<open>internal/application/assistant/tools.go\<close>, \<open>categories.go\<close>, the paging of
  \<open>catalogue_navigation.go\<close>), and the dispatch of one tool call of the model, with the check that
  a phone has been proved before an appointment is touched. Unicode case mapping
  (\<open>strings.ToLower\<close>, \<open>strings.EqualFold\<close>) and the wording are fields of the environment.
\<close>

section \<open>Pages of options\<close>

definition catalogue_page_size :: nat where "catalogue_page_size = 6"

definition catalogue_page_size_for :: "provider \<Rightarrow> nat" where
  "catalogue_page_size_for p = (if p = ProviderTelegram then 40 else catalogue_page_size)"

text \<open>The page on show, the controls, and the page number, reset when it is out of range.\<close>

definition catalogue_page_with_size ::
  "string list \<Rightarrow> int \<Rightarrow> string \<times> string \<Rightarrow> nat \<Rightarrow> string list \<times> string list \<times> int" where
  "catalogue_page_with_size labels page_no = (\<lambda>(previous, further) size.
     let page_no = (if page_no < 0 \<or> page_no * int size \<ge> int (length labels) then 0 else page_no);
         start = nat page_no * size; stop = min ((nat page_no + 1) * size) (length labels);
         controls = (if page_no > 0 then [previous] else []) @ (if stop < length labels then [further] else [])
     in (drop start (take stop labels), controls, page_no))"

definition page_words :: "'e tool_env_scheme \<Rightarrow> string \<Rightarrow> string \<times> string" where
  "page_words env lang = (tl_words env lang ''previous'', tl_words env lang ''next'')"

definition catalogue_page_for ::
  "'e tool_env_scheme \<Rightarrow> string \<Rightarrow> provider \<Rightarrow> string list \<Rightarrow> int \<Rightarrow> string list \<times> string list \<times> int" where
  "catalogue_page_for env lang p labels page_no =
     catalogue_page_with_size labels page_no (page_words env lang) (catalogue_page_size_for p)"

definition catalogue_root_page ::
  "'e tool_env_scheme \<Rightarrow> string \<Rightarrow> provider \<Rightarrow> string list \<Rightarrow> int \<Rightarrow> string list \<times> string list \<times> int" where
  "catalogue_root_page env lang p labels page_no =
     catalogue_page_with_size labels page_no (page_words env lang)
       (if p \<noteq> ProviderTelegram then catalogue_page_size_for p - 1 else catalogue_page_size_for p)"

definition back_words :: "'e tool_env_scheme \<Rightarrow> string \<Rightarrow> string list" where
  "back_words env lang = [tl_words env lang ''back'', tl_words env lang ''categories'']"

section \<open>The catalogue\<close>

fun count_category :: "(string \<Rightarrow> string) \<Rightarrow> string \<Rightarrow> (string \<times> int) list \<Rightarrow> (string \<times> int) list" where
  "count_category lower name [] = [(name, 1)]"
| "count_category lower name ((c, n) # cs) =
     (if lower c = lower name then (c, n + 1) # cs else (c, n) # count_category lower name cs)"

definition categories_of :: "(string \<Rightarrow> string) \<Rightarrow> service list \<Rightarrow> (string \<times> int) list" where
  "categories_of lower services =
     fold (\<lambda>s cs. let name = trim_space (sv_category s) in if name = [] then cs else count_category lower name cs)
       services []"

definition list_categories :: "'e tool_env_scheme \<Rightarrow> (turn, answer) proc" where
  "list_categories env =
     attempt (ask_in (tl_services env)) id (\<lambda>services. with_session (\<lambda>s.
       let categories = categories_of (tl_to_lower env) services; lang = ss_language s;
           (page, controls, page_no) = catalogue_root_page env lang (cv_provider (ss_conv s)) (map fst categories) 0 in
       modify (present (page @ controls @ [tl_words env lang ''contact'']) \<circ>
           on_conv (\<lambda>c. c\<lparr>cv_category := [], cv_service := [], cv_staff := [], cv_phase := [], cv_date := [],
             cv_page := page_no\<rparr>))
         (ret (Categories categories))))"

definition list_services :: "'e tool_env_scheme \<Rightarrow> string \<Rightarrow> (turn, answer) proc" where
  "list_services env category_text =
     attempt (ask_in (tl_services env)) id (\<lambda>services.
       let category = trim_space category_text;
           matching = filter (\<lambda>s. tl_equal_fold env (trim_space (sv_category s)) category) services in
       if category \<noteq> [] \<and> matching = []
       then modify (offer []) (ret (NoCategory category (categories_of (tl_to_lower env) services)))
       else let shown = (if category \<noteq> [] then matching else services) in
         modify (offer (map sv_name shown) \<circ> offer []) (ret (Services shown category)))"

definition list_staff :: "'e tool_env_scheme \<Rightarrow> string \<Rightarrow> (turn, answer) proc" where
  "list_staff env service_id =
     attempt (staff_for_service env service_id) id (\<lambda>staff.
       let names = map st_name (filter st_bookable staff) in
       modify (if length names > 1 then offer_all names else offer []) (ret (StaffList staff service_id)))"

definition available_dates :: "'e tool_env_scheme \<Rightarrow> string \<Rightarrow> string \<Rightarrow> (turn, answer) proc" where
  "available_dates env staff_id service_id =
     (if staff_id = [] then fail (errors_new ''staff_id is required; call list_staff first'')
      else attempt (dates_for_service env staff_id service_id) id (\<lambda>dates. with_session (\<lambda>s.
        let lang = ss_language s;
            (page, controls, page_no) = catalogue_page_for env lang (cv_provider (ss_conv s)) (map (tl_day_label env) dates) 0 in
        modify (offer_all (page @ controls @ back_words env lang) \<circ>
            on_conv (\<lambda>c. c\<lparr>cv_staff := staff_id, cv_service := service_id, cv_date := [], cv_phase := ''dates'',
              cv_page := page_no\<rparr>))
          (ret (Dates dates service_id)))))"

definition max_slots_returned :: nat where "max_slots_returned = 96"

fun string_le :: "string \<Rightarrow> string \<Rightarrow> bool" where
  "string_le [] t = True"
| "string_le (c # s) [] = False"
| "string_le (c # s) (d # t) = (if c = d then string_le s t else (of_char c :: nat) < of_char d)"

fun insert_label :: "string \<Rightarrow> string list \<Rightarrow> string list" where
  "insert_label l [] = [l]"
| "insert_label l (m # ms) = (if string_le l m then l # m # ms else m # insert_label l ms)"

text \<open>The labels are sorted by \<open>slices.Sort\<close>; they are distinct, so the sorted list is unique.\<close>

definition remaining_times :: "(time \<Rightarrow> string) \<Rightarrow> slot list \<Rightarrow> time \<Rightarrow> string list" where
  "remaining_times clock_text slots now =
     foldr insert_label (remdups (map (clock_text \<circ> sl_start) (filter (\<lambda>s. \<not> before (sl_start s) now) slots))) []"

definition available_slots :: "'e tool_env_scheme \<Rightarrow> string \<Rightarrow> string \<Rightarrow> string \<Rightarrow> (turn, answer) proc" where
  "available_slots env staff_id service_id date =
     (if staff_id = [] then fail (errors_new ''staff_id is required; call list_staff first'')
      else case tl_parse_day env date of
        None \<Rightarrow> fail (errors_new ''date is not a calendar day in YYYY-MM-DD form'')
      | Some day \<Rightarrow> attempt (now_in env) id (\<lambda>now.
        if before day (tl_day_start env now)
        then attempt (now_in env) id (\<lambda>_. fail (errors_new ''is in the past''))
        else attempt (slots_for_service env staff_id day service_id) id (\<lambda>slots.
          attempt (now_in env) id (\<lambda>now. with_session (\<lambda>s.
            let lang = ss_language s;
                times = take max_slots_returned (remaining_times (tl_clock_text env) slots now);
                (page, controls, page_no) = catalogue_page_for env lang (cv_provider (ss_conv s)) times 0 in
            modify (offer_all (page @ controls @ back_words env lang) \<circ>
                on_conv (\<lambda>c. c\<lparr>cv_staff := staff_id, cv_service := service_id, cv_date := date, cv_phase := ''times'',
                  cv_page := page_no\<rparr>))
              (ret (Times date service_id times)))))))"

section \<open>The customer's list\<close>

definition upcoming :: "time \<Rightarrow> booking list \<Rightarrow> booking list" where
  "upcoming now bs = filter (\<lambda>b. bk_status b = StatusConfirmed \<and> after (bk_starts_at b) now) bs"

text \<open>A later entry of the catalogue replaces an earlier one of the same id, as in a Go map.\<close>

definition names_by_id :: "(string \<times> string) list \<Rightarrow> string table" where
  "names_by_id ps = fold (\<lambda>(k, v) t. put_row k v t) ps []"

definition catalogue_names :: "'e tool_env_scheme \<Rightarrow> (turn, string table \<times> string table) proc" where
  "catalogue_names env =
     observe (ask_in (tl_services env)) (\<lambda>services.
     observe (ask_in (tl_staff env)) (\<lambda>staff.
       ret (names_by_id (case services of Inl _ \<Rightarrow> [] | Inr xs \<Rightarrow> map (\<lambda>s. (sv_id s, sv_name s)) xs),
            names_by_id (case staff of Inl _ \<Rightarrow> [] | Inr xs \<Rightarrow> map (\<lambda>s. (st_id s, st_name s)) xs))))"

definition list_item ::
  "string table \<Rightarrow> string table \<Rightarrow> booking \<Rightarrow> string \<times> time \<times> string list \<times> string \<times> bool" where
  "list_item services staff b =
     (bk_external_id b, bk_starts_at b,
      (if bk_service_names b \<noteq> [] then bk_service_names b
       else filter (\<lambda>n. n \<noteq> []) (map (row_or [] services) (bk_service_ids b))),
      (if bk_staff_name b \<noteq> [] then bk_staff_name b else row_or [] staff (bk_staff_id b)),
      bk_management_token b \<noteq> [])"

definition list_my_bookings :: "'e tool_env_scheme \<Rightarrow> (turn, answer) proc" where
  "list_my_bookings env =
     (if \<not> tl_bookings env then fail (errors_new ''appointment history is not available'')
      else with_session (\<lambda>s.
        case (if cu_verified_phone (ss_customer s) = [] then tl_identity env else None) of
          Some identity \<Rightarrow> attempt (verification_prompt env identity) id (\<lambda>prompt.
            modify (\<lambda>s. s\<lparr>ss_final_reply := prompt\<rparr>) (ret AskVerification))
        | None \<Rightarrow> observe (customer_bookings env (ss_customer s)) (\<lambda>reply. case reply of
            Inl e \<Rightarrow> modify (\<lambda>s. (present [tl_words env (ss_language s) ''my_appointments'',
                tl_words env (ss_language s) ''talk_to_a_person''] s)\<lparr>ss_final_reply :=
                  CabinetText (ss_language s) ''lookup_failed''\<rparr>) (fail e)
          | Inr booked \<Rightarrow> attempt (now_in env) id (\<lambda>now.
              let coming = upcoming now booked in
              if coming = [] then ret NoAppointments
              else attempt (catalogue_names env) id (\<lambda>(services, staff).
                ret (Appointments (map (list_item services staff) coming)))))))"

section \<open>One tool call\<close>

text \<open>
  A call with its decoded arguments; \<open>BadArguments\<close> is a call whose arguments do not decode, which
  every tool refuses before anything else.
\<close>

datatype tool_call =
    ListServices string
  | ListCategories
  | ListStaff string
  | AvailableDates string string
  | AvailableSlots string string string
  | PrepareBooking prepare_args
  | ConfirmBooking
  | ListBookings
  | PrepareCancel string
  | ConfirmCancel
  | PrepareMove string string string
  | ConfirmMove
  | RequestHandoff string
  | BadArguments string go_error
  | UnknownTool string

fun changes_appointment :: "tool_call \<Rightarrow> bool" where
  "changes_appointment (PrepareCancel r) = True"
| "changes_appointment ConfirmCancel = True"
| "changes_appointment (PrepareMove r d t) = True"
| "changes_appointment ConfirmMove = True"
| "changes_appointment (BadArguments name e) \<longleftrightarrow> name = ''prepare_cancellation'' \<or> name = ''prepare_reschedule''"
| "changes_appointment c = False"

fun dispatch :: "'e tool_env_scheme \<Rightarrow> tool_call \<Rightarrow> (turn, answer) proc" where
  "dispatch env (ListServices category) = list_services env category"
| "dispatch env ListCategories = list_categories env"
| "dispatch env (ListStaff service_id) = list_staff env service_id"
| "dispatch env (AvailableDates staff_id service_id) = available_dates env staff_id service_id"
| "dispatch env (AvailableSlots staff_id service_id date) = available_slots env staff_id service_id date"
| "dispatch env (PrepareBooking args) = prepare_booking env args"
| "dispatch env ConfirmBooking = confirm_booking env"
| "dispatch env ListBookings = list_my_bookings env"
| "dispatch env (PrepareCancel reference) = prepare_cancellation env reference"
| "dispatch env ConfirmCancel = confirm_cancellation env"
| "dispatch env (PrepareMove reference date clock_text) = prepare_reschedule env reference date clock_text"
| "dispatch env ConfirmMove = confirm_reschedule env"
| "dispatch env (RequestHandoff reason) = request_handoff env reason"
| "dispatch env (BadArguments name e) = fail e"
| "dispatch env (UnknownTool name) = fail (errors_new ''there is no such tool'')"

definition run_tool :: "'e tool_env_scheme \<Rightarrow> tool_call \<Rightarrow> (turn, answer) proc" where
  "run_tool env call = with_session (\<lambda>s.
     case (if cu_verified_phone (ss_customer s) = [] \<and> changes_appointment call then tl_identity env else None) of
       Some identity \<Rightarrow> attempt (verification_prompt env identity) id (\<lambda>prompt.
         modify (\<lambda>s. s\<lparr>ss_final_reply := prompt\<rparr>) (ret AskVerification))
     | None \<Rightarrow> dispatch env call)"

text \<open>\<open>execute\<close> never fails: a failing tool answers the model with a description.\<close>

definition tool_failure :: "go_error \<Rightarrow> string" where
  "tool_failure e =
     (if errors_is e SlotUnavailable then ''That time has just been taken. Offer the customer the next available times.''
      else if errors_is e BookingNotFound then ''That does not exist. Check the catalogue again before answering.''
      else if errors_is e BookingUnavailable then ''The booking system is not responding. Apologise and offer to have a colleague follow up.''
      else message e)"

definition execute_tool :: "'e tool_env_scheme \<Rightarrow> tool_call \<Rightarrow> (turn, string + answer) proc" where
  "execute_tool env call = observe (run_tool env call) (\<lambda>reply.
     ret (case reply of Inl e \<Rightarrow> Inl (tool_failure e) | Inr x \<Rightarrow> Inr x))"

text \<open>The calls of one turn, in order.\<close>

fun run_tools :: "'e tool_env_scheme \<Rightarrow> tool_call list \<Rightarrow> turn \<Rightarrow> turn" where
  "run_tools env [] tn = tn"
| "run_tools env (c # cs) tn = run_tools env cs (snd (execute_tool env c tn))"

end
