(* ===== verification/TurnLogic.thy ===== *)
theory TurnLogic
  imports ToolDispatch
begin

text \<open>
  What a turn of the assistant does to its session and to the appointments: triples over the
  session and the log of provider calls that change an appointment. \<open>stays I m\<close> says that \<open>m\<close> keeps
  \<open>I\<close>, whatever it returns; the rules of \<open>stays_intros\<close> prove it from the parts of a procedure.
\<close>

type_synonym call_log = "(effect \<times> go_error option) list"

fun is_change :: "effect \<Rightarrow> bool" where
  "is_change (CreateBooking r) = True"
| "is_change (CancelBooking b) = True"
| "is_change (RescheduleBooking b t) = True"
| "is_change e = False"

abbreviation changes :: "turn \<Rightarrow> call_log" where
  "changes tn \<equiv> logged is_change (tn_world tn)"

definition triple ::
  "(session \<Rightarrow> call_log \<Rightarrow> bool) \<Rightarrow> (turn, 'a) proc \<Rightarrow> ('a result \<Rightarrow> session \<Rightarrow> call_log \<Rightarrow> bool) \<Rightarrow> bool" where
  "triple P m Q \<longleftrightarrow> (\<forall>tn. P (tn_session tn) (changes tn) \<longrightarrow>
     Q (fst (m tn)) (tn_session (snd (m tn))) (changes (snd (m tn))))"

definition stays :: "(session \<Rightarrow> call_log \<Rightarrow> bool) \<Rightarrow> (turn, 'a) proc \<Rightarrow> bool" where
  "stays I m \<longleftrightarrow> triple I m (\<lambda>_. I)"

named_theorems stays_intros \<open>procedures that keep an invariant of the turn\<close>

lemma tripleD:
  "triple P m Q \<Longrightarrow> P (tn_session tn) (changes tn) \<Longrightarrow> m tn = (r, tn') \<Longrightarrow> Q r (tn_session tn') (changes tn')"
  unfolding triple_def by (metis fst_conv snd_conv)

lemma triple_conseq:
  "triple P m Q \<Longrightarrow> (\<And>s L. P' s L \<Longrightarrow> P s L) \<Longrightarrow> (\<And>r s L. Q r s L \<Longrightarrow> Q' r s L) \<Longrightarrow> triple P' m Q'"
  by (auto simp: triple_def)

lemma triple_ret: "(\<And>s L. P s L \<Longrightarrow> Q (Inr x) s L) \<Longrightarrow> triple P (ret x) Q"
  by (simp add: triple_def proc_simps)

lemma triple_fail: "(\<And>s L. P s L \<Longrightarrow> Q (Inl e) s L) \<Longrightarrow> triple P (fail e) Q"
  by (simp add: triple_def proc_simps)

lemma triple_modify:
  "triple P' k Q \<Longrightarrow> (\<And>s L. P s L \<Longrightarrow> P' (f s) L) \<Longrightarrow> triple P (modify f k) Q"
  by (simp add: triple_def proc_simps)

lemma triple_with_session:
  "(\<And>s0. triple (\<lambda>s L. s = s0 \<and> P s L) (k s0) Q) \<Longrightarrow> triple P (with_session k) Q"
  by (simp add: triple_def proc_simps)

lemma triple_observe:
  assumes "triple P m R" "\<And>r. triple (R r) (k r) Q"
  shows "triple P (observe m k) Q"
proof (unfold triple_def, intro allI impI)
  fix tn assume "P (tn_session tn) (changes tn)"
  moreover obtain r tn' where run: "m tn = (r, tn')" by force
  ultimately have "R r (tn_session tn') (changes tn')" by (rule tripleD [OF assms(1)])
  then show "Q (fst (observe m k tn)) (tn_session (snd (observe m k tn))) (changes (snd (observe m k tn)))"
    using assms(2) [of r] by (simp add: observe_apply run triple_def)
qed

lemma triple_attempt:
  assumes "triple P m R" "\<And>x. triple (R (Inr x)) (k x) Q" "\<And>e s L. R (Inl e) s L \<Longrightarrow> Q (Inl (f e)) s L"
  shows "triple P (attempt m f k) Q"
proof (unfold triple_def, intro allI impI)
  fix tn assume "P (tn_session tn) (changes tn)"
  moreover obtain r tn' where run: "m tn = (r, tn')" by force
  ultimately have "R r (tn_session tn') (changes tn')" by (rule tripleD [OF assms(1)])
  then show "Q (fst (attempt m f k tn)) (tn_session (snd (attempt m f k tn))) (changes (snd (attempt m f k tn)))"
    using assms(2,3) by (cases r) (simp_all add: attempt_apply run triple_def)
qed

lemma stays_triple: "stays I m \<Longrightarrow> triple I m (\<lambda>_. I)"
  by (simp add: stays_def)

lemma triple_after:
  "stays P m \<Longrightarrow> (\<And>x. triple P (k x) Q) \<Longrightarrow> (\<And>e s L. P s L \<Longrightarrow> Q (Inl (f e)) s L) \<Longrightarrow> triple P (attempt m f k) Q"
  by (rule triple_attempt [OF stays_triple]) simp_all

text \<open>A procedure that never fails.\<close>

definition sure :: "(turn, 'a) proc \<Rightarrow> bool" where
  "sure m \<longleftrightarrow> (\<forall>tn. \<exists>x. fst (m tn) = Inr x)"

lemma triple_sure:
  assumes "stays P m" "sure m" "\<And>x. triple P (k x) Q"
  shows "triple P (attempt m f k) Q"
proof (rule triple_attempt)
  show "triple P m (\<lambda>r s L. P s L \<and> (\<exists>x. r = Inr x))"
    using assms(1,2) by (simp add: stays_def triple_def sure_def)
qed (use assms(3) in \<open>auto simp: triple_def\<close>)

lemma sure_now [simp]: "sure (now_in env)"
  by (simp add: sure_def proc_simps)

lemma sure_record [simp]: "sure (record_booking env b)" "sure (record_changed_booking env b)"
  by (auto simp: sure_def record_booking_def record_changed_booking_def proc_simps split: prod.split)

lemma sure_plan [simp]: "sure (plan_after env r b)"
  by (simp add: sure_def plan_after_def proc_simps split: prod.split)

lemma triple_if: "(b \<Longrightarrow> triple P m Q) \<Longrightarrow> (\<not> b \<Longrightarrow> triple P n Q) \<Longrightarrow> triple P (if b then m else n) Q"
  by simp

lemma triple_option:
  "(x = None \<Longrightarrow> triple P m Q) \<Longrightarrow> (\<And>y. x = Some y \<Longrightarrow> triple P (n y) Q) \<Longrightarrow>
   triple P (case x of None \<Rightarrow> m | Some y \<Rightarrow> n y) Q"
  by (cases x) simp_all

lemma triple_result:
  "(\<And>e. triple (R (Inl e)) (m e) Q) \<Longrightarrow> (\<And>x. triple (R (Inr x)) (n x) Q) \<Longrightarrow>
   triple (R r) (case r of Inl e \<Rightarrow> m e | Inr x \<Rightarrow> n x) Q"
  by (cases r) simp_all

lemma triple_session_at:
  "triple (\<lambda>s L. s = s1 \<and> P s L) (k s1) Q \<Longrightarrow> triple (\<lambda>s L. s = s1 \<and> P s L) (with_session k) Q"
  by (auto simp: triple_def proc_simps)

lemma triple_stays: "stays I m \<Longrightarrow> (\<And>s L. P s L \<Longrightarrow> I s L) \<Longrightarrow> triple P m (\<lambda>_. I)"
  unfolding stays_def by (rule triple_conseq)

text \<open>An effect that changes an appointment, and what the continuation may assume.\<close>

lemma triple_invoke:
  assumes "is_change eff"
    "\<And>s L n. P s L \<Longrightarrow> R (f n) s (L @ [(eff, case f n of Inl e \<Rightarrow> Some e | Inr _ \<Rightarrow> None)])"
  shows "triple P (outside (invoke eff f)) R"
  using assms by (simp add: triple_def proc_simps invoke_def logged_def)

lemma triple_perform:
  assumes "is_change eff"
    "\<And>s L x. P s L \<Longrightarrow> R (case x of None \<Rightarrow> Inr () | Some e \<Rightarrow> Inl e) s (L @ [(eff, x)])"
  shows "triple P (outside (perform env eff)) R"
  using assms by (simp add: triple_def proc_simps perform_def logged_def)

section \<open>Keeping an invariant\<close>

lemma stays_ret [stays_intros]: "stays I (ret x)"
  by (simp add: stays_def triple_ret)

lemma stays_fail [stays_intros]: "stays I (fail e)"
  by (simp add: stays_def triple_fail)

lemma stays_given [stays_intros]: "stays I (given r)"
  by (cases r) (simp_all add: given_def stays_intros)

lemma stays_outside [stays_intros]: "quiet is_change m \<Longrightarrow> stays I (outside m)"
  by (simp add: stays_def triple_def proc_simps quiet_def split_beta)

lemma stays_modify [stays_intros]:
  "(\<And>s L. I s L \<Longrightarrow> I (f s) L) \<Longrightarrow> stays I k \<Longrightarrow> stays I (modify f k)"
  unfolding stays_def by (rule triple_modify)

lemma stays_with_session [stays_intros]:
  assumes "\<And>s L. I s L \<Longrightarrow> stays I (k s)"
  shows "stays I (with_session k)"
proof (unfold stays_def triple_def, intro allI impI)
  fix tn assume inv: "I (tn_session tn) (changes tn)"
  show "I (tn_session (snd (with_session k tn))) (changes (snd (with_session k tn)))"
    using assms [OF inv] inv by (simp add: stays_def triple_def proc_simps)
qed

lemma stays_attempt [stays_intros]:
  "stays I m \<Longrightarrow> (\<And>x. stays I (k x)) \<Longrightarrow> stays I (attempt m f k)"
  unfolding stays_def by (rule triple_attempt)

lemma stays_observe [stays_intros]:
  "stays I m \<Longrightarrow> (\<And>r. stays I (k r)) \<Longrightarrow> stays I (observe m k)"
  unfolding stays_def by (rule triple_observe)

lemma stays_if [stays_intros]: "(b \<Longrightarrow> stays I m) \<Longrightarrow> (\<not> b \<Longrightarrow> stays I n) \<Longrightarrow> stays I (if b then m else n)"
  by simp

lemma stays_option [stays_intros]:
  "(x = None \<Longrightarrow> stays I m) \<Longrightarrow> (\<And>y. x = Some y \<Longrightarrow> stays I (n y)) \<Longrightarrow>
   stays I (case x of None \<Rightarrow> m | Some y \<Rightarrow> n y)"
  by (cases x) simp_all

lemma stays_sum [stays_intros]:
  "(\<And>y. x = Inl y \<Longrightarrow> stays I (m y)) \<Longrightarrow> (\<And>y. x = Inr y \<Longrightarrow> stays I (n y)) \<Longrightarrow>
   stays I (case x of Inl y \<Rightarrow> m y | Inr y \<Rightarrow> n y)"
  by (cases x) simp_all

lemma stays_prod [stays_intros]:
  "(\<And>a b. x = (a, b) \<Longrightarrow> stays I (m a b)) \<Longrightarrow> stays I (case x of (a, b) \<Rightarrow> m a b)"
  by (cases x) simp

lemma stays_Let [stays_intros]: "stays I (m x) \<Longrightarrow> stays I (let y = x in m y)"
  by simp

section \<open>Quiet parts\<close>

lemma quiet_cabinet_pending [quiet_intros]: "quiet is_change (cabinet_pending env p user)"
  unfolding cabinet_pending_def Let_def by (intro quiet_intros)

lemma quiet_cabinet_begin [quiet_intros]: "quiet is_change (cabinet_begin env p user)"
  unfolding cabinet_begin_def Let_def cab_store_def by (intro quiet_intros)

lemma quiet_plan_change [quiet_intros]: "quiet is_change (plan_reminder env b conv lang)"
  unfolding plan_reminder_def schedule_wake_def Let_def by (intro quiet_intros) simp

lemma stays_parse [stays_intros]: "stays I (parse_appointment_time env d c)"
  unfolding parse_appointment_time_def by (intro stays_intros quiet_intros)

lemma stays_find_service [stays_intros]: "stays I (find_service env sid)"
  unfolding find_service_def by (intro stays_intros quiet_intros)

lemma stays_find_staff [stays_intros]: "stays I (find_staff env sid)"
  unfolding find_staff_def by (intro stays_intros quiet_intros)

lemma stays_require [stays_intros]: "stays I (require_service env sid)"
  unfolding require_service_def by (intro stays_intros)

lemma stays_staff_for_service [stays_intros]: "stays I (staff_for_service env sid)"
  unfolding staff_for_service_def by (intro stays_intros quiet_intros)

lemma stays_dates [stays_intros]: "stays I (dates_for_service env st sid)"
  unfolding dates_for_service_def by (intro stays_intros quiet_intros)

lemma stays_slots [stays_intros]: "stays I (slots_for_service env st d sid)"
  unfolding slots_for_service_def by (intro stays_intros quiet_intros)

lemma stays_service_for_staff [stays_intros]: "stays I (service_for_staff env st s)"
  unfolding service_for_staff_def by (intro stays_intros quiet_intros)

lemma stays_length [stays_intros]: "stays I (appointment_length env st t sid d)"
  unfolding appointment_length_def by (intro stays_intros)

lemma stays_any_addition [stays_intros]: "stays I (any_time_addition env sids)"
  by (induction sids) (auto intro!: stays_intros)

lemma stays_record_booking [stays_intros]: "stays I (record_booking env b)"
  unfolding record_booking_def by (intro stays_intros quiet_intros)

lemma stays_record_changed [stays_intros]: "stays I (record_changed_booking env b)"
  unfolding record_changed_booking_def by (intro stays_intros quiet_intros)

lemma stays_plan_after [stays_intros]: "stays I (plan_after env r b)"
  unfolding plan_after_def by (intro stays_intros quiet_intros)

lemma stays_adopt [stays_intros]: "stays I (adopt_live env cust t bs)"
  by (induction bs) (auto intro!: stays_intros quiet_intros simp: Let_def)

lemma stays_refresh [stays_intros]: "stays I (refresh_local env bs t)"
  by (induction bs arbitrary: t) (auto intro!: stays_intros quiet_intros)

lemma stays_customer_bookings [stays_intros]: "stays I (customer_bookings env cust)"
  unfolding customer_bookings_def by (intro stays_intros quiet_intros)

lemma stays_owned [stays_intros]: "stays I (owned_booking env cust r)"
  unfolding owned_booking_def by (intro stays_intros)

lemma stays_catalogue_names [stays_intros]: "stays I (catalogue_names env)"
  unfolding catalogue_names_def by (intro stays_intros quiet_intros)

end
