(* ===== verification/TurnLaws.thy ===== *)
theory TurnLaws
  imports TurnLogic
begin

text \<open>
  The laws of one turn, for every sequence of tool calls a model makes in it: the calendar is only
  asked to create the booking, or to make the change, that the customer was shown in an earlier
  message, for their own appointment and proved phone, and at most one of each succeeds. The
  invariant \<open>turn_inv\<close> relates the turn to the session \<open>s0\<close> it began with; one lemma per tool keeps it.
\<close>

section \<open>The invariant\<close>

definition earlier_draft :: "session \<Rightarrow> draft \<Rightarrow> bool" where
  "earlier_draft s0 d \<longleftrightarrow>
     (\<exists>d0 b. cv_draft (ss_conv s0) = Some d0 \<and> d = d0\<lparr>dr_awaiting_phone_verification := b\<rparr>)"

definition fresh_draft :: "session \<Rightarrow> draft option \<Rightarrow> bool" where
  "fresh_draft s0 x \<longleftrightarrow> (\<forall>d. x = Some d \<longrightarrow> dr_prepared_from d = ss_incoming s0)"

definition fresh_change :: "session \<Rightarrow> change_draft option \<Rightarrow> bool" where
  "fresh_change s0 x \<longleftrightarrow> (\<forall>d. x = Some d \<longrightarrow> cd_prepared_from d = ss_incoming s0)"

definition same_customer :: "session \<Rightarrow> session \<Rightarrow> bool" where
  "same_customer s0 s \<longleftrightarrow> ss_incoming s = ss_incoming s0 \<and> cu_id (ss_customer s) = cu_id (ss_customer s0) \<and>
     cu_verified_phone (ss_customer s) = cu_verified_phone (ss_customer s0) \<and>
     cv_provider (ss_conv s) = cv_provider (ss_conv s0)"

definition proposals_known :: "session \<Rightarrow> session \<Rightarrow> bool" where
  "proposals_known s0 s \<longleftrightarrow>
     (fresh_draft s0 (cv_draft (ss_conv s)) \<or> (\<exists>d. cv_draft (ss_conv s) = Some d \<and> earlier_draft s0 d)) \<and>
     (fresh_change s0 (cv_change (ss_conv s)) \<or> cv_change (ss_conv s) = cv_change (ss_conv s0))"

definition phone_proved :: "'e tool_env_scheme \<Rightarrow> session \<Rightarrow> bool" where
  "phone_proved env s \<longleftrightarrow> tl_identity env = None \<or> cu_verified_phone (ss_customer s) \<noteq> []"

definition own_appointment :: "string \<Rightarrow> booking \<Rightarrow> bool" where
  "own_appointment reference b \<longleftrightarrow> bk_external_id b = trim_space reference \<and> bk_management_token b \<noteq> []"

definition agreed_booking :: "'e tool_env_scheme \<Rightarrow> session \<Rightarrow> request \<Rightarrow> bool" where
  "agreed_booking env s0 rq \<longleftrightarrow> (\<exists>d now. cv_draft (ss_conv s0) = Some d \<and> dr_prepared_from d \<noteq> ss_incoming s0 \<and>
     draft_validate d now = None \<and> unproved_phone env s0 (dr_phone d) = None \<and> rq = booking_request s0 d)"

definition agreed_change ::
  "'e tool_env_scheme \<Rightarrow> session \<Rightarrow> change_kind \<Rightarrow> booking \<Rightarrow> time option \<Rightarrow> bool" where
  "agreed_change env s0 kind b start \<longleftrightarrow> (\<exists>d now. cv_change (ss_conv s0) = Some d \<and>
     cd_prepared_from d \<noteq> ss_incoming s0 \<and> change_validate d kind now = None \<and> phone_proved env s0 \<and>
     own_appointment (cd_reference d) b \<and> (case start of None \<Rightarrow> True | Some t \<Rightarrow> cd_new_start d = t))"

fun agreed :: "'e tool_env_scheme \<Rightarrow> session \<Rightarrow> effect \<Rightarrow> bool" where
  "agreed env s0 (CreateBooking rq) = agreed_booking env s0 rq"
| "agreed env s0 (CancelBooking b) = agreed_change env s0 ChangeCancel b None"
| "agreed env s0 (RescheduleBooking b t) = agreed_change env s0 ChangeReschedule b (Some t)"
| "agreed env s0 e = False"

fun creates :: "effect \<Rightarrow> bool" where
  "creates (CreateBooking rq) = True"
| "creates e = False"

fun alters :: "effect \<Rightarrow> bool" where
  "alters (CancelBooking b) = True"
| "alters (RescheduleBooking b t) = True"
| "alters e = False"

definition successes :: "(effect \<Rightarrow> bool) \<Rightarrow> call_log \<Rightarrow> nat" where
  "successes k L = length (filter (\<lambda>(e, x). k e \<and> x = None) L)"

definition at_most_once :: "nat \<Rightarrow> bool \<Rightarrow> bool" where
  "at_most_once n settled \<longleftrightarrow> n = 0 \<or> n = 1 \<and> settled"

definition turn_inv ::
  "'e tool_env_scheme \<Rightarrow> session \<Rightarrow> call_log \<Rightarrow> session \<Rightarrow> call_log \<Rightarrow> bool" where
  "turn_inv env s0 L0 s L \<longleftrightarrow> same_customer s0 s \<and> proposals_known s0 s \<and>
     (\<exists>new. L = L0 @ new \<and> (\<forall>(e, x) \<in> set new. agreed env s0 e) \<and>
       at_most_once (successes creates new) (fresh_draft s0 (cv_draft (ss_conv s))) \<and>
       at_most_once (successes alters new) (fresh_change s0 (cv_change (ss_conv s))))"

lemma earlier_self: "cv_draft (ss_conv s0) = Some d \<Longrightarrow> earlier_draft s0 d"
  unfolding earlier_draft_def by (intro exI [of _ d] exI [of _ "dr_awaiting_phone_verification d"]) simp

lemma turn_inv_refl: "turn_inv env s0 L0 s0 L0"
  by (auto simp: turn_inv_def same_customer_def proposals_known_def successes_def at_most_once_def
      fresh_draft_def intro: earlier_self)

text \<open>Only these parts of a session matter, and dropping a proposal is always allowed.\<close>

lemma turn_inv_update:
  assumes "turn_inv env s0 L0 s L" "same_customer s s'"
    "cv_draft (ss_conv s') = cv_draft (ss_conv s) \<or> fresh_draft s0 (cv_draft (ss_conv s'))"
    "cv_change (ss_conv s') = cv_change (ss_conv s) \<or> fresh_change s0 (cv_change (ss_conv s'))"
  shows "turn_inv env s0 L0 s' L"
  using assms by (auto simp: turn_inv_def same_customer_def proposals_known_def at_most_once_def)

lemma turn_inv_incoming: "turn_inv env s0 L0 s L \<Longrightarrow> ss_incoming s = ss_incoming s0"
  by (simp add: turn_inv_def same_customer_def)

lemmas session_parts = same_customer_def on_conv_def offer_def offer_all_def offer_fixed_def present_def
  fresh_draft_def fresh_change_def clear_draft_def clear_change_def drop_proposals_def leave_catalogue_def
  confirmation_reply_def offer_reminder_consent_def cancellation_reply_def Let_def

lemma await_known:
  assumes "turn_inv env s0 L0 s L"
  shows "turn_inv env s0 L0 (on_conv await_verification s) L"
proof (cases "cv_draft (ss_conv s)")
  case None
  with assms show ?thesis
    by (elim turn_inv_update) (simp_all add: session_parts await_verification_def)
next
  case (Some d)
  with assms show ?thesis
    by (fastforce simp: turn_inv_def proposals_known_def same_customer_def on_conv_def await_verification_def
        fresh_draft_def earlier_draft_def at_most_once_def)
qed

section \<open>Tools that ask the calendar for nothing\<close>

lemma stays_verification [stays_intros]: "stays (turn_inv env s0 L0) (verification_prompt env' identity)"
  unfolding verification_prompt_def Let_def
  by (intro stays_intros quiet_intros) (erule turn_inv_update; simp add: session_parts)+

lemma stays_booking_verification [stays_intros]:
  "stays (turn_inv env s0 L0) (booking_verification_prompt env' identity phone)"
  unfolding booking_verification_prompt_def Let_def
  by (intro stays_intros await_known) (assumption | erule turn_inv_update; simp add: session_parts)+

lemma stays_remember [stays_intros]: "stays (turn_inv env s0 L0) (remember_contact env' name phone)"
  unfolding remember_contact_def Let_def
  by (intro stays_intros quiet_intros) (erule turn_inv_update; simp add: session_parts)

lemma stays_qualified [stays_intros]: "stays (turn_inv env s0 L0) (offer_qualified_staff env' service requested)"
  unfolding offer_qualified_staff_def Let_def
  by (intro stays_intros) (erule turn_inv_update; simp add: session_parts)

lemma stays_propose_draft:
  "dr_prepared_from d = ss_incoming s0 \<Longrightarrow> stays (turn_inv env s0 L0) (propose_draft env' d service staff)"
  unfolding propose_draft_def Let_def
  by (intro stays_intros quiet_intros) (erule turn_inv_update; simp add: session_parts)+

lemma stays_prepare [stays_intros]: "stays (turn_inv env s0 L0) (prepare_booking env' args)"
  unfolding prepare_booking_def
  by (intro stays_intros quiet_intros stays_propose_draft)
    (simp add: new_draft_def turn_inv_incoming | erule turn_inv_update; simp add: session_parts)+

lemma stays_propose_change:
  "stays (turn_inv env s0 L0) (propose_change env' d done)"
  unfolding propose_change_def Let_def
  by (intro stays_intros quiet_intros)
    (erule turn_inv_update; simp add: session_parts turn_inv_incoming)+

lemma stays_prepare_cancellation [stays_intros]:
  "stays (turn_inv env s0 L0) (prepare_cancellation env' reference)"
  unfolding prepare_cancellation_def
  by (intro stays_intros quiet_intros stays_propose_change) (erule turn_inv_update; simp add: session_parts)

lemma stays_prepare_reschedule [stays_intros]:
  "stays (turn_inv env s0 L0) (prepare_reschedule env' reference date clock_text)"
  unfolding prepare_reschedule_def
  by (intro stays_intros quiet_intros stays_propose_change)

lemma transition_keeps:
  "transition_to c st at = Inr c' \<Longrightarrow>
     cv_draft c' = cv_draft c \<and> cv_change c' = cv_change c \<and> cv_provider c' = cv_provider c"
  by (auto simp: transition_to_def enter_state_def Let_def split: if_splits)

lemma stays_handoff [stays_intros]: "stays (turn_inv env s0 L0) (request_handoff env' reason)"
proof -
  have step: "triple (\<lambda>s L. s = s1 \<and> turn_inv env s0 L0 s L)
      (case transition_to (ss_conv s1) StateHumanRequested now of Inl e \<Rightarrow> fail e
       | Inr c \<Rightarrow> modify (\<lambda>s. offer [] (s\<lparr>ss_conv := c, ss_handoff_reason := ReasonCustomerAsked,
           ss_handoff_detail := GivenDetail (trim_space reason)\<rparr>)) (ret HandedOver)) (\<lambda>_. turn_inv env s0 L0)" for s1 now
  proof (cases "transition_to (ss_conv s1) StateHumanRequested now")
    case (Inr c)
    from transition_keeps [OF this] show ?thesis unfolding Inr sum.case
      by (intro triple_modify [OF triple_ret, of "turn_inv env s0 L0"]) (assumption |
        elim conjE turn_inv_update; simp add: session_parts)+
  qed (auto intro!: triple_fail)
  show ?thesis unfolding request_handoff_def stays_def
    by (intro triple_with_session triple_after [OF stays_outside] quiet_intros step) simp
qed

lemma stays_listing [stays_intros]:
  "stays (turn_inv env s0 L0) (list_categories env')"
  "stays (turn_inv env s0 L0) (list_services env' category)"
  "stays (turn_inv env s0 L0) (list_staff env' service_id)"
  "stays (turn_inv env s0 L0) (available_dates env' staff_id service_id)"
  "stays (turn_inv env s0 L0) (available_slots env' staff_id service_id date)"
  "stays (turn_inv env s0 L0) (list_my_bookings env')"
  unfolding list_categories_def list_services_def list_staff_def available_dates_def available_slots_def
    list_my_bookings_def Let_def
  by (intro stays_intros quiet_intros; (elim turn_inv_update; simp add: session_parts)?)+

section \<open>Confirming a booking\<close>

lemma successes_snoc:
  "successes k (L @ [(e, x)]) = successes k L + (if k e \<and> x = None then 1 else 0)"
  by (simp add: successes_def)

text \<open>The conditions under which \<open>confirm_booking\<close> sends the draft of session \<open>s\<close>.\<close>

definition confirmable :: "'e tool_env_scheme \<Rightarrow> session \<Rightarrow> draft \<Rightarrow> bool" where
  "confirmable env s d \<longleftrightarrow> cv_draft (ss_conv s) = Some d \<and> dr_prepared_from d \<noteq> ss_incoming s \<and>
     (\<exists>now. draft_validate d now = None) \<and> unproved_phone env s (dr_phone d) = None"

lemma awaiting_irrelevant:
  "draft_validate (d\<lparr>dr_awaiting_phone_verification := b\<rparr>) now = draft_validate d now"
  "booking_request s (d\<lparr>dr_awaiting_phone_verification := b\<rparr>) = booking_request s d"
  by (simp_all add: draft_validate_def draft_expired_def booking_request_def draft_to_request_def)

lemma confirmable_agreed:
  assumes inv: "turn_inv env s0 L0 s L" and ok: "confirmable env s d"
  shows "agreed_booking env s0 (booking_request s d)" "\<not> fresh_draft s0 (cv_draft (ss_conv s))"
proof -
  from inv ok show stale: "\<not> fresh_draft s0 (cv_draft (ss_conv s))"
    by (auto simp: fresh_draft_def confirmable_def dest: turn_inv_incoming)
  with inv ok obtain d0 b where d0: "cv_draft (ss_conv s0) = Some d0" and d: "d = d0\<lparr>dr_awaiting_phone_verification := b\<rparr>"
    by (auto simp: turn_inv_def proposals_known_def confirmable_def earlier_draft_def)
  from inv have same: "same_customer s0 s" by (simp add: turn_inv_def)
  then have "booking_request s d = booking_request s0 d0"
    by (simp add: d awaiting_irrelevant) (simp add: same_customer_def booking_request_def draft_to_request_def)
  with ok d0 same show "agreed_booking env s0 (booking_request s d)"
    by (auto simp: agreed_booking_def confirmable_def d awaiting_irrelevant unproved_phone_def same_customer_def)
qed

lemma create_logged:
  assumes inv: "turn_inv env s0 L0 s L" and ok: "confirmable env s d"
  shows "turn_inv env s0 L0 s (L @ [(CreateBooking (booking_request s d), Some e)])"
    "turn_inv env s0 L0 (on_conv clear_draft s) (L @ [(CreateBooking (booking_request s d), None)])"
  using inv confirmable_agreed [OF inv ok]
  by (auto simp: turn_inv_def at_most_once_def successes_snoc proposals_known_def session_parts)

lemma stays_created: "triple (\<lambda>s L. turn_inv env s0 L0 (on_conv clear_draft s) L) (booking_created env' d created) (\<lambda>_. turn_inv env s0 L0)"
  unfolding booking_created_def Let_def
  by (rule triple_modify [OF stays_triple], intro stays_intros)
    (erule turn_inv_update; simp add: session_parts)+

lemma stays_unknown: "stays (turn_inv env s0 L0) (booking_unknown env' d)"
  unfolding booking_unknown_def
  by (intro stays_intros quiet_intros)
    (erule turn_inv_update; simp add: session_parts try_transition_def transition_keeps split: sum.split)+

lemma send_booking_stays:
  assumes "confirmable env s1 d"
  shows "triple (\<lambda>s L. s = s1 \<and> turn_inv env s0 L0 s L) (send_booking env d) (\<lambda>_. turn_inv env s0 L0)"
proof -
  let ?R = "\<lambda>(r :: booking result) s L.
    case r of Inr _ \<Rightarrow> turn_inv env s0 L0 (on_conv clear_draft s) L | Inl _ \<Rightarrow> turn_inv env s0 L0 s L"
  let ?q = "booking_request s1 d"
  have sent: "triple (\<lambda>s L. s = s1 \<and> turn_inv env s0 L0 s L)
      (outside (invoke (CreateBooking ?q) (\<lambda>n. tl_create env n ?q))) ?R"
    by (rule triple_invoke) (auto simp: create_logged assms split: sum.split)
  have created: "triple (?R (Inr x)) (booking_created env d x) (\<lambda>_. turn_inv env s0 L0)" for x
    by (simp add: stays_created)
  have failed: "triple (?R (Inl e)) (if errors_is e SlotUnavailable then modify (on_conv clear_draft) (ret BookingTaken)
       else if errors_is e OutcomeUnknown then booking_unknown env d else fail e) (\<lambda>_. turn_inv env s0 L0)" for e
    unfolding sum.case
    by (intro stays_triple stays_intros stays_unknown) (erule turn_inv_update; simp add: session_parts)
  show ?thesis unfolding send_booking_def Let_def
    by (rule triple_session_at, rule triple_observe [OF sent], rule triple_result [where R = ?R, OF failed created])
qed

lemma stays_confirm_booking [stays_intros]: "stays (turn_inv env s0 L0) (confirm_booking env)"
proof -
  let ?I = "turn_inv env s0 L0"
  have "triple (\<lambda>s L. s = s1 \<and> ?I s L) (case cv_draft (ss_conv s1) of
       None \<Rightarrow> fail (errors_new ''there is nothing to confirm; call prepare_booking first'')
     | Some d \<Rightarrow> attempt (now_in env) id (\<lambda>now. case draft_validate d now of
         Some e \<Rightarrow> modify (on_conv clear_draft) (fail e)
       | None \<Rightarrow>
         if dr_prepared_from d = ss_incoming s1
         then fail (errors_new ''wait for the customer to confirm in a new message after seeing the summary'')
         else case unproved_phone env s1 (dr_phone d) of
           Some identity \<Rightarrow> attempt (booking_verification_prompt env identity (dr_phone d)) id (\<lambda>prompt.
             modify (\<lambda>s. s\<lparr>ss_final_reply := prompt\<rparr>) (ret BookingUnverified))
         | None \<Rightarrow> attempt (any_time_addition env (dr_service_ids d)) id (\<lambda>addition.
             if addition
             then modify (on_conv clear_draft) (fail (errors_new ''extra time cannot be booked alone''))
             else send_booking env d))) (\<lambda>_. ?I)" for s1
    by (intro triple_option triple_if triple_after [OF stays_outside] triple_after [OF stays_any_addition]
        quiet_intros send_booking_stays triple_stays stays_intros)
      ((simp add: confirmable_def; blast) | (elim conjE)?, assumption | elim conjE turn_inv_update; simp add: session_parts)+
  then show ?thesis unfolding confirm_booking_def stays_def by (rule triple_with_session)
qed

section \<open>Cancelling and moving\<close>

lemma owned_found:
  "triple P (owned_booking env cust reference)
     (\<lambda>r s L. P s L \<and> (\<forall>b. r = Inr b \<longrightarrow> own_appointment reference b))"
  unfolding owned_booking_def
  by (intro triple_if triple_after [OF stays_customer_bookings] triple_option)
    (auto simp: own_appointment_def dest!: find_Some_iff [THEN iffD1] intro!: triple_ret triple_fail)

text \<open>The conditions under which a confirmation acts on the change of session \<open>s\<close>.\<close>

definition change_confirmable ::
  "'e tool_env_scheme \<Rightarrow> session \<Rightarrow> change_kind \<Rightarrow> change_draft \<Rightarrow> booking \<Rightarrow> bool" where
  "change_confirmable env s kind d b \<longleftrightarrow> cv_change (ss_conv s) = Some d \<and> cd_prepared_from d \<noteq> ss_incoming s \<and>
     (\<exists>now. change_validate d kind now = None) \<and> own_appointment (cd_reference d) b"

lemma change_agreed:
  assumes "turn_inv env s0 L0 s L" "change_confirmable env s kind d b" "phone_proved env s0"
    "case start of None \<Rightarrow> True | Some t \<Rightarrow> cd_new_start d = t"
  shows "agreed_change env s0 kind b start" "\<not> fresh_change s0 (cv_change (ss_conv s))"
proof -
  from assms(1,2) show stale: "\<not> fresh_change s0 (cv_change (ss_conv s))"
    by (auto simp: fresh_change_def change_confirmable_def dest: turn_inv_incoming)
  with assms(1,2) have "cv_change (ss_conv s0) = Some d"
    by (auto simp: turn_inv_def proposals_known_def change_confirmable_def)
  with assms show "agreed_change env s0 kind b start"
    by (auto simp: agreed_change_def change_confirmable_def dest: turn_inv_incoming)
qed

lemma change_logged:
  assumes inv: "turn_inv env s0 L0 s L" and "agreed env s0 eff" "alters eff" "\<not> fresh_change s0 (cv_change (ss_conv s))"
  shows "turn_inv env s0 L0 s (L @ [(eff, Some e)])"
    "turn_inv env s0 L0 (on_conv clear_change s) (L @ [(eff, None)])"
proof -
  from assms(3) have "\<not> creates eff" by (cases eff) simp_all
  with assms show "turn_inv env s0 L0 s (L @ [(eff, Some e)])"
    "turn_inv env s0 L0 (on_conv clear_change s) (L @ [(eff, None)])"
    by (auto simp: turn_inv_def at_most_once_def successes_snoc proposals_known_def session_parts)
qed

lemma stays_unknown_change: "stays (turn_inv env s0 L0) (unknown_change env')"
  unfolding unknown_change_def
  by (intro stays_intros quiet_intros)
    (erule turn_inv_update; simp add: session_parts try_transition_def transition_keeps split: sum.split)

lemma cancel_owned_stays:
  assumes "change_confirmable env s1 ChangeCancel d b" "phone_proved env s0"
  shows "triple (\<lambda>s L. s = s1 \<and> turn_inv env s0 L0 s L) (cancel_owned env b) (\<lambda>_. turn_inv env s0 L0)"
proof -
  let ?R = "\<lambda>(r :: unit result) s L.
    case r of Inr _ \<Rightarrow> turn_inv env s0 L0 (on_conv clear_change s) L | Inl _ \<Rightarrow> turn_inv env s0 L0 s L"
  have "?R (case x of None \<Rightarrow> Inr () | Some e \<Rightarrow> Inl e) s1 (L @ [(CancelBooking b, x)])"
    if inv: "turn_inv env s0 L0 s1 L" for L x
    using change_logged [OF inv, of "CancelBooking b"] change_agreed [OF inv assms, of None]
    by (cases x) simp_all
  then have sent: "triple (\<lambda>s L. s = s1 \<and> turn_inv env s0 L0 s L) (outside (perform env (CancelBooking b))) ?R"
    by (intro triple_perform) auto
  show ?thesis unfolding cancel_owned_def Let_def
  proof (rule triple_observe [OF sent], rule triple_result [where R = ?R])
    show "triple (?R (Inl e)) (if errors_is e OutcomeUnknown then unknown_change env else fail e)
        (\<lambda>_. turn_inv env s0 L0)" for e
      unfolding sum.case by (intro stays_triple stays_intros stays_unknown_change)
    show "triple (?R (Inr x)) (modify (offer [] \<circ> on_conv clear_change)
          (attempt (record_changed_booking env (b\<lparr>bk_status := StatusCancelled\<rparr>)) id (\<lambda>_.
            modify (cancellation_reply (b\<lparr>bk_status := StatusCancelled\<rparr>))
              (ret (Cancelled (bk_external_id (b\<lparr>bk_status := StatusCancelled\<rparr>))
                (Some (bk_starts_at (b\<lparr>bk_status := StatusCancelled\<rparr>)))))))) (\<lambda>_. turn_inv env s0 L0)" for x
      unfolding sum.case
      by (rule triple_modify [OF stays_triple], intro stays_intros)
        (erule turn_inv_update; simp add: session_parts)+
  qed
qed

lemma booking_moved_triple:
  "triple (\<lambda>s L. turn_inv env s0 L0 (on_conv clear_change s) L) (booking_moved env' b) (\<lambda>_. turn_inv env s0 L0)"
  unfolding booking_moved_def Let_def
  by (rule triple_modify [OF stays_triple], intro stays_intros)
    (erule turn_inv_update; simp add: session_parts)+

lemma move_owned_stays:
  assumes "change_confirmable env s1 ChangeReschedule d b" "phone_proved env s0"
  shows "triple (\<lambda>s L. s = s1 \<and> turn_inv env s0 L0 s L) (move_owned env b (cd_new_start d)) (\<lambda>_. turn_inv env s0 L0)"
proof -
  let ?R = "\<lambda>(r :: booking result) s L.
    case r of Inr _ \<Rightarrow> turn_inv env s0 L0 (on_conv clear_change s) L | Inl _ \<Rightarrow> turn_inv env s0 L0 s L"
  let ?eff = "RescheduleBooking b (cd_new_start d)"
  have "?R r s1 (L @ [(?eff, case r of Inl e \<Rightarrow> Some e | Inr _ \<Rightarrow> None)])"
    if inv: "turn_inv env s0 L0 s1 L" for L r
    using change_logged [OF inv, of ?eff] change_agreed [OF inv assms, of "Some (cd_new_start d)"]
    by (cases r) simp_all
  then have sent: "triple (\<lambda>s L. s = s1 \<and> turn_inv env s0 L0 s L)
      (outside (invoke ?eff (\<lambda>n. tl_reschedule env n b (cd_new_start d)))) ?R"
    by (intro triple_invoke) auto
  show ?thesis unfolding move_owned_def
  proof (rule triple_observe [OF sent], rule triple_result [where R = ?R])
    show "triple (?R (Inl e)) (if errors_is e SlotUnavailable then modify (on_conv clear_change) (ret MoveTaken)
        else if errors_is e OutcomeUnknown then unknown_change env else fail e) (\<lambda>_. turn_inv env s0 L0)" for e
      unfolding sum.case
      by (intro stays_triple stays_intros stays_unknown_change) (erule turn_inv_update; simp add: session_parts)
  qed (simp add: booking_moved_triple)
qed

lemma triple_owned:
  assumes "\<And>b. own_appointment reference b \<Longrightarrow> triple P (k b) Q" "\<And>e s L. P s L \<Longrightarrow> Q (Inl (f e)) s L"
  shows "triple P (attempt (owned_booking env cust reference) f k) Q"
proof (rule triple_attempt [OF owned_found])
  show "triple (\<lambda>s L. P s L \<and> (\<forall>b. Inr x = Inr b \<longrightarrow> own_appointment reference b)) (k x) Q" for x
    using assms(1) [of x] by (auto simp: triple_def)
qed (use assms(2) in auto)

lemma stays_confirm_cancellation:
  assumes "phone_proved env s0"
  shows "stays (turn_inv env s0 L0) (confirm_cancellation env)"
  unfolding confirm_cancellation_def stays_def
  by (intro triple_with_session triple_option triple_if triple_after [OF stays_outside] triple_owned
      quiet_intros cancel_owned_stays triple_stays stays_intros assms)
    ((simp add: change_confirmable_def; blast) | (elim conjE)?, assumption |
      elim conjE turn_inv_update; simp add: session_parts)+

lemma stays_confirm_reschedule:
  assumes "phone_proved env s0"
  shows "stays (turn_inv env s0 L0) (confirm_reschedule env)"
  unfolding confirm_reschedule_def stays_def
  by (intro triple_with_session triple_option triple_if triple_after [OF stays_outside] triple_owned
      quiet_intros move_owned_stays triple_stays stays_intros assms)
    ((simp add: change_confirmable_def; blast) | (elim conjE)?, assumption |
      elim conjE turn_inv_update; simp add: session_parts)+

section \<open>Whole turns\<close>

lemma stays_dispatch:
  assumes "changes_appointment call \<Longrightarrow> phone_proved env s0"
  shows "stays (turn_inv env s0 L0) (dispatch env call)"
  using assms by (cases call) (auto intro!: stays_intros stays_confirm_cancellation stays_confirm_reschedule)

lemma stays_run_tool: "stays (turn_inv env s0 L0) (run_tool env call)"
  unfolding run_tool_def
proof (intro stays_intros)
  fix s L assume inv: "turn_inv env s0 L0 s L"
    and gate: "(if cu_verified_phone (ss_customer s) = [] \<and> changes_appointment call then tl_identity env else None) = None"
  from inv have "cu_verified_phone (ss_customer s) = cu_verified_phone (ss_customer s0)"
    by (simp add: turn_inv_def same_customer_def)
  with gate show "stays (turn_inv env s0 L0) (dispatch env call)"
    by (intro stays_dispatch) (auto simp: phone_proved_def split: if_split_asm)
qed (erule turn_inv_update; simp add: session_parts)

lemma stays_execute: "stays (turn_inv env s0 L0) (execute_tool env call)"
  unfolding execute_tool_def by (intro stays_intros stays_run_tool)

lemma run_tools_inv:
  "turn_inv env s0 L0 (tn_session tn) (changes tn) \<Longrightarrow>
   turn_inv env s0 L0 (tn_session (run_tools env calls tn)) (changes (run_tools env calls tn))"
proof (induction calls arbitrary: tn)
  case (Cons c cs)
  with stays_execute [of env s0 L0 c] show ?case
    by (simp add: stays_def triple_def)
qed simp

end
