(* ===== verification/BookingProperties.thy ===== *)
theory BookingProperties
  imports TurnLaws
begin

text \<open>
  What the tools that change an appointment tell the model, against what the calendar answered:
  the customer is only told a booking exists when it was created, an outcome nobody knows keeps the
  draft and asks for a person, and a refusal leaves the session as it was.

  The properties of the assistant's tools: what a turn may do to appointments, what the tools tell
  the model about it, and the options a customer is offered.
\<close>

section \<open>Creating\<close>

definition told_booked :: "answer result \<Rightarrow> bool" where
  "told_booked r \<longleftrightarrow> (\<exists>reference services staff start. r = Inr (Booked reference services staff start))"

definition booking_settled :: "session \<Rightarrow> draft \<Rightarrow> go_error option \<Rightarrow> answer result \<Rightarrow> session \<Rightarrow> bool" where
  "booking_settled s1 d x r s \<longleftrightarrow> (told_booked r \<longleftrightarrow> x = None) \<and> (case x of
      None \<Rightarrow> cv_draft (ss_conv s) = None
    | Some e \<Rightarrow>
      if errors_is e SlotUnavailable then r = Inr BookingTaken \<and> cv_draft (ss_conv s) = None
      else if errors_is e OutcomeUnknown
      then r = Inr BookingUnknown \<and> cv_draft (ss_conv s) = Some d \<and>
        ss_handoff_reason s = ReasonBookingUnresolved \<and> ss_handoff_detail s = UnresolvedBooking d \<and>
        (cv_state (ss_conv s1) = StateAssistantActive \<longrightarrow> cv_state (ss_conv s) = StateHumanRequested)
      else r = Inl e \<and> s = s1)"

definition booking_result :: "'e tool_env_scheme \<Rightarrow> session \<Rightarrow> call_log \<Rightarrow> answer result \<Rightarrow> session \<Rightarrow> call_log \<Rightarrow> bool" where
  "booking_result env s1 L1 r s L \<longleftrightarrow> L = L1 \<and> \<not> told_booked r \<or>
     (\<exists>d x. confirmable env s1 d \<and> L = L1 @ [(CreateBooking (booking_request s1 d), x)] \<and> booking_settled s1 d x r s)"

lemma not_told [simp]:
  "\<not> told_booked (Inl e)" "\<not> told_booked (Inr BookingUnverified)" "\<not> told_booked (Inr BookingTaken)"
  "\<not> told_booked (Inr BookingUnknown)" "told_booked (Inr (Booked a b c d))"
  by (simp_all add: told_booked_def)

lemma requested_from_active:
  "cv_state c = StateAssistantActive \<Longrightarrow> cv_state (try_transition StateHumanRequested at c) = StateHumanRequested"
  by (simp add: try_transition_def transition_to_def enter_state_def Let_def)

lemma booking_created_result:
  "triple (\<lambda>s L. L = L') (booking_created env d b) (\<lambda>r s L. L = L' \<and> cv_draft (ss_conv s) = None \<and> (\<exists>x. r = Inr x) \<and> told_booked r)"
  unfolding booking_created_def Let_def
  by (rule triple_modify [where P' = "\<lambda>s L. L = L' \<and> cv_draft (ss_conv s) = None"],
      intro triple_sure stays_intros sure_record sure_plan
        triple_modify [where P' = "\<lambda>s L. L = L' \<and> cv_draft (ss_conv s) = None"] triple_ret)
    (simp_all add: session_parts)

lemma booking_unknown_result:
  "triple (\<lambda>s L. L = L' \<and> s = s1) (booking_unknown env d) (\<lambda>r s L. L = L' \<and> r = Inr BookingUnknown \<and>
     cv_draft (ss_conv s) = cv_draft (ss_conv s1) \<and> ss_handoff_reason s = ReasonBookingUnresolved \<and>
     ss_handoff_detail s = UnresolvedBooking d \<and>
     (cv_state (ss_conv s1) = StateAssistantActive \<longrightarrow> cv_state (ss_conv s) = StateHumanRequested))"
proof -
  let ?s = "s1\<lparr>ss_handoff_reason := ReasonBookingUnresolved, ss_handoff_detail := UnresolvedBooking d\<rparr>"
  have "triple (\<lambda>s L. L = L' \<and> s = ?s) (attempt (now_in env) id (\<lambda>now.
      modify (on_conv (try_transition StateHumanRequested now)) (ret BookingUnknown)))
    (\<lambda>r s L. L = L' \<and> r = Inr BookingUnknown \<and>
     cv_draft (ss_conv s) = cv_draft (ss_conv s1) \<and> ss_handoff_reason s = ReasonBookingUnresolved \<and>
     ss_handoff_detail s = UnresolvedBooking d \<and>
     (cv_state (ss_conv s1) = StateAssistantActive \<longrightarrow> cv_state (ss_conv s) = StateHumanRequested))"
    by (intro triple_sure stays_intros quiet_intros sure_now)
      (simp add: triple_def proc_simps on_conv_def requested_from_active)
  then show ?thesis unfolding booking_unknown_def by (rule triple_modify) simp
qed

lemma send_booking_result:
  assumes ok: "confirmable env s1 d"
  shows "triple (\<lambda>s L. s = s1 \<and> L = L1) (send_booking env d) (booking_result env s1 L1)"
proof -
  let ?q = "booking_request s1 d" and ?L = "\<lambda>x. L1 @ [(CreateBooking (booking_request s1 d), x)]"
  let ?R = "\<lambda>(r :: booking result) s L. s = s1 \<and> L = ?L (case r of Inl e \<Rightarrow> Some e | Inr _ \<Rightarrow> None)"
  from ok have draft: "cv_draft (ss_conv s1) = Some d" by (simp add: confirmable_def)
  have result: "booking_settled s1 d x r s \<Longrightarrow> booking_result env s1 L1 r s (?L x)" for x r s
    using ok by (auto simp: booking_result_def)
  have sent: "triple (\<lambda>s L. s = s1 \<and> L = L1) (outside (invoke (CreateBooking ?q) (\<lambda>n. tl_create env n ?q))) ?R"
    by (rule triple_invoke) auto
  have created: "triple (?R (Inr b)) (booking_created env d b) (booking_result env s1 L1)" for b
    by (rule triple_conseq [OF booking_created_result [of "?L None"]])
      (auto intro!: result simp: booking_settled_def)
  have unknown: "triple (?R (Inl e)) (booking_unknown env d) (booking_result env s1 L1)"
    if "\<not> errors_is e SlotUnavailable" "errors_is e OutcomeUnknown" for e
    by (rule triple_conseq [OF booking_unknown_result [of "?L (Some e)" s1]])
      (use that draft in \<open>auto intro!: result simp: booking_settled_def\<close>)
  have taken: "triple (?R (Inl e)) (modify (on_conv clear_draft) (ret BookingTaken)) (booking_result env s1 L1)"
    if "errors_is e SlotUnavailable" for e
    using that by (auto intro!: result simp: triple_def proc_simps booking_settled_def on_conv_def clear_draft_def)
  have refused: "triple (?R (Inl e)) (fail e) (booking_result env s1 L1)"
    if "\<not> errors_is e SlotUnavailable" "\<not> errors_is e OutcomeUnknown" for e
    using that by (auto intro!: result simp: triple_def proc_simps booking_settled_def)
  show ?thesis unfolding send_booking_def Let_def
    by (rule triple_session_at, rule triple_observe [OF sent],
        rule triple_result [where R = ?R, OF triple_if [OF taken triple_if [OF unknown refused]] created])
qed

lemma confirm_booking_result:
  "triple (\<lambda>s L. s = s1 \<and> L = L1) (confirm_booking env) (booking_result env s1 L1)"
proof -
  have silent: "triple (\<lambda>s L. L = L1) m (\<lambda>r s L. L = L1 \<and> \<not> told_booked r) \<Longrightarrow>
      triple (\<lambda>s L. s = s1 \<and> L = L1) m (booking_result env s1 L1)" for m
    by (auto simp: triple_def booking_result_def)
  have asked: "triple (\<lambda>s L. L = L1) (attempt (booking_verification_prompt env identity phone) id (\<lambda>prompt.
      modify (\<lambda>s. s\<lparr>ss_final_reply := prompt\<rparr>) (ret BookingUnverified))) (\<lambda>r s L. L = L1 \<and> \<not> told_booked r)"
    for identity phone
    unfolding booking_verification_prompt_def verification_prompt_def Let_def
    by (intro triple_after stays_intros quiet_intros) (auto simp: triple_def proc_simps)
  show ?thesis unfolding confirm_booking_def
    by (intro triple_session_at triple_option triple_if triple_sure [OF stays_outside]
        triple_after [OF stays_any_addition] quiet_intros sure_now send_booking_result silent [OF asked])
      ((simp add: confirmable_def; blast) | auto simp: triple_def proc_simps booking_result_def)+
qed

section \<open>Cancelling and moving\<close>

definition told_changed :: "answer result \<Rightarrow> bool" where
  "told_changed r \<longleftrightarrow> (\<exists>reference t. r = Inr (Cancelled reference (Some t)) \<or> r = Inr (Moved reference t))"

definition change_effect :: "change_kind \<Rightarrow> change_draft \<Rightarrow> booking \<Rightarrow> effect" where
  "change_effect kind d b = (if kind = ChangeCancel then CancelBooking b else RescheduleBooking b (cd_new_start d))"

definition change_unknown :: "session \<Rightarrow> answer result \<Rightarrow> session \<Rightarrow> bool" where
  "change_unknown s1 r s \<longleftrightarrow> r = Inr ChangeUnknown \<and> cv_change (ss_conv s) = cv_change (ss_conv s1) \<and>
     ss_handoff_reason s = ss_handoff_reason s1 \<and> ss_handoff_detail s = ss_handoff_detail s1 \<and>
     (cv_state (ss_conv s1) = StateAssistantActive \<longrightarrow> cv_state (ss_conv s) = StateHumanRequested)"

definition change_settled ::
  "change_kind \<Rightarrow> session \<Rightarrow> go_error option \<Rightarrow> answer result \<Rightarrow> session \<Rightarrow> bool" where
  "change_settled kind s1 x r s \<longleftrightarrow> (told_changed r \<longleftrightarrow> x = None) \<and> (case x of
      None \<Rightarrow> cv_change (ss_conv s) = None
    | Some e \<Rightarrow>
      if kind = ChangeReschedule \<and> errors_is e SlotUnavailable then r = Inr MoveTaken \<and> cv_change (ss_conv s) = None
      else if errors_is e OutcomeUnknown then change_unknown s1 r s
      else r = Inl e \<and> s = s1)"

definition change_result ::
  "'e tool_env_scheme \<Rightarrow> change_kind \<Rightarrow> session \<Rightarrow> call_log \<Rightarrow> answer result \<Rightarrow> session \<Rightarrow> call_log \<Rightarrow> bool" where
  "change_result env kind s1 L1 r s L \<longleftrightarrow> L = L1 \<and> \<not> told_changed r \<or>
     (\<exists>d b x. change_confirmable env s1 kind d b \<and> L = L1 @ [(change_effect kind d b, x)] \<and>
        change_settled kind s1 x r s)"

lemma not_told_changed [simp]:
  "\<not> told_changed (Inl e)" "\<not> told_changed (Inr (Cancelled a None))" "\<not> told_changed (Inr MoveTaken)"
  "\<not> told_changed (Inr ChangeUnknown)" "told_changed (Inr (Cancelled a (Some t)))" "told_changed (Inr (Moved a t))"
  by (simp_all add: told_changed_def)

lemma unknown_change_result:
  "triple (\<lambda>s L. L = L' \<and> s = s1) (unknown_change env) (\<lambda>r s L. L = L' \<and> change_unknown s1 r s)"
  unfolding unknown_change_def
  by (intro triple_sure stays_intros quiet_intros sure_now)
    (simp add: triple_def proc_simps on_conv_def requested_from_active change_unknown_def)

lemma change_done_result:
  "triple (\<lambda>s L. L = L') (modify (offer [] \<circ> on_conv clear_change) (
      attempt (record_changed_booking env b) id (\<lambda>_.
      modify (cancellation_reply b) (ret (Cancelled reference (Some t))))))
    (\<lambda>r s L. L = L' \<and> cv_change (ss_conv s) = None \<and> told_changed r)"
  "triple (\<lambda>s L. L = L') (booking_moved env b) (\<lambda>r s L. L = L' \<and> cv_change (ss_conv s) = None \<and> told_changed r)"
  unfolding booking_moved_def
  by (rule triple_modify [where P' = "\<lambda>s L. L = L' \<and> cv_change (ss_conv s) = None"],
      intro triple_sure stays_intros sure_record sure_plan
        triple_modify [where P' = "\<lambda>s L. L = L' \<and> cv_change (ss_conv s) = None"] triple_ret;
      simp add: session_parts)+

lemma change_resultI:
  "change_confirmable env s1 kind d b \<Longrightarrow> change_settled kind s1 x r s \<Longrightarrow>
   change_result env kind s1 L1 r s (L1 @ [(change_effect kind d b, x)])"
  by (auto simp: change_result_def)

lemma cancel_owned_result:
  assumes ok: "change_confirmable env s1 ChangeCancel d b"
  shows "triple (\<lambda>s L. s = s1 \<and> L = L1) (cancel_owned env b) (change_result env ChangeCancel s1 L1)"
proof -
  let ?L = "\<lambda>x. L1 @ [(change_effect ChangeCancel d b, x)]"
  let ?R = "\<lambda>(r :: unit result) s L. s = s1 \<and> L = ?L (case r of Inl e \<Rightarrow> Some e | Inr _ \<Rightarrow> None)"
  have sent: "triple (\<lambda>s L. s = s1 \<and> L = L1) (outside (perform env (CancelBooking b))) ?R"
    by (rule triple_perform) (auto simp: change_effect_def split: option.split)
  have unknown: "triple (?R (Inl e)) (unknown_change env) (change_result env ChangeCancel s1 L1)"
    if "errors_is e OutcomeUnknown" for e
    by (rule triple_conseq [OF unknown_change_result [of "?L (Some e)" s1]])
      (use that in \<open>auto intro!: change_resultI [OF ok] simp: change_settled_def change_unknown_def\<close>)
  have refused: "triple (?R (Inl e)) (fail e) (change_result env ChangeCancel s1 L1)"
    if "\<not> errors_is e OutcomeUnknown" for e
    using that by (auto intro!: change_resultI [OF ok] simp: triple_def proc_simps change_settled_def)
  have finished: "triple (?R (Inr x)) (modify (offer [] \<circ> on_conv clear_change) (
      attempt (record_changed_booking env b') id (\<lambda>_.
      modify (cancellation_reply b') (ret (Cancelled reference (Some t))))))
      (change_result env ChangeCancel s1 L1)" for x b' reference t
    by (rule triple_conseq [OF change_done_result(1) [of "?L None"]])
      (auto intro!: change_resultI [OF ok] simp: change_settled_def)
  show ?thesis unfolding cancel_owned_def Let_def
    by (rule triple_observe [OF sent], rule triple_result [where R = ?R, OF triple_if [OF unknown refused] finished])
qed

lemma move_owned_result:
  assumes ok: "change_confirmable env s1 ChangeReschedule d b"
  shows "triple (\<lambda>s L. s = s1 \<and> L = L1) (move_owned env b (cd_new_start d)) (change_result env ChangeReschedule s1 L1)"
proof -
  let ?L = "\<lambda>x. L1 @ [(change_effect ChangeReschedule d b, x)]"
  let ?R = "\<lambda>(r :: booking result) s L. s = s1 \<and> L = ?L (case r of Inl e \<Rightarrow> Some e | Inr _ \<Rightarrow> None)"
  have sent: "triple (\<lambda>s L. s = s1 \<and> L = L1) (outside (invoke (RescheduleBooking b (cd_new_start d))
      (\<lambda>n. tl_reschedule env n b (cd_new_start d)))) ?R"
    by (rule triple_invoke) (auto simp: change_effect_def)
  have unknown: "triple (?R (Inl e)) (unknown_change env) (change_result env ChangeReschedule s1 L1)"
    if "\<not> errors_is e SlotUnavailable" "errors_is e OutcomeUnknown" for e
    by (rule triple_conseq [OF unknown_change_result [of "?L (Some e)" s1]])
      (use that in \<open>auto intro!: change_resultI [OF ok] simp: change_settled_def change_unknown_def\<close>)
  have refused: "triple (?R (Inl e)) (fail e) (change_result env ChangeReschedule s1 L1)"
    if "\<not> errors_is e SlotUnavailable" "\<not> errors_is e OutcomeUnknown" for e
    using that by (auto intro!: change_resultI [OF ok] simp: triple_def proc_simps change_settled_def)
  have taken: "triple (?R (Inl e)) (modify (on_conv clear_change) (ret MoveTaken)) (change_result env ChangeReschedule s1 L1)"
    if "errors_is e SlotUnavailable" for e
    using that by (auto intro!: change_resultI [OF ok]
        simp: triple_def proc_simps change_settled_def on_conv_def clear_change_def)
  have finished: "triple (?R (Inr m)) (booking_moved env m) (change_result env ChangeReschedule s1 L1)" for m
    by (rule triple_conseq [OF change_done_result(2) [of "?L None"]])
      (auto intro!: change_resultI [OF ok] simp: change_settled_def)
  show ?thesis unfolding move_owned_def
    by (rule triple_observe [OF sent],
        rule triple_result [where R = ?R, OF triple_if [OF taken triple_if [OF unknown refused]] finished])
qed

lemma confirm_cancellation_result:
  "triple (\<lambda>s L. s = s1 \<and> L = L1) (confirm_cancellation env) (change_result env ChangeCancel s1 L1)"
  unfolding confirm_cancellation_def
  by (intro triple_session_at triple_option triple_if triple_sure [OF stays_outside] triple_owned
      quiet_intros sure_now cancel_owned_result)
    ((simp add: change_confirmable_def; blast) | auto simp: triple_def proc_simps change_result_def)+

lemma confirm_reschedule_result:
  "triple (\<lambda>s L. s = s1 \<and> L = L1) (confirm_reschedule env) (change_result env ChangeReschedule s1 L1)"
  unfolding confirm_reschedule_def
  by (intro triple_session_at triple_option triple_if triple_sure [OF stays_outside] triple_owned
      quiet_intros sure_now move_owned_result)
    ((simp add: change_confirmable_def; blast) | auto simp: triple_def proc_simps change_result_def)+

section \<open>Appointments\<close>

text \<open>
  Whatever tools the model calls in one turn, and in whatever order, the calendar is asked to
  create, cancel or move an appointment only as the conversation proposed it before the customer's
  last message: a still valid proposal made in an earlier message, for the customer's own
  appointment with its management token, and with the phone proved where proof is required. At most
  one creation and at most one change succeed.
\<close>

theorem turn_changes_agreed:
  "\<exists>new. changes (run_tools env calls tn) = changes tn @ new \<and>
     list_all (\<lambda>(e, x). agreed env (tn_session tn) e) new \<and> successes creates new \<le> 1 \<and> successes alters new \<le> 1"
proof -
  from run_tools_inv [OF turn_inv_refl, where tn = tn and env = env and calls = calls]
  obtain new where "changes (run_tools env calls tn) = changes tn @ new"
    "\<forall>(e, x) \<in> set new. agreed env (tn_session tn) e"
    "successes creates new \<le> 1" "successes alters new \<le> 1"
    unfolding turn_inv_def by (auto simp: at_most_once_def split: if_splits)
  then show ?thesis by (auto simp: list_all_iff)
qed

text \<open>
  C3. Confirming a booking is truthful: the customer is told it exists exactly when the calendar
  created it; a slot taken meanwhile drops the draft; an unknown outcome keeps the draft, hands the
  conversation to staff with the reason and the draft to look for; any other refusal changes nothing.
\<close>

theorem confirm_booking_truthful:
  "case confirm_booking env tn of (r, tn') \<Rightarrow>
     booking_result env (tn_session tn) (changes tn) r (tn_session tn') (changes tn')"
proof (cases "confirm_booking env tn")
  case (Pair r tn')
  show ?thesis unfolding Pair by (simp, rule tripleD [OF confirm_booking_result _ Pair]) simp
qed

text \<open>
  C17. Confirming a cancellation is truthful in the same way, and acts only on the prepared
  appointment.
\<close>

theorem confirm_cancellation_truthful:
  "case confirm_cancellation env tn of (r, tn') \<Rightarrow>
     change_result env ChangeCancel (tn_session tn) (changes tn) r (tn_session tn') (changes tn')"
proof (cases "confirm_cancellation env tn")
  case (Pair r tn')
  show ?thesis unfolding Pair by (simp, rule tripleD [OF confirm_cancellation_result _ Pair]) simp
qed

text \<open>
  C16. Confirming a move is truthful, and moves only the prepared appointment to the prepared time.
\<close>

theorem confirm_reschedule_truthful:
  "case confirm_reschedule env tn of (r, tn') \<Rightarrow>
     change_result env ChangeReschedule (tn_session tn) (changes tn) r (tn_session tn') (changes tn')"
proof (cases "confirm_reschedule env tn")
  case (Pair r tn')
  show ?thesis unfolding Pair by (simp, rule tripleD [OF confirm_reschedule_result _ Pair]) simp
qed




section \<open>Options\<close>

lemma page_inside:
  assumes "p * width < length labels"
  shows "catalogue_page_with_size labels (int p) ws width =
    (take width (drop (p * width) labels),
     (if 0 < p then [fst ws] else []) @ (if (p + 1) * width < length labels then [snd ws] else []), int p)"
proof -
  have "int p * int width < int (length labels)" using assms by (metis of_nat_less_iff of_nat_mult)
  then show ?thesis
    by (cases ws) (simp add: catalogue_page_with_size_def Let_def drop_take min_def algebra_simps)
qed

lemma pages_prefix:
  assumes "(m - 1) * width < length labels"
  shows "concat (map (\<lambda>p. fst (catalogue_page_with_size labels (int p) ws width)) [0..<m]) = take (m * width) labels"
  using assms
proof (induction m)
  case (Suc m)
  have "(m - 1) * width \<le> m * width" by (rule mult_le_mono1) simp
  also from Suc have "\<dots> < length labels" by simp
  finally have "(m - 1) * width < length labels" .
  with Suc show ?case by (simp add: page_inside take_add [symmetric] add.commute)
qed simp

text \<open>
  The pages of a list of options, shown one after the other, are the whole list in order, for
  every page size; on each of them the way forward is offered exactly when options remain.
\<close>

theorem catalogue_pages_complete:
  assumes "0 < width" "labels \<noteq> []" "pages = (length labels + width - 1) div width"
  shows "concat (map (\<lambda>p. fst (catalogue_page_with_size labels (int p) (prev, next_word) width)) [0..<pages]) = labels \<and>
    list_all (\<lambda>p. fst (snd (catalogue_page_with_size labels (int p) (prev, next_word) width)) =
       (if 0 < p then [prev] else []) @ (if p + 1 < pages then [next_word] else [])) [0..<pages]" (is "?all \<and> ?controls")
proof
  have inside: "p < pages \<longleftrightarrow> p * width < length labels" for p
  proof -
    have "p < pages \<longleftrightarrow> Suc p * width \<le> length labels + width - 1"
      using less_eq_div_iff_mult_less_eq [OF assms(1), of "Suc p" "length labels + width - 1"] assms(3)
      by (simp add: Suc_le_eq)
    also have "\<dots> \<longleftrightarrow> p * width < length labels" using assms(1) by auto
    finally show ?thesis .
  qed
  have "length labels \<le> pages * width" using inside [of pages] by simp
  moreover have "(pages - 1) * width < length labels" using inside [of "pages - 1"] assms by (cases pages) auto
  ultimately show ?all by (simp add: pages_prefix)
  show ?controls by (simp add: list_all_iff inside page_inside inside [of "Suc _", simplified])
qed

theorem catalogue_pages_complete_witness:
  "concat (map (\<lambda>p. fst (catalogue_page_with_size [''a'', ''b'', ''c''] (int p) (''<'', ''>'') 2)) [0..<2]) = [''a'', ''b'', ''c'']"
  using catalogue_pages_complete [of 2 "[''a'', ''b'', ''c'']" 2] by simp

end
