(* ===== verification/Relay.thy ===== *)
theory Relay
  imports BookingTools
begin

text \<open>
  What every entry point of the assistant shares (\<open>assistant/service.go\<close>, \<open>handoff.go\<close>,
  \<open>interactions.go\<close>): finding out who writes, opening their conversation, the lock that serialises
  the turns of one conversation, retiring an answered keyboard, notices to staff and the settling of
  a claimed delivery. Senders, the staff chat and the store's optional interfaces are fields of the
  environment. Waiting for a lock ends when the environment says the request's context is done, at
  the latest after \<open>lock_rounds\<close> rounds: the context lives two minutes and a round takes at least the
  tenth of a second its ticker does.

  What staff do to a conversation (\<open>assistant/relay.go\<close>, \<open>external_reply.go\<close>): answering through the
  staff chat, the commands that take a conversation over or hand it back, and replies staff wrote in
  the channel's own inbox. The part of \<open>RelayStaffReply\<close> before the send fails with \<open>Inl\<close>; once the
  send was attempted the value is the error the function returns, which decides whether the claimed
  staff event is completed or given back.
\<close>

record desk_env = tool_env +
  as_senders :: "provider \<Rightarrow> bool option"
  as_send :: "nat \<Rightarrow> outgoing \<Rightarrow> string result"
  as_staff :: "bool option"
  as_lock_key :: "string \<Rightarrow> string"
  as_done :: "nat \<Rightarrow> go_error option"
  as_sha :: "string \<Rightarrow> string"
  as_linker :: bool

text \<open>The kind of sender: whether it reports message ids and can retire a keyboard (\<open>choiceSender\<close>).\<close>

definition send_message :: "'e desk_env_scheme \<Rightarrow> outgoing \<Rightarrow> (world, string) proc" where
  "send_message env out = invoke (SendMessage out) (\<lambda>n. as_send env n out)"

section \<open>Deliveries\<close>

definition complete_claim :: "'e env_scheme \<Rightarrow> string \<Rightarrow> string \<Rightarrow> time \<Rightarrow> (world, unit) proc" where
  "complete_claim env key claim_id at =
     attempt (clock env) id (\<lambda>now. observe (store env (complete_delivery now key claim_id at)) (\<lambda>_. ret ()))"

definition release_claim :: "'e env_scheme \<Rightarrow> string \<Rightarrow> string \<Rightarrow> (world, unit) proc" where
  "release_claim env key claim_id = observe (store env (release_delivery key claim_id)) (\<lambda>_. ret ())"

section \<open>The lock of a conversation\<close>

definition lock_rounds :: nat where "lock_rounds = 1200"

fun lock_loop :: "'e desk_env_scheme \<Rightarrow> string \<Rightarrow> string \<Rightarrow> nat \<Rightarrow> (world, unit) proc" where
  "lock_loop env key owner 0 = fail (errors_new ''context deadline exceeded'')"
| "lock_loop env key owner (Suc n) = attempt (clock env) id (\<lambda>now.
     observe (store env (claim_delivery key owner now)) (\<lambda>reply.
       let wait = attempt (ask (\<lambda>k. case as_done env k of None \<Rightarrow> Inr () | Some e \<Rightarrow> Inl e)) id
             (\<lambda>_. lock_loop env key owner n)
       in case reply of
         Inl e \<Rightarrow> if errors_is e DeliveryBusy then wait else fail (wrap_error ''lock the conversation'' e)
       | Inr claimed \<Rightarrow> if claimed then ret () else wait))"

definition turn_lock :: "'e desk_env_scheme \<Rightarrow> string \<Rightarrow> string" where
  "turn_lock env key = ''conversation-turn:'' @ as_lock_key env key"

definition lock_conversation :: "'e desk_env_scheme \<Rightarrow> string \<Rightarrow> string \<Rightarrow> (world, unit) proc" where
  "lock_conversation env key owner = lock_loop env (turn_lock env key) owner lock_rounds"

text \<open>The rest of a function after \<open>defer unlock()\<close>.\<close>

definition unlocking :: "'e desk_env_scheme \<Rightarrow> string \<Rightarrow> string \<Rightarrow> (world, 'a) proc \<Rightarrow> (world, 'a) proc" where
  "unlocking env key owner m =
     observe m (\<lambda>r. observe (release_claim env (turn_lock env key) owner) (\<lambda>_. given r))"

definition lock_stored_conversation ::
  "'e desk_env_scheme \<Rightarrow> string \<Rightarrow> (go_error \<Rightarrow> go_error) \<Rightarrow> (conversation \<Rightarrow> (world, 'a) proc) \<Rightarrow> (world, 'a) proc" where
  "lock_stored_conversation env conversation_id wrapped k =
     attempt (store env (find_by_id conversation_id)) wrapped (\<lambda>conv.
     attempt (fresh env) id (\<lambda>owner.
     attempt (lock_conversation env (conv_key conv) owner) wrapped (\<lambda>_.
       unlocking env (conv_key conv) owner (attempt (store env (find_by_id conversation_id)) wrapped k))))"

section \<open>Keyboards\<close>

definition retire_choices :: "'e desk_env_scheme \<Rightarrow> bool \<Rightarrow> conversation \<Rightarrow> (world, conversation) proc" where
  "retire_choices env tracked c =
     (if \<not> tracked \<or> cv_last_choice c = [] then ret c
      else observe (perform env (RetireChoices (cv_thread_id c) (cv_last_choice c))) (\<lambda>_.
        ret (c\<lparr>cv_last_choice := []\<rparr>)))"

definition retire_untracked_choices :: "'e desk_env_scheme \<Rightarrow> string \<Rightarrow> string \<Rightarrow> (world, unit) proc" where
  "retire_untracked_choices env thread_id message_id =
     observe (perform env (RetireChoices thread_id message_id)) (\<lambda>_. ret ())"

section \<open>Staff\<close>

abbreviation ReasonChannelUnavailable :: string where "ReasonChannelUnavailable \<equiv> ''channel_unavailable''"
abbreviation ReasonStaffReplied :: string where "ReasonStaffReplied \<equiv> ''staff_replied''"

definition handoff_timeout :: duration where "handoff_timeout = 2 * hour"

definition urgent :: "string \<Rightarrow> bool" where
  "urgent reason \<longleftrightarrow> reason = ReasonBookingUnresolved \<or> reason = ReasonChannelUnavailable"

definition notify_staff :: "'e desk_env_scheme \<Rightarrow> handoff_notice \<Rightarrow> (world, unit) proc" where
  "notify_staff env notc =
     (if as_staff env = None then ret () else observe (perform env (NotifyHandoff notc)) (\<lambda>_. ret ()))"

text \<open>The copy of a customer's message for staff whose chat takes such copies.\<close>

definition notify_inbound :: "'e desk_env_scheme \<Rightarrow> handoff_notice \<Rightarrow> string \<Rightarrow> (world, unit) proc" where
  "notify_inbound env notc txt =
     (if as_staff env = Some True then observe (perform env (NotifyInbound notc txt)) (\<lambda>_. ret ()) else ret ())"

text \<open>\<open>Service.Resume\<close>\<close>

definition resume_conversation :: "'e desk_env_scheme \<Rightarrow> string \<Rightarrow> (world, unit) proc" where
  "resume_conversation env conversation_id =
     attempt (store env (find_by_id conversation_id)) id (\<lambda>conv.
       if cv_state conv = StateAssistantActive then ret ()
       else attempt (clock env) id (\<lambda>now.
         attempt (given (transition_to conv StateAssistantActive now)) id (\<lambda>conv.
           store env (save_conversation conv))))"

section \<open>Who writes\<close>

definition recent_message_limit :: int where "recent_message_limit = 20"

definition history :: "'e env_scheme \<Rightarrow> string \<Rightarrow> (world, stored_message list) proc" where
  "history env conversation_id = store env (recent conversation_id recent_message_limit)"

text \<open>A failed update of the contact is logged; the customer in hand then keeps its old fields.\<close>

definition try_contact :: "'e env_scheme \<Rightarrow> customer \<Rightarrow> string \<Rightarrow> string \<Rightarrow> customer \<Rightarrow> (world, customer) proc" where
  "try_contact env cust name phone updated =
     attempt (clock env) id (\<lambda>now.
       observe (store env (update_contact now (cu_id cust) name phone)) (\<lambda>reply.
         ret (case reply of Inl _ \<Rightarrow> cust | Inr _ \<Rightarrow> updated)))"

definition remember_visible_name :: "'e desk_env_scheme \<Rightarrow> envelope \<Rightarrow> customer \<Rightarrow> (world, customer) proc" where
  "remember_visible_name env msg cust =
     (let name = trim_space (sn_display_name (en_sender msg)) in
      if cu_name cust = [] \<and> name \<noteq> [] then try_contact env cust name (cu_phone cust) (cust\<lparr>cu_name := name\<rparr>)
      else ret cust)"

definition remember_sender_phone :: "'e desk_env_scheme \<Rightarrow> envelope \<Rightarrow> customer \<Rightarrow> (world, customer) proc" where
  "remember_sender_phone env msg cust =
     (if en_provider msg = ProviderWhatsApp \<and> cu_phone cust = []
      then (case normalize_phone (tl_lib env) (''+'' @ trim_prefix (en_user_id msg) ''+'') of
          Inl _ \<Rightarrow> ret cust
        | Inr phone \<Rightarrow> try_contact env cust (cu_name cust) phone (cust\<lparr>cu_phone := phone\<rparr>))
      else ret cust)"

definition link_customer :: "'e desk_env_scheme \<Rightarrow> envelope \<Rightarrow> customer \<Rightarrow> string \<Rightarrow> (world, customer) proc" where
  "link_customer env msg cust phone =
     (if as_linker env
      then attempt (clock env) id (\<lambda>now.
        store env (link_verified_identity (tl_lib env) (as_sha env) now
          \<lparr>ci_id = [], ci_customer_id = [], ci_provider = en_provider msg, ci_user_id = en_user_id msg,
           ci_display_name = [], ci_language = [], ci_created_at = zero_time\<rparr> cust phone))
      else ret cust)"

definition recognise_phone :: "'e desk_env_scheme \<Rightarrow> envelope \<Rightarrow> customer \<Rightarrow> (world, customer) proc" where
  "recognise_phone env msg cust = (case tl_identity env of
       None \<Rightarrow> ret cust
     | Some identity \<Rightarrow>
       attempt (cabinet_phone identity (en_provider msg) (en_user_id msg)) (wrap_error ''verify client identity'') (\<lambda>phone.
         if phone = [] then ret cust
         else attempt (link_customer env msg cust phone) id (\<lambda>cust. ret (cust\<lparr>cu_verified_phone := phone\<rparr>))))"

definition identify :: "'e desk_env_scheme \<Rightarrow> envelope \<Rightarrow> time \<Rightarrow> (world, customer) proc" where
  "identify env msg now =
     attempt (fresh env) id (\<lambda>customer_id.
     attempt (fresh env) id (\<lambda>identity_id.
     attempt (store env (find_or_create_by_channel_identity
         \<lparr>ci_id = identity_id, ci_customer_id = customer_id, ci_provider = en_provider msg,
          ci_user_id = en_user_id msg, ci_display_name = sn_display_name (en_sender msg),
          ci_language = sn_language (en_sender msg), ci_created_at = now\<rparr>
         \<lparr>cu_id = customer_id, cu_name = sn_display_name (en_sender msg), cu_phone = [], cu_verified_phone = [],
          cu_created_at = now, cu_updated_at = now\<rparr>)) (wrap_error ''identify the customer'') (\<lambda>cust.
     attempt (remember_visible_name env msg cust) id (\<lambda>cust.
     attempt (remember_sender_phone env msg cust) id (\<lambda>cust.
       recognise_phone env msg cust)))))"

definition remember_inbound_phone :: "'e desk_env_scheme \<Rightarrow> customer \<Rightarrow> envelope \<Rightarrow> (world, customer) proc" where
  "remember_inbound_phone env cust msg =
     (if co_type (en_content msg) \<noteq> ContentTypeText then ret cust
      else case normalize_phone (tl_lib env) (trim_space (co_text (en_content msg))) of
        Inl _ \<Rightarrow> ret cust
      | Inr phone \<Rightarrow>
        if phone = cu_phone cust then ret cust
        else try_contact env cust (cu_name cust) phone (cust\<lparr>cu_phone := phone\<rparr>))"

section \<open>Opening the conversation\<close>

definition opened :: "string \<Rightarrow> customer \<Rightarrow> provider \<Rightarrow> string \<Rightarrow> time \<Rightarrow> conversation" where
  "opened conversation_id cust p thread now =
     zero_conversation\<lparr>cv_id := conversation_id, cv_customer_id := cu_id cust, cv_provider := p,
       cv_thread_id := thread, cv_state := StateAssistantActive, cv_created_at := now, cv_updated_at := now,
       cv_last_message_at := now\<rparr>"

text \<open>A conversation whose chat was linked to another profile keeps only the proposal that waits for this phone.\<close>

definition change_owner :: "customer \<Rightarrow> conversation \<Rightarrow> conversation" where
  "change_owner cust c =
     c\<lparr>cv_customer_id := cu_id cust, cv_change := None,
       cv_draft := (case cv_draft c of None \<Rightarrow> None
         | Some d \<Rightarrow> if \<not> dr_awaiting_phone_verification d \<or> dr_phone d \<noteq> cu_verified_phone cust then None else Some d)\<rparr>"

definition open_conversation :: "'e desk_env_scheme \<Rightarrow> envelope \<Rightarrow> customer \<Rightarrow> time \<Rightarrow> (world, conversation) proc" where
  "open_conversation env msg cust now =
     attempt (fresh env) id (\<lambda>conversation_id.
     attempt (store env (find_or_open (opened conversation_id cust (en_provider msg) (en_thread_id msg) now)))
       (wrap_error ''open the conversation'') (\<lambda>conv.
     let conv = (if tl_identity env \<noteq> None \<and> cv_customer_id conv \<noteq> cu_id cust then change_owner cust conv else conv) in
     attempt (given (if cv_state conv = StateClosed then transition_to conv StateAssistantActive now else Inr conv))
       (wrap_error ''reopen the conversation'') (\<lambda>conv.
     let conv = conv\<lparr>cv_last_message_at := now, cv_updated_at := now\<rparr> in
     attempt (store env (save_conversation conv)) (wrap_error ''save the conversation'') (\<lambda>_. ret conv))))"

record staff_reply =
  sr_conversation :: string
  sr_author :: string
  sr_text :: string
  sr_event :: string

definition staff_reply_validate :: "staff_reply \<Rightarrow> go_error option" where
  "staff_reply_validate r =
     (if sr_conversation r = [] then Some (errors_new ''staff reply: no conversation'')
      else if trim_space (sr_text r) = [] then Some (errors_new ''staff reply: no text'')
      else None)"

section \<open>Answering through the staff chat\<close>

definition taken_over :: "conversation \<Rightarrow> time \<Rightarrow> conversation" where
  "taken_over c now =
     c\<lparr>cv_last_choice := [], cv_pending_choice := [], cv_pending_event := [], cv_presented := [],
       cv_handoff_at := now\<rparr>"

definition pause_assistant :: "'e desk_env_scheme \<Rightarrow> conversation \<Rightarrow> (world, conversation) proc" where
  "pause_assistant env conv =
     attempt (clock env) id (\<lambda>now.
     let conv = taken_over conv now in
     attempt (if cv_state conv \<noteq> StateHumanActive
         then attempt (clock env) id (\<lambda>now. given (transition_to conv StateHumanActive now)) else ret conv) id (\<lambda>conv.
     attempt (store env (save_conversation conv)) (wrap_error ''pause the assistant before a staff reply'') (\<lambda>_.
       ret conv)))"

definition signed_text :: "staff_reply \<Rightarrow> string" where
  "signed_text r =
     (let name = trim_space (sr_author r) in if name \<noteq> [] then name @ '': '' @ sr_text r else sr_text r)"

definition record_relayed :: "'e desk_env_scheme \<Rightarrow> conversation \<Rightarrow> string \<Rightarrow> (world, go_error option) proc" where
  "record_relayed env conv txt =
     attempt (clock env) id (\<lambda>now.
     attempt (fresh env) id (\<lambda>message_id.
     observe (store env (append_message
         \<lparr>ms_id = message_id, ms_conversation_id = cv_id conv, ms_direction = DirectionOutbound,
          ms_content_type = ContentTypeText, ms_text = txt, ms_external_id = [], ms_created_at = now\<rparr>)) (\<lambda>_.
     let conv = (if cv_state conv \<noteq> StateHumanActive then try_transition StateHumanActive now conv else conv);
         conv = conv\<lparr>cv_updated_at := now, cv_last_message_at := now, cv_handoff_at := now\<rparr> in
     observe (store env (save_conversation conv)) (\<lambda>reply. ret (case reply of
       Inl e \<Rightarrow> Some (wrap_error ''save the conversation after a colleague replied'' e) | Inr _ \<Rightarrow> None)))))"

definition relay_to :: "'e desk_env_scheme \<Rightarrow> staff_reply \<Rightarrow> conversation \<Rightarrow> (world, go_error option) proc" where
  "relay_to env reply conv = (case as_senders env (cv_provider conv) of
       None \<Rightarrow> fail (errors_new (''no sender configured for '' @ cv_provider conv))
     | Some tracked \<Rightarrow>
       attempt (retire_choices env tracked conv) id (\<lambda>conv.
       attempt (pause_assistant env conv) id (\<lambda>conv.
       observe (send_message env (plain_message (cv_provider conv) (cv_thread_id conv) (signed_text reply))) (\<lambda>sent.
         case sent of
           Inl e \<Rightarrow> ret (Some (wrap_error ''send a colleague's reply'' e))
         | Inr _ \<Rightarrow> record_relayed env conv (signed_text reply)))))"

definition relay_locked :: "'e desk_env_scheme \<Rightarrow> staff_reply \<Rightarrow> (world, go_error option) proc" where
  "relay_locked env reply = lock_stored_conversation env (sr_conversation reply)
     (wrap_error ''find the conversation a colleague replied to'') (relay_to env reply)"

text \<open>The deferred settling of the claim, after the lock is given back.\<close>

definition relay_settled ::
  "'e desk_env_scheme \<Rightarrow> string \<Rightarrow> string \<Rightarrow> go_error option result \<Rightarrow> (world, unit) proc" where
  "relay_settled env event claim_id r =
     (if event = [] then ret ()
      else case r of
        Inl _ \<Rightarrow> release_claim env event claim_id
      | Inr _ \<Rightarrow> attempt (clock env) id (\<lambda>now. complete_claim env event claim_id now))"

definition relay_outcome :: "go_error option result \<Rightarrow> unit result" where
  "relay_outcome r = (case r of Inl e \<Rightarrow> Inl e | Inr None \<Rightarrow> Inr () | Inr (Some e) \<Rightarrow> Inl e)"

definition relay_claimed :: "'e desk_env_scheme \<Rightarrow> staff_reply \<Rightarrow> string \<Rightarrow> (world, unit) proc" where
  "relay_claimed env reply claim_id =
     observe (relay_locked env reply) (\<lambda>r.
     observe (relay_settled env (sr_event reply) claim_id r) (\<lambda>_. given (relay_outcome r)))"

definition relay_staff_reply :: "'e desk_env_scheme \<Rightarrow> staff_reply \<Rightarrow> (world, unit) proc" where
  "relay_staff_reply env reply = (case staff_reply_validate reply of
       Some e \<Rightarrow> fail e
     | None \<Rightarrow>
       attempt (fresh env) id (\<lambda>claim_id.
       if sr_event reply = [] then relay_claimed env reply claim_id
       else attempt (clock env) id (\<lambda>now.
         attempt (store env (claim_delivery (sr_event reply) claim_id now)) id (\<lambda>claimed.
           if claimed then relay_claimed env reply claim_id else ret ()))))"

section \<open>Commands of the staff chat\<close>

datatype staff_command = CommandResume | CommandTake | OtherCommand string

fun command_state :: "staff_command \<Rightarrow> conv_state result" where
  "command_state CommandResume = Inr StateAssistantActive"
| "command_state CommandTake = Inr StateHumanActive"
| "command_state (OtherCommand c) = Inl (errors_new ''there is no command'')"

definition command_reply :: "staff_command \<Rightarrow> string" where
  "command_reply c =
     (if c = CommandResume then ''The assistant is answering this customer again.''
      else ''Noted, you are handling this one. The assistant will stay out of it.'')"

definition run_staff_command :: "'e desk_env_scheme \<Rightarrow> staff_command \<Rightarrow> string \<Rightarrow> (world, string) proc" where
  "run_staff_command env c conversation_id =
     lock_stored_conversation env conversation_id (wrap_error ''find the conversation'') (\<lambda>conv.
       attempt (given (command_state c)) id (\<lambda>next_state.
       attempt (clock env) id (\<lambda>now.
       attempt (given (transition_to conv next_state now)) id (\<lambda>conv.
       attempt (store env (save_conversation conv)) (wrap_error ''save the conversation'') (\<lambda>_.
         ret (command_reply c))))))"

section \<open>Replies written in the channel's own inbox\<close>

definition staff_replied_detail :: string where
  "staff_replied_detail = ''An administrator replied in the client chat. Assistant paused; use Resume to return it now, or it resumes on the next client message after 2 hours without an administrator reply.''"

definition thread_envelope :: "external_reply \<Rightarrow> envelope" where
  "thread_envelope r =
     \<lparr>en_provider = er_provider r, en_message_id = [], en_choice_message_id = [], en_user_id = er_thread_id r,
      en_thread_id = [], en_sent_at = zero_time, en_received_at = zero_time,
      en_sender = \<lparr>sn_display_name = [], sn_language = [], sn_username = []\<rparr>,
      en_content = \<lparr>co_type = [], co_text = [], co_audio = None, co_description = []\<rparr>\<rparr>"

definition last_six :: "'a list \<Rightarrow> 'a list" where
  "last_six xs = (if length xs > 6 then drop (length xs - 6) xs else xs)"

definition announce_staff_reply ::
  "'e desk_env_scheme \<Rightarrow> external_reply \<Rightarrow> customer \<Rightarrow> conversation \<Rightarrow> time \<Rightarrow> (world, unit) proc" where
  "announce_staff_reply env r cust conv now =
     observe (history env (cv_id conv)) (\<lambda>reply.
       notify_staff env
         \<lparr>hn_conversation = cv_id conv, hn_reason = ReasonStaffReplied, hn_detail = GivenDetail staff_replied_detail,
          hn_provider = er_provider r, hn_customer = cust, hn_handle = [], hn_user_id = er_thread_id r,
          hn_recent = (case reply of Inl _ \<Rightarrow> [] | Inr ms \<Rightarrow> last_six ms), hn_draft = None, hn_requested_at = now\<rparr>)"

definition observe_staff_reply :: "'e desk_env_scheme \<Rightarrow> external_reply \<Rightarrow> (world, unit) proc" where
  "observe_staff_reply env r = (case external_reply_validate r of
       Some e \<Rightarrow> fail e
     | None \<Rightarrow>
       attempt (clock env) id (\<lambda>now.
       attempt (identify env (thread_envelope r) now) id (\<lambda>cust.
       attempt (fresh env) id (\<lambda>conversation_id.
       attempt (fresh env) id (\<lambda>message_id.
       attempt (store env (record_external_reply_observed
           (opened conversation_id cust (er_provider r) (er_thread_id r) now)
           \<lparr>ms_id = message_id, ms_conversation_id = [], ms_direction = DirectionOutbound,
            ms_content_type = co_type (er_content r), ms_text = co_text (er_content r),
            ms_external_id = er_message_id r, ms_created_at = er_sent_at r\<rparr> (er_sent_at r) now)) id (\<lambda>(conv, observed).
         if observed then announce_staff_reply env r cust conv now else ret ()))))))"

text \<open>\<open>checkExternalReply\<close>: whether staff have answered since this copy was read.\<close>

definition check_external_reply :: "'e env_scheme \<Rightarrow> conversation \<Rightarrow> (world, unit) proc" where
  "check_external_reply env conv =
     (if cv_provider conv = [] then ret ()
      else attempt (store env (find_by_id (cv_id conv))) (wrap_error ''check whether staff have replied'') (\<lambda>current.
        if cv_revision current \<noteq> cv_revision conv then fail (sentinel_error ExternalReplyConflict) else ret ()))"

end
