(* ===== verification/Utf8.thy ===== *)
theory Utf8
  imports Prelude
begin

text \<open>
  Go's conversions between a string, which is a sequence of bytes, and its runes: \<open>encode_rune\<close> and
  \<open>utf8\<close> are \<open>string([]rune)\<close>, \<open>runes\<close> is \<open>[]rune(string)\<close> and the iteration of \<open>range\<close>. A byte that
  starts no well-formed sequence decodes to U+FFFD alone, as in \<open>unicode/utf8\<close>.
\<close>

section \<open>Encoding\<close>

definition replacement_rune :: nat where "replacement_rune = 0xFFFD"

definition is_scalar :: "nat \<Rightarrow> bool" where
  "is_scalar r \<longleftrightarrow> r < 0xD800 \<or> 0xE000 \<le> r \<and> r \<le> 0x10FFFF"

definition encode_scalar :: "nat \<Rightarrow> nat list" where
  "encode_scalar r =
     (if r < 0x80 then [r]
      else if r < 0x800 then [0xC0 + r div 64, 0x80 + r mod 64]
      else if r < 0x10000 then [0xE0 + r div 4096, 0x80 + r div 64 mod 64, 0x80 + r mod 64]
      else [0xF0 + r div 262144, 0x80 + r div 4096 mod 64, 0x80 + r div 64 mod 64, 0x80 + r mod 64])"

definition encode_rune :: "nat \<Rightarrow> nat list" where
  "encode_rune r = encode_scalar (if is_scalar r then r else replacement_rune)"

definition utf8 :: "nat list \<Rightarrow> string" where
  "utf8 rs = map char_of (concat (map encode_rune rs))"

section \<open>Decoding\<close>

definition continues :: "nat \<Rightarrow> bool" where "continues b \<longleftrightarrow> 0x80 \<le> b \<and> b \<le> 0xBF"

text \<open>The second byte excludes overlong forms, surrogates and what lies past U+10FFFF.\<close>

definition second_ok :: "nat \<Rightarrow> nat \<Rightarrow> bool" where
  "second_ok a b \<longleftrightarrow> continues b \<and> (a = 0xE0 \<longrightarrow> 0xA0 \<le> b) \<and> (a = 0xED \<longrightarrow> b \<le> 0x9F) \<and>
     (a = 0xF0 \<longrightarrow> 0x90 \<le> b) \<and> (a = 0xF4 \<longrightarrow> b \<le> 0x8F)"

text \<open>\<open>utf8.DecodeRune\<close>: the rune and how many further bytes it takes.\<close>

fun decode_rune :: "nat \<Rightarrow> nat list \<Rightarrow> nat \<times> nat" where
  "decode_rune a bs =
     (if a < 0x80 then (a, 0)
      else case bs of
        b # rest \<Rightarrow>
          if 0xC2 \<le> a \<and> a \<le> 0xDF \<and> continues b then ((a - 0xC0) * 64 + (b - 0x80), 1)
          else (case rest of
            c # rest \<Rightarrow>
              if 0xE0 \<le> a \<and> a \<le> 0xEF \<and> second_ok a b \<and> continues c
              then ((a - 0xE0) * 4096 + (b - 0x80) * 64 + (c - 0x80), 2)
              else (case rest of
                d # _ \<Rightarrow>
                  if 0xF0 \<le> a \<and> a \<le> 0xF4 \<and> second_ok a b \<and> continues c \<and> continues d
                  then ((a - 0xF0) * 262144 + (b - 0x80) * 4096 + (c - 0x80) * 64 + (d - 0x80), 3)
                  else (replacement_rune, 0)
              | [] \<Rightarrow> (replacement_rune, 0))
          | [] \<Rightarrow> (replacement_rune, 0))
      | [] \<Rightarrow> (replacement_rune, 0))"

declare decode_rune.simps [simp del]

fun decode :: "nat list \<Rightarrow> nat list" where
  "decode [] = []"
| "decode (a # bs) = fst (decode_rune a bs) # decode (drop (snd (decode_rune a bs)) bs)"

definition runes :: "string \<Rightarrow> nat list" where
  "runes s = decode (map of_char s)"

definition rune_count :: "string \<Rightarrow> nat" where
  "rune_count s = length (runes s)"

lemma decode_length: "length (decode bs) \<le> length bs"
proof (induction bs rule: decode.induct)
  case (2 a bs)
  then show ?case by (simp add: le_diff_conv)
qed simp

section \<open>Round trip\<close>

lemma div_64: "(r :: nat) div 64 div 64 = r div 4096" "(r :: nat) div 4096 div 64 = r div 262144"
  by (simp_all add: div_mult2_eq [symmetric])

lemma split_64: "(r :: nat) = r div 64 * 64 + r mod 64" by simp

lemma rune_parts:
  "(r :: nat) div 4096 * 4096 + r div 64 mod 64 * 64 + r mod 64 = r"
  "(r :: nat) div 262144 * 262144 + r div 4096 mod 64 * 4096 + r div 64 mod 64 * 64 + r mod 64 = r"
proof -
  have a: "r div 64 = r div 4096 * 64 + r div 64 mod 64" by (subst div_64(1) [symmetric]) simp
  have b: "r div 4096 = r div 262144 * 64 + r div 4096 mod 64" by (subst div_64(2) [symmetric]) simp
  show "r div 4096 * 4096 + r div 64 mod 64 * 64 + r mod 64 = r" using a split_64 [of r] by linarith
  then show "r div 262144 * 262144 + r div 4096 mod 64 * 4096 + r div 64 mod 64 * 64 + r mod 64 = r"
    using b by linarith
qed

lemma continues_mod [simp]: "continues (0x80 + y mod 64)"
  using mod_less_divisor [of 64 y] by (simp add: continues_def)

lemma decode_two: "2 \<le> x \<Longrightarrow> x \<le> 31 \<Longrightarrow>
    decode_rune (0xC0 + x) ((0x80 + y mod 64) # bs) = (x * 64 + y mod 64, 1)"
  by (simp add: decode_rune.simps)

lemma decode_three: "x \<le> 15 \<Longrightarrow> second_ok (0xE0 + x) (0x80 + y mod 64) \<Longrightarrow>
    decode_rune (0xE0 + x) ((0x80 + y mod 64) # (0x80 + z mod 64) # bs) =
      (x * 4096 + y mod 64 * 64 + z mod 64, 2)"
  by (simp add: decode_rune.simps)

lemma decode_four: "x \<le> 4 \<Longrightarrow> second_ok (0xF0 + x) (0x80 + y mod 64) \<Longrightarrow>
    decode_rune (0xF0 + x) ((0x80 + y mod 64) # (0x80 + z mod 64) # (0x80 + t mod 64) # bs) =
      (x * 262144 + y mod 64 * 4096 + z mod 64 * 64 + t mod 64, 3)"
  by (simp add: decode_rune.simps)

lemma decode_encode:
  assumes "is_scalar r"
  shows "decode (encode_scalar r @ bs) = r # decode bs"
proof -
  consider "r < 0x80" | "0x80 \<le> r" "r < 0x800" | "0x800 \<le> r" "r < 0x10000" | "0x10000 \<le> r" by linarith
  then show ?thesis
  proof cases
    case 1
    then show ?thesis by (simp add: encode_scalar_def decode_rune.simps)
  next
    case 2
    then have "2 \<le> r div 64" "r div 64 \<le> 31" by auto
    then show ?thesis using 2 by (simp add: encode_scalar_def decode_two)
  next
    case 3
    have "r div 64 mod 64 < 64" "r div 4096 \<le> 15" using 3 by auto
    moreover have "r div 4096 = 0 \<Longrightarrow> 32 \<le> r div 64 mod 64"
      using 3 div_64(1) [of r] by (simp add: div_eq_0_iff)
    moreover have "r div 4096 = 13 \<Longrightarrow> r div 64 mod 64 \<le> 31"
      using assms 3 rune_parts(1) [of r] by (auto simp: is_scalar_def)
    ultimately have "second_ok (0xE0 + r div 4096) (0x80 + r div 64 mod 64)"
      by (auto simp: second_ok_def continues_def)
    then show ?thesis using 3 rune_parts(1) [of r] \<open>r div 4096 \<le> 15\<close>
      by (simp add: encode_scalar_def decode_three)
  next
    case 4
    have "r \<le> 0x10FFFF" using assms 4 by (auto simp: is_scalar_def)
    then have "r div 262144 \<le> 4" by auto
    moreover have "r div 262144 = 0 \<Longrightarrow> 16 \<le> r div 4096 mod 64"
      using 4 div_64(2) [of r] by (simp add: div_eq_0_iff)
    moreover have "r div 262144 = 4 \<Longrightarrow> r div 4096 mod 64 \<le> 15"
      using \<open>r \<le> 0x10FFFF\<close> rune_parts(2) [of r] by linarith
    moreover have "r div 4096 mod 64 < 64" by simp
    ultimately have "second_ok (0xF0 + r div 262144) (0x80 + r div 4096 mod 64)"
      by (auto simp: second_ok_def continues_def)
    then show ?thesis using 4 rune_parts(2) [of r] \<open>r div 262144 \<le> 4\<close>
      by (simp add: encode_scalar_def decode_four)
  qed
qed

lemma encode_scalar_bytes: "is_scalar r \<Longrightarrow> b \<in> set (encode_scalar r) \<Longrightarrow> b < 256"
  by (auto simp: encode_scalar_def is_scalar_def split: if_splits)

lemma runes_utf8: "runes (utf8 rs) = map (\<lambda>r. if is_scalar r then r else replacement_rune) rs"
proof (induction rs)
  case (Cons r rs)
  let ?r = "if is_scalar r then r else replacement_rune"
  have scalar: "is_scalar ?r" by (simp add: is_scalar_def replacement_rune_def)
  have "map of_char (map char_of (encode_scalar ?r) :: char list) = encode_scalar ?r"
    using encode_scalar_bytes [OF scalar] by (simp add: map_idI)
  with Cons decode_encode [OF scalar] show ?case
    by (simp add: runes_def utf8_def encode_rune_def)
qed (simp add: runes_def utf8_def)

section \<open>Scripts\<close>

text \<open>The tables \<open>unicode.Armenian\<close> and \<open>unicode.Cyrillic\<close>.\<close>

definition armenian_ranges :: "(nat \<times> nat) list" where
  "armenian_ranges = [(0x531, 0x556), (0x559, 0x58A), (0x58D, 0x58F), (0xFB13, 0xFB17)]"

definition cyrillic_ranges :: "(nat \<times> nat) list" where
  "cyrillic_ranges = [(0x400, 0x484), (0x487, 0x52F), (0x1C80, 0x1C88), (0x1D2B, 0x1D2B), (0x1D78, 0x1D78),
     (0x2DE0, 0x2DFF), (0xA640, 0xA69F), (0xFE2E, 0xFE2F), (0x1E030, 0x1E06D), (0x1E08F, 0x1E08F)]"

definition in_ranges :: "(nat \<times> nat) list \<Rightarrow> nat \<Rightarrow> bool" where
  "in_ranges ranges r \<longleftrightarrow> list_ex (\<lambda>(lo, hi). lo \<le> r \<and> r \<le> hi) ranges"

end
