(* ===== verification/Choices.thy ===== *)
theory Choices
  imports Utf8 Session
begin

text \<open>
  The labels of the buttons in the three languages the assistant writes (\<open>phrasebook\<close> in
  \<open>choices.go\<close>, \<open>navigationSpeak\<close>, \<open>publicLinkLabels\<close>, \<open>contactLabel\<close>, \<open>reminderLabels\<close>) and the
  word lists the code compares a customer's message with, as the code points of the source. An
  unknown language falls back to English. The sentences of fixed replies stay symbolic elsewhere.

  Reading the customer's message and choosing the buttons of a reply (\<open>choices.go\<close>, \<open>menu.go\<close>,
  \<open>change_confirmation.go\<close>, the choice helpers of \<open>tools.go\<close>, \<open>service.go\<close> and
  \<open>catalogue_browser.go\<close>), and the bounded transcript a model is shown (\<open>purpose.go\<close>, \<open>prompt.go\<close>).
  \<open>words\<close> is the table of labels, \<open>lower\<close> and \<open>fold_eq\<close> are \<open>strings.ToLower\<close> and
  \<open>strings.EqualFold\<close>, and \<open>word_rune\<close> is \<open>unicode.IsLetter\<close> or \<open>unicode.IsDigit\<close>.

  The studio's rule that replies carry no hearts (\<open>assistant/voice.go\<close>). The regular expressions are
  matched as Go does, over the runes of the text with their bytes, so bytes that are not valid UTF-8
  stay as they are.
\<close>

abbreviation language_armenian :: string where "language_armenian \<equiv> ''hy''"
abbreviation language_russian :: string where "language_russian \<equiv> ''ru''"
abbreviation language_english :: string where "language_english \<equiv> ''en''"

definition languages :: "string list" where
  "languages = [language_english, language_armenian, language_russian]"

section \<open>Labels\<close>

definition english_labels :: "string table" where
  "english_labels = [
      (''confirm_booking'', ''Yes, book it''),
      (''another_time'', ''Another time''),
      (''confirm_change'', ''Yes, go ahead''),
      (''leave_it_alone'', ''No, leave it''),
      (''talk_to_a_person'', ''Talk to a person''),
      (''book_a_visit'', ''Book a visit''),
      (''my_appointments'', ''My appointments''),
      (''services_prices'', ''Services and prices''),
      (''start_again'', ''Start again''),
      (''what_i_can_do'', ''How we can help''),
      (''back'', utf8 [0x2190, 0x20, 0x42, 0x61, 0x63, 0x6B]),
      (''categories'', utf8 [0x2630, 0x20, 0x43, 0x61, 0x74, 0x65, 0x67, 0x6F, 0x72, 0x69, 0x65, 0x73]),
      (''next'', utf8 [0x4E, 0x65, 0x78, 0x74, 0x20, 0x2192]),
      (''previous'', utf8 [0x2190, 0x20, 0x50, 0x72, 0x65, 0x76, 0x69, 0x6F, 0x75, 0x73]),
      (''book'', ''Choose treatment''),
      (''website'', ''Our website''),
      (''booking_link'', ''Book online''),
      (''contact'', ''Contact & socials''),
      (''enable_reminders'', ''Enable reminders''),
      (''disable_reminders'', ''No reminders'')]"

definition armenian_labels :: "string table" where
  "armenian_labels = [
      (''confirm_booking'', utf8 [0x531, 0x575, 0x578, 0x2C, 0x20, 0x561, 0x574, 0x580, 0x561, 0x563, 0x580, 0x565, 0x584]),
      (''another_time'', utf8 [0x548, 0x582, 0x580, 0x56B, 0x577, 0x20, 0x56A, 0x561, 0x574]),
      (''confirm_change'', utf8 [0x531, 0x575, 0x578, 0x2C, 0x20, 0x570, 0x561, 0x57D, 0x57F, 0x561, 0x57F, 0x578, 0x582,
      0x574, 0x20, 0x565, 0x574]),
      (''leave_it_alone'', utf8 [0x548, 0x579, 0x2C, 0x20, 0x569, 0x578, 0x572, 0x565, 0x584]),
      (''talk_to_a_person'', utf8 [0x53F, 0x561, 0x57A, 0x57E, 0x565, 0x56C, 0x20, 0x561, 0x577, 0x56D, 0x561, 0x57F, 0x561,
      0x56F, 0x581, 0x56B, 0x20, 0x570, 0x565, 0x57F]),
      (''book_a_visit'', utf8 [0x531, 0x574, 0x580, 0x561, 0x563, 0x580, 0x565, 0x56C, 0x20, 0x561, 0x575, 0x581]),
      (''my_appointments'', utf8 [0x53B, 0x574, 0x20, 0x561, 0x575, 0x581, 0x565, 0x580, 0x568]),
      (''services_prices'', utf8 [0x53E, 0x561, 0x57C, 0x561, 0x575, 0x578, 0x582, 0x569, 0x575, 0x578, 0x582, 0x576, 0x576,
      0x565, 0x580, 0x20, 0x587, 0x20, 0x563, 0x576, 0x565, 0x580]),
      (''start_again'', utf8 [0x54D, 0x56F, 0x57D, 0x565, 0x56C, 0x20, 0x576, 0x578, 0x580, 0x56B, 0x581]),
      (''what_i_can_do'', utf8 [0x53B, 0x576, 0x579, 0x578, 0x57E, 0x20, 0x56F, 0x561, 0x580, 0x578, 0x572, 0x20, 0x565, 0x576,
      0x584, 0x20, 0x585, 0x563, 0x576, 0x565, 0x56C]),
      (''back'', utf8 [0x2190, 0x20, 0x540, 0x565, 0x57F]),
      (''categories'', utf8 [0x2630, 0x20, 0x532, 0x561, 0x56A, 0x56B, 0x576, 0x576, 0x565, 0x580]),
      (''next'', utf8 [0x540, 0x561, 0x57B, 0x578, 0x580, 0x564, 0x568, 0x20, 0x2192]),
      (''previous'', utf8 [0x2190, 0x20, 0x546, 0x561, 0x56D, 0x578, 0x580, 0x564, 0x568]),
      (''book'', utf8 [0x538, 0x576, 0x57F, 0x580, 0x565, 0x56C, 0x20, 0x56E, 0x561, 0x57C, 0x561, 0x575, 0x578, 0x582, 0x569,
      0x575, 0x578, 0x582, 0x576, 0x568]),
      (''website'', utf8 [0x544, 0x565, 0x580, 0x20, 0x56F, 0x561, 0x575, 0x584, 0x568]),
      (''booking_link'', utf8 [0x531, 0x574, 0x580, 0x561, 0x563, 0x580, 0x565, 0x56C, 0x20, 0x561, 0x57C, 0x581, 0x561, 0x576,
      0x581]),
      (''contact'', utf8 [0x53F, 0x561, 0x57A, 0x20, 0x587, 0x20, 0x57D, 0x578, 0x581, 0x56B, 0x561, 0x56C, 0x561, 0x56F,
      0x561, 0x576, 0x20, 0x567, 0x57B, 0x565, 0x580]),
      (''enable_reminders'', utf8 [0x544, 0x56B, 0x561, 0x581, 0x576, 0x565, 0x56C, 0x20, 0x570, 0x56B, 0x577, 0x565, 0x581,
      0x578, 0x582, 0x574, 0x576, 0x565, 0x580, 0x568]),
      (''disable_reminders'', utf8 [0x531, 0x57C, 0x561, 0x576, 0x581, 0x20, 0x570, 0x56B, 0x577, 0x565, 0x581, 0x578, 0x582,
      0x574, 0x576, 0x565, 0x580, 0x56B])]"

definition russian_labels :: "string table" where
  "russian_labels = [
      (''confirm_booking'', utf8 [0x414, 0x430, 0x2C, 0x20, 0x437, 0x430, 0x43F, 0x438, 0x448, 0x438, 0x442, 0x435]),
      (''another_time'', utf8 [0x414, 0x440, 0x443, 0x433, 0x43E, 0x435, 0x20, 0x432, 0x440, 0x435, 0x43C, 0x44F]),
      (''confirm_change'', utf8 [0x414, 0x430, 0x2C, 0x20, 0x43F, 0x43E, 0x434, 0x442, 0x432, 0x435, 0x440, 0x436, 0x434,
      0x430, 0x44E]),
      (''leave_it_alone'', utf8 [0x41D, 0x435, 0x442, 0x2C, 0x20, 0x43E, 0x441, 0x442, 0x430, 0x432, 0x44C, 0x442, 0x435]),
      (''talk_to_a_person'', utf8 [0x421, 0x432, 0x44F, 0x437, 0x430, 0x442, 0x44C, 0x441, 0x44F, 0x20, 0x441, 0x20, 0x441,
      0x43E, 0x442, 0x440, 0x443, 0x434, 0x43D, 0x438, 0x43A, 0x43E, 0x43C]),
      (''book_a_visit'', utf8 [0x417, 0x430, 0x43F, 0x438, 0x441, 0x430, 0x442, 0x44C, 0x441, 0x44F]),
      (''my_appointments'', utf8 [0x41C, 0x43E, 0x438, 0x20, 0x437, 0x430, 0x43F, 0x438, 0x441, 0x438]),
      (''services_prices'', utf8 [0x423, 0x441, 0x43B, 0x443, 0x433, 0x438, 0x20, 0x438, 0x20, 0x446, 0x435, 0x43D, 0x44B]),
      (''start_again'', utf8 [0x41D, 0x430, 0x447, 0x430, 0x442, 0x44C, 0x20, 0x437, 0x430, 0x43D, 0x43E, 0x432, 0x43E]),
      (''what_i_can_do'', utf8 [0x41A, 0x430, 0x43A, 0x20, 0x43C, 0x44B, 0x20, 0x43C, 0x43E, 0x436, 0x435, 0x43C, 0x20, 0x43F,
      0x43E, 0x43C, 0x43E, 0x447, 0x44C]),
      (''back'', utf8 [0x2190, 0x20, 0x41D, 0x430, 0x437, 0x430, 0x434]),
      (''categories'', utf8 [0x2630, 0x20, 0x41A, 0x430, 0x442, 0x435, 0x433, 0x43E, 0x440, 0x438, 0x438]),
      (''next'', utf8 [0x414, 0x430, 0x43B, 0x435, 0x435, 0x20, 0x2192]),
      (''previous'', utf8 [0x2190, 0x20, 0x420, 0x430, 0x43D, 0x435, 0x435]),
      (''book'', utf8 [0x412, 0x44B, 0x431, 0x440, 0x430, 0x442, 0x44C, 0x20, 0x443, 0x441, 0x43B, 0x443, 0x433, 0x443]),
      (''website'', utf8 [0x41D, 0x430, 0x448, 0x20, 0x441, 0x430, 0x439, 0x442]),
      (''booking_link'', utf8 [0x417, 0x430, 0x43F, 0x438, 0x441, 0x430, 0x442, 0x44C, 0x441, 0x44F, 0x20, 0x43E, 0x43D, 0x43B,
      0x430, 0x439, 0x43D]),
      (''contact'', utf8 [0x41A, 0x43E, 0x43D, 0x442, 0x430, 0x43A, 0x442, 0x44B, 0x20, 0x438, 0x20, 0x441, 0x43E, 0x446,
      0x441, 0x435, 0x442, 0x438]),
      (''enable_reminders'', utf8 [0x412, 0x43A, 0x43B, 0x44E, 0x447, 0x438, 0x442, 0x44C, 0x20, 0x43D, 0x430, 0x43F, 0x43E,
      0x43C, 0x438, 0x43D, 0x430, 0x43D, 0x438, 0x44F]),
      (''disable_reminders'', utf8 [0x411, 0x435, 0x437, 0x20, 0x43D, 0x430, 0x43F, 0x43E, 0x43C, 0x438, 0x43D, 0x430, 0x43D,
      0x438, 0x439])]"

definition phrasebook :: "string \<Rightarrow> string \<Rightarrow> string" where
  "phrasebook lang k = row_or []
     (if lang = language_armenian then armenian_labels else if lang = language_russian then russian_labels
      else english_labels) k"

section \<open>Word lists\<close>

definition confirming_words :: "string list" where
  "confirming_words =
     [''yes'', ''yes book it'', ''book it'', ''confirm'', ''confirmed'', utf8 [0x434, 0x430], utf8 [0x434, 0x430, 0x20, 0x437,
     0x430, 0x43F, 0x438, 0x448, 0x438, 0x442, 0x435], utf8 [0x437, 0x430, 0x43F, 0x438, 0x448, 0x438, 0x442, 0x435], utf8
     [0x43F, 0x43E, 0x434, 0x442, 0x432, 0x435, 0x440, 0x436, 0x434, 0x430, 0x44E], utf8 [0x434, 0x430, 0x20, 0x43F, 0x43E,
     0x434, 0x442, 0x432, 0x435, 0x440, 0x436, 0x434, 0x430, 0x44E], utf8 [0x561, 0x575, 0x578], utf8 [0x561, 0x575, 0x578,
     0x20, 0x561, 0x574, 0x580, 0x561, 0x563, 0x580, 0x565, 0x584], utf8 [0x570, 0x561, 0x57D, 0x57F, 0x561, 0x57F, 0x578,
     0x582, 0x574, 0x20, 0x565, 0x574], ''ayo'', ''ayo amragreq'', ''ha'', ''ha amragreq'']"

definition agreeing_words :: "string list" where
  "agreeing_words =
     [''yes'', ''confirm'', ''confirmed'', ''go ahead'', utf8 [0x434, 0x430], utf8 [0x43F, 0x43E, 0x434, 0x442, 0x432, 0x435,
     0x440, 0x436, 0x434, 0x430, 0x44E], utf8 [0x434, 0x430, 0x20, 0x43F, 0x43E, 0x434, 0x442, 0x432, 0x435, 0x440, 0x436,
     0x434, 0x430, 0x44E], utf8 [0x561, 0x575, 0x578], utf8 [0x570, 0x561, 0x57D, 0x57F, 0x561, 0x57F, 0x578, 0x582, 0x574,
     0x20, 0x565, 0x574], ''ayo'', ''ayo hastatum em'', ''ha'']"

definition refusing_words :: "string list" where
  "refusing_words =
     [''no'', ''leave it'', ''keep it'', utf8 [0x43D, 0x435, 0x442], utf8 [0x43D, 0x435, 0x442, 0x20, 0x43E, 0x441, 0x442,
     0x430, 0x432, 0x44C, 0x442, 0x435], utf8 [0x578, 0x579], ''voch'']"

definition greeting_words :: "string list" where
  "greeting_words =
     [''hi'', ''hello'', ''hey'', ''start'', utf8 [0x43F, 0x440, 0x438, 0x432, 0x435, 0x442], utf8 [0x437, 0x434, 0x440, 0x430,
     0x432, 0x441, 0x442, 0x432, 0x443, 0x439, 0x442, 0x435], utf8 [0x434, 0x43E, 0x431, 0x440, 0x44B, 0x439, 0x20, 0x434,
     0x435, 0x43D, 0x44C], utf8 [0x562, 0x561, 0x580, 0x587], utf8 [0x562, 0x561, 0x580, 0x565, 0x582], utf8 [0x562, 0x561,
     0x580, 0x587, 0x20, 0x571, 0x565, 0x566], ''barev'', ''barev dzez'']"

definition contact_phrases :: "string list" where
  "contact_phrases =
     [''your name'', ''name should'', ''name to book'', ''book under'', ''full name'', ''first name'', ''last name'',
     ''phone number'', ''your phone'', ''contact number'', utf8 [0x432, 0x430, 0x448, 0x435, 0x20, 0x438, 0x43C, 0x44F], utf8
     [0x438, 0x43C, 0x44F, 0x20, 0x438, 0x20, 0x444, 0x430, 0x43C, 0x438, 0x43B], utf8 [0x43A, 0x430, 0x43A, 0x43E, 0x435,
     0x20, 0x438, 0x43C, 0x44F], utf8 [0x43A, 0x430, 0x43A, 0x20, 0x432, 0x430, 0x441, 0x20, 0x437, 0x43E, 0x432, 0x443,
     0x442], utf8 [0x43D, 0x43E, 0x43C, 0x435, 0x440, 0x20, 0x442, 0x435, 0x43B, 0x435, 0x444, 0x43E, 0x43D, 0x430], utf8
     [0x442, 0x435, 0x43B, 0x435, 0x444, 0x43E, 0x43D], utf8 [0x432, 0x430, 0x448, 0x443, 0x20, 0x444, 0x430, 0x43C, 0x438,
     0x43B], utf8 [0x432, 0x430, 0x448, 0x435, 0x20, 0x444, 0x430, 0x43C, 0x438, 0x43B], utf8 [0x43A, 0x430, 0x43A, 0x443,
     0x44E, 0x20, 0x444, 0x430, 0x43C, 0x438, 0x43B], utf8 [0x571, 0x565, 0x580, 0x20, 0x561, 0x576, 0x578, 0x582, 0x576], utf8
     [0x561, 0x576, 0x578, 0x582, 0x576, 0x568], utf8 [0x561, 0x566, 0x563, 0x561, 0x576, 0x578, 0x582, 0x576], utf8 [0x570,
     0x565, 0x57C, 0x561, 0x56D, 0x578, 0x57D, 0x561, 0x570, 0x561, 0x574, 0x561, 0x580], utf8 [0x570, 0x565, 0x57C, 0x561,
     0x56D, 0x578, 0x57D]]"

definition redundant_lines :: "string list" where
  "redundant_lines =
     [''tap a button or send the number.'', ''tap a button or send its number. you can also write to us.'', utf8 [0x43D, 0x430,
     0x436, 0x43C, 0x438, 0x442, 0x435, 0x20, 0x43A, 0x43D, 0x43E, 0x43F, 0x43A, 0x443, 0x20, 0x438, 0x43B, 0x438, 0x20, 0x43E,
     0x442, 0x43F, 0x440, 0x430, 0x432, 0x44C, 0x442, 0x435, 0x20, 0x43D, 0x43E, 0x43C, 0x435, 0x440, 0x2E], utf8 [0x43D,
     0x430, 0x436, 0x43C, 0x438, 0x442, 0x435, 0x20, 0x43A, 0x43D, 0x43E, 0x43F, 0x43A, 0x443, 0x20, 0x438, 0x43B, 0x438, 0x20,
     0x43E, 0x442, 0x43F, 0x440, 0x430, 0x432, 0x44C, 0x442, 0x435, 0x20, 0x435, 0x451, 0x20, 0x43D, 0x43E, 0x43C, 0x435,
     0x440, 0x2E, 0x20, 0x43C, 0x43E, 0x436, 0x43D, 0x43E, 0x20, 0x442, 0x430, 0x43A, 0x436, 0x435, 0x20, 0x43D, 0x430, 0x43F,
     0x438, 0x441, 0x430, 0x442, 0x44C, 0x20, 0x43D, 0x430, 0x43C, 0x2E], utf8 [0x57D, 0x565, 0x572, 0x574, 0x565, 0x584, 0x20,
     0x56F, 0x578, 0x573, 0x561, 0x56F, 0x568, 0x20, 0x56F, 0x561, 0x574, 0x20, 0x578, 0x582, 0x572, 0x561, 0x580, 0x56F,
     0x565, 0x584, 0x20, 0x570, 0x561, 0x574, 0x561, 0x580, 0x568, 0x589, 0x20, 0x53F, 0x561, 0x580, 0x578, 0x572, 0x20, 0x565,
     0x584, 0x20, 0x576, 0x561, 0x587, 0x20, 0x563, 0x580, 0x565, 0x56C, 0x20, 0x574, 0x565, 0x566, 0x589], utf8 [0x57D, 0x565,
     0x572, 0x574, 0x565, 0x584, 0x20, 0x56F, 0x578, 0x573, 0x561, 0x56F, 0x568, 0x20, 0x56F, 0x561, 0x574, 0x20, 0x578, 0x582,
     0x572, 0x561, 0x580, 0x56F, 0x565, 0x584, 0x20, 0x570, 0x561, 0x574, 0x561, 0x580, 0x568, 0x589]]"

text \<open>The cut sets of \<open>strings.Trim\<close>, one code point each.\<close>

definition armenian_full_stop :: string where
  "armenian_full_stop = utf8 [0x589]"

type_synonym words = "string \<Rightarrow> string \<Rightarrow> string"

section \<open>Strings\<close>

text \<open>\<open>strings.Trim\<close> with a cut set, given as the encodings of its code points.\<close>

definition trim_cut_left :: "string list \<Rightarrow> string \<Rightarrow> string" where
  "trim_cut_left codes s = strip codes s"

definition trim_cut :: "string list \<Rightarrow> string \<Rightarrow> string" where
  "trim_cut codes s = rev (strip (map rev codes) (rev (trim_cut_left codes s)))"

fun split_on :: "char \<Rightarrow> string \<Rightarrow> string list" where
  "split_on d [] = [[]]"
| "split_on d (c # s) = (if c = d then [] # split_on d s
     else case split_on d s of p # ps \<Rightarrow> (c # p) # ps | [] \<Rightarrow> [[c]])"

fun join_with :: "string \<Rightarrow> string list \<Rightarrow> string" where
  "join_with d [] = []"
| "join_with d [s] = s"
| "join_with d (s # t # ss) = s @ d @ join_with d (t # ss)"

fun contains :: "string \<Rightarrow> string \<Rightarrow> bool" where
  "contains [] p \<longleftrightarrow> p = []"
| "contains (c # s) p \<longleftrightarrow> has_prefix (c # s) p \<or> contains s p"

definition newline :: string where "newline = [CHR 0x0A]"

fun take_field :: "string \<Rightarrow> string" where
  "take_field [] = []"
| "take_field (c # s) = (if leading_code space_codes (c # s) = None then c # take_field s else [])"

lemma take_field_nonempty: "trim_left s \<noteq> [] \<Longrightarrow> take_field (trim_left s) \<noteq> []"
  using strip_no_leading [of space_codes s] by (cases "trim_left s") (auto simp: trim_left_def)

text \<open>\<open>strings.Fields\<close>\<close>

function string_fields :: "string \<Rightarrow> string list" where
  "string_fields s = (let s = trim_left s in
     if s = [] then [] else take_field s # string_fields (drop (length (take_field s)) s))"
  by pat_completeness auto
termination
proof (relation "measure length", goal_cases)
  case (2 s t)
  then have "length (drop (length (take_field t)) t) < length t"
    using take_field_nonempty [of s] by simp
  also have "length t \<le> length s" using 2 by (simp add: trim_left_def strip_length)
  finally show ?case by simp
qed simp

declare string_fields.simps [simp del]

section \<open>The language of a reply\<close>

definition script_language :: "string \<Rightarrow> string" where
  "script_language s =
     (case find (\<lambda>r. in_ranges armenian_ranges r \<or> in_ranges cyrillic_ranges r) (runes s) of
        None \<Rightarrow> []
      | Some r \<Rightarrow> if in_ranges armenian_ranges r then language_armenian else language_russian)"

definition language_of_tag :: "(string \<Rightarrow> string) \<Rightarrow> string \<Rightarrow> string" where
  "language_of_tag lower tag =
     (let base = takeWhile (\<lambda>c. c \<noteq> CHR ''-'') (lower (trim_space tag)) in
      if base = language_armenian then language_armenian
      else if base = language_russian then language_russian else language_english)"

definition conversation_language :: "(string \<Rightarrow> string) \<Rightarrow> stored_message list \<Rightarrow> string \<Rightarrow> string" where
  "conversation_language lower messages tag =
     (case find (\<lambda>m. script_language (ms_text m) \<noteq> []) (rev messages) of
        Some m \<Rightarrow> script_language (ms_text m)
      | None \<Rightarrow> language_of_tag lower tag)"

section \<open>The menu\<close>

definition command_in :: "(string \<Rightarrow> string) \<Rightarrow> string \<Rightarrow> string" where
  "command_in lower txt =
     (let trimmed = trim_space txt in
      if \<not> has_prefix trimmed ''/'' then []
      else lower (takeWhile (\<lambda>c. c \<noteq> CHR ''@'') (trim_prefix (hd (string_fields trimmed)) ''/'')))"

definition label_action :: "words \<Rightarrow> string \<Rightarrow> string \<Rightarrow> string" where
  "label_action words written lang =
     (if written = words lang ''contact'' then ''contact''
      else if written = words lang ''book_a_visit'' then ''book''
      else if written = words lang ''services_prices'' then ''services''
      else if written = words lang ''my_appointments'' then ''appointments''
      else if written = words lang ''talk_to_a_person'' then ''person''
      else [])"

definition menu_action :: "words \<Rightarrow> (string \<Rightarrow> string) \<Rightarrow> string \<Rightarrow> string" where
  "menu_action words lower txt =
     (let c = command_in lower txt in
      if c \<noteq> [] then c
      else case find (\<lambda>a. a \<noteq> []) (map (label_action words (trim_space txt)) languages) of
        Some a \<Rightarrow> a | None \<Rightarrow> [])"

definition menu_in :: "words \<Rightarrow> string \<Rightarrow> (string \<times> string) list" where
  "menu_in words lang =
     map (\<lambda>(name, k). (name, words lang k))
       [(''start'', ''start_again''), (''book'', ''book_a_visit''), (''services'', ''services_prices''),
        (''book_online'', ''booking_link''), (''website'', ''website''), (''contact'', ''contact''),
        (''appointments'', ''my_appointments''), (''person'', ''talk_to_a_person''), (''help'', ''what_i_can_do'')]"

definition menus :: "words \<Rightarrow> (string \<times> (string \<times> string) list) list" where
  "menus words = ([], menu_in words language_english) # map (\<lambda>lang. (lang, menu_in words lang)) languages"

definition menu_intents :: "string table" where
  "menu_intents =
     [(''book'', ''book an appointment''), (''services'', ''see the services and prices''),
      (''appointments'', ''see their own appointments''), (''cancel'', ''cancel an appointment''),
      (''person'', ''talk to a person''), (''contact'', ''see the studio's contact details and social channels''),
      (''book_online'', ''open the studio's online booking form''), (''website'', ''open the studio's website'')]"

definition expand_menu_command :: "words \<Rightarrow> (string \<Rightarrow> string) \<Rightarrow> string \<Rightarrow> string \<times> bool" where
  "expand_menu_command words lower txt =
     (case get_row menu_intents (menu_action words lower txt) of
        None \<Rightarrow> (txt, False)
      | Some intent \<Rightarrow> (''[the customer tapped the menu: '' @ intent @ '']'', True))"

section \<open>Answers\<close>

definition answer_cut :: "string list" where "answer_cut = [''!'', ''.'', '','', armenian_full_stop]"

definition change_answer :: "words \<Rightarrow> (string \<Rightarrow> string) \<Rightarrow> string \<Rightarrow> int" where
  "change_answer words lower txt =
     (let value = lower (trim_cut answer_cut (trim_space txt)) in
      case find (\<lambda>(v, n). value = lower v)
          (concat (map (\<lambda>lang. [(words lang ''confirm_change'', 1), (words lang ''leave_it_alone'', - 1)]) languages)) of
        Some (_, n) \<Rightarrow> n
      | None \<Rightarrow> if value \<in> set agreeing_words then 1 else if value \<in> set refusing_words then - 1 else 0)"

definition is_change_answer_button :: "words \<Rightarrow> (string \<Rightarrow> string) \<Rightarrow> string \<Rightarrow> bool" where
  "is_change_answer_button words lower txt =
     (let value = lower (trim_cut answer_cut (trim_space txt)) in
      list_ex (\<lambda>lang. value = lower (words lang ''confirm_change'') \<or> value = lower (words lang ''leave_it_alone''))
        languages)"

definition explicitly_confirms_booking ::
  "words \<Rightarrow> (string \<Rightarrow> string) \<Rightarrow> (string \<Rightarrow> string \<Rightarrow> bool) \<Rightarrow> string \<Rightarrow> string \<Rightarrow> bool" where
  "explicitly_confirms_booking words lower fold_eq txt lang =
     (let value = lower (trim_cut [''!'', ''.'', '','', ''?'', armenian_full_stop] (trim_space txt)) in
      fold_eq value (lower (words lang ''confirm_booking'')) \<or> value \<in> set confirming_words)"

definition is_greeting :: "(string \<Rightarrow> string) \<Rightarrow> string \<Rightarrow> bool" where
  "is_greeting lower txt \<longleftrightarrow>
     lower (trim_cut [''!'', ''.'', '','', armenian_full_stop, ''?'', '' '', utf8 [0x1F44B]] (trim_space txt))
       \<in> set greeting_words"

definition stops_reminders :: "words \<Rightarrow> (string \<Rightarrow> string \<Rightarrow> bool) \<Rightarrow> string \<Rightarrow> bool" where
  "stops_reminders words fold_eq txt =
     (let txt = trim_space txt in
      fold_eq txt ''/stopreminders'' \<or> fold_eq txt ''stop'' \<or>
      list_ex (\<lambda>lang. txt = words lang ''disable_reminders'') [language_english, language_russian, language_armenian])"

definition looks_like_code :: "string \<Rightarrow> bool" where
  "looks_like_code txt =
     (let txt = trim_space txt in length txt = 6 \<and> list_all (\<lambda>c. c \<in> set ''0123456789'') txt)"

section \<open>Buttons\<close>

definition confirm_booking_choices :: "words \<Rightarrow> string \<Rightarrow> choice list" where
  "confirm_booking_choices words lang = choices_of [words lang ''confirm_booking'', words lang ''another_time'']"

definition confirm_change_choices :: "words \<Rightarrow> string \<Rightarrow> choice list" where
  "confirm_change_choices words lang = choices_of [words lang ''confirm_change'', words lang ''leave_it_alone'']"

definition help_choices :: "words \<Rightarrow> string \<Rightarrow> choice list" where
  "help_choices words lang = choices_of [words lang ''talk_to_a_person'']"

definition menu_choices :: "words \<Rightarrow> string \<Rightarrow> choice list" where
  "menu_choices words lang = choices_of
     [words lang ''book_a_visit'', words lang ''services_prices'', words lang ''my_appointments'',
      words lang ''talk_to_a_person'', words lang ''contact'']"

definition asks_for_contact_details :: "(string \<Rightarrow> string) \<Rightarrow> string \<Rightarrow> bool" where
  "asks_for_contact_details lower reply \<longleftrightarrow> list_ex (contains (lower reply)) contact_phrases"

text \<open>A whole label in the reply, not a part of a word or of a longer candidate that stands there.\<close>

definition named_at :: "(nat \<Rightarrow> bool) \<Rightarrow> nat list \<Rightarrow> nat list \<Rightarrow> nat list list \<Rightarrow> nat \<Rightarrow> bool" where
  "named_at word_rune txt needle longer start =
     (let stop = start + length needle in
      \<not> (start > 0 \<and> word_rune (txt ! (start - 1)) \<and> word_rune (hd needle)) \<and>
      \<not> (stop < length txt \<and> word_rune (txt ! stop) \<and> word_rune (last needle)) \<and>
      take (length needle) (drop start txt) = needle \<and>
      \<not> list_ex (\<lambda>l. length l > length needle \<and> start + length l \<le> length txt \<and>
          take (length needle) l = needle \<and> take (length l) (drop start txt) = l) longer)"

definition choice_named_in_reply ::
  "(string \<Rightarrow> string) \<Rightarrow> (nat \<Rightarrow> bool) \<Rightarrow> string \<Rightarrow> string \<Rightarrow> choice list \<Rightarrow> bool" where
  "choice_named_in_reply lower word_rune reply label candidates =
     (let txt = runes (lower reply); needle = runes (lower (trim_space label)) in
      if needle = [] \<or> length needle > length txt then False
      else list_ex (named_at word_rune txt needle (map (\<lambda>c. runes (lower (ch_label c))) candidates))
        [0..<length txt - length needle + 1])"

definition buttons :: "words \<Rightarrow> (string \<Rightarrow> string) \<Rightarrow> (nat \<Rightarrow> bool) \<Rightarrow> session \<Rightarrow> string \<Rightarrow> choice list" where
  "buttons words lower word_rune s reply =
     (let written = script_language reply; lang = (if written \<noteq> [] then written else ss_language s) in
      case ss_offering s of
        OfferBookingConfirmation \<Rightarrow> confirm_booking_choices words lang
      | OfferChangeConfirmation \<Rightarrow> confirm_change_choices words lang
      | OfferHelp \<Rightarrow> help_choices words lang
      | OfferMenu \<Rightarrow> menu_choices words lang
      | OfferNavigation \<Rightarrow> ss_choices s
      | OfferWorkflow \<Rightarrow> if asks_for_contact_details lower reply then [] else ss_choices s
      | OfferWhatToolsSaid \<Rightarrow> if asks_for_contact_details lower reply then []
          else filter (\<lambda>c. choice_named_in_reply lower word_rune reply (ch_label c) (ss_candidates s)) (ss_choices s))"

section \<open>Numbered lines\<close>

abbreviation is_digit_char :: "char \<Rightarrow> bool" where "is_digit_char c \<equiv> c \<in> set ''0123456789''"

definition numbered_line :: "string \<Rightarrow> bool" where
  "numbered_line line =
     (let digits = takeWhile is_digit_char line; rest = drop (length digits) line in
      digits \<noteq> [] \<and> rest \<noteq> [] \<and> (hd rest = CHR ''.'' \<or> hd rest = CHR '')'') \<and>
      (case atoi digits of None \<Rightarrow> False | Some n \<Rightarrow> 0 < n))"

fun numbered_candidates_from ::
  "(string \<Rightarrow> string) \<Rightarrow> (nat \<Rightarrow> bool) \<Rightarrow> choice list \<Rightarrow> string list \<Rightarrow> string list \<Rightarrow> string list" where
  "numbered_candidates_from lower word_rune candidates [] matched = matched"
| "numbered_candidates_from lower word_rune candidates (line # ls) matched =
     (if \<not> numbered_line (trim_space line) then numbered_candidates_from lower word_rune candidates ls matched
      else case find (\<lambda>c. ch_label c \<notin> set matched \<and>
          choice_named_in_reply lower word_rune line (ch_label c) candidates) candidates of
        None \<Rightarrow> numbered_candidates_from lower word_rune candidates ls matched
      | Some c \<Rightarrow> numbered_candidates_from lower word_rune candidates ls (matched @ [ch_label c]))"

definition numbered_candidates ::
  "(string \<Rightarrow> string) \<Rightarrow> (nat \<Rightarrow> bool) \<Rightarrow> string \<Rightarrow> choice list \<Rightarrow> string list" where
  "numbered_candidates lower word_rune txt candidates =
     numbered_candidates_from lower word_rune candidates (split_on (CHR 0x0A) txt) []"

definition labels_of_choices :: "choice list \<Rightarrow> string list" where
  "labels_of_choices cs = filter (\<lambda>l. l \<noteq> []) (map (\<lambda>c. trim_space (ch_label c)) cs)"

definition presented_choices ::
  "words \<Rightarrow> (string \<Rightarrow> string) \<Rightarrow> (nat \<Rightarrow> bool) \<Rightarrow> session \<Rightarrow> string \<Rightarrow> string list" where
  "presented_choices words lower word_rune s reply =
     (case ss_offering s of
        OfferMenu \<Rightarrow> labels_of_choices (menu_choices words (ss_language s))
      | OfferNavigation \<Rightarrow> labels_of_choices (ss_choices s)
      | OfferWorkflow \<Rightarrow> labels_of_choices (ss_choices s)
      | _ \<Rightarrow> numbered_candidates lower word_rune reply (ss_candidates s))"

text \<open>The label a line of the reply may repeat, with its number or bullet removed.\<close>

definition line_label :: "string \<Rightarrow> string" where
  "line_label trimmed =
     (if numbered_line trimmed
      then trim_space (drop 1 (dropWhile (\<lambda>c. c \<noteq> CHR ''.'' \<and> c \<noteq> CHR '')'') trimmed))
      else trim_space (trim_cut_left [utf8 [0x2022], ''-'', utf8 [0x2013], utf8 [0x2014]] trimmed))"

definition without_redundant_choice_lines :: "(string \<Rightarrow> string) \<Rightarrow> string \<Rightarrow> choice list \<Rightarrow> string" where
  "without_redundant_choice_lines lower txt choices =
     (if choices = [] then txt
      else let labels = map (\<lambda>c. lower (trim_space (ch_label c))) choices;
          kept = filter (\<lambda>line. let trimmed = trim_space line in
            lower (line_label trimmed) \<notin> set labels \<and> lower trimmed \<notin> set redundant_lines)
            (split_on (CHR 0x0A) txt);
          cleaned = trim_space (join_with newline kept)
        in if cleaned = [] then trim_space txt else cleaned)"

section \<open>What a model is shown\<close>

datatype role = RoleUser | RoleAssistant

record ai_message =
  am_role :: role
  am_text :: string

definition unreadable_note :: string where
  "unreadable_note = ''[the customer sent something that cannot be read as text]''"

definition shown_text :: "stored_message \<Rightarrow> string" where
  "shown_text m =
     (if ms_content_type m = ContentTypeUnsupported
      then (if ms_text m \<noteq> [] then ms_text m @ newline @ unreadable_note else unreadable_note)
      else ms_text m)"

definition to_ai_message :: "words \<Rightarrow> (string \<Rightarrow> string) \<Rightarrow> stored_message \<Rightarrow> ai_message" where
  "to_ai_message words lower m =
     (if ms_direction m = DirectionOutbound then \<lparr>am_role = RoleAssistant, am_text = shown_text m\<rparr>
      else \<lparr>am_role = RoleUser, am_text = fst (expand_menu_command words lower (shown_text m))\<rparr>)"

definition to_ai_messages :: "words \<Rightarrow> (string \<Rightarrow> string) \<Rightarrow> stored_message list \<Rightarrow> ai_message list" where
  "to_ai_messages words lower ms = map (to_ai_message words lower) (filter (\<lambda>m. shown_text m \<noteq> []) ms)"

definition outside_purpose_reply :: "string \<Rightarrow> bool" where
  "outside_purpose_reply txt \<longleftrightarrow> contains txt ''```'' \<or> contains txt ''func main('' \<or> contains txt ''def main(''"

definition cut_runes :: "nat \<Rightarrow> ai_message \<Rightarrow> ai_message" where
  "cut_runes limit m =
     (if rune_count (am_text m) > limit then m\<lparr>am_text := utf8 (take limit (runes (am_text m)))\<rparr> else m)"

definition last_four :: "'a list \<Rightarrow> 'a list" where
  "last_four xs = (if length xs > 4 then drop (length xs - 4) xs else xs)"

definition bounded_purpose_messages :: "words \<Rightarrow> (string \<Rightarrow> string) \<Rightarrow> stored_message list \<Rightarrow> ai_message list" where
  "bounded_purpose_messages words lower ms =
     (let messages = to_ai_messages words lower (last_four ms) in
      if messages = [] then [] else map (cut_runes 500) (butlast messages) @ [cut_runes 4000 (last messages)])"

definition declined_note :: string where
  "declined_note = ''[An unrelated code request was declined.]''"

text \<open>From the newest message back, while runes remain.\<close>

fun bound_back :: "nat \<Rightarrow> nat \<Rightarrow> ai_message list \<Rightarrow> ai_message list" where
  "bound_back cap remaining [] = []"
| "bound_back cap remaining (m # ms) =
     (if remaining = 0 then []
      else let txt = (if am_role m = RoleUser \<and> outside_purpose_reply (am_text m) then declined_note else am_text m);
               rs = take (min cap remaining) (runes txt)
           in m\<lparr>am_text := utf8 rs\<rparr> # bound_back 2000 (remaining - length rs) ms)"

definition bounded_studio_messages :: "words \<Rightarrow> (string \<Rightarrow> string) \<Rightarrow> stored_message list \<Rightarrow> ai_message list" where
  "bounded_studio_messages words lower ms = rev (bound_back 4000 16000 (rev (to_ai_messages words lower ms)))"

lemma bound_back_bounds:
  "cap \<le> 4000 \<Longrightarrow> sum_list (map (rune_count \<circ> am_text) (bound_back cap remaining ms)) \<le> remaining \<and>
   list_all (\<lambda>m. rune_count (am_text m) \<le> 4000) (bound_back cap remaining ms) \<and>
   map am_role (bound_back cap remaining ms) = take (length (bound_back cap remaining ms)) (map am_role ms)"
proof (induction cap remaining ms rule: bound_back.induct)
  case (2 cap remaining m ms)
  show ?case
  proof (cases "remaining = 0")
    case False
    obtain t where t: "t = (if am_role m = RoleUser \<and> outside_purpose_reply (am_text m) then declined_note else am_text m)" by simp
    obtain rs where rs: "rs = take (min cap remaining) (runes t)" by simp
    have IH: "sum_list (map (rune_count \<circ> am_text) (bound_back 2000 (remaining - length rs) ms)) \<le> remaining - length rs \<and>
        list_all (\<lambda>m. rune_count (am_text m) \<le> 4000) (bound_back 2000 (remaining - length rs) ms) \<and>
        map am_role (bound_back 2000 (remaining - length rs) ms) =
          take (length (bound_back 2000 (remaining - length rs) ms)) (map am_role ms)"
      by (rule "2.IH" [OF False t rs]) simp
    have unfolded: "bound_back cap remaining (m # ms) = m\<lparr>am_text := utf8 rs\<rparr> # bound_back 2000 (remaining - length rs) ms"
      using False by (simp add: rs t Let_def)
    have "rune_count (utf8 rs) = length rs" by (simp add: rune_count_def runes_utf8)
    moreover have "length rs \<le> min cap remaining" unfolding rs by (simp only: length_take min.cobounded2)
    moreover note IH
    ultimately show ?thesis using "2.prems" by (auto simp add: unfolded comp_def simp del: bound_back.simps)
  qed simp
qed simp

definition heart_runes :: "nat list" where
  "heart_runes =
     [0x2665, 0x2661, 0x2764, 0x2763, 0x2765, 0x2766, 0x2767, 0x1F48C, 0x1F493, 0x1F494, 0x1F495, 0x1F496,
      0x1F497, 0x1F498, 0x1F499, 0x1F49A, 0x1F49B, 0x1F49C, 0x1F49D, 0x1F49E, 0x1F49F, 0x1F5A4, 0x1F90D,
      0x1F90E, 0x1FA77, 0x1FA75, 0x1FA76, 0x1FAF6, 0x1F60D, 0x1F970, 0x1F618]"

text \<open>The runes of a text, each with the bytes it was read from.\<close>

fun chunks :: "nat list \<Rightarrow> (nat \<times> nat list) list" where
  "chunks [] = []"
| "chunks (a # bs) =
     (fst (decode_rune a bs), a # take (snd (decode_rune a bs)) bs) # chunks (drop (snd (decode_rune a bs)) bs)"

definition selector :: "(nat \<times> nat list) list \<Rightarrow> (nat \<times> nat list) list" where
  "selector cs = (case cs of (r, _) # rest \<Rightarrow> if r \<in> {0xFE0E, 0xFE0F} then rest else cs | [] \<Rightarrow> [])"

definition joined :: "(nat \<times> nat list) list \<Rightarrow> (nat \<times> nat list) list" where
  "joined cs = (case cs of
       (j, _) # (r, _) # rest \<Rightarrow> if j = 0x200D \<and> r \<in> {0x1F525, 0x1FA79} then rest else cs
     | _ \<Rightarrow> cs)"

lemma suffix_shorter: "length (joined (selector cs)) \<le> length cs"
  by (auto simp: joined_def selector_def split: list.splits prod.splits if_splits)

function drop_hearts :: "(nat \<times> nat list) list \<Rightarrow> (nat \<times> nat list) list" where
  "drop_hearts [] = []"
| "drop_hearts (c # cs) =
     (if fst c \<in> set heart_runes then drop_hearts (joined (selector cs)) else c # drop_hearts cs)"
  by pat_completeness auto
termination
  by (relation "measure length") (auto simp: le_imp_less_Suc suffix_shorter)

definition text_of :: "(nat \<times> nat list) list \<Rightarrow> string" where
  "text_of cs = map char_of (concat (map snd cs))"

text \<open>\<open>[ \t]{2,}\<close> becomes one space; a single tab stays.\<close>

abbreviation is_blank_char :: "char \<Rightarrow> bool" where "is_blank_char c \<equiv> c = CHR '' '' \<or> c = CHR 0x09"

function collapse_blanks :: "string \<Rightarrow> string" where
  "collapse_blanks [] = []"
| "collapse_blanks [c] = [c]"
| "collapse_blanks (c # d # s) =
     (if is_blank_char c \<and> is_blank_char d then CHR '' '' # collapse_blanks (dropWhile is_blank_char s)
      else c # collapse_blanks (d # s))"
  by pat_completeness auto
termination
  by (relation "measure length") (auto simp: le_imp_less_Suc length_dropWhile_le le_SucI)

definition has_heart :: "string \<Rightarrow> bool" where
  "has_heart txt \<longleftrightarrow> list_ex (\<lambda>r. r \<in> set heart_runes) (runes txt)"

definition without_hearts :: "string \<Rightarrow> string" where
  "without_hearts txt =
     (if \<not> has_heart txt then txt
      else trim_space (join_with newline (map (\<lambda>line. trim_space (collapse_blanks line))
        (split_on (CHR 0x0A) (text_of (drop_hearts (chunks (map of_char txt))))))))"

section \<open>The chunks of a text\<close>

lemma chunks_bytes: "concat (map snd (chunks bs)) = bs"
  by (induction bs rule: chunks.induct) simp_all

lemma chunks_runes: "map fst (chunks bs) = decode bs"
  by (induction bs rule: chunks.induct) simp_all

lemma text_of_chunks: "text_of (chunks (map of_char txt)) = txt"
  by (simp add: text_of_def chunks_bytes comp_def)

lemma joined_selector_set: "set (joined (selector cs)) \<subseteq> set cs"
  by (auto simp: joined_def selector_def split: list.splits prod.splits if_splits)

lemma drop_hearts_clean: "c \<in> set (drop_hearts cs) \<Longrightarrow> fst c \<notin> set heart_runes \<and> c \<in> set cs"
proof (induction cs rule: drop_hearts.induct)
  case (2 d cs)
  then show ?case using joined_selector_set [of cs] by (auto split: if_splits)
qed simp

lemma drop_hearts_id: "\<forall>c \<in> set cs. fst c \<notin> set heart_runes \<Longrightarrow> drop_hearts cs = cs"
  by (induction cs) auto

end
