(* ===== verification/Dialogue.thy ===== *)
theory Dialogue
  imports Relay Choices ToolDispatch
begin

text \<open>
  The answers the assistant gives without its model: public links (\<open>public_links.go\<close>), the private
  cabinet's dialogue and the list of appointments (\<open>cabinet.go\<close>), consent to reminders
  (\<open>reminder_consent.go\<close>) and the remembered language (\<open>preferred_language.go\<close>). Each is a procedure
  of the turn whose value is \<open>None\<close> when the message is not for it. Sentences stay symbolic
  (\<open>reply_text\<close>); \<open>dg_render\<close> gives their text where the code looks at it.

  Browsing the live catalogue by buttons (\<open>catalogue_navigation.go\<close>): categories, services,
  specialists, dates and times, answered without the model. \<open>navigate\<close> is \<open>navigateCatalogue\<close>: it
  calls itself once, from the top, when the chosen category no longer has a service, so two rounds of
  fuel cover every call. Prices and descriptions are part of the symbolic text.
\<close>

record business =
  bz_name :: string
  bz_booking_url :: string
  bz_website_url :: string
  bz_instagram_url :: string
  bz_facebook_url :: string
  bz_telegram_url :: string
  bz_whatsapp_url :: string
  bz_tiktok_url :: string
  bz_youtube_url :: string
  bz_map_url :: string
  bz_yandex_map_url :: string

record dialogue_env = desk_env +
  dg_business :: business
  dg_iso_day :: "time \<Rightarrow> string"
  dg_word_rune :: "nat \<Rightarrow> bool"
  dg_render :: "reply_text \<Rightarrow> string"
  dg_preferred :: "(nat \<Rightarrow> string \<Rightarrow> string \<Rightarrow> bool \<Rightarrow> string result) option"

abbreviation action_of :: "'e dialogue_env_scheme \<Rightarrow> string \<Rightarrow> string" where
  "action_of env \<equiv> menu_action (tl_words env) (tl_to_lower env)"

abbreviation unavailable_text :: "string \<Rightarrow> reply_text" where
  "unavailable_text lang \<equiv> Phrase lang ''unavailable''"

text \<open>The reply when the catalogue cannot be read, with the one button that still helps.\<close>

definition catalogue_unavailable :: "(turn, reply_text) proc" where
  "catalogue_unavailable = modify (offer_fixed OfferHelp) (with_session (\<lambda>s. ret (unavailable_text (ss_language s))))"

section \<open>Links\<close>

definition link_if :: "string \<Rightarrow> string \<Rightarrow> link list" where
  "link_if label url = (if url \<noteq> [] then [\<lparr>lk_label = label, lk_url = url\<rparr>] else [])"

definition public_links :: "'e dialogue_env_scheme \<Rightarrow> string \<Rightarrow> link list" where
  "public_links env lang =
     link_if (tl_words env lang ''booking_link'') (bz_booking_url (dg_business env)) @
     link_if (tl_words env lang ''website'') (bz_website_url (dg_business env))"

definition contact_links :: "'e dialogue_env_scheme \<Rightarrow> string \<Rightarrow> link list" where
  "contact_links env lang =
     (let b = dg_business env in
      public_links env lang @
      concat (map (\<lambda>(label, url). link_if label url)
        [(''Instagram'', bz_instagram_url b), (''Facebook'', bz_facebook_url b), (''Telegram'', bz_telegram_url b),
         (''WhatsApp'', bz_whatsapp_url b), (''TikTok'', bz_tiktok_url b), (''YouTube'', bz_youtube_url b),
         (''Google Maps'', bz_map_url b), (''Yandex Maps'', bz_yandex_map_url b)]))"

definition show_links :: "link list \<Rightarrow> session \<Rightarrow> session" where
  "show_links ls s = offer_fixed OfferMenu (s\<lparr>ss_final_links := ls\<rparr>)"

definition public_link_reply :: "'e dialogue_env_scheme \<Rightarrow> string \<Rightarrow> (turn, reply_text option) proc" where
  "public_link_reply env input = with_session (\<lambda>s.
     let lang = ss_language s; action = action_of env input; written = trim_space input;
         heading = Phrase lang ''links_heading'' in
     if action = ''contact'' then modify (show_links (contact_links env lang)) (ret (Some heading))
     else if action \<noteq> ''website'' \<and> action \<noteq> ''book_online'' \<and>
       written \<noteq> tl_words env lang ''website'' \<and> written \<noteq> tl_words env lang ''booking_link'' then ret None
     else modify (show_links (public_links env lang))
       (ret (Some (if public_links env lang = [] then Phrase lang ''welcome'' else heading))))"

section \<open>The remembered language\<close>

definition apply_preferred_language :: "'e dialogue_env_scheme \<Rightarrow> (turn, unit) proc" where
  "apply_preferred_language env =
     modify (\<lambda>s. if cv_preferred_language (ss_conv s) \<noteq> []
         then s\<lparr>ss_language := language_of_tag (tl_to_lower env) (cv_preferred_language (ss_conv s))\<rparr> else s)
      (with_session (\<lambda>s. case dg_preferred env of
        None \<Rightarrow> ret ()
      | Some preferred \<Rightarrow>
        if cu_verified_phone (ss_customer s) = [] then ret ()
        else observe (ask_in (\<lambda>n. preferred n (cu_verified_phone (ss_customer s)) (ss_language s)
            (cv_preferred_language (ss_conv s) \<noteq> []))) (\<lambda>reply. case reply of
          Inl _ \<Rightarrow> ret ()
        | Inr lang \<Rightarrow> modify (on_conv (\<lambda>c. c\<lparr>cv_preferred_language := []\<rparr>) \<circ>
            (\<lambda>s. s\<lparr>ss_language := language_of_tag (tl_to_lower env) lang\<rparr>)) (ret ()))))"

section \<open>The list of appointments\<close>

text \<open>The names are fetched once, for the first appointment that has none of its own.\<close>

fun appointment_lines ::
  "'e dialogue_env_scheme \<Rightarrow> string table option \<Rightarrow> booking list \<Rightarrow> (turn, (booking \<times> string) list) proc" where
  "appointment_lines env names [] = ret []"
| "appointment_lines env names (b # bs) =
     (if bk_status b \<noteq> StatusConfirmed then appointment_lines env names bs
      else attempt (now_in env) id (\<lambda>now.
        if \<not> after (bk_starts_at b) now then appointment_lines env names bs
        else let own = join_with '', '' (bk_service_names b) in
          if own \<noteq> [] then attempt (appointment_lines env names bs) id (\<lambda>ls. ret ((b, own) # ls))
          else attempt (case names of Some t \<Rightarrow> ret t | None \<Rightarrow> attempt (catalogue_names env) id (\<lambda>(t, _). ret t)) id (\<lambda>t.
            attempt (appointment_lines env (Some t) bs) id (\<lambda>ls.
              ret ((b, join_with '', '' (filter (\<lambda>n. n \<noteq> []) (map (row_or [] t) (bk_service_ids b)))) # ls)))))"

definition appointment_list :: "'e dialogue_env_scheme \<Rightarrow> (turn, reply_text) proc" where
  "appointment_list env = modify (offer []) (with_session (\<lambda>s.
     let lang = ss_language s in
     observe (customer_bookings env (ss_customer s)) (\<lambda>reply. case reply of
       Inl _ \<Rightarrow> modify (present [tl_words env lang ''my_appointments'', tl_words env lang ''talk_to_a_person''])
         (ret (CabinetText lang ''lookup_failed''))
     | Inr booked \<Rightarrow> attempt (appointment_lines env None booked) id (\<lambda>ls.
         if ls = [] then ret (CabinetText lang ''empty'')
         else modify (present [tl_words env lang ''talk_to_a_person'']) (ret (AppointmentLines lang ls))))))"

section \<open>The private cabinet\<close>

definition visit_link :: "'e dialogue_env_scheme \<Rightarrow> string \<Rightarrow> string option" where
  "visit_link env txt =
     (let parts = string_fields txt in
      if action_of env txt = ''start'' \<and> length parts = 2 \<and>
        (parts ! 1 = ''visits_en'' \<or> parts ! 1 = ''visits_ru'' \<or> parts ! 1 = ''visits_hy'')
      then Some (trim_prefix (parts ! 1) ''visits_'') else None)"

definition show_appointments :: "'e dialogue_env_scheme \<Rightarrow> cabinet_env \<Rightarrow> (turn, reply_text option) proc" where
  "show_appointments env identity = with_session (\<lambda>s.
     if cu_verified_phone (ss_customer s) = []
     then attempt (verification_prompt env identity) id (\<lambda>t. ret (Some t))
     else attempt (resume_verified_booking env (cu_verified_phone (ss_customer s))) id (\<lambda>resumed. case resumed of
       Some d \<Rightarrow> with_session (\<lambda>s. ret (Some (VerifiedDraft (ss_language s) d)))
     | None \<Rightarrow> attempt (appointment_list env) id (\<lambda>t. ret (Some t))))"

definition failed_code_kind :: "go_error \<Rightarrow> string" where
  "failed_code_kind e =
     (if errors_is e VerificationInvalid then ''invalid''
      else if errors_is e VerificationLimited then ''limited''
      else if errors_is e VerificationExpired then ''expired'' else ''unavailable'')"

text \<open>The code was right: the session takes over the profile of the proved phone.\<close>

definition adopt_phone :: "'e dialogue_env_scheme \<Rightarrow> envelope \<Rightarrow> string \<Rightarrow> (turn, reply_text option) proc" where
  "adopt_phone env msg phone = with_session (\<lambda>s.
     attempt (outside (link_customer env msg (ss_customer s) phone)) id (\<lambda>cust.
     modify (\<lambda>s. s\<lparr>ss_customer := cust\<lparr>cu_verified_phone := phone\<rparr>\<rparr>) (
     attempt (apply_preferred_language env) id (\<lambda>_.
     modify (\<lambda>s. on_conv (\<lambda>c. c\<lparr>cv_customer_id := cu_id (ss_customer s), cv_change := None\<rparr>) s) (
     attempt (resume_verified_booking env phone) id (\<lambda>resumed. case resumed of
       Some d \<Rightarrow> with_session (\<lambda>s. ret (Some (VerifiedDraft (ss_language s) d)))
     | None \<Rightarrow> modify (on_conv (\<lambda>c. c\<lparr>cv_draft := None\<rparr>))
         (attempt (appointment_list env) id (\<lambda>t. ret (Some t)))))))))"

definition challenge_reply ::
  "'e dialogue_env_scheme \<Rightarrow> cabinet_env \<Rightarrow> envelope \<Rightarrow> string \<Rightarrow> (turn, reply_text option) proc" where
  "challenge_reply env identity msg state = with_session (\<lambda>s.
     let lang = ss_language s; txt = co_text (en_content msg) in
     if looks_like_code txt \<and> (state = ''locked'' \<or> state = ''expired'')
     then ret (Some (CabinetText lang (if state = ''locked'' then ''limited'' else ''expired'')))
     else if state = ''code'' \<and> looks_like_code txt
     then observe (outside (cabinet_confirm identity (en_provider msg) (en_user_id msg) (trim_space txt))) (\<lambda>reply.
       case reply of
         Inl e \<Rightarrow> modify (offer []) (ret (Some (CabinetText lang (failed_code_kind e))))
       | Inr phone \<Rightarrow> adopt_phone env msg phone)
     else if state = ''phone'' then (case normalize_phone (tl_lib env) txt of
         Inl _ \<Rightarrow> ret None
       | Inr _ \<Rightarrow> observe (outside (cabinet_send identity (en_provider msg) (en_user_id msg) txt (Some lang))) (\<lambda>reply.
           case reply of
             Inl e \<Rightarrow> ret (Some (CabinetText lang (if errors_is e VerificationLimited then ''limited'' else ''unavailable'')))
           | Inr _ \<Rightarrow> modify (offer []) (ret (Some (CabinetText lang ''code'')))))
     else ret None)"

text \<open>
  \<open>cabinetReply\<close>. When the challenge cannot be read the function answers "not handled" with an error,
  which its caller does not look at: the message goes on.
\<close>

definition cabinet_reply :: "'e dialogue_env_scheme \<Rightarrow> envelope \<Rightarrow> (turn, reply_text option) proc" where
  "cabinet_reply env msg = (case tl_identity env of
       None \<Rightarrow> ret None
     | Some identity \<Rightarrow>
       let txt = co_text (en_content msg); visit = visit_link env txt;
           action = (if visit = None then action_of env txt else ''appointments'') in
       modify (\<lambda>s. case visit of
           Some lang \<Rightarrow> if cu_verified_phone (ss_customer s) = [] then s\<lparr>ss_language := lang\<rparr> else s
         | None \<Rightarrow> s) (
       if action = ''verify_cancel''
       then attempt (outside (cabinet_cancel identity (en_provider msg) (en_user_id msg))) id (\<lambda>_.
         modify (offer []) (with_session (\<lambda>s. ret (Some (CabinetText (ss_language s) ''cancelled'')))))
       else if action = ''verify''
       then attempt (outside (cabinet_cancel identity (en_provider msg) (en_user_id msg))) id (\<lambda>_.
         attempt (verification_prompt env identity) id (\<lambda>t. ret (Some t)))
       else if action = ''appointments'' then show_appointments env identity
       else observe (outside (cabinet_pending identity (en_provider msg) (en_user_id msg))) (\<lambda>reply. case reply of
         Inl _ \<Rightarrow> ret None
       | Inr state \<Rightarrow> challenge_reply env identity msg state)))"

section \<open>Consent to reminders\<close>

fun plan_all :: "'e dialogue_env_scheme \<Rightarrow> conversation \<Rightarrow> string \<Rightarrow> booking list \<Rightarrow> (world, unit) proc" where
  "plan_all env conv lang [] = ret ()"
| "plan_all env conv lang (b # bs) =
     (if bk_status b = StatusConfirmed
      then attempt (plan_reminder env b conv lang) id (\<lambda>_. plan_all env conv lang bs)
      else plan_all env conv lang bs)"

definition enable_reminders :: "'e dialogue_env_scheme \<Rightarrow> (turn, reply_text) proc" where
  "enable_reminders env = with_session (\<lambda>s.
     let lang = ss_language s; unavailable = unavailable_text lang in
     if \<not> tl_bookings env \<or> \<not> tl_reminders env \<or> \<not> supports_reminder env (cv_provider (ss_conv s)) lang
     then ret unavailable
     else observe (outside (store env (list_bookings (cu_id (ss_customer s))))) (\<lambda>reply. case reply of
       Inl _ \<Rightarrow> ret unavailable
     | Inr bs \<Rightarrow> observe (outside (plan_all env (ss_conv s) lang bs)) (\<lambda>reply. case reply of
         Inl _ \<Rightarrow> ret unavailable
       | Inr _ \<Rightarrow> modify (offer []) (ret (Phrase lang ''reminders_enabled'')))))"

definition reminder_consent :: "'e dialogue_env_scheme \<Rightarrow> string \<Rightarrow> (turn, reply_text option) proc" where
  "reminder_consent env txt = with_session (\<lambda>s.
     let lang = ss_language s; enable = tl_words env lang ''enable_reminders'';
         disable = tl_words env lang ''disable_reminders'' in
     if txt \<noteq> enable \<and> txt \<noteq> disable \<and> \<not> stops_reminders (tl_words env) (tl_equal_fold env) txt then ret None
     else if cv_provider (ss_conv s) \<noteq> ProviderWhatsApp then ret None
     else modify (on_conv (\<lambda>c. c\<lparr>cv_reminder_opt_in := (txt = enable)\<rparr>)) (with_session (\<lambda>s.
       observe (outside (store env (save_conversation (ss_conv s)))) (\<lambda>reply. case reply of
         Inl _ \<Rightarrow> ret (Some (unavailable_text lang))
       | Inr _ \<Rightarrow> if txt \<noteq> enable then modify (offer []) (ret (Some (Phrase lang ''reminders_disabled'')))
           else attempt (enable_reminders env) id (\<lambda>t. ret (Some t))))))"

definition bare_service :: "string \<Rightarrow> service" where
  "bare_service i = \<lparr>sv_id = i, sv_name = [], sv_category = [], sv_description = [], sv_duration = 0, sv_price_label = []\<rparr>"

definition service_of :: "service list \<Rightarrow> string \<Rightarrow> service" where
  "service_of services i = (case find (\<lambda>s. sv_id s = i) services of Some s \<Rightarrow> s | None \<Rightarrow> bare_service i)"

abbreviation word_of :: "'e dialogue_env_scheme \<Rightarrow> session \<Rightarrow> string \<Rightarrow> string" where
  "word_of env s k \<equiv> tl_words env (ss_language s) k"

section \<open>Menus\<close>

definition present_paged :: "'e dialogue_env_scheme \<Rightarrow> reply_text \<Rightarrow> string list \<Rightarrow> (turn, reply_text) proc" where
  "present_paged env txt labels = with_session (\<lambda>s.
     let (page, controls, no) = catalogue_page_for env (ss_language s) (cv_provider (ss_conv s)) labels (cv_page (ss_conv s)) in
     modify (present (page @ controls @ back_words env (ss_language s)) \<circ> on_conv (\<lambda>c. c\<lparr>cv_page := no\<rparr>)) (ret txt))"

definition catalogue_time_menu :: "'e dialogue_env_scheme \<Rightarrow> service \<Rightarrow> (turn, reply_text) proc" where
  "catalogue_time_menu env service = with_session (\<lambda>s. case tl_parse_day env (cv_date (ss_conv s)) of
       None \<Rightarrow> catalogue_unavailable
     | Some day \<Rightarrow> observe (slots_for_service env (cv_staff (ss_conv s)) day (sv_id service)) (\<lambda>reply. case reply of
         Inl _ \<Rightarrow> catalogue_unavailable
       | Inr slots \<Rightarrow> attempt (now_in env) id (\<lambda>now.
           let labels = remaining_times (tl_clock_text env) slots now in
           present_paged env (TimePrompt (ss_language s) service (labels = []) day) labels)))"

definition catalogue_date_menu :: "'e dialogue_env_scheme \<Rightarrow> service \<Rightarrow> staff \<Rightarrow> staff list \<Rightarrow> (turn, reply_text) proc" where
  "catalogue_date_menu env service person staff =
     observe (dates_for_service env (st_id person) (sv_id service)) (\<lambda>reply. case reply of
       Inl _ \<Rightarrow> catalogue_unavailable
     | Inr dates \<Rightarrow> with_session (\<lambda>s.
         if dates = []
         then modify (on_conv (\<lambda>c. c\<lparr>cv_staff := [], cv_phase := ''staff'', cv_page := 0\<rparr>))
           (present_paged env (NoDates (ss_language s)) (map st_name (filter st_bookable staff)))
         else present_paged env (DatePrompt (ss_language s) service person) (map (tl_day_label env) dates)))"

definition on_dates :: "staff \<Rightarrow> conversation \<Rightarrow> conversation" where
  "on_dates person c = c\<lparr>cv_staff := st_id person, cv_phase := ''dates'', cv_page := 0\<rparr>"

definition catalogue_staff_menu :: "'e dialogue_env_scheme \<Rightarrow> service \<Rightarrow> (turn, reply_text) proc" where
  "catalogue_staff_menu env service =
     observe (staff_for_service env (sv_id service)) (\<lambda>reply. case reply of
       Inl _ \<Rightarrow> catalogue_unavailable
     | Inr staff \<Rightarrow> (case filter st_bookable staff of
         [] \<Rightarrow> catalogue_unavailable
       | [person] \<Rightarrow> modify (on_conv (on_dates person)) (catalogue_date_menu env service person staff)
       | bookable \<Rightarrow> modify (on_conv (\<lambda>c. c\<lparr>cv_staff := [], cv_phase := ''staff''\<rparr>)) (with_session (\<lambda>s.
           present_paged env (StaffPrompt (ss_language s) service) (map st_name bookable)))))"

text \<open>From the specialist to the dates, and from a date to its times.\<close>

definition on_times :: "string \<Rightarrow> conversation \<Rightarrow> conversation" where
  "on_times day c = (drop_proposals c)\<lparr>cv_date := day, cv_phase := ''times'', cv_page := 0\<rparr>"

definition catalogue_staff_choice ::
  "'e dialogue_env_scheme \<Rightarrow> service list \<Rightarrow> string \<Rightarrow> bool \<Rightarrow> (turn, reply_text option) proc" where
  "catalogue_staff_choice env services input selected = with_session (\<lambda>s.
     let c = ss_conv s; found = find (\<lambda>v. sv_id v = cv_service c) services in
     if \<not> selected \<or> (cv_service c = [] \<and> cv_staff c = []) then ret None
     else if (case found of None \<Rightarrow> True | Some v \<Rightarrow> sv_id v = []) \<and> cv_service c \<noteq> [] then ret None
     else let service = (case found of Some v \<Rightarrow> v | None \<Rightarrow> bare_service []) in
       if cv_phase c = ''dates'' \<and> cv_staff c \<noteq> []
       then observe (dates_for_service env (cv_staff c) (sv_id service)) (\<lambda>reply. case reply of
           Inl _ \<Rightarrow> ret None
         | Inr dates \<Rightarrow> (case find (\<lambda>d. tl_day_label env d = input) dates of
             None \<Rightarrow> ret None
           | Some day \<Rightarrow> modify (on_conv (on_times (dg_iso_day env day)))
               (attempt (catalogue_time_menu env service) id (\<lambda>t. ret (Some t)))))
       else observe (staff_for_service env (sv_id service)) (\<lambda>reply. case reply of
           Inl _ \<Rightarrow> ret None
         | Inr staff \<Rightarrow> (case find (\<lambda>p. st_bookable p \<and> tl_equal_fold env (st_name p) (trim_space input)) staff of
             None \<Rightarrow> ret None
           | Some person \<Rightarrow> modify (on_conv (on_dates person))
               (attempt (catalogue_date_menu env service person staff) id (\<lambda>t. ret (Some t))))))"

section \<open>Moving through the catalogue\<close>

definition catalogue_top :: "conversation \<Rightarrow> conversation" where
  "catalogue_top c = c\<lparr>cv_category := [], cv_service := [], cv_staff := [], cv_page := 0, cv_phase := [], cv_date := []\<rparr>"

definition step_back :: "conversation \<Rightarrow> conversation" where
  "step_back c =
     (if cv_phase c = ''times'' then c\<lparr>cv_date := [], cv_phase := ''dates'', cv_page := 0\<rparr>
      else if cv_phase c = ''dates'' \<or> cv_phase c = ''staff''
      then c\<lparr>cv_staff := [], cv_date := [], cv_phase := ''detail'', cv_page := 0\<rparr>
      else if cv_service c \<noteq> []
      then c\<lparr>cv_service := [], cv_staff := [], cv_phase := [], cv_date := [], cv_page := 0\<rparr>
      else c\<lparr>cv_category := [], cv_page := 0\<rparr>)"

definition choose_category ::
  "'e dialogue_env_scheme \<Rightarrow> service list \<Rightarrow> string \<Rightarrow> conversation \<Rightarrow> conversation \<times> bool" where
  "choose_category env services input c =
     (case find (\<lambda>(name, _). tl_equal_fold env name input \<and> cv_category c \<noteq> name)
         (categories_of (tl_to_lower env) services) of
        Some (name, _) \<Rightarrow> ((catalogue_top c)\<lparr>cv_category := name\<rparr>, True)
      | None \<Rightarrow> (c, False))"

definition choose_service :: "'e dialogue_env_scheme \<Rightarrow> service list \<Rightarrow> string \<Rightarrow> conversation \<Rightarrow> conversation" where
  "choose_service env services input c =
     (case find (\<lambda>v. sv_category v = cv_category c \<and> tl_equal_fold env (sv_name v) input) services of
        Some v \<Rightarrow> c\<lparr>cv_service := sv_id v, cv_staff := [], cv_phase := ''detail'', cv_date := [], cv_page := 0\<rparr>
      | None \<Rightarrow> c)"

definition browse ::
  "'e dialogue_env_scheme \<Rightarrow> string \<Rightarrow> service list \<Rightarrow> bool \<Rightarrow> string \<Rightarrow> conversation \<Rightarrow> conversation" where
  "browse env lang services root input c =
     (let w = tl_words env lang;
          c = drop_proposals c;
          c = (if root then catalogue_top c else c);
          c = (if input = w ''back'' then step_back c else c);
          c = (if input = w ''next'' then c\<lparr>cv_page := cv_page c + 1\<rparr> else c);
          c = (if input = w ''previous'' \<and> cv_page c > 0 then c\<lparr>cv_page := cv_page c - 1\<rparr> else c);
          (c, chosen) = choose_category env services input c
      in if chosen then c else choose_service env services input c)"

definition recognised ::
  "'e dialogue_env_scheme \<Rightarrow> string \<Rightarrow> service list \<Rightarrow> bool \<Rightarrow> string \<Rightarrow> conversation \<Rightarrow> bool" where
  "recognised env lang services root input c =
     (let w = tl_words env lang in
      root \<or> input = w ''back'' \<or> input = w ''next'' \<or> input = w ''previous'' \<or>
      (input = w ''book'' \<and> cv_service c \<noteq> []) \<or>
      list_ex (\<lambda>v. tl_equal_fold env (sv_category v) input \<or>
        (sv_category v = cv_category c \<and> tl_equal_fold env (sv_name v) input)) services)"

text \<open>Back on the dates of the chosen specialist; \<open>None\<close> when the specialist is gone.\<close>

definition dates_again :: "'e dialogue_env_scheme \<Rightarrow> service \<Rightarrow> (turn, reply_text option) proc" where
  "dates_again env service = with_session (\<lambda>s.
     observe (staff_for_service env (sv_id service)) (\<lambda>reply. case reply of
       Inl _ \<Rightarrow> attempt catalogue_unavailable id (\<lambda>t. ret (Some t))
     | Inr staff \<Rightarrow> (case find (\<lambda>p. st_id p = cv_staff (ss_conv s)) staff of
         None \<Rightarrow> ret None
       | Some person \<Rightarrow> attempt (catalogue_date_menu env service person staff) id (\<lambda>t. ret (Some t)))))"

definition service_detail :: "'e dialogue_env_scheme \<Rightarrow> service \<Rightarrow> (turn, reply_text) proc" where
  "service_detail env service = with_session (\<lambda>s.
     let lang = ss_language s; addition = is_time_addition env service in
     modify (present [tl_words env lang (if addition then ''booking_link'' else ''book''),
           tl_words env lang ''back'', tl_words env lang ''categories''] \<circ>
         (\<lambda>s. if addition then s\<lparr>ss_final_links := public_links env lang\<rparr> else s))
       (ret (ServiceDetail lang service addition)))"

definition on_service ::
  "'e dialogue_env_scheme \<Rightarrow> bool \<Rightarrow> string \<Rightarrow> service \<Rightarrow> (turn, reply_text option) proc" where
  "on_service env root input service = with_session (\<lambda>s.
     let lang = ss_language s;
         rest = (if \<not> root \<and> input \<noteq> word_of env s ''back'' \<and> input \<noteq> sv_name service then ret None
           else attempt (service_detail env service) id (\<lambda>t. ret (Some t))) in
     if input = word_of env s ''book''
     then (if is_time_addition env service
       then modify (present (back_words env lang) \<circ> (\<lambda>s. s\<lparr>ss_final_links := public_links env lang\<rparr>))
         (ret (Some (TimeAdditionText lang)))
       else attempt (catalogue_staff_menu env service) id (\<lambda>t. ret (Some t)))
     else if cv_phase (ss_conv s) = ''staff'' then attempt (catalogue_staff_menu env service) id (\<lambda>t. ret (Some t))
     else if cv_phase (ss_conv s) = ''dates'' \<and> cv_staff (ss_conv s) \<noteq> []
     then attempt (dates_again env service) id (\<lambda>shown. case shown of Some t \<Rightarrow> ret (Some t) | None \<Rightarrow> rest)
     else rest)"

definition category_menu :: "'e dialogue_env_scheme \<Rightarrow> service list \<Rightarrow> (turn, reply_text) proc" where
  "category_menu env services = with_session (\<lambda>s.
     let lang = ss_language s;
         (page, controls, no) = catalogue_root_page env lang (cv_provider (ss_conv s))
           (map fst (categories_of (tl_to_lower env) services)) (cv_page (ss_conv s)) in
     modify (present (page @ controls @ [tl_words env lang ''my_appointments'', tl_words env lang ''talk_to_a_person'',
           tl_words env lang ''contact'']) \<circ> on_conv (\<lambda>c. c\<lparr>cv_page := no\<rparr>))
       (ret (Phrase lang ''book_heading'')))"

definition service_menu :: "'e dialogue_env_scheme \<Rightarrow> service list \<Rightarrow> (turn, reply_text) proc" where
  "service_menu env services = with_session (\<lambda>s.
     let lang = ss_language s; category = cv_category (ss_conv s);
         listed = filter (\<lambda>v. sv_category v = category) services;
         (page, controls, no) = catalogue_page_for env lang (cv_provider (ss_conv s)) (map sv_name listed) (cv_page (ss_conv s)) in
     modify (present (page @ controls @ [tl_words env lang ''back'']) \<circ> on_conv (\<lambda>c. c\<lparr>cv_page := no\<rparr>))
       (ret (ServiceList lang category (map (\<lambda>l. (l, find (\<lambda>v. sv_name v = l) listed)) page))))"

text \<open>What is shown once the place in the catalogue is settled; \<open>again\<close> starts over from the top.\<close>

definition show_services ::
  "'e dialogue_env_scheme \<Rightarrow> service list \<Rightarrow> (turn, reply_text option) proc \<Rightarrow> (turn, reply_text option) proc" where
  "show_services env services again = with_session (\<lambda>s.
     if cv_category (ss_conv s) = [] then attempt (category_menu env services) id (\<lambda>t. ret (Some t))
     else if \<not> list_ex (\<lambda>v. sv_category v = cv_category (ss_conv s)) services
     then modify (on_conv (\<lambda>c. c\<lparr>cv_category := []\<rparr>)) again
     else attempt (service_menu env services) id (\<lambda>t. ret (Some t)))"

definition show_service ::
  "'e dialogue_env_scheme \<Rightarrow> bool \<Rightarrow> string \<Rightarrow> service list \<Rightarrow> (turn, reply_text option) proc \<Rightarrow> (turn, reply_text option) proc" where
  "show_service env root input services again = with_session (\<lambda>s.
     let c = ss_conv s in
     if cv_service c = [] then show_services env services again
     else case find (\<lambda>v. sv_id v = cv_service c \<and> sv_category v = cv_category c) services of
       Some service \<Rightarrow> on_service env root input service
     | None \<Rightarrow> modify (on_conv (\<lambda>c. c\<lparr>cv_service := [], cv_staff := []\<rparr>)) (show_services env services again))"

definition show_place ::
  "'e dialogue_env_scheme \<Rightarrow> bool \<Rightarrow> string \<Rightarrow> service list \<Rightarrow> (turn, reply_text option) proc \<Rightarrow> (turn, reply_text option) proc" where
  "show_place env root input services again = with_session (\<lambda>s.
     let c = ss_conv s in
     if cv_phase c = ''times''
     then attempt (catalogue_time_menu env (service_of services (cv_service c))) id (\<lambda>t. ret (Some t))
     else if cv_phase c = ''dates'' \<and> cv_staff c \<noteq> []
     then attempt (dates_again env (service_of services (cv_service c))) id (\<lambda>shown. case shown of
         Some t \<Rightarrow> ret (Some t)
       | None \<Rightarrow> show_service env root input services again)
     else show_service env root input services again)"

definition is_root :: "'e dialogue_env_scheme \<Rightarrow> string \<Rightarrow> string \<Rightarrow> bool" where
  "is_root env lang input \<longleftrightarrow> action_of env input = ''book'' \<or> action_of env input = ''services'' \<or>
     input = tl_words env lang ''categories''"

fun navigate :: "'e dialogue_env_scheme \<Rightarrow> nat \<Rightarrow> string \<Rightarrow> bool \<Rightarrow> (turn, reply_text option) proc" where
  "navigate env 0 input selected = ret None"
| "navigate env (Suc n) input selected = with_session (\<lambda>s.
     let lang = ss_language s; root = is_root env lang input in
     if \<not> root \<and> \<not> selected \<and> input \<noteq> tl_words env lang ''back'' then ret None
     else observe (ask_in (tl_services env)) (\<lambda>reply. case reply of
       Inl _ \<Rightarrow> attempt catalogue_unavailable id (\<lambda>t. ret (Some t))
     | Inr services \<Rightarrow>
       if services = [] then attempt catalogue_unavailable id (\<lambda>t. ret (Some t))
       else if \<not> recognised env lang services root input (ss_conv s)
       then catalogue_staff_choice env services input selected
       else modify (on_conv (browse env lang services root input))
         (show_place env root input services (navigate env n (tl_words env lang ''categories'') True))))"

definition navigation_rounds :: nat where "navigation_rounds = 2"

definition catalogue_reply :: "'e dialogue_env_scheme \<Rightarrow> string \<Rightarrow> bool \<Rightarrow> (turn, reply_text option) proc" where
  "catalogue_reply env input selected = navigate env navigation_rounds input selected"

end
