(* ===== verification/Reply.thy ===== *)
theory Reply
  imports Dialogue Relay
begin

text \<open>
  Composing a reply (\<open>reply\<close>, \<open>menuReply\<close>, \<open>handOver\<close> and \<open>apologise\<close> of \<open>assistant/service.go\<close>,
  \<open>purposeReply\<close> of \<open>purpose.go\<close>): fixed answers first, then an explicit confirmation, then the loop
  with the model, which asks for tools for at most six rounds. The model and the classifier of
  purposes answer by tick; \<open>md_superseded\<close> says whether a newer message has cancelled the turn. The
  request shows what the code puts into it; its prose (\<open>prompt.go\<close>) is left out. The error
  \<open>errTurnSuperseded\<close> is the sentinel \<open>TurnSuperseded\<close>.
\<close>

section \<open>The model\<close>

record ai_call =
  ac_id :: string
  ac_name :: string
  ac_arguments :: string

record ai_result =
  ar_call_id :: string
  ar_output :: string

record ai_turn =
  at_calls :: "ai_call list"
  at_results :: "ai_result list"

record ai_request =
  rq_pending :: "change_draft option"
  rq_attempted :: bool
  rq_catalogue :: "string \<times> string \<times> string"
  rq_messages :: "ai_message list"
  rq_turns :: "ai_turn list"
  rq_tools :: "string list"
  rq_max_tokens :: int

record ai_response =
  rs_text :: string
  rs_choices :: "string list"
  rs_purpose :: string
  rs_calls :: "ai_call list"
  rs_output_tokens :: int

abbreviation PurposeAppointments :: string where "PurposeAppointments \<equiv> ''appointments''"
abbreviation PurposeUnrelated :: string where "PurposeUnrelated \<equiv> ''unrelated''"

record model_env = dialogue_env +
  md_model :: "(nat \<Rightarrow> ai_request \<Rightarrow> ai_response result) option"
  md_purpose :: "(nat \<Rightarrow> ai_message list \<Rightarrow> string result) option"
  md_json :: "string list \<Rightarrow> string \<Rightarrow> string table result"
  md_encode :: "answer \<Rightarrow> string"
  md_superseded :: "nat \<Rightarrow> bool"

definition wants_tools :: "ai_response \<Rightarrow> bool" where "wants_tools r \<longleftrightarrow> rs_calls r \<noteq> []"

definition superseded_error :: go_error where "superseded_error = sentinel_error TurnSuperseded"

definition superseded_now :: "'e model_env_scheme \<Rightarrow> (world, bool) proc" where
  "superseded_now env = ask (\<lambda>n. Inr (md_superseded env n))"

section \<open>Calls of tools\<close>

definition change_tools :: "string list" where
  "change_tools = [''prepare_cancellation'', ''confirm_cancellation'', ''prepare_reschedule'', ''confirm_reschedule'']"

text \<open>The tools offered when the calendar is configured.\<close>

definition tool_names :: "'e model_env_scheme \<Rightarrow> string list" where
  "tool_names env =
     [''list_service_categories'', ''list_services'', ''list_staff'', ''find_available_dates'', ''find_available_slots'',
      ''prepare_booking'', ''confirm_booking'', ''list_my_bookings''] @
     (if tl_bookings env then change_tools else []) @ [''request_human_handoff'']"

text \<open>
  The arguments are decoded into the fields of the tool's own struct, an absent field being empty; a
  tool without arguments does not look at them. Arguments that do not decode are refused by the tool
  (\<open>ToolCall.ArgumentsInto\<close>); the decoder of JSON, which refuses unknown fields, is \<open>md_json\<close>.
\<close>

definition arguments_into :: "'e model_env_scheme \<Rightarrow> ai_call \<Rightarrow> string list \<Rightarrow> string table result" where
  "arguments_into env call names =
     (if ac_arguments call = [] then Inl (errors_new (''tool '' @ ac_name call @ '': no arguments given''))
      else case md_json env names (ac_arguments call) of
        Inl e \<Rightarrow> Inl (wrap_error (''tool '' @ ac_name call) e)
      | Inr t \<Rightarrow> Inr t)"

definition decoded ::
  "'e model_env_scheme \<Rightarrow> ai_call \<Rightarrow> string list \<Rightarrow> ((string \<Rightarrow> string) \<Rightarrow> tool_call) \<Rightarrow> tool_call" where
  "decoded env call names build = (case arguments_into env call names of
       Inl e \<Rightarrow> BadArguments (ac_name call) e | Inr t \<Rightarrow> build (row_or [] t))"

definition decode_call :: "'e model_env_scheme \<Rightarrow> ai_call \<Rightarrow> tool_call" where
  "decode_call env call =
     (let name = ac_name call; using = decoded env call in
      if name = ''list_services'' then using [''category''] (\<lambda>a. ListServices (a ''category''))
      else if name = ''list_service_categories'' then ListCategories
      else if name = ''list_staff'' then using [''service_id''] (\<lambda>a. ListStaff (a ''service_id''))
      else if name = ''find_available_dates''
      then using [''staff_id'', ''service_id''] (\<lambda>a. AvailableDates (a ''staff_id'') (a ''service_id''))
      else if name = ''find_available_slots''
      then using [''staff_id'', ''service_id'', ''date''] (\<lambda>a. AvailableSlots (a ''staff_id'') (a ''service_id'') (a ''date''))
      else if name = ''prepare_booking''
      then using [''service_id'', ''staff_id'', ''date'', ''time'', ''phone'', ''full_name'']
        (\<lambda>a. PrepareBooking \<lparr>pa_service_id = a ''service_id'', pa_staff_id = a ''staff_id'', pa_date = a ''date'',
          pa_time = a ''time'', pa_phone = a ''phone'', pa_full_name = a ''full_name''\<rparr>)
      else if name = ''confirm_booking'' then ConfirmBooking
      else if name = ''list_my_bookings'' then ListBookings
      else if name = ''prepare_cancellation'' then using [''reference''] (\<lambda>a. PrepareCancel (a ''reference''))
      else if name = ''confirm_cancellation'' then ConfirmCancel
      else if name = ''prepare_reschedule''
      then using [''reference'', ''date'', ''time''] (\<lambda>a. PrepareMove (a ''reference'') (a ''date'') (a ''time''))
      else if name = ''confirm_reschedule'' then ConfirmMove
      else if name = ''request_human_handoff'' then using [''reason''] (\<lambda>a. RequestHandoff (a ''reason''))
      else UnknownTool name)"

definition run_call :: "'e model_env_scheme \<Rightarrow> ai_call \<Rightarrow> (turn, ai_result) proc" where
  "run_call env call = attempt (execute_tool env (decode_call env call)) id (\<lambda>out.
     ret \<lparr>ar_call_id = ac_id call, ar_output = (case out of Inl e \<Rightarrow> e | Inr a \<Rightarrow> md_encode env a)\<rparr>)"

text \<open>A third identical lookup, after the same answer twice, makes no progress.\<close>

definition lookup_tools :: "string list" where
  "lookup_tools = [''list_service_categories'', ''list_services'', ''list_staff'', ''find_available_dates'',
     ''find_available_slots'', ''list_my_bookings'']"

definition same_call :: "ai_call \<Rightarrow> ai_call \<Rightarrow> bool" where
  "same_call c d \<longleftrightarrow> ac_name c = ac_name d \<and> trim_space (ac_arguments c) = trim_space (ac_arguments d)"

definition repeated_lookup :: "ai_call list \<Rightarrow> ai_turn list \<Rightarrow> bool" where
  "repeated_lookup calls turns =
     (if calls = [] \<or> length turns < 2 then False
      else let previous = turns ! (length turns - 1); earlier = turns ! (length turns - 2) in
        length calls = length (at_calls previous) \<and> length calls = length (at_calls earlier) \<and>
        length (at_results previous) = length calls \<and> length (at_results earlier) = length calls \<and>
        list_all (\<lambda>i. ac_name (calls ! i) \<in> set lookup_tools \<and>
          same_call (calls ! i) (at_calls previous ! i) \<and> same_call (calls ! i) (at_calls earlier ! i) \<and>
          ar_output (at_results previous ! i) = ar_output (at_results earlier ! i)) [0..<length calls])"

section \<open>Fixed endings\<close>

definition apologise :: "(turn, reply_text) proc" where
  "apologise = modify (offer_fixed OfferHelp) (with_session (\<lambda>s. ret (Phrase (ss_language s) ''apology'')))"

definition decline :: "(turn, reply_text) proc" where
  "decline = modify (offer_fixed OfferMenu) (with_session (\<lambda>s. ret (Phrase (ss_language s) ''purpose'')))"

definition handed_over :: "conversation \<Rightarrow> session \<Rightarrow> session" where
  "handed_over c s = offer [] (s\<lparr>ss_conv := c, ss_handoff_reason := ReasonCustomerAsked,
     ss_handoff_detail := GivenDetail ''tapped the menu entry asking for a person''\<rparr>)"

definition hand_over :: "'e model_env_scheme \<Rightarrow> (turn, reply_text option) proc" where
  "hand_over env = with_session (\<lambda>s. attempt (now_in env) id (\<lambda>now.
     case transition_to (ss_conv s) StateHumanRequested now of
       Inl _ \<Rightarrow> ret None
     | Inr c \<Rightarrow> modify (handed_over c) (ret (Some (Phrase (ss_language s) ''handed_over'')))))"

definition answer_text :: "ai_response \<Rightarrow> (turn, reply_text) proc" where
  "answer_text resp =
     (if rs_purpose resp = PurposeUnrelated \<or> outside_purpose_reply (rs_text resp) then decline
      else modify (select_choices (rs_choices resp)) (ret (ModelText (rs_text resp))))"

section \<open>The loop with the model\<close>

definition max_tool_rounds :: nat where "max_tool_rounds = 6"
definition output_budget :: int where "output_budget = 16000"

definition already_attempted :: string where
  "already_attempted = ''the confirmed change was already attempted; explain its result without repeating it''"

text \<open>The calls of one round, in order; the flag says that a tool has settled the final reply.\<close>

fun run_calls ::
  "'e model_env_scheme \<Rightarrow> bool \<Rightarrow> ai_call list \<Rightarrow> (turn, ai_result list \<times> bool) proc" where
  "run_calls env attempted [] = ret ([], False)"
| "run_calls env attempted (c # cs) =
     (if attempted \<and> ac_name c \<in> set change_tools
      then attempt (run_calls env attempted cs) id (\<lambda>(results, settled).
        ret (\<lparr>ar_call_id = ac_id c, ar_output = already_attempted\<rparr> # results, settled))
      else attempt (outside (superseded_now env)) id (\<lambda>superseded.
        if superseded then fail superseded_error
        else with_session (\<lambda>s. attempt (outside (check_external_reply env (ss_conv s))) id (\<lambda>_.
          attempt (run_call env c) id (\<lambda>result. with_session (\<lambda>s.
            if ss_final_reply s \<noteq> NoReply then ret ([result], True)
            else attempt (run_calls env attempted cs) id (\<lambda>(results, settled). ret (result # results, settled))))))))"

definition complete_final ::
  "'e model_env_scheme \<Rightarrow> (nat \<Rightarrow> ai_request \<Rightarrow> ai_response result) \<Rightarrow> ai_request \<Rightarrow> int \<Rightarrow> (turn, reply_text) proc" where
  "complete_final env model req remaining =
     (if remaining < 512 then apologise
      else observe (ask_in (\<lambda>n. model n (req\<lparr>rq_tools := [], rq_max_tokens := min 8192 remaining\<rparr>))) (\<lambda>reply.
        case reply of
          Inl _ \<Rightarrow> apologise
        | Inr resp \<Rightarrow> if \<not> wants_tools resp \<and> rs_text resp \<noteq> [] then answer_text resp else apologise))"

fun model_rounds ::
  "'e model_env_scheme \<Rightarrow> (nat \<Rightarrow> ai_request \<Rightarrow> ai_response result) \<Rightarrow> bool \<Rightarrow> ai_request \<Rightarrow> int \<Rightarrow> nat \<Rightarrow>
   (turn, reply_text) proc" where
  "model_rounds env model attempted req remaining 0 = complete_final env model req remaining"
| "model_rounds env model attempted req remaining (Suc n) =
     (if remaining < 512 then apologise
      else let req = req\<lparr>rq_max_tokens := min 8192 remaining\<rparr> in
        attempt (outside (superseded_now env)) id (\<lambda>superseded.
        if superseded then fail superseded_error
        else observe (ask_in (\<lambda>n. model n req)) (\<lambda>reply. case reply of
          Inl _ \<Rightarrow> attempt (outside (superseded_now env)) id (\<lambda>superseded.
            if superseded then fail superseded_error else apologise)
        | Inr resp \<Rightarrow>
          if length (rs_calls resp) > 8 then apologise
          else if \<not> wants_tools resp then (if rs_text resp = [] then apologise else answer_text resp)
          else if repeated_lookup (rs_calls resp) (rq_turns req) then apologise
          else attempt (run_calls env attempted (rs_calls resp)) id (\<lambda>(results, settled).
            if settled then with_session (\<lambda>s. ret (ss_final_reply s))
            else model_rounds env model attempted
              (req\<lparr>rq_turns := rq_turns req @ [\<lparr>at_calls = rs_calls resp, at_results = results\<rparr>]\<rparr>)
              (remaining - rs_output_tokens resp) n))))"

section \<open>Explicit confirmations\<close>

text \<open>A fixed answer ends the reply; a turn of the application is shown to the model.\<close>

datatype step_result = Answered reply_text | Continue "ai_turn list" bool

definition application_call ::
  "'e model_env_scheme \<Rightarrow> string \<Rightarrow> string \<Rightarrow> ai_turn list \<Rightarrow> bool \<Rightarrow> (turn, step_result) proc" where
  "application_call env i name seeded attempted =
     (let call = \<lparr>ac_id = i, ac_name = name, ac_arguments = ''{}''\<rparr> in
      attempt (run_call env call) id (\<lambda>result. with_session (\<lambda>s.
        ret (if ss_final_reply s \<noteq> NoReply then Answered (ss_final_reply s)
          else Continue (seeded @ [\<lparr>at_calls = [call], at_results = [result]\<rparr>]) attempted))))"

definition drop_change :: "string \<Rightarrow> (turn, step_result) proc" where
  "drop_change k = modify (offer [] \<circ> on_conv (\<lambda>c. c\<lparr>cv_change := None\<rparr>))
     (with_session (\<lambda>s. ret (Answered (Phrase (ss_language s) k))))"

definition confirm_change_step :: "'e model_env_scheme \<Rightarrow> string \<Rightarrow> (turn, step_result) proc" where
  "confirm_change_step env txt = with_session (\<lambda>s. case cv_change (ss_conv s) of
       None \<Rightarrow> if cv_draft (ss_conv s) = None \<and> is_change_answer_button (tl_words env) (tl_to_lower env) txt
         then modify (offer []) (ret (Answered (Phrase (ss_language s) ''change_expired'')))
         else ret (Continue [] False)
     | Some d \<Rightarrow>
       let answer = change_answer (tl_words env) (tl_to_lower env) txt in
       if answer = - 1 then drop_change ''unchanged''
       else if answer = 1
       then attempt (now_in env) id (\<lambda>now.
         if change_validate d (cd_kind d) now \<noteq> None \<or> cd_prepared_from d = ss_incoming s \<or>
           (cd_kind d \<noteq> ChangeCancel \<and> cd_kind d \<noteq> ChangeReschedule) then drop_change ''change_expired''
         else application_call env ''application-change-confirmation''
           (if cd_kind d = ChangeReschedule then ''confirm_reschedule'' else ''confirm_cancellation'') [] True)
       else ret (Continue [] False))"

definition confirm_booking_step ::
  "'e model_env_scheme \<Rightarrow> string \<Rightarrow> ai_turn list \<Rightarrow> bool \<Rightarrow> (turn, step_result) proc" where
  "confirm_booking_step env txt seeded attempted = with_session (\<lambda>s.
     if cv_draft (ss_conv s) \<noteq> None \<and>
       explicitly_confirms_booking (tl_words env) (tl_to_lower env) (tl_equal_fold env) txt (ss_language s)
     then application_call env ''application-confirmation'' ''confirm_booking'' seeded attempted
     else ret (Continue seeded attempted))"

definition first_request :: "'e model_env_scheme \<Rightarrow> session \<Rightarrow> stored_message list \<Rightarrow> ai_turn list \<Rightarrow> bool \<Rightarrow> ai_request" where
  "first_request env s messages seeded attempted =
     \<lparr>rq_pending = cv_change (ss_conv s), rq_attempted = attempted,
      rq_catalogue = (cv_service (ss_conv s), cv_staff (ss_conv s), cv_date (ss_conv s)),
      rq_messages = bounded_studio_messages (tl_words env) (tl_to_lower env) messages,
      rq_turns = seeded,
      rq_tools = (if attempted then filter (\<lambda>t. t \<notin> set change_tools) (tool_names env) else tool_names env),
      rq_max_tokens = 8192\<rparr>"

definition ask_model ::
  "'e model_env_scheme \<Rightarrow> envelope \<Rightarrow> stored_message list \<Rightarrow> ai_turn list \<Rightarrow> bool \<Rightarrow> (turn, reply_text) proc" where
  "ask_model env msg messages seeded attempted = with_session (\<lambda>s. case md_model env of
       None \<Rightarrow> ret (Phrase (ss_language s)
         (if co_type (en_content msg) = ContentTypeUnsupported then ''no_model_unsupported'' else ''no_model''))
     | Some model \<Rightarrow> model_rounds env model attempted (first_request env s messages seeded attempted)
         output_budget max_tool_rounds)"

section \<open>Fixed answers\<close>

definition or_else :: "(turn, 'a option) proc \<Rightarrow> (turn, 'a) proc \<Rightarrow> (turn, 'a) proc" where
  "or_else m k = attempt m id (\<lambda>r. case r of Some t \<Rightarrow> ret t | None \<Rightarrow> k)"

definition else_try :: "(turn, 'a option) proc \<Rightarrow> (turn, 'a option) proc \<Rightarrow> (turn, 'a option) proc" where
  "else_try m k = attempt m id (\<lambda>r. case r of Some t \<Rightarrow> ret (Some t) | None \<Rightarrow> k)"

definition menu_reply :: "'e model_env_scheme \<Rightarrow> envelope \<Rightarrow> bool \<Rightarrow> (turn, reply_text option) proc" where
  "menu_reply env msg selected =
     (let txt = co_text (en_content msg); action = action_of env txt in
      else_try (reminder_consent env txt)
      (else_try (if action = ''start'' \<or> is_greeting (tl_to_lower env) txt
         then attempt (catalogue_reply env ''/services'' False) id (\<lambda>r. with_session (\<lambda>s.
           ret (map_option (GreetedWith (ss_language s)) r)))
         else ret None)
      (if action = ''start'' \<or> action = ''help''
       then modify (offer_fixed OfferMenu) (with_session (\<lambda>s. ret (Some (Phrase (ss_language s) ''welcome''))))
       else if action = ''person'' then hand_over env
       else catalogue_reply env txt selected)))"

definition purpose_reply :: "'e model_env_scheme \<Rightarrow> string \<Rightarrow> stored_message list \<Rightarrow> (turn, reply_text option) proc" where
  "purpose_reply env txt messages =
     (if rune_count txt > 4000 then attempt decline id (\<lambda>t. ret (Some t))
      else case md_purpose env of
        None \<Rightarrow> ret None
      | Some check \<Rightarrow>
        observe (ask_in (\<lambda>n. check n (bounded_purpose_messages (tl_words env) (tl_to_lower env) messages))) (\<lambda>reply.
        case reply of
          Inl _ \<Rightarrow> attempt apologise id (\<lambda>t. ret (Some t))
        | Inr purpose \<Rightarrow>
          if purpose = PurposeUnrelated then attempt decline id (\<lambda>t. ret (Some t))
          else if purpose = PurposeAppointments then (case tl_identity env of
              None \<Rightarrow> ret None
            | Some identity \<Rightarrow> with_session (\<lambda>s.
                if cu_verified_phone (ss_customer s) = []
                then attempt (verification_prompt env identity) id (\<lambda>t. ret (Some t))
                else attempt (appointment_list env) id (\<lambda>t. ret (Some t))))
          else ret None))"

definition language_labels :: "string list" where
  "language_labels =
     [''English '' @ utf8 [0xB7] @ '' /language en'',
      utf8 [0x420, 0x443, 0x441, 0x441, 0x43A, 0x438, 0x439, 0x20, 0xB7] @ '' /language ru'',
      utf8 [0x540, 0x561, 0x575, 0x565, 0x580, 0x565, 0x576, 0x20, 0xB7] @ '' /language hy'']"

definition has_suffix :: "string \<Rightarrow> string \<Rightarrow> bool" where
  "has_suffix s p \<longleftrightarrow> length p \<le> length s \<and> drop (length s - length p) s = p"

definition chosen_language :: "string \<Rightarrow> string option" where
  "chosen_language txt =
     (let written = trim_space txt in
      find (\<lambda>tag. written = ''/language '' @ tag \<or> has_suffix written ('' '' @ utf8 [0xB7] @ '' /language '' @ tag))
        [''en'', ''ru'', ''hy''])"

definition set_language :: "'e model_env_scheme \<Rightarrow> string \<Rightarrow> (turn, reply_text) proc" where
  "set_language env tag =
     modify (on_conv (\<lambda>c. c\<lparr>cv_preferred_language := tag\<rparr>) \<circ>
         (\<lambda>s. s\<lparr>ss_language := language_of_tag (tl_to_lower env) tag\<rparr>))
      (with_session (\<lambda>s. case (if cu_verified_phone (ss_customer s) = [] then None else dg_preferred env) of
         None \<Rightarrow> ret (LanguageChosen tag)
       | Some preferred \<Rightarrow> attempt (ask_in (\<lambda>n. preferred n (cu_verified_phone (ss_customer s)) tag True)) id (\<lambda>_.
           modify (on_conv (\<lambda>c. c\<lparr>cv_preferred_language := []\<rparr>)) (ret (LanguageChosen tag)))))"

section \<open>The reply\<close>

definition confirm_or_ask :: "'e model_env_scheme \<Rightarrow> envelope \<Rightarrow> stored_message list \<Rightarrow> (turn, reply_text) proc" where
  "confirm_or_ask env msg messages =
     (let txt = co_text (en_content msg) in
      attempt (confirm_change_step env txt) id (\<lambda>r. case r of
        Answered t \<Rightarrow> ret t
      | Continue seeded attempted \<Rightarrow>
        attempt (confirm_booking_step env txt seeded attempted) id (\<lambda>r. case r of
          Answered t \<Rightarrow> ret t
        | Continue seeded attempted \<Rightarrow> ask_model env msg messages seeded attempted)))"

definition reply_with :: "'e model_env_scheme \<Rightarrow> envelope \<Rightarrow> stored_message list \<Rightarrow> bool \<Rightarrow> (turn, reply_text) proc" where
  "reply_with env msg messages selected =
     (let txt = co_text (en_content msg) in
      if trim_space txt = ''/language'' then modify (present language_labels) (ret LanguageList)
      else case chosen_language txt of
        Some tag \<Rightarrow> set_language env tag
      | None \<Rightarrow>
        or_else (public_link_reply env txt)
        (or_else (cabinet_reply env msg)
        (or_else (menu_reply env msg selected)
        (or_else (purpose_reply env txt messages)
          (confirm_or_ask env msg messages)))))"

end
