(* ===== verification/Handle.thy ===== *)
theory Handle
  imports Reply Choices
begin

text \<open>
  Handling one inbound message (\<open>Service.Handle\<close> of \<open>assistant/service.go\<close>, \<open>audio.go\<close>), stage by stage
  as the code runs it: the delivery is claimed, the turn registered, the conversation locked, the
  customer and the conversation found, the message understood and recorded; then the message is left
  to staff, or a reply is composed, checked to be the newest, and sent. The stages pass a \<open>visit\<close>:
  what \<open>Handle\<close> keeps in its variables. The deferred functions run after their stage, whatever its
  result. A turn cancelled by a newer message (\<open>errTurnSuperseded\<close>) is saved and completed.
\<close>

record ai_audio =
  aa_data :: string
  aa_filename :: string

record handle_env = model_env +
  hd_available :: "(nat \<Rightarrow> provider \<Rightarrow> bool result) option"
  hd_download :: "provider \<Rightarrow> (nat \<Rightarrow> audio \<Rightarrow> ai_audio result) option"
  hd_transcribe :: "(nat \<Rightarrow> ai_audio \<Rightarrow> string result) option"

record visit =
  vi_msg :: envelope
  vi_claim :: string
  vi_now :: time
  vi_customer :: customer
  vi_conv :: conversation
  vi_said :: string
  vi_selected :: bool
  vi_unheard :: bool

abbreviation turn_key :: "envelope \<Rightarrow> string" where
  "turn_key msg \<equiv> conversation_key (en_provider msg) (en_thread_id msg)"

definition finish_visit :: "'e handle_env_scheme \<Rightarrow> visit \<Rightarrow> time \<Rightarrow> (world, unit) proc" where
  "finish_visit env v at = complete_claim env (dedupe_key (vi_msg v)) (vi_claim v) at"

section \<open>An answered keyboard\<close>

definition stale_press :: "conversation \<Rightarrow> envelope \<Rightarrow> bool" where
  "stale_press c msg \<longleftrightarrow>
     (let retrying = en_choice_message_id msg = cv_pending_choice c \<and> en_message_id msg = cv_pending_event c in
      assistant_may_reply c \<and> en_choice_message_id msg \<noteq> [] \<and> en_choice_message_id msg \<noteq> cv_last_choice c \<and> \<not> retrying)"

definition no_sender :: "provider \<Rightarrow> go_error" where
  "no_sender p = errors_new (''no sender configured for '' @ p)"

definition answer_stale_press :: "'e handle_env_scheme \<Rightarrow> visit \<Rightarrow> (world, unit) proc" where
  "answer_stale_press env v = (case as_senders env (en_provider (vi_msg v)) of
       None \<Rightarrow> fail (no_sender (en_provider (vi_msg v)))
     | Some tracked \<Rightarrow>
       attempt (history env (cv_id (vi_conv v))) id (\<lambda>messages.
       attempt (send_message env (envelope_reply (vi_msg v) (dg_render env (Phrase
           (conversation_language (tl_to_lower env) messages (sn_language (en_sender (vi_msg v)))) ''expired_choice'')))) id (\<lambda>_.
         finish_visit env v (vi_now v))))"

section \<open>Voice messages\<close>

definition transcribed :: "envelope \<Rightarrow> string \<Rightarrow> envelope" where
  "transcribed msg heard =
     (let caption = trim_space (co_text (en_content msg)) in
      msg\<lparr>en_content := \<lparr>co_type = ContentTypeText,
        co_text = (if caption \<noteq> [] then caption @ newline @ heard else heard), co_audio = None,
        co_description = ''transcribed voice message''\<rparr>\<rparr>)"

definition transcribe_input :: "'e handle_env_scheme \<Rightarrow> envelope \<Rightarrow> (world, envelope) proc" where
  "transcribe_input env msg = (case (hd_transcribe env, co_audio (en_content msg)) of
       (Some transcribe, Some recording) \<Rightarrow> (case hd_download env (en_provider msg) of
           None \<Rightarrow> fail (errors_new ''audio download is unavailable'')
         | Some download \<Rightarrow>
           attempt (ask (\<lambda>n. download n recording)) id (\<lambda>sound.
           attempt (ask (\<lambda>n. transcribe n sound)) id (\<lambda>txt.
             let heard = trim_space txt in
             if heard = [] then fail (errors_new ''no speech recognized'') else ret (transcribed msg heard))))
     | _ \<Rightarrow> fail (errors_new ''audio transcription is unavailable''))"

text \<open>The caption stands in for a recording nobody could read.\<close>

definition unheard :: "envelope \<Rightarrow> envelope \<times> bool" where
  "unheard msg =
     (let caption = trim_space (co_text (en_content msg)) in
      if caption \<noteq> []
      then (msg\<lparr>en_content := \<lparr>co_type = ContentTypeText, co_text = caption, co_audio = None, co_description = []\<rparr>\<rparr>, False)
      else (msg\<lparr>en_content := \<lparr>co_type = ContentTypeUnsupported, co_text = [], co_audio = None,
        co_description = ''voice message''\<rparr>\<rparr>, True))"

definition listen :: "'e handle_env_scheme \<Rightarrow> envelope \<Rightarrow> conversation \<Rightarrow> time \<Rightarrow> (world, envelope \<times> bool) proc" where
  "listen env msg c now =
     (if co_type (en_content msg) = ContentTypeAudio \<and> (assistant_may_reply c \<or> waiting_longer_than c handoff_timeout now)
      then observe (transcribe_input env msg) (\<lambda>reply. ret (case reply of Inl _ \<Rightarrow> unheard msg | Inr msg \<Rightarrow> (msg, False)))
      else ret (msg, False))"

section \<open>Recording the message\<close>

definition masked_code :: string where "masked_code = ''[verification code]''"

text \<open>The text the transcript keeps: a verification code that is waited for is masked.\<close>

definition text_to_keep :: "'e handle_env_scheme \<Rightarrow> envelope \<Rightarrow> (world, string) proc" where
  "text_to_keep env msg =
     (let txt = co_text (en_content msg) in
      case (if looks_like_code txt then tl_identity env else None) of
        None \<Rightarrow> ret txt
      | Some identity \<Rightarrow> attempt (cabinet_pending identity (en_provider msg) (en_user_id msg)) id (\<lambda>pending.
          ret (if pending \<noteq> [] then masked_code else txt)))"

definition record_inbound :: "'e handle_env_scheme \<Rightarrow> visit \<Rightarrow> (world, unit) proc" where
  "record_inbound env v =
     attempt (fresh env) id (\<lambda>message_id.
     attempt (store env (append_message
         \<lparr>ms_id = message_id, ms_conversation_id = cv_id (vi_conv v), ms_direction = DirectionInbound,
          ms_content_type = co_type (en_content (vi_msg v)), ms_text = vi_said v,
          ms_external_id = en_message_id (vi_msg v), ms_created_at = vi_now v\<rparr>))
       (wrap_error ''record the incoming message'') (\<lambda>_. ret ()))"

text \<open>A numbered answer keeps its literal text in the transcript and its meaning in the message.\<close>

definition understand :: "'e handle_env_scheme \<Rightarrow> visit \<Rightarrow> (world, visit) proc" where
  "understand env v =
     attempt (listen env (vi_msg v) (vi_conv v) (vi_now v)) id (\<lambda>(msg, unheard).
     let (resolved, selected) = resolve_presented_choice (tl_equal_fold env) (vi_conv v) (co_text (en_content msg)) in
     attempt (text_to_keep env msg) id (\<lambda>said.
     let v = v\<lparr>vi_said := said, vi_selected := selected, vi_unheard := unheard,
         vi_msg := (if selected then msg\<lparr>en_content := (en_content msg)\<lparr>co_text := resolved\<rparr>\<rparr> else msg)\<rparr> in
     attempt (record_inbound env v) id (\<lambda>_. ret v)))"

section \<open>Messages for staff\<close>

definition inbound_notice :: "visit \<Rightarrow> handoff_notice" where
  "inbound_notice v =
     \<lparr>hn_conversation = cv_id (vi_conv v), hn_reason = [], hn_detail = NoDetail, hn_provider = cv_provider (vi_conv v),
      hn_customer = vi_customer v, hn_handle = [], hn_user_id = en_user_id (vi_msg v), hn_recent = [],
      hn_draft = None, hn_requested_at = vi_now v\<rparr>"

definition said_message :: "visit \<Rightarrow> stored_message" where
  "said_message v =
     \<lparr>ms_id = [], ms_conversation_id = [], ms_direction = DirectionInbound, ms_content_type = [],
      ms_text = vi_said v, ms_external_id = [], ms_created_at = zero_time\<rparr>"

definition outage_notice :: "visit \<Rightarrow> handoff_notice" where
  "outage_notice v = (inbound_notice v)\<lparr>hn_reason := ReasonChannelUnavailable,
     hn_detail := GivenDetail ''Provider has confirmed that replies cannot be delivered; contact the client through an available channel.'',
     hn_recent := [said_message v]\<rparr>"

definition stop_reminders :: "'e handle_env_scheme \<Rightarrow> string \<Rightarrow> conversation \<Rightarrow> conversation" where
  "stop_reminders env txt c = (if stops_reminders (tl_words env) (tl_equal_fold env) txt then c\<lparr>cv_reminder_opt_in := False\<rparr> else c)"

text \<open>The provider has confirmed that replies cannot be delivered.\<close>

definition leave_undeliverable :: "'e handle_env_scheme \<Rightarrow> visit \<Rightarrow> (world, unit) proc" where
  "leave_undeliverable env v =
     (let c = stop_reminders env (co_text (en_content (vi_msg v))) (vi_conv v) in
      if assistant_may_reply c
      then attempt (given (transition_to c StateHumanRequested (vi_now v))) id (\<lambda>c.
        attempt (store env (save_conversation c)) id (\<lambda>_.
        attempt (notify_staff env (outage_notice (v\<lparr>vi_conv := c\<rparr>))) id (\<lambda>_.
          finish_visit env v (vi_now v))))
      else attempt (store env (save_conversation c)) id (\<lambda>_.
        attempt (notify_inbound env (inbound_notice v) (vi_said v)) id (\<lambda>_.
          finish_visit env v (vi_now v))))"

text \<open>A colleague was asked for, or took over, and has been silent for too long.\<close>

definition forgotten :: "conversation \<Rightarrow> time \<Rightarrow> bool" where
  "forgotten c now \<longleftrightarrow> waiting_longer_than c handoff_timeout now \<or>
     cv_state c = StateHumanActive \<and> \<not> is_zero (cv_handoff_at c) \<and> handoff_timeout < time_sub now (cv_handoff_at c)"

definition resume_forgotten :: "conversation \<Rightarrow> time \<Rightarrow> conversation" where
  "resume_forgotten c now = (if forgotten c now then try_transition StateAssistantActive now c else c)"

definition leave_to_colleague :: "'e handle_env_scheme \<Rightarrow> visit \<Rightarrow> (world, unit) proc" where
  "leave_to_colleague env v =
     attempt (notify_inbound env (inbound_notice v) (vi_said v)) id (\<lambda>_.
     attempt (if cv_provider (vi_conv v) = ProviderWhatsApp \<and>
           stops_reminders (tl_words env) (tl_equal_fold env) (co_text (en_content (vi_msg v)))
         then store env (save_conversation ((vi_conv v)\<lparr>cv_reminder_opt_in := False\<rparr>)) else ret ()) id (\<lambda>_.
       finish_visit env v (vi_now v)))"

section \<open>A turn cancelled by a newer message\<close>

definition complete_superseded :: "'e handle_env_scheme \<Rightarrow> visit \<Rightarrow> conversation \<Rightarrow> (world, unit) proc" where
  "complete_superseded env v c =
     observe (store env (save_conversation c)) (\<lambda>_.
     attempt (clock env) id (\<lambda>now. finish_visit env v now))"

definition unless_superseded ::
  "'e handle_env_scheme \<Rightarrow> visit \<Rightarrow> conversation \<Rightarrow> go_error \<Rightarrow> (world, unit) proc" where
  "unless_superseded env v c e = attempt (superseded_now env) id (\<lambda>superseded.
     if superseded then complete_superseded env v c else fail e)"

definition if_latest ::
  "'e handle_env_scheme \<Rightarrow> visit \<Rightarrow> conversation \<Rightarrow> string \<Rightarrow> (world, unit) proc \<Rightarrow> (world, unit) proc" where
  "if_latest env v c label k =
     observe (store env (is_latest_turn (turn_key (vi_msg v)) (en_message_id (vi_msg v)))) (\<lambda>reply. case reply of
       Inl e \<Rightarrow> unless_superseded env v c (wrap_error label e)
     | Inr latest \<Rightarrow> if latest then k else complete_superseded env v c)"

section \<open>Composing the reply\<close>

definition in_turn :: "session \<Rightarrow> (turn, 'a) proc \<Rightarrow> (world, 'a result \<times> session) proc" where
  "in_turn s m w = (case m \<lparr>tn_world = w, tn_session = s\<rparr> of (r, tn) \<Rightarrow> (Inr (r, tn_session tn), tn_world tn))"

text \<open>The meaning of a number replaces it in what the model reads, not in the stored transcript.\<close>

fun relabel_first :: "envelope \<Rightarrow> stored_message list \<Rightarrow> stored_message list" where
  "relabel_first msg [] = []"
| "relabel_first msg (m # ms) =
     (if ms_direction m = DirectionInbound \<and> ms_external_id m = en_message_id msg
      then m\<lparr>ms_text := co_text (en_content msg)\<rparr> # ms else m # relabel_first msg ms)"

definition relabelled :: "visit \<Rightarrow> stored_message list \<Rightarrow> stored_message list" where
  "relabelled v ms = (if vi_selected v then rev (relabel_first (vi_msg v) (rev ms)) else ms)"

definition first_session :: "'e handle_env_scheme \<Rightarrow> visit \<Rightarrow> stored_message list \<Rightarrow> session" where
  "first_session env v messages =
     \<lparr>ss_request_contact = False, ss_conv = vi_conv v, ss_customer = vi_customer v,
      ss_incoming = en_message_id (vi_msg v), ss_final_reply = NoReply, ss_final_links = [],
      ss_handoff_reason = [], ss_handoff_detail = NoDetail,
      ss_language = conversation_language (tl_to_lower env) messages (sn_language (en_sender (vi_msg v))),
      ss_choices = [], ss_candidates = [], ss_offering = OfferWhatToolsSaid\<rparr>"

definition note_press :: "envelope \<Rightarrow> conversation \<Rightarrow> conversation" where
  "note_press msg c =
     (if en_choice_message_id msg \<noteq> []
      then c\<lparr>cv_pending_choice := en_choice_message_id msg, cv_pending_event := en_message_id msg\<rparr>
      else c\<lparr>cv_pending_choice := [], cv_pending_event := []\<rparr>)"

definition compose_reply :: "'e handle_env_scheme \<Rightarrow> visit \<Rightarrow> bool \<Rightarrow> stored_message list \<Rightarrow> (turn, reply_text) proc" where
  "compose_reply env v tracked messages =
     attempt (apply_preferred_language env) id (\<lambda>_. modify (on_conv (note_press (vi_msg v)))
       (with_session (\<lambda>s. attempt (outside (retire_choices env tracked (ss_conv s))) id (\<lambda>c.
         modify (on_conv (\<lambda>_. c))
           (if vi_unheard v then with_session (\<lambda>s. ret (Phrase (ss_language s) ''audio_retry''))
            else reply_with env (vi_msg v) messages (vi_selected v))))))"

text \<open>The text without hearts; an apology, with its help button, when nothing is left to say.\<close>

definition spoken :: "'e handle_env_scheme \<Rightarrow> reply_text \<Rightarrow> session \<Rightarrow> string \<times> session" where
  "spoken env t s =
     (let txt = without_hearts (dg_render env t) in
      if trim_space txt = [] then (dg_render env (Phrase (ss_language s) ''apology''), offer_fixed OfferHelp s)
      else (txt, s))"

section \<open>Sending the reply\<close>

definition handoff_of :: "visit \<Rightarrow> session \<Rightarrow> stored_message list \<Rightarrow> handoff_notice" where
  "handoff_of v s messages =
     \<lparr>hn_conversation = cv_id (ss_conv s), hn_reason = ss_handoff_reason s, hn_detail = ss_handoff_detail s,
      hn_provider = en_provider (vi_msg v), hn_customer = ss_customer s,
      hn_handle = sn_username (en_sender (vi_msg v)), hn_user_id = en_user_id (vi_msg v), hn_recent = messages,
      hn_draft = cv_draft (ss_conv s), hn_requested_at = vi_now v\<rparr>"

definition final_links :: "'e handle_env_scheme \<Rightarrow> session \<Rightarrow> link list" where
  "final_links env s =
     ss_final_links s @
     (if ss_offering s = OfferNavigation \<and> cv_category (ss_conv s) = [] \<and> cv_phase (ss_conv s) = []
      then public_links env (ss_language s) else [])"

definition final_text :: "'e handle_env_scheme \<Rightarrow> session \<Rightarrow> string \<Rightarrow> string" where
  "final_text env s txt =
     (if ss_offering s \<noteq> OfferNavigation
      then without_redundant_choice_lines (tl_to_lower env) txt
        (buttons (tl_words env) (tl_to_lower env) (dg_word_rune env) s txt)
      else txt)"

definition message_of :: "'e handle_env_scheme \<Rightarrow> visit \<Rightarrow> session \<Rightarrow> string \<Rightarrow> outgoing" where
  "message_of env v s txt =
     (with_links (with_choices (envelope_reply (vi_msg v) (final_text env s txt))
        (buttons (tl_words env) (tl_to_lower env) (dg_word_rune env) s txt)) (final_links env s))
      \<lparr>og_request_own_contact := ss_request_contact s\<rparr>"

text \<open>What is remembered of the message just sent; an untracked sender's presses carry the token.\<close>

definition remember_sent :: "bool \<Rightarrow> string \<Rightarrow> outgoing \<Rightarrow> string list \<Rightarrow> conversation \<Rightarrow> conversation" where
  "remember_sent tracked sent_id out presented c =
     c\<lparr>cv_presented := presented, cv_pending_choice := [], cv_pending_event := [],
       cv_last_choice := (if tracked then (if og_choices out \<noteq> [] then sent_id else []) else og_choice_token out)\<rparr>"

definition record_answer ::
  "'e handle_env_scheme \<Rightarrow> visit \<Rightarrow> bool \<Rightarrow> string \<Rightarrow> outgoing \<Rightarrow> string list \<Rightarrow> conversation \<Rightarrow> (world, unit) proc" where
  "record_answer env v tracked sent_id out presented c =
     (let c = remember_sent tracked sent_id out presented c in
      observe (store env (save_conversation c)) (\<lambda>saved.
      attempt (case saved of
          Inl _ \<Rightarrow> if tracked \<and> og_choices out \<noteq> [] \<and> sent_id \<noteq> []
            then retire_untracked_choices env (cv_thread_id c) sent_id else ret ()
        | Inr _ \<Rightarrow> ret ()) id (\<lambda>_.
      attempt (fresh env) id (\<lambda>message_id.
      attempt (clock env) id (\<lambda>at.
      observe (store env (append_message
          \<lparr>ms_id = message_id, ms_conversation_id = cv_id c, ms_direction = DirectionOutbound,
           ms_content_type = ContentTypeText, ms_text = og_text out, ms_external_id = [], ms_created_at = at\<rparr>)) (\<lambda>_.
        finish_visit env v (vi_now v)))))))"

definition token_for :: "'e env_scheme \<Rightarrow> outgoing \<Rightarrow> (world, outgoing) proc" where
  "token_for env out =
     (if og_choices out \<noteq> [] then attempt (fresh env) id (\<lambda>token. ret (out\<lparr>og_choice_token := token\<rparr>)) else ret out)"

definition deliver_reply :: "'e handle_env_scheme \<Rightarrow> visit \<Rightarrow> bool \<Rightarrow> session \<Rightarrow> string \<Rightarrow> (world, unit) proc" where
  "deliver_reply env v tracked s txt =
     attempt (token_for env (message_of env v s txt)) id (\<lambda>out.
     let presented = presented_choices (tl_words env) (tl_to_lower env) (dg_word_rune env) s (final_text env s txt) in
     observe (check_external_reply env (ss_conv s)) (\<lambda>checked. case checked of
       Inl e \<Rightarrow> unless_superseded env v (ss_conv s) e
     | Inr _ \<Rightarrow> observe (send_message env out) (\<lambda>sent. case sent of
         Inl e \<Rightarrow> unless_superseded env v (ss_conv s) (wrap_error ''send the reply'' e)
       | Inr sent_id \<Rightarrow> record_answer env v tracked sent_id out presented (ss_conv s))))"

definition finish_reply ::
  "'e handle_env_scheme \<Rightarrow> visit \<Rightarrow> bool \<Rightarrow> stored_message list \<Rightarrow> reply_text \<Rightarrow> session \<Rightarrow> (world, unit) proc" where
  "finish_reply env v tracked messages t s =
     (let (txt, s) = spoken env t s in
      attempt (store env (save_conversation (ss_conv s))) (wrap_error ''save the conversation'') (\<lambda>_.
      attempt (if ss_handoff_reason s \<noteq> [] then notify_staff env (handoff_of v s messages) else ret ()) id (\<lambda>_.
        if_latest env v (ss_conv s) ''check the customer turn before sending'' (deliver_reply env v tracked s txt))))"

definition answer_visit :: "'e handle_env_scheme \<Rightarrow> visit \<Rightarrow> bool \<Rightarrow> (world, unit) proc" where
  "answer_visit env v tracked =
     if_latest env v (vi_conv v) ''check the customer turn before reading history''
     (observe (history env (cv_id (vi_conv v))) (\<lambda>reply. case reply of
       Inl e \<Rightarrow> unless_superseded env v (vi_conv v) (wrap_error ''read the conversation history'' e)
     | Inr messages \<Rightarrow>
       let messages = relabelled v messages in
       attempt (in_turn (first_session env v messages) (compose_reply env v tracked messages)) id (\<lambda>(composed, s).
         case composed of
           Inl e \<Rightarrow> if errors_is e TurnSuperseded then complete_superseded env v (ss_conv s)
             else unless_superseded env v (ss_conv s) e
         | Inr t \<Rightarrow> finish_reply env v tracked messages t s)))"

section \<open>The visit\<close>

definition available :: "'e handle_env_scheme \<Rightarrow> provider \<Rightarrow> (world, bool) proc" where
  "available env p = (case hd_available env of
       None \<Rightarrow> ret True
     | Some check \<Rightarrow> attempt (ask (\<lambda>n. check n p)) (wrap_error ''check reply availability'') ret)"

definition attend :: "'e handle_env_scheme \<Rightarrow> visit \<Rightarrow> (world, unit) proc" where
  "attend env v =
     attempt (available env (en_provider (vi_msg v))) id (\<lambda>deliverable.
     if \<not> deliverable then leave_undeliverable env v
     else let v = v\<lparr>vi_conv := resume_forgotten (vi_conv v) (vi_now v)\<rparr> in
       if \<not> assistant_may_reply (vi_conv v) then leave_to_colleague env v
       else case as_senders env (en_provider (vi_msg v)) of
         None \<Rightarrow> fail (no_sender (en_provider (vi_msg v)))
       | Some tracked \<Rightarrow> answer_visit env v tracked)"

definition first_visit :: "envelope \<Rightarrow> string \<Rightarrow> time \<Rightarrow> customer \<Rightarrow> conversation \<Rightarrow> visit" where
  "first_visit msg claim_id now cust conv =
     \<lparr>vi_msg = msg, vi_claim = claim_id, vi_now = now, vi_customer = cust, vi_conv = conv,
      vi_said = co_text (en_content msg), vi_selected = False, vi_unheard = False\<rparr>"

definition visit_conversation :: "'e handle_env_scheme \<Rightarrow> visit \<Rightarrow> (world, unit) proc" where
  "visit_conversation env v =
     (if stale_press (vi_conv v) (vi_msg v) then answer_stale_press env v
      else attempt (understand env v) id (attend env))"

definition handle_locked :: "'e handle_env_scheme \<Rightarrow> envelope \<Rightarrow> string \<Rightarrow> (world, unit) proc" where
  "handle_locked env msg claim_id =
     attempt (clock env) id (\<lambda>now.
     attempt (identify env msg now) id (\<lambda>cust.
     attempt (remember_inbound_phone env cust msg) id (\<lambda>cust.
     attempt (open_conversation env msg cust now) id (\<lambda>conv.
       visit_conversation env (first_visit msg claim_id now cust conv)))))"

definition handle_claimed :: "'e handle_env_scheme \<Rightarrow> envelope \<Rightarrow> string \<Rightarrow> (world, unit) proc" where
  "handle_claimed env msg claim_id =
     attempt (store env (register_turn (turn_key msg) (en_message_id msg))) (wrap_error ''register the customer turn'') (\<lambda>_.
     attempt (lock_conversation env (turn_key msg) claim_id) id (\<lambda>_.
       unlocking env (turn_key msg) claim_id (handle_locked env msg claim_id)))"

text \<open>The deferred settling of the claim: a refused or uncertain send and a conflict with staff complete it.\<close>

definition settle_claim :: "'e handle_env_scheme \<Rightarrow> string \<Rightarrow> string \<Rightarrow> unit result \<Rightarrow> (world, unit) proc" where
  "settle_claim env key claim_id r = (case r of
       Inr _ \<Rightarrow> ret ()
     | Inl e \<Rightarrow>
       let terminal = terminal_delivery (Some e); conflict = errors_is e ExternalReplyConflict;
           complete = attempt (clock env) id (\<lambda>now. complete_claim env key claim_id now) in
       attempt (if terminal then complete else ret ()) id (\<lambda>_.
       attempt (if conflict then complete else ret ()) id (\<lambda>_.
       attempt (if terminal \<or> conflict then ret () else release_claim env key claim_id) id (\<lambda>_.
         if conflict then ret () else fail e))))"

definition handle :: "'e handle_env_scheme \<Rightarrow> envelope \<Rightarrow> (world, unit) proc" where
  "handle env msg = (case envelope_validate msg of
       Some e \<Rightarrow> fail e
     | None \<Rightarrow>
       if tl_identity env \<noteq> None \<and> en_provider msg = ProviderTelegram \<and> en_thread_id msg \<noteq> en_user_id msg then ret ()
       else attempt (clock env) id (\<lambda>now.
         attempt (fresh env) id (\<lambda>claim_id.
         attempt (store env (claim_delivery (dedupe_key msg) claim_id now)) (wrap_error ''claim the delivery'') (\<lambda>claimed.
           if \<not> claimed then ret ()
           else observe (handle_claimed env msg claim_id) (settle_claim env (dedupe_key msg) claim_id)))))"

end
