(* ===== verification/StepLaws.thy ===== *)
theory StepLaws
  imports Handle Relay
begin

text \<open>
  The contract of a step of the world, stated once as a locale: a reflexive and transitive relation
  that ticks, effects other than a message to the customer, and changes of the store outside the
  deliveries, the transcript and the turns all respect. Composing a reply, with every tool the model
  may call in it, is made of such steps, so each relation that keeps the contract relates the world
  before and after it. The interpretations at the end read the results off.

  The contract of a step of a channel's adapter, over the state of the adapter: a reflexive and
  transitive relation between the states before and after it, which procedures composed of steps
  respect. The webhooks of Telegram and of Meta's platforms interpret it.
\<close>

fun sends :: "effect \<Rightarrow> bool" where
  "sends (SendMessage out) = True"
| "sends e = False"

definition clerical :: "db \<Rightarrow> db \<Rightarrow> bool" where
  "clerical d d' \<longleftrightarrow> db_processed d' = db_processed d \<and> db_messages d' = db_messages d \<and>
     db_latest_turn d' = db_latest_turn d \<and> db_claim_ttl d' = db_claim_ttl d \<and>
     db_processed_ttl d' = db_processed_ttl d"

definition clerical_op :: "(db, 'a) proc \<Rightarrow> bool" where
  "clerical_op m \<longleftrightarrow> (\<forall>d. clerical d (snd (m d)))"

definition steps :: "(world \<Rightarrow> world \<Rightarrow> bool) \<Rightarrow> (world, 'a) proc \<Rightarrow> bool" where
  "steps R m \<longleftrightarrow> (\<forall>w. R w (snd (m w)))"

definition moves :: "(world \<Rightarrow> world \<Rightarrow> bool) \<Rightarrow> (turn, 'a) proc \<Rightarrow> bool" where
  "moves R m \<longleftrightarrow> (\<forall>tn. R (tn_world tn) (tn_world (snd (m tn))))"

named_theorems clerical_ops \<open>operations of the store outside deliveries, transcript and turns\<close>
named_theorems step_intros \<open>procedures made of steps\<close>

section \<open>Operations of the store\<close>

lemma clerical_refl [simp]: "clerical d d"
  by (simp add: clerical_def)

lemma clerical_reads [clerical_ops]:
  "clerical_op (find_by_id i)" "clerical_op (recent i n)" "clerical_op (is_latest_turn k e)"
  "clerical_op (find_reminder i)" "clerical_op (list_bookings i)" "clerical_op (get_notification k)"
  by (simp_all add: clerical_op_def find_by_id_def recent_def is_latest_turn_def find_reminder_def
      list_bookings_def get_notification_def Let_def split: option.split list.split)

lemma clerical_writes [clerical_ops]:
  "clerical_op (save_conversation c)" "clerical_op (find_or_open c)" "clerical_op (save_booking b)"
  "clerical_op (update_contact now i name phone)" "clerical_op (ensure_reminder r)"
  "clerical_op (transact_notifications keys fn)" "clerical_op (link_verified_identity lib sha now ident cust phone)"
  "clerical_op (find_or_create_by_channel_identity ident cand)"
  by (auto simp: clerical_op_def clerical_def save_conversation_def find_or_open_def save_booking_def
      update_contact_def ensure_reminder_def transact_notifications_def link_verified_identity_def
      find_or_create_by_channel_identity_def store_conversation_def Let_def
      split: option.split sum.split prod.split if_splits)

section \<open>The contract\<close>

locale step_law =
  fixes R :: "world \<Rightarrow> world \<Rightarrow> bool"
  assumes R_refl: "R w w"
    and R_trans: "R w v \<Longrightarrow> R v u \<Longrightarrow> R w u"
    and R_tick: "R w (tick w)"
    and R_effect: "\<not> sends eff \<Longrightarrow> R w (w\<lparr>w_log := w_log w @ [(eff, x)]\<rparr>)"
    and R_store: "clerical (w_db w) d \<Longrightarrow> R w (w\<lparr>w_db := d\<rparr>)"
begin

lemma steps_ret [step_intros]: "steps R (ret x)"
  by (simp add: steps_def ret_def R_refl)

lemma steps_fail [step_intros]: "steps R (fail e)"
  by (simp add: steps_def fail_def R_refl)

lemma steps_ask [step_intros]: "steps R (ask f)"
  by (simp add: steps_def ask_def R_tick)

lemma steps_clock [step_intros]: "steps R (clock env)"
  by (simp add: clock_def steps_ask)

lemma steps_fresh [step_intros]: "steps R (fresh env)"
  by (simp add: fresh_def steps_ask)

lemma steps_given [step_intros]: "steps R (given r)"
  by (cases r) (simp_all add: given_def step_intros)

lemma steps_store [step_intros]:
  assumes "clerical_op m"
  shows "steps R (store env m)"
proof -
  have "R w (tick (w\<lparr>w_db := snd (m (w_db w))\<rparr>))" for w
    using assms by (intro R_trans [OF R_store R_tick]) (simp add: clerical_op_def)
  then show ?thesis by (simp add: steps_def store_def R_tick split: fault.split)
qed

lemma steps_perform [step_intros]: "\<not> sends eff \<Longrightarrow> steps R (perform env eff)"
  by (simp add: steps_def perform_def) (blast intro: R_trans [OF R_effect R_tick])

lemma steps_invoke [step_intros]: "\<not> sends eff \<Longrightarrow> steps R (invoke eff f)"
  by (simp add: steps_def invoke_def) (blast intro: R_trans [OF R_effect R_tick])

lemma steps_observe [step_intros]:
  assumes "steps R m" "\<And>r. steps R (k r)"
  shows "steps R (observe m k)"
  using assms by (auto simp: steps_def observe_apply split: prod.split) (metis R_trans snd_conv)

lemma steps_attempt [step_intros]:
  assumes "steps R m" "\<And>x. steps R (k x)"
  shows "steps R (attempt m f k)"
  using assms by (auto simp: steps_def attempt_apply split: prod.split sum.split) (metis R_trans snd_conv)+

lemma steps_if [step_intros]: "(b \<Longrightarrow> steps R m) \<Longrightarrow> (\<not> b \<Longrightarrow> steps R n) \<Longrightarrow> steps R (if b then m else n)"
  by simp

lemma steps_option [step_intros]:
  "(x = None \<Longrightarrow> steps R m) \<Longrightarrow> (\<And>y. x = Some y \<Longrightarrow> steps R (n y)) \<Longrightarrow>
   steps R (case x of None \<Rightarrow> m | Some y \<Rightarrow> n y)"
  by (cases x) simp_all

lemma steps_sum [step_intros]:
  "(\<And>y. x = Inl y \<Longrightarrow> steps R (m y)) \<Longrightarrow> (\<And>y. x = Inr y \<Longrightarrow> steps R (n y)) \<Longrightarrow>
   steps R (case x of Inl y \<Rightarrow> m y | Inr y \<Rightarrow> n y)"
  by (cases x) simp_all

lemma steps_prod [step_intros]:
  "(\<And>a b. x = (a, b) \<Longrightarrow> steps R (m a b)) \<Longrightarrow> steps R (case x of (a, b) \<Rightarrow> m a b)"
  by (cases x) simp

lemma steps_Let [step_intros]: "steps R (m x) \<Longrightarrow> steps R (let y = x in m y)"
  by simp

section \<open>Turns\<close>

lemma moves_ret [step_intros]: "moves R (ret x)"
  by (simp add: moves_def ret_def R_refl)

lemma moves_fail [step_intros]: "moves R (fail e)"
  by (simp add: moves_def fail_def R_refl)

lemma moves_given [step_intros]: "moves R (given r)"
  by (cases r) (simp_all add: given_def step_intros)

lemma moves_outside [step_intros]: "steps R m \<Longrightarrow> moves R (outside m)"
  by (simp add: moves_def steps_def outside_apply split_beta)

lemma moves_with_session [step_intros]: "(\<And>s. moves R (k s)) \<Longrightarrow> moves R (with_session k)"
  by (simp add: moves_def with_session_apply)

lemma moves_modify [step_intros]: "moves R k \<Longrightarrow> moves R (modify f k)"
  unfolding moves_def modify_apply
proof
  fix tn assume "\<forall>tn. R (tn_world tn) (tn_world (snd (k tn)))"
  from spec [OF this, of "tn\<lparr>tn_session := f (tn_session tn)\<rparr>"]
  show "R (tn_world tn) (tn_world (snd (k (tn\<lparr>tn_session := f (tn_session tn)\<rparr>))))" by simp
qed

lemma moves_observe [step_intros]:
  assumes "moves R m" "\<And>r. moves R (k r)"
  shows "moves R (observe m k)"
  using assms by (auto simp: moves_def observe_apply split: prod.split) (metis R_trans snd_conv)

lemma moves_attempt [step_intros]:
  assumes "moves R m" "\<And>x. moves R (k x)"
  shows "moves R (attempt m f k)"
  using assms by (auto simp: moves_def attempt_apply split: prod.split sum.split) (metis R_trans snd_conv)+

lemma moves_if [step_intros]: "(b \<Longrightarrow> moves R m) \<Longrightarrow> (\<not> b \<Longrightarrow> moves R n) \<Longrightarrow> moves R (if b then m else n)"
  by simp

lemma moves_option [step_intros]:
  "(x = None \<Longrightarrow> moves R m) \<Longrightarrow> (\<And>y. x = Some y \<Longrightarrow> moves R (n y)) \<Longrightarrow>
   moves R (case x of None \<Rightarrow> m | Some y \<Rightarrow> n y)"
  by (cases x) simp_all

lemma moves_sum [step_intros]:
  "(\<And>y. x = Inl y \<Longrightarrow> moves R (m y)) \<Longrightarrow> (\<And>y. x = Inr y \<Longrightarrow> moves R (n y)) \<Longrightarrow>
   moves R (case x of Inl y \<Rightarrow> m y | Inr y \<Rightarrow> n y)"
  by (cases x) simp_all

lemma moves_list [step_intros]:
  "(x = [] \<Longrightarrow> moves R m) \<Longrightarrow> (\<And>y ys. x = y # ys \<Longrightarrow> moves R (n y ys)) \<Longrightarrow>
   moves R (case x of [] \<Rightarrow> m | y # ys \<Rightarrow> n y ys)"
  by (cases x) simp_all

lemma moves_prod [step_intros]:
  "(\<And>a b. x = (a, b) \<Longrightarrow> moves R (m a b)) \<Longrightarrow> moves R (case x of (a, b) \<Rightarrow> m a b)"
  by (cases x) simp

lemma moves_Let [step_intros]: "moves R (m x) \<Longrightarrow> moves R (let y = x in m y)"
  by simp

end

section \<open>Steps of the adapter\<close>

definition hops :: "('s \<Rightarrow> 's \<Rightarrow> bool) \<Rightarrow> ('s, 'a) proc \<Rightarrow> bool" where
  "hops R m \<longleftrightarrow> (\<forall>t. R t (snd (m t)))"

named_theorems hop_intros \<open>procedures made of steps of the adapter\<close>

locale adapter_step =
  fixes R :: "'s \<Rightarrow> 's \<Rightarrow> bool"
  assumes R_refl: "R t t"
    and R_trans: "R t u \<Longrightarrow> R u v \<Longrightarrow> R t v"
begin

lemma hops_ret [hop_intros]: "hops R (ret x)"
  by (simp add: hops_def ret_def R_refl)

lemma hops_fail [hop_intros]: "hops R (fail e)"
  by (simp add: hops_def fail_def R_refl)

lemma hops_given [hop_intros]: "hops R (given r)"
  by (cases r) (simp_all add: hops_def given_def ret_def fail_def R_refl)

lemma hops_observe [hop_intros]:
  assumes "hops R m" "\<And>r. hops R (k r)"
  shows "hops R (observe m k)"
  unfolding hops_def
proof
  fix t
  obtain r u where run: "m t = (r, u)" by force
  with assms(1) have "R t u" unfolding hops_def by (metis snd_conv)
  moreover from assms(2) have "R u (snd (k r u))" by (simp add: hops_def)
  ultimately show "R t (snd (observe m k t))" by (auto simp: observe_apply run intro: R_trans)
qed

lemma hops_attempt [hop_intros]:
  assumes "hops R m" "\<And>x. hops R (k x)"
  shows "hops R (attempt m f k)"
proof -
  have "attempt m f k = observe m (\<lambda>r. case r of Inl e \<Rightarrow> fail (f e) | Inr x \<Rightarrow> k x)"
    by (rule ext) (simp add: attempt_apply observe_apply fail_def split: prod.split sum.split)
  moreover have "hops R (case r of Inl e \<Rightarrow> fail (f e) | Inr x \<Rightarrow> k x)" for r
    using assms(2) hops_fail by (cases r) simp_all
  ultimately show ?thesis by (simp only: hops_observe [OF assms(1)])
qed

lemma hops_if [hop_intros]: "(b \<Longrightarrow> hops R m) \<Longrightarrow> (\<not> b \<Longrightarrow> hops R n) \<Longrightarrow> hops R (if b then m else n)"
  by simp

lemma hops_option [hop_intros]:
  "(x = None \<Longrightarrow> hops R m) \<Longrightarrow> (\<And>y. x = Some y \<Longrightarrow> hops R (n y)) \<Longrightarrow> hops R (case x of None \<Rightarrow> m | Some y \<Rightarrow> n y)"
  by (cases x) simp_all

lemma hops_sum [hop_intros]:
  "(\<And>y. hops R (m y)) \<Longrightarrow> (\<And>y. hops R (n y)) \<Longrightarrow> hops R (case x of Inl y \<Rightarrow> m y | Inr y \<Rightarrow> n y)"
  by (cases x) simp_all

lemma hops_prod [hop_intros]: "(\<And>a b. hops R (m a b)) \<Longrightarrow> hops R (case x of (a, b) \<Rightarrow> m a b)"
  by (cases x) simp

lemma hops_list [hop_intros]:
  "hops R m \<Longrightarrow> (\<And>y ys. hops R (n y ys)) \<Longrightarrow> hops R (case x of [] \<Rightarrow> m | y # ys \<Rightarrow> n y ys)"
  by (cases x) simp_all

lemma hops_bool [hop_intros]: "hops R m \<Longrightarrow> hops R n \<Longrightarrow> hops R (case b of True \<Rightarrow> m | False \<Rightarrow> n)"
  by (cases b) simp_all

end

end
