(* ===== verification/ReplyMoves.thy ===== *)
theory ReplyMoves
  imports StepLaws
begin

text \<open>
  Composing a reply is made of steps: one lemma per procedure, from the outside world to \<open>reply_with\<close>,
  for every relation that keeps the contract.
\<close>

context step_law
begin

section \<open>The outside world\<close>

lemma steps_plan_reminder [step_intros]: "steps R (plan_reminder env b conv lang)"
  unfolding plan_reminder_def schedule_wake_def by (intro step_intros clerical_ops; simp)

lemma steps_cabinet_phone [step_intros]: "steps R (cabinet_phone env p user)"
  unfolding cabinet_phone_def by (intro step_intros clerical_ops; simp)

lemma steps_cabinet_begin [step_intros]: "steps R (cabinet_begin env p user)"
  unfolding cabinet_begin_def cab_store_def by (intro step_intros clerical_ops; simp)

lemma steps_cabinet_pending [step_intros]: "steps R (cabinet_pending env p user)"
  unfolding cabinet_pending_def by (intro step_intros clerical_ops; simp)

lemma steps_cabinet_cancel [step_intros]: "steps R (cabinet_cancel env p user)"
  unfolding cabinet_cancel_def cab_store_def by (intro step_intros clerical_ops; simp)

lemma steps_cabinet_send [step_intros]: "steps R (cabinet_send env p user raw lang)"
  unfolding cabinet_send_def cab_store_def by (intro step_intros clerical_ops; simp)

lemma steps_guess [step_intros]:
  "steps R a \<Longrightarrow> steps R b \<Longrightarrow> steps R c \<Longrightarrow> (\<And>p. steps R (k p)) \<Longrightarrow>
   steps R (case g of GuessExpired \<Rightarrow> a | GuessLimited \<Rightarrow> b | GuessInvalid \<Rightarrow> c | GuessRight p \<Rightarrow> k p)"
  by (cases g) simp_all

lemma steps_cabinet_confirm [step_intros]: "steps R (cabinet_confirm env p user code)"
  unfolding cabinet_confirm_def cab_store_def by (intro step_intros clerical_ops; simp)

lemma steps_link_customer [step_intros]: "steps R (link_customer env msg cust phone)"
  unfolding link_customer_def by (intro step_intros clerical_ops; simp)

lemma steps_retire_choices [step_intros]: "steps R (retire_choices env tracked c)"
  unfolding retire_choices_def by (intro step_intros clerical_ops; simp)

lemma steps_check_external_reply [step_intros]: "steps R (check_external_reply env conv)"
  unfolding check_external_reply_def by (intro step_intros clerical_ops; simp)

lemma steps_superseded_now [step_intros]: "steps R (superseded_now env)"
  unfolding superseded_now_def by (intro step_intros clerical_ops; simp)

section \<open>Bookings\<close>

lemma moves_parse_appointment_time [step_intros]: "moves R (parse_appointment_time env d c)"
  unfolding parse_appointment_time_def by (intro step_intros clerical_ops; simp)

lemma moves_find_service [step_intros]: "moves R (find_service env sid)"
  unfolding find_service_def by (intro step_intros clerical_ops; simp)

lemma moves_find_staff [step_intros]: "moves R (find_staff env sid)"
  unfolding find_staff_def by (intro step_intros clerical_ops; simp)

lemma moves_require_service [step_intros]: "moves R (require_service env sid)"
  unfolding require_service_def by (intro step_intros clerical_ops; simp)

lemma moves_staff_for_service [step_intros]: "moves R (staff_for_service env sid)"
  unfolding staff_for_service_def by (intro step_intros clerical_ops; simp)

lemma moves_dates_for_service [step_intros]: "moves R (dates_for_service env st sid)"
  unfolding dates_for_service_def by (intro step_intros clerical_ops; simp)

lemma moves_slots_for_service [step_intros]: "moves R (slots_for_service env st d sid)"
  unfolding slots_for_service_def by (intro step_intros clerical_ops; simp)

lemma moves_service_for_staff [step_intros]: "moves R (service_for_staff env st v)"
  unfolding service_for_staff_def by (intro step_intros clerical_ops; simp)

lemma moves_offer_qualified_staff [step_intros]: "moves R (offer_qualified_staff env v st)"
  unfolding offer_qualified_staff_def by (intro step_intros clerical_ops; simp)

lemma moves_appointment_length [step_intros]: "moves R (appointment_length env st t sid d)"
  unfolding appointment_length_def by (intro step_intros clerical_ops; simp)

lemma moves_verification_prompt [step_intros]: "moves R (verification_prompt env identity)"
  unfolding verification_prompt_def by (intro step_intros clerical_ops; simp)

lemma moves_booking_verification_prompt [step_intros]: "moves R (booking_verification_prompt env identity phone)"
  unfolding booking_verification_prompt_def by (intro step_intros clerical_ops; simp)

lemma moves_remember_contact [step_intros]: "moves R (remember_contact env name phone)"
  unfolding remember_contact_def by (intro step_intros clerical_ops; simp)

lemma moves_propose_draft [step_intros]: "moves R (propose_draft env d v st)"
  unfolding propose_draft_def by (intro step_intros clerical_ops; simp)

lemma moves_prepare_booking [step_intros]: "moves R (prepare_booking env args)"
  unfolding prepare_booking_def by (intro step_intros clerical_ops; simp)

lemma moves_any_addition [step_intros]: "moves R (any_time_addition env sids)"
  by (induction sids) (auto intro!: step_intros)

lemma moves_record_booking [step_intros]: "moves R (record_booking env b)"
  unfolding record_booking_def by (intro step_intros clerical_ops; simp)

lemma moves_plan_after [step_intros]: "moves R (plan_after env r b)"
  unfolding plan_after_def by (intro step_intros clerical_ops; simp)

lemma moves_booking_created [step_intros]: "moves R (booking_created env d b)"
  unfolding booking_created_def by (intro step_intros clerical_ops; simp)

lemma moves_booking_unknown [step_intros]: "moves R (booking_unknown env d)"
  unfolding booking_unknown_def by (intro step_intros clerical_ops; simp)

lemma moves_send_booking [step_intros]: "moves R (send_booking env d)"
  unfolding send_booking_def by (intro step_intros clerical_ops; simp)

lemma moves_confirm_booking [step_intros]: "moves R (confirm_booking env)"
  unfolding confirm_booking_def by (intro step_intros clerical_ops; simp)

lemma moves_resume_verified_booking [step_intros]: "moves R (resume_verified_booking env phone)"
  unfolding resume_verified_booking_def by (intro step_intros clerical_ops; simp)

section \<open>Changes\<close>

lemma moves_adopt_live [step_intros]: "moves R (adopt_live env cust t bs)"
  by (induction bs) (auto intro!: step_intros simp: Let_def)

lemma moves_refresh_local [step_intros]: "moves R (refresh_local env bs t)"
  by (induction bs arbitrary: t) (auto intro!: step_intros)

lemma moves_customer_bookings [step_intros]: "moves R (customer_bookings env cust)"
  unfolding customer_bookings_def by (intro step_intros clerical_ops)

lemma moves_owned_booking [step_intros]: "moves R (owned_booking env cust r)"
  unfolding owned_booking_def by (intro step_intros clerical_ops; simp)

lemma moves_propose_change [step_intros]: "moves R (propose_change env d f)"
  unfolding propose_change_def by (intro step_intros clerical_ops; simp)

lemma moves_prepare_cancellation [step_intros]: "moves R (prepare_cancellation env r)"
  unfolding prepare_cancellation_def by (intro step_intros clerical_ops; simp)

lemma moves_record_changed_booking [step_intros]: "moves R (record_changed_booking env b)"
  unfolding record_changed_booking_def by (intro step_intros clerical_ops; simp)

lemma moves_unknown_change [step_intros]: "moves R (unknown_change env)"
  unfolding unknown_change_def by (intro step_intros clerical_ops; simp)

lemma moves_cancel_owned [step_intros]: "moves R (cancel_owned env b)"
  unfolding cancel_owned_def by (intro step_intros clerical_ops; simp)

lemma moves_confirm_cancellation [step_intros]: "moves R (confirm_cancellation env)"
  unfolding confirm_cancellation_def by (intro step_intros clerical_ops; simp)

lemma moves_prepare_reschedule [step_intros]: "moves R (prepare_reschedule env r d c)"
  unfolding prepare_reschedule_def by (intro step_intros clerical_ops; simp)

lemma moves_booking_moved [step_intros]: "moves R (booking_moved env b)"
  unfolding booking_moved_def by (intro step_intros clerical_ops; simp)

lemma moves_move_owned [step_intros]: "moves R (move_owned env b t)"
  unfolding move_owned_def by (intro step_intros clerical_ops; simp)

lemma moves_confirm_reschedule [step_intros]: "moves R (confirm_reschedule env)"
  unfolding confirm_reschedule_def by (intro step_intros clerical_ops; simp)

lemma moves_request_handoff [step_intros]: "moves R (request_handoff env r)"
  unfolding request_handoff_def by (intro step_intros clerical_ops; simp)

section \<open>Tools\<close>

lemma moves_catalogue_names [step_intros]: "moves R (catalogue_names env)"
  unfolding catalogue_names_def by (intro step_intros clerical_ops; simp)

lemma moves_list_categories [step_intros]: "moves R (list_categories env)"
  unfolding list_categories_def by (intro step_intros clerical_ops; simp)

lemma moves_list_services [step_intros]: "moves R (list_services env c)"
  unfolding list_services_def by (intro step_intros clerical_ops; simp)

lemma moves_list_staff [step_intros]: "moves R (list_staff env sid)"
  unfolding list_staff_def by (intro step_intros clerical_ops; simp)

lemma moves_available_dates [step_intros]: "moves R (available_dates env st sid)"
  unfolding available_dates_def by (intro step_intros clerical_ops; simp)

lemma moves_available_slots [step_intros]: "moves R (available_slots env st sid d)"
  unfolding available_slots_def by (intro step_intros clerical_ops; simp)

lemma moves_list_my_bookings [step_intros]: "moves R (list_my_bookings env)"
  unfolding list_my_bookings_def by (intro step_intros clerical_ops; simp)

lemma moves_execute_tool [step_intros]: "moves R (execute_tool env call)"
proof -
  have "moves R (dispatch env call)" by (cases call) (simp_all add: step_intros)
  then show ?thesis unfolding execute_tool_def run_tool_def by (intro step_intros)
qed

section \<open>Fixed answers\<close>

lemma moves_appointment_lines [step_intros]: "moves R (appointment_lines env names bs)"
  by (induction bs arbitrary: names) (auto intro!: step_intros simp: Let_def)

lemma steps_plan_all [step_intros]: "steps R (plan_all env conv lang bs)"
  by (induction bs) (auto intro!: step_intros)

lemma moves_catalogue_unavailable [step_intros]: "moves R catalogue_unavailable"
  unfolding catalogue_unavailable_def by (intro step_intros clerical_ops; simp)

lemma moves_public_link_reply [step_intros]: "moves R (public_link_reply env t)"
  unfolding public_link_reply_def by (intro step_intros clerical_ops; simp)

lemma moves_apply_preferred_language [step_intros]: "moves R (apply_preferred_language env)"
  unfolding apply_preferred_language_def by (intro step_intros clerical_ops; simp)

lemma moves_appointment_list [step_intros]: "moves R (appointment_list env)"
  unfolding appointment_list_def by (intro step_intros clerical_ops; simp)

lemma moves_show_appointments [step_intros]: "moves R (show_appointments env identity)"
  unfolding show_appointments_def by (intro step_intros clerical_ops; simp)

lemma moves_adopt_phone [step_intros]: "moves R (adopt_phone env msg phone)"
  unfolding adopt_phone_def by (intro step_intros clerical_ops; simp)

lemma moves_challenge_reply [step_intros]: "moves R (challenge_reply env identity msg st)"
  unfolding challenge_reply_def by (intro step_intros clerical_ops; simp)

lemma moves_cabinet_reply [step_intros]: "moves R (cabinet_reply env msg)"
  unfolding cabinet_reply_def by (intro step_intros clerical_ops; simp)

lemma moves_enable_reminders [step_intros]: "moves R (enable_reminders env)"
  unfolding enable_reminders_def by (intro step_intros clerical_ops; simp)

lemma moves_reminder_consent [step_intros]: "moves R (reminder_consent env t)"
  unfolding reminder_consent_def by (intro step_intros clerical_ops; simp)

section \<open>The catalogue\<close>

lemma moves_present_paged [step_intros]: "moves R (present_paged env t ls)"
  unfolding present_paged_def by (intro step_intros clerical_ops; simp)

lemma moves_catalogue_time_menu [step_intros]: "moves R (catalogue_time_menu env v)"
  unfolding catalogue_time_menu_def by (intro step_intros clerical_ops; simp)

lemma moves_catalogue_date_menu [step_intros]: "moves R (catalogue_date_menu env v p ps)"
  unfolding catalogue_date_menu_def by (intro step_intros clerical_ops; simp)

lemma moves_catalogue_staff_menu [step_intros]: "moves R (catalogue_staff_menu env v)"
  unfolding catalogue_staff_menu_def by (intro step_intros clerical_ops; simp)

lemma moves_catalogue_staff_choice [step_intros]: "moves R (catalogue_staff_choice env vs t sel)"
  unfolding catalogue_staff_choice_def by (intro step_intros clerical_ops; simp)

lemma moves_dates_again [step_intros]: "moves R (dates_again env v)"
  unfolding dates_again_def by (intro step_intros clerical_ops; simp)

lemma moves_service_detail [step_intros]: "moves R (service_detail env v)"
  unfolding service_detail_def by (intro step_intros clerical_ops; simp)

lemma moves_on_service [step_intros]: "moves R (on_service env root t v)"
  unfolding on_service_def by (intro step_intros clerical_ops; simp)

lemma moves_category_menu [step_intros]: "moves R (category_menu env vs)"
  unfolding category_menu_def by (intro step_intros clerical_ops; simp)

lemma moves_service_menu [step_intros]: "moves R (service_menu env vs)"
  unfolding service_menu_def by (intro step_intros clerical_ops; simp)

lemma moves_show [step_intros]:
  assumes "moves R again"
  shows "moves R (show_services env vs again)" "moves R (show_service env root t vs again)"
    "moves R (show_place env root t vs again)"
  unfolding show_services_def show_service_def show_place_def by (intro step_intros assms)+

lemma moves_navigate [step_intros]: "moves R (navigate env n t sel)"
  by (induction n arbitrary: t sel) (auto intro!: step_intros simp: Let_def)

lemma moves_catalogue [step_intros]: "moves R (catalogue_reply env t sel)"
  unfolding catalogue_reply_def by (rule moves_navigate)

section \<open>The reply\<close>

lemma moves_run_call [step_intros]: "moves R (run_call env c)"
  unfolding run_call_def by (intro step_intros clerical_ops; simp)

lemma moves_apologise [step_intros]: "moves R apologise"
  unfolding apologise_def by (intro step_intros clerical_ops; simp)

lemma moves_decline [step_intros]: "moves R decline"
  unfolding decline_def by (intro step_intros clerical_ops; simp)

lemma moves_hand_over [step_intros]: "moves R (hand_over env)"
  unfolding hand_over_def by (intro step_intros clerical_ops; simp)

lemma moves_answer_text [step_intros]: "moves R (answer_text r)"
  unfolding answer_text_def by (intro step_intros clerical_ops; simp)

lemma moves_run_calls [step_intros]: "moves R (run_calls env attempted cs)"
  by (induction cs) (auto intro!: step_intros simp: split_def)

lemma moves_complete_final [step_intros]: "moves R (complete_final env model req n)"
  unfolding complete_final_def by (intro step_intros clerical_ops; simp)

lemma moves_model_rounds [step_intros]: "moves R (model_rounds env model attempted req remaining n)"
  by (induction n arbitrary: req remaining) (auto intro!: step_intros simp: Let_def split_def)

lemma moves_application_call [step_intros]: "moves R (application_call env i name seeded attempted)"
  unfolding application_call_def by (intro step_intros clerical_ops; simp)

lemma moves_drop_change [step_intros]: "moves R (drop_change k)"
  unfolding drop_change_def by (intro step_intros clerical_ops; simp)

lemma moves_confirm_change_step [step_intros]: "moves R (confirm_change_step env t)"
  unfolding confirm_change_step_def by (intro step_intros clerical_ops; simp)

lemma moves_confirm_booking_step [step_intros]: "moves R (confirm_booking_step env t seeded attempted)"
  unfolding confirm_booking_step_def by (intro step_intros clerical_ops; simp)

lemma moves_ask_model [step_intros]: "moves R (ask_model env msg ms seeded attempted)"
  unfolding ask_model_def by (intro step_intros clerical_ops; simp)

lemma moves_or [step_intros]:
  "moves R m \<Longrightarrow> moves R k \<Longrightarrow> moves R (or_else m k)"
  "moves R m' \<Longrightarrow> moves R k' \<Longrightarrow> moves R (else_try m' k')"
  unfolding or_else_def else_try_def by (intro step_intros; assumption)+

lemma moves_step_result [step_intros]:
  "(\<And>t. moves R (f t)) \<Longrightarrow> (\<And>s a. moves R (g s a)) \<Longrightarrow> moves R (case r of Answered t \<Rightarrow> f t | Continue s a \<Rightarrow> g s a)"
  by (cases r) simp_all

lemma moves_menu_reply [step_intros]: "moves R (menu_reply env msg sel)"
  unfolding menu_reply_def by (intro step_intros clerical_ops; simp)

lemma moves_purpose_reply [step_intros]: "moves R (purpose_reply env t ms)"
  unfolding purpose_reply_def by (intro step_intros clerical_ops; simp)

lemma moves_set_language [step_intros]: "moves R (set_language env tag)"
  unfolding set_language_def by (intro step_intros clerical_ops; simp)

lemma moves_confirm_or_ask [step_intros]: "moves R (confirm_or_ask env msg ms)"
  unfolding confirm_or_ask_def by (intro step_intros clerical_ops; simp)

lemma moves_reply_with [step_intros]: "moves R (reply_with env msg ms sel)"
  unfolding reply_with_def by (intro step_intros clerical_ops; simp)

lemma moves_compose_reply [step_intros]: "moves R (compose_reply env v tracked ms)"
  unfolding compose_reply_def by (intro step_intros clerical_ops; simp)

end

end
