(* ===== verification/HandleLaws.thy ===== *)
theory HandleLaws
  imports ReplyMoves
begin

text \<open>
  What handling a message does to the outside world: how many messages it sends, and what it leaves
  in the table of deliveries. The parts that only read and write the store or compose the reply are
  steps of the contract; \<open>world_triple\<close> follows the rest.
\<close>

section \<open>Steps that also write the transcript and the turns\<close>

locale write_law = step_law +
  assumes R_write: "db_processed d = db_processed (w_db w) \<Longrightarrow> db_claim_ttl d = db_claim_ttl (w_db w) \<Longrightarrow>
    db_processed_ttl d = db_processed_ttl (w_db w) \<Longrightarrow> R w (w\<lparr>w_db := d\<rparr>)"
begin

lemma steps_write [step_intros]: "steps R (store env (append_message m))" "steps R (store env (register_turn k e))"
proof -
  have "R w (tick (w\<lparr>w_db := snd (append_message m (w_db w))\<rparr>))" for w
    by (intro R_trans [OF R_write R_tick]) (simp_all add: append_message_def Let_def)
  then show "steps R (store env (append_message m))"
    by (simp add: steps_def store_def R_tick split: fault.split)
  have "R w (tick (w\<lparr>w_db := snd (register_turn k e (w_db w))\<rparr>))" for w
    by (intro R_trans [OF R_write R_tick]) (simp_all add: register_turn_def)
  then show "steps R (store env (register_turn k e))"
    by (simp add: steps_def store_def R_tick split: fault.split)
qed

lemma steps_contact [step_intros]:
  "steps R (try_contact env cust name phone updated)" "steps R (remember_visible_name env msg cust)"
  "steps R (remember_sender_phone env msg cust)" "steps R (remember_inbound_phone env cust msg)"
  unfolding try_contact_def remember_visible_name_def remember_sender_phone_def remember_inbound_phone_def
  by (intro step_intros clerical_ops)+

lemma steps_identify [step_intros]: "steps R (identify env msg now)"
  unfolding identify_def recognise_phone_def by (intro step_intros clerical_ops)

lemma steps_open [step_intros]: "steps R (open_conversation env msg cust now)"
  unfolding open_conversation_def by (intro step_intros clerical_ops)

lemma steps_history [step_intros]: "steps R (history env i)"
  unfolding history_def by (intro step_intros clerical_ops)

lemma steps_notices [step_intros]:
  "steps R (notify_staff env notc)" "steps R (notify_inbound env notc t)"
  "steps R (retire_untracked_choices env thread i)"
  unfolding notify_staff_def notify_inbound_def retire_untracked_choices_def by (intro step_intros; simp)+

lemma steps_understand [step_intros]: "steps R (understand env v)"
  unfolding understand_def listen_def transcribe_input_def text_to_keep_def record_inbound_def
  by (intro step_intros clerical_ops)

lemma steps_available [step_intros]: "steps R (available env p)"
  unfolding available_def by (intro step_intros)

lemma steps_token [step_intros]: "steps R (token_for env out)"
  unfolding token_for_def by (intro step_intros)

lemma steps_in_turn [step_intros]:
  assumes "moves R m"
  shows "steps R (in_turn s m)"
  unfolding steps_def
proof
  fix w
  from assms have "R (tn_world \<lparr>tn_world = w, tn_session = s\<rparr>) (tn_world (snd (m \<lparr>tn_world = w, tn_session = s\<rparr>)))"
    unfolding moves_def by (rule spec)
  then show "R w (snd (in_turn s m w))" by (auto simp: in_turn_def split: prod.split)
qed

end

section \<open>Silence\<close>

abbreviation same_sends :: "world \<Rightarrow> world \<Rightarrow> bool" where
  "same_sends w w' \<equiv> logged sends w' = logged sends w"

interpretation silent: write_law same_sends
  by unfold_locales (simp_all add: logged_def)

abbreviation same_deliveries :: "world \<Rightarrow> world \<Rightarrow> bool" where
  "same_deliveries w w' \<equiv> db_processed (w_db w') = db_processed (w_db w) \<and>
     db_claim_ttl (w_db w') = db_claim_ttl (w_db w) \<and> db_processed_ttl (w_db w') = db_processed_ttl (w_db w)"

interpretation undelivered: write_law same_deliveries
  by unfold_locales (simp_all add: clerical_def)

lemma quiet_steps: "quiet sends m \<longleftrightarrow> steps same_sends m"
  by (simp add: quiet_def steps_def)

section \<open>Triples\<close>

definition world_triple :: "(world \<Rightarrow> bool) \<Rightarrow> (world, 'a) proc \<Rightarrow> ('a result \<Rightarrow> world \<Rightarrow> bool) \<Rightarrow> bool" where
  "world_triple P m Q \<longleftrightarrow> (\<forall>w. P w \<longrightarrow> Q (fst (m w)) (snd (m w)))"

lemma world_tripleD: "world_triple P m Q \<Longrightarrow> P w \<Longrightarrow> m w = (r, w') \<Longrightarrow> Q r w'"
  unfolding world_triple_def by (metis fst_conv snd_conv)

lemma world_triple_conseq:
  "world_triple P m Q \<Longrightarrow> (\<And>w. P' w \<Longrightarrow> P w) \<Longrightarrow> (\<And>r w. Q r w \<Longrightarrow> Q' r w) \<Longrightarrow> world_triple P' m Q'"
  by (auto simp: world_triple_def)

lemma world_triple_ret: "(\<And>w. P w \<Longrightarrow> Q (Inr x) w) \<Longrightarrow> world_triple P (ret x) Q"
  by (simp add: world_triple_def ret_def)

lemma world_triple_fail: "(\<And>w. P w \<Longrightarrow> Q (Inl e) w) \<Longrightarrow> world_triple P (fail e) Q"
  by (simp add: world_triple_def fail_def)

lemma world_triple_attempt:
  assumes "world_triple P m R" "\<And>x. world_triple (R (Inr x)) (k x) Q" "\<And>e w. R (Inl e) w \<Longrightarrow> Q (Inl (f e)) w"
  shows "world_triple P (attempt m f k) Q"
proof (unfold world_triple_def, intro allI impI)
  fix w assume "P w"
  moreover obtain r w' where run: "m w = (r, w')" by force
  ultimately have "R r w'" by (rule world_tripleD [OF assms(1)])
  then show "Q (fst (attempt m f k w)) (snd (attempt m f k w))"
    using assms(2,3) by (cases r) (simp_all add: attempt_apply run world_triple_def)
qed

lemma world_triple_observe:
  assumes "world_triple P m R" "\<And>r. world_triple (R r) (k r) Q"
  shows "world_triple P (observe m k) Q"
proof (unfold world_triple_def, intro allI impI)
  fix w assume "P w"
  moreover obtain r w' where run: "m w = (r, w')" by force
  ultimately have "R r w'" by (rule world_tripleD [OF assms(1)])
  then show "Q (fst (observe m k w)) (snd (observe m k w))"
    using assms(2) [of r] by (simp add: observe_apply run world_triple_def)
qed

lemma world_triple_if:
  "(b \<Longrightarrow> world_triple P m Q) \<Longrightarrow> (\<not> b \<Longrightarrow> world_triple P n Q) \<Longrightarrow> world_triple P (if b then m else n) Q"
  by simp

lemma world_triple_option:
  "(x = None \<Longrightarrow> world_triple P m Q) \<Longrightarrow> (\<And>y. x = Some y \<Longrightarrow> world_triple P (n y) Q) \<Longrightarrow>
   world_triple P (case x of None \<Rightarrow> m | Some y \<Rightarrow> n y) Q"
  by (cases x) simp_all

lemma world_triple_sum:
  "(\<And>y. x = Inl y \<Longrightarrow> world_triple P (m y) Q) \<Longrightarrow> (\<And>y. x = Inr y \<Longrightarrow> world_triple P (n y) Q) \<Longrightarrow>
   world_triple P (case x of Inl y \<Rightarrow> m y | Inr y \<Rightarrow> n y) Q"
  by (cases x) simp_all

text \<open>Steps keep every property of the world that their relation keeps.\<close>

lemma world_triple_steps:
  assumes "steps R m" "\<And>w w'. R w w' \<Longrightarrow> P w \<Longrightarrow> P w'"
  shows "world_triple P m (\<lambda>_. P)"
  using assms by (auto simp: world_triple_def steps_def)

lemma world_triple_then:
  assumes "steps R m" "\<And>w w'. R w w' \<Longrightarrow> P w \<Longrightarrow> P w'" "\<And>x. world_triple P (k x) Q" "\<And>e w. P w \<Longrightarrow> Q (Inl (f e)) w"
  shows "world_triple P (attempt m f k) Q"
  by (rule world_triple_attempt [OF world_triple_steps [OF assms(1,2)] assms(3,4)])

lemma world_triple_look:
  assumes "steps R m" "\<And>w w'. R w w' \<Longrightarrow> P w \<Longrightarrow> P w'" "\<And>r. world_triple P (k r) Q"
  shows "world_triple P (observe m k) Q"
  by (rule world_triple_observe [OF world_triple_steps [OF assms(1,2)] assms(3)])

section \<open>The table of deliveries\<close>

text \<open>
  Every row of the table was there before (\<open>T\<close>), or is the record of a finished delivery in \<open>C\<close>, or is
  a claim of \<open>c\<close> on a key in \<open>K\<close>.
\<close>

definition debts :: "processed_entry table \<Rightarrow> string \<Rightarrow> string set \<Rightarrow> string set \<Rightarrow> world \<Rightarrow> bool" where
  "debts T c K C w \<longleftrightarrow> table_inv (db_processed (w_db w)) \<and>
     (\<forall>k e. get_row (db_processed (w_db w)) k = Some e \<longrightarrow> get_row T k = Some e \<or>
        (k \<in> C \<and> pe_claim_id e = []) \<or> (k \<in> K \<and> pe_claim_id e = c \<and> is_zero (pe_processed_at e)))"

lemma debts_start: "table_inv (db_processed (w_db w)) \<Longrightarrow> debts (db_processed (w_db w)) c {} {} w"
  by (simp add: debts_def)

lemma debts_steps: "same_deliveries w w' \<Longrightarrow> debts T c K C w \<Longrightarrow> debts T c K C w'"
  by (simp add: debts_def)

lemma debts_mono: "debts T c K C w \<Longrightarrow> K \<subseteq> K' \<Longrightarrow> C \<subseteq> C' \<Longrightarrow> debts T c K' C' w"
  by (auto simp: debts_def)

lemma zero_time_zero: "is_zero zero_time"
  by (simp add: is_zero_def)

lemma claim_debts:
  assumes "reliable env"
  shows "world_triple (debts T c K C) (store env (claim_delivery k c at))
    (\<lambda>r. if r = Inr True then debts T c (insert k K) C else debts T c K C)"
  unfolding world_triple_def reliable_store [OF assms] claim_delivery_def debts_def Let_def
  by (auto simp: zero_time_zero sentinel_error_def split: option.splits if_splits)

lemma complete_debts:
  assumes "reliable env"
  shows "world_triple (debts T c K C) (complete_claim env k c at)
    (\<lambda>r w. r = Inr () \<and> debts T c (K - {k}) (insert k C) w)"
proof -
  have done_row: "debts T c (K - {k}) (insert k C) (w\<lparr>w_db := snd (complete_delivery now k c at (w_db w))\<rparr>)"
    if "debts T c K C w" for w now
    using that unfolding debts_def complete_delivery_def Let_def prune_processed_def
    by (auto simp: get_row_filter table_inv_filter split: option.splits if_splits) blast
  have tick_debts: "debts T c K' C' (tick w) \<longleftrightarrow> debts T c K' C' w" for K' C' w by (simp add: debts_def)
  show ?thesis unfolding complete_claim_def world_triple_def
    by (simp add: attempt_apply clock_apply observe_apply reliable_store [OF assms] ret_def tick_debts)
      (metis done_row tick_debts tick_simps(1))
qed

lemma release_debts:
  assumes "reliable env"
  shows "world_triple (debts T c K C) (release_claim env k c) (\<lambda>r w. r = Inr () \<and> debts T c (K - {k}) C w)"
  unfolding world_triple_def release_claim_def
  by (auto simp: observe_apply reliable_store [OF assms] ret_def debts_def release_delivery_def
      split: option.splits if_splits) blast+

lemma lock_debts:
  assumes "reliable env"
  shows "world_triple (debts T c K C) (lock_loop env k c n)
    (\<lambda>r. if r = Inr () then debts T c (insert k K) C else debts T c K C)"
proof (induction n)
  case (Suc n)
  have wait: "world_triple (debts T c K C)
      (attempt (ask (\<lambda>k. case as_done env k of None \<Rightarrow> Inr () | Some e \<Rightarrow> Inl e)) id (\<lambda>_. lock_loop env k c n))
      (\<lambda>r. if r = Inr () then debts T c (insert k K) C else debts T c K C)"
    by (rule world_triple_then [OF undelivered.steps_ask debts_steps _ ]) (simp_all add: Suc)
  show ?case unfolding lock_loop.simps Let_def
  proof (rule world_triple_then [OF undelivered.steps_clock debts_steps])
    show "world_triple (debts T c K C) (observe (store env (claim_delivery k c now)) (\<lambda>reply. case reply of
         Inl e \<Rightarrow> if errors_is e DeliveryBusy
           then attempt (ask (\<lambda>k. case as_done env k of None \<Rightarrow> Inr () | Some e \<Rightarrow> Inl e)) id (\<lambda>_. lock_loop env k c n)
           else fail (wrap_error ''lock the conversation'' e)
       | Inr claimed \<Rightarrow> if claimed then ret ()
           else attempt (ask (\<lambda>k. case as_done env k of None \<Rightarrow> Inr () | Some e \<Rightarrow> Inl e)) id (\<lambda>_. lock_loop env k c n)))
      (\<lambda>r. if r = Inr () then debts T c (insert k K) C else debts T c K C)" for now
    proof (rule world_triple_observe [OF claim_debts [OF assms]])
      fix reply :: "bool result"
      show "world_triple (if reply = Inr True then debts T c (insert k K) C else debts T c K C) (case reply of
         Inl e \<Rightarrow> if errors_is e DeliveryBusy
           then attempt (ask (\<lambda>k. case as_done env k of None \<Rightarrow> Inr () | Some e \<Rightarrow> Inl e)) id (\<lambda>_. lock_loop env k c n)
           else fail (wrap_error ''lock the conversation'' e)
       | Inr claimed \<Rightarrow> if claimed then ret ()
           else attempt (ask (\<lambda>k. case as_done env k of None \<Rightarrow> Inr () | Some e \<Rightarrow> Inl e)) id (\<lambda>_. lock_loop env k c n))
      (\<lambda>r. if r = Inr () then debts T c (insert k K) C else debts T c K C)"
        by (cases reply) (auto intro!: world_triple_ret world_triple_fail wait)
    qed
  qed simp_all
qed (simp add: world_triple_fail)

section \<open>Finishing a visit\<close>

text \<open>A stage of a visit that finishes the delivery exactly when it succeeds; \<open>L\<close> are the other keys it holds.\<close>

definition finishing :: "processed_entry table \<Rightarrow> string \<Rightarrow> string \<Rightarrow> string set \<Rightarrow> (world, 'a) proc \<Rightarrow> bool" where
  "finishing T c key L m \<longleftrightarrow> world_triple (debts T c (insert key L) {}) m
     (\<lambda>r. case r of Inr _ \<Rightarrow> debts T c L {key} | Inl _ \<Rightarrow> debts T c (insert key L) {})"

named_theorems finishing_intros \<open>stages that finish the delivery\<close>

lemma finishing_then [finishing_intros]:
  "steps same_deliveries m \<Longrightarrow> (\<And>x. finishing T c key L (k x)) \<Longrightarrow> finishing T c key L (attempt m f k)"
  unfolding finishing_def by (rule world_triple_then [where R = same_deliveries]) (auto intro: debts_steps)

lemma finishing_look [finishing_intros]:
  "steps same_deliveries m \<Longrightarrow> (\<And>r. finishing T c key L (k r)) \<Longrightarrow> finishing T c key L (observe m k)"
  unfolding finishing_def by (rule world_triple_look [where R = same_deliveries]) (auto intro: debts_steps)

lemma finishing_fail [finishing_intros]: "finishing T c key L (fail e)"
  by (simp add: finishing_def world_triple_fail)

lemma finishing_cases [finishing_intros]:
  "(b \<Longrightarrow> finishing T c key L m) \<Longrightarrow> (\<not> b \<Longrightarrow> finishing T c key L n) \<Longrightarrow> finishing T c key L (if b then m else n)"
  "(x = None \<Longrightarrow> finishing T c key L m) \<Longrightarrow> (\<And>y. x = Some y \<Longrightarrow> finishing T c key L (g y)) \<Longrightarrow>
     finishing T c key L (case x of None \<Rightarrow> m | Some y \<Rightarrow> g y)"
  "(\<And>y. r = Inl y \<Longrightarrow> finishing T c key L (h y)) \<Longrightarrow> (\<And>y. r = Inr y \<Longrightarrow> finishing T c key L (i y)) \<Longrightarrow>
     finishing T c key L (case r of Inl y \<Rightarrow> h y | Inr y \<Rightarrow> i y)"
  "(\<And>a d. p = (a, d) \<Longrightarrow> finishing T c key L (j a d)) \<Longrightarrow> finishing T c key L (case p of (a, d) \<Rightarrow> j a d)"
  "finishing T c key L (l v) \<Longrightarrow> finishing T c key L (let y = v in l y)"
  by (cases x; cases r; cases p; simp)+

lemma finishing_visit:
  assumes "reliable env"
  shows "finishing T (vi_claim v) (dedupe_key (vi_msg v)) L (finish_visit env v at)"
  unfolding finishing_def finish_visit_def
  by (rule world_triple_conseq [OF complete_debts [OF assms]]) (auto elim!: debts_mono)

lemma undelivered_send [step_intros]: "steps same_deliveries (send_message env out)"
  by (simp add: steps_def send_message_def invoke_def)

lemma undelivered_retire [step_intros]: "steps same_deliveries (retire_choices env tracked c)"
  by (rule undelivered.steps_retire_choices)

lemma finishing_superseded:
  assumes "reliable env"
  shows "finishing T (vi_claim v) (dedupe_key (vi_msg v)) L (complete_superseded env v c)"
    "finishing T (vi_claim v) (dedupe_key (vi_msg v)) L (unless_superseded env v c e)"
  unfolding unless_superseded_def complete_superseded_def
  by (intro finishing_intros finishing_visit assms step_intros clerical_ops)+

lemma finishing_record:
  assumes "reliable env"
  shows "finishing T (vi_claim v) (dedupe_key (vi_msg v)) L (record_answer env v tracked i out presented c)"
  unfolding record_answer_def by (intro finishing_intros finishing_visit assms step_intros clerical_ops)

lemma finishing_latest:
  assumes "reliable env" "finishing T (vi_claim v) (dedupe_key (vi_msg v)) L k"
  shows "finishing T (vi_claim v) (dedupe_key (vi_msg v)) L (if_latest env v c label k)"
  unfolding if_latest_def
  by (intro finishing_intros finishing_superseded assms step_intros clerical_ops)

lemma finishing_deliver:
  assumes "reliable env"
  shows "finishing T (vi_claim v) (dedupe_key (vi_msg v)) L (deliver_reply env v tracked s t)"
  unfolding deliver_reply_def
  by (intro finishing_intros finishing_superseded finishing_record assms step_intros clerical_ops)

lemma finishing_reply:
  assumes "reliable env"
  shows "finishing T (vi_claim v) (dedupe_key (vi_msg v)) L (finish_reply env v tracked ms t s)"
  unfolding finish_reply_def
  by (intro finishing_intros finishing_latest finishing_deliver assms step_intros clerical_ops)

lemma finishing_answer:
  assumes "reliable env"
  shows "finishing T (vi_claim v) (dedupe_key (vi_msg v)) L (answer_visit env v tracked)"
  unfolding answer_visit_def
  by (intro finishing_intros finishing_latest finishing_superseded finishing_reply assms step_intros clerical_ops)

lemma finishing_left:
  assumes "reliable env"
  shows "finishing T (vi_claim v) (dedupe_key (vi_msg v)) L (leave_undeliverable env v)"
    "finishing T (vi_claim v) (dedupe_key (vi_msg v)) L (leave_to_colleague env v)"
    "finishing T (vi_claim v) (dedupe_key (vi_msg v)) L (answer_stale_press env v)"
  unfolding leave_undeliverable_def leave_to_colleague_def answer_stale_press_def
  by (intro finishing_intros finishing_visit assms step_intros clerical_ops)+

lemma finishing_attend:
  assumes "reliable env"
  shows "finishing T (vi_claim v) (dedupe_key (vi_msg v)) L (attend env v)"
proof -
  have "finishing T (vi_claim v') (dedupe_key (vi_msg v')) L (answer_visit env v' tracked)"
    "finishing T (vi_claim v') (dedupe_key (vi_msg v')) L (leave_to_colleague env v')" for v' tracked
    by (rule finishing_answer finishing_left; rule assms)+
  from this [of "v\<lparr>vi_conv := c\<rparr>" for c] show ?thesis
    unfolding attend_def Let_def by (intro finishing_intros finishing_left assms step_intros clerical_ops) simp_all
qed

text \<open>Understanding the message changes neither its key nor the claim.\<close>

lemma dedupe_content [simp]: "dedupe_key (msg\<lparr>en_content := c\<rparr>) = dedupe_key msg"
  by (simp add: dedupe_key_def)

lemma transcribe_input_content:
  "fst (transcribe_input env msg w) = Inr m \<Longrightarrow> \<exists>c. m = msg\<lparr>en_content := c\<rparr>"
  unfolding transcribe_input_def transcribed_def
  by (auto simp: Let_def attempt_apply ask_apply ret_def fail_def split: option.splits prod.splits sum.splits if_splits)

lemma listen_content:
  assumes "fst (listen env msg c now w) = Inr x"
  shows "\<exists>c. fst x = msg\<lparr>en_content := c\<rparr>"
proof (cases "fst (transcribe_input env msg w)")
  case (Inl e)
  with assms show ?thesis unfolding listen_def unheard_def
    by (auto simp: Let_def observe_apply ret_def split: prod.splits if_splits intro: exI [of _ "en_content msg"])
next
  case (Inr m)
  from transcribe_input_content [OF this] assms Inr show ?thesis unfolding listen_def
    by (auto simp: Let_def observe_apply ret_def split: prod.splits if_splits intro: exI [of _ "en_content msg"])
qed

lemma understood_same:
  assumes "fst (understand env v w) = Inr v'"
  shows "(\<exists>c. vi_msg v' = (vi_msg v)\<lparr>en_content := c\<rparr>) \<and> vi_claim v' = vi_claim v \<and> vi_conv v' = vi_conv v \<and>
    vi_customer v' = vi_customer v \<and> vi_now v' = vi_now v"
proof -
  obtain x w1 where first: "listen env (vi_msg v) (vi_conv v) (vi_now v) w = (x, w1)" by force
  with assms show ?thesis
    using listen_content [of env "vi_msg v" "vi_conv v" "vi_now v" w]
    by (cases x) (auto simp: understand_def attempt_apply ret_def Let_def
        split: prod.splits sum.splits if_splits)
qed

lemma finishing_conversation:
  assumes "reliable env"
  shows "finishing T (vi_claim v) (dedupe_key (vi_msg v)) L (visit_conversation env v)"
proof -
  let ?P = "debts T (vi_claim v) (insert (dedupe_key (vi_msg v)) L) {}"
  have "world_triple ?P (understand env v) (\<lambda>r w. ?P w \<and>
      (\<forall>v'. r = Inr v' \<longrightarrow> dedupe_key (vi_msg v') = dedupe_key (vi_msg v) \<and> vi_claim v' = vi_claim v))"
    unfolding world_triple_def
  proof (intro allI impI conjI)
    fix w assume "?P w"
    with undelivered.steps_understand [of env v, unfolded steps_def, rule_format, of w]
    show "?P (snd (understand env v w))" by (rule debts_steps)
  qed (auto dest: understood_same)
  then have "finishing T (vi_claim v) (dedupe_key (vi_msg v)) L (attempt (understand env v) id (attend env))"
    unfolding finishing_def
  proof (rule world_triple_attempt)
    fix v'
    from finishing_attend [OF assms, of T v' L]
    show "world_triple (\<lambda>w. ?P w \<and> (\<forall>v''. Inr v' = Inr v'' \<longrightarrow>
        dedupe_key (vi_msg v'') = dedupe_key (vi_msg v) \<and> vi_claim v'' = vi_claim v)) (attend env v')
      (\<lambda>r. case r of Inr _ \<Rightarrow> debts T (vi_claim v) L {dedupe_key (vi_msg v)} | Inl _ \<Rightarrow> ?P)"
      by (auto simp: finishing_def world_triple_def split: sum.split)
  qed simp
  then show ?thesis unfolding visit_conversation_def by (simp add: finishing_left assms)
qed

lemma finishing_locked:
  assumes "reliable env"
  shows "finishing T c (dedupe_key msg) L (handle_locked env msg c)"
proof -
  have "finishing T c (dedupe_key msg) L (visit_conversation env (first_visit msg c now cust conv))" for now cust conv
    using finishing_conversation [OF assms, of T "first_visit msg c now cust conv" L] by (simp add: first_visit_def)
  then show ?thesis unfolding handle_locked_def by (intro finishing_intros step_intros)
qed

lemma claimed_debts:
  assumes "reliable env"
  shows "world_triple (debts T c {dedupe_key msg} {}) (handle_claimed env msg c)
    (\<lambda>r. case r of Inr _ \<Rightarrow> debts T c {} {dedupe_key msg} | Inl _ \<Rightarrow> debts T c {dedupe_key msg} {})"
proof -
  let ?key = "dedupe_key msg" and ?lock = "turn_lock env (turn_key msg)"
  have body: "world_triple (debts T c {?key, ?lock} {}) (handle_locked env msg c)
      (\<lambda>r. case r of Inr _ \<Rightarrow> debts T c {?lock} {?key} | Inl _ \<Rightarrow> debts T c {?key, ?lock} {})"
    using finishing_locked [OF assms, of T c msg "{?lock}" ] by (simp add: finishing_def)
  have unlocked: "world_triple ((\<lambda>r. case r of Inr _ \<Rightarrow> debts T c {?lock} {?key} | Inl _ \<Rightarrow> debts T c {?key, ?lock} {}) r)
      (observe (release_claim env ?lock c) (\<lambda>_. given r))
      (\<lambda>r. case r of Inr _ \<Rightarrow> debts T c {} {?key} | Inl _ \<Rightarrow> debts T c {?key} {})" for r :: "unit result"
  proof (cases r)
    case (Inl e)
    then show ?thesis
      by (simp, intro world_triple_observe [OF release_debts [OF assms, of T c "{?key, ?lock}" "{}" ?lock]])
        (auto simp: given_def intro!: world_triple_fail elim!: debts_mono)
  next
    case (Inr u)
    then show ?thesis
      by (simp, intro world_triple_observe [OF release_debts [OF assms, of T c "{?lock}" "{?key}" ?lock]])
        (auto simp: given_def intro!: world_triple_ret elim!: debts_mono)
  qed
  show ?thesis unfolding handle_claimed_def lock_conversation_def
  proof (rule world_triple_then [where R = same_deliveries])
    show "world_triple (debts T c {?key} {})
        (attempt (lock_loop env ?lock c lock_rounds) id (\<lambda>_. unlocking env (turn_key msg) c (handle_locked env msg c)))
        (\<lambda>r. case r of Inr _ \<Rightarrow> debts T c {} {?key} | Inl _ \<Rightarrow> debts T c {?key} {})"
    proof (rule world_triple_attempt [OF lock_debts [OF assms]])
      show "world_triple (if Inr x = Inr () then debts T c (insert ?lock {?key}) {} else debts T c {?key} {})
          (unlocking env (turn_key msg) c (handle_locked env msg c))
          (\<lambda>r. case r of Inr _ \<Rightarrow> debts T c {} {?key} | Inl _ \<Rightarrow> debts T c {?key} {})" for x
        unfolding unlocking_def
        by (rule world_triple_observe [OF _ unlocked]) (use body in \<open>simp add: insert_commute\<close>)
    qed simp
  qed (auto intro: debts_steps step_intros)
qed

lemma world_triple_clock:
  assumes "\<And>w. P w \<Longrightarrow> P (tick w)" "\<And>now. world_triple P (k now) Q"
  shows "world_triple P (attempt (clock env) id k) Q"
  using assms by (simp add: world_triple_def attempt_apply clock_apply)

text \<open>What is left when the claim has been settled: nothing but the record of a finished delivery.\<close>

definition settled_debts :: "processed_entry table \<Rightarrow> string \<Rightarrow> string \<Rightarrow> unit result \<Rightarrow> world \<Rightarrow> bool" where
  "settled_debts T c key r w \<longleftrightarrow> debts T c {} {key} w \<and>
     (\<forall>e. r = Inl e \<and> \<not> terminal_delivery (Some e) \<longrightarrow> debts T c {} {} w)"

lemma settled_unchanged: "debts T c {} {} w \<Longrightarrow> settled_debts T c key r w"
  by (auto simp: settled_debts_def elim: debts_mono)

lemma settled_recorded:
  "debts T c {} {key} w \<Longrightarrow> (\<And>e. r = Inl e \<Longrightarrow> terminal_delivery (Some e)) \<Longrightarrow> settled_debts T c key r w"
  by (auto simp: settled_debts_def)

lemma settle_debts:
  assumes "reliable env"
  shows "world_triple ((\<lambda>r. case r of Inr _ \<Rightarrow> debts T c {} {key} | Inl _ \<Rightarrow> debts T c {key} {}) r)
    (settle_claim env key c r) (settled_debts T c key)"
proof (cases r)
  case (Inr u)
  then show ?thesis
    by (auto simp: settle_claim_def settled_debts_def intro!: world_triple_ret)
next
  case (Inl e)
  let ?complete = "attempt (clock env) id (\<lambda>now. complete_claim env key c now)"
  have complete: "world_triple (debts T c K C) ?complete (\<lambda>r w. r = Inr () \<and> debts T c {} {key} w)"
    if "K \<subseteq> {key}" "C \<subseteq> {key}" for K C
  proof (rule world_triple_clock)
    show "world_triple (debts T c K C) (complete_claim env key c now) (\<lambda>r w. r = Inr () \<and> debts T c {} {key} w)" for now
      by (rule world_triple_conseq [OF complete_debts [OF assms]]) (use that in \<open>auto elim!: debts_mono\<close>)
  qed (simp add: debts_def)
  have release: "world_triple (debts T c {key} {}) (release_claim env key c) (\<lambda>r w. r = Inr () \<and> debts T c {} {} w)"
    by (rule world_triple_conseq [OF release_debts [OF assms]]) (auto elim!: debts_mono)
  let ?terminal = "terminal_delivery (Some e)" and ?conflict = "errors_is e ExternalReplyConflict"
  let ?Q = "settled_debts T c key"
  let ?last = "if ?conflict then ret () else fail e"
  have last: "world_triple (\<lambda>w. r' = Inr () \<and> (if ?terminal \<or> ?conflict then debts T c {} {key} w else debts T c {} {} w)) ?last ?Q"
    for r' :: "unit result"
  proof (cases ?conflict)
    case True
    then show ?thesis
      by (auto intro!: world_triple_ret settled_recorded)
  next
    case False
    then show ?thesis
      by (cases ?terminal) (auto simp: world_triple_def fail_def settled_debts_def elim: debts_mono)
  qed
  have third: "world_triple (\<lambda>w. r' = Inr () \<and> (if ?terminal \<or> ?conflict then debts T c {} {key} w else debts T c {key} {} w))
      (attempt (if ?terminal \<or> ?conflict then ret () else release_claim env key c) id (\<lambda>_. ?last)) ?Q" for r' :: "unit result"
    by (rule world_triple_attempt [where R = "\<lambda>r w. r = Inr () \<and>
        (if ?terminal \<or> ?conflict then debts T c {} {key} w else debts T c {} {} w)", OF _ last])
      (auto intro!: world_triple_ret world_triple_conseq [OF release])
  have both: "debts T c {} {key} w \<Longrightarrow> debts T c {key} {key} w" "debts T c {key} {} w \<Longrightarrow> debts T c {key} {key} w" for w
    by (auto elim: debts_mono)
  have second: "world_triple (\<lambda>w. r' = Inr () \<and> (if ?terminal then debts T c {} {key} w else debts T c {key} {} w))
      (attempt (if ?conflict then ?complete else ret ()) id (\<lambda>_.
        attempt (if ?terminal \<or> ?conflict then ret () else release_claim env key c) id (\<lambda>_. ?last))) ?Q" for r' :: "unit result"
    by (rule world_triple_attempt [where R = "\<lambda>r w. r = Inr () \<and>
        (if ?terminal \<or> ?conflict then debts T c {} {key} w else debts T c {key} {} w)", OF _ third])
      (auto intro!: world_triple_ret world_triple_conseq [OF complete [of "{key}" "{key}"]] dest: both split: if_splits)
  have first: "world_triple (debts T c {key} {}) (settle_claim env key c (Inl e)) ?Q"
    unfolding settle_claim_def sum.case Let_def
    by (rule world_triple_attempt [where R = "\<lambda>r w. r = Inr () \<and>
        (if ?terminal then debts T c {} {key} w else debts T c {key} {} w)", OF _ second])
      (auto intro!: world_triple_ret world_triple_conseq [OF complete [of "{key}" "{}"]])
  then show ?thesis by (simp add: Inl)
qed

lemma handle_debts:
  assumes "reliable env" "table_inv (db_processed (w_db w))" "handle env msg w = (r, w')"
  shows "\<exists>c. settled_debts (db_processed (w_db w)) c (dedupe_key msg) r w'"
proof (cases "envelope_validate msg")
  case (Some e)
  with assms debts_start [OF assms(2)] show ?thesis
    by (auto simp: handle_def fail_def intro!: exI [of _ "[]"] settled_unchanged)
next
  case None
  let ?T = "db_processed (w_db w)" and ?c = "e_fresh env (Suc (w_tick w))"
  let ?key = "dedupe_key msg"
  show ?thesis
  proof (cases "tl_identity env \<noteq> None \<and> en_provider msg = ProviderTelegram \<and> en_thread_id msg \<noteq> en_user_id msg")
    case True
    with None assms debts_start [OF assms(2)] show ?thesis
      by (auto simp: handle_def ret_def intro!: exI [of _ "[]"] settled_unchanged)
  next
    case False
    have start: "debts ?T ?c {} {} (tick (tick w))"
      using debts_start [OF assms(2)] by (simp add: debts_def)
    have "world_triple (debts ?T ?c {} {})
      (attempt (store env (claim_delivery ?key ?c at)) (wrap_error ''claim the delivery'') (\<lambda>claimed.
           if \<not> claimed then ret ()
           else observe (handle_claimed env msg ?c) (settle_claim env ?key ?c))) (settled_debts ?T ?c ?key)" for at
    proof (rule world_triple_attempt [OF claim_debts [OF assms(1)]])
      fix claimed
      show "world_triple (if Inr claimed = Inr True then debts ?T ?c {?key} {} else debts ?T ?c {} {})
         (if \<not> claimed then ret () else observe (handle_claimed env msg ?c) (settle_claim env ?key ?c)) (settled_debts ?T ?c ?key)"
        by (cases claimed) (auto intro!: world_triple_ret settled_unchanged
          world_triple_observe [OF claimed_debts [OF assms(1)] settle_debts [OF assms(1)]])
    qed (simp add: settled_unchanged)
    note step = this
    have "handle env msg w = attempt (store env (claim_delivery ?key ?c (e_now env (w_tick w))))
        (wrap_error ''claim the delivery'') (\<lambda>claimed. if \<not> claimed then ret ()
           else observe (handle_claimed env msg ?c) (settle_claim env ?key ?c)) (tick (tick w))"
      using None False by (simp only: handle_def attempt_apply [of "clock env"] attempt_apply [of "fresh env"]
        clock_apply fresh_apply option.case if_False prod.case sum.case tick_simps(3))
    with world_tripleD [OF step start] assms(3) show ?thesis by metis
  qed
qed

end
