(* ===== verification/RelayLaws.thy ===== *)
theory RelayLaws
  imports HandleLaws
begin

text \<open>
  How many messages handling one inbound message sends to the customer, and to whom: at most one,
  to the chat the message came from; none when a person has the conversation or the provider refuses.

  A colleague's answer through the staff chat (\<open>assistant/relay.go\<close>): it is sent at most once, word for
  word, and only after the store has the conversation under the colleague.
\<close>

section \<open>Silent parts\<close>

lemma silent_store [step_intros]: "steps same_sends (store env m)"
  by (simp add: steps_def store_def split: fault.split)

lemma silent_claims [step_intros]:
  "steps same_sends (complete_claim env k c at)" "steps same_sends (release_claim env k c)"
  unfolding complete_claim_def release_claim_def by (intro step_intros)+

lemma silent_lock [step_intros]: "steps same_sends (lock_loop env k c n)"
  by (induction n) (auto intro!: step_intros simp: Let_def)

lemma silent_finish [step_intros]: "steps same_sends (finish_visit env v at)"
  unfolding finish_visit_def by (intro step_intros)

lemma silent_superseded [step_intros]:
  "steps same_sends (complete_superseded env v c)" "steps same_sends (unless_superseded env v c e)"
  unfolding complete_superseded_def unless_superseded_def by (intro step_intros)+

lemma silent_record [step_intros]: "steps same_sends (record_answer env v tracked i out presented c)"
  unfolding record_answer_def by (intro step_intros)

lemma silent_left [step_intros]:
  "steps same_sends (leave_undeliverable env v)" "steps same_sends (leave_to_colleague env v)"
  unfolding leave_undeliverable_def leave_to_colleague_def by (intro step_intros)+

lemma silent_settle [step_intros]: "steps same_sends (settle_claim env key c r)"
  unfolding settle_claim_def by (intro step_intros)

section \<open>One send\<close>

definition adds :: "(outgoing \<Rightarrow> bool) \<Rightarrow> world \<Rightarrow> world \<Rightarrow> bool" where
  "adds P w w' \<longleftrightarrow> (\<exists>new. logged sends w' = logged sends w @ new \<and> length new \<le> 1 \<and>
     list_all (\<lambda>(eff, x). case eff of SendMessage out \<Rightarrow> P out | _ \<Rightarrow> False) new)"

definition one_send :: "(outgoing \<Rightarrow> bool) \<Rightarrow> (world, 'a) proc \<Rightarrow> bool" where
  "one_send P m \<longleftrightarrow> (\<forall>w. adds P w (snd (m w)))"

named_theorems one_send_intros \<open>procedures that send at most one message\<close>

lemma adds_same: "same_sends w w' \<Longrightarrow> adds P w w'"
  by (simp add: adds_def)

lemma adds_after: "same_sends w v \<Longrightarrow> adds P v u \<Longrightarrow> adds P w u"
  by (simp add: adds_def)

lemma adds_before: "adds P w v \<Longrightarrow> same_sends v u \<Longrightarrow> adds P w u"
  by (simp add: adds_def)

lemma one_send_silent: "steps same_sends m \<Longrightarrow> one_send P m"
  by (simp add: one_send_def steps_def adds_same)

text \<open>What precedes the send is silent; \<open>T\<close> is what its value is known to satisfy.\<close>

lemma one_send_given:
  assumes "steps same_sends m" "\<And>w x. fst (m w) = Inr x \<Longrightarrow> T x" "\<And>x. T x \<Longrightarrow> one_send P (k x)"
  shows "one_send P (attempt m f k)"
  unfolding one_send_def
proof
  fix w
  obtain r w1 where run: "m w = (r, w1)" by force
  have same: "same_sends w w1" using assms(1) [unfolded steps_def, rule_format, of w] by (simp add: run)
  show "adds P w (snd (attempt m f k w))"
  proof (cases r)
    case (Inr x)
    with assms(2) [of w x] assms(3) [of x] run have "adds P w1 (snd (k x w1))" by (simp add: one_send_def)
    with Inr show ?thesis by (simp add: attempt_apply run adds_after [OF same])
  qed (simp add: attempt_apply run adds_same same)
qed

lemma one_send_attempt [one_send_intros]:
  "steps same_sends m \<Longrightarrow> (\<And>x. one_send P (k x)) \<Longrightarrow> one_send P (attempt m f k)"
  by (rule one_send_given [where T = "\<lambda>_. True"]) simp_all

lemma one_send_observe [one_send_intros]:
  assumes "steps same_sends m" "\<And>r. one_send P (k r)"
  shows "one_send P (observe m k)"
  unfolding one_send_def
proof
  fix w
  obtain r w1 where run: "m w = (r, w1)" by force
  have "same_sends w w1" using assms(1) [unfolded steps_def, rule_format, of w] by (simp add: run)
  moreover from assms(2) have "adds P w1 (snd (k r w1))" by (simp add: one_send_def)
  ultimately have "adds P w (snd (k r w1))" by (rule adds_after)
  then show "adds P w (snd (observe m k w))" by (simp add: observe_apply run)
qed

text \<open>Whatever follows the send is silent.\<close>

lemma one_send_last:
  assumes "one_send P m" "\<And>r. steps same_sends (k r)"
  shows "one_send P (observe m k)"
  unfolding one_send_def
proof
  fix w
  obtain r w1 where run: "m w = (r, w1)" by force
  have "adds P w w1" using assms(1) [unfolded one_send_def, rule_format, of w] by (simp add: run)
  moreover from assms(2) have "same_sends w1 (snd (k r w1))" by (simp add: steps_def)
  ultimately have "adds P w (snd (k r w1))" by (rule adds_before)
  then show "adds P w (snd (observe m k w))" by (simp add: observe_apply run)
qed

lemma one_send_message:
  assumes "P out" "\<And>r. steps same_sends (k r)"
  shows "one_send P (observe (send_message env out) k)"
proof (rule one_send_last [OF _ assms(2)])
  show "one_send P (send_message env out)"
    unfolding one_send_def adds_def by (simp add: send_message_def invoke_def logged_def assms(1))
qed

lemma attempt_observe: "attempt m id k = observe m (\<lambda>r. case r of Inl e \<Rightarrow> fail e | Inr x \<Rightarrow> k x)"
  by (rule ext) (simp add: attempt_apply observe_apply fail_def split: prod.split sum.split)

lemma one_send_cases [one_send_intros]:
  "(b \<Longrightarrow> one_send P m) \<Longrightarrow> (\<not> b \<Longrightarrow> one_send P n) \<Longrightarrow> one_send P (if b then m else n)"
  "(x = None \<Longrightarrow> one_send P m) \<Longrightarrow> (\<And>y. x = Some y \<Longrightarrow> one_send P (g y)) \<Longrightarrow>
     one_send P (case x of None \<Rightarrow> m | Some y \<Rightarrow> g y)"
  "(\<And>y. r = Inl y \<Longrightarrow> one_send P (h y)) \<Longrightarrow> (\<And>y. r = Inr y \<Longrightarrow> one_send P (i y)) \<Longrightarrow>
     one_send P (case r of Inl y \<Rightarrow> h y | Inr y \<Rightarrow> i y)"
  "(\<And>a d. p = (a, d) \<Longrightarrow> one_send P (j a d)) \<Longrightarrow> one_send P (case p of (a, d) \<Rightarrow> j a d)"
  "one_send P (l v) \<Longrightarrow> one_send P (let y = v in l y)"
  by (cases x; cases r; cases p; simp)+

section \<open>Handling a message\<close>

definition to_chat :: "envelope \<Rightarrow> outgoing \<Rightarrow> bool" where
  "to_chat msg out \<longleftrightarrow> og_provider out = en_provider msg \<and> og_thread_id out = en_thread_id msg"

lemma to_chat_content [simp]: "to_chat (msg\<lparr>en_content := c\<rparr>) = to_chat msg"
  by (rule ext) (simp add: to_chat_def)

lemma reply_to_chat [simp]: "to_chat msg (envelope_reply msg t)"
  by (simp add: to_chat_def envelope_reply_def plain_message_def)

lemma message_to_chat:
  "to_chat (vi_msg v) (message_of env v s t)" "to_chat (vi_msg v) ((message_of env v s t)\<lparr>og_choice_token := k\<rparr>)"
  by (simp_all add: to_chat_def message_of_def with_links_def with_choices_def envelope_reply_def plain_message_def)

lemma one_send_deliver: "one_send (to_chat (vi_msg v)) (deliver_reply env v tracked s t)"
  unfolding deliver_reply_def
proof (rule one_send_given [where T = "to_chat (vi_msg v)"])
  show "to_chat (vi_msg v) out" if "fst (token_for env (message_of env v s t) w) = Inr out" for w out
    using that message_to_chat [of v]
    by (auto simp: token_for_def attempt_apply fresh_apply ret_def split: if_splits)
  show "one_send (to_chat (vi_msg v)) (let presented = presented_choices (tl_words env) (tl_to_lower env) (dg_word_rune env) s (final_text env s t) in
     observe (check_external_reply env (ss_conv s)) (\<lambda>checked. case checked of
       Inl e \<Rightarrow> unless_superseded env v (ss_conv s) e
     | Inr _ \<Rightarrow> observe (send_message env out) (\<lambda>sent. case sent of
         Inl e \<Rightarrow> unless_superseded env v (ss_conv s) (wrap_error ''send the reply'' e)
       | Inr sent_id \<Rightarrow> record_answer env v tracked sent_id out presented (ss_conv s))))"
    if "to_chat (vi_msg v) out" for out
    by (intro one_send_intros one_send_message that step_intros) (rule one_send_silent, intro step_intros)
qed (intro step_intros)

lemma one_send_latest:
  "one_send P k \<Longrightarrow> one_send P (if_latest env v c label k)"
  unfolding if_latest_def
  by (intro one_send_intros step_intros) (assumption | rule one_send_silent, intro step_intros)+

lemma one_send_answer: "one_send (to_chat (vi_msg v)) (answer_visit env v tracked)"
  unfolding answer_visit_def finish_reply_def
  by (intro one_send_intros one_send_latest one_send_deliver step_intros) (rule one_send_silent, intro step_intros)+

lemma one_send_stale: "one_send (to_chat (vi_msg v)) (answer_stale_press env v)"
  unfolding answer_stale_press_def attempt_observe
  by (intro one_send_intros one_send_message step_intros reply_to_chat) (rule one_send_silent, intro step_intros)+

lemma one_send_attend: "one_send (to_chat (vi_msg v)) (attend env v)"
  using one_send_answer [where v = "v\<lparr>vi_conv := c\<rparr>" for c] unfolding attend_def Let_def
  by (intro one_send_intros step_intros) (simp | rule one_send_silent, intro step_intros)+

lemma one_send_conversation: "one_send (to_chat (vi_msg v)) (visit_conversation env v)"
  unfolding visit_conversation_def
proof (intro one_send_cases one_send_stale)
  show "one_send (to_chat (vi_msg v)) (attempt (understand env v) id (attend env))"
  proof (rule one_send_given [where T = "\<lambda>v'. \<exists>c. vi_msg v' = (vi_msg v)\<lparr>en_content := c\<rparr>"])
    show "one_send (to_chat (vi_msg v)) (attend env v')" if "\<exists>c. vi_msg v' = (vi_msg v)\<lparr>en_content := c\<rparr>" for v'
      using one_send_attend [where v = v' and env = env] that by auto
  qed (auto intro: step_intros dest: understood_same)
qed

lemma one_send_locked: "one_send (to_chat msg) (handle_locked env msg c)"
proof -
  have "one_send (to_chat msg) (visit_conversation env (first_visit msg c now cust conv))" for now cust conv
    using one_send_conversation [where v = "first_visit msg c now cust conv" and env = env] by (simp add: first_visit_def)
  then show ?thesis unfolding handle_locked_def by (intro one_send_intros step_intros)
qed

lemma one_send_handle: "one_send (to_chat msg) (handle env msg)"
  unfolding handle_def handle_claimed_def lock_conversation_def unlocking_def
  by (intro one_send_intros one_send_last one_send_locked step_intros) (rule one_send_silent, intro step_intros)+

section \<open>Silence\<close>

text \<open>A visit that a person handles, or that cannot be answered, sends nothing.\<close>

lemma silent_attend:
  assumes "\<not> assistant_may_reply (resume_forgotten (vi_conv v) (vi_now v))"
  shows "steps same_sends (attend env v)"
  unfolding attend_def Let_def using assms by (intro step_intros) simp_all

section \<open>At most one message\<close>

lemma silent_pause [step_intros]: "steps same_sends (pause_assistant env c)"
  unfolding pause_assistant_def Let_def by (intro step_intros)

lemma silent_record_relayed [step_intros]: "steps same_sends (record_relayed env c t)"
  unfolding record_relayed_def Let_def by (intro step_intros)

lemma silent_relay_settled [step_intros]: "steps same_sends (relay_settled env event claim r)"
  unfolding relay_settled_def by (intro step_intros)

lemma one_send_relay: "one_send (\<lambda>out. og_text out = signed_text reply) (relay_to env reply c)"
  unfolding relay_to_def
  by (intro one_send_intros one_send_message step_intros) (simp_all add: plain_message_def one_send_silent step_intros)

lemma one_send_relay_locked: "one_send (\<lambda>out. og_text out = signed_text reply) (relay_locked env reply)"
  unfolding relay_locked_def lock_stored_conversation_def lock_conversation_def unlocking_def
  by (intro one_send_intros one_send_last one_send_relay step_intros)

lemma one_send_relay_staff: "one_send (\<lambda>out. og_text out = signed_text reply) (relay_staff_reply env reply)"
  unfolding relay_staff_reply_def relay_claimed_def
  by (intro one_send_intros one_send_last one_send_relay_locked step_intros) (simp_all add: one_send_silent step_intros)

section \<open>The conversation first\<close>

definition with_person :: "string \<Rightarrow> world \<Rightarrow> bool" where
  "with_person key w \<longleftrightarrow> (\<exists>c. get_row (db_conversations (w_db w)) key = Some c \<and> cv_state c = StateHumanActive)"

lemma with_person_tick [simp]: "with_person key (tick w) = with_person key w"
  by (simp add: with_person_def)

lemma saved_with_person:
  assumes "cv_state c = StateHumanActive"
  shows "fst (store env (save_conversation c) w) = Inr u \<Longrightarrow> with_person (conv_key c) (snd (store env (save_conversation c) w))"
    "with_person (conv_key c) w \<Longrightarrow> with_person (conv_key c) (snd (store env (save_conversation c) w))"
  using assms
  by (auto simp: store_def save_conversation_def store_conversation_def with_person_def sentinel_error_def
      split: fault.splits option.splits if_splits)

lemma pause_outcome:
  assumes "fst (pause_assistant env c w) = Inr c'"
  shows "conv_key c' = conv_key c \<and> cv_state c' = StateHumanActive \<and> cv_id c' = cv_id c \<and>
    with_person (conv_key c) (snd (pause_assistant env c w))"
proof -
  let ?c = "taken_over c (e_now env (w_tick w))"
  have same: "conv_key ?c = conv_key c" "cv_id ?c = cv_id c" "cv_state ?c = cv_state c"
    by (simp_all add: taken_over_def conv_key_def)
  show ?thesis
  proof (cases "cv_state c = StateHumanActive")
    case True
    with assms same saved_with_person(1) [of ?c env "tick w"] show ?thesis
      by (auto simp: pause_assistant_def attempt_apply clock_apply ret_def Let_def split: prod.splits sum.splits)
  next
    case False
    then show ?thesis
    proof (cases "transition_to ?c StateHumanActive (e_now env (Suc (w_tick w)))")
      case (Inr d)
      from transition_to_frame [OF Inr] transition_to_state [OF Inr] same
      have d: "conv_key d = conv_key c" "cv_id d = cv_id c" "cv_state d = StateHumanActive" by simp_all
      with assms False same Inr saved_with_person(1) [of d env "tick (tick w)"] show ?thesis
        by (auto simp: pause_assistant_def attempt_apply clock_apply ret_def given_def Let_def split: prod.splits sum.splits)
    qed (use assms False same in \<open>auto simp: pause_assistant_def attempt_apply clock_apply given_def fail_def Let_def\<close>)
  qed
qed

lemma recorded_with_person:
  assumes "cv_state c = StateHumanActive" "with_person (conv_key c) w"
  shows "with_person (conv_key c) (snd (record_relayed env c t w))"
proof -
  have key: "conv_key (c\<lparr>cv_updated_at := a, cv_last_message_at := b, cv_handoff_at := d\<rparr>) = conv_key c" for a b d
    by (simp add: conv_key_def)
  have appended: "with_person (conv_key c) (snd (store env (append_message m) v))" if "with_person (conv_key c) v" for m v
    using that by (auto simp: store_def append_message_def with_person_def Let_def split: fault.splits)
  have saved: "with_person (conv_key c) (snd (store env (save_conversation
      (c\<lparr>cv_updated_at := a, cv_last_message_at := a, cv_handoff_at := a\<rparr>)) v))" if "with_person (conv_key c) v" for a v
    using saved_with_person(2) [of "c\<lparr>cv_updated_at := a, cv_last_message_at := a, cv_handoff_at := a\<rparr>" v env]
      assms(1) that by (simp add: key)
  show ?thesis unfolding record_relayed_def
    using assms by (auto simp: attempt_apply clock_apply fresh_apply observe_apply ret_def Let_def
        split: prod.split dest!: arg_cong [of _ _ snd] intro!: saved appended)
qed

lemma relay_takes_over:
  "logged sends (snd (relay_to env reply c w)) = logged sends w \<or> with_person (conv_key c) (snd (relay_to env reply c w))"
proof (cases "as_senders env (cv_provider c)")
  case None
  then show ?thesis by (simp add: relay_to_def fail_def)
next
  case (Some tracked)
  obtain r w1 where retired: "retire_choices env tracked c w = (r, w1)" by force
  have s1: "same_sends w w1"
    using silent.steps_retire_choices [of env tracked c, unfolded steps_def, rule_format, of w] by (simp add: retired)
  show ?thesis
  proof (cases r)
    case (Inl e)
    with Some retired s1 show ?thesis by (simp add: relay_to_def attempt_apply)
  next
    case (Inr d)
    have d: "conv_key d = conv_key c"
      using retired Inr by (auto simp: retire_choices_def observe_apply ret_def conv_key_def split: if_splits prod.splits)
    obtain p w2 where paused: "pause_assistant env d w1 = (p, w2)" by force
    have s2: "same_sends w1 w2"
      using silent_pause [of env d, unfolded steps_def, rule_format, of w1] by (simp add: paused)
    show ?thesis
    proof (cases p)
      case (Inl e)
      with Some retired Inr paused s1 s2 show ?thesis by (simp add: relay_to_def attempt_apply)
    next
      case (Inr f)
      with pause_outcome [of env d w1 f] paused d
      have f: "conv_key f = conv_key c" "cv_state f = StateHumanActive" "with_person (conv_key c) w2" by simp_all
      obtain x w3 where sent: "send_message env (plain_message (cv_provider f) (cv_thread_id f) (signed_text reply)) w2 = (x, w3)"
        by force
      then have "with_person (conv_key c) w3" using f(3) by (auto simp: send_message_def invoke_def with_person_def)
      with f recorded_with_person [of f w3 env "signed_text reply"]
      have "with_person (conv_key c) (snd (relay_to env reply c w))"
        using Some retired \<open>r = Inr d\<close> paused Inr sent
        by (cases x) (simp_all add: relay_to_def attempt_apply observe_apply ret_def)
      then show ?thesis by blast
    qed
  qed
qed

end
