(* ===== verification/ReplyChanges.thy ===== *)
theory ReplyChanges
  imports RelayLaws TurnLaws
begin

text \<open>
  The appointments a whole reply may touch: whatever the customer writes, the model answers and the
  tools it calls, the calendar is asked only for what an earlier message proposed. The invariant of a
  turn is kept by every fixed answer and by the loop with the model; a phone proved in this reply ends
  it with a proposal to confirm.
\<close>

section \<open>Parts that ask the calendar for nothing\<close>

lemma quiet_retire [quiet_intros]: "quiet is_change (retire_choices env tracked c)"
  unfolding retire_choices_def by (intro quiet_intros) simp

lemma quiet_check_external [quiet_intros]: "quiet is_change (check_external_reply env c)"
  unfolding check_external_reply_def by (intro quiet_intros)

lemma quiet_superseded_now [quiet_intros]: "quiet is_change (superseded_now env)"
  unfolding superseded_now_def by (intro quiet_intros)

lemma quiet_link_customer [quiet_intros]: "quiet is_change (link_customer env msg cust phone)"
  unfolding link_customer_def by (intro quiet_intros)

lemma quiet_cabinet_actions [quiet_intros]:
  "quiet is_change (cabinet_cancel cab p user)" "quiet is_change (cabinet_send cab p user raw lang)"
  unfolding cabinet_cancel_def cabinet_send_def cab_store_def Let_def by (intro quiet_intros; simp)+

lemma quiet_cabinet_confirm [quiet_intros]: "quiet is_change (cabinet_confirm cab p user code)"
  unfolding cabinet_confirm_def cab_store_def Let_def
  by (intro quiet_intros) (simp add: quiet_ret quiet_fail split: guess.split)

lemma quiet_plan_all [quiet_intros]: "quiet is_change (plan_all env conv lang bs)"
  by (induction bs) (auto intro!: quiet_intros)

lemma stays_list [stays_intros]:
  "(x = [] \<Longrightarrow> stays I m) \<Longrightarrow> (\<And>y ys. x = y # ys \<Longrightarrow> stays I (n y ys)) \<Longrightarrow>
   stays I (case x of [] \<Rightarrow> m | y # ys \<Rightarrow> n y ys)"
  by (cases x) simp_all

lemma stays_appointment_lines [stays_intros]: "stays I (appointment_lines env names bs)"
  by (induction bs arbitrary: names) (auto intro!: stays_intros quiet_intros simp: Let_def)

section \<open>Fixed answers\<close>

lemmas turn_parts = session_parts show_links_def catalogue_top_def step_back_def on_dates_def on_times_def
  handed_over_def

lemma stays_unavailable [stays_intros]: "stays (turn_inv env s0 L0) catalogue_unavailable"
  unfolding catalogue_unavailable_def
  by (intro stays_intros quiet_intros) (erule turn_inv_update; simp add: turn_parts)

lemma stays_links [stays_intros]: "stays (turn_inv env s0 L0) (public_link_reply env' t)"
  unfolding public_link_reply_def Let_def
  by (intro stays_intros quiet_intros) (erule turn_inv_update; simp add: turn_parts)+

lemma stays_language [stays_intros]: "stays (turn_inv env s0 L0) (apply_preferred_language env')"
  unfolding apply_preferred_language_def
  by (intro stays_intros quiet_intros) (erule turn_inv_update; simp add: turn_parts)+

lemma stays_set_language [stays_intros]: "stays (turn_inv env s0 L0) (set_language env' tag)"
  unfolding set_language_def
  by (intro stays_intros quiet_intros) (erule turn_inv_update; simp add: turn_parts)+

lemma stays_appointment_list [stays_intros]: "stays (turn_inv env s0 L0) (appointment_list env')"
  unfolding appointment_list_def Let_def
  by (intro stays_intros quiet_intros) (erule turn_inv_update; simp add: turn_parts)+

lemma stays_reminders [stays_intros]: "stays (turn_inv env s0 L0) (enable_reminders env')"
  unfolding enable_reminders_def Let_def
  by (intro stays_intros quiet_intros) (erule turn_inv_update; simp add: turn_parts)+

lemma stays_consent [stays_intros]: "stays (turn_inv env s0 L0) (reminder_consent env' t)"
  unfolding reminder_consent_def Let_def
  by (intro stays_intros quiet_intros) (erule turn_inv_update; simp add: turn_parts)+

section \<open>The catalogue\<close>

lemma stays_paged [stays_intros]: "stays (turn_inv env s0 L0) (present_paged env' t ls)"
  unfolding present_paged_def
  by (intro stays_intros quiet_intros) (erule turn_inv_update; simp add: turn_parts)

lemma stays_time_menu [stays_intros]: "stays (turn_inv env s0 L0) (catalogue_time_menu env' v)"
  unfolding catalogue_time_menu_def Let_def by (intro stays_intros quiet_intros)

lemma stays_date_menu [stays_intros]: "stays (turn_inv env s0 L0) (catalogue_date_menu env' v p ps)"
  unfolding catalogue_date_menu_def
  by (intro stays_intros quiet_intros) (erule turn_inv_update; simp add: turn_parts)

lemma stays_staff_menu [stays_intros]: "stays (turn_inv env s0 L0) (catalogue_staff_menu env' v)"
  unfolding catalogue_staff_menu_def
  by (intro stays_intros quiet_intros) (erule turn_inv_update; simp add: turn_parts)+

lemma stays_staff_choice [stays_intros]: "stays (turn_inv env s0 L0) (catalogue_staff_choice env' vs t sel)"
  unfolding catalogue_staff_choice_def Let_def
  by (intro stays_intros quiet_intros) (erule turn_inv_update; simp add: turn_parts)+

lemma stays_place [stays_intros]:
  "stays (turn_inv env s0 L0) (dates_again env' v)" "stays (turn_inv env s0 L0) (service_detail env' v)"
  "stays (turn_inv env s0 L0) (on_service env' root t v)" "stays (turn_inv env s0 L0) (category_menu env' vs)"
  "stays (turn_inv env s0 L0) (service_menu env' vs)"
  unfolding dates_again_def service_detail_def on_service_def category_menu_def service_menu_def Let_def
  by (intro stays_intros quiet_intros; (elim turn_inv_update; simp add: turn_parts)?)+

definition same_proposals :: "conversation \<Rightarrow> conversation \<Rightarrow> bool" where
  "same_proposals c c' \<longleftrightarrow> cv_draft c' = cv_draft c \<and> cv_change c' = cv_change c \<and> cv_provider c' = cv_provider c"

lemma same_proposals_moves:
  "same_proposals c (catalogue_top c)" "same_proposals c (step_back c)"
  "same_proposals c (fst (choose_category env vs t c))" "same_proposals c (choose_service env vs t c)"
  "same_proposals c (c\<lparr>cv_page := n\<rparr>)"
  by (simp_all add: same_proposals_def catalogue_top_def step_back_def choose_category_def choose_service_def
      split: option.split prod.split)

lemma same_proposals_trans: "same_proposals c d \<Longrightarrow> same_proposals d e \<Longrightarrow> same_proposals c e"
  by (simp add: same_proposals_def)

lemma same_proposals_let:
  "same_proposals c v \<Longrightarrow> (\<And>d. same_proposals c d \<Longrightarrow> same_proposals c (f d)) \<Longrightarrow> same_proposals c (let d = v in f d)"
  by simp

lemma same_proposals_if:
  "same_proposals c d \<Longrightarrow> same_proposals c (if b then step_back d else d)"
  "same_proposals c d \<Longrightarrow> same_proposals c (if b then catalogue_top d else d)"
  "same_proposals c d \<Longrightarrow> same_proposals c (if b then d\<lparr>cv_page := n d\<rparr> else d)"
  using same_proposals_moves by (auto elim: same_proposals_trans)

lemma same_proposals_chosen:
  assumes "same_proposals c d"
  shows "same_proposals c (let (e, chosen) = choose_category env vs t d in if chosen then e else choose_service env vs t e)"
proof -
  obtain e chosen where pick: "choose_category env vs t d = (e, chosen)" by force
  with same_proposals_moves(3) [of d env vs t] assms have "same_proposals c e" by (simp add: same_proposals_def)
  with same_proposals_moves(4) [of e env vs t] show ?thesis by (simp add: pick same_proposals_def)
qed

lemma browse_proposals: "same_proposals (drop_proposals c) (browse env lang vs root t c)"
proof -
  have start: "same_proposals (drop_proposals c) (drop_proposals c)" by (simp add: same_proposals_def)
  show ?thesis unfolding browse_def
    by (subst Let_def) (rule same_proposals_let [OF start] | rule same_proposals_let [OF same_proposals_if(1)]
      | rule same_proposals_let [OF same_proposals_if(2)] | rule same_proposals_let [OF same_proposals_if(3)]
      | rule same_proposals_chosen | assumption)+
qed

lemma browsed_known:
  assumes "turn_inv env s0 L0 s L"
  shows "turn_inv env s0 L0 (on_conv (browse env' lang vs root t) s) L"
  using assms browse_proposals [of "ss_conv s" env' lang vs root t]
  by (elim turn_inv_update) (simp_all add: session_parts same_proposals_def)

lemma stays_show:
  assumes "stays (turn_inv env s0 L0) again"
  shows "stays (turn_inv env s0 L0) (show_services env' vs again)"
    "stays (turn_inv env s0 L0) (show_service env' root t vs again)"
    "stays (turn_inv env s0 L0) (show_place env' root t vs again)"
proof -
  show services: "stays (turn_inv env s0 L0) (show_services env' vs again)"
    unfolding show_services_def
    by (intro stays_intros assms) (erule turn_inv_update; simp add: turn_parts)
  show service: "stays (turn_inv env s0 L0) (show_service env' root t vs again)"
    unfolding show_service_def Let_def
    by (intro stays_intros assms services) (erule turn_inv_update; simp add: turn_parts)
  show "stays (turn_inv env s0 L0) (show_place env' root t vs again)"
    unfolding show_place_def Let_def by (intro stays_intros assms service)
qed

lemma stays_navigate [stays_intros]: "stays (turn_inv env s0 L0) (navigate env' n t sel)"
proof (induction n arbitrary: t sel)
  case (Suc n)
  show ?case unfolding navigate.simps Let_def
    by (intro stays_intros quiet_intros stays_show Suc)
      (rule browsed_known)
qed (simp add: stays_intros)

lemma stays_catalogue [stays_intros]: "stays (turn_inv env s0 L0) (catalogue_reply env' t sel)"
  unfolding catalogue_reply_def by (rule stays_navigate)

section \<open>The menu and the purpose\<close>

lemma stays_endings [stays_intros]:
  "stays (turn_inv env s0 L0) apologise" "stays (turn_inv env s0 L0) decline"
  unfolding apologise_def decline_def by (intro stays_intros; erule turn_inv_update; simp add: turn_parts)+

lemma stays_hand_over [stays_intros]: "stays (turn_inv env s0 L0) (hand_over env')"
proof -
  have step: "triple (\<lambda>s L. s = s1 \<and> turn_inv env s0 L0 s L)
      (case transition_to (ss_conv s1) StateHumanRequested now of Inl _ \<Rightarrow> ret None
       | Inr c \<Rightarrow> modify (handed_over c) (ret (Some (Phrase (ss_language s1) ''handed_over'')))) (\<lambda>_. turn_inv env s0 L0)" for s1 now
  proof (cases "transition_to (ss_conv s1) StateHumanRequested now")
    case (Inr c)
    from transition_keeps [OF this] show ?thesis unfolding Inr sum.case
      by (intro triple_modify [OF triple_ret, of "turn_inv env s0 L0"]) (assumption |
        elim conjE turn_inv_update; simp add: turn_parts)+
  qed (auto intro!: triple_ret)
  show ?thesis unfolding hand_over_def stays_def
    by (intro triple_with_session triple_after [OF stays_outside] quiet_intros step) simp
qed

lemma stays_else [stays_intros]:
  "stays I m \<Longrightarrow> stays I k \<Longrightarrow> stays I (else_try m k)" "stays I m' \<Longrightarrow> stays I k' \<Longrightarrow> stays I (or_else m' k')"
  unfolding or_else_def else_try_def by (intro stays_intros; assumption)+

lemma stays_menu [stays_intros]: "stays (turn_inv env s0 L0) (menu_reply env' msg sel)"
  unfolding menu_reply_def Let_def
  by (intro stays_intros) (erule turn_inv_update; simp add: turn_parts)

lemma stays_purpose [stays_intros]: "stays (turn_inv env s0 L0) (purpose_reply env' t ms)"
  unfolding purpose_reply_def by (intro stays_intros quiet_intros)

section \<open>The loop with the model\<close>

lemma stays_answer [stays_intros]: "stays (turn_inv env s0 L0) (answer_text resp)"
  unfolding answer_text_def
  by (intro stays_intros) (erule turn_inv_update; simp add: turn_parts select_choices_def)

lemma stays_run_call [stays_intros]: "stays (turn_inv env s0 L0) (run_call env c)"
  unfolding run_call_def by (intro stays_intros stays_execute)

lemma stays_run_calls [stays_intros]: "stays (turn_inv env s0 L0) (run_calls env attempted cs)"
  by (induction cs) (auto intro!: stays_intros quiet_intros simp: split_def)

lemma stays_final [stays_intros]: "stays (turn_inv env s0 L0) (complete_final env model req n)"
  unfolding complete_final_def by (intro stays_intros quiet_intros)

lemma stays_rounds [stays_intros]: "stays (turn_inv env s0 L0) (model_rounds env model attempted req remaining n)"
  by (induction n arbitrary: req remaining) (auto intro!: stays_intros quiet_intros simp: Let_def split_def)

lemma stays_application [stays_intros]: "stays (turn_inv env s0 L0) (application_call env i name seeded attempted)"
  unfolding application_call_def Let_def by (intro stays_intros)

lemma stays_drop [stays_intros]: "stays (turn_inv env s0 L0) (drop_change k)"
  unfolding drop_change_def by (intro stays_intros) (erule turn_inv_update; simp add: turn_parts)

lemma stays_steps [stays_intros]:
  "stays (turn_inv env s0 L0) (confirm_change_step env t)"
  "stays (turn_inv env s0 L0) (confirm_booking_step env t seeded attempted)"
  unfolding confirm_change_step_def confirm_booking_step_def Let_def
  by (intro stays_intros quiet_intros; (erule turn_inv_update; simp add: turn_parts)?)+

lemma stays_step_result [stays_intros]:
  "(\<And>t. stays I (f t)) \<Longrightarrow> (\<And>s a. stays I (g s a)) \<Longrightarrow> stays I (case r of Answered t \<Rightarrow> f t | Continue s a \<Rightarrow> g s a)"
  by (cases r) simp_all

lemma stays_confirm_or_ask [stays_intros]: "stays (turn_inv env s0 L0) (confirm_or_ask env msg ms)"
  unfolding confirm_or_ask_def ask_model_def Let_def by (intro stays_intros)

section \<open>The cabinet\<close>

text \<open>What the log of a finished reply shows; the session may have changed its owner meanwhile.\<close>

definition agreed_log :: "'e tool_env_scheme \<Rightarrow> session \<Rightarrow> call_log \<Rightarrow> call_log \<Rightarrow> bool" where
  "agreed_log env s0 L0 L \<longleftrightarrow> (\<exists>new. L = L0 @ new \<and> list_all (\<lambda>(e, x). agreed env s0 e) new \<and>
     successes creates new \<le> 1 \<and> successes alters new \<le> 1)"

lemma turn_inv_log: "turn_inv env s0 L0 s L \<Longrightarrow> agreed_log env s0 L0 L"
  unfolding turn_inv_def agreed_log_def list_all_iff by (fastforce simp: at_most_once_def)

lemma stays_resume: "stays (\<lambda>_. J) (resume_verified_booking env phone)"
  unfolding resume_verified_booking_def Let_def by (intro stays_intros quiet_intros)

lemma log_prompt: "stays (\<lambda>_. J) (verification_prompt env identity)"
  unfolding verification_prompt_def Let_def by (intro stays_intros quiet_intros)

lemma log_appointments: "stays (\<lambda>_. J) (appointment_list env)"
  unfolding appointment_list_def Let_def by (intro stays_intros quiet_intros)

lemma log_language: "stays (\<lambda>_. J) (apply_preferred_language env)"
  unfolding apply_preferred_language_def by (intro stays_intros quiet_intros)

lemma log_cabinet:
  "stays (\<lambda>_. J) (show_appointments env identity)" "stays (\<lambda>_. J) (adopt_phone env msg phone)"
  unfolding show_appointments_def adopt_phone_def
  by (intro stays_intros quiet_intros stays_resume log_prompt log_appointments log_language)+

text \<open>A cabinet answer leaves the log alone; a message that is not for the cabinet keeps the invariant.\<close>

abbreviation passes :: "'e tool_env_scheme \<Rightarrow> session \<Rightarrow> call_log \<Rightarrow> 'a option result \<Rightarrow> session \<Rightarrow> call_log \<Rightarrow> bool" where
  "passes env s0 L0 r s L \<equiv> agreed_log env s0 L0 L \<and> (r = Inr None \<longrightarrow> turn_inv env s0 L0 s L)"

lemma passes_stays: "stays (turn_inv env s0 L0) m \<Longrightarrow> triple (turn_inv env s0 L0) m (passes env s0 L0)"
  unfolding stays_def by (erule triple_conseq) (simp_all add: turn_inv_log)

lemma passes_some:
  assumes "stays (\<lambda>_. agreed_log env s0 L0) m" "\<And>tn. fst (m tn) \<noteq> Inr None"
  shows "triple (turn_inv env s0 L0) m (passes env s0 L0)"
  using assms by (auto simp: stays_def triple_def dest: turn_inv_log)

lemma attempt_some [simp]:
  "fst (attempt m f (\<lambda>x. ret (Some (g x))) tn) \<noteq> Inr None"
  by (simp add: attempt_apply ret_def split: prod.split sum.split)

lemma show_appointments_some: "fst (show_appointments env identity tn) \<noteq> Inr None"
  by (simp add: show_appointments_def with_session_apply attempt_apply ret_def split: prod.split sum.split option.split)

lemma adopt_phone_some: "fst (adopt_phone env msg phone tn) \<noteq> Inr None"
  by (simp add: adopt_phone_def with_session_apply attempt_apply modify_apply ret_def split: prod.split sum.split option.split)

lemma passes_challenge: "triple (turn_inv env s0 L0) (challenge_reply env' identity msg st) (passes env s0 L0)"
proof -
  have adopt: "triple (turn_inv env s0 L0) (adopt_phone env' msg phone) (passes env s0 L0)" for phone
    by (rule passes_some [OF log_cabinet(2) adopt_phone_some])
  have keep: "stays (turn_inv env s0 L0) (modify (offer []) (ret (Some t)))"
    "stays (turn_inv env s0 L0) (ret (x :: reply_text option))" for t :: reply_text and x
    by (intro stays_intros; erule turn_inv_update; simp add: turn_parts)+
  show ?thesis unfolding challenge_reply_def Let_def
  proof (intro triple_with_session triple_if)
    fix s1
    show "triple (\<lambda>s L. s = s1 \<and> turn_inv env s0 L0 s L)
        (observe (outside (cabinet_confirm identity (en_provider msg) (en_user_id msg) (trim_space (co_text (en_content msg)))))
          (\<lambda>reply. case reply of
             Inl e \<Rightarrow> modify (offer []) (ret (Some (CabinetText (ss_language s1) (failed_code_kind e))))
           | Inr phone \<Rightarrow> adopt_phone env' msg phone)) (passes env s0 L0)"
      by (rule triple_conseq [OF triple_observe [OF stays_triple [OF stays_outside, of _ "turn_inv env s0 L0"]]])
        (auto intro!: quiet_intros passes_stays [OF keep(1)] adopt split: sum.split)
  next
    fix s1
    show "triple (\<lambda>s L. s = s1 \<and> turn_inv env s0 L0 s L)
        (case normalize_phone (tl_lib env') (co_text (en_content msg)) of Inl x \<Rightarrow> ret None
         | Inr x \<Rightarrow> observe (outside (cabinet_send identity (en_provider msg) (en_user_id msg) (co_text (en_content msg)) (Some (ss_language s1))))
             (\<lambda>reply. case reply of
                Inl e \<Rightarrow> ret (Some (CabinetText (ss_language s1) (if errors_is e VerificationLimited then ''limited'' else ''unavailable'')))
              | Inr x \<Rightarrow> modify (offer []) (ret (Some (CabinetText (ss_language s1) ''code''))))) (passes env s0 L0)"
      by (rule triple_conseq [OF passes_stays]) (auto intro!: stays_intros quiet_intros keep)
  qed (rule triple_conseq [OF passes_stays [OF keep(2)]]; simp)+
qed

lemma passes_cabinet: "triple (turn_inv env s0 L0) (cabinet_reply env' msg) (passes env s0 L0)"
proof (cases "tl_identity env'")
  case None
  then show ?thesis by (simp add: cabinet_reply_def) (rule passes_stays, rule stays_ret)
next
  case (Some identity)
  let ?txt = "co_text (en_content msg)"
  have quiet_some: "triple (turn_inv env s0 L0) (attempt m id (\<lambda>x. modify f (with_session (\<lambda>s. ret (Some (g s)))))) (passes env s0 L0)"
    if "stays (\<lambda>_. agreed_log env s0 L0) m" for m :: "(turn, unit) proc" and f g
  proof (rule passes_some)
    show "stays (\<lambda>_. agreed_log env s0 L0) (attempt m id (\<lambda>x. modify f (with_session (\<lambda>s. ret (Some (g s))))))"
      by (intro stays_intros that)
  qed (simp add: attempt_apply modify_apply with_session_apply ret_def split: prod.split sum.split)
  show ?thesis unfolding cabinet_reply_def Some option.case(2) Let_def
  proof (intro triple_modify [where P' = "turn_inv env s0 L0"] triple_if)
    show "triple (turn_inv env s0 L0) (attempt (outside (cabinet_cancel identity (en_provider msg) (en_user_id msg))) id
        (\<lambda>_. modify (offer []) (with_session (\<lambda>s. ret (Some (CabinetText (ss_language s) ''cancelled'')))))) (passes env s0 L0)"
      by (intro quiet_some stays_intros quiet_intros)
    show "triple (turn_inv env s0 L0) (attempt (outside (cabinet_cancel identity (en_provider msg) (en_user_id msg))) id
        (\<lambda>_. attempt (verification_prompt env' identity) id (\<lambda>t. ret (Some t)))) (passes env s0 L0)"
      by (rule passes_some) (intro stays_intros quiet_intros log_prompt, simp add: attempt_apply ret_def
        split: prod.split sum.split)
    show "triple (turn_inv env s0 L0) (show_appointments env' identity) (passes env s0 L0)"
      by (rule passes_some [OF log_cabinet(1) show_appointments_some])
    show "triple (turn_inv env s0 L0) (observe (outside (cabinet_pending identity (en_provider msg) (en_user_id msg)))
        (\<lambda>reply. case reply of Inl _ \<Rightarrow> ret None | Inr state \<Rightarrow> challenge_reply env' identity msg state)) (passes env s0 L0)"
      by (rule triple_observe [OF stays_triple [OF stays_outside, of _ "turn_inv env s0 L0"]])
        (auto intro!: quiet_intros passes_stays [OF stays_ret] passes_challenge split: sum.split)
  qed (elim turn_inv_update; simp add: turn_parts split: option.split)
qed

section \<open>The whole reply\<close>

lemma logs_or_else:
  assumes "triple (turn_inv env s0 L0) m (passes env s0 L0)"
    "triple (turn_inv env s0 L0) k (\<lambda>_ _. agreed_log env s0 L0)"
  shows "triple (turn_inv env s0 L0) (or_else m k) (\<lambda>_ _. agreed_log env s0 L0)"
  unfolding or_else_def
proof (rule triple_attempt [OF assms(1)])
  fix x
  show "triple (passes env s0 L0 (Inr x)) (case x of Some t \<Rightarrow> ret t | None \<Rightarrow> k) (\<lambda>_ _. agreed_log env s0 L0)"
    using assms(2) by (cases x) (auto intro: triple_ret triple_conseq)
qed simp

lemma logs_stays: "stays (turn_inv env s0 L0) m \<Longrightarrow> triple (turn_inv env s0 L0) m (\<lambda>_ _. agreed_log env s0 L0)"
  unfolding stays_def by (erule triple_conseq) (simp_all add: turn_inv_log)

lemma logs_reply: "triple (turn_inv env s0 L0) (reply_with env msg ms sel) (\<lambda>_ _. agreed_log env s0 L0)"
  unfolding reply_with_def Let_def
proof (intro triple_if triple_option)
  show "triple (turn_inv env s0 L0) (modify (present language_labels) (ret LanguageList)) (\<lambda>_ _. agreed_log env s0 L0)"
    by (rule logs_stays, intro stays_intros) (erule turn_inv_update; simp add: turn_parts)
qed (intro logs_or_else logs_stays passes_stays passes_cabinet stays_intros)+

lemma note_press_proposals [simp]:
  "cv_draft (note_press msg c) = cv_draft c" "cv_change (note_press msg c) = cv_change c"
  "cv_provider (note_press msg c) = cv_provider c"
  by (simp_all add: note_press_def)

lemma retired_proposals:
  "fst (retire_choices env tracked c w) = Inr c' \<Longrightarrow>
     cv_draft c' = cv_draft c \<and> cv_change c' = cv_change c \<and> cv_provider c' = cv_provider c"
  by (auto simp: retire_choices_def observe_apply ret_def split: if_splits prod.splits)

lemma logs_compose: "triple (turn_inv env s0 L0) (compose_reply env v tracked ms) (\<lambda>_ _. agreed_log env s0 L0)"
proof -
  have rest: "triple (turn_inv env s0 L0) (if vi_unheard v then with_session (\<lambda>s. ret (Phrase (ss_language s) ''audio_retry''))
      else reply_with env (vi_msg v) ms (vi_selected v)) (\<lambda>_ _. agreed_log env s0 L0)"
    by (intro triple_if logs_reply) (rule logs_stays, intro stays_intros)
  have retire: "triple (\<lambda>s L. s = s1 \<and> turn_inv env s0 L0 s L) (outside (retire_choices env tracked (ss_conv s1)))
      (\<lambda>r s L. turn_inv env s0 L0 s L \<and> (\<forall>c. r = Inr c \<longrightarrow> cv_draft c = cv_draft (ss_conv s) \<and>
        cv_change c = cv_change (ss_conv s) \<and> cv_provider c = cv_provider (ss_conv s)))" for s1
    unfolding triple_def
  proof (intro allI impI)
    fix tn assume pre: "tn_session tn = s1 \<and> turn_inv env s0 L0 (tn_session tn) (changes tn)"
    obtain r w where run: "retire_choices env tracked (ss_conv s1) (tn_world tn) = (r, w)" by force
    from quietD [OF quiet_retire run] have "logged is_change w = changes tn" .
    with pre retired_proposals [of env tracked "ss_conv s1" "tn_world tn"] run
    show "turn_inv env s0 L0 (tn_session (snd (outside (retire_choices env tracked (ss_conv s1)) tn)))
        (changes (snd (outside (retire_choices env tracked (ss_conv s1)) tn))) \<and>
      (\<forall>c. fst (outside (retire_choices env tracked (ss_conv s1)) tn) = Inr c \<longrightarrow>
        cv_draft c = cv_draft (ss_conv (tn_session (snd (outside (retire_choices env tracked (ss_conv s1)) tn)))) \<and>
        cv_change c = cv_change (ss_conv (tn_session (snd (outside (retire_choices env tracked (ss_conv s1)) tn)))) \<and>
        cv_provider c = cv_provider (ss_conv (tn_session (snd (outside (retire_choices env tracked (ss_conv s1)) tn)))))"
      by (auto simp: outside_apply)
  qed
  show ?thesis unfolding compose_reply_def
  proof (rule triple_after [OF stays_language], rule triple_modify [where P' = "turn_inv env s0 L0"])
    show "triple (turn_inv env s0 L0) (with_session (\<lambda>s. attempt (outside (retire_choices env tracked (ss_conv s))) id (\<lambda>c.
         modify (on_conv (\<lambda>_. c)) (if vi_unheard v then with_session (\<lambda>s. ret (Phrase (ss_language s) ''audio_retry''))
            else reply_with env (vi_msg v) ms (vi_selected v))))) (\<lambda>_ _. agreed_log env s0 L0)"
      by (rule triple_with_session, rule triple_attempt [OF retire], rule triple_modify [OF rest])
        (auto simp: turn_inv_log session_parts elim!: turn_inv_update)
  qed (auto simp: turn_inv_log session_parts elim!: turn_inv_update)
qed

section \<open>Visits\<close>

lemma quiet_visit_parts [quiet_intros]:
  "quiet is_change (complete_claim env k claim at)" "quiet is_change (release_claim env k claim)"
  "quiet is_change (finish_visit env v at)" "quiet is_change (complete_superseded env v c)"
  "quiet is_change (unless_superseded env v c e)" "quiet is_change (notify_staff env notc)"
  "quiet is_change (notify_inbound env notc t)" "quiet is_change (retire_untracked_choices env thread i)"
  "quiet is_change (history env i)" "quiet is_change (available env p)" "quiet is_change (token_for env out)"
  "quiet is_change (send_message env out)" "quiet is_change (record_answer env v tracked i out presented c)"
  unfolding complete_claim_def release_claim_def finish_visit_def complete_superseded_def unless_superseded_def
    notify_staff_def notify_inbound_def retire_untracked_choices_def history_def available_def token_for_def
    send_message_def record_answer_def Let_def
  by (intro quiet_intros quiet_invoke; simp)+

lemma quiet_latest [quiet_intros]: "quiet is_change k \<Longrightarrow> quiet is_change (if_latest env v c label k)"
  unfolding if_latest_def by (intro quiet_intros)

lemma quiet_after_reply [quiet_intros]:
  "quiet is_change (deliver_reply env v tracked s t)" "quiet is_change (finish_reply env v tracked ms r s)"
  unfolding finish_reply_def deliver_reply_def Let_def by (intro quiet_intros)+

lemma quiet_left [quiet_intros]:
  "quiet is_change (leave_undeliverable env v)" "quiet is_change (leave_to_colleague env v)"
  "quiet is_change (answer_stale_press env v)" "quiet is_change (understand env v)"
  unfolding leave_undeliverable_def leave_to_colleague_def answer_stale_press_def understand_def listen_def
    transcribe_input_def text_to_keep_def record_inbound_def Let_def
  by (intro quiet_intros)+

definition logs :: "'e tool_env_scheme \<Rightarrow> session \<Rightarrow> (world, 'a) proc \<Rightarrow> bool" where
  "logs env s0 m \<longleftrightarrow> (\<forall>w. agreed_log env s0 (logged is_change w) (logged is_change (snd (m w))))"

lemma agreed_log_same [simp]: "agreed_log env s0 L L"
  by (simp add: agreed_log_def successes_def)

lemma logs_quiet: "quiet is_change m \<Longrightarrow> logs env s0 m"
  by (simp add: logs_def quiet_def)

lemma logs_last:
  assumes "logs env s0 m" "\<And>r. quiet is_change (k r)"
  shows "logs env s0 (attempt m f k)"
  unfolding logs_def
proof
  fix w
  obtain r w1 where run: "m w = (r, w1)" by force
  with assms(1) [unfolded logs_def, rule_format, of w]
  have "agreed_log env s0 (logged is_change w) (logged is_change w1)" by simp
  then show "agreed_log env s0 (logged is_change w) (logged is_change (snd (attempt m f k w)))"
    using assms(2) by (cases r) (simp_all add: attempt_apply run quiet_def)
qed

lemma logs_first:
  assumes "quiet is_change m" "\<And>w x. fst (m w) = Inr x \<Longrightarrow> logs env s0 (k x)"
  shows "logs env s0 (attempt m f k)"
  unfolding logs_def
proof
  fix w
  obtain r w1 where run: "m w = (r, w1)" by force
  note same = quietD [OF assms(1) run]
  show "agreed_log env s0 (logged is_change w) (logged is_change (snd (attempt m f k w)))"
    using assms(2) [of w] by (cases r) (auto simp: attempt_apply run same logs_def same [symmetric] simp del: same)
qed

lemma logs_look:
  assumes "quiet is_change m" "\<And>r. logs env s0 (k r)"
  shows "logs env s0 (observe m k)"
  unfolding logs_def
proof
  fix w
  obtain r w1 where run: "m w = (r, w1)" by force
  from assms(2) [of r] quietD [OF assms(1) run]
  show "agreed_log env s0 (logged is_change w) (logged is_change (snd (observe m k w)))"
    by (metis (no_types, lifting) logs_def observe_apply prod.case run)
qed

text \<open>Of the session a reply starts from, only this matters to what it may change.\<close>

definition visit_session :: "'e handle_env_scheme \<Rightarrow> visit \<Rightarrow> session" where
  "visit_session env v = first_session env v []"

lemma agreed_cong:
  assumes "same_proposals (ss_conv s) (ss_conv s')" "ss_incoming s' = ss_incoming s" "ss_customer s' = ss_customer s"
  shows "agreed env s' e = agreed env s e"
  using assms by (cases e) (simp_all add: agreed_booking_def agreed_change_def same_proposals_def unproved_phone_def
      phone_proved_def booking_request_def)

lemma agreed_log_cong:
  "same_proposals (ss_conv s) (ss_conv s') \<Longrightarrow> ss_incoming s' = ss_incoming s \<Longrightarrow> ss_customer s' = ss_customer s \<Longrightarrow>
   agreed_log env s' L0 L = agreed_log env s L0 L"
  by (simp add: agreed_log_def agreed_cong)

lemma logs_in_turn:
  "logs env (visit_session env v) (in_turn (first_session env v ms) (compose_reply env v tracked ms'))"
  unfolding logs_def
proof
  fix w
  let ?s = "first_session env v ms"
  have "agreed_log env ?s (logged is_change w) (changes (snd (compose_reply env v tracked ms' \<lparr>tn_world = w, tn_session = ?s\<rparr>)))"
    using logs_compose [of env ?s "logged is_change w" v tracked ms', unfolded triple_def, rule_format,
        of "\<lparr>tn_world = w, tn_session = ?s\<rparr>"] by (simp add: turn_inv_refl)
  moreover have "agreed_log env (visit_session env v) L0 L = agreed_log env ?s L0 L" for L0 L
    by (rule agreed_log_cong) (simp_all add: visit_session_def first_session_def same_proposals_def)
  ultimately show "agreed_log env (visit_session env v) (logged is_change w)
      (logged is_change (snd (in_turn ?s (compose_reply env v tracked ms') w)))"
    by (auto simp: in_turn_def split: prod.split)
qed

lemma logs_answer: "logs env (visit_session env v) (answer_visit env v tracked)"
proof -
  have step: "logs env (visit_session env v) (if_latest env v c label k)" if "logs env (visit_session env v) k" for c label k
    unfolding if_latest_def
    by (rule logs_look) (auto intro!: quiet_intros logs_quiet that split: sum.split)
  show ?thesis unfolding answer_visit_def
  proof (rule step, rule logs_look [OF quiet_visit_parts(9)])
    fix r :: "stored_message list result"
    show "logs env (visit_session env v) (case r of
        Inl e \<Rightarrow> unless_superseded env v (vi_conv v) (wrap_error ''read the conversation history'' e)
      | Inr messages \<Rightarrow> let messages = relabelled v messages in
         attempt (in_turn (first_session env v messages) (compose_reply env v tracked messages)) id (\<lambda>(composed, s).
           case composed of
             Inl e \<Rightarrow> if errors_is e TurnSuperseded then complete_superseded env v (ss_conv s)
               else unless_superseded env v (ss_conv s) e
           | Inr t \<Rightarrow> finish_reply env v tracked messages t s))"
      by (cases r) (auto intro!: quiet_intros logs_last [OF logs_in_turn] intro: logs_quiet simp: Let_def split: sum.split)
  qed
qed

lemma logs_attend: "logs env (visit_session env v) (attend env v)"
proof -
  have "logs env (visit_session env v) (answer_visit env (v\<lparr>vi_conv := resume_forgotten (vi_conv v) (vi_now v)\<rparr>) tracked)" for tracked
  proof -
    let ?v = "v\<lparr>vi_conv := resume_forgotten (vi_conv v) (vi_now v)\<rparr>"
    have "agreed_log env (visit_session env ?v) L0 L = agreed_log env (visit_session env v) L0 L" for L0 L
      by (rule agreed_log_cong) (simp_all add: visit_session_def first_session_def same_proposals_def
        resume_forgotten_def try_transition_def transition_keeps split: sum.split)
    with logs_answer [where v = ?v and env = env] show ?thesis by (simp add: logs_def)
  qed
  then show ?thesis unfolding attend_def Let_def
    by (intro logs_first [OF quiet_visit_parts(10)])
      (auto intro!: logs_quiet quiet_left quiet_intros split: option.split)
qed

lemma logs_conversation: "logs env (visit_session env v) (visit_conversation env v)"
proof -
  have "logs env (visit_session env v) (attend env v')" if "fst (understand env v w) = Inr v'" for w v'
  proof -
    from understood_same [OF that] have "agreed_log env (visit_session env v') L0 L = agreed_log env (visit_session env v) L0 L" for L0 L
      by (intro agreed_log_cong) (auto simp: visit_session_def first_session_def same_proposals_def)
    with logs_attend [where v = v' and env = env] show ?thesis by (simp add: logs_def)
  qed
  then show ?thesis unfolding visit_conversation_def
    by (auto intro!: logs_first quiet_left intro: logs_quiet quiet_left)
qed

end
