(* ===== verification/Pressed.thy ===== *)
theory Pressed
  imports Choices
begin

text \<open>
  The bytes of the labels customers press, computed once from the code points of the phrasebook.

  What a press of each label the assistant shows means to the code that reads it back: the menu's
  labels, and the answers to a proposed change and booking, in all three languages.
\<close>

lemma utf8_bytes: "concat (map encode_rune rs) = map of_char bs \<Longrightarrow> utf8 rs = bs"
  by (simp add: utf8_def comp_def)

lemma encoded_labels:
  "utf8 [0x531, 0x574, 0x580, 0x561, 0x563, 0x580, 0x565, 0x56C, 0x20, 0x561, 0x575, 0x581] = [CHR 0xD4, CHR 0xB1, CHR 0xD5,
  CHR 0xB4, CHR 0xD6, CHR 0x80, CHR 0xD5, CHR 0xA1, CHR 0xD5, CHR 0xA3, CHR 0xD6, CHR 0x80, CHR 0xD5, CHR 0xA5, CHR 0xD5, CHR
  0xAC, CHR 0x20, CHR 0xD5, CHR 0xA1, CHR 0xD5, CHR 0xB5, CHR 0xD6, CHR 0x81]"
  "utf8 [0x53E, 0x561, 0x57C, 0x561, 0x575, 0x578, 0x582, 0x569, 0x575, 0x578, 0x582, 0x576, 0x576, 0x565, 0x580, 0x20, 0x587,
  0x20, 0x563, 0x576, 0x565, 0x580] = [CHR 0xD4, CHR 0xBE, CHR 0xD5, CHR 0xA1, CHR 0xD5, CHR 0xBC, CHR 0xD5, CHR 0xA1, CHR
  0xD5, CHR 0xB5, CHR 0xD5, CHR 0xB8, CHR 0xD6, CHR 0x82, CHR 0xD5, CHR 0xA9, CHR 0xD5, CHR 0xB5, CHR 0xD5, CHR 0xB8, CHR 0xD6,
  CHR 0x82, CHR 0xD5, CHR 0xB6, CHR 0xD5, CHR 0xB6, CHR 0xD5, CHR 0xA5, CHR 0xD6, CHR 0x80, CHR 0x20, CHR 0xD6, CHR 0x87, CHR
  0x20, CHR 0xD5, CHR 0xA3, CHR 0xD5, CHR 0xB6, CHR 0xD5, CHR 0xA5, CHR 0xD6, CHR 0x80]"
  "utf8 [0x53B, 0x574, 0x20, 0x561, 0x575, 0x581, 0x565, 0x580, 0x568] = [CHR 0xD4, CHR 0xBB, CHR 0xD5, CHR 0xB4, CHR 0x20, CHR
  0xD5, CHR 0xA1, CHR 0xD5, CHR 0xB5, CHR 0xD6, CHR 0x81, CHR 0xD5, CHR 0xA5, CHR 0xD6, CHR 0x80, CHR 0xD5, CHR 0xA8]"
  "utf8 [0x53F, 0x561, 0x57A, 0x57E, 0x565, 0x56C, 0x20, 0x561, 0x577, 0x56D, 0x561, 0x57F, 0x561, 0x56F, 0x581, 0x56B, 0x20,
  0x570, 0x565, 0x57F] = [CHR 0xD4, CHR 0xBF, CHR 0xD5, CHR 0xA1, CHR 0xD5, CHR 0xBA, CHR 0xD5, CHR 0xBE, CHR 0xD5, CHR 0xA5,
  CHR 0xD5, CHR 0xAC, CHR 0x20, CHR 0xD5, CHR 0xA1, CHR 0xD5, CHR 0xB7, CHR 0xD5, CHR 0xAD, CHR 0xD5, CHR 0xA1, CHR 0xD5, CHR
  0xBF, CHR 0xD5, CHR 0xA1, CHR 0xD5, CHR 0xAF, CHR 0xD6, CHR 0x81, CHR 0xD5, CHR 0xAB, CHR 0x20, CHR 0xD5, CHR 0xB0, CHR 0xD5,
  CHR 0xA5, CHR 0xD5, CHR 0xBF]"
  "utf8 [0x53F, 0x561, 0x57A, 0x20, 0x587, 0x20, 0x57D, 0x578, 0x581, 0x56B, 0x561, 0x56C, 0x561, 0x56F, 0x561, 0x576, 0x20,
  0x567, 0x57B, 0x565, 0x580] = [CHR 0xD4, CHR 0xBF, CHR 0xD5, CHR 0xA1, CHR 0xD5, CHR 0xBA, CHR 0x20, CHR 0xD6, CHR 0x87, CHR
  0x20, CHR 0xD5, CHR 0xBD, CHR 0xD5, CHR 0xB8, CHR 0xD6, CHR 0x81, CHR 0xD5, CHR 0xAB, CHR 0xD5, CHR 0xA1, CHR 0xD5, CHR 0xAC,
  CHR 0xD5, CHR 0xA1, CHR 0xD5, CHR 0xAF, CHR 0xD5, CHR 0xA1, CHR 0xD5, CHR 0xB6, CHR 0x20, CHR 0xD5, CHR 0xA7, CHR 0xD5, CHR
  0xBB, CHR 0xD5, CHR 0xA5, CHR 0xD6, CHR 0x80]"
  "utf8 [0x531, 0x575, 0x578, 0x2C, 0x20, 0x561, 0x574, 0x580, 0x561, 0x563, 0x580, 0x565, 0x584] = [CHR 0xD4, CHR 0xB1, CHR
  0xD5, CHR 0xB5, CHR 0xD5, CHR 0xB8, CHR 0x2C, CHR 0x20, CHR 0xD5, CHR 0xA1, CHR 0xD5, CHR 0xB4, CHR 0xD6, CHR 0x80, CHR 0xD5,
  CHR 0xA1, CHR 0xD5, CHR 0xA3, CHR 0xD6, CHR 0x80, CHR 0xD5, CHR 0xA5, CHR 0xD6, CHR 0x84]"
  "utf8 [0x531, 0x575, 0x578, 0x2C, 0x20, 0x570, 0x561, 0x57D, 0x57F, 0x561, 0x57F, 0x578, 0x582, 0x574, 0x20, 0x565, 0x574] =
  [CHR 0xD4, CHR 0xB1, CHR 0xD5, CHR 0xB5, CHR 0xD5, CHR 0xB8, CHR 0x2C, CHR 0x20, CHR 0xD5, CHR 0xB0, CHR 0xD5, CHR 0xA1, CHR
  0xD5, CHR 0xBD, CHR 0xD5, CHR 0xBF, CHR 0xD5, CHR 0xA1, CHR 0xD5, CHR 0xBF, CHR 0xD5, CHR 0xB8, CHR 0xD6, CHR 0x82, CHR 0xD5,
  CHR 0xB4, CHR 0x20, CHR 0xD5, CHR 0xA5, CHR 0xD5, CHR 0xB4]"
  "utf8 [0x548, 0x579, 0x2C, 0x20, 0x569, 0x578, 0x572, 0x565, 0x584] = [CHR 0xD5, CHR 0x88, CHR 0xD5, CHR 0xB9, CHR 0x2C, CHR
  0x20, CHR 0xD5, CHR 0xA9, CHR 0xD5, CHR 0xB8, CHR 0xD5, CHR 0xB2, CHR 0xD5, CHR 0xA5, CHR 0xD6, CHR 0x84]"
  "utf8 [0x417, 0x430, 0x43F, 0x438, 0x441, 0x430, 0x442, 0x44C, 0x441, 0x44F] = [CHR 0xD0, CHR 0x97, CHR 0xD0, CHR 0xB0, CHR
  0xD0, CHR 0xBF, CHR 0xD0, CHR 0xB8, CHR 0xD1, CHR 0x81, CHR 0xD0, CHR 0xB0, CHR 0xD1, CHR 0x82, CHR 0xD1, CHR 0x8C, CHR 0xD1,
  CHR 0x81, CHR 0xD1, CHR 0x8F]"
  "utf8 [0x423, 0x441, 0x43B, 0x443, 0x433, 0x438, 0x20, 0x438, 0x20, 0x446, 0x435, 0x43D, 0x44B] = [CHR 0xD0, CHR 0xA3, CHR
  0xD1, CHR 0x81, CHR 0xD0, CHR 0xBB, CHR 0xD1, CHR 0x83, CHR 0xD0, CHR 0xB3, CHR 0xD0, CHR 0xB8, CHR 0x20, CHR 0xD0, CHR 0xB8,
  CHR 0x20, CHR 0xD1, CHR 0x86, CHR 0xD0, CHR 0xB5, CHR 0xD0, CHR 0xBD, CHR 0xD1, CHR 0x8B]"
  "utf8 [0x41C, 0x43E, 0x438, 0x20, 0x437, 0x430, 0x43F, 0x438, 0x441, 0x438] = [CHR 0xD0, CHR 0x9C, CHR 0xD0, CHR 0xBE, CHR
  0xD0, CHR 0xB8, CHR 0x20, CHR 0xD0, CHR 0xB7, CHR 0xD0, CHR 0xB0, CHR 0xD0, CHR 0xBF, CHR 0xD0, CHR 0xB8, CHR 0xD1, CHR 0x81,
  CHR 0xD0, CHR 0xB8]"
  "utf8 [0x421, 0x432, 0x44F, 0x437, 0x430, 0x442, 0x44C, 0x441, 0x44F, 0x20, 0x441, 0x20, 0x441, 0x43E, 0x442, 0x440, 0x443,
  0x434, 0x43D, 0x438, 0x43A, 0x43E, 0x43C] = [CHR 0xD0, CHR 0xA1, CHR 0xD0, CHR 0xB2, CHR 0xD1, CHR 0x8F, CHR 0xD0, CHR 0xB7,
  CHR 0xD0, CHR 0xB0, CHR 0xD1, CHR 0x82, CHR 0xD1, CHR 0x8C, CHR 0xD1, CHR 0x81, CHR 0xD1, CHR 0x8F, CHR 0x20, CHR 0xD1, CHR
  0x81, CHR 0x20, CHR 0xD1, CHR 0x81, CHR 0xD0, CHR 0xBE, CHR 0xD1, CHR 0x82, CHR 0xD1, CHR 0x80, CHR 0xD1, CHR 0x83, CHR 0xD0,
  CHR 0xB4, CHR 0xD0, CHR 0xBD, CHR 0xD0, CHR 0xB8, CHR 0xD0, CHR 0xBA, CHR 0xD0, CHR 0xBE, CHR 0xD0, CHR 0xBC]"
  "utf8 [0x41A, 0x43E, 0x43D, 0x442, 0x430, 0x43A, 0x442, 0x44B, 0x20, 0x438, 0x20, 0x441, 0x43E, 0x446, 0x441, 0x435, 0x442,
  0x438] = [CHR 0xD0, CHR 0x9A, CHR 0xD0, CHR 0xBE, CHR 0xD0, CHR 0xBD, CHR 0xD1, CHR 0x82, CHR 0xD0, CHR 0xB0, CHR 0xD0, CHR
  0xBA, CHR 0xD1, CHR 0x82, CHR 0xD1, CHR 0x8B, CHR 0x20, CHR 0xD0, CHR 0xB8, CHR 0x20, CHR 0xD1, CHR 0x81, CHR 0xD0, CHR 0xBE,
  CHR 0xD1, CHR 0x86, CHR 0xD1, CHR 0x81, CHR 0xD0, CHR 0xB5, CHR 0xD1, CHR 0x82, CHR 0xD0, CHR 0xB8]"
  "utf8 [0x414, 0x430, 0x2C, 0x20, 0x437, 0x430, 0x43F, 0x438, 0x448, 0x438, 0x442, 0x435] = [CHR 0xD0, CHR 0x94, CHR 0xD0, CHR
  0xB0, CHR 0x2C, CHR 0x20, CHR 0xD0, CHR 0xB7, CHR 0xD0, CHR 0xB0, CHR 0xD0, CHR 0xBF, CHR 0xD0, CHR 0xB8, CHR 0xD1, CHR 0x88,
  CHR 0xD0, CHR 0xB8, CHR 0xD1, CHR 0x82, CHR 0xD0, CHR 0xB5]"
  "utf8 [0x414, 0x430, 0x2C, 0x20, 0x43F, 0x43E, 0x434, 0x442, 0x432, 0x435, 0x440, 0x436, 0x434, 0x430, 0x44E] = [CHR 0xD0,
  CHR 0x94, CHR 0xD0, CHR 0xB0, CHR 0x2C, CHR 0x20, CHR 0xD0, CHR 0xBF, CHR 0xD0, CHR 0xBE, CHR 0xD0, CHR 0xB4, CHR 0xD1, CHR
  0x82, CHR 0xD0, CHR 0xB2, CHR 0xD0, CHR 0xB5, CHR 0xD1, CHR 0x80, CHR 0xD0, CHR 0xB6, CHR 0xD0, CHR 0xB4, CHR 0xD0, CHR 0xB0,
  CHR 0xD1, CHR 0x8E]"
  "utf8 [0x41D, 0x435, 0x442, 0x2C, 0x20, 0x43E, 0x441, 0x442, 0x430, 0x432, 0x44C, 0x442, 0x435] = [CHR 0xD0, CHR 0x9D, CHR
  0xD0, CHR 0xB5, CHR 0xD1, CHR 0x82, CHR 0x2C, CHR 0x20, CHR 0xD0, CHR 0xBE, CHR 0xD1, CHR 0x81, CHR 0xD1, CHR 0x82, CHR 0xD0,
  CHR 0xB0, CHR 0xD0, CHR 0xB2, CHR 0xD1, CHR 0x8C, CHR 0xD1, CHR 0x82, CHR 0xD0, CHR 0xB5]"
  by (rule utf8_bytes; simp add: encode_rune_def encode_scalar_def is_scalar_def)+

lemma label_bytes:
  "phrasebook language_english ''book_a_visit'' = ''Book a visit''"
  "phrasebook language_english ''services_prices'' = ''Services and prices''"
  "phrasebook language_english ''my_appointments'' = ''My appointments''"
  "phrasebook language_english ''talk_to_a_person'' = ''Talk to a person''"
  "phrasebook language_english ''contact'' = ''Contact & socials''"
  "phrasebook language_english ''confirm_booking'' = ''Yes, book it''"
  "phrasebook language_english ''confirm_change'' = ''Yes, go ahead''"
  "phrasebook language_english ''leave_it_alone'' = ''No, leave it''"
  "phrasebook language_armenian ''book_a_visit'' = [CHR 0xD4, CHR 0xB1, CHR 0xD5, CHR 0xB4, CHR 0xD6, CHR 0x80, CHR 0xD5, CHR
  0xA1, CHR 0xD5, CHR 0xA3, CHR 0xD6, CHR 0x80, CHR 0xD5, CHR 0xA5, CHR 0xD5, CHR 0xAC, CHR 0x20, CHR 0xD5, CHR 0xA1, CHR 0xD5,
  CHR 0xB5, CHR 0xD6, CHR 0x81]"
  "phrasebook language_armenian ''services_prices'' = [CHR 0xD4, CHR 0xBE, CHR 0xD5, CHR 0xA1, CHR 0xD5, CHR 0xBC, CHR 0xD5,
  CHR 0xA1, CHR 0xD5, CHR 0xB5, CHR 0xD5, CHR 0xB8, CHR 0xD6, CHR 0x82, CHR 0xD5, CHR 0xA9, CHR 0xD5, CHR 0xB5, CHR 0xD5, CHR
  0xB8, CHR 0xD6, CHR 0x82, CHR 0xD5, CHR 0xB6, CHR 0xD5, CHR 0xB6, CHR 0xD5, CHR 0xA5, CHR 0xD6, CHR 0x80, CHR 0x20, CHR 0xD6,
  CHR 0x87, CHR 0x20, CHR 0xD5, CHR 0xA3, CHR 0xD5, CHR 0xB6, CHR 0xD5, CHR 0xA5, CHR 0xD6, CHR 0x80]"
  "phrasebook language_armenian ''my_appointments'' = [CHR 0xD4, CHR 0xBB, CHR 0xD5, CHR 0xB4, CHR 0x20, CHR 0xD5, CHR 0xA1,
  CHR 0xD5, CHR 0xB5, CHR 0xD6, CHR 0x81, CHR 0xD5, CHR 0xA5, CHR 0xD6, CHR 0x80, CHR 0xD5, CHR 0xA8]"
  "phrasebook language_armenian ''talk_to_a_person'' = [CHR 0xD4, CHR 0xBF, CHR 0xD5, CHR 0xA1, CHR 0xD5, CHR 0xBA, CHR 0xD5,
  CHR 0xBE, CHR 0xD5, CHR 0xA5, CHR 0xD5, CHR 0xAC, CHR 0x20, CHR 0xD5, CHR 0xA1, CHR 0xD5, CHR 0xB7, CHR 0xD5, CHR 0xAD, CHR
  0xD5, CHR 0xA1, CHR 0xD5, CHR 0xBF, CHR 0xD5, CHR 0xA1, CHR 0xD5, CHR 0xAF, CHR 0xD6, CHR 0x81, CHR 0xD5, CHR 0xAB, CHR 0x20,
  CHR 0xD5, CHR 0xB0, CHR 0xD5, CHR 0xA5, CHR 0xD5, CHR 0xBF]"
  "phrasebook language_armenian ''contact'' = [CHR 0xD4, CHR 0xBF, CHR 0xD5, CHR 0xA1, CHR 0xD5, CHR 0xBA, CHR 0x20, CHR 0xD6,
  CHR 0x87, CHR 0x20, CHR 0xD5, CHR 0xBD, CHR 0xD5, CHR 0xB8, CHR 0xD6, CHR 0x81, CHR 0xD5, CHR 0xAB, CHR 0xD5, CHR 0xA1, CHR
  0xD5, CHR 0xAC, CHR 0xD5, CHR 0xA1, CHR 0xD5, CHR 0xAF, CHR 0xD5, CHR 0xA1, CHR 0xD5, CHR 0xB6, CHR 0x20, CHR 0xD5, CHR 0xA7,
  CHR 0xD5, CHR 0xBB, CHR 0xD5, CHR 0xA5, CHR 0xD6, CHR 0x80]"
  "phrasebook language_armenian ''confirm_booking'' = [CHR 0xD4, CHR 0xB1, CHR 0xD5, CHR 0xB5, CHR 0xD5, CHR 0xB8, CHR 0x2C,
  CHR 0x20, CHR 0xD5, CHR 0xA1, CHR 0xD5, CHR 0xB4, CHR 0xD6, CHR 0x80, CHR 0xD5, CHR 0xA1, CHR 0xD5, CHR 0xA3, CHR 0xD6, CHR
  0x80, CHR 0xD5, CHR 0xA5, CHR 0xD6, CHR 0x84]"
  "phrasebook language_armenian ''confirm_change'' = [CHR 0xD4, CHR 0xB1, CHR 0xD5, CHR 0xB5, CHR 0xD5, CHR 0xB8, CHR 0x2C, CHR
  0x20, CHR 0xD5, CHR 0xB0, CHR 0xD5, CHR 0xA1, CHR 0xD5, CHR 0xBD, CHR 0xD5, CHR 0xBF, CHR 0xD5, CHR 0xA1, CHR 0xD5, CHR 0xBF,
  CHR 0xD5, CHR 0xB8, CHR 0xD6, CHR 0x82, CHR 0xD5, CHR 0xB4, CHR 0x20, CHR 0xD5, CHR 0xA5, CHR 0xD5, CHR 0xB4]"
  "phrasebook language_armenian ''leave_it_alone'' = [CHR 0xD5, CHR 0x88, CHR 0xD5, CHR 0xB9, CHR 0x2C, CHR 0x20, CHR 0xD5, CHR
  0xA9, CHR 0xD5, CHR 0xB8, CHR 0xD5, CHR 0xB2, CHR 0xD5, CHR 0xA5, CHR 0xD6, CHR 0x84]"
  "phrasebook language_russian ''book_a_visit'' = [CHR 0xD0, CHR 0x97, CHR 0xD0, CHR 0xB0, CHR 0xD0, CHR 0xBF, CHR 0xD0, CHR
  0xB8, CHR 0xD1, CHR 0x81, CHR 0xD0, CHR 0xB0, CHR 0xD1, CHR 0x82, CHR 0xD1, CHR 0x8C, CHR 0xD1, CHR 0x81, CHR 0xD1, CHR
  0x8F]"
  "phrasebook language_russian ''services_prices'' = [CHR 0xD0, CHR 0xA3, CHR 0xD1, CHR 0x81, CHR 0xD0, CHR 0xBB, CHR 0xD1, CHR
  0x83, CHR 0xD0, CHR 0xB3, CHR 0xD0, CHR 0xB8, CHR 0x20, CHR 0xD0, CHR 0xB8, CHR 0x20, CHR 0xD1, CHR 0x86, CHR 0xD0, CHR 0xB5,
  CHR 0xD0, CHR 0xBD, CHR 0xD1, CHR 0x8B]"
  "phrasebook language_russian ''my_appointments'' = [CHR 0xD0, CHR 0x9C, CHR 0xD0, CHR 0xBE, CHR 0xD0, CHR 0xB8, CHR 0x20, CHR
  0xD0, CHR 0xB7, CHR 0xD0, CHR 0xB0, CHR 0xD0, CHR 0xBF, CHR 0xD0, CHR 0xB8, CHR 0xD1, CHR 0x81, CHR 0xD0, CHR 0xB8]"
  "phrasebook language_russian ''talk_to_a_person'' = [CHR 0xD0, CHR 0xA1, CHR 0xD0, CHR 0xB2, CHR 0xD1, CHR 0x8F, CHR 0xD0,
  CHR 0xB7, CHR 0xD0, CHR 0xB0, CHR 0xD1, CHR 0x82, CHR 0xD1, CHR 0x8C, CHR 0xD1, CHR 0x81, CHR 0xD1, CHR 0x8F, CHR 0x20, CHR
  0xD1, CHR 0x81, CHR 0x20, CHR 0xD1, CHR 0x81, CHR 0xD0, CHR 0xBE, CHR 0xD1, CHR 0x82, CHR 0xD1, CHR 0x80, CHR 0xD1, CHR 0x83,
  CHR 0xD0, CHR 0xB4, CHR 0xD0, CHR 0xBD, CHR 0xD0, CHR 0xB8, CHR 0xD0, CHR 0xBA, CHR 0xD0, CHR 0xBE, CHR 0xD0, CHR 0xBC]"
  "phrasebook language_russian ''contact'' = [CHR 0xD0, CHR 0x9A, CHR 0xD0, CHR 0xBE, CHR 0xD0, CHR 0xBD, CHR 0xD1, CHR 0x82,
  CHR 0xD0, CHR 0xB0, CHR 0xD0, CHR 0xBA, CHR 0xD1, CHR 0x82, CHR 0xD1, CHR 0x8B, CHR 0x20, CHR 0xD0, CHR 0xB8, CHR 0x20, CHR
  0xD1, CHR 0x81, CHR 0xD0, CHR 0xBE, CHR 0xD1, CHR 0x86, CHR 0xD1, CHR 0x81, CHR 0xD0, CHR 0xB5, CHR 0xD1, CHR 0x82, CHR 0xD0,
  CHR 0xB8]"
  "phrasebook language_russian ''confirm_booking'' = [CHR 0xD0, CHR 0x94, CHR 0xD0, CHR 0xB0, CHR 0x2C, CHR 0x20, CHR 0xD0, CHR
  0xB7, CHR 0xD0, CHR 0xB0, CHR 0xD0, CHR 0xBF, CHR 0xD0, CHR 0xB8, CHR 0xD1, CHR 0x88, CHR 0xD0, CHR 0xB8, CHR 0xD1, CHR 0x82,
  CHR 0xD0, CHR 0xB5]"
  "phrasebook language_russian ''confirm_change'' = [CHR 0xD0, CHR 0x94, CHR 0xD0, CHR 0xB0, CHR 0x2C, CHR 0x20, CHR 0xD0, CHR
  0xBF, CHR 0xD0, CHR 0xBE, CHR 0xD0, CHR 0xB4, CHR 0xD1, CHR 0x82, CHR 0xD0, CHR 0xB2, CHR 0xD0, CHR 0xB5, CHR 0xD1, CHR 0x80,
  CHR 0xD0, CHR 0xB6, CHR 0xD0, CHR 0xB4, CHR 0xD0, CHR 0xB0, CHR 0xD1, CHR 0x8E]"
  "phrasebook language_russian ''leave_it_alone'' = [CHR 0xD0, CHR 0x9D, CHR 0xD0, CHR 0xB5, CHR 0xD1, CHR 0x82, CHR 0x2C, CHR
  0x20, CHR 0xD0, CHR 0xBE, CHR 0xD1, CHR 0x81, CHR 0xD1, CHR 0x82, CHR 0xD0, CHR 0xB0, CHR 0xD0, CHR 0xB2, CHR 0xD1, CHR 0x8C,
  CHR 0xD1, CHR 0x82, CHR 0xD0, CHR 0xB5]"
  by (simp_all add: phrasebook_def row_or_def english_labels_def armenian_labels_def russian_labels_def encoded_labels)

definition menu_keys :: "(string \<times> string) list" where
  "menu_keys = [(''book_a_visit'', ''book''), (''services_prices'', ''services''), (''my_appointments'', ''appointments''),
     (''talk_to_a_person'', ''person''), (''contact'', ''contact'')]"

definition answer_keys :: "string list" where
  "answer_keys = [''confirm_change'', ''leave_it_alone'', ''confirm_booking'']"

definition change_labels :: "string list" where
  "change_labels = concat (map (\<lambda>lang. [phrasebook lang ''confirm_change'', phrasebook lang ''leave_it_alone'']) languages)"

lemma labels_plain:
  "list_all (\<lambda>lang. list_all (\<lambda>k. trim_space (phrasebook lang k) = phrasebook lang k \<and>
     \<not> has_prefix (phrasebook lang k) ''/'') (map fst menu_keys @ answer_keys)) languages"
  unfolding languages_def menu_keys_def answer_keys_def
  by (simp only: list.pred_inject append.simps list.map fst_conv label_bytes simp_thms; code_simp)

lemma labels_act:
  "list_all (\<lambda>lang. list_all (\<lambda>(k, a).
     find (\<lambda>a. a \<noteq> []) (map (label_action phrasebook (phrasebook lang k)) languages) = Some a) menu_keys) languages"
  unfolding languages_def menu_keys_def label_action_def
  by (simp only: list.pred_inject list.map prod.case label_bytes simp_thms; code_simp)

lemma labels_uncut:
  "list_all (\<lambda>lang. list_all (\<lambda>k. trim_cut [''!'', ''.'', '','', ''?'', [CHR 0xD6, CHR 0x89]] (phrasebook lang k) = phrasebook lang k \<and>
     trim_cut [''!'', ''.'', '','', [CHR 0xD6, CHR 0x89]] (phrasebook lang k) = phrasebook lang k) answer_keys) languages"
  unfolding languages_def answer_keys_def
  by (simp only: list.pred_inject label_bytes simp_thms; code_simp)

lemma full_stop_bytes: "armenian_full_stop = [CHR 0xD6, CHR 0x89]"
  unfolding armenian_full_stop_def
  by (rule utf8_bytes) (simp add: encode_rune_def encode_scalar_def is_scalar_def)

text \<open>The first label that equals the pressed one decides; lower-casing confuses no two labels.\<close>

abbreviation answer_table :: "(string \<times> int) list" where
  "answer_table \<equiv> concat (map (\<lambda>lang. [(phrasebook lang ''confirm_change'', 1), (phrasebook lang ''leave_it_alone'', - 1)]) languages)"

lemma answers_found:
  "list_all (\<lambda>lang. find (\<lambda>(v, n). phrasebook lang ''confirm_change'' = v) answer_table =
       Some (phrasebook lang ''confirm_change'', 1) \<and>
     find (\<lambda>(v, n). phrasebook lang ''leave_it_alone'' = v) answer_table = Some (phrasebook lang ''leave_it_alone'', - 1)) languages"
  unfolding languages_def
  by (simp only: list.pred_inject list.map concat.simps append.simps label_bytes simp_thms; code_simp)

lemma find_inj:
  assumes "inj_on f (insert l (fst ` set ps))"
  shows "find (\<lambda>(v, n). f l = f v) ps = find (\<lambda>(v, n). l = v) ps"
  using assms
proof (induction ps)
  case (Cons p ps)
  obtain v n where p: "p = (v, n)" by force
  from Cons.prems have "f l = f v \<longleftrightarrow> l = v" by (auto simp: p inj_on_def)
  moreover have "inj_on f (insert l (fst ` set ps))" using Cons.prems by (rule inj_on_subset) auto
  ultimately show ?case using Cons.IH by (simp add: p)
qed simp

lemma set_change_labels: "set change_labels = fst ` set answer_table"
  by (simp add: change_labels_def image_UN)

lemma change_answer_label:
  assumes "inj_on lower (set change_labels)" "l \<in> set change_labels" "trim_space l = l"
    "trim_cut answer_cut l = l" "find (\<lambda>(v, n). l = v) answer_table = Some (l, n)"
  shows "change_answer phrasebook lower l = n"
proof -
  have "find (\<lambda>(v, n). lower l = lower v) answer_table = find (\<lambda>(v, n). l = v) answer_table"
    by (rule find_inj) (use assms(1,2) in \<open>simp only: set_change_labels insert_absorb\<close>)
  with assms(3-5) show ?thesis by (simp add: change_answer_def Let_def)
qed

definition understood :: "(string \<Rightarrow> string) \<Rightarrow> (string \<Rightarrow> string \<Rightarrow> bool) \<Rightarrow> string \<Rightarrow> bool" where
  "understood lower fold_eq lang \<longleftrightarrow>
     list_all (\<lambda>(k, a). menu_action phrasebook lower (phrasebook lang k) = a) menu_keys \<and>
     change_answer phrasebook lower (phrasebook lang ''confirm_change'') = 1 \<and>
     change_answer phrasebook lower (phrasebook lang ''leave_it_alone'') = - 1 \<and>
     explicitly_confirms_booking phrasebook lower fold_eq (phrasebook lang ''confirm_booking'') lang"

lemma labels_understood:
  assumes "inj_on lower (set change_labels)" "\<And>x. fold_eq x x" "lang \<in> set languages"
  shows "understood lower fold_eq lang"
proof -
  have plain: "trim_space (phrasebook lang k) = phrasebook lang k \<and> \<not> has_prefix (phrasebook lang k) ''/''"
    if "k \<in> set (map fst menu_keys @ answer_keys)" for k
    using labels_plain assms(3) that by (auto simp: list_all_iff)
  have "menu_action phrasebook lower (phrasebook lang k) = a" if "(k, a) \<in> set menu_keys" for k a
    using labels_act assms(3) that plain [of k] image_eqI [of k fst "(k, a)"]
    by (fastforce simp: list_all_iff menu_action_def command_in_def Let_def)
  moreover have "change_answer phrasebook lower (phrasebook lang ''confirm_change'') = 1"
    "change_answer phrasebook lower (phrasebook lang ''leave_it_alone'') = - 1"
    using assms(3) labels_uncut answers_found plain
    by (auto simp: list_all_iff answer_keys_def answer_cut_def full_stop_bytes change_labels_def
        intro!: change_answer_label [OF assms(1)])
  moreover have "explicitly_confirms_booking phrasebook lower fold_eq (phrasebook lang ''confirm_booking'') lang"
    using assms(2,3) labels_uncut plain [of "''confirm_booking''"]
    by (auto simp: list_all_iff answer_keys_def full_stop_bytes explicitly_confirms_booking_def Let_def)
  ultimately show ?thesis by (auto simp: understood_def list_all_iff)
qed

end
