(* ===== verification/AssistantProperties.thy ===== *)
theory AssistantProperties
  imports ReplyChanges RelayLaws Pressed DomainProperties
begin

text \<open>
  The properties of the assistant: handling one inbound message from its claim to the settled
  delivery, colleagues' answers, and what a customer's press of a button means.
\<close>

section \<open>Handling a message\<close>



text \<open>
  C2. Handling one inbound message sends the customer at most one message, to the chat the message
  came from, however the store, the calendar, the model and the channel fail or answer.
\<close>

theorem handle_sends_once:
  "\<exists>new. logged sends (snd (handle env msg w)) = logged sends w @ new \<and> length new \<le> 1 \<and>
     list_all (\<lambda>(eff, x). case eff of SendMessage out \<Rightarrow> to_chat msg out | _ \<Rightarrow> False) new"
  using one_send_handle [of msg env] unfolding one_send_def adds_def by blast


text \<open>
  C8. With a store that works, no claim outlives its handling: afterwards every row of the table of
  deliveries was there before, or is the record that this message is done with.
\<close>

theorem handle_leaves_no_claim:
  assumes "reliable env" "table_inv (db_processed (w_db w))"
    "get_row (db_processed (w_db (snd (handle env msg w)))) k = Some e"
  shows "get_row (db_processed (w_db w)) k = Some e \<or> k = dedupe_key msg \<and> pe_claim_id e = []"
  using handle_debts [OF assms(1,2) surjective_pairing [of "handle env msg w"]] assms(3)
  by (auto simp: settled_debts_def debts_def)

definition sample_handle :: "bool \<Rightarrow> handle_env" where
  "sample_handle deliverable =
     \<lparr>e_now = (\<lambda>n. 100), e_fresh = (\<lambda>n. ''id''), e_fault = (\<lambda>n. Works), e_outcome = (\<lambda>n. None),
      re_senders = (\<lambda>p. None), re_resolve_language = None, re_conversations = True, re_reader = None, re_lead_time = 800,
      re_text = (\<lambda>lang b. []), re_links = (\<lambda>lang b. []), re_calendar_url = (\<lambda>lang b. []), re_hash = (\<lambda>s. s),
      re_render_time = (\<lambda>t. []), tl_identity = None, tl_bookings = True, tl_customers = True, tl_reminders = False,
      tl_lib = (\<lambda>s. None), tl_services = (\<lambda>n. Inr []), tl_staff = (\<lambda>n. Inr []), tl_dates = (\<lambda>n s. Inr []),
      tl_slots = (\<lambda>n s d. Inr []), tl_filtered = None, tl_check = (\<lambda>n s. None),
      tl_create = (\<lambda>n r. Inl (sentinel_error BookingUnavailable)), tl_reschedule = (\<lambda>n b t. Inr b),
      tl_phone_bookings = None, tl_read_booking = None, tl_management_proof = None, tl_parse_time = (\<lambda>s. None),
      tl_parse_day = (\<lambda>s. None), tl_day_start = (\<lambda>t. t), tl_clock_text = (\<lambda>t. []), tl_day_label = (\<lambda>t. []),
      tl_links = (\<lambda>lang u r. []), tl_words = phrasebook, tl_equal_fold = (=), tl_to_lower = ascii_lower,
      as_senders = (\<lambda>p. None), as_send = (\<lambda>n out. Inr ''m1''), as_staff = Some True, as_lock_key = (\<lambda>s. s),
      as_done = (\<lambda>n. None), as_sha = (\<lambda>s. s), as_linker = False,
      dg_business = \<lparr>bz_name = ''Studio'', bz_booking_url = [], bz_website_url = [], bz_instagram_url = [],
        bz_facebook_url = [], bz_telegram_url = [], bz_whatsapp_url = [], bz_tiktok_url = [], bz_youtube_url = [],
        bz_map_url = [], bz_yandex_map_url = []\<rparr>,
      dg_iso_day = (\<lambda>t. []), dg_word_rune = (\<lambda>r. True), dg_render = (\<lambda>t. ''text''), dg_preferred = None,
      md_model = None, md_purpose = None, md_json = (\<lambda>ns s. Inr []), md_encode = (\<lambda>a. []), md_superseded = (\<lambda>n. False),
      hd_available = Some (\<lambda>n p. Inr deliverable), hd_download = (\<lambda>p. None), hd_transcribe = None\<rparr>"

text \<open>Another worker is handling the same message.\<close>

definition busy_world :: world where
  "busy_world = \<lparr>w_db = new_store\<lparr>db_processed :=
     [(''telegram:12:m1'', \<lparr>pe_claim_id = ''other'', pe_processed_at = zero_time, pe_expires_at = 400\<rparr>)]\<rparr>,
     w_tick = 0, w_log = []\<rparr>"

abbreviation sample_msg :: envelope where "sample_msg \<equiv> sample_envelope ProviderTelegram ''12'' ''m1''"

lemma sample_reliable: "reliable (sample_handle d)" "table_inv (db_processed (w_db busy_world))"
  by (simp_all add: reliable_def sample_handle_def busy_world_def table_inv_def)

lemma busy_handled:
  "fst (handle (sample_handle d) sample_msg busy_world) = Inl (wrap_error ''claim the delivery'' (sentinel_error DeliveryBusy))"
  "db_processed (w_db (snd (handle (sample_handle d) sample_msg busy_world))) = db_processed (w_db busy_world)"
  by (simp_all add: handle_def sample_envelope_def envelope_validate_def dedupe_key_def sample_handle_def busy_world_def
      attempt_apply clock_apply fresh_apply store_def claim_delivery_def after_def is_zero_def)

theorem handle_leaves_no_claim_witness:
  "get_row (db_processed (w_db busy_world)) ''telegram:12:m1'' \<noteq> None"
proof -
  have "get_row (db_processed (w_db (snd (handle (sample_handle True) sample_msg busy_world)))) ''telegram:12:m1'' =
      Some \<lparr>pe_claim_id = ''other'', pe_processed_at = zero_time, pe_expires_at = 400\<rparr>"
    by (subst busy_handled(2)) (simp add: busy_world_def)
  from handle_leaves_no_claim [OF sample_reliable this] show ?thesis by auto
qed






section \<open>Colleagues\<close>

text \<open>
  A colleague's answer is sent to the customer at most once per call, word for word with the
  colleague's name, whatever fails on the way.
\<close>

theorem relay_sends_once:
  "\<exists>new. logged sends (snd (relay_staff_reply env reply w)) = logged sends w @ new \<and> length new \<le> 1 \<and>
     list_all (\<lambda>(eff, x). case eff of SendMessage out \<Rightarrow> og_text out = signed_text reply | _ \<Rightarrow> False) new"
  using one_send_relay_staff [of reply env] unfolding one_send_def adds_def by blast

text \<open>
  C9. A colleague's words reach the customer only after the store has the conversation with a person,
  and it still has when the call ends, so that the assistant does not talk over the colleague.
\<close>

theorem relay_takes_over_first:
  "logged sends (snd (relay_to env reply c w)) = logged sends w \<or>
   (\<exists>d. get_row (db_conversations (w_db (snd (relay_to env reply c w)))) (conv_key c) = Some d \<and>
      cv_state d = StateHumanActive)"
  using relay_takes_over [of env reply c w] unfolding with_person_def .

section \<open>What is shown and understood\<close>

text \<open>
  C37. Every label the assistant shows is understood when the customer sends it back, in all three
  languages: each entry of the menu, the two answers to a proposed change and the answer to a proposed
  booking. Lower-casing must keep the six labels of a change apart.
\<close>

theorem pressed_labels_understood:
  assumes "inj_on lower (set change_labels)" "\<And>x. fold_eq x x" "lang \<in> set languages"
  shows "list_all (\<lambda>(k, a). menu_action phrasebook lower (phrasebook lang k) = a) menu_keys \<and>
    change_answer phrasebook lower (phrasebook lang ''confirm_change'') = 1 \<and>
    change_answer phrasebook lower (phrasebook lang ''leave_it_alone'') = - 1 \<and>
    explicitly_confirms_booking phrasebook lower fold_eq (phrasebook lang ''confirm_booking'') lang"
  using labels_understood [OF assms] unfolding understood_def .

theorem pressed_labels_understood_witness:
  "change_answer phrasebook id (phrasebook ''hy'' ''confirm_change'') = 1 \<and>
   explicitly_confirms_booking phrasebook id (=) (phrasebook ''ru'' ''confirm_booking'') ''ru''"
  using pressed_labels_understood [of id "(=)" "''hy''"] pressed_labels_understood [of id "(=)" "''ru''"]
  by (simp add: languages_def)

text \<open>
  What the model reads of the conversation is bounded: at most 16000 runes, at most 4000 of one
  message, and the messages left out are the oldest.
\<close>

theorem model_input_bounded:
  "let ms = bounded_studio_messages words lower transcript in
     sum_list (map (rune_count \<circ> am_text) ms) \<le> 16000 \<and> list_all (\<lambda>m. rune_count (am_text m) \<le> 4000) ms \<and>
     (\<exists>old. map am_role (to_ai_messages words lower transcript) = old @ map am_role ms)"
proof -
  obtain ms where ms: "ms = rev (to_ai_messages words lower transcript)" by simp
  obtain kept where kept: "kept = bound_back 4000 16000 ms" by simp
  note bounds = bound_back_bounds [of 4000 16000 ms, folded kept]
  have "map am_role ms = map am_role kept @ drop (length kept) (map am_role ms)"
    using bounds by (metis append_take_drop_id order_refl)
  then have "rev (map am_role ms) = rev (drop (length kept) (map am_role ms)) @ rev (map am_role kept)"
    by (metis rev_append)
  then have "\<exists>old. map am_role (to_ai_messages words lower transcript) = old @ map am_role (rev kept)"
    by (auto simp: ms rev_map)
  then show ?thesis using bounds
    by (simp add: bounded_studio_messages_def Let_def ms kept rev_map [symmetric] sum_list_rev list_all_iff)
qed

end
