(* ===== verification/TaskQueues.thy ===== *)
theory TaskQueues
  imports Prelude
begin

text \<open>
  The queues of delayed work (\<open>internal/adapters/tasks\<close>): the timers of the development process, the
  hosted queue, the identity check of its calls and the endpoint they arrive at. The timers are a
  step relation, because a timer fires, waits for the lock, runs and retries beside other calls. The
  hosted queue and the check of a token are libraries: \<open>create\<close> and \<open>validate\<close> are parameters.
\<close>

section \<open>Timers of the process\<close>

record delayed_task =
  tk_id :: string
  tk_reminder_id :: string
  tk_run_at :: time

record local_scheduler =
  ls_timers :: "delayed_task table"
  ls_fired :: "delayed_task list"
  ls_running :: "delayed_task list"
  ls_closed :: bool

definition delivery_timeout :: duration where "delivery_timeout = minute"
definition retry_delay :: duration where "retry_delay = 10 * second"

definition new_local_scheduler :: local_scheduler where
  "new_local_scheduler = \<lparr>ls_timers = [], ls_fired = [], ls_running = [], ls_closed = False\<rparr>"

definition task_complete :: "delayed_task \<Rightarrow> bool" where
  "task_complete t \<longleftrightarrow> tk_id t \<noteq> [] \<and> tk_reminder_id t \<noteq> [] \<and> \<not> is_zero (tk_run_at t)"

definition local_schedule :: "delayed_task \<Rightarrow> (local_scheduler, unit) proc" where
  "local_schedule task s =
     (if \<not> task_complete task then (Inl (errors_new ''local task scheduler: task is incomplete''), s)
      else if ls_closed s then (Inl (errors_new ''local task scheduler: closed''), s)
      else if get_row (ls_timers s) (tk_id task) \<noteq> None then (Inr (), s)
      else (Inr (), s\<lparr>ls_timers := put_row (tk_id task) task (ls_timers s)\<rparr>))"

text \<open>
  The function of the timer waits for the lock (\<open>ls_fired\<close>); until it has it, the timer keeps its
  place. What it does with the lock depends on \<open>Close\<close>.
\<close>

definition timer_runs :: "delayed_task \<Rightarrow> local_scheduler \<Rightarrow> local_scheduler" where
  "timer_runs task s =
     (let s = s\<lparr>ls_fired := remove1 task (ls_fired s), ls_timers := delete_row (tk_id task) (ls_timers s)\<rparr> in
      if ls_closed s then s else s\<lparr>ls_running := task # ls_running s\<rparr>)"

definition handler_returned :: "time \<Rightarrow> delayed_task \<Rightarrow> bool \<Rightarrow> local_scheduler \<Rightarrow> local_scheduler" where
  "handler_returned now task ok s =
     (let s = (if ok then s else snd (local_schedule (task\<lparr>tk_run_at := now + retry_delay\<rparr>) s)) in
      s\<lparr>ls_running := remove1 task (ls_running s)\<rparr>)"

definition local_close :: "local_scheduler \<Rightarrow> local_scheduler" where
  "local_close s = (if ls_closed s then s else s\<lparr>ls_closed := True, ls_timers := []\<rparr>)"

inductive local_step :: "local_scheduler \<Rightarrow> local_scheduler \<Rightarrow> bool" where
  schedules: "local_step s (snd (local_schedule task s))"
| fires: "get_row (ls_timers s) i = Some task \<Longrightarrow> task \<notin> set (ls_fired s) \<Longrightarrow> tk_run_at task \<le> now \<Longrightarrow>
    local_step s (s\<lparr>ls_fired := task # ls_fired s\<rparr>)"
| runs: "task \<in> set (ls_fired s) \<Longrightarrow> local_step s (timer_runs task s)"
| returns: "task \<in> set (ls_running s) \<Longrightarrow> zero_time < now + retry_delay \<Longrightarrow> local_step s (handler_returned now task ok s)"
| closes: "local_step s (local_close s)"

inductive local_reachable :: "local_scheduler \<Rightarrow> bool" where
  new: "local_reachable new_local_scheduler"
| after: "local_reachable s \<Longrightarrow> local_step s s' \<Longrightarrow> local_reachable s'"

inductive_cases local_stepE: "local_step s s'"

text \<open>Any number of steps from a state.\<close>

inductive local_steps :: "local_scheduler \<Rightarrow> local_scheduler \<Rightarrow> bool" where
  none: "local_steps s s"
| more: "local_steps s s' \<Longrightarrow> local_step s' s'' \<Longrightarrow> local_steps s s''"

lemmas local_defs = local_schedule_def timer_runs_def handler_returned_def local_close_def Let_def

section \<open>What the timers keep\<close>

text \<open>
  Timers sit under the ids of complete tasks; a timer that has fired keeps its place until it runs,
  so there is one per id, and a closed scheduler has no timers.
\<close>

definition local_inv :: "local_scheduler \<Rightarrow> bool" where
  "local_inv s \<longleftrightarrow>
     table_all (\<lambda>k t. tk_id t = k \<and> task_complete t) (ls_timers s) \<and>
     (\<not> ls_closed s \<longrightarrow> (\<forall>t \<in> set (ls_fired s). get_row (ls_timers s) (tk_id t) = Some t)) \<and>
     distinct (map tk_id (ls_fired s)) \<and>
     (\<forall>t \<in> set (ls_fired s) \<union> set (ls_running s). task_complete t) \<and>
     (ls_closed s \<longrightarrow> ls_timers s = [])"

lemma in_remove1: "x \<in> set (remove1 y xs) \<Longrightarrow> x \<in> set xs"
  using set_remove1_subset [of y xs] by blast

lemma local_invD:
  assumes "local_inv s"
  shows "table_all (\<lambda>k t. tk_id t = k \<and> task_complete t) (ls_timers s)"
    and "distinct (map tk_id (ls_fired s))" "t \<in> set (ls_fired s) \<union> set (ls_running s) \<Longrightarrow> task_complete t"
    and "\<not> ls_closed s \<Longrightarrow> t \<in> set (ls_fired s) \<Longrightarrow> get_row (ls_timers s) (tk_id t) = Some t"
    and "ls_closed s \<Longrightarrow> ls_timers s = []"
  using assms by (auto simp: local_inv_def)

lemma fires_once: "local_inv s \<Longrightarrow> get_row (ls_timers s) i = Some task \<Longrightarrow> task \<notin> set (ls_fired s) \<Longrightarrow>
    \<not> ls_closed s \<and> tk_id task = i \<and> task_complete task \<and> tk_id task \<notin> tk_id ` set (ls_fired s)"
proof -
  assume inv: "local_inv s" and row: "get_row (ls_timers s) i = Some task" and new: "task \<notin> set (ls_fired s)"
  have id: "tk_id task = i" "task_complete task" using table_allD [OF local_invD(1) [OF inv] row] by simp_all
  have "\<not> ls_closed s" using local_invD(5) [OF inv] row by auto
  moreover have "tk_id task \<notin> tk_id ` set (ls_fired s)"
    using local_invD(4) [OF inv \<open>\<not> ls_closed s\<close>] row new id(1) by (metis imageE option.inject)
  ultimately show ?thesis using id by simp
qed

lemma runs_alone:
  assumes "distinct (map tk_id fired)" "task \<in> set fired" "t \<in> set (remove1 task fired)"
  shows "tk_id t \<noteq> tk_id task"
  using assms by (induction fired) (auto split: if_splits simp: image_iff dest: in_remove1)

lemma local_schedule_inv: "local_inv s \<Longrightarrow> local_inv (snd (local_schedule task s))"
  by (auto simp: local_inv_def local_schedule_def)

lemma local_inv_step:
  assumes "local_inv s" "local_step s s'"
  shows "local_inv s'"
  using assms(2)
proof cases
  case schedules
  then show ?thesis using assms(1) by (simp add: local_schedule_inv)
next
  case (fires i task now)
  show ?thesis using assms(1) fires fires_once [OF assms(1) fires(2,3)] by (auto simp: local_inv_def)
next
  case (runs task)
  have "distinct (map tk_id (remove1 task (ls_fired s)))"
    using local_invD(2) [OF assms(1)] by (simp add: distinct_map distinct_remove1 inj_on_def)
  moreover have "tk_id t \<noteq> tk_id task" if "t \<in> set (remove1 task (ls_fired s))" for t
    using runs_alone [OF local_invD(2) [OF assms(1)] runs(2) that] .
  ultimately show ?thesis
    using assms(1) runs unfolding local_inv_def timer_runs_def Let_def
    by (auto dest: in_remove1)
next
  case (returns task now ok)
  have "local_inv (if ok then s else snd (local_schedule (task\<lparr>tk_run_at := now + retry_delay\<rparr>) s))"
    using assms(1) by (simp add: local_schedule_inv)
  then show ?thesis
    unfolding returns(1) handler_returned_def Let_def local_inv_def
    by (auto dest: in_remove1)
next
  case closes
  then show ?thesis using assms(1) by (auto simp: local_inv_def local_close_def)
qed

lemma local_reachable_inv: "local_reachable s \<Longrightarrow> local_inv s"
  by (induction rule: local_reachable.induct)
    (simp_all add: local_inv_step, simp add: new_local_scheduler_def local_inv_def)

section \<open>Accepted work is not lost\<close>

text \<open>The ids that were accepted and whose handler has not succeeded since.\<close>

inductive outstanding :: "local_scheduler \<Rightarrow> string set \<Rightarrow> bool" where
  new: "outstanding new_local_scheduler {}"
| accepted: "outstanding s ids \<Longrightarrow> local_schedule task s = (Inr (), s') \<Longrightarrow> outstanding s' (insert (tk_id task) ids)"
| refused: "outstanding s ids \<Longrightarrow> local_schedule task s = (Inl e, s') \<Longrightarrow> outstanding s' ids"
| fires: "outstanding s ids \<Longrightarrow> get_row (ls_timers s) i = Some task \<Longrightarrow> task \<notin> set (ls_fired s) \<Longrightarrow>
    tk_run_at task \<le> now \<Longrightarrow> outstanding (s\<lparr>ls_fired := task # ls_fired s\<rparr>) ids"
| runs: "outstanding s ids \<Longrightarrow> task \<in> set (ls_fired s) \<Longrightarrow> outstanding (timer_runs task s) ids"
| succeeds: "outstanding s ids \<Longrightarrow> task \<in> set (ls_running s) \<Longrightarrow>
    outstanding (handler_returned now task True s) (ids - {tk_id task})"
| fails: "outstanding s ids \<Longrightarrow> task \<in> set (ls_running s) \<Longrightarrow> zero_time < now + retry_delay \<Longrightarrow>
    outstanding (handler_returned now task False s) ids"
| closes: "outstanding s ids \<Longrightarrow> outstanding (local_close s) ids"

definition under_way :: "local_scheduler \<Rightarrow> string set" where
  "under_way s = {i. get_row (ls_timers s) i \<noteq> None} \<union> tk_id ` set (ls_running s)"

lemma under_way_run: "\<not> ls_closed s \<Longrightarrow> under_way (timer_runs task s) = insert (tk_id task) (under_way s)"
  by (auto simp: under_way_def timer_runs_def Let_def)

lemma remove1_ids: "tk_id ` set xs \<subseteq> insert (tk_id x) (tk_id ` set (remove1 x xs))"
  by (induction xs) auto

lemma handled_closed [simp]:
  "ls_closed (handler_returned now task ok s) = ls_closed s" "ls_closed (timer_runs task s) = ls_closed s"
  "ls_closed (snd (local_schedule task s)) = ls_closed s" "ls_closed (local_close s)"
  by (simp_all add: local_defs)

lemma under_way_failed:
  assumes "local_inv s" "\<not> ls_closed s" "task \<in> set (ls_running s)" "zero_time < now + retry_delay"
  shows "under_way s \<subseteq> under_way (handler_returned now task False s)"
proof -
  have "task_complete (task\<lparr>tk_run_at := now + retry_delay\<rparr>)"
    using local_invD(3) [OF assms(1)] assms(3,4) by (auto simp: task_complete_def is_zero_def)
  then have timers: "get_row (ls_timers (handler_returned now task False s)) i \<noteq> None \<longleftrightarrow>
      i = tk_id task \<or> get_row (ls_timers s) i \<noteq> None" for i
    using assms(2) by (auto simp: handler_returned_def local_schedule_def Let_def)
  have "ls_running (handler_returned now task False s) = remove1 task (ls_running s)"
    by (simp add: handler_returned_def local_schedule_def Let_def)
  then show ?thesis using timers remove1_ids [of "ls_running s" task] by (auto simp: under_way_def)
qed

lemma outstanding_under_way: "outstanding s ids \<Longrightarrow> local_inv s \<and> (\<not> ls_closed s \<longrightarrow> ids \<subseteq> under_way s)"
proof (induction rule: outstanding.induct)
  case new
  show ?case by (simp add: local_inv_def new_local_scheduler_def)
next
  case (accepted s ids task s')
  then have "local_inv s'" using local_schedule_inv [of s task] by simp
  moreover have "ls_closed s' = ls_closed s" "under_way s' = insert (tk_id task) (under_way s)"
    using accepted(2) by (auto simp: local_schedule_def under_way_def split: if_splits)
  ultimately show ?case using accepted.IH by auto
next
  case (refused s ids task e s')
  then show ?case by (auto simp: local_schedule_def split: if_splits)
next
  case (fires s ids i task now)
  then have "local_inv (s\<lparr>ls_fired := task # ls_fired s\<rparr>)" by (blast intro: local_inv_step local_step.fires)
  with fires.IH show ?case by (simp add: under_way_def)
next
  case (runs s ids task)
  then have "local_inv (timer_runs task s)" by (blast intro: local_inv_step local_step.runs)
  with runs.IH show ?case using under_way_run [of s task] by auto
next
  case (succeeds s ids task now)
  then have "local_inv (handler_returned now task True s)"
    by (auto simp: handler_returned_def Let_def local_inv_def dest: in_remove1)
  moreover have "under_way s - {tk_id task} \<subseteq> under_way (handler_returned now task True s)"
    using remove1_ids [of "ls_running s" task] by (auto simp: under_way_def handler_returned_def)
  ultimately show ?case using succeeds.IH by auto
next
  case (fails s ids task now)
  then have "local_inv (handler_returned now task False s)" by (blast intro: local_inv_step local_step.returns)
  with fails under_way_failed [of s task now] show ?case by auto
next
  case (closes s ids)
  then have "local_inv (local_close s)" by (blast intro: local_inv_step local_step.closes)
  then show ?case by simp
qed

section \<open>A closed scheduler\<close>

lemma closed_step:
  "local_inv s \<Longrightarrow> ls_closed s \<Longrightarrow> local_step s s' \<Longrightarrow>
   ls_closed s' \<and> ls_timers s' = [] \<and> set (ls_running s') \<subseteq> set (ls_running s)"
  by (erule local_stepE) (auto simp: local_defs local_inv_def dest: in_remove1 split: if_splits)

lemma closed_steps:
  "local_steps s s' \<Longrightarrow> local_inv s \<Longrightarrow> ls_closed s \<Longrightarrow>
   local_inv s' \<and> ls_closed s' \<and> set (ls_running s') \<subseteq> set (ls_running s)"
  by (induction rule: local_steps.induct) (auto dest: closed_step local_inv_step)

section \<open>The hosted queue\<close>

record queue_config =
  qc_project_id :: string
  qc_location :: string
  qc_queue :: string
  qc_target_url :: string
  qc_audience :: string
  qc_service_account :: string

record http_task =
  ht_name :: string
  ht_url :: string
  ht_body :: "(string \<times> string) list"
  ht_audience :: string
  ht_service_account :: string
  ht_schedule_time :: time

datatype create_status = Created | AlreadyExists | CreateFailed go_error

text \<open>The client of the queue: the call, and the range of its time stamps. A body is kept as its fields.\<close>

record 'q queue_client =
  qe_create :: "http_task \<Rightarrow> 'q \<Rightarrow> create_status \<times> 'q"
  qe_valid_time :: "time \<Rightarrow> bool"

definition maximum_schedule_delay :: duration where "maximum_schedule_delay = 30 * 24 * hour"

definition queue_config_validate :: "queue_config \<Rightarrow> go_error option" where
  "queue_config_validate c =
     (if qc_project_id c = [] then Some (errors_new ''cloud tasks: project id is required'')
      else if qc_location c = [] then Some (errors_new ''cloud tasks: location is required'')
      else if qc_queue c = [] then Some (errors_new ''cloud tasks: queue is required'')
      else if \<not> has_prefix (qc_target_url c) ''https://'' then Some (errors_new ''cloud tasks: target URL must use https'')
      else if qc_audience c = [] then Some (errors_new ''cloud tasks: OIDC audience is required'')
      else if qc_service_account c = [] then Some (errors_new ''cloud tasks: service account email is required'')
      else None)"

definition queue_parent :: "queue_config \<Rightarrow> string" where
  "queue_parent c = ''projects/'' @ qc_project_id c @ ''/locations/'' @ qc_location c @ ''/queues/'' @ qc_queue c"

definition schedule_body ::
  "'q queue_client \<Rightarrow> queue_config \<Rightarrow> string \<Rightarrow> time \<Rightarrow> (string \<times> string) list \<Rightarrow> ('q, unit) proc" where
  "schedule_body client cfg task run_at body q =
     (if \<not> qe_valid_time client run_at then (Inl (errors_new ''cloud tasks: invalid run time''), q)
      else case qe_create client
          \<lparr>ht_name = queue_parent cfg @ ''/tasks/'' @ task, ht_url = qc_target_url cfg, ht_body = body,
           ht_audience = qc_audience cfg, ht_service_account = qc_service_account cfg, ht_schedule_time = run_at\<rparr> q of
        (Created, q') \<Rightarrow> (Inr (), q')
      | (AlreadyExists, q') \<Rightarrow> (Inr (), q')
      | (CreateFailed e, q') \<Rightarrow> (Inl (wrap_error ''cloud tasks: create task'' e), q'))"

definition cloud_schedule ::
  "'q queue_client \<Rightarrow> queue_config \<Rightarrow> time \<Rightarrow> delayed_task \<Rightarrow> ('q, unit) proc" where
  "cloud_schedule client cfg now task q =
     (if \<not> task_complete task then (Inl (errors_new ''cloud tasks: task is incomplete''), q)
      else if after (tk_run_at task) (now + maximum_schedule_delay)
      then (Inl (errors_new ''cloud tasks: run time exceeds the scheduling limit''), q)
      else schedule_body client cfg (tk_id task) (tk_run_at task) [(''reminder_id'', tk_reminder_id task)] q)"

definition cloud_schedule_notification ::
  "'q queue_client \<Rightarrow> queue_config \<Rightarrow> string \<Rightarrow> string \<Rightarrow> time \<Rightarrow> ('q, unit) proc" where
  "cloud_schedule_notification client cfg task event run_at q =
     (if task = [] \<or> event = [] \<or> is_zero run_at then (Inl (errors_new ''cloud tasks: notification is incomplete''), q)
      else schedule_body client cfg task run_at [(''event_id'', event)] q)"

section \<open>The identity of a call\<close>

definition new_authorizer :: "string \<Rightarrow> string \<Rightarrow> go_error option" where
  "new_authorizer audience service_account =
     (if audience = [] then Some (errors_new ''cloud tasks authorizer: audience is required'')
      else if service_account = [] then Some (errors_new ''cloud tasks authorizer: service account is required'')
      else None)"

text \<open>\<open>validate\<close> gives the email claim of a valid token, if it has one that is a string.\<close>

definition authorize ::
  "(string \<Rightarrow> string \<Rightarrow> string option result) \<Rightarrow> string \<Rightarrow> string \<Rightarrow> string \<Rightarrow> go_error option" where
  "authorize validate audience service_account authorization =
     (if \<not> has_prefix authorization ''Bearer '' then Some (errors_new ''cloud tasks authorizer: bearer token is required'')
      else let token = trim_space (trim_prefix authorization ''Bearer '') in
        if token = [] then Some (errors_new ''cloud tasks authorizer: bearer token is empty'')
        else case validate token audience of
          Inl e \<Rightarrow> Some (wrap_error ''cloud tasks authorizer: invalid token'' e)
        | Inr claim \<Rightarrow>
          if (case claim of None \<Rightarrow> [] | Some email \<Rightarrow> email) \<noteq> service_account
          then Some (errors_new ''cloud tasks authorizer: unexpected service account'') else None)"

section \<open>The endpoint\<close>

definition max_task_body :: nat where "max_task_body = 4 * 1024"

datatype http_status = NoContent | Unauthorized | InternalServerError

text \<open>
  \<open>decode\<close> reads the one known field of the JSON body, and nothing when the body is malformed or has
  another field; \<open>deliver\<close> is the delivery of the reminders.
\<close>

definition task_endpoint ::
  "(string \<Rightarrow> go_error option) \<Rightarrow> (string \<Rightarrow> string option) \<Rightarrow> (string \<Rightarrow> ('s, unit) proc) \<Rightarrow>
   string \<Rightarrow> string \<Rightarrow> 's \<Rightarrow> http_status \<times> 's" where
  "task_endpoint auth decode deliver authorization body s =
     (case auth authorization of
        Some e \<Rightarrow> (Unauthorized, s)
      | None \<Rightarrow>
        (case decode (take max_task_body body) of
           None \<Rightarrow> (NoContent, s)
         | Some reminder \<Rightarrow>
           if reminder = [] then (NoContent, s)
           else let (res, s') = deliver reminder s in
             (case res of Inr _ \<Rightarrow> NoContent
              | Inl e \<Rightarrow> if errors_is e ReminderNotFound then NoContent else InternalServerError, s')))"

section \<open>What a scheduler promises\<close>

text \<open>
  The interface the reminders rely on: a complete task that is accepted stays known under its id, and
  planning a known id again is success without a second task.
\<close>

locale scheduler =
  fixes schedule :: "delayed_task \<Rightarrow> ('s, unit) proc" and known :: "'s \<Rightarrow> string set"
  assumes incomplete: "\<not> task_complete t \<Longrightarrow> \<exists>e. schedule t s = (Inl e, s)"
    and accepted: "schedule t s = (Inr (), s') \<Longrightarrow> tk_id t \<in> known s'"
    and again: "tk_id t \<in> known s \<Longrightarrow> snd (schedule t s) = s"
    and kept: "known s \<subseteq> known (snd (schedule t s))"
begin

fun schedule_each :: "delayed_task list \<Rightarrow> 's \<Rightarrow> 's" where
  "schedule_each [] s = s"
| "schedule_each (t # ts) s = schedule_each ts (snd (schedule t s))"

lemma known_schedule_each: "known s \<subseteq> known (schedule_each ts s)"
  by (induction ts arbitrary: s) (use kept in fastforce)+

lemma planned_once:
  assumes "schedule t s = (Inr (), s')" "tk_id t' = tk_id t"
  shows "snd (schedule t' (schedule_each ts s')) = schedule_each ts s'"
proof -
  have "tk_id t' \<in> known s'" using accepted [OF assms(1)] assms(2) by simp
  then show ?thesis using known_schedule_each [of s' ts] by (intro again) blast
qed

end

interpretation local_queue: scheduler local_schedule "\<lambda>s. {i. ls_closed s \<or> get_row (ls_timers s) i \<noteq> None}"
  by standard (auto simp: local_schedule_def split: if_splits)

text \<open>
  The hosted queue keeps a name once it has taken it: the documented behaviour of named tasks, as a
  condition on the client.
\<close>

definition taken :: "'q queue_client \<Rightarrow> queue_config \<Rightarrow> 'q \<Rightarrow> string set" where
  "taken client cfg q = {i. \<forall>task. ht_name task = queue_parent cfg @ ''/tasks/'' @ i \<longrightarrow> snd (qe_create client task q) = q}"

definition keeps_names :: "'q queue_client \<Rightarrow> queue_config \<Rightarrow> bool" where
  "keeps_names client cfg \<longleftrightarrow> (\<forall>task q status q'. qe_create client task q = (status, q') \<longrightarrow>
     taken client cfg q \<subseteq> taken client cfg q' \<and>
     (status = Created \<or> status = AlreadyExists \<longrightarrow>
       (\<forall>task'. ht_name task' = ht_name task \<longrightarrow> snd (qe_create client task' q') = q')))"

lemma schedule_body_taken:
  assumes "keeps_names client cfg"
  shows "schedule_body client cfg i run_at body q = (Inr (), q') \<Longrightarrow> i \<in> taken client cfg q'"
    and "i \<in> taken client cfg q \<Longrightarrow> snd (schedule_body client cfg i run_at body q) = q"
    and "taken client cfg q \<subseteq> taken client cfg (snd (schedule_body client cfg i run_at body q))"
proof -
  let ?task = "\<lparr>ht_name = queue_parent cfg @ ''/tasks/'' @ i, ht_url = qc_target_url cfg, ht_body = body,
    ht_audience = qc_audience cfg, ht_service_account = qc_service_account cfg, ht_schedule_time = run_at\<rparr>"
  obtain status q2 where made: "qe_create client ?task q = (status, q2)" by fastforce
  show "i \<in> taken client cfg q'" if "schedule_body client cfg i run_at body q = (Inr (), q')"
  proof -
    have "status = Created \<or> status = AlreadyExists" "q2 = q'"
      using that made by (auto simp: schedule_body_def split: if_splits create_status.splits)
    then show ?thesis using assms made unfolding keeps_names_def taken_def by fastforce
  qed
  show "snd (schedule_body client cfg i run_at body q) = q" if "i \<in> taken client cfg q"
  proof -
    have "snd (qe_create client ?task q) = q" using that by (simp add: taken_def)
    with made have "q2 = q" by simp
    with made show ?thesis by (cases status) (simp_all add: schedule_body_def)
  qed
  show "taken client cfg q \<subseteq> taken client cfg (snd (schedule_body client cfg i run_at body q))"
    using assms made unfolding keeps_names_def
    by (auto simp: schedule_body_def split: create_status.splits prod.splits)
qed

lemma hosted_queue:
  assumes "keeps_names client cfg"
  shows "scheduler (cloud_schedule client cfg now) (taken client cfg)"
proof
  fix t :: delayed_task and s s'
  show "\<exists>e. cloud_schedule client cfg now t s = (Inl e, s)" if "\<not> task_complete t"
    using that by (simp add: cloud_schedule_def)
  show "tk_id t \<in> taken client cfg s'" if "cloud_schedule client cfg now t s = (Inr (), s')"
    using that schedule_body_taken(1) [OF assms] by (auto simp: cloud_schedule_def split: if_splits)
  show "snd (cloud_schedule client cfg now t s) = s" if "tk_id t \<in> taken client cfg s"
    using that schedule_body_taken(2) [OF assms] by (simp add: cloud_schedule_def)
  show "taken client cfg s \<subseteq> taken client cfg (snd (cloud_schedule client cfg now t s))"
    using schedule_body_taken(3) [OF assms] by (simp add: cloud_schedule_def)
qed

section \<open>Who may call, and what is tried again\<close>

lemma authorize_accepts:
  assumes "new_authorizer audience account = None"
  shows "authorize validate audience account header = None \<longleftrightarrow>
    (\<exists>rest. header = ''Bearer '' @ rest \<and> trim_space rest \<noteq> [] \<and> validate (trim_space rest) audience = Inr (Some account))"
proof -
  have "account \<noteq> []" using assms by (auto simp: new_authorizer_def split: if_splits)
  have "has_prefix header ''Bearer '' \<longleftrightarrow> (\<exists>rest. header = ''Bearer '' @ rest)"
    unfolding has_prefix_def by (metis append_eq_conv_conj append_take_drop_id)
  moreover have "authorize validate audience account (''Bearer '' @ rest) = None \<longleftrightarrow>
      trim_space rest \<noteq> [] \<and> validate (trim_space rest) audience = Inr (Some account)" for rest
  proof -
    have "has_prefix (''Bearer '' @ rest) ''Bearer ''" "trim_prefix (''Bearer '' @ rest) ''Bearer '' = rest"
      by (simp_all add: trim_prefix_def has_prefix_def)
    with \<open>account \<noteq> []\<close> show ?thesis
      unfolding authorize_def Let_def
      by (cases "validate (trim_space rest) audience") (auto split: option.split)
  qed
  moreover have "authorize validate audience account header \<noteq> None" if "\<not> has_prefix header ''Bearer ''"
    using that by (simp add: authorize_def)
  ultimately show ?thesis by metis
qed

lemma endpoint_status:
  assumes "task_endpoint auth decode deliver header body s = (status, s')"
  shows "status = Unauthorized \<longleftrightarrow> auth header \<noteq> None"
    and "auth header \<noteq> None \<Longrightarrow> s' = s"
    and "status = InternalServerError \<longleftrightarrow> auth header = None \<and>
      (\<exists>r e. decode (take max_task_body body) = Some r \<and> r \<noteq> [] \<and> fst (deliver r s) = Inl e \<and> \<not> errors_is e ReminderNotFound)"
proof -
  obtain d where d: "d = decode (take max_task_body body)" by simp
  have s: "task_endpoint auth decode deliver header body s =
      (case auth header of Some e \<Rightarrow> (Unauthorized, s)
       | None \<Rightarrow> (case d of None \<Rightarrow> (NoContent, s)
         | Some r \<Rightarrow> if r = [] then (NoContent, s)
           else (case fst (deliver r s) of Inr _ \<Rightarrow> NoContent
             | Inl e \<Rightarrow> if errors_is e ReminderNotFound then NoContent else InternalServerError, snd (deliver r s))))"
    by (simp add: task_endpoint_def d case_prod_beta' Let_def split: option.split)
  show "status = Unauthorized \<longleftrightarrow> auth header \<noteq> None" "auth header \<noteq> None \<Longrightarrow> s' = s"
    using assms unfolding s by (auto split: option.splits if_splits sum.splits)
  show "status = InternalServerError \<longleftrightarrow> auth header = None \<and>
      (\<exists>r e. decode (take max_task_body body) = Some r \<and> r \<noteq> [] \<and> fst (deliver r s) = Inl e \<and> \<not> errors_is e ReminderNotFound)"
    using assms unfolding s d [symmetric] by (auto split: option.splits if_splits sum.splits)
qed

end
