(* ===== verification/ActiveTurns.thy ===== *)
theory ActiveTurns
  imports Prelude
begin

text \<open>
  The registry that stops slow work for an overtaken message on this process
  (\<open>application/assistant/interactions.go\<close>). A turn is a number; its context carries the first cause it
  is cancelled with. The registry is changed under a lock, the context it found there is cancelled
  after the lock is given back: in between, the number waits in \<open>ar_cancelling\<close> and other calls run.
\<close>

datatype turn_state = TurnLive | TurnSuperseded | TurnEnded

record active_turn =
  at_key :: string
  at_event :: string
  at_state :: turn_state

record active_registry =
  ar_current :: "nat table"
  ar_turns :: "active_turn list"
  ar_cancelling :: "nat list"

definition new_registry :: active_registry where
  "new_registry = \<lparr>ar_current = [], ar_turns = [], ar_cancelling = []\<rparr>"

text \<open>\<open>context.CancelCauseFunc\<close>: only the first call counts.\<close>

definition cancel_turn :: "nat \<Rightarrow> turn_state \<Rightarrow> active_registry \<Rightarrow> active_registry" where
  "cancel_turn n cause r =
     (if n < length (ar_turns r) \<and> at_state (ar_turns r ! n) = TurnLive
      then r\<lparr>ar_turns := (ar_turns r)[n := (ar_turns r ! n)\<lparr>at_state := cause\<rparr>]\<rparr> else r)"

definition supersede_turn :: "string \<Rightarrow> active_registry \<Rightarrow> active_registry" where
  "supersede_turn key r =
     (case get_row (ar_current r) key of None \<Rightarrow> r | Some n \<Rightarrow> r\<lparr>ar_cancelling := n # ar_cancelling r\<rparr>)"

definition activate_turn :: "string \<Rightarrow> string \<Rightarrow> active_registry \<Rightarrow> nat \<times> active_registry" where
  "activate_turn key event r =
     (let n = length (ar_turns r) in
      (n, r\<lparr>ar_turns := ar_turns r @ [\<lparr>at_key = key, at_event = event, at_state = TurnLive\<rparr>],
            ar_current := put_row key n (ar_current r),
            ar_cancelling := (case get_row (ar_current r) key of None \<Rightarrow> ar_cancelling r | Some m \<Rightarrow> m # ar_cancelling r)\<rparr>))"

text \<open>The call that follows the unlocking.\<close>

definition cancel_overtaken :: "nat \<Rightarrow> active_registry \<Rightarrow> active_registry" where
  "cancel_overtaken n r = cancel_turn n TurnSuperseded (r\<lparr>ar_cancelling := remove1 n (ar_cancelling r)\<rparr>)"

text \<open>The two halves of the function \<open>Activate\<close> returns.\<close>

definition forget_turn :: "nat \<Rightarrow> active_registry \<Rightarrow> active_registry" where
  "forget_turn n r =
     (let key = at_key (ar_turns r ! n) in
      if get_row (ar_current r) key = Some n then r\<lparr>ar_current := delete_row key (ar_current r)\<rparr> else r)"

inductive registry_step :: "active_registry \<Rightarrow> active_registry \<Rightarrow> bool" where
  supersedes: "registry_step r (supersede_turn key r)"
| activates: "registry_step r (snd (activate_turn key event r))"
| cancels: "n \<in> set (ar_cancelling r) \<Longrightarrow> registry_step r (cancel_overtaken n r)"
| ends: "n < length (ar_turns r) \<Longrightarrow> registry_step r (cancel_turn n TurnEnded r)"
| forgets: "n < length (ar_turns r) \<Longrightarrow> at_state (ar_turns r ! n) \<noteq> TurnLive \<Longrightarrow> registry_step r (forget_turn n r)"

inductive registry_reachable :: "active_registry \<Rightarrow> bool" where
  new: "registry_reachable new_registry"
| step: "registry_reachable r \<Longrightarrow> registry_step r r' \<Longrightarrow> registry_reachable r'"

inductive_cases registry_stepE: "registry_step r r'"

section \<open>The newest turn\<close>

definition live_turn :: "active_registry \<Rightarrow> nat \<Rightarrow> bool" where
  "live_turn r n \<longleftrightarrow> n < length (ar_turns r) \<and> at_state (ar_turns r ! n) = TurnLive"

definition key_of :: "active_registry \<Rightarrow> nat \<Rightarrow> string" where
  "key_of r n = at_key (ar_turns r ! n)"

text \<open>
  The registered turn of a conversation is its newest, and a live turn is registered or about to be
  cancelled.
\<close>

definition registry_inv :: "active_registry \<Rightarrow> bool" where
  "registry_inv r \<longleftrightarrow>
     (\<forall>k n. get_row (ar_current r) k = Some n \<longrightarrow> n < length (ar_turns r) \<and> key_of r n = k \<and>
        (\<forall>m < length (ar_turns r). key_of r m = k \<longrightarrow> m \<le> n)) \<and>
     (\<forall>n. live_turn r n \<longrightarrow> get_row (ar_current r) (key_of r n) = Some n \<or> n \<in> set (ar_cancelling r))"

lemma cancel_turn_simps [simp]:
  "ar_current (cancel_turn n c r) = ar_current r" "ar_cancelling (cancel_turn n c r) = ar_cancelling r"
  "length (ar_turns (cancel_turn n c r)) = length (ar_turns r)" "key_of (cancel_turn n c r) m = key_of r m"
  by (auto simp: cancel_turn_def key_of_def nth_list_update)

lemma live_cancel: "c \<noteq> TurnLive \<Longrightarrow> live_turn (cancel_turn n c r) m \<longleftrightarrow> live_turn r m \<and> m \<noteq> n"
  by (auto simp: live_turn_def cancel_turn_def nth_list_update)

lemma turns_frame [simp]:
  "key_of (r\<lparr>ar_current := c\<rparr>) = key_of r" "key_of (r\<lparr>ar_cancelling := xs\<rparr>) = key_of r"
  "live_turn (r\<lparr>ar_current := c\<rparr>) = live_turn r" "live_turn (r\<lparr>ar_cancelling := xs\<rparr>) = live_turn r"
  by (simp_all add: key_of_def live_turn_def fun_eq_iff)

lemma registry_invD:
  assumes "registry_inv r"
  shows "get_row (ar_current r) k = Some n \<Longrightarrow> n < length (ar_turns r)"
    and "get_row (ar_current r) k = Some n \<Longrightarrow> key_of r n = k"
    and "get_row (ar_current r) k = Some n \<Longrightarrow> m < length (ar_turns r) \<Longrightarrow> key_of r m = k \<Longrightarrow> m \<le> n"
    and "live_turn r n \<Longrightarrow> get_row (ar_current r) (key_of r n) = Some n \<or> n \<in> set (ar_cancelling r)"
  using assms by (auto simp: registry_inv_def)

lemma activate_inv:
  assumes "registry_inv r"
  shows "registry_inv (snd (activate_turn key event r))"
proof -
  let ?r = "snd (activate_turn key event r)" and ?n = "length (ar_turns r)"
  have keys: "key_of ?r m = (if m = ?n then key else key_of r m)" if "m \<le> ?n" for m
    using that by (simp add: activate_turn_def key_of_def nth_append Let_def)
  have live: "live_turn ?r m \<longleftrightarrow> m = ?n \<or> live_turn r m" for m
    by (auto simp: activate_turn_def live_turn_def nth_append Let_def)
  have row: "get_row (ar_current ?r) k = (if k = key then Some ?n else get_row (ar_current r) k)" for k
    by (simp add: activate_turn_def Let_def)
  have len: "length (ar_turns ?r) = Suc ?n" by (simp add: activate_turn_def Let_def)
  have overtaken: "set (ar_cancelling ?r) = set (ar_cancelling r) \<union> set_option (get_row (ar_current r) key)"
    by (simp add: activate_turn_def Let_def split: option.split)
  show ?thesis
    unfolding registry_inv_def
  proof (intro conjI allI impI)
    fix k n assume "get_row (ar_current ?r) k = Some n"
    then have n: "if k = key then n = ?n else get_row (ar_current r) k = Some n"
      unfolding row by (simp split: if_splits)
    show "n < length (ar_turns ?r)" using n registry_invD(1) [OF assms, of k n] len by (simp split: if_splits)
    then have le: "n \<le> ?n" using len by simp
    show "key_of ?r n = k"
      using n registry_invD(1,2) [OF assms, of k n] by (auto simp: keys [OF le] split: if_splits)
    show "m \<le> n" if "m < length (ar_turns ?r)" "key_of ?r m = k" for m
    proof -
      have m: "m \<le> ?n" using that(1) len by simp
      show ?thesis using n registry_invD(3) [OF assms, of k n m] that(2) m
        by (auto simp: keys [OF m] split: if_splits)
    qed
  next
    fix n assume "live_turn ?r n"
    then have "n = ?n \<or> live_turn r n" by (simp only: live)
    then consider "n = ?n" | "n < ?n" "live_turn r n" by (auto simp: live_turn_def)
    then show "get_row (ar_current ?r) (key_of ?r n) = Some n \<or> n \<in> set (ar_cancelling ?r)"
    proof cases
      case 2
      then show ?thesis using registry_invD(4) [OF assms 2(2)] by (auto simp: row keys overtaken)
    qed (simp add: row keys)
  qed
qed

lemma registry_inv_step:
  assumes "registry_inv r" "registry_step r r'"
  shows "registry_inv r'"
  using assms(2)
proof cases
  case supersedes
  with assms(1) show ?thesis by (auto simp: supersede_turn_def registry_inv_def split: option.split)
next
  case activates
  with assms(1) show ?thesis by (simp add: activate_inv)
next
  case (cancels n)
  have "registry_inv r' \<longleftrightarrow> True"
    using assms(1) unfolding cancels(1) registry_inv_def cancel_overtaken_def
    by (auto simp: live_cancel)
  then show ?thesis by simp
next
  case (ends n)
  with assms(1) show ?thesis by (auto simp: registry_inv_def live_cancel)
next
  case (forgets n)
  then have dead: "\<not> live_turn r n" by (simp add: live_turn_def)
  show ?thesis
  proof (cases "get_row (ar_current r) (key_of r n) = Some n")
    case True
    then have r': "r' = r\<lparr>ar_current := delete_row (key_of r n) (ar_current r)\<rparr>"
      using forgets(1) by (simp add: forget_turn_def key_of_def)
    have "get_row (ar_current r) (key_of r m) = Some m \<Longrightarrow> live_turn r m \<Longrightarrow> key_of r m \<noteq> key_of r n" for m
      using True dead by (metis option.inject)
    then have other: "live_turn r m \<Longrightarrow>
        get_row (ar_current r') (key_of r m) = Some m \<or> m \<in> set (ar_cancelling r)" for m
      using registry_invD(4) [OF assms(1), of m] by (auto simp: r')
    show ?thesis
      unfolding registry_inv_def
    proof (intro conjI allI impI)
      fix k m assume "get_row (ar_current r') k = Some m"
      then have row: "get_row (ar_current r) k = Some m" by (simp add: r' split: if_splits)
      show "m < length (ar_turns r')" "key_of r' m = k" using registry_invD(1,2) [OF assms(1) row] by (simp_all add: r')
      show "j \<le> m" if "j < length (ar_turns r')" "key_of r' j = k" for j
        using registry_invD(3) [OF assms(1) row] that by (simp add: r')
    qed (use other in \<open>simp add: r'\<close>)
  next
    case False
    with assms(1) forgets(1) show ?thesis by (simp add: forget_turn_def key_of_def)
  qed
qed

lemma registry_reachable_inv: "registry_reachable r \<Longrightarrow> registry_inv r"
  by (induction rule: registry_reachable.induct)
    (simp_all add: registry_inv_step, simp add: registry_inv_def new_registry_def live_turn_def)

lemma live_is_newest:
  assumes "registry_inv r" "ar_cancelling r = []" "live_turn r n"
  shows "get_row (ar_current r) (key_of r n) = Some n"
    and "m < length (ar_turns r) \<Longrightarrow> key_of r m = key_of r n \<Longrightarrow> m \<le> n"
proof -
  show row: "get_row (ar_current r) (key_of r n) = Some n" using registry_invD(4) [OF assms(1,3)] assms(2) by simp
  show "m \<le> n" if "m < length (ar_turns r)" "key_of r m = key_of r n"
    using registry_invD(3) [OF assms(1) row that] .
qed

end
