(* ===== verification/Settings.thy ===== *)
theory Settings
  imports Conversation
begin

text \<open>
  The configuration of the process (\<open>internal/platform/config\<close>): how \<open>Load\<close> reads the environment, what
  it refuses, and what a configuration it accepts guarantees. The parsers of the standard library for
  URLs, durations, instants, time zones and JSON, and Unicode lowering, are fields of the source of
  the settings; the quoted values at the ends of messages are left out.
\<close>

section \<open>Settings\<close>

record localized_text =
  lt_english :: string
  lt_armenian :: string
  lt_russian :: string

record business_profile =
  bp_website_url :: string
  bp_booking_url :: string
  bp_facebook_url :: string
  bp_telegram_url :: string
  bp_whatsapp_url :: string
  bp_tiktok_url :: string
  bp_youtube_url :: string
  bp_address :: localized_text
  bp_phone :: string
  bp_preparation :: localized_text
  bp_amenities :: localized_text
  bp_instagram_url :: string
  bp_map_url :: string
  bp_yandex_map_url :: string
  bp_parking_url :: string

record sms_gate =
  sg_enabled :: bool
  sg_api_base_url :: string
  sg_username :: string
  sg_password :: string
  sg_device_id :: string
  sg_sim_number :: int

record telegram_account =
  ta_enabled :: bool
  ta_app_id :: int
  ta_app_hash :: string
  ta_phone :: string
  ta_username :: string
  ta_encryption_key :: string

record notification_settings =
  nt_enabled :: bool
  nt_webhook_secret :: string
  nt_activated_at :: time
  nt_whatsapp_templates :: "(string \<times> string) list"
  nt_telegram_account :: telegram_account
  nt_booking_permission_since :: time
  nt_native_language :: string
  nt_sms :: sms_gate
  nt_sms_permission_since :: time
  nt_manual_permission_since :: time

record reminder_settings =
  rb_backend :: string
  rb_lead_time :: duration
  rb_project_id :: string
  rb_location :: string
  rb_queue :: string
  rb_target_url :: string
  rb_audience :: string
  rb_service_account :: string

record storage_settings =
  sb_backend :: string
  sb_project_id :: string

record ai_settings =
  ai_api_key :: string
  ai_model :: string
  ai_transcription_model :: string
  ai_reasoning_effort :: string
  ai_max_output_tokens :: int
  ai_base_url :: string

record altegio_settings =
  al_partner_token :: string
  al_user_token :: string
  al_company_id :: string
  al_location :: string
  al_currency :: string
  al_base_url :: string

record telegram_settings =
  tg_bot_token :: string
  tg_webhook_secret :: string
  tg_api_base_url :: string
  tg_staff_chat_id :: string

record whatsapp_settings =
  wa_reminder_templates :: "(string \<times> string) list"
  wa_access_token :: string
  wa_phone_number_id :: string
  wa_app_secret :: string
  wa_verify_token :: string
  wa_graph_version :: string

record direct_settings =
  dm_access_token :: string
  dm_account_id :: string
  dm_app_secret :: string
  dm_verify_token :: string
  dm_graph_version :: string

datatype log_level = LevelDebug | LevelInfo | LevelWarn | LevelError

record configuration =
  cf_env :: string
  cf_port :: int
  cf_log_level :: log_level
  cf_shutdown_timeout :: duration
  cf_public_base_url :: string
  cf_business_name :: string
  cf_business_description :: string
  cf_business_profile :: business_profile
  cf_telegram :: telegram_settings
  cf_whatsapp :: whatsapp_settings
  cf_messenger :: direct_settings
  cf_instagram :: direct_settings
  cf_altegio :: altegio_settings
  cf_ai :: ai_settings
  cf_storage :: storage_settings
  cf_reminders :: reminder_settings
  cf_notifications :: notification_settings

abbreviation EnvDevelopment :: string where "EnvDevelopment \<equiv> ''development''"
abbreviation EnvStaging :: string where "EnvStaging \<equiv> ''staging''"
abbreviation EnvProduction :: string where "EnvProduction \<equiv> ''production''"

abbreviation StorageMemory :: string where "StorageMemory \<equiv> ''memory''"
abbreviation StorageFirestore :: string where "StorageFirestore \<equiv> ''firestore''"

abbreviation RemindersDisabled :: string where "RemindersDisabled \<equiv> ''disabled''"
abbreviation RemindersMemory :: string where "RemindersMemory \<equiv> ''memory''"
abbreviation RemindersCloudTasks :: string where "RemindersCloudTasks \<equiv> ''cloudtasks''"

definition reminders_enabled :: "reminder_settings \<Rightarrow> bool" where
  "reminders_enabled r \<longleftrightarrow> rb_backend r \<noteq> RemindersDisabled"

definition ai_enabled :: "ai_settings \<Rightarrow> bool" where "ai_enabled a \<longleftrightarrow> ai_api_key a \<noteq> []"
definition altegio_enabled :: "altegio_settings \<Rightarrow> bool" where "altegio_enabled a \<longleftrightarrow> al_partner_token a \<noteq> []"
definition telegram_enabled :: "telegram_settings \<Rightarrow> bool" where "telegram_enabled t \<longleftrightarrow> tg_bot_token t \<noteq> []"
definition whatsapp_enabled :: "whatsapp_settings \<Rightarrow> bool" where "whatsapp_enabled w \<longleftrightarrow> wa_access_token w \<noteq> []"
definition direct_enabled :: "direct_settings \<Rightarrow> bool" where "direct_enabled d \<longleftrightarrow> dm_access_token d \<noteq> []"

section \<open>Where settings come from\<close>

text \<open>
  An unset variable reads as the empty string. A parsed URL is its scheme and host. A JSON decoder
  fills what it can before it reports an error.
\<close>

record settings_source =
  so_variable :: "string \<Rightarrow> string"
  so_to_lower :: "string \<Rightarrow> string"
  so_parse_url :: "string \<Rightarrow> (string \<times> string) result"
  so_parse_duration :: "string \<Rightarrow> duration result"
  so_parse_time :: "string \<Rightarrow> time result"
  so_load_location :: "string \<Rightarrow> string result"
  so_decode_account :: "string \<Rightarrow> go_error option \<times> telegram_account"
  so_decode_templates :: "string \<Rightarrow> go_error option \<times> (string \<times> string) list"
  so_decode_sms :: "string \<Rightarrow> go_error option \<times> sms_gate"

definition getenv :: "settings_source \<Rightarrow> string \<Rightarrow> string \<Rightarrow> string" where
  "getenv src key fallback = (let v = so_variable src key in if v \<noteq> [] then v else fallback)"

definition parse_level :: "settings_source \<Rightarrow> string \<Rightarrow> log_level result" where
  "parse_level src s =
     (let l = so_to_lower src s in
      if l = ''debug'' then Inr LevelDebug
      else if l = ''info'' then Inr LevelInfo
      else if l = ''warn'' \<or> l = ''warning'' then Inr LevelWarn
      else if l = ''error'' then Inr LevelError
      else Inl (errors_new ''LOG_LEVEL must be one of debug, info, warn, error''))"

text \<open>A setting that has to be there.\<close>

definition required :: "string \<Rightarrow> string \<Rightarrow> string \<Rightarrow> go_error list" where
  "required name v reason = (if v = [] then [errors_new (name @ reason)] else [])"

definition validate_https_url :: "settings_source \<Rightarrow> string \<Rightarrow> string \<Rightarrow> go_error option" where
  "validate_https_url src name raw =
     (case so_parse_url src raw of
        Inl e \<Rightarrow> Some (wrap_error (name @ '' is not a valid URL'') e)
      | Inr (scheme, host) \<Rightarrow>
        if scheme \<noteq> ''https'' \<or> host = [] then Some (errors_new (name @ '' must be an absolute https URL'')) else None)"

definition validate_public_base_url :: "settings_source \<Rightarrow> string \<Rightarrow> go_error option" where
  "validate_public_base_url src raw =
     (if raw = [] then None
      else case so_parse_url src raw of
        Inl e \<Rightarrow> Some (wrap_error ''PUBLIC_BASE_URL is not a valid URL'' e)
      | Inr (scheme, host) \<Rightarrow>
        if scheme \<noteq> ''https'' then Some (errors_new ''PUBLIC_BASE_URL must use https'')
        else if host = [] then Some (errors_new ''PUBLIC_BASE_URL has no host'') else None)"

section \<open>Channels\<close>

text \<open>A byte of a longer UTF-8 sequence is not in the set either, so the loop over runes is one over bytes.\<close>

definition is_telegram_secret :: "string \<Rightarrow> bool" where
  "is_telegram_secret s \<longleftrightarrow> list_all (\<lambda>c. c \<in> set
     ''ABCDEFGHIJKLMNOPQRSTUVWXYZabcdefghijklmnopqrstuvwxyz0123456789_-'') s"

definition telegram_validate :: "telegram_settings \<Rightarrow> go_error list" where
  "telegram_validate t =
     (if \<not> telegram_enabled t
      then (if tg_webhook_secret t \<noteq> []
        then [errors_new ''TELEGRAM_WEBHOOK_SECRET is set but TELEGRAM_BOT_TOKEN is not''] else [])
      else if tg_webhook_secret t = []
      then [errors_new ''TELEGRAM_WEBHOOK_SECRET is required when TELEGRAM_BOT_TOKEN is set'']
      else if length (tg_webhook_secret t) > 256
      then [errors_new ''TELEGRAM_WEBHOOK_SECRET must be at most 256 characters'']
      else if \<not> is_telegram_secret (tg_webhook_secret t)
      then [errors_new ''TELEGRAM_WEBHOOK_SECRET may only contain A-Z, a-z, 0-9, underscore and hyphen'']
      else [])"

definition whatsapp_validate :: "whatsapp_settings \<Rightarrow> go_error list" where
  "whatsapp_validate w =
     (if \<not> whatsapp_enabled w
      then (if wa_phone_number_id w \<noteq> []
        then [errors_new ''WHATSAPP_* settings are present but WHATSAPP_ACCESS_TOKEN is not''] else [])
      else required ''WHATSAPP_PHONE_NUMBER_ID'' (wa_phone_number_id w) '' is required when WHATSAPP_ACCESS_TOKEN is set'' @
        required ''META_APP_SECRET'' (wa_app_secret w) '' is required when WHATSAPP_ACCESS_TOKEN is set'' @
        required ''META_VERIFY_TOKEN'' (wa_verify_token w) '' is required when WHATSAPP_ACCESS_TOKEN is set'')"

definition load_direct_messaging ::
  "settings_source \<Rightarrow> string \<Rightarrow> string \<Rightarrow> direct_settings \<times> go_error list" where
  "load_direct_messaging src prefix id_name =
     (let d = \<lparr>dm_access_token = getenv src (prefix @ ''_ACCESS_TOKEN'') [], dm_account_id = getenv src id_name [],
          dm_app_secret = getenv src (prefix @ ''_APP_SECRET'') (getenv src ''META_APP_SECRET'' []),
          dm_verify_token = getenv src ''META_VERIFY_TOKEN'' [], dm_graph_version = getenv src ''META_GRAPH_VERSION'' []\<rparr>
      in (d,
        if \<not> direct_enabled d
        then (if dm_account_id d \<noteq> [] then [errors_new (id_name @ '' requires '' @ prefix @ ''_ACCESS_TOKEN'')] else [])
        else concat (map (\<lambda>(name, v). required name v ('' is required when '' @ prefix @ ''_ACCESS_TOKEN is set''))
          [(id_name, dm_account_id d), (''META_APP_SECRET'', dm_app_secret d), (''META_VERIFY_TOKEN'', dm_verify_token d)])))"

section \<open>The calendar, the store and the reminders\<close>

definition load_altegio :: "settings_source \<Rightarrow> altegio_settings \<times> go_error list" where
  "load_altegio src =
     (let cfg = \<lparr>al_partner_token = getenv src ''ALTEGIO_PARTNER_TOKEN'' [], al_user_token = getenv src ''ALTEGIO_USER_TOKEN'' [],
          al_company_id = getenv src ''ALTEGIO_COMPANY_ID'' [], al_location = ''UTC'', al_currency = getenv src ''ALTEGIO_CURRENCY'' [],
          al_base_url = trim_suffix (getenv src ''ALTEGIO_BASE_URL'' []) ''/''\<rparr>;
          name = getenv src ''ALTEGIO_TIMEZONE'' [];
          (cfg, errs) =
            (if name \<noteq> []
             then (case so_load_location src name of
                 Inl e \<Rightarrow> (cfg, [wrap_error ''ALTEGIO_TIMEZONE is not a known timezone'' e])
               | Inr loc \<Rightarrow> (cfg\<lparr>al_location := loc\<rparr>, []))
             else (cfg, []))
      in (cfg, errs @
        (if \<not> altegio_enabled cfg
         then (if al_company_id cfg \<noteq> [] \<or> al_user_token cfg \<noteq> []
           then [errors_new ''ALTEGIO_COMPANY_ID or ALTEGIO_USER_TOKEN is set but ALTEGIO_PARTNER_TOKEN is not''] else [])
         else required ''ALTEGIO_COMPANY_ID'' (al_company_id cfg) '' is required when ALTEGIO_PARTNER_TOKEN is set'')))"

definition load_storage :: "settings_source \<Rightarrow> string \<Rightarrow> storage_settings \<times> go_error list" where
  "load_storage src env =
     (let default_backend = (if env = EnvProduction then StorageFirestore else StorageMemory);
          cfg = \<lparr>sb_backend = getenv src ''STORAGE_BACKEND'' default_backend,
            sb_project_id = getenv src ''GCP_PROJECT_ID'' (getenv src ''GOOGLE_CLOUD_PROJECT'' [])\<rparr>
      in (cfg,
        if sb_backend cfg = StorageMemory
        then (if env = EnvProduction then [errors_new ''STORAGE_BACKEND=memory is refused in production''] else [])
        else if sb_backend cfg = StorageFirestore
        then required ''GCP_PROJECT_ID'' (sb_project_id cfg) '' is required when STORAGE_BACKEND=firestore''
        else [errors_new ''STORAGE_BACKEND must be memory or firestore'']))"

definition optional_https :: "settings_source \<Rightarrow> string \<Rightarrow> string \<Rightarrow> go_error list" where
  "optional_https src name v =
     (if v = [] then [] else case validate_https_url src name v of None \<Rightarrow> [] | Some e \<Rightarrow> [e])"

definition load_reminders :: "settings_source \<Rightarrow> string \<Rightarrow> string \<Rightarrow> reminder_settings \<times> go_error list" where
  "load_reminders src env project_id =
     (let default_backend = (if env = EnvProduction then RemindersDisabled else RemindersMemory);
          cfg = \<lparr>rb_backend = getenv src ''REMINDER_BACKEND'' default_backend, rb_lead_time = 0, rb_project_id = project_id,
            rb_location = getenv src ''CLOUD_TASKS_LOCATION'' [], rb_queue = getenv src ''CLOUD_TASKS_QUEUE'' [],
            rb_target_url = getenv src ''CLOUD_TASKS_TARGET_URL'' [], rb_audience = getenv src ''CLOUD_TASKS_AUDIENCE'' [],
            rb_service_account = getenv src ''CLOUD_TASKS_SERVICE_ACCOUNT'' []\<rparr>;
          (cfg, errs) = (case so_parse_duration src (getenv src ''REMINDER_LEAD_TIME'' ''24h'') of
              Inl e \<Rightarrow> (cfg, [wrap_error ''REMINDER_LEAD_TIME must be a duration such as 24h'' e])
            | Inr lead \<Rightarrow> if lead \<le> 0 then (cfg, [errors_new ''REMINDER_LEAD_TIME must be positive''])
                else (cfg\<lparr>rb_lead_time := lead\<rparr>, []))
      in (cfg, errs @
        (if rb_backend cfg = RemindersDisabled then []
         else if rb_backend cfg = RemindersMemory
         then (if env = EnvProduction then [errors_new ''REMINDER_BACKEND=memory is refused in production''] else [])
         else if rb_backend cfg = RemindersCloudTasks
         then concat (map (\<lambda>(name, v). required name v '' is required when REMINDER_BACKEND=cloudtasks'')
             [(''GCP_PROJECT_ID'', rb_project_id cfg), (''CLOUD_TASKS_LOCATION'', rb_location cfg),
              (''CLOUD_TASKS_QUEUE'', rb_queue cfg), (''CLOUD_TASKS_TARGET_URL'', rb_target_url cfg),
              (''CLOUD_TASKS_AUDIENCE'', rb_audience cfg), (''CLOUD_TASKS_SERVICE_ACCOUNT'', rb_service_account cfg)]) @
           optional_https src ''CLOUD_TASKS_TARGET_URL'' (rb_target_url cfg) @
           optional_https src ''CLOUD_TASKS_AUDIENCE'' (rb_audience cfg)
         else [errors_new ''REMINDER_BACKEND must be disabled, memory or cloudtasks''])))"

section \<open>The business and the language model\<close>

definition load_profile :: "settings_source \<Rightarrow> business_profile" where
  "load_profile src =
     \<lparr>bp_website_url = getenv src ''BUSINESS_WEBSITE_URL'' [], bp_booking_url = getenv src ''BUSINESS_BOOKING_URL'' [],
      bp_facebook_url = getenv src ''BUSINESS_FACEBOOK_URL'' [], bp_telegram_url = getenv src ''BUSINESS_TELEGRAM_URL'' [],
      bp_whatsapp_url = getenv src ''BUSINESS_WHATSAPP_URL'' [], bp_tiktok_url = getenv src ''BUSINESS_TIKTOK_URL'' [],
      bp_youtube_url = getenv src ''BUSINESS_YOUTUBE_URL'' [],
      bp_address = \<lparr>lt_english = getenv src ''BUSINESS_ADDRESS_EN'' [], lt_armenian = getenv src ''BUSINESS_ADDRESS_HY'' [],
        lt_russian = getenv src ''BUSINESS_ADDRESS_RU'' []\<rparr>,
      bp_phone = getenv src ''BUSINESS_PHONE'' [],
      bp_preparation = \<lparr>lt_english = getenv src ''BUSINESS_PREPARATION_EN'' [],
        lt_armenian = getenv src ''BUSINESS_PREPARATION_HY'' [], lt_russian = getenv src ''BUSINESS_PREPARATION_RU'' []\<rparr>,
      bp_amenities = \<lparr>lt_english = getenv src ''BUSINESS_AMENITIES_EN'' [],
        lt_armenian = getenv src ''BUSINESS_AMENITIES_HY'' [], lt_russian = getenv src ''BUSINESS_AMENITIES_RU'' []\<rparr>,
      bp_instagram_url = getenv src ''BUSINESS_INSTAGRAM_URL'' [], bp_map_url = getenv src ''BUSINESS_MAP_URL'' [],
      bp_yandex_map_url = getenv src ''BUSINESS_YANDEX_MAP_URL'' [], bp_parking_url = getenv src ''BUSINESS_PARKING_URL'' []\<rparr>"

definition profile_urls :: "business_profile \<Rightarrow> (string \<times> string) list" where
  "profile_urls p =
     [(''BUSINESS_WEBSITE_URL'', bp_website_url p), (''BUSINESS_BOOKING_URL'', bp_booking_url p),
      (''BUSINESS_FACEBOOK_URL'', bp_facebook_url p), (''BUSINESS_TELEGRAM_URL'', bp_telegram_url p),
      (''BUSINESS_WHATSAPP_URL'', bp_whatsapp_url p), (''BUSINESS_TIKTOK_URL'', bp_tiktok_url p),
      (''BUSINESS_YOUTUBE_URL'', bp_youtube_url p), (''BUSINESS_INSTAGRAM_URL'', bp_instagram_url p),
      (''BUSINESS_MAP_URL'', bp_map_url p), (''BUSINESS_YANDEX_MAP_URL'', bp_yandex_map_url p),
      (''BUSINESS_PARKING_URL'', bp_parking_url p)]"

text \<open>A number that does not parse is refused here, whatever it is kept as.\<close>

definition load_ai :: "settings_source \<Rightarrow> ai_settings \<times> go_error list" where
  "load_ai src =
     (let tokens = atoi (getenv src ''OPENAI_MAX_OUTPUT_TOKENS'' ''8192'');
          cfg = \<lparr>ai_api_key = getenv src ''OPENAI_API_KEY'' [], ai_model = getenv src ''OPENAI_MODEL'' [],
            ai_transcription_model = getenv src ''OPENAI_TRANSCRIPTION_MODEL'' [],
            ai_reasoning_effort = getenv src ''OPENAI_REASONING_EFFORT'' ''high'',
            ai_max_output_tokens = (case tokens of None \<Rightarrow> 0 | Some n \<Rightarrow> n),
            ai_base_url = trim_suffix (getenv src ''OPENAI_BASE_URL'' []) ''/''\<rparr>
      in (cfg,
        (if ai_reasoning_effort cfg \<in> {''none'', ''low'', ''medium'', ''high'', ''xhigh'', ''max''} then []
         else [errors_new ''OPENAI_REASONING_EFFORT is invalid'']) @
        (if tokens = None \<or> ai_max_output_tokens cfg < 512 \<or> ai_max_output_tokens cfg > 32768
         then [errors_new ''OPENAI_MAX_OUTPUT_TOKENS must be between 512 and 32768''] else []) @
        (if \<not> ai_enabled cfg \<and> ai_model cfg \<noteq> []
         then [errors_new ''OPENAI_MODEL is set but OPENAI_API_KEY is not''] else [])))"

section \<open>Notifications\<close>

definition zero_account :: telegram_account where
  "zero_account = \<lparr>ta_enabled = False, ta_app_id = 0, ta_app_hash = [], ta_phone = [], ta_username = [], ta_encryption_key = []\<rparr>"

definition zero_sms_gate :: sms_gate where
  "zero_sms_gate = \<lparr>sg_enabled = False, sg_api_base_url = [], sg_username = [], sg_password = [], sg_device_id = [], sg_sim_number = 0\<rparr>"

definition no_notifications :: notification_settings where
  "no_notifications =
     \<lparr>nt_enabled = False, nt_webhook_secret = [], nt_activated_at = zero_time, nt_whatsapp_templates = [],
      nt_telegram_account = zero_account, nt_booking_permission_since = zero_time, nt_native_language = [],
      nt_sms = zero_sms_gate, nt_sms_permission_since = zero_time, nt_manual_permission_since = zero_time\<rparr>"

text \<open>An instant that is given and does not parse is an error, and reads as the zero time.\<close>

definition load_instant :: "settings_source \<Rightarrow> string \<Rightarrow> string \<Rightarrow> time \<times> go_error list" where
  "load_instant src raw reason =
     (if raw = [] then (zero_time, [])
      else case so_parse_time src raw of Inl _ \<Rightarrow> (zero_time, [errors_new reason]) | Inr t \<Rightarrow> (t, []))"

definition load_account :: "settings_source \<Rightarrow> bool \<Rightarrow> telegram_account \<times> go_error list" where
  "load_account src enabled =
     (if getenv src ''NATIVE_TELEGRAM_ACCOUNT_READY'' ''false'' \<noteq> ''true'' then (zero_account, [])
      else
        let (e, account) = so_decode_account src (getenv src ''TELEGRAM_ACCOUNT_CREDENTIALS_JSON'' []);
            account = account\<lparr>ta_enabled := True\<rparr>
        in (account,
          (if e \<noteq> None then [errors_new ''studio Telegram account credentials unavailable''] else []) @
          (if \<not> enabled \<or> ta_app_id account \<le> 0 \<or> length (ta_app_hash account) \<noteq> 32 \<or> ta_phone account = [] \<or>
              ta_username account = [] \<or> length (ta_encryption_key account) \<noteq> 32
           then [errors_new ''studio account notifications require enabled native notifications and complete private account credentials'']
           else [])))"

definition template_key_ok :: "string \<Rightarrow> bool" where
  "template_key_ok key =
     (let purpose = takeWhile (\<lambda>c. c \<noteq> CHR '':'') key; lang = drop (length purpose + 1) key in
      CHR '':'' \<in> set key \<and> purpose \<in> {''booking_created'', ''booking_changed'', ''booking_cancelled''} \<and>
      lang \<in> {''en'', ''ru'', ''hy''})"

definition load_templates :: "settings_source \<Rightarrow> (string \<times> string) list \<times> go_error list" where
  "load_templates src =
     (if getenv src ''NATIVE_WHATSAPP_READY'' ''false'' \<noteq> ''true'' then ([], [])
      else
        let (e, templates) = so_decode_templates src (getenv src ''WHATSAPP_BOOKING_TEMPLATES_JSON'' ''{}'') in
        (templates,
          (if e \<noteq> None then [errors_new ''WHATSAPP_BOOKING_TEMPLATES_JSON must map purpose:language to approved template names''] else []) @
          concat (map (\<lambda>(key, name). if \<not> template_key_ok key \<or> trim_space name = []
            then [errors_new ''invalid approved booking template configuration''] else []) templates)))"

definition load_sms :: "settings_source \<Rightarrow> bool \<Rightarrow> time \<Rightarrow> (sms_gate \<times> time) \<times> go_error list" where
  "load_sms src enabled booking_since =
     (if getenv src ''NATIVE_SMS_READY'' ''false'' \<noteq> ''true'' then ((zero_sms_gate, zero_time), [])
      else
        let (e, sms) = so_decode_sms src (getenv src ''SMSGATE_CREDENTIALS_JSON'' []);
            sms = sms\<lparr>sg_enabled := True\<rparr>;
            since = so_parse_time src (getenv src ''NATIVE_SMS_PERMISSION_SINCE'' []);
            at = (case since of Inl _ \<Rightarrow> zero_time | Inr t \<Rightarrow> t)
        in ((sms, at),
          (if e \<noteq> None then [errors_new ''SMSGate credentials unavailable''] else []) @
          (if \<not> enabled \<or> trim_space (sg_username sms) = [] \<or> CHR '':'' \<in> set (sg_username sms) \<or> sg_password sms = [] \<or>
              trim_space (sg_device_id sms) = [] \<or> sg_sim_number sms < 1 \<or> sg_sim_number sms > 3
           then [errors_new ''SMS notifications require enabled native notifications, private credentials, an explicit device and SIM'']
           else []) @
          (if (case since of Inl _ \<Rightarrow> True | Inr _ \<Rightarrow> False) \<or> is_zero booking_since \<or> before at booking_since
           then [errors_new ''NATIVE_SMS_PERMISSION_SINCE must be a fixed time at or after booking notification requests became visible'']
           else [])))"

text \<open>What active notifications need of the rest of the configuration.\<close>

definition load_activation ::
  "settings_source \<Rightarrow> configuration \<Rightarrow> string \<Rightarrow> time \<times> go_error list" where
  "load_activation src cfg secret =
     (let activated = so_parse_time src (getenv src ''NATIVE_NOTIFICATIONS_ACTIVATED_AT'' []) in
      (case activated of Inl _ \<Rightarrow> zero_time | Inr t \<Rightarrow> t,
        (case activated of
           Inl _ \<Rightarrow> [errors_new ''NATIVE_NOTIFICATIONS_ACTIVATED_AT must be a fixed RFC3339 activation time''] | Inr _ \<Rightarrow> []) @
        (if length secret < 32 then [errors_new ''ALTEGIO_WEBHOOK_SECRET must have at least 32 characters''] else []) @
        (if sb_backend (cf_storage cfg) \<noteq> StorageFirestore \<or> rb_backend (cf_reminders cfg) \<noteq> RemindersCloudTasks \<or>
            cf_public_base_url cfg = [] \<or> \<not> telegram_enabled (cf_telegram cfg) \<or> al_user_token (cf_altegio cfg) = []
         then [errors_new ''native notifications require Firestore, Cloud Tasks, a public URL, Telegram and Altegio private credentials'']
         else [])))"

definition load_notifications :: "settings_source \<Rightarrow> configuration \<Rightarrow> notification_settings \<times> go_error list" where
  "load_notifications src cfg =
     (let enabled = (getenv src ''NATIVE_NOTIFICATIONS_ENABLED'' ''false'' = ''true'');
          secret = getenv src ''ALTEGIO_WEBHOOK_SECRET'' [];
          lang = getenv src ''NATIVE_NOTIFICATION_LANGUAGE'' ''en'';
          (manual_since, e1) = load_instant src (getenv src ''MANUAL_BOOKING_NOTICES_SINCE'' [])
            ''MANUAL_BOOKING_NOTICES_SINCE must be RFC3339'';
          e2 = (if lang \<noteq> ''en'' \<and> lang \<noteq> ''ru'' \<and> lang \<noteq> ''hy''
            then [errors_new ''NATIVE_NOTIFICATION_LANGUAGE must be en, ru or hy''] else []);
          (booking_since, e3) = load_instant src (getenv src ''NATIVE_BOOKING_PERMISSION_SINCE'' [])
            ''NATIVE_BOOKING_PERMISSION_SINCE must be the fixed time booking update requests became visible in the form'';
          (account, e4) = load_account src enabled;
          (templates, e5) = load_templates src;
          ((sms, sms_since), e6) = load_sms src enabled booking_since;
          (activated, e7) = (if enabled then load_activation src cfg secret else (zero_time, []))
      in (\<lparr>nt_enabled = enabled, nt_webhook_secret = secret, nt_activated_at = activated,
           nt_whatsapp_templates = templates, nt_telegram_account = account,
           nt_booking_permission_since = booking_since, nt_native_language = lang, nt_sms = sms,
           nt_sms_permission_since = sms_since, nt_manual_permission_since = manual_since\<rparr>,
          e1 @ e2 @ e3 @ e4 @ e5 @ e6 @ e7))"

section \<open>Loading\<close>

definition load_port :: "settings_source \<Rightarrow> int \<times> go_error list" where
  "load_port src =
     (case atoi (getenv src ''PORT'' ''8080'') of
        None \<Rightarrow> (0, [errors_new ''PORT must be an integer''])
      | Some port \<Rightarrow> if port < 1 \<or> port > 65535 then (0, [errors_new ''PORT must be between 1 and 65535'']) else (port, []))"

definition load_timeout :: "settings_source \<Rightarrow> duration \<times> go_error list" where
  "load_timeout src =
     (case so_parse_duration src (getenv src ''SHUTDOWN_TIMEOUT'' ''8s'') of
        Inl e \<Rightarrow> (0, [wrap_error ''SHUTDOWN_TIMEOUT must be a duration such as 8s'' e])
      | Inr d \<Rightarrow> if d \<le> 0 then (0, [errors_new ''SHUTDOWN_TIMEOUT must be positive'']) else (d, []))"

definition load_env :: "settings_source \<Rightarrow> string \<times> go_error list" where
  "load_env src =
     (let env = getenv src ''APP_ENV'' [] in
      if env = EnvDevelopment \<or> env = EnvStaging \<or> env = EnvProduction then (env, [])
      else if env = [] then ([], [errors_new ''APP_ENV is required''])
      else ([], [errors_new ''APP_ENV must be one of development, staging, production'']))"

definition load_telegram :: "settings_source \<Rightarrow> telegram_settings" where
  "load_telegram src =
     \<lparr>tg_bot_token = getenv src ''TELEGRAM_BOT_TOKEN'' [], tg_webhook_secret = getenv src ''TELEGRAM_WEBHOOK_SECRET'' [],
      tg_api_base_url = trim_suffix (getenv src ''TELEGRAM_API_BASE_URL'' []) ''/'',
      tg_staff_chat_id = getenv src ''TELEGRAM_STAFF_CHAT_ID'' []\<rparr>"

definition load_whatsapp :: "settings_source \<Rightarrow> whatsapp_settings" where
  "load_whatsapp src =
     \<lparr>wa_reminder_templates = [(''en'', getenv src ''WHATSAPP_REMINDER_TEMPLATE_EN'' []),
        (''ru'', getenv src ''WHATSAPP_REMINDER_TEMPLATE_RU'' []), (''hy'', getenv src ''WHATSAPP_REMINDER_TEMPLATE_HY'' [])],
      wa_access_token = getenv src ''WHATSAPP_ACCESS_TOKEN'' [], wa_phone_number_id = getenv src ''WHATSAPP_PHONE_NUMBER_ID'' [],
      wa_app_secret = getenv src ''META_APP_SECRET'' [], wa_verify_token = getenv src ''META_VERIFY_TOKEN'' [],
      wa_graph_version = getenv src ''META_GRAPH_VERSION'' []\<rparr>"

text \<open>
  \<open>Load\<close> collects every error. The reading of the environment's name feeds the defaults of the store
  and of the reminders, and stays empty when it is refused.
\<close>

definition load_config :: "settings_source \<Rightarrow> go_error list + configuration" where
  "load_config src =
     (let (env, e_env) = load_env src;
          (port, e_port) = load_port src;
          (level, e_level) = (case parse_level src (getenv src ''LOG_LEVEL'' ''info'') of
              Inl e \<Rightarrow> (LevelInfo, [e]) | Inr l \<Rightarrow> (l, []));
          (timeout, e_timeout) = load_timeout src;
          base = trim_suffix (getenv src ''PUBLIC_BASE_URL'' []) ''/'';
          e_base = (case validate_public_base_url src base of None \<Rightarrow> [] | Some e \<Rightarrow> [e]);
          telegram = load_telegram src;
          whatsapp = load_whatsapp src;
          (messenger, e_messenger) = load_direct_messaging src ''MESSENGER'' ''MESSENGER_PAGE_ID'';
          (instagram, e_instagram) = load_direct_messaging src ''INSTAGRAM'' ''INSTAGRAM_ACCOUNT_ID'';
          e_meta = (if \<not> whatsapp_enabled whatsapp \<and> \<not> direct_enabled messenger \<and> \<not> direct_enabled instagram \<and>
              (wa_app_secret whatsapp \<noteq> [] \<or> wa_verify_token whatsapp \<noteq> [])
            then [errors_new ''META_* secrets are set but no Meta channel access token is configured''] else []);
          (altegio, e_altegio) = load_altegio src;
          profile = load_profile src;
          e_profile = concat (map (\<lambda>(name, v). optional_https src name v) (profile_urls profile));
          (ai, e_ai) = load_ai src;
          (storage, e_storage) = load_storage src env;
          (reminders, e_reminders) = load_reminders src env (sb_project_id storage);
          cfg = \<lparr>cf_env = env, cf_port = port, cf_log_level = level, cf_shutdown_timeout = timeout,
            cf_public_base_url = base, cf_business_name = getenv src ''BUSINESS_NAME'' [],
            cf_business_description = getenv src ''BUSINESS_DESCRIPTION'' [], cf_business_profile = profile,
            cf_telegram = telegram, cf_whatsapp = whatsapp, cf_messenger = messenger, cf_instagram = instagram,
            cf_altegio = altegio, cf_ai = ai, cf_storage = storage, cf_reminders = reminders,
            cf_notifications = no_notifications\<rparr>;
          (notifications, e_notifications) = load_notifications src cfg;
          errs = e_env @ e_port @ e_level @ e_timeout @ e_base @ telegram_validate telegram @ whatsapp_validate whatsapp @
            e_messenger @ e_instagram @ e_meta @ e_altegio @ e_profile @ e_ai @ e_storage @ e_reminders @ e_notifications
      in if errs \<noteq> [] then Inl errs else Inr (cfg\<lparr>cf_notifications := notifications\<rparr>))"

section \<open>What an accepted configuration guarantees\<close>

lemma required_Nil [simp]: "required name v reason = [] \<longleftrightarrow> v \<noteq> []"
  by (simp add: required_def)

text \<open>No channel that takes webhooks is open without the secret that authenticates them.\<close>

definition channels_guarded :: "configuration \<Rightarrow> bool" where
  "channels_guarded c \<longleftrightarrow>
     (telegram_enabled (cf_telegram c) \<longrightarrow> tg_webhook_secret (cf_telegram c) \<noteq> [] \<and>
        length (tg_webhook_secret (cf_telegram c)) \<le> 256 \<and> is_telegram_secret (tg_webhook_secret (cf_telegram c))) \<and>
     (whatsapp_enabled (cf_whatsapp c) \<longrightarrow> wa_phone_number_id (cf_whatsapp c) \<noteq> [] \<and>
        wa_app_secret (cf_whatsapp c) \<noteq> [] \<and> wa_verify_token (cf_whatsapp c) \<noteq> []) \<and>
     (\<forall>d \<in> {cf_messenger c, cf_instagram c}. direct_enabled d \<longrightarrow>
        dm_account_id d \<noteq> [] \<and> dm_app_secret d \<noteq> [] \<and> dm_verify_token d \<noteq> []) \<and>
     (nt_enabled (cf_notifications c) \<longrightarrow> 32 \<le> length (nt_webhook_secret (cf_notifications c)))"

text \<open>In production nothing is kept in the process only.\<close>

definition state_durable :: "configuration \<Rightarrow> bool" where
  "state_durable c \<longleftrightarrow>
     (cf_env c = EnvProduction \<longrightarrow> sb_backend (cf_storage c) = StorageFirestore \<and>
        rb_backend (cf_reminders c) \<in> {RemindersDisabled, RemindersCloudTasks}) \<and>
     (sb_backend (cf_storage c) = StorageFirestore \<longrightarrow> sb_project_id (cf_storage c) \<noteq> []) \<and>
     (nt_enabled (cf_notifications c) \<longrightarrow> sb_backend (cf_storage c) = StorageFirestore \<and>
        rb_backend (cf_reminders c) = RemindersCloudTasks)"

definition bounds_kept :: "configuration \<Rightarrow> bool" where
  "bounds_kept c \<longleftrightarrow> 1 \<le> cf_port c \<and> cf_port c \<le> 65535 \<and> 0 < cf_shutdown_timeout c \<and> 0 < rb_lead_time (cf_reminders c) \<and>
     512 \<le> ai_max_output_tokens (cf_ai c) \<and> ai_max_output_tokens (cf_ai c) \<le> 32768"

lemma load_parts_all:
  assumes "load_config src = Inr c"
  shows "load_env src = (cf_env c, []) \<and>
    load_port src = (cf_port c, []) \<and>
    load_timeout src = (cf_shutdown_timeout c, []) \<and>
    telegram_validate (cf_telegram c) = [] \<and>
    whatsapp_validate (cf_whatsapp c) = [] \<and>
    load_direct_messaging src ''MESSENGER'' ''MESSENGER_PAGE_ID'' = (cf_messenger c, []) \<and>
    load_direct_messaging src ''INSTAGRAM'' ''INSTAGRAM_ACCOUNT_ID'' = (cf_instagram c, []) \<and>
    load_ai src = (cf_ai c, []) \<and>
    load_storage src (cf_env c) = (cf_storage c, []) \<and>
    load_reminders src (cf_env c) (sb_project_id (cf_storage c)) = (cf_reminders c, []) \<and>
    load_notifications src (c\<lparr>cf_notifications := no_notifications\<rparr>) = (cf_notifications c, [])"
  using assms unfolding load_config_def Let_def
  by (auto split: prod.splits if_splits sum.splits)

lemma load_parts:
  assumes "load_config src = Inr c"
  shows "load_env src = (cf_env c, [])"
    and "load_port src = (cf_port c, [])"
    and "load_timeout src = (cf_shutdown_timeout c, [])"
    and "telegram_validate (cf_telegram c) = []"
    and "whatsapp_validate (cf_whatsapp c) = []"
    and "load_direct_messaging src ''MESSENGER'' ''MESSENGER_PAGE_ID'' = (cf_messenger c, [])"
    and "load_direct_messaging src ''INSTAGRAM'' ''INSTAGRAM_ACCOUNT_ID'' = (cf_instagram c, [])"
    and "load_ai src = (cf_ai c, [])"
    and "load_storage src (cf_env c) = (cf_storage c, [])"
    and "load_reminders src (cf_env c) (sb_project_id (cf_storage c)) = (cf_reminders c, [])"
    and "load_notifications src (c\<lparr>cf_notifications := no_notifications\<rparr>) = (cf_notifications c, [])"
  using load_parts_all [OF assms] by simp_all

lemma accepted_parts:
  shows "load_port src = (port, []) \<Longrightarrow> 1 \<le> port \<and> port \<le> 65535"
    and "load_timeout src = (d, []) \<Longrightarrow> 0 < d"
    and "load_direct_messaging src p i = (dm, []) \<Longrightarrow> direct_enabled dm \<Longrightarrow>
      dm_account_id dm \<noteq> [] \<and> dm_app_secret dm \<noteq> [] \<and> dm_verify_token dm \<noteq> []"
    and "load_ai src = (ai, []) \<Longrightarrow> 512 \<le> ai_max_output_tokens ai \<and> ai_max_output_tokens ai \<le> 32768"
    and "load_storage src env = (st, []) \<Longrightarrow> sb_backend st \<in> {StorageMemory, StorageFirestore} \<and>
      (env = EnvProduction \<longrightarrow> sb_backend st = StorageFirestore) \<and>
      (sb_backend st = StorageFirestore \<longrightarrow> sb_project_id st \<noteq> [])"
    and "load_reminders src env project = (rb, []) \<Longrightarrow>
      rb_backend rb \<in> {RemindersDisabled, RemindersMemory, RemindersCloudTasks} \<and>
      (env = EnvProduction \<longrightarrow> rb_backend rb \<noteq> RemindersMemory) \<and> 0 < rb_lead_time rb"
    and "load_notifications src cfg = (nt, []) \<Longrightarrow> nt_enabled nt \<Longrightarrow>
      32 \<le> length (nt_webhook_secret nt) \<and> sb_backend (cf_storage cfg) = StorageFirestore \<and>
      rb_backend (cf_reminders cfg) = RemindersCloudTasks"
proof -
  show "1 \<le> port \<and> port \<le> 65535" if "load_port src = (port, [])"
    using that by (auto simp: load_port_def split: option.splits if_splits)
  show "0 < d" if "load_timeout src = (d, [])"
    using that by (auto simp: load_timeout_def split: sum.splits if_splits)
  show "dm_account_id dm \<noteq> [] \<and> dm_app_secret dm \<noteq> [] \<and> dm_verify_token dm \<noteq> []"
    if "load_direct_messaging src p i = (dm, [])" "direct_enabled dm"
    using that by (auto simp: load_direct_messaging_def Let_def split: if_splits)
  show "512 \<le> ai_max_output_tokens ai \<and> ai_max_output_tokens ai \<le> 32768" if "load_ai src = (ai, [])"
    using that by (auto simp: load_ai_def Let_def split: option.splits if_splits)
  show "sb_backend st \<in> {StorageMemory, StorageFirestore} \<and> (env = EnvProduction \<longrightarrow> sb_backend st = StorageFirestore) \<and>
      (sb_backend st = StorageFirestore \<longrightarrow> sb_project_id st \<noteq> [])" if "load_storage src env = (st, [])"
    using that by (auto simp: load_storage_def Let_def split: if_splits)
  show "rb_backend rb \<in> {RemindersDisabled, RemindersMemory, RemindersCloudTasks} \<and>
      (env = EnvProduction \<longrightarrow> rb_backend rb \<noteq> RemindersMemory) \<and> 0 < rb_lead_time rb"
    if "load_reminders src env project = (rb, [])"
    using that by (auto simp: load_reminders_def Let_def split: sum.splits if_splits)
  show "32 \<le> length (nt_webhook_secret nt) \<and> sb_backend (cf_storage cfg) = StorageFirestore \<and>
      rb_backend (cf_reminders cfg) = RemindersCloudTasks"
    if "load_notifications src cfg = (nt, [])" "nt_enabled nt"
    using that by (auto simp: load_notifications_def load_activation_def Let_def split: prod.splits sum.splits if_splits)
qed

lemma accepted_channels:
  assumes "load_config src = Inr c"
  shows "channels_guarded c"
proof -
  note parts = load_parts [OF assms]
  have "telegram_enabled (cf_telegram c) \<longrightarrow> tg_webhook_secret (cf_telegram c) \<noteq> [] \<and>
      length (tg_webhook_secret (cf_telegram c)) \<le> 256 \<and> is_telegram_secret (tg_webhook_secret (cf_telegram c))"
    using parts(4) by (auto simp: telegram_validate_def split: if_splits)
  moreover have "whatsapp_enabled (cf_whatsapp c) \<longrightarrow> wa_phone_number_id (cf_whatsapp c) \<noteq> [] \<and>
      wa_app_secret (cf_whatsapp c) \<noteq> [] \<and> wa_verify_token (cf_whatsapp c) \<noteq> []"
    using parts(5) by (auto simp: whatsapp_validate_def split: if_splits)
  ultimately show ?thesis
    using accepted_parts(3) [OF parts(6)] accepted_parts(3) [OF parts(7)] accepted_parts(7) [OF parts(11)]
    by (simp add: channels_guarded_def)
qed

lemma accepted_state: "load_config src = Inr c \<Longrightarrow> state_durable c"
  using accepted_parts(5) [OF load_parts(9)] accepted_parts(6) [OF load_parts(10)] accepted_parts(7) [OF load_parts(11)]
  by (auto simp: state_durable_def)

lemma accepted_bounds: "load_config src = Inr c \<Longrightarrow> bounds_kept c"
  using accepted_parts(1) [OF load_parts(2)] accepted_parts(2) [OF load_parts(3)] accepted_parts(4) [OF load_parts(8)]
    accepted_parts(6) [OF load_parts(10)]
  by (simp add: bounds_kept_def)

end
