(* ===== verification/PlatformProperties.thy ===== *)
theory PlatformProperties
  imports TaskQueues ActiveTurns Settings ReminderLaws
begin

text \<open>
  The properties of what the services stand on: the configuration, the queues of delayed work, and
  the registry that stops overtaken turns.
\<close>

text \<open>
  C7. A configuration that is accepted opens no webhook without the secret that authenticates it,
  keeps no state in the process in production, gives active notifications a durable store and queue,
  and keeps the port, the timeouts and the model's output within their bounds.
\<close>

theorem accepted_configuration_safe:
  assumes "load_config src = Inr c"
  shows "channels_guarded c \<and> state_durable c \<and> bounds_kept c"
  using accepted_channels [OF assms] accepted_state [OF assms] accepted_bounds [OF assms] by blast

definition sample_source :: settings_source where
  "sample_source =
     \<lparr>so_variable = (\<lambda>k. if k = ''APP_ENV'' then ''production'' else if k = ''GCP_PROJECT_ID'' then ''salon''
        else if k = ''TELEGRAM_BOT_TOKEN'' then ''7:a'' else if k = ''TELEGRAM_WEBHOOK_SECRET'' then ''s3cret_A'' else []),
      so_to_lower = ascii_lower, so_parse_url = (\<lambda>_. Inl (errors_new [])),
      so_parse_duration = (\<lambda>s. if s = ''8s'' then Inr (8 * second) else if s = ''24h'' then Inr (24 * hour) else Inl (errors_new [])),
      so_parse_time = (\<lambda>_. Inl (errors_new [])), so_load_location = (\<lambda>_. Inl (errors_new [])),
      so_decode_account = (\<lambda>_. (None, zero_account)), so_decode_templates = (\<lambda>_. (None, [])),
      so_decode_sms = (\<lambda>_. (None, zero_sms_gate))\<rparr>"

lemma sample_source_accepted:
  "case load_config sample_source of Inl _ \<Rightarrow> False | Inr c \<Rightarrow> telegram_enabled (cf_telegram c) \<and> cf_env c = EnvProduction"
  by code_simp

theorem accepted_configuration_safe_witness:
  "case load_config sample_source of Inl _ \<Rightarrow> False
   | Inr c \<Rightarrow> tg_webhook_secret (cf_telegram c) \<noteq> [] \<and> sb_backend (cf_storage c) = StorageFirestore"
proof -
  from sample_source_accepted obtain c where c: "load_config sample_source = Inr c"
    "telegram_enabled (cf_telegram c)" "cf_env c = EnvProduction" by (auto split: sum.splits)
  from accepted_configuration_safe [OF c(1)] c show ?thesis by (simp add: channels_guarded_def state_durable_def)
qed

text \<open>
  C33. While the development scheduler runs, every reminder task it accepted is waiting on its timer or
  being delivered until a delivery has succeeded: a failed delivery is planned again.
\<close>

theorem accepted_work_under_way:
  assumes "outstanding s ids" "\<not> ls_closed s" "i \<in> ids"
  shows "i \<in> under_way s"
  using outstanding_under_way [OF assms(1)] assms(2,3) by blast

definition sample_task :: delayed_task where
  "sample_task = \<lparr>tk_id = ''t1'', tk_reminder_id = ''r1'', tk_run_at = 100\<rparr>"

theorem accepted_work_under_way_witness:
  "''t1'' \<in> under_way (handler_returned 100 sample_task False (timer_runs sample_task
     (snd (local_schedule sample_task new_local_scheduler) \<lparr>ls_fired := [sample_task]\<rparr>)))"
proof -
  let ?s = "snd (local_schedule sample_task new_local_scheduler)"
  note defs = local_schedule_def new_local_scheduler_def sample_task_def task_complete_def time_defs timer_runs_def
    handler_returned_def Let_def
  have "outstanding ?s {''t1''}"
    using outstanding.accepted [OF outstanding.new, of sample_task ?s] by (simp add: defs)
  then have "outstanding (?s\<lparr>ls_fired := [sample_task]\<rparr>) {''t1''}"
    using outstanding.fires [of ?s "{''t1''}" "''t1''" sample_task 100] by (simp add: defs)
  then have "outstanding (timer_runs sample_task (?s\<lparr>ls_fired := [sample_task]\<rparr>)) {''t1''}"
    by (rule outstanding.runs) simp
  then have "outstanding (handler_returned 100 sample_task False (timer_runs sample_task (?s\<lparr>ls_fired := [sample_task]\<rparr>))) {''t1''}"
    by (rule outstanding.fails) (simp_all add: defs duration_defs retry_delay_def)
  then show ?thesis by (rule accepted_work_under_way) (simp_all add: defs)
qed

text \<open>
  Once the development scheduler is closed and its last handler has returned, no delivery ever runs
  again, whatever timers had already fired and whatever is planned afterwards.
\<close>

theorem closed_scheduler_quiet:
  assumes "local_reachable s" "ls_closed s" "ls_running s = []" "local_steps s s'"
  shows "ls_running s' = [] \<and> ls_timers s' = []"
  using closed_steps [OF assms(4) local_reachable_inv [OF assms(1)] assms(2)] assms(3)
  by (auto dest: local_invD(5))

theorem closed_scheduler_quiet_witness:
  "ls_running (snd (local_schedule sample_task (local_close new_local_scheduler))) = []"
proof -
  have "local_reachable (local_close new_local_scheduler)"
    by (rule local_reachable.after [OF local_reachable.new local_step.closes])
  moreover have "local_steps (local_close new_local_scheduler) (snd (local_schedule sample_task (local_close new_local_scheduler)))"
    by (rule local_steps.more [OF local_steps.none local_step.schedules])
  ultimately show ?thesis
    using closed_scheduler_quiet [of "local_close new_local_scheduler"
        "snd (local_schedule sample_task (local_close new_local_scheduler))"]
    by (simp add: local_close_def new_local_scheduler_def)
qed

text \<open>
  A wake the reminders ask for is never refused for the limit of the hosted queue, and once it is
  accepted, asking for it again, after whatever else was planned, leaves the queue as it is.
\<close>

theorem wakes_planned_once:
  assumes "keeps_names client cfg" "rm_created_at r \<le> now" "now < rm_due_at r"
    and "task_complete t" "tk_run_at t = wake_at r now" "cloud_schedule client cfg now t q = (res, q')"
  shows "schedule_body client cfg (tk_id t) (tk_run_at t) [(''reminder_id'', tk_reminder_id t)] q = (res, q') \<and>
    (res = Inr () \<longrightarrow> snd (cloud_schedule client cfg now t (scheduler.schedule_each (cloud_schedule client cfg now) ts q')) =
       scheduler.schedule_each (cloud_schedule client cfg now) ts q')"
proof
  have "wake_at r now \<le> now + maximum_schedule_delay"
    using wake_at_bounds(2) [OF assms(2,3)] by (simp add: max_task_delay_def maximum_schedule_delay_def duration_defs)
  with assms(4-6) show "schedule_body client cfg (tk_id t) (tk_run_at t) [(''reminder_id'', tk_reminder_id t)] q = (res, q')"
    by (simp add: cloud_schedule_def time_defs)
qed (use assms(6) scheduler.planned_once [OF hosted_queue [OF assms(1)]] in blast)

definition sample_client :: "(string list) queue_client" where
  "sample_client = \<lparr>qe_create = (\<lambda>task q. if ht_name task \<in> set q then (AlreadyExists, q) else (Created, ht_name task # q)),
     qe_valid_time = (\<lambda>_. True)\<rparr>"

definition sample_queue :: queue_config where
  "sample_queue = \<lparr>qc_project_id = ''p'', qc_location = ''l'', qc_queue = ''q'', qc_target_url = ''https://x'',
     qc_audience = ''https://x'', qc_service_account = ''a''\<rparr>"

theorem wakes_planned_once_witness:
  "snd (cloud_schedule sample_client sample_queue 10 sample_task (snd (cloud_schedule sample_client sample_queue 10 sample_task []))) =
   snd (cloud_schedule sample_client sample_queue 10 sample_task [])"
proof -
  let ?r = "\<lparr>rm_id = ''r1'', rm_booking_id = ''41'', rm_customer_id = ''u1'', rm_conversation_id = ''c1'',
    rm_provider = ProviderTelegram, rm_thread_id = ''12'', rm_language = ''en'', rm_expected_start = 200, rm_due_at = 100,
    rm_status = StatusScheduled, rm_created_at = 10, rm_claim_id = [], rm_claim_expires = 0, rm_finished_at = 0\<rparr> :: reminder"
  obtain q' where q: "cloud_schedule sample_client sample_queue 10 sample_task [] = (Inr (), q')"
    by (simp add: cloud_schedule_def sample_client_def sample_task_def schedule_body_def task_complete_def time_defs
        maximum_schedule_delay_def duration_defs)
  have names: "keeps_names sample_client sample_queue"
    by (auto simp: keeps_names_def taken_def sample_client_def split: if_splits)
  have "wake_at ?r 10 = 100" by (simp add: wake_at_def time_defs max_task_delay_def duration_defs)
  then show ?thesis
    using wakes_planned_once [OF names _ _ _ _ q, of ?r "[]"] hosted_queue [OF names, THEN scheduler.schedule_each.simps(1)] q
    by (simp add: sample_task_def task_complete_def time_defs)
qed



text \<open>
  C35. When no cancellation is on its way, at most one turn of a conversation is still at work on this
  process, and it is the one activated last.
\<close>

theorem only_newest_turn_live:
  assumes "registry_reachable r" "ar_cancelling r = []" "live_turn r n"
    and "m < length (ar_turns r)" "key_of r m = key_of r n"
  shows "m \<le> n \<and> (live_turn r m \<longrightarrow> m = n)"
proof -
  note inv = registry_reachable_inv [OF assms(1)]
  have "m \<le> n" using live_is_newest(2) [OF inv assms(2,3,4,5)] .
  moreover have "m = n" if "live_turn r m"
    using live_is_newest(1) [OF inv assms(2,3)] live_is_newest(1) [OF inv assms(2) that] assms(5) by simp
  ultimately show ?thesis by blast
qed

definition two_turns :: active_registry where
  "two_turns = cancel_overtaken 0 (snd (activate_turn ''c'' ''m2'' (snd (activate_turn ''c'' ''m1'' new_registry))))"

theorem only_newest_turn_live_witness: "\<not> live_turn two_turns 0"
proof -
  let ?one = "snd (activate_turn ''c'' ''m1'' new_registry)"
  have "registry_reachable ?one" by (rule registry_reachable.step [OF registry_reachable.new registry_step.activates])
  then have "registry_reachable (snd (activate_turn ''c'' ''m2'' ?one))"
    by (rule registry_reachable.step [OF _ registry_step.activates])
  then have "registry_reachable two_turns"
    unfolding two_turns_def
    by (rule registry_reachable.step [OF _ registry_step.cancels]) (simp add: activate_turn_def new_registry_def Let_def)
  moreover have "ar_cancelling two_turns = []" "live_turn two_turns 1" "0 < length (ar_turns two_turns)"
    "key_of two_turns 0 = key_of two_turns 1"
    by (simp_all add: two_turns_def cancel_overtaken_def cancel_turn_def activate_turn_def new_registry_def live_turn_def
        key_of_def Let_def)
  ultimately show ?thesis using only_newest_turn_live [of two_turns 1 0] by auto
qed

end
