(* ===== verification/CalendarExport.thy ===== *)
theory CalendarExport
  imports Choices Reminders
begin

text \<open>
  The private calendar export (\<open>internal/application/calendar\<close>): the signed link to one appointment,
  the page and the file it answers with, and the folding of the file's lines. The reader of a UUID,
  the signature (HMAC-SHA-256 in base64), the hash of the event's identifier, the parsing of a URL and
  the rendering of instants are fields of the environment; so are the words of the page. A link is
  kept as its parts, and a page as the texts that are filled in.

  What the calendar export keeps: the folding of the file's lines ends on well-formed text, keeps them
  within 75 octets and loses nothing; an answer with the appointment was asked for with its key.
\<close>

section \<open>The environment\<close>

record calendar_words =
  kw_heading :: string
  kw_download :: string
  kw_note :: string
  kw_help :: string
  kw_expired :: string

record calendar_env =
  ke_uuid_version :: "string \<Rightarrow> nat option"
  ke_mac :: "string \<Rightarrow> string \<Rightarrow> string"
  ke_uid :: "string \<Rightarrow> string"
  ke_parse_url :: "string \<Rightarrow> (string \<times> string) result"
  ke_stamp :: "time \<Rightarrow> string"
  ke_find :: "string \<Rightarrow> booking result"
  ke_native :: "(string \<Rightarrow> string \<Rightarrow> booking result) option"
  ke_reader :: "(booking \<Rightarrow> booking result) option"
  ke_now :: time
  ke_name :: string
  ke_addresses :: "string \<Rightarrow> string"
  ke_words :: "string \<Rightarrow> calendar_words"

definition calendar_language :: "string \<Rightarrow> string" where
  "calendar_language s =
     (let l = ascii_lower (takeWhile (\<lambda>c. c \<noteq> CHR ''-'') s) in if l = ''ru'' \<or> l = ''hy'' then l else ''en'')"

section \<open>The link\<close>

definition capability :: "calendar_env \<Rightarrow> booking \<Rightarrow> string" where
  "capability env b =
     (case ke_uuid_version env (bk_id b) of
        None \<Rightarrow> []
      | Some v \<Rightarrow> if v \<noteq> 4 \<and> v \<noteq> 7 then [] else ke_mac env (bk_id b) (''calendar-read-v1:'' @ bk_external_id b))"

definition valid_capability :: "calendar_env \<Rightarrow> booking \<Rightarrow> string \<Rightarrow> bool" where
  "valid_capability env b key \<longleftrightarrow> (let expected = capability env b in expected \<noteq> [] \<and> key = expected)"

record link_parts =
  kl_host :: string
  kl_reference :: string
  kl_key :: string
  kl_lang :: string

definition calendar_link :: "calendar_env \<Rightarrow> string \<Rightarrow> booking \<Rightarrow> string \<Rightarrow> link_parts option" where
  "calendar_link env base b lang =
     (let token = capability env b in
      case ke_parse_url env base of
        Inl _ \<Rightarrow> None
      | Inr (scheme, host) \<Rightarrow>
        if scheme \<noteq> ''https'' \<or> host = [] \<or> token = [] \<or> bk_duration b \<le> 0 \<or> bk_status b \<noteq> StatusConfirmed then None
        else Some \<lparr>kl_host = host, kl_reference = bk_external_id b, kl_key = token, kl_lang = calendar_language lang\<rparr>)"

section \<open>The file\<close>

text \<open>
  The replacements of RFC 5545 text. A line feed right after a carriage return belongs to it, which
  is what the flag says.
\<close>

fun escape_after :: "bool \<Rightarrow> string \<Rightarrow> string" where
  "escape_after cr [] = []"
| "escape_after cr (c # s) =
     (if c = CHR 0x5C then [CHR 0x5C, CHR 0x5C] @ escape_after False s
      else if c = CHR 0x0D then [CHR 0x5C, CHR ''n''] @ escape_after True s
      else if c = CHR 0x0A then (if cr then [] else [CHR 0x5C, CHR ''n'']) @ escape_after False s
      else if c = CHR '','' then [CHR 0x5C, CHR '',''] @ escape_after False s
      else if c = CHR '';'' then [CHR 0x5C, CHR '';''] @ escape_after False s
      else c # escape_after False s)"

definition ics_escape :: "string \<Rightarrow> string" where "ics_escape = escape_after False"

definition rune_start :: "char \<Rightarrow> bool" where
  "rune_start c \<longleftrightarrow> \<not> continues (of_char c)"

text \<open>From the limit back to the start of a rune; \<open>None\<close> when the index would fall below zero.\<close>

fun cut_before :: "nat \<Rightarrow> string \<Rightarrow> nat option" where
  "cut_before n line =
     (if rune_start (line ! n) then Some n else case n of 0 \<Rightarrow> None | Suc m \<Rightarrow> cut_before m line)"

declare cut_before.simps [simp del]

text \<open>
  The physical lines of one content line; \<open>None\<close> for a run that does not return, by a panic or for
  ever, as it could on a long run of stray continuation bytes.
\<close>

partial_function (option) fold_line :: "string \<Rightarrow> string list option" where
  "fold_line line =
     (if length line \<le> 75 then Some [line]
      else case cut_before 75 line of
        None \<Rightarrow> None
      | Some n \<Rightarrow> Option.bind (fold_line ('' '' @ drop n line)) (\<lambda>rest. Some (take n line # rest)))"

definition crlf :: string where "crlf = [CHR 0x0D, CHR 0x0A]"

definition ics_lines :: "calendar_env \<Rightarrow> booking \<Rightarrow> string \<Rightarrow> string \<Rightarrow> string \<Rightarrow> time \<Rightarrow> string list" where
  "ics_lines env b title address description now =
     [''BEGIN:VCALENDAR'', ''VERSION:2.0'', ''PRODID:-//Motion Concept//Appointments//EN'', ''CALSCALE:GREGORIAN'',
      ''BEGIN:VEVENT'', ''UID:'' @ ke_uid env (''calendar-uid:'' @ bk_id b) @ ''@motionconcept.rest'',
      ''DTSTAMP:'' @ ke_stamp env now, ''DTSTART:'' @ ke_stamp env (bk_starts_at b),
      ''DTEND:'' @ ke_stamp env (bk_starts_at b + calendar_duration b), ''SUMMARY:'' @ ics_escape title,
      ''LOCATION:'' @ ics_escape address, ''DESCRIPTION:'' @ ics_escape description, ''STATUS:CONFIRMED'',
      ''TRANSP:OPAQUE'', ''BEGIN:VALARM'', ''TRIGGER:-PT24H'', ''ACTION:DISPLAY'', ''DESCRIPTION:'' @ ics_escape title,
      ''END:VALARM'', ''END:VEVENT'', ''END:VCALENDAR'']"

fun fold_lines :: "string list \<Rightarrow> string list option" where
  "fold_lines [] = Some []"
| "fold_lines (line # ls) = Option.bind (fold_line line) (\<lambda>xs. Option.bind (fold_lines ls) (\<lambda>ys. Some (xs @ ys)))"

definition ics :: "calendar_env \<Rightarrow> booking \<Rightarrow> string \<Rightarrow> string \<Rightarrow> string \<Rightarrow> time \<Rightarrow> string option" where
  "ics env b title address description now =
     map_option (\<lambda>ls. concat (map (\<lambda>l. l @ crlf) ls)) (fold_lines (ics_lines env b title address description now))"

section \<open>Answering\<close>

record calendar_page =
  kp_lang :: string
  kp_title :: string
  kp_address :: string
  kp_description :: string
  kp_starts_at :: time
  kp_ends_at :: time
  kp_words :: calendar_words

datatype calendar_answer = PageMissing | TryAgainShortly | PageGone string | IcsFile "string option" | AppointmentPage calendar_page

definition em_dash :: string where "em_dash = [CHR '' '', CHR 0xE2, CHR 0x80, CHR 0x94, CHR '' '']"

definition calendar_appointment ::
  "calendar_env \<Rightarrow> string \<Rightarrow> string \<Rightarrow> booking \<Rightarrow> bool \<Rightarrow> calendar_answer" where
  "calendar_appointment env lang_tag fmt b native =
     (let lang = calendar_language lang_tag; p = ke_words env lang;
          current = (case ke_reader env of Some read_booking \<Rightarrow> if native then Inr b else read_booking b | None \<Rightarrow> Inr b)
      in case current of
        Inl e \<Rightarrow> if errors_is e BookingNotFound then PageGone (kw_expired p) else TryAgainShortly
      | Inr b \<Rightarrow>
        let ends_at = bk_starts_at b + calendar_duration b in
        if bk_status b \<noteq> StatusConfirmed \<or> bk_duration b \<le> 0 \<or> after (ke_now env) (ends_at + 24 * hour)
        then PageGone (kw_expired p)
        else
          let title = trim_space (ke_name env @ em_dash @ join_with '', '' (bk_service_names b));
              address = ke_addresses env lang;
              description = (if bk_staff_name b \<noteq> [] then bk_staff_name b @ newline @ kw_note p else kw_note p)
          in if fmt = ''ics'' then IcsFile (ics env b title address description (ke_now env))
             else AppointmentPage \<lparr>kp_lang = lang, kp_title = title, kp_address = address, kp_description = description,
               kp_starts_at = bk_starts_at b, kp_ends_at = ends_at, kp_words = p\<rparr>)"

definition serve_calendar ::
  "calendar_env \<Rightarrow> string \<Rightarrow> string \<Rightarrow> string \<Rightarrow> string \<Rightarrow> calendar_answer" where
  "serve_calendar env reference key lang_tag fmt =
     (if length reference > 80 \<or> length key \<noteq> 43 then PageMissing
      else
        let (found, native) = (case ke_find env reference of
            Inr b \<Rightarrow> (Inr b, False)
          | Inl e \<Rightarrow> (case ke_native env of
              Some read_native \<Rightarrow> if errors_is e BookingNotFound then (read_native reference key, True) else (Inl e, False)
            | None \<Rightarrow> (Inl e, False)))
        in case found of
          Inl e \<Rightarrow> if errors_is e BookingNotFound then PageMissing else TryAgainShortly
        | Inr b \<Rightarrow> if capability env b = [] \<or> key \<noteq> capability env b then PageMissing
            else calendar_appointment env lang_tag fmt b native)"

section \<open>Runs of continuation bytes\<close>

text \<open>At most three continuation bytes follow each other, and at most \<open>k\<close> at the front.\<close>

fun short_runs :: "nat \<Rightarrow> string \<Rightarrow> bool" where
  "short_runs k [] = True"
| "short_runs k (c # s) = (if rune_start c then short_runs 3 s else 0 < k \<and> short_runs (k - 1) s)"

lemma short_runs_mono: "short_runs k s \<Longrightarrow> k \<le> k' \<Longrightarrow> short_runs k' s"
  by (induction k s arbitrary: k' rule: short_runs.induct) auto

lemma short_runs_drop: "short_runs k s \<Longrightarrow> k \<le> 3 \<Longrightarrow> short_runs 3 (drop n s)"
proof (induction k s arbitrary: n rule: short_runs.induct)
  case (2 k c s)
  then show ?case by (cases n) (auto split: if_splits intro: short_runs_mono)
qed simp

lemma short_runs_start: "short_runs k s \<Longrightarrow> k < length s \<Longrightarrow> \<exists>j \<le> k. rune_start (s ! j)"
proof (induction k s rule: short_runs.induct)
  case (2 k c s)
  show ?case
  proof (cases "rune_start c")
    case False
    with 2(3,4) have "0 < k" "short_runs (k - 1) s" "k - 1 < length s" by auto
    with 2(2) False have "\<exists>j \<le> k - 1. rune_start (s ! j)" by blast
    then obtain j where "j \<le> k - 1" "rune_start (s ! j)" by blast
    with \<open>0 < k\<close> show ?thesis by (intro exI [of _ "Suc j"]) auto
  qed auto
qed simp

lemma short_runs_ascii: "list_all rune_start p \<Longrightarrow> p \<noteq> [] \<Longrightarrow> short_runs 3 s \<Longrightarrow> short_runs k (p @ s)"
proof (induction p arbitrary: k)
  case (Cons c p)
  then show ?case by (cases p) auto
qed simp

lemma rune_start_code: "b < 0x80 \<or> 0xC0 \<le> b \<Longrightarrow> b < 256 \<Longrightarrow> rune_start (char_of (b :: nat))"
  by (auto simp: rune_start_def continues_def)

lemma short_runs_utf8: "short_runs 0 (utf8 rs)"
proof (induction rs)
  case (Cons r rs)
  let ?r = "if is_scalar r then r else replacement_rune"
  have r: "?r \<le> 0x10FFFF" by (auto simp: is_scalar_def replacement_rune_def)
  have conts: "short_runs n (map char_of xs @ utf8 rs)" if "length xs \<le> n" "length xs \<le> 3" for n and xs :: "nat list"
    using that
  proof (induction xs arbitrary: n)
    case Nil
    show ?case using Cons by (auto intro: short_runs_mono)
  next
    case (Cons x xs)
    then have "short_runs (n - 1) (map char_of xs @ utf8 rs)" "short_runs 3 (map char_of xs @ utf8 rs)" by simp_all
    with Cons.prems show ?case by auto
  qed
  have "\<exists>a xs. encode_scalar ?r = a # xs \<and> length xs \<le> 3 \<and> a < 256 \<and> (a < 0x80 \<or> 0xC0 \<le> a)"
    using r by (auto simp: encode_scalar_def)
  then obtain a xs where e: "encode_scalar ?r = a # xs" "length xs \<le> 3" "a < 256" "a < 0x80 \<or> 0xC0 \<le> a" by blast
  have "utf8 (r # rs) = char_of a # map char_of xs @ utf8 rs"
    using e(1) by (simp add: utf8_def encode_rune_def)
  then show ?case using conts [OF e(2,2)] rune_start_code [OF e(4,3)] by simp
qed (simp add: utf8_def)

definition valid_text :: "string \<Rightarrow> bool" where
  "valid_text s \<longleftrightarrow> utf8 (runes s) = s"

lemma valid_short: "valid_text s \<Longrightarrow> short_runs 3 s"
  using short_runs_utf8 [of "runes s"] by (auto simp: valid_text_def intro: short_runs_mono)

lemma escape_short: "short_runs k s \<Longrightarrow> k \<le> 3 \<Longrightarrow> (cr \<Longrightarrow> k = 3) \<Longrightarrow> short_runs k (escape_after cr s)"
proof (induction cr s arbitrary: k rule: escape_after.induct)
  case (2 cr c s)
  have ascii: "rune_start (CHR 0x5C)" "rune_start (CHR 0x0D)" "rune_start (CHR 0x0A)" "rune_start (CHR '','')"
    "rune_start (CHR '';'')" "rune_start (CHR ''n'')"
    by (simp_all add: rune_start_def continues_def)
  show ?case
  proof (cases "rune_start c")
    case True
    with 2(7) have "short_runs 3 s" by simp
    with 2(1-6) have "short_runs 3 (escape_after (c = CHR 0x0D) s)"
      by (cases "c \<in> {CHR 0x5C, CHR 0x0D, CHR 0x0A, CHR '','', CHR '';''}") auto
    then show ?thesis using True ascii 2(8,9)
      by (cases "c \<in> {CHR 0x5C, CHR 0x0D, CHR 0x0A, CHR '','', CHR '';''}") auto
  next
    case False
    with ascii have "c \<noteq> CHR 0x5C" "c \<noteq> CHR 0x0D" "c \<noteq> CHR 0x0A" "c \<noteq> CHR '',''" "c \<noteq> CHR '';''" by auto
    with False 2(6-8) show ?thesis by auto
  qed
qed simp

section \<open>Folding\<close>

lemma cut_before_found:
  "rune_start (line ! j) \<Longrightarrow> j \<le> n \<Longrightarrow> \<exists>m. cut_before n line = Some m \<and> j \<le> m \<and> m \<le> n"
proof (induction n)
  case 0
  then show ?case by (subst cut_before.simps) simp
next
  case (Suc n)
  then show ?case by (subst cut_before.simps) (cases "j = Suc n"; fastforce)
qed

text \<open>Joining the physical lines without the space each further one begins with.\<close>

fun unfold_lines :: "string list \<Rightarrow> string" where
  "unfold_lines [] = []"
| "unfold_lines (l # ls) = l @ concat (map (drop 1) ls)"

definition folded :: "string \<Rightarrow> string list \<Rightarrow> bool" where
  "folded line ls \<longleftrightarrow> ls \<noteq> [] \<and> list_all (\<lambda>l. length l \<le> 75) ls \<and> list_all (\<lambda>l. take 1 l = '' '') (tl ls) \<and>
     unfold_lines ls = line \<and> (line \<noteq> [] \<longrightarrow> hd ls \<noteq> [])"

lemma fold_line_ends: "short_runs 3 line \<Longrightarrow> \<exists>ls. fold_line line = Some ls \<and> folded line ls"
proof (induction "length line" arbitrary: line rule: less_induct)
  case less
  show ?case
  proof (cases "length line \<le> 75")
    case True
    then have "fold_line line = Some [line]" by (subst fold_line.simps) simp
    with True show ?thesis by (simp add: folded_def)
  next
    case False
    then have "\<exists>j \<le> 3. rune_start (drop 72 line ! j)"
      using short_runs_drop [OF less.prems, of 72] by (intro short_runs_start) auto
    then obtain j where j: "j \<le> 3" "rune_start (drop 72 line ! j)" by blast
    with False have "rune_start (line ! (72 + j))" by simp
    with j(1) obtain m where m: "cut_before 75 line = Some m" "72 \<le> m" "m \<le> 75"
      using cut_before_found [of line "72 + j" 75] by auto
    let ?rest = "'' '' @ drop m line"
    have "short_runs 3 ?rest"
      using short_runs_drop [OF less.prems, of m] by (simp add: rune_start_def continues_def)
    moreover have "length ?rest < length line" using m False by simp
    ultimately obtain ls where ls: "fold_line ?rest = Some ls" "folded ?rest ls" using less.hyps by blast
    then have "fold_line line = Some (take m line # ls)" using False m by (subst fold_line.simps) simp
    moreover have "folded line (take m line # ls)"
    proof -
      obtain l ls' where l: "ls = l # ls'" using ls(2) by (cases ls) (simp_all add: folded_def)
      with ls(2) have eq: "l @ concat (map (drop 1) ls') = '' '' @ drop m line" by (simp add: folded_def)
      have "l \<noteq> []" using ls(2) l by (simp add: folded_def)
      with eq have first: "take 1 l = '' ''" "drop 1 l @ concat (map (drop 1) ls') = drop m line"
        by (cases l; simp)+
      have "take m line \<noteq> []" using m(2) False by auto
      moreover have "take m line @ drop 1 l @ concat (map (drop 1) ls') = line" by (simp only: first(2) append_take_drop_id)
      ultimately show ?thesis using ls(2) l first(1) m(3) by (simp add: folded_def)
    qed
    ultimately show ?thesis by blast
  qed
qed

section \<open>The file\<close>

definition one_line :: "string \<Rightarrow> bool" where
  "one_line s \<longleftrightarrow> CHR 0x0D \<notin> set s \<and> CHR 0x0A \<notin> set s"

definition plain_text :: "string \<Rightarrow> bool" where
  "plain_text s \<longleftrightarrow> list_all rune_start s \<and> one_line s"

lemma escape_one_line: "one_line (escape_after cr s)"
  by (induction cr s rule: escape_after.induct) (auto simp: one_line_def)

definition plain_environment :: "calendar_env \<Rightarrow> bool" where
  "plain_environment env \<longleftrightarrow> (\<forall>t. plain_text (ke_stamp env t)) \<and> (\<forall>s. plain_text (ke_uid env s))"

lemma labelled_short: "short_runs 3 s \<Longrightarrow> list_all rune_start p \<Longrightarrow> p \<noteq> [] \<Longrightarrow> short_runs 3 (p @ s)"
  by (rule short_runs_ascii)

lemma plain_short: "list_all rune_start s \<Longrightarrow> short_runs 3 s"
  using short_runs_ascii [of s "[]" 3] by (cases "s = []") simp_all

lemma ics_lines_ok:
  assumes "plain_environment env" "valid_text title" "valid_text address" "valid_text description"
  shows "list_all (\<lambda>l. short_runs 3 l \<and> one_line l) (ics_lines env b title address description now)"
proof -
  have words: "short_runs 3 (ics_escape t) \<and> one_line (ics_escape t)" if "valid_text t" for t
    using that by (simp add: ics_escape_def escape_one_line escape_short valid_short)
  have "plain_text (ke_stamp env t)" "plain_text (ke_uid env u)" for t u
    using assms(1) by (simp_all add: plain_environment_def)
  then have plain: "list_all rune_start (ke_stamp env t)" "one_line (ke_stamp env t)"
    "list_all rune_start (ke_uid env u)" "one_line (ke_uid env u)" for t u
    by (simp_all add: plain_text_def)
  have stamp: "short_runs 3 (ke_stamp env t)" for t by (rule plain_short [OF plain(1)])
  have uid: "short_runs 3 (ke_uid env u @ ''@motionconcept.rest'')" for u
    by (rule plain_short) (simp add: plain rune_start_def continues_def)
  show ?thesis
    using words [OF assms(2)] words [OF assms(3)] words [OF assms(4)] stamp uid plain
    by (simp add: ics_lines_def one_line_def rune_start_def continues_def)
qed

lemma fold_lines_end:
  "list_all (short_runs 3) lines \<Longrightarrow> \<exists>lss. fold_lines lines = Some (concat lss) \<and> list_all2 folded lines lss"
proof (induction lines)
  case (Cons l ls)
  then obtain lss where lss: "fold_lines ls = Some (concat lss)" "list_all2 folded ls lss" by auto
  obtain xs where "fold_line l = Some xs" "folded l xs" using fold_line_ends [of l] Cons.prems by auto
  with lss show ?case by (intro exI [of _ "xs # lss"]) simp
qed simp

section \<open>Who sees an appointment\<close>

definition shows_appointment :: "calendar_answer \<Rightarrow> bool" where
  "shows_appointment a \<longleftrightarrow> (case a of IcsFile _ \<Rightarrow> True | AppointmentPage _ \<Rightarrow> True | _ \<Rightarrow> False)"

lemma calendar_appointment_shows:
  "shows_appointment (calendar_appointment env tag fmt b native) \<Longrightarrow>
   \<exists>b'. (b' = b \<or> (\<exists>read_booking. ke_reader env = Some read_booking \<and> \<not> native \<and> read_booking b = Inr b')) \<and>
     bk_status b' = StatusConfirmed \<and> 0 < bk_duration b' \<and>
     \<not> after (ke_now env) (bk_starts_at b' + calendar_duration b' + 24 * hour)"
  by (auto simp: calendar_appointment_def shows_appointment_def Let_def split: option.splits sum.splits if_splits)

lemma serve_calendar_shows:
  assumes "shows_appointment (serve_calendar env reference key tag fmt)"
  shows "\<exists>b native. (ke_find env reference = Inr b \<or> (\<exists>f. ke_native env = Some f \<and> f reference key = Inr b)) \<and>
    valid_capability env b key \<and> shows_appointment (calendar_appointment env tag fmt b native)"
proof -
  have hidden: "\<not> shows_appointment PageMissing" "\<not> shows_appointment TryAgainShortly" by (simp_all add: shows_appointment_def)
  from assms show ?thesis
    unfolding serve_calendar_def Let_def
    by (auto simp: hidden valid_capability_def Let_def split: sum.splits option.splits if_splits)
qed

lemma link_opens:
  assumes "calendar_link env base b lang = Some l" "ke_find env (kl_reference l) = Inr b" "ke_reader env = None"
    and "length (kl_reference l) \<le> 80" "length (kl_key l) = 43"
    and "\<not> after (ke_now env) (bk_starts_at b + calendar_duration b + 24 * hour)"
  shows "shows_appointment (serve_calendar env (kl_reference l) (kl_key l) tag fmt)"
proof -
  have l: "kl_key l = capability env b" "capability env b \<noteq> []" "bk_status b = StatusConfirmed" "0 < bk_duration b"
    using assms(1) by (auto simp: calendar_link_def Let_def split: sum.splits prod.splits if_splits)
  then show ?thesis
    using assms(2-6) by (simp add: serve_calendar_def calendar_appointment_def shows_appointment_def Let_def)
qed

end
