(* ===== verification/AppointmentMessages.thy ===== *)
theory AppointmentMessages
  imports CalendarExport Settings
begin

text \<open>
  The messages about an appointment (\<open>internal/application/appointmentmessage\<close>): the sections of a
  confirmation, a reminder, a change and a cancellation, the links beside them, and the short form for
  SMS. The fixed phrases of a language are a record of words, a parameter; so are the headings of a
  change and the rendering of the date, of the time and of the zone.
\<close>

section \<open>The business and its words\<close>

definition in_language :: "localized_text \<Rightarrow> string \<Rightarrow> string" where
  "in_language t lang =
     trim_space (if lang = ''hy'' then lt_armenian t else if lang = ''ru'' then lt_russian t else lt_english t)"

record visit_business =
  bz_name :: string
  bz_address :: localized_text
  bz_phone :: string
  bz_preparation :: localized_text
  bz_amenities :: localized_text
  bz_instagram_url :: string
  bz_map_url :: string
  bz_yandex_map_url :: string
  bz_parking_url :: string

record appointment =
  ap_customer_name :: string
  ap_starts_at :: time
  ap_service :: string
  ap_specialist :: string
  ap_reference :: string
  ap_calendar_url :: string

record message_words =
  mw_confirmation :: string
  mw_confirmation_named :: string
  mw_reminder :: string
  mw_date :: string
  mw_time :: string
  mw_service :: string
  mw_specialist :: string
  mw_reference :: string
  mw_preparation :: string
  mw_amenities :: string
  mw_instagram :: string
  mw_google_map :: string
  mw_yandex_map :: string
  mw_parking :: string
  mw_confirmation_closing :: string
  mw_confirmation_named_closing :: string
  mw_reminder_closing :: string
  mw_reminder_named_closing :: string
  mw_changed :: string
  mw_cancelled :: string
  mw_cancelled_closing :: string
  mw_warm :: string
  mw_calendar :: string
  mw_manage :: string

record renderer =
  rn_business :: visit_business
  rn_words :: "string \<Rightarrow> message_words"
  rn_date :: "time \<Rightarrow> string"
  rn_clock :: "time \<Rightarrow> string"
  rn_zone :: string

text \<open>The emoji that open a line, as bytes.\<close>

record marks =
  mk_date :: string
  mk_clock :: string
  mk_service :: string
  mk_specialist :: string
  mk_address :: string
  mk_phone :: string

definition marks :: marks where
  "marks = \<lparr>mk_date = utf8 [0x1F4C5, 0x20], mk_clock = utf8 [0x1F552, 0x20], mk_service = utf8 [0x1F33F, 0x20],
     mk_specialist = utf8 [0x1F464, 0x20], mk_address = utf8 [0x1F4CD, 0x20], mk_phone = utf8 [0x260E, 0xFE0F, 0x20]\<rparr>"

definition middle_dot :: string where "middle_dot = utf8 [0x20, 0xB7, 0x20]"

definition inline_text :: "string \<Rightarrow> string" where
  "inline_text s = join_with '' '' (string_fields s)"

text \<open>\<open>strings.Replace\<close> of the first \<open>%s\<close>.\<close>

fun replace_name :: "string \<Rightarrow> string \<Rightarrow> string" where
  "replace_name [] name = []"
| "replace_name (c # s) name = (if has_prefix (c # s) ''%s'' then name @ drop 1 s else c # replace_name s name)"

definition bot_link :: "string \<Rightarrow> string" where
  "bot_link lang = ''https://t.me/emotion_concept_bot?start=visits_'' @ calendar_language lang"

section \<open>Messages\<close>

datatype message_kind = KindConfirmed | KindReminder | KindChanged | KindCancelled

definition optional_line :: "string \<Rightarrow> string \<Rightarrow> string list" where
  "optional_line label v = (if v = [] then [] else [label @ v])"

definition render_heading :: "renderer \<Rightarrow> string \<Rightarrow> appointment \<Rightarrow> message_kind \<Rightarrow> string" where
  "render_heading r lang a kind =
     (let w = rn_words r lang; name = inline_text (ap_customer_name a) in
      case kind of
        KindReminder \<Rightarrow> mw_reminder w
      | KindChanged \<Rightarrow> mw_changed w
      | KindCancelled \<Rightarrow> mw_cancelled w
      | KindConfirmed \<Rightarrow> if name \<noteq> [] then replace_name (mw_confirmation_named w) name else mw_confirmation w)"

definition render_details :: "renderer \<Rightarrow> string \<Rightarrow> appointment \<Rightarrow> string list" where
  "render_details r lang a =
     (let w = rn_words r lang in
      [mk_date marks @ mw_date w @ '': '' @ rn_date r (ap_starts_at a),
       mk_clock marks @ mw_time w @ '': '' @ rn_clock r (ap_starts_at a) @ middle_dot @ rn_zone r] @
      optional_line (mk_service marks @ mw_service w @ '': '') (inline_text (ap_service a)) @
      optional_line (mk_specialist marks @ mw_specialist w @ '': '') (inline_text (ap_specialist a)) @
      optional_line (mw_reference w @ '': '') (inline_text (ap_reference a)))"

definition render_links :: "renderer \<Rightarrow> string \<Rightarrow> string list" where
  "render_links r lang =
     (let w = rn_words r lang; b = rn_business r in
      optional_line (mw_instagram w @ '': '') (inline_text (bz_instagram_url b)) @
      optional_line (mw_google_map w @ '': '') (inline_text (bz_map_url b)) @
      optional_line (mw_yandex_map w @ '': '') (inline_text (bz_yandex_map_url b)) @
      optional_line (mw_parking w @ '': '') (inline_text (bz_parking_url b)))"

definition render_closing :: "renderer \<Rightarrow> string \<Rightarrow> message_kind \<Rightarrow> string" where
  "render_closing r lang kind =
     (let w = rn_words r lang; business = inline_text (bz_name (rn_business r));
          (closing, named) = (if kind = KindReminder then (mw_reminder_closing w, mw_reminder_named_closing w)
            else (mw_confirmation_closing w, mw_confirmation_named_closing w))
      in if kind = KindCancelled then mw_cancelled_closing w
         else if business \<noteq> [] then replace_name named business else closing)"

definition render_sections :: "renderer \<Rightarrow> string \<Rightarrow> appointment \<Rightarrow> message_kind \<Rightarrow> string list" where
  "render_sections r lang a kind =
     (let w = rn_words r lang; b = rn_business r; links = render_links r lang; cancelled = (kind = KindCancelled) in
      [render_heading r lang a kind, join_with newline (render_details r lang a)] @
      (if ap_reference a \<noteq> [] then [mw_manage w @ newline @ bot_link lang] else []) @
      (if ap_calendar_url a \<noteq> [] \<and> \<not> cancelled then [mw_calendar w @ newline @ ap_calendar_url a] else []) @
      optional_line (mk_address marks) (in_language (bz_address b) lang) @
      optional_line (mk_phone marks) (inline_text (bz_phone b)) @
      (if cancelled then [] else optional_line (mw_preparation w @ newline) (in_language (bz_preparation b) lang)) @
      (if cancelled then [] else optional_line (mw_amenities w @ newline) (in_language (bz_amenities b) lang)) @
      (if links \<noteq> [] then [join_with newline links] else []) @
      (if kind = KindReminder then [mw_warm w] else []) @
      [render_closing r lang kind])"

definition render :: "renderer \<Rightarrow> string \<Rightarrow> appointment \<Rightarrow> message_kind \<Rightarrow> string" where
  "render r lang a kind = join_with (newline @ newline) (render_sections r lang a kind)"

text \<open>The actions beside a message, in the order of their use.\<close>

definition visit_links :: "renderer \<Rightarrow> string \<Rightarrow> string \<Rightarrow> appointment \<Rightarrow> link list" where
  "visit_links r lang calendar_label a =
     (let w = rn_words r lang; b = rn_business r;
          offer_link = (\<lambda>shown label url. if shown then [\<lparr>lk_label = label, lk_url = url\<rparr>] else []) in
      offer_link (ap_calendar_url a \<noteq> []) calendar_label (ap_calendar_url a) @
      offer_link (ap_reference a \<noteq> []) (mw_manage w) (bot_link lang) @
      offer_link (bz_yandex_map_url b \<noteq> []) (mw_yandex_map w) (bz_yandex_map_url b) @
      offer_link (bz_map_url b \<noteq> []) (mw_google_map w) (bz_map_url b) @
      offer_link (bz_instagram_url b \<noteq> []) (mw_instagram w) (bz_instagram_url b) @
      offer_link (bz_parking_url b \<noteq> []) (mw_parking w) (bz_parking_url b))"

section \<open>SMS\<close>

text \<open>\<open>len(utf16.Encode([]rune(s)))\<close>: two units for a rune beyond the basic plane.\<close>

definition rune_units :: "nat \<Rightarrow> nat" where "rune_units r = (if r > 0xFFFF then 2 else 1)"

definition utf16_units :: "string \<Rightarrow> nat" where
  "utf16_units s = sum_list (map rune_units (runes s))"

fun take_units :: "nat \<Rightarrow> nat list \<Rightarrow> nat list" where
  "take_units n [] = []"
| "take_units n (r # rs) = (if rune_units r > n then [] else r # take_units (n - rune_units r) rs)"

definition ellipsis :: string where "ellipsis = utf8 [0x2026]"

definition sms_field :: "string \<Rightarrow> nat \<Rightarrow> string" where
  "sms_field s limit =
     (let s = inline_text s in
      if utf16_units s \<le> limit then s else trim_space (utf8 (take_units (limit - 1) (runes s))) @ ellipsis)"

definition sms_text :: "renderer \<Rightarrow> string \<Rightarrow> appointment \<Rightarrow> string \<Rightarrow> string" where
  "sms_text r title a lang =
     (let b = rn_business r; at = rn_date r (ap_starts_at a) @ '' '' @ rn_clock r (ap_starts_at a) in
      if ap_calendar_url a \<noteq> [] \<and> length (ap_calendar_url a) \<le> 120
      then
        let with_bot = join_with newline [''E-Motion'', sms_field title 18, at, ap_calendar_url a, bot_link lang] in
        if ap_reference a \<noteq> [] \<and> utf16_units with_bot \<le> 201 then with_bot
        else join_with newline [''E-Motion Concept'', sms_field title 24, at, ap_calendar_url a, sms_field (bz_phone b) 20]
      else
        let details = sms_field (ap_service a) 45;
            details = (if ap_specialist a \<noteq> []
              then (if details \<noteq> [] then details @ middle_dot else details) @ sms_field (ap_specialist a) 20 else details);
            address = sms_field (in_language (bz_address b) lang) 34
        in join_with newline ([''E-Motion Concept'', sms_field title 42, at] @ optional_line [] details @
             optional_line [] address @ (if bz_phone b \<noteq> [] then [sms_field (bz_phone b) 20] else [])))"

end
