(* ===== verification/SmsLaws.thy ===== *)
theory SmsLaws
  imports AppointmentMessages CalendarExport
begin

text \<open>
  The size of an SMS. On well-formed text \<open>trim_space\<close> and \<open>string_fields\<close> cut between runes, so that the
  UTF-16 units of the parts add up; a field stays within its limit, and the message within the 201
  units of three segments.
\<close>

section \<open>Cutting between runes\<close>

lemma decode_scalars: "is_scalar r \<Longrightarrow> runes (map char_of (encode_scalar r) @ s) = r # runes s"
proof -
  assume r: "is_scalar r"
  have "map of_char (map char_of (encode_scalar r) :: char list) = encode_scalar r"
    using encode_scalar_bytes [OF r] by (simp add: map_idI)
  then show ?thesis using decode_encode [OF r] by (simp add: runes_def)
qed

lemma encode_rune_scalar: "is_scalar (if is_scalar r then r else replacement_rune)"
  by (simp add: is_scalar_def replacement_rune_def)

lemma utf8_Cons: "utf8 (r # rs) = map char_of (encode_rune r) @ utf8 rs"
  by (simp add: utf8_def)

lemma utf8_append: "utf8 (rs @ qs) = utf8 rs @ utf8 qs"
  by (simp add: utf8_def)

lemma utf8_Nil [simp]: "utf8 [] = []"
  by (simp add: utf8_def)

lemma runes_utf8_append: "runes (utf8 rs @ s) = runes (utf8 rs) @ runes s"
proof (induction rs)
  case Nil
  show ?case by (simp add: runes_def)
next
  case (Cons r rs)
  then show ?case
    using decode_scalars [OF encode_rune_scalar [of r]] by (simp add: utf8_Cons encode_rune_def)
qed

lemma valid_utf8 [simp]: "valid_text (utf8 rs)"
proof -
  have "utf8 (map (\<lambda>r. if is_scalar r then r else replacement_rune) rs) = utf8 rs"
    using encode_rune_scalar by (induction rs) (simp_all add: utf8_Cons encode_rune_def)
  then show ?thesis by (simp add: valid_text_def runes_utf8)
qed

lemma valid_text_iff: "valid_text s \<longleftrightarrow> (\<exists>rs. s = utf8 rs)"
  by (metis valid_text_def valid_utf8)

lemma valid_append: "valid_text s \<Longrightarrow> valid_text t \<Longrightarrow> valid_text (s @ t)"
  by (metis valid_text_iff utf8_append)

lemma units_append: "valid_text s \<Longrightarrow> utf16_units (s @ t) = utf16_units s + utf16_units t"
  by (auto simp: valid_text_iff utf16_units_def runes_utf8_append)

lemma encoded_shape: "\<exists>c cs. map char_of (encode_rune r) = c # cs \<and> rune_start c \<and> list_all (\<lambda>x. \<not> rune_start x) cs"
proof -
  let ?r = "if is_scalar r then r else replacement_rune"
  have r: "?r \<le> 0x10FFFF" by (auto simp: is_scalar_def replacement_rune_def)
  have cont: "\<not> rune_start (char_of (0x80 + y mod 64 :: nat))" for y :: nat
    using mod_less_divisor [of 64 y] by (simp add: rune_start_def continues_def)
  show ?thesis
    using r by (auto simp: encode_rune_def encode_scalar_def cont intro!: rune_start_code)
qed

text \<open>A cut where a rune starts splits the runes.\<close>

lemma split_utf8:
  "utf8 rs = s @ t \<Longrightarrow> t = [] \<or> rune_start (hd t) \<Longrightarrow> \<exists>rs1 rs2. rs = rs1 @ rs2 \<and> s = utf8 rs1 \<and> t = utf8 rs2"
proof (induction rs arbitrary: s)
  case (Cons r rs)
  obtain c cs where e: "map char_of (encode_rune r) = c # cs" "list_all (\<lambda>x. \<not> rune_start x) cs"
    using encoded_shape [of r] by auto
  have eq: "(c # cs) @ utf8 rs = s @ t" using Cons.prems(1) e(1) by (simp add: utf8_Cons)
  show ?case
  proof (cases s)
    case Nil
    with Cons.prems show ?thesis by (intro exI [of _ "[]"] exI [of _ "r # rs"]) simp
  next
    case (Cons c' s')
    with eq have s': "cs @ utf8 rs = s' @ t" by simp
    then obtain v where "cs = s' @ v \<and> v @ utf8 rs = t \<or> cs @ v = s' \<and> utf8 rs = v @ t"
      by (auto simp: append_eq_append_conv2)
    then consider u where "s' = cs @ u" "utf8 rs = u @ t" | u where "cs = s' @ u" "t = u @ utf8 rs" "u \<noteq> []"
      by (cases "v = []") auto
    then show ?thesis
    proof cases
      case 1
      with Cons.IH [of u] Cons.prems(2) obtain rs1 rs2 where "rs = rs1 @ rs2" "u = utf8 rs1" "t = utf8 rs2" by blast
      with 1 Cons eq e(1) show ?thesis by (intro exI [of _ "r # rs1"] exI [of _ rs2]) (simp add: utf8_Cons)
    next
      case 2
      then have "rune_start (hd u)" "hd u \<in> set cs" using Cons.prems(2) by auto
      with e(2) show ?thesis by (auto simp: list_all_iff)
    qed
  qed
qed simp

lemma valid_prefix:
  assumes "valid_text (s @ t)" "t = [] \<or> rune_start (hd t)"
  shows "valid_text s" "valid_text t"
  using assms split_utf8 [of _ s t] by (metis valid_text_iff)+

lemma valid_suffix:
  assumes "valid_text (w @ t)" "valid_text w"
  shows "valid_text t"
proof -
  have "runes (w @ t) = runes w @ runes t" using assms(2) by (auto simp: valid_text_iff runes_utf8_append)
  then have "w @ utf8 (runes t) = w @ t" using assms by (simp add: valid_text_def utf8_append)
  then show ?thesis by (simp add: valid_text_def)
qed

definition space_runes :: "nat list" where
  "space_runes = [0x09, 0x0A, 0x0B, 0x0C, 0x0D, 0x20, 0x85, 0xA0, 0x1680, 0x2000, 0x2001, 0x2002, 0x2003, 0x2004, 0x2005,
     0x2006, 0x2007, 0x2008, 0x2009, 0x200A, 0x2028, 0x2029, 0x202F, 0x205F, 0x3000]"

lemma space_codes_utf8: "space_codes = map (\<lambda>v. utf8 [v]) space_runes"
  by (simp add: space_codes_def space_runes_def utf8_def encode_rune_def is_scalar_def encode_scalar_def char_of_def bit_Suc_0_iff)

lemma space_code:
  assumes "w \<in> set space_codes"
  shows "valid_text w" "w \<noteq> [] \<and> rune_start (hd w)"
proof -
  from assms obtain v where w: "w = utf8 [v]" by (auto simp: space_codes_utf8)
  show "valid_text w" by (simp add: w)
  show "w \<noteq> [] \<and> rune_start (hd w)" using encoded_shape [of v] by (auto simp: w utf8_Cons)
qed

lemma leading_code_found:
  assumes "leading_code codes s = Some w"
  shows "w \<in> set codes" "s = w @ drop (length w) s"
proof -
  have "w \<in> set codes \<and> take (length w) s = w"
    using assms by (auto simp: leading_code_def find_Some_iff has_prefix_def)
  then show "w \<in> set codes" "s = w @ drop (length w) s" by (metis append_take_drop_id)+
qed

lemma strip_left_valid:
  "valid_text s \<Longrightarrow> valid_text (strip space_codes s) \<and> utf16_units (strip space_codes s) \<le> utf16_units s"
proof (induction "length s" arbitrary: s rule: less_induct)
  case less
  show ?case
  proof (cases "leading_code space_codes s")
    case None
    with less.prems show ?thesis by (simp add: strip_id)
  next
    case (Some w)
    let ?t = "drop (length w) s"
    note w = leading_code_found [OF Some]
    have "valid_text ?t" using valid_suffix [of w ?t] w(2) less.prems space_code(1) [OF w(1)] by simp
    moreover have "utf16_units s = utf16_units w + utf16_units ?t"
      using units_append [OF space_code(1) [OF w(1)], of ?t] w(2) by simp
    moreover have "length ?t < length s" using leading_code_shorter [OF Some] .
    ultimately show ?thesis using less.hyps [of ?t] Some by (subst (1 2) strip.simps) simp
  qed
qed

lemma strip_right_valid:
  "valid_text (rev s) \<Longrightarrow> valid_text (rev (strip (map rev space_codes) s)) \<and>
     utf16_units (rev (strip (map rev space_codes) s)) \<le> utf16_units (rev s)"
proof (induction "length s" arbitrary: s rule: less_induct)
  case less
  show ?case
  proof (cases "leading_code (map rev space_codes) s")
    case None
    with less.prems show ?thesis by (simp add: strip_id)
  next
    case (Some v)
    let ?t = "drop (length v) s"
    obtain w where w: "w \<in> set space_codes" "v = rev w" using leading_code_found(1) [OF Some] by auto
    have "s = v @ ?t" using leading_code_found(2) [OF Some] .
    then have rev: "rev s = rev ?t @ w" using w(2) by (metis rev_append rev_rev_ident)
    have "valid_text (rev ?t)" using valid_prefix(1) [of "rev ?t" w] less.prems rev space_code(2) [OF w(1)] by simp
    moreover have "utf16_units (rev s) = utf16_units (rev ?t) + utf16_units w"
      using units_append [OF calculation, of w] rev by simp
    moreover have "length ?t < length s" using leading_code_shorter [OF Some] .
    ultimately show ?thesis using less.hyps [of ?t] Some by (subst (1 2) strip.simps) simp
  qed
qed

lemma trim_left_valid: "valid_text s \<Longrightarrow> valid_text (trim_left s) \<and> utf16_units (trim_left s) \<le> utf16_units s"
  by (simp add: trim_left_def strip_left_valid)

lemma trim_space_valid: "valid_text s \<Longrightarrow> valid_text (trim_space s) \<and> utf16_units (trim_space s) \<le> utf16_units s"
  using strip_right_valid [of "rev (trim_left s)"] trim_left_valid [of s]
  by (auto simp: trim_space_def trim_right_def)

section \<open>Fields\<close>

lemma take_field_rest: "drop (length (take_field s)) s = [] \<or> leading_code space_codes (drop (length (take_field s)) s) \<noteq> None"
  by (induction s rule: take_field.induct) (auto split: if_splits)

lemma take_field_prefix: "s = take_field s @ drop (length (take_field s)) s"
  by (induction s rule: take_field.induct) auto

lemma take_field_valid:
  assumes "valid_text s"
  shows "valid_text (take_field s)" "valid_text (drop (length (take_field s)) s)"
proof -
  let ?t = "drop (length (take_field s)) s"
  have "?t = [] \<or> rune_start (hd ?t)"
  proof (cases "?t = []")
    case False
    then obtain w where w: "leading_code space_codes ?t = Some w" using take_field_rest [of s] by auto
    note found = leading_code_found [OF w]
    have "hd ?t = hd w" using found(2) space_code(2) [OF found(1)] by (metis hd_append)
    then show ?thesis using space_code(2) [OF found(1)] by simp
  qed simp
  then show "valid_text (take_field s)" "valid_text ?t"
    using valid_prefix [of "take_field s" ?t] assms take_field_prefix [of s] by simp_all
qed

lemma string_fields_valid: "valid_text s \<Longrightarrow> list_all valid_text (string_fields s)"
proof (induction s rule: string_fields.induct)
  case (1 s)
  let ?s = "trim_left s"
  have "valid_text ?s" using trim_left_valid [OF 1(2)] by simp
  then have "valid_text (take_field ?s)" "valid_text (drop (length (take_field ?s)) ?s)" by (rule take_field_valid)+
  with 1(1) [OF refl] show ?case by (subst string_fields.simps) (simp add: Let_def)
qed

lemma join_valid: "valid_text d \<Longrightarrow> list_all valid_text ss \<Longrightarrow> valid_text (join_with d ss)"
proof (induction d ss rule: join_with.induct)
  case (1 d)
  then show ?case using valid_utf8 [of "[]"] by simp
qed (auto intro!: valid_append)

section \<open>Limits\<close>

lemma units_Nil [simp]: "utf16_units [] = 0"
  by (simp add: utf16_units_def runes_def)

lemma valid_Nil [simp]: "valid_text []"
  using valid_utf8 [of "[]"] by simp

lemma units_utf8: "utf16_units (utf8 rs) \<le> sum_list (map rune_units rs)"
proof -
  have "rune_units (if is_scalar r then r else replacement_rune) \<le> rune_units r" for r
    by (auto simp: rune_units_def replacement_rune_def is_scalar_def)
  then show ?thesis unfolding utf16_units_def runes_utf8 map_map comp_def by (rule sum_list_mono)
qed

lemma take_units_sum: "sum_list (map rune_units (take_units n rs)) \<le> n"
  by (induction n rs rule: take_units.induct) auto

lemma units_rune: "is_scalar r \<Longrightarrow> utf16_units (utf8 [r]) = rune_units r"
  by (simp add: utf16_units_def runes_utf8)

lemma inline_valid: "valid_text s \<Longrightarrow> valid_text (inline_text s)"
proof -
  have "utf8 [0x20] = '' ''"
    by (simp add: utf8_def encode_rune_def is_scalar_def encode_scalar_def char_of_def bit_Suc_0_iff)
  then have "valid_text '' ''" using valid_utf8 [of "[0x20]"] by simp
  then show "valid_text s \<Longrightarrow> valid_text (inline_text s)"
    unfolding inline_text_def by (rule join_valid [OF _ string_fields_valid])
qed

lemma sms_field_ok:
  assumes "valid_text s" "0 < limit"
  shows "valid_text (sms_field s limit) \<and> utf16_units (sms_field s limit) \<le> limit"
proof (cases "utf16_units (inline_text s) \<le> limit")
  case True
  then show ?thesis using inline_valid [OF assms(1)] by (simp add: sms_field_def Let_def)
next
  case False
  let ?cut = "utf8 (take_units (limit - 1) (runes (inline_text s)))"
  have "utf16_units ?cut \<le> limit - 1" using units_utf8 take_units_sum by (rule order.trans)
  then have "valid_text (trim_space ?cut)" "utf16_units (trim_space ?cut) \<le> limit - 1"
    using trim_space_valid [of ?cut] by simp_all
  moreover have "valid_text ellipsis" "utf16_units ellipsis = 1"
    by (simp_all add: ellipsis_def units_rune is_scalar_def rune_units_def)
  ultimately show ?thesis using False assms(2) by (simp add: sms_field_def Let_def valid_append units_append)
qed

definition ascii_text :: "string \<Rightarrow> bool" where
  "ascii_text s \<longleftrightarrow> list_all (\<lambda>c. (of_char c :: nat) < 0x80) s"

lemma ascii_utf8: "ascii_text s \<Longrightarrow> s = utf8 (map of_char s)"
  by (induction s) (simp_all add: ascii_text_def utf8_def encode_rune_def is_scalar_def encode_scalar_def)

lemma ascii_ok: "ascii_text s \<Longrightarrow> valid_text s \<and> utf16_units s = length s"
proof -
  assume a: "ascii_text s"
  have "valid_text s" using ascii_utf8 [OF a] by (metis valid_utf8)
  moreover have "runes s = map of_char s"
    by (subst ascii_utf8 [OF a]) (use a in \<open>auto simp: runes_utf8 ascii_text_def list_all_iff is_scalar_def\<close>)
  moreover have "sum_list (map rune_units (map of_char s)) = length s"
    using a by (induction s) (simp_all add: ascii_text_def rune_units_def)
  ultimately show ?thesis by (simp add: utf16_units_def)
qed

lemma join_units:
  assumes "valid_text d"
  shows "list_all valid_text ss \<Longrightarrow> ss \<noteq> [] \<Longrightarrow>
    utf16_units (join_with d ss) = sum_list (map utf16_units ss) + (length ss - 1) * utf16_units d"
proof (induction ss rule: induct_list012)
  case (3 x y zs)
  then have "utf16_units (join_with d (x # y # zs)) = utf16_units x + (utf16_units d + utf16_units (join_with d (y # zs)))"
    using assms by (simp add: units_append)
  with 3 show ?case by simp
qed simp_all

lemma newline_ok: "valid_text newline" "utf16_units newline = 1"
  using ascii_ok [of newline] by (simp_all add: newline_def ascii_text_def)

lemma middle_dot_ok: "valid_text middle_dot" "utf16_units middle_dot = 3"
  unfolding middle_dot_def by (simp_all add: utf16_units_def runes_utf8 is_scalar_def rune_units_def)

section \<open>Three segments\<close>

text \<open>The business's texts are well formed, and an instant is rendered in ASCII as its format says.\<close>

definition renderer_ok :: "renderer \<Rightarrow> bool" where
  "renderer_ok r \<longleftrightarrow>
     (\<forall>t. ascii_text (rn_date r t) \<and> length (rn_date r t) = 10 \<and> ascii_text (rn_clock r t) \<and> length (rn_clock r t) = 5) \<and>
     valid_text (bz_phone (rn_business r)) \<and>
     (\<forall>t \<in> {lt_english, lt_armenian, lt_russian}. valid_text (t (bz_address (rn_business r))))"

definition appointment_ok :: "appointment \<Rightarrow> bool" where
  "appointment_ok a \<longleftrightarrow> valid_text (ap_service a) \<and> valid_text (ap_specialist a) \<and> ascii_text (ap_calendar_url a)"

lemma address_valid: "renderer_ok r \<Longrightarrow> valid_text (in_language (bz_address (rn_business r)) lang)"
  by (auto simp: in_language_def renderer_ok_def trim_space_valid)

lemma instant_ok:
  assumes "renderer_ok r"
  shows "valid_text (rn_date r t @ '' '' @ rn_clock r t)" "utf16_units (rn_date r t @ '' '' @ rn_clock r t) = 16"
proof -
  have "ascii_text (rn_date r t @ '' '' @ rn_clock r t)" "length (rn_date r t @ '' '' @ rn_clock r t) = 16"
    using assms by (simp_all add: renderer_ok_def ascii_text_def)
  then show "valid_text (rn_date r t @ '' '' @ rn_clock r t)" "utf16_units (rn_date r t @ '' '' @ rn_clock r t) = 16"
    using ascii_ok by metis+
qed

lemma names_ok: "valid_text ''E-Motion Concept'' \<and> utf16_units ''E-Motion Concept'' = 16"
  using ascii_ok [of "''E-Motion Concept''"] by (simp add: ascii_text_def)

lemma details_ok:
  assumes "valid_text service" "valid_text specialist"
  shows "valid_text (if specialist \<noteq> [] then (if sms_field service 45 \<noteq> [] then sms_field service 45 @ middle_dot else sms_field service 45) @
      sms_field specialist 20 else sms_field service 45) \<and>
    utf16_units (if specialist \<noteq> [] then (if sms_field service 45 \<noteq> [] then sms_field service 45 @ middle_dot else sms_field service 45) @
      sms_field specialist 20 else sms_field service 45) \<le> 68"
  using sms_field_ok [OF assms(1), of 45] sms_field_ok [OF assms(2), of 20] middle_dot_ok
  by (auto simp: valid_append units_append)

lemma optional_units:
  "valid_text v \<Longrightarrow> utf16_units v \<le> n \<Longrightarrow>
   list_all valid_text (optional_line [] v) \<and> sum_list (map utf16_units (optional_line [] v)) + length (optional_line [] v) \<le> n + 1"
  by (simp add: optional_line_def)

lemma sms_within_three_segments:
  assumes "renderer_ok r" "appointment_ok a" "valid_text title"
  shows "utf16_units (sms_text r title a lang) \<le> 201"
proof (cases "ap_calendar_url a \<noteq> [] \<and> length (ap_calendar_url a) \<le> 120")
  case True
  let ?parts = "[''E-Motion Concept'', sms_field title 24, rn_date r (ap_starts_at a) @ '' '' @ rn_clock r (ap_starts_at a),
    ap_calendar_url a, sms_field (bz_phone (rn_business r)) 20]"
  have "valid_text (ap_calendar_url a)" "utf16_units (ap_calendar_url a) \<le> 120"
    using ascii_ok [of "ap_calendar_url a"] assms(2) True by (simp_all add: appointment_ok_def)
  moreover have "valid_text (bz_phone (rn_business r))" using assms(1) by (simp add: renderer_ok_def)
  ultimately have "utf16_units (join_with newline ?parts) \<le> 201"
    using join_units [OF newline_ok(1), of ?parts] sms_field_ok [OF assms(3), of 24]
      sms_field_ok [of "bz_phone (rn_business r)" 20] instant_ok [OF assms(1), of "ap_starts_at a"] names_ok newline_ok(2)
    by (simp del: append_assoc)
  with True show ?thesis by (simp add: sms_text_def Let_def)
next
  case False
  let ?b = "rn_business r"
  obtain at where at: "at = rn_date r (ap_starts_at a) @ '' '' @ rn_clock r (ap_starts_at a)" by simp
  obtain details where details: "details = (if ap_specialist a \<noteq> []
      then (if sms_field (ap_service a) 45 \<noteq> [] then sms_field (ap_service a) 45 @ middle_dot else sms_field (ap_service a) 45) @
        sms_field (ap_specialist a) 20 else sms_field (ap_service a) 45)" by simp
  obtain address where address: "address = sms_field (in_language (bz_address ?b) lang) 34" by simp
  obtain phone where phone: "phone = (if bz_phone ?b \<noteq> [] then [sms_field (bz_phone ?b) 20] else [])" by simp
  let ?head = "[''E-Motion Concept'', sms_field title 42, at]"
  let ?parts = "?head @ optional_line [] details @ optional_line [] address @ phone"
  have sms: "sms_text r title a lang = join_with newline ?parts"
    using False by (auto simp: sms_text_def Let_def details at address phone)
  have head: "list_all valid_text ?head" "sum_list (map utf16_units ?head) \<le> 74"
    using names_ok sms_field_ok [OF assms(3), of 42] instant_ok [OF assms(1), of "ap_starts_at a"] by (simp_all add: at)
  have d: "valid_text details \<and> utf16_units details \<le> 68"
    unfolding details using details_ok [of "ap_service a" "ap_specialist a"] assms(2) by (simp add: appointment_ok_def)
  have ad: "valid_text address \<and> utf16_units address \<le> 34"
    unfolding address using sms_field_ok [OF address_valid [OF assms(1)], of 34] by simp
  have ph: "list_all valid_text phone \<and> sum_list (map utf16_units phone) + length phone \<le> 21"
    using sms_field_ok [of "bz_phone ?b" 20] assms(1) by (simp add: phone renderer_ok_def)
  note parts = optional_units [of details 68] optional_units [of address 34]
  have "list_all valid_text ?parts" using head parts d ad ph by simp
  then have "utf16_units (join_with newline ?parts) = sum_list (map utf16_units ?parts) + (length ?parts - 1)"
    using join_units [OF newline_ok(1), of ?parts] newline_ok(2) by simp
  also have "\<dots> \<le> 201" using head(2) parts d ad ph by simp
  finally show ?thesis by (simp only: sms)
qed

end
