(* ===== verification/ExportProperties.thy ===== *)
theory ExportProperties
  imports SmsLaws DomainProperties
begin

text \<open>
  The properties of what leaves the studio about an appointment: the calendar link, its file, and the
  SMS.
\<close>

text \<open>
  C38. An appointment is shown, as a page or as a file, only to a request that carries the appointment's
  own signed key, and only while it is confirmed and ended less than a day ago.
\<close>

theorem calendar_key_needed:
  assumes "shows_appointment (serve_calendar env reference key tag fmt)"
  shows "\<exists>b current. (ke_find env reference = Inr b \<or> (\<exists>f. ke_native env = Some f \<and> f reference key = Inr b)) \<and>
    valid_capability env b key \<and> (current = b \<or> (\<exists>read_booking. ke_reader env = Some read_booking \<and> read_booking b = Inr current)) \<and>
    bk_status current = StatusConfirmed \<and>
    ke_now env \<le> bk_starts_at current + calendar_duration current + 24 * hour"
proof -
  obtain b native where b: "ke_find env reference = Inr b \<or> (\<exists>f. ke_native env = Some f \<and> f reference key = Inr b)"
    "valid_capability env b key" "shows_appointment (calendar_appointment env tag fmt b native)"
    using serve_calendar_shows [OF assms] by blast
  obtain current where c: "current = b \<or> (\<exists>read_booking. ke_reader env = Some read_booking \<and> \<not> native \<and> read_booking b = Inr current)"
    "bk_status current = StatusConfirmed"
    "\<not> after (ke_now env) (bk_starts_at current + calendar_duration current + 24 * hour)"
    using calendar_appointment_shows [OF b(3)] by blast
  with b(1,2) show ?thesis by (intro exI [of _ b] exI [of _ current]) (auto simp: after_def)
qed

definition sample_key :: string where "sample_key = replicate 43 (CHR ''k'')"

definition sample_visit :: booking where
  "sample_visit = zero_booking\<lparr>bk_id := ''u7'', bk_external_id := ''41'', bk_status := StatusConfirmed,
     bk_starts_at := 900, bk_duration := 60 * minute, bk_service_names := [''Haircut'']\<rparr>"

definition sample_calendar :: calendar_env where
  "sample_calendar = \<lparr>ke_uuid_version = (\<lambda>s. if s = ''u7'' then Some 7 else None),
     ke_mac = (\<lambda>k m. if m = ''calendar-read-v1:41'' then sample_key else []), ke_uid = (\<lambda>_. ''0a''),
     ke_parse_url = (\<lambda>u. if u = ''https://salon'' then Inr (''https'', ''salon'') else Inl (errors_new [])),
     ke_stamp = (\<lambda>_. ''20260101T100000Z''),
     ke_find = (\<lambda>r. if r = ''41'' then Inr sample_visit else Inl (sentinel_error BookingNotFound)),
     ke_native = None, ke_reader = None, ke_now = 0, ke_name = ''Salon'', ke_addresses = (\<lambda>_. []),
     ke_words = (\<lambda>_. \<lparr>kw_heading = [], kw_download = [], kw_note = [], kw_help = [], kw_expired = []\<rparr>)\<rparr>"

lemma sample_serves: "shows_appointment (serve_calendar sample_calendar ''41'' sample_key ''en'' [])"
  by (simp add: serve_calendar_def calendar_appointment_def sample_calendar_def sample_visit_def sample_key_def
      capability_def shows_appointment_def calendar_duration_def time_defs duration_defs zero_booking_def Let_def)

theorem calendar_key_needed_witness: "valid_capability sample_calendar sample_visit sample_key"
proof -
  from calendar_key_needed [OF sample_serves] obtain b where
    "ke_find sample_calendar ''41'' = Inr b \<or> (\<exists>f. ke_native sample_calendar = Some f \<and> f ''41'' sample_key = Inr b)"
    "valid_capability sample_calendar b sample_key" by blast
  then show ?thesis by (simp add: sample_calendar_def)
qed

text \<open>
  The calendar file of an appointment with well-formed texts is always produced: each of its content
  lines is free of line breaks, is broken into lines of at most 75 octets that continue with a space,
  and is read back from them exactly.
\<close>

theorem calendar_file_folds_back:
  assumes "plain_environment env" "valid_text title" "valid_text address" "valid_text description"
  shows "\<exists>lss. ics env b title address description now = Some (concat (map (\<lambda>l. l @ crlf) (concat lss))) \<and>
    list_all2 folded (ics_lines env b title address description now) lss \<and>
    list_all one_line (ics_lines env b title address description now)"
proof -
  have ok: "list_all (\<lambda>l. short_runs 3 l \<and> one_line l) (ics_lines env b title address description now)"
    using assms by (rule ics_lines_ok)
  then have "list_all (short_runs 3) (ics_lines env b title address description now)"
    "list_all one_line (ics_lines env b title address description now)" by (simp_all add: list_all_iff)
  with fold_lines_end [of "ics_lines env b title address description now"] show ?thesis by (auto simp: ics_def)
qed

theorem calendar_file_folds_back_witness: "ics sample_calendar sample_visit ''Salon'' [] ''note'' 0 \<noteq> None"
proof -
  have "plain_environment sample_calendar"
    by (simp add: plain_environment_def plain_text_def one_line_def sample_calendar_def rune_start_def continues_def)
  moreover have "valid_text ''Salon''" "valid_text []" "valid_text ''note''"
    using ascii_ok by (simp_all add: ascii_text_def)
  ultimately show ?thesis using calendar_file_folds_back [of sample_calendar "''Salon''" "[]" "''note''" sample_visit 0] by auto
qed

text \<open>
  C39. An appointment's SMS never exceeds 201 UTF-16 units, the three segments the studio pays for,
  whatever the lengths of the title, the service, the specialist, the address and the phone number.
\<close>

theorem sms_fits_three_segments:
  assumes "renderer_ok r" "appointment_ok a" "valid_text title"
  shows "utf16_units (sms_text r title a lang) \<le> 201"
  using assms by (rule sms_within_three_segments)

definition no_words :: message_words where
  "no_words = \<lparr>mw_confirmation = [], mw_confirmation_named = [], mw_reminder = [], mw_date = [], mw_time = [],
     mw_service = [], mw_specialist = [], mw_reference = [], mw_preparation = [], mw_amenities = [],
     mw_instagram = [], mw_google_map = [], mw_yandex_map = [], mw_parking = [], mw_confirmation_closing = [],
     mw_confirmation_named_closing = [], mw_reminder_closing = [], mw_reminder_named_closing = [], mw_changed = [], mw_cancelled = [],
     mw_cancelled_closing = [], mw_warm = [], mw_calendar = [], mw_manage = []\<rparr>"

definition sample_renderer :: renderer where
  "sample_renderer = \<lparr>rn_business = \<lparr>bz_name = ''Salon'', bz_address = \<lparr>lt_english = ''Main Street 1'', lt_armenian = [], lt_russian = []\<rparr>,
       bz_phone = ''+37410000000'', bz_preparation = \<lparr>lt_english = [], lt_armenian = [], lt_russian = []\<rparr>,
       bz_amenities = \<lparr>lt_english = [], lt_armenian = [], lt_russian = []\<rparr>, bz_instagram_url = [], bz_map_url = [],
       bz_yandex_map_url = [], bz_parking_url = []\<rparr>,
     rn_words = (\<lambda>_. no_words), rn_date = (\<lambda>_. ''01.02.2026''), rn_clock = (\<lambda>_. ''10:30''), rn_zone = ''UTC''\<rparr>"

theorem sms_fits_three_segments_witness:
  "utf16_units (sms_text sample_renderer (replicate 60 (CHR ''a'')) \<lparr>ap_customer_name = [], ap_starts_at = 0,
     ap_service = replicate 80 (CHR ''b''), ap_specialist = ''Ann'', ap_reference = [], ap_calendar_url = []\<rparr> ''en'') \<le> 201"
proof (rule sms_fits_three_segments)
  have ascii: "valid_text s" if "ascii_text s" for s using ascii_ok [OF that] by simp
  show "renderer_ok sample_renderer"
    by (simp add: renderer_ok_def sample_renderer_def ascii ascii_text_def)
  show "appointment_ok \<lparr>ap_customer_name = [], ap_starts_at = 0,
     ap_service = replicate 80 (CHR ''b''), ap_specialist = ''Ann'', ap_reference = [], ap_calendar_url = []\<rparr>"
    by (simp add: appointment_ok_def ascii ascii_text_def list_all_iff)
  show "valid_text (replicate 60 (CHR ''a''))" by (simp add: ascii ascii_text_def list_all_iff)
qed

end
