(* ===== verification/TelegramUpdates.thy ===== *)
theory TelegramUpdates
  imports Choices AppointmentMessages
begin

text \<open>
  What Telegram delivers and how it becomes a message (\<open>messaging/telegram/types.go\<close>, \<open>webhook.go\<close>,
  \<open>keyboard.go\<close>): the update, the keyboards under the assistant's questions, the press of a button
  read back as the words on it, and the messages of the staff chat (\<open>staffinbox.go\<close>). JSON decoding
  of a body is a parameter of the operations that need it; of a message that answers another only
  the other's id is read, so only its id is kept. Instants given in Unix seconds are taken to lie
  where Go represents them.
\<close>

section \<open>Numbers\<close>

text \<open>\<open>strconv.Itoa\<close>, \<open>strconv.FormatInt\<close> in base ten, and \<open>strconv.ParseInt(s, 10, 64)\<close>.\<close>

fun decimal_nat :: "nat \<Rightarrow> string" where
  "decimal_nat n = (if n < 10 then [char_of (48 + n)] else decimal_nat (n div 10) @ [char_of (48 + n mod 10)])"

declare decimal_nat.simps [simp del]

definition decimal :: "int \<Rightarrow> string" where
  "decimal i = (if i < 0 then CHR ''-'' # decimal_nat (nat (- i)) else decimal_nat (nat i))"

definition digit :: "char \<Rightarrow> bool" where
  "digit c \<longleftrightarrow> 48 \<le> (of_char c :: nat) \<and> (of_char c :: nat) \<le> 57"

definition digits_value :: "string \<Rightarrow> nat" where
  "digits_value ds = foldl (\<lambda>n c. 10 * n + (of_char c - 48)) 0 ds"

definition parse_int64 :: "string \<Rightarrow> int option" where
  "parse_int64 s =
     (let negative = has_prefix s ''-''; ds = (if negative \<or> has_prefix s ''+'' then drop 1 s else s);
          value = (if negative then - int (digits_value ds) else int (digits_value ds)) in
      if ds = [] \<or> \<not> list_all digit ds \<or> value < - (2 ^ 63) \<or> value > 2 ^ 63 - 1 then None else Some value)"

definition unix_time :: "int \<Rightarrow> time" where
  "unix_time seconds = (62135596800 + seconds) * second"

section \<open>Updates\<close>

record tg_user =
  us_id :: int
  us_is_bot :: bool
  us_first_name :: string
  us_last_name :: string
  us_username :: string
  us_language_code :: string

record tg_chat =
  tc_id :: int
  tc_type :: string

record tg_file =
  tf_file_id :: string
  tf_mime_type :: string
  tf_filename :: string
  tf_file_size :: int
  tf_duration :: int

record tg_contact =
  tn_phone_number :: string
  tn_user_id :: int

record tg_button =
  bt_text :: string
  bt_url :: string
  bt_data :: string

type_synonym tg_keyboard = "tg_button list list"

record tg_message =
  tm_id :: int
  tm_from :: "tg_user option"
  tm_chat :: "tg_chat option"
  tm_date :: int
  tm_text :: string
  tm_caption :: string
  tm_reply_to :: "int option"
  tm_markup :: "tg_keyboard option"
  tm_photo :: "string list"
  tm_voice :: "tg_file option"
  tm_audio :: "tg_file option"
  tm_video :: "tg_file option"
  tm_video_note :: "tg_file option"
  tm_document :: "tg_file option"
  tm_sticker :: "tg_file option"
  tm_location :: bool
  tm_contact :: "tg_contact option"

record tg_query =
  cq_id :: string
  cq_from :: "tg_user option"
  cq_message :: "tg_message option"
  cq_data :: string

record tg_update =
  up_id :: int
  up_message :: "tg_message option"
  up_query :: "tg_query option"

section \<open>Keyboards\<close>

abbreviation choice_prefix :: string where "choice_prefix \<equiv> ''c:''"
abbreviation staff_prefix :: string where "staff_prefix \<equiv> ''s:''"

definition short_label_runes :: nat where "short_label_runes = 8"
definition medium_label_runes :: nat where "medium_label_runes = 18"

definition buttons_per_row :: "choice list \<Rightarrow> nat" where
  "buttons_per_row cs =
     (let longest = fold (\<lambda>c longest. max longest (rune_count (ch_label c))) cs 0 in
      if longest \<le> short_label_runes then 3 else if longest \<le> medium_label_runes then 2 else 1)"

definition choice_button :: "choice \<Rightarrow> nat \<Rightarrow> tg_button" where
  "choice_button c i = \<lparr>bt_text = ch_label c, bt_url = [], bt_data = choice_prefix @ decimal (int i)\<rparr>"

fun lay_out :: "nat \<Rightarrow> choice list \<Rightarrow> nat \<Rightarrow> tg_button list \<Rightarrow> tg_keyboard" where
  "lay_out per_row [] i row = (if length row > 0 then [row] else [])"
| "lay_out per_row (c # cs) i row =
     (let row = row @ [choice_button c i] in
      if length row = per_row then row # lay_out per_row cs (i + 1) [] else lay_out per_row cs (i + 1) row)"

definition keyboard_for :: "choice list \<Rightarrow> tg_keyboard option" where
  "keyboard_for cs = (if length cs = 0 then None else Some (lay_out (buttons_per_row cs) cs 0 []))"

definition keyboard_for_message :: "outgoing \<Rightarrow> tg_keyboard option" where
  "keyboard_for_message out =
     (let markup = keyboard_for (og_choices out);
          link_rows = map (\<lambda>l. [\<lparr>bt_text = lk_label l, bt_url = lk_url l, bt_data = []\<rparr>]) (og_links out) in
      case markup of
        None \<Rightarrow> if length (og_links out) > 0 then Some link_rows else None
      | Some rws \<Rightarrow> Some (rws @ link_rows))"

text \<open>The two loops stop at the first button that carries the data, whatever its row.\<close>

definition label_for_callback :: "tg_keyboard option \<Rightarrow> string \<Rightarrow> string option" where
  "label_for_callback markup data =
     (if markup = None \<or> \<not> has_prefix data choice_prefix then None
      else case find (\<lambda>b. bt_data b = data) (concat (the markup)) of
        None \<Rightarrow> None
      | Some b \<Rightarrow> let label = trim_space (bt_text b) in if label = [] then None else Some label)"

text \<open>\<open>strings.Cut\<close> at the first byte \<open>d\<close>.\<close>

definition cut_at :: "char \<Rightarrow> string \<Rightarrow> (string \<times> string) option" where
  "cut_at d s = (if d \<in> set s then Some (takeWhile (\<lambda>c. c \<noteq> d) s, drop 1 (dropWhile (\<lambda>c. c \<noteq> d) s)) else None)"

record staff_action =
  sa_command :: string
  sa_conversation :: string

definition staff_action_data :: "string \<Rightarrow> string \<Rightarrow> string" where
  "staff_action_data command conversation_id = staff_prefix @ command @ '':'' @ conversation_id"

definition parse_staff_action :: "string \<Rightarrow> staff_action option" where
  "parse_staff_action data =
     (if \<not> has_prefix data staff_prefix then None
      else case cut_at (CHR '':'') (drop (length staff_prefix) data) of
        None \<Rightarrow> None
      | Some (command, conversation_id) \<Rightarrow>
        if command = [] \<or> conversation_id = [] then None
        else Some \<lparr>sa_command = command, sa_conversation = conversation_id\<rparr>)"

definition inbox_data :: "string \<Rightarrow> string \<Rightarrow> string" where
  "inbox_data action reference = ''inbox:'' @ action @ '':'' @ reference"

section \<open>Messages\<close>

definition display_name :: "tg_user \<Rightarrow> string" where
  "display_name u =
     (if us_first_name u \<noteq> [] \<and> us_last_name u \<noteq> [] then us_first_name u @ '' '' @ us_last_name u
      else if us_first_name u \<noteq> [] then us_first_name u else us_username u)"

definition describe_attachment :: "tg_message \<Rightarrow> string" where
  "describe_attachment m =
     (if length (tm_photo m) > 0 then ''photo'' else if tm_voice m \<noteq> None then ''voice message''
      else if tm_audio m \<noteq> None then ''audio file'' else if tm_video_note m \<noteq> None then ''video note''
      else if tm_video m \<noteq> None then ''video'' else if tm_sticker m \<noteq> None then ''sticker''
      else if tm_document m \<noteq> None then ''file'' else if tm_location m then ''location''
      else if tm_contact m \<noteq> None then ''contact'' else ''message'')"

definition text_content :: "string \<Rightarrow> content" where
  "text_content t = \<lparr>co_type = ContentTypeText, co_text = t, co_audio = None, co_description = []\<rparr>"

definition message_content :: "tg_message \<Rightarrow> content" where
  "message_content m =
     (if tm_text m \<noteq> [] then text_content (tm_text m)
      else case find (\<lambda>f. f \<noteq> None) [tm_voice m, tm_audio m] of
        Some (Some f) \<Rightarrow> \<lparr>co_type = ContentTypeAudio, co_text = tm_caption m,
          co_audio = Some \<lparr>au_reference = tf_file_id f, au_mime_type = tf_mime_type f, au_filename = tf_filename f,
            au_size_bytes = tf_file_size f, au_duration_seconds = tf_duration f\<rparr>, co_description = ''voice message''\<rparr>
      | _ \<Rightarrow> if tm_caption m \<noteq> [] then text_content (tm_caption m)
        else \<lparr>co_type = ContentTypeUnsupported, co_text = [], co_audio = None, co_description = describe_attachment m\<rparr>)"

definition sender_of :: "tg_user \<Rightarrow> sender" where
  "sender_of u = \<lparr>sn_display_name = display_name u, sn_language = us_language_code u, sn_username = us_username u\<rparr>"

definition malformed :: "string \<Rightarrow> go_error" where
  "malformed t = errors_new (''malformed telegram update: '' @ t)"

definition checked_envelope :: "envelope \<Rightarrow> envelope result" where
  "checked_envelope e = (case envelope_validate e of
     Some err \<Rightarrow> Inl (wrap_error ''malformed telegram update'' err) | None \<Rightarrow> Inr e)"

definition to_envelope :: "time \<Rightarrow> tg_message \<Rightarrow> envelope result" where
  "to_envelope now m = (case (tm_chat m, tm_from m) of
       (None, _) \<Rightarrow> Inl (malformed ''message has no chat'')
     | (_, None) \<Rightarrow> Inl (malformed ''message has no sender'')
     | (Some ch, Some u) \<Rightarrow> checked_envelope
         \<lparr>en_provider = ProviderTelegram, en_message_id = decimal (tm_id m), en_choice_message_id = [],
          en_user_id = decimal (us_id u), en_thread_id = decimal (tc_id ch), en_sent_at = unix_time (tm_date m),
          en_received_at = now, en_sender = sender_of u, en_content = message_content m\<rparr>)"

text \<open>\<open>Webhook.Parse\<close> of a decoded body; \<open>None\<close> is a body that is not JSON for an update.\<close>

definition parse_update :: "time \<Rightarrow> tg_update option \<Rightarrow> envelope list result" where
  "parse_update now body = (case body of
       None \<Rightarrow> Inl (malformed ''invalid JSON'')
     | Some u \<Rightarrow> (case up_message u of
         None \<Rightarrow> Inr []
       | Some m \<Rightarrow> (case to_envelope now m of Inl e \<Rightarrow> Inl e | Inr env \<Rightarrow> Inr [env])))"

text \<open>A press of a button; its envelope is there when the press was understood.\<close>

record press =
  ps_query_id :: string
  ps_chat_id :: string
  ps_message_id :: int
  ps_message_text :: string
  ps_data :: string
  ps_envelope :: "envelope option"

definition press_of :: "tg_query \<Rightarrow> tg_message \<Rightarrow> tg_chat \<Rightarrow> press" where
  "press_of q m ch = \<lparr>ps_query_id = cq_id q, ps_chat_id = decimal (tc_id ch), ps_message_id = tm_id m,
     ps_message_text = tm_text m, ps_data = cq_data q, ps_envelope = None\<rparr>"

definition press_envelope :: "time \<Rightarrow> tg_query \<Rightarrow> tg_user \<Rightarrow> tg_message \<Rightarrow> string \<Rightarrow> string \<Rightarrow> envelope" where
  "press_envelope now q u m chat_id label =
     \<lparr>en_provider = ProviderTelegram, en_message_id = ''callback:'' @ cq_id q, en_choice_message_id = decimal (tm_id m),
      en_user_id = decimal (us_id u), en_thread_id = chat_id, en_sent_at = now, en_received_at = now,
      en_sender = sender_of u, en_content = text_content label\<rparr>"

definition parse_callback :: "time \<Rightarrow> tg_update option \<Rightarrow> press option result" where
  "parse_callback now body = (case body of
       None \<Rightarrow> Inl (malformed ''invalid JSON'')
     | Some upd \<Rightarrow> (case up_query upd of
         None \<Rightarrow> Inr None
       | Some q \<Rightarrow> (case (cq_from q, cq_message q, Option.bind (cq_message q) tm_chat) of
           (Some u, Some m, Some ch) \<Rightarrow>
             if cq_id q = [] then Inl (malformed ''callback query is missing its sender or message'')
             else let pressed = press_of q m ch in
               (case label_for_callback (tm_markup m) (cq_data q) of
                  None \<Rightarrow> Inr (Some pressed)
                | Some label \<Rightarrow> (case checked_envelope (press_envelope now q u m (ps_chat_id pressed) label) of
                    Inl e \<Rightarrow> Inl e
                  | Inr e \<Rightarrow> Inr (Some (pressed\<lparr>ps_envelope := Some e\<rparr>))))
         | _ \<Rightarrow> Inl (malformed ''callback query is missing its sender or message''))))"

section \<open>The staff chat\<close>

record staff_message =
  sm_author :: string
  sm_text :: string
  sm_reply_to :: string
  sm_command :: string
  sm_event :: string

text \<open>\<open>strings.ToLower\<close> is the parameter \<open>lower\<close>.\<close>

definition command_word :: "(string \<Rightarrow> string) \<Rightarrow> string \<Rightarrow> string" where
  "command_word lower txt =
     (if has_prefix txt ''/''
      then lower (takeWhile (\<lambda>c. c \<noteq> CHR ''@'') (trim_prefix (hd (string_fields txt)) ''/'')) else [])"

definition parse_staff_message :: "(string \<Rightarrow> string) \<Rightarrow> tg_update option \<Rightarrow> staff_message option" where
  "parse_staff_message lower body = (case body of
       None \<Rightarrow> None
     | Some upd \<Rightarrow> (case up_message upd of
         None \<Rightarrow> None
       | Some m \<Rightarrow> (case tm_from m of
           None \<Rightarrow> None
         | Some u \<Rightarrow>
           if us_is_bot u then None
           else let txt = trim_space (tm_text m);
                    txt = (if txt = [] then trim_space (tm_caption m) else txt) in
             if txt = [] then None
             else Some \<lparr>sm_author = display_name u, sm_text = txt,
               sm_reply_to = (case tm_reply_to m of None \<Rightarrow> [] | Some i \<Rightarrow> decimal i),
               sm_command = command_word lower txt, sm_event = ''staff:'' @ decimal (up_id upd)\<rparr>)))"

definition is_command :: "staff_message \<Rightarrow> bool" where
  "is_command m \<longleftrightarrow> sm_command m \<noteq> []"

definition staff_reply_text :: "staff_message \<Rightarrow> string" where
  "staff_reply_text m =
     (if \<not> is_command m then sm_text m
      else let fields = string_fields (sm_text m) in
        if length fields \<le> 1 then [] else trim_space (join_with '' '' (drop 1 fields)))"

definition describe_unknown_command :: "string \<Rightarrow> string" where
  "describe_unknown_command command = ''There is no /'' @ command @
     ''. Reply to a notification to answer the customer, or send /resume on one to hand it back to the assistant.''"

section \<open>Texts\<close>

definition max_message_runes :: nat where "max_message_runes = 4096"

definition selection_mark :: string where "selection_mark = utf8 [0x0A, 0x0A, 0x2713, 0x20]"

definition has_suffix :: "string \<Rightarrow> string \<Rightarrow> bool" where
  "has_suffix s p \<longleftrightarrow> has_prefix (rev s) (rev p)"

definition selected_question :: "string \<Rightarrow> string \<Rightarrow> string" where
  "selected_question question label =
     (let question = trim_space question; label = trim_space label in
      if question = [] \<or> label = [] then []
      else let receipt = selection_mark @ label in
        if has_suffix question receipt then question
        else let txt = question @ receipt in if rune_count txt > max_message_runes then [] else txt)"

text \<open>
  \<open>splitInboxText\<close>: the loop of \<open>range\<close> over the text visits the offset, the size and the rune of
  each code point; \<open>current\<close> holds the bytes of the chunk being filled and \<open>units\<close> its length.
\<close>

function split_runes :: "nat \<Rightarrow> string \<Rightarrow> nat \<Rightarrow> string \<Rightarrow> string list" where
  "split_runes limit current units [] = (if current = [] then [] else [current])"
| "split_runes limit current units (c # s) =
     (let (r, more) = decode_rune (of_char c) (map of_char s); size = rune_units r;
          piece = c # take more s; rest = drop more s in
      if units + size > limit then current # split_runes limit piece size rest
      else split_runes limit (current @ piece) (units + size) rest)"
  by pat_completeness auto
termination by (relation "measure (\<lambda>(limit, current, units, s). length s)") auto

definition split_inbox_text :: "string \<Rightarrow> nat \<Rightarrow> string list" where
  "split_inbox_text txt limit = split_runes limit [] 0 txt"

end
