(* ===== verification/TelegramClient.thy ===== *)
theory TelegramClient
  imports Utf8 TelegramUpdates Handle Relay
begin

text \<open>
  The texts the Telegram adapter writes to the staff chat (\<open>messaging/telegram/staff.go\<close>, \<open>inbox.go\<close>,
  \<open>handler.go\<close>, \<open>notifications.go\<close>), as the code points of the source.

  The Bot API client (\<open>messaging/telegram/client.go\<close>, the sending half of \<open>notifications.go\<close>): one
  call as a request over HTTP whose answer the environment gives, the classification of that answer,
  and the operations built from it. The state adds to the assistant's world the requests Telegram
  was sent, each with the error the caller saw, and the chat the staff notifier posts to. A body that cannot be built or encoded does not occur
  for these requests. Reading the JSON of a result is the field of the answer that carries the id.
\<close>

definition open_conversation_label :: string where
  "open_conversation_label =
     utf8 [0x532, 0x561, 0x581, 0x565, 0x56C, 0x20, 0x566, 0x580, 0x578, 0x582, 0x575, 0x581, 0x568]"

definition attachment_notice :: string where
  "attachment_notice =
     utf8 [0x5B, 0x540, 0x561, 0x573, 0x561, 0x56D, 0x578, 0x580, 0x564, 0x576, 0x20, 0x578, 0x582, 0x572, 0x561, 0x580, 0x56F,
     0x565, 0x56C, 0x20, 0x567, 0x20, 0x56F, 0x581, 0x578, 0x580, 0x564, 0x589, 0x20, 0x532, 0x561, 0x581, 0x565, 0x584, 0x20,
     0x566, 0x580, 0x578, 0x582, 0x575, 0x581, 0x56B, 0x20, 0x57A, 0x561, 0x57F, 0x574, 0x578, 0x582, 0x569, 0x575, 0x578,
     0x582, 0x576, 0x568, 0x589, 0x5D]"

definition new_message_title :: string where
  "new_message_title =
     utf8 [0x540, 0x561, 0x573, 0x561, 0x56D, 0x578, 0x580, 0x564, 0x56B, 0x20, 0x576, 0x578, 0x580, 0x20, 0x570, 0x561, 0x572,
     0x578, 0x580, 0x564, 0x561, 0x563, 0x580, 0x578, 0x582, 0x569, 0x575, 0x578, 0x582, 0x576, 0xA]"

definition staff_replied_title :: string where
  "staff_replied_title =
     ''ADMIN REPLIED '' @ utf8 [0x2014] @ '' ASSISTANT PAUSED'' @ utf8 [0xA, 0xA]"

definition channel_unavailable_title :: string where
  "channel_unavailable_title =
     ''CHANNEL UNAVAILABLE - contact the customer through an available channel'' @ utf8 [0xA, 0xA]"

definition unresolved_title :: string where
  "unresolved_title =
     ''UNRESOLVED BOOKING - please check the calendar now'' @ utf8 [0xA, 0xA]"

definition waiting_title :: string where
  "waiting_title =
     ''A customer is waiting for a person'' @ utf8 [0xA, 0xA]"

definition telegram_footer :: string where
  "telegram_footer =
     utf8 [0xA, 0x555, 0x563, 0x576, 0x561, 0x56F, 0x561, 0x576, 0x568, 0x20, 0x564, 0x561, 0x564, 0x561, 0x580, 0x565, 0x581,
     0x57E, 0x561, 0x56E, 0x20, 0x567, 0x20, 0x561, 0x575, 0x57D, 0x20, 0x566, 0x580, 0x578, 0x582, 0x575, 0x581, 0x578, 0x582,
     0x574, 0x589, 0x20, 0x532, 0x561, 0x581, 0x565, 0x584, 0x20, 0x566, 0x580, 0x578, 0x582, 0x575, 0x581, 0x568, 0x55D, 0x20,
     0x57A, 0x561, 0x57F, 0x574, 0x578, 0x582, 0x569, 0x575, 0x578, 0x582, 0x576, 0x568, 0x20, 0x56F, 0x561, 0x580, 0x564,
     0x561, 0x56C, 0x578, 0x582, 0x20, 0x570, 0x561, 0x574, 0x561, 0x580, 0x2C, 0x20, 0x56F, 0x561, 0x574, 0x20, 0x585, 0x563,
     0x57F, 0x561, 0x563, 0x578, 0x580, 0x56E, 0x565, 0x584] @ '' Reply '' @ utf8 [0x561, 0x575, 0x57D, 0x20, 0x570, 0x561,
     0x572, 0x578, 0x580, 0x564, 0x561, 0x563, 0x580, 0x578, 0x582, 0x569, 0x575, 0x561, 0x576, 0x20, 0x57E, 0x580, 0x561,
     0x55D, 0x20, 0x570, 0x561, 0x573, 0x561, 0x56D, 0x578, 0x580, 0x564, 0x56B, 0x576, 0x20, 0x57A, 0x561, 0x57F, 0x561,
     0x57D, 0x56D, 0x561, 0x576, 0x565, 0x56C, 0x578, 0x582, 0x20, 0x570, 0x561, 0x574, 0x561, 0x580, 0x589]"

definition native_footer :: string where
  "native_footer =
     utf8 [0xA] @ ''The assistant has paused for this customer.'' @ utf8 [0xA] @
     ''Open the channel link above and reply in the native business inbox.'' @ utf8 [0xA] @
     ''This group is notifications only; replies here are not sent to customers.'' @ utf8 [0xA] @
     ''When the conversation is finished, use the button below to return it to the assistant.''"

definition done_label :: string where
  "done_label =
     ''Done '' @ utf8 [0x2014] @ '' return to assistant''"

definition page_failed :: string where
  "page_failed =
     utf8 [0x549, 0x570, 0x561, 0x57B, 0x578, 0x572, 0x57E, 0x565, 0x581, 0x20, 0x562, 0x561, 0x581, 0x565, 0x56C, 0x20, 0x561,
     0x575, 0x57D, 0x20, 0x567, 0x57B, 0x568, 0x589, 0x20, 0x53D, 0x576, 0x564, 0x580, 0x578, 0x582, 0x574, 0x20, 0x565, 0x576,
     0x584, 0x20, 0x56F, 0x580, 0x56F, 0x56B, 0x576, 0x20, 0x578, 0x582, 0x572, 0x561, 0x580, 0x56F, 0x565, 0x56C] @
     '' /inbox'' @ utf8 [0x589]"

definition list_title :: string where
  "list_title =
     utf8 [0x540, 0x561, 0x573, 0x561, 0x56D, 0x578, 0x580, 0x564, 0x576, 0x565, 0x580, 0x56B] @ '' Telegram '' @ utf8 [0x566,
     0x580, 0x578, 0x582, 0x575, 0x581, 0x576, 0x565, 0x580, 0x568, 0xA, 0xA, 0x538, 0x576, 0x57F, 0x580, 0x565, 0x584, 0x20,
     0x566, 0x580, 0x578, 0x582, 0x575, 0x581, 0x568, 0x55D, 0x20, 0x57A, 0x561, 0x57F, 0x574, 0x578, 0x582, 0x569, 0x575,
     0x578, 0x582, 0x576, 0x568, 0x20, 0x56F, 0x561, 0x580, 0x564, 0x561, 0x56C, 0x578, 0x582, 0x20, 0x56F, 0x561, 0x574, 0x20,
     0x57A, 0x561, 0x57F, 0x561, 0x57D, 0x56D, 0x561, 0x576, 0x565, 0x56C, 0x578, 0x582, 0x20, 0x570, 0x561, 0x574, 0x561,
     0x580, 0x589, 0x20, 0x53A, 0x561, 0x574, 0x565, 0x580, 0x568, 0x55D, 0x20, 0x535, 0x580, 0x587, 0x561, 0x576, 0x56B, 0x20,
     0x56A, 0x561, 0x574, 0x561, 0x576, 0x561, 0x56F, 0x578, 0x57E, 0x589]"

definition waits_label :: string where
  "waits_label =
     utf8 [0x54D, 0x57A, 0x561, 0x57D, 0x578, 0x582, 0x574, 0x20, 0x567, 0x20, 0xB7, 0x20]"

definition team_label :: string where
  "team_label =
     utf8 [0x539, 0x56B, 0x574, 0x568, 0x20, 0xB7, 0x20]"

definition customer_label :: string where
  "customer_label =
     utf8 [0x540, 0x561, 0x573, 0x561, 0x56D, 0x578, 0x580, 0x564, 0x20]"

definition empty_list :: string where
  "empty_list =
     utf8 [0xA, 0xA, 0x531, 0x575, 0x57D, 0x20, 0x567, 0x57B, 0x578, 0x582, 0x574, 0x20, 0x566, 0x580, 0x578, 0x582, 0x575,
     0x581, 0x576, 0x565, 0x580, 0x20, 0x579, 0x56F, 0x561, 0x576, 0x589]"

definition refresh_label :: string where
  "refresh_label =
     utf8 [0x539, 0x561, 0x580, 0x574, 0x561, 0x581, 0x576, 0x565, 0x56C]"

definition next_page_label :: string where
  "next_page_label =
     utf8 [0x540, 0x561, 0x57B, 0x578, 0x580, 0x564, 0x20, 0x567, 0x57B, 0x568]"

definition phone_label :: string where
  "phone_label =
     utf8 [0x540, 0x565, 0x57C, 0x561, 0x56D, 0x578, 0x57D, 0x55D, 0x20]"

definition assistant_answers :: string where
  "assistant_answers =
     utf8 [0x54A, 0x561, 0x57F, 0x561, 0x57D, 0x56D, 0x561, 0x576, 0x578, 0x582, 0x574, 0x20, 0x567, 0x20, 0x585, 0x563, 0x576,
     0x561, 0x56F, 0x561, 0x576, 0x568]"

definition waits_for_team :: string where
  "waits_for_team =
     utf8 [0x54D, 0x57A, 0x561, 0x57D, 0x578, 0x582, 0x574, 0x20, 0x567, 0x20, 0x569, 0x56B, 0x574, 0x56B, 0x20, 0x57A, 0x561,
     0x57F, 0x561, 0x57D, 0x56D, 0x561, 0x576, 0x56B, 0x576]"

definition team_answers :: string where
  "team_answers =
     utf8 [0x54A, 0x561, 0x57F, 0x561, 0x57D, 0x56D, 0x561, 0x576, 0x578, 0x582, 0x574, 0x20, 0x567, 0x20, 0x569, 0x56B, 0x574,
     0x568]"

definition conversation_closed :: string where
  "conversation_closed =
     utf8 [0x536, 0x580, 0x578, 0x582, 0x575, 0x581, 0x576, 0x20, 0x561, 0x57E, 0x561, 0x580, 0x57F, 0x57E, 0x561, 0x56E, 0x20,
     0x567]"

definition customer_who :: string where
  "customer_who =
     utf8 [0x540, 0x561, 0x573, 0x561, 0x56D, 0x578, 0x580, 0x564]"

definition our_side_who :: string where
  "our_side_who =
     utf8 [0x544, 0x565, 0x580, 0x20, 0x569, 0x56B, 0x574, 0x568, 0x20, 0x2F, 0x20, 0x585, 0x563, 0x576, 0x561, 0x56F, 0x561,
     0x576, 0x568]"

definition history_footer :: string where
  "history_footer =
     utf8 [0x540, 0x561, 0x573, 0x561, 0x56D, 0x578, 0x580, 0x564, 0x56B, 0x576, 0x20, 0x57A, 0x561, 0x57F, 0x561, 0x57D,
     0x56D, 0x561, 0x576, 0x565, 0x56C, 0x578, 0x582, 0x20, 0x570, 0x561, 0x574, 0x561, 0x580, 0x20, 0x585, 0x563, 0x57F,
     0x561, 0x563, 0x578, 0x580, 0x56E, 0x565, 0x584] @ '' Reply '' @ utf8 [0x561, 0x575, 0x57D, 0x20, 0x570, 0x561, 0x572,
     0x578, 0x580, 0x564, 0x561, 0x563, 0x580, 0x578, 0x582, 0x569, 0x575, 0x561, 0x576, 0x20, 0x57E, 0x580, 0x561, 0x589,
     0x20, 0x54A, 0x561, 0x57F, 0x561, 0x57D, 0x56D, 0x561, 0x576, 0x568, 0x20, 0x56F, 0x578, 0x582, 0x572, 0x561, 0x580,
     0x56F, 0x57E, 0x56B, 0x20, 0x57D, 0x57F, 0x578, 0x582, 0x564, 0x56B, 0x561, 0x575, 0x56B, 0x20, 0x562, 0x578, 0x57F,
     0x56B, 0x581, 0x2C, 0x20, 0x587, 0x20, 0x585, 0x563, 0x576, 0x561, 0x56F, 0x561, 0x576, 0x568, 0x20, 0x56F, 0x564, 0x561,
     0x564, 0x561, 0x580, 0x56B, 0x20, 0x57A, 0x561, 0x57F, 0x561, 0x57D, 0x56D, 0x561, 0x576, 0x565, 0x56C, 0x20, 0x574,
     0x56B, 0x576, 0x579, 0x587, 0x20, 0x561, 0x575, 0x576, 0x20, 0x56F, 0x580, 0x56F, 0x56B, 0x576, 0x20, 0x574, 0x56B, 0x561,
     0x581, 0x576, 0x565, 0x584, 0x589]"

definition older_label :: string where
  "older_label =
     utf8 [0x531, 0x57E, 0x565, 0x56C, 0x56B, 0x20, 0x57E, 0x561, 0x572]"

definition back_label :: string where
  "back_label =
     utf8 [0x540, 0x565, 0x57F]"

definition latest_label :: string where
  "latest_label =
     utf8 [0x54E, 0x565, 0x580, 0x57B, 0x56B, 0x576, 0x20, 0x570, 0x561, 0x572, 0x578, 0x580, 0x564, 0x561, 0x563, 0x580,
     0x578, 0x582, 0x569, 0x575, 0x578, 0x582, 0x576, 0x576, 0x565, 0x580, 0x568]"

definition list_label :: string where
  "list_label =
     utf8 [0x536, 0x580, 0x578, 0x582, 0x575, 0x581, 0x576, 0x565, 0x580, 0x56B, 0x20, 0x581, 0x561, 0x576, 0x56F]"

definition take_label :: string where
  "take_label =
     utf8 [0x54A, 0x561, 0x57F, 0x561, 0x57D, 0x56D, 0x561, 0x576, 0x565, 0x56C, 0x20, 0x569, 0x56B, 0x574, 0x578, 0x57E]"

definition resume_label :: string where
  "resume_label =
     utf8 [0x544, 0x56B, 0x561, 0x581, 0x576, 0x565, 0x56C, 0x20, 0x585, 0x563, 0x576, 0x561, 0x56F, 0x561, 0x576, 0x56B,
     0x576]"

definition list_failed :: string where
  "list_failed =
     utf8 [0x549, 0x570, 0x561, 0x57B, 0x578, 0x572, 0x57E, 0x565, 0x581, 0x20, 0x562, 0x561, 0x581, 0x565, 0x56C, 0x20, 0x566,
     0x580, 0x578, 0x582, 0x575, 0x581, 0x576, 0x565, 0x580, 0x568, 0x589, 0x20, 0x53D, 0x576, 0x564, 0x580, 0x578, 0x582,
     0x574, 0x20, 0x565, 0x576, 0x584, 0x20, 0x56F, 0x580, 0x56F, 0x56B, 0x576, 0x20, 0x578, 0x582, 0x572, 0x561, 0x580, 0x56F,
     0x565, 0x56C] @ '' /inbox'' @ utf8 [0x589]"

definition use_reply :: string where
  "use_reply =
     utf8 [0x548, 0x582, 0x572, 0x561, 0x580, 0x56F, 0x565, 0x584] @ '' /inbox'' @ utf8 [0x55D] @ '' Telegram '' @ utf8 [0x566,
     0x580, 0x578, 0x582, 0x575, 0x581, 0x576, 0x565, 0x580, 0x568, 0x20, 0x56F, 0x561, 0x580, 0x564, 0x561, 0x56C, 0x578,
     0x582, 0x20, 0x570, 0x561, 0x574, 0x561, 0x580, 0x589, 0x20, 0x540, 0x561, 0x573, 0x561, 0x56D, 0x578, 0x580, 0x564,
     0x56B, 0x576, 0x20, 0x57A, 0x561, 0x57F, 0x561, 0x57D, 0x56D, 0x561, 0x576, 0x565, 0x56C, 0x578, 0x582, 0x20, 0x570,
     0x561, 0x574, 0x561, 0x580, 0x20, 0x585, 0x563, 0x57F, 0x561, 0x563, 0x578, 0x580, 0x56E, 0x565, 0x584] @ '' Reply '' @
     utf8 [0x576, 0x580, 0x561, 0x20, 0x566, 0x580, 0x578, 0x582, 0x575, 0x581, 0x56B, 0x20, 0x570, 0x561, 0x572, 0x578, 0x580,
     0x564, 0x561, 0x563, 0x580, 0x578, 0x582, 0x569, 0x575, 0x561, 0x576, 0x20, 0x57E, 0x580, 0x561, 0x589]"

definition answer_elsewhere :: string where
  "answer_elsewhere =
     utf8 [0x531, 0x575, 0x57D, 0x20, 0x570, 0x561, 0x573, 0x561, 0x56D, 0x578, 0x580, 0x564, 0x56B, 0x576, 0x20, 0x57A, 0x561,
     0x57F, 0x561, 0x57D, 0x56D, 0x561, 0x576, 0x565, 0x584, 0x20, 0x56B, 0x580, 0x20, 0x570, 0x561, 0x580, 0x569, 0x561,
     0x56F, 0x56B, 0x20, 0x562, 0x56B, 0x566, 0x576, 0x565, 0x57D, 0x20, 0x570, 0x561, 0x572, 0x578, 0x580, 0x564, 0x561,
     0x563, 0x580, 0x578, 0x582, 0x569, 0x575, 0x578, 0x582, 0x576, 0x576, 0x565, 0x580, 0x56B, 0x20, 0x562, 0x561, 0x56A,
     0x576, 0x56B, 0x581, 0x589]"

definition relay_unconfirmed :: string where
  "relay_unconfirmed =
     utf8 [0x549, 0x570, 0x561, 0x57B, 0x578, 0x572, 0x57E, 0x565, 0x581, 0x20, 0x570, 0x561, 0x57D, 0x57F, 0x561, 0x57F,
     0x565, 0x56C, 0x20, 0x57A, 0x561, 0x57F, 0x561, 0x57D, 0x56D, 0x561, 0x576, 0x56B, 0x20, 0x578, 0x582, 0x572, 0x561,
     0x580, 0x56F, 0x578, 0x582, 0x574, 0x568, 0x589, 0x20, 0x53F, 0x580, 0x56F, 0x56B, 0x576, 0x20, 0x578, 0x582, 0x572,
     0x561, 0x580, 0x56F, 0x565, 0x56C, 0x578, 0x582, 0x581, 0x20, 0x561, 0x57C, 0x561, 0x57B, 0x20, 0x57D, 0x57F, 0x578,
     0x582, 0x563, 0x565, 0x584, 0x20, 0x570, 0x561, 0x573, 0x561, 0x56D, 0x578, 0x580, 0x564, 0x56B, 0x20, 0x566, 0x580,
     0x578, 0x582, 0x575, 0x581, 0x568, 0x589]"

definition relay_done :: string where
  "relay_done =
     utf8 [0x54A, 0x561, 0x57F, 0x561, 0x57D, 0x56D, 0x561, 0x576, 0x568, 0x20, 0x574, 0x577, 0x561, 0x56F, 0x57E, 0x561,
     0x56E, 0x20, 0x567, 0x589, 0x20, 0x555, 0x563, 0x576, 0x561, 0x56F, 0x561, 0x576, 0x568, 0x20, 0x564, 0x561, 0x564, 0x561,
     0x580, 0x565, 0x581, 0x57E, 0x561, 0x56E, 0x20, 0x567, 0x20, 0x561, 0x575, 0x57D, 0x20, 0x566, 0x580, 0x578, 0x582, 0x575,
     0x581, 0x578, 0x582, 0x574, 0x589, 0x20, 0x54E, 0x565, 0x580, 0x57B, 0x56B, 0x576, 0x20, 0x570, 0x561, 0x572, 0x578,
     0x580, 0x564, 0x561, 0x563, 0x580, 0x578, 0x582, 0x569, 0x575, 0x578, 0x582, 0x576, 0x576, 0x565, 0x580, 0x568, 0x55D] @
     '' /inbox'' @ utf8 [0x589]"

definition sms_last :: string where
  "sms_last =
     utf8 [0x53, 0x4D, 0x53, 0x2D, 0x568, 0x20, 0x57E, 0x565, 0x580, 0x57B, 0x56B, 0x576, 0x20, 0x57A, 0x561, 0x570, 0x578,
     0x582, 0x57D, 0x57F, 0x561, 0x575, 0x56B, 0x576, 0x20, 0x561, 0x56C, 0x56B, 0x584, 0x576, 0x20, 0x567, 0x589]"

definition sms_off :: string where
  "sms_off =
     utf8 [0x53, 0x4D, 0x53, 0x2D, 0x576, 0x20, 0x561, 0x576, 0x57B, 0x561, 0x57F, 0x57E, 0x561, 0x56E, 0x20, 0x567, 0x589]"

definition allow_usage :: string where
  "allow_usage =
     utf8 [0x544, 0x56B, 0x561, 0x575, 0x576, 0x20, 0x570, 0x561, 0x573, 0x561, 0x56D, 0x578, 0x580, 0x564, 0x56B, 0x20, 0x56D,
     0x576, 0x564, 0x580, 0x561, 0x576, 0x584, 0x568, 0x20, 0x570, 0x561, 0x57D, 0x57F, 0x561, 0x57F, 0x565, 0x56C, 0x578,
     0x582, 0x581, 0x20, 0x570, 0x565, 0x57F, 0x578, 0x55D] @ '' /notification_allow +374'' @ utf8 [0x2026] @ '' hy|ru|en''"

definition check_phone_language :: string where
  "check_phone_language =
     utf8 [0x53D, 0x576, 0x564, 0x580, 0x578, 0x582, 0x574, 0x20, 0x565, 0x576, 0x584, 0x20, 0x57D, 0x57F, 0x578, 0x582, 0x563,
     0x565, 0x56C, 0x20, 0x570, 0x565, 0x57C, 0x561, 0x56D, 0x578, 0x57D, 0x561, 0x570, 0x561, 0x574, 0x561, 0x580, 0x568,
     0x20, 0x587, 0x20, 0x56C, 0x565, 0x566, 0x578, 0x582, 0x576, 0x55D] @ '' hy, ru '' @ utf8 [0x56F, 0x561, 0x574, 0x20,
     0x65, 0x6E, 0x589]"

definition request_recorded :: string where
  "request_recorded =
     utf8 [0x540, 0x561, 0x573, 0x561, 0x56D, 0x578, 0x580, 0x564, 0x56B, 0x55D, 0x20, 0x561, 0x574, 0x580, 0x561, 0x563,
     0x580, 0x574, 0x561, 0x576, 0x20, 0x56E, 0x561, 0x576, 0x578, 0x582, 0x581, 0x578, 0x582, 0x574, 0x576, 0x565, 0x580,
     0x20, 0x57D, 0x57F, 0x561, 0x576, 0x561, 0x56C, 0x578, 0x582, 0x20, 0x56D, 0x576, 0x564, 0x580, 0x561, 0x576, 0x584,
     0x576, 0x20, 0x561, 0x580, 0x571, 0x561, 0x576, 0x561, 0x563, 0x580, 0x57E, 0x561, 0x56E, 0x20, 0x567, 0x589, 0x20]"

definition block_usage :: string where
  "block_usage =
     ''/notification_block +374'' @ utf8 [0x2026]"

definition check_phone :: string where
  "check_phone =
     utf8 [0x53D, 0x576, 0x564, 0x580, 0x578, 0x582, 0x574, 0x20, 0x565, 0x576, 0x584, 0x20, 0x57D, 0x57F, 0x578, 0x582, 0x563,
     0x565, 0x56C, 0x20, 0x570, 0x565, 0x57C, 0x561, 0x56D, 0x578, 0x57D, 0x561, 0x570, 0x561, 0x574, 0x561, 0x580, 0x568,
     0x589]"

definition phone_blocked :: string where
  "phone_blocked =
     utf8 [0x531, 0x575, 0x57D, 0x20, 0x570, 0x561, 0x574, 0x561, 0x580, 0x56B, 0x20, 0x561, 0x574, 0x580, 0x561, 0x563, 0x580,
     0x574, 0x561, 0x576, 0x20, 0x561, 0x57E, 0x57F, 0x578, 0x574, 0x561, 0x57F, 0x20, 0x56E, 0x561, 0x576, 0x578, 0x582,
     0x581, 0x578, 0x582, 0x574, 0x576, 0x565, 0x580, 0x576, 0x20, 0x561, 0x576, 0x57B, 0x561, 0x57F, 0x57E, 0x561, 0x56E,
     0x20, 0x565, 0x576, 0x589]"

definition order_usage :: string where
  "order_usage =
     ''/notification_order telegram '' @ utf8 [0x56F, 0x561, 0x574] @ '' /notification_order whatsapp''"

definition order_saved :: string where
  "order_saved =
     utf8 [0x53E, 0x561, 0x576, 0x578, 0x582, 0x581, 0x578, 0x582, 0x574, 0x576, 0x565, 0x580, 0x56B, 0x20, 0x570, 0x565,
     0x580, 0x569, 0x561, 0x56F, 0x561, 0x576, 0x578, 0x582, 0x569, 0x575, 0x578, 0x582, 0x576, 0x568, 0x20, 0x57A, 0x561,
     0x570, 0x57A, 0x561, 0x576, 0x57E, 0x561, 0x56E, 0x20, 0x567, 0x589, 0x20]"

definition telegram_first :: string where
  "telegram_first =
     ''Telegram '' @ utf8 [0x2192] @ '' WhatsApp''"

definition whatsapp_first :: string where
  "whatsapp_first =
     ''WhatsApp '' @ utf8 [0x2192] @ '' Telegram''"

definition account_off :: string where
  "account_off =
     utf8 [0x561, 0x576, 0x57B, 0x561, 0x57F, 0x57E, 0x561, 0x56E]"

definition account_on :: string where
  "account_on =
     utf8 [0x574, 0x56B, 0x561, 0x581, 0x57E, 0x561, 0x56E]"

definition status_order :: string where
  "status_order =
     utf8 [0x53E, 0x561, 0x576, 0x578, 0x582, 0x581, 0x578, 0x582, 0x574, 0x576, 0x565, 0x580, 0x56B, 0x20, 0x570, 0x565,
     0x580, 0x569, 0x561, 0x56F, 0x561, 0x576, 0x578, 0x582, 0x569, 0x575, 0x578, 0x582, 0x576, 0x568, 0x55D, 0x20]"

definition status_full_stop :: string where
  "status_full_stop =
     utf8 [0x589, 0x20]"

definition status_waiting :: string where
  "status_waiting =
     utf8 [0x20, 0x54D, 0x57A, 0x561, 0x57D, 0x578, 0x572, 0x20, 0x56B, 0x580, 0x561, 0x564, 0x561, 0x580, 0x571, 0x578, 0x582,
     0x569, 0x575, 0x578, 0x582, 0x576, 0x576, 0x565, 0x580, 0x55D, 0x20]"

definition status_account :: string where
  "status_account =
     utf8 [0x589, 0xA, 0x54D, 0x57F, 0x578, 0x582, 0x564, 0x56B, 0x561, 0x575, 0x56B] @ '' Telegram '' @ utf8 [0x570, 0x561,
     0x577, 0x56B, 0x57E, 0x55D, 0x20]"

definition status_usage :: string where
  "status_usage =
     utf8 [0x589, 0x20, 0x53F, 0x561, 0x57A, 0x561, 0x56F, 0x581, 0x57E, 0x561, 0x56E, 0x20, 0x570, 0x561, 0x573, 0x561, 0x56D,
     0x578, 0x580, 0x564, 0x576, 0x565, 0x580, 0x568, 0x20, 0x56E, 0x561, 0x576, 0x578, 0x582, 0x581, 0x578, 0x582, 0x574,
     0x576, 0x565, 0x580, 0x20, 0x57D, 0x57F, 0x561, 0x576, 0x578, 0x582, 0x574, 0x20, 0x565, 0x576, 0x20, 0x562, 0x578, 0x57F,
     0x56B, 0x581, 0x589, 0xA] @ ''/notification_order telegram '' @ utf8 [0x56F, 0x561, 0x574] @
     '' /notification_order whatsapp'' @ utf8 [0xA, 0x540, 0x561, 0x573, 0x561, 0x56D, 0x578, 0x580, 0x564, 0x56B, 0x20, 0x570,
     0x561, 0x574, 0x561, 0x571, 0x561, 0x575, 0x576, 0x578, 0x582, 0x569, 0x575, 0x578, 0x582, 0x576, 0x576, 0x20, 0x561,
     0x580, 0x571, 0x561, 0x576, 0x561, 0x563, 0x580, 0x565, 0x56C, 0x578, 0x582, 0x20, 0x570, 0x561, 0x574, 0x561, 0x580,
     0x55D] @ '' /notification_allow +374'' @ utf8 [0x2026] @ '' hy|ru|en'' @ utf8 [0xA, 0x53E, 0x561, 0x576, 0x578, 0x582,
     0x581, 0x578, 0x582, 0x574, 0x576, 0x565, 0x580, 0x576, 0x20, 0x561, 0x576, 0x57B, 0x561, 0x57F, 0x565, 0x56C, 0x578,
     0x582, 0x20, 0x570, 0x561, 0x574, 0x561, 0x580, 0x55D] @ '' /notification_block +374'' @ utf8 [0x2026]"

section \<open>Calls\<close>

datatype telegram_request =
    PostMessage string string "tg_keyboard option"
  | PostContactRequest string string
  | PostContactMessage string string bool
  | PostAnswerCallback string string
  | PostTyping string
  | PostEditText string int string
  | PostEditMarkup string int
  | PostCommands "(string \<times> string) list" string string
  | PostWebhook string string

fun request_method :: "telegram_request \<Rightarrow> string" where
  "request_method (PostMessage chat txt markup) = ''sendMessage''"
| "request_method (PostContactRequest chat txt) = ''sendMessage''"
| "request_method (PostContactMessage chat txt remove) = ''sendMessage''"
| "request_method (PostAnswerCallback i txt) = ''answerCallbackQuery''"
| "request_method (PostTyping chat) = ''sendChatAction''"
| "request_method (PostEditText chat i txt) = ''editMessageText''"
| "request_method (PostEditMarkup chat i) = ''editMessageReplyMarkup''"
| "request_method (PostCommands cs lang scope) = ''setMyCommands''"
| "request_method (PostWebhook url secret) = ''setWebhook''"

record api_error =
  ae_method :: string
  ae_status :: int
  ae_code :: int
  ae_description :: string
  ae_retry_after :: duration
  ae_migrate_to :: int

text \<open>An error of a call: one the API answered with, or one of the transport with the token struck out.\<close>

datatype telegram_error = ApiError api_error | Redacted string | InvalidId

text \<open>The answer read as JSON. \<open>ar_sent\<close> is what reading a sent message out of the result gives.\<close>

record api_response =
  ar_ok :: bool
  ar_sent :: "int option"
  ar_code :: int
  ar_description :: string
  ar_parameters :: "(int \<times> int) option"

datatype http_answer =
    TransportFailed string
  | BodyFailed string
  | Answered int "api_response option"

definition api_retryable :: "api_error \<Rightarrow> bool" where
  "api_retryable e \<longleftrightarrow> ae_status e = 429 \<or> ae_status e \<ge> 500"

definition api_error_text :: "(duration \<Rightarrow> string) \<Rightarrow> api_error \<Rightarrow> string" where
  "api_error_text show_duration e =
     ''telegram '' @ ae_method e @ '': '' @ decimal (ae_code e) @ '' '' @ ae_description e @
     (if ae_retry_after e > 0 then '' (retry after '' @ show_duration (ae_retry_after e) @ '')'' else []) @
     (if ae_migrate_to e \<noteq> 0 then '' (the chat is now '' @ decimal (ae_migrate_to e) @ '')'' else [])"

text \<open>\<open>strings.ReplaceAll\<close> of a non-empty text.\<close>

function replace_all :: "string \<Rightarrow> string \<Rightarrow> string \<Rightarrow> string" where
  "replace_all old new [] = []"
| "replace_all old new (c # s) =
     (if old \<noteq> [] \<and> has_prefix (c # s) old then new @ replace_all old new (drop (length old - 1) s)
      else c # replace_all old new s)"
  by pat_completeness auto
termination by (relation "measure (\<lambda>(old, new, s). length s)") auto

definition redact :: "string \<Rightarrow> string \<Rightarrow> string" where
  "redact token txt = (if token = [] then txt else replace_all token ''[REDACTED]'' txt)"

text \<open>The end of \<open>call\<close>: the result's message id, or the error.\<close>

definition unreadable :: "string \<Rightarrow> int \<Rightarrow> api_error" where
  "unreadable method st = \<lparr>ae_method = method, ae_status = st, ae_code = 0,
     ae_description = ''unreadable response with status '' @ decimal st, ae_retry_after = 0, ae_migrate_to = 0\<rparr>"

definition refusal :: "string \<Rightarrow> int \<Rightarrow> api_response \<Rightarrow> api_error" where
  "refusal method st r = \<lparr>ae_method = method, ae_status = st, ae_code = ar_code r, ae_description = ar_description r,
     ae_retry_after = (case ar_parameters r of Some (retry_after, _) \<Rightarrow> if retry_after > 0 then retry_after * second else 0
       | None \<Rightarrow> 0),
     ae_migrate_to = (case ar_parameters r of Some (_, migrate) \<Rightarrow> migrate | None \<Rightarrow> 0)\<rparr>"

definition read_answer :: "string \<Rightarrow> string \<Rightarrow> http_answer \<Rightarrow> telegram_error + int option" where
  "read_answer token method answer = (case answer of
       TransportFailed t \<Rightarrow> Inl (Redacted (redact token (''telegram '' @ method @ '': '' @ t)))
     | BodyFailed t \<Rightarrow> Inl (Redacted (redact token (''telegram '' @ method @ '': read response: '' @ t)))
     | Answered st None \<Rightarrow> Inl (ApiError (unreadable method st))
     | Answered st (Some r) \<Rightarrow> if \<not> ar_ok r then Inl (ApiError (refusal method st r)) else Inr (ar_sent r))"

definition migrated_chat_id :: "telegram_error \<Rightarrow> string" where
  "migrated_chat_id e = (case e of
       ApiError a \<Rightarrow> if ae_migrate_to a \<noteq> 0 then decimal (ae_migrate_to a) else [] | _ \<Rightarrow> [])"

section \<open>The client over the world\<close>

record telegram_world =
  tw_world :: world
  tw_calls :: "(telegram_request \<times> telegram_error option) list"
  tw_staff_chat :: string

record telegram_env = handle_env +
  tb_token :: string
  tb_answer :: "nat \<Rightarrow> telegram_request \<Rightarrow> http_answer"
  tb_show_duration :: "duration \<Rightarrow> string"

text \<open>A step of the assistant inside the adapter's world.\<close>

definition inside :: "(world, 'a) proc \<Rightarrow> (telegram_world, 'a) proc" where
  "inside m t = (case m (tw_world t) of (r, w) \<Rightarrow> (r, t\<lparr>tw_world := w\<rparr>))"

definition telegram_call ::
  "'e telegram_env_scheme \<Rightarrow> telegram_request \<Rightarrow> (telegram_world, telegram_error + int option) proc" where
  "telegram_call env req t =
     (let r = read_answer (tb_token env) (request_method req) (tb_answer env (w_tick (tw_world t)) req) in
      (Inr r, t\<lparr>tw_world := tick (tw_world t),
         tw_calls := tw_calls t @ [(req, case r of Inl e \<Rightarrow> Some e | Inr _ \<Rightarrow> None)]\<rparr>))"

definition error_of :: "'e telegram_env_scheme \<Rightarrow> telegram_error \<Rightarrow> go_error" where
  "error_of env e = errors_new (case e of
     ApiError a \<Rightarrow> api_error_text (tb_show_duration env) a | Redacted t \<Rightarrow> t
   | InvalidId \<Rightarrow> ''telegram: invalid choice message id'')"

text \<open>Calls whose only result is the error.\<close>

definition telegram_do :: "'e telegram_env_scheme \<Rightarrow> telegram_request \<Rightarrow> (telegram_world, unit) proc" where
  "telegram_do env req = attempt (telegram_call env req) id (\<lambda>r. case r of
     Inl e \<Rightarrow> fail (error_of env e) | Inr _ \<Rightarrow> ret ())"

text \<open>The id of a message that was sent; an id that cannot be read is no failure.\<close>

definition sent_id :: "int option \<Rightarrow> string" where
  "sent_id sent = (case sent of Some i \<Rightarrow> if i = 0 then [] else decimal i | None \<Rightarrow> [])"

definition post_with_markup ::
  "'e telegram_env_scheme \<Rightarrow> string \<Rightarrow> string \<Rightarrow> tg_keyboard option \<Rightarrow>
   (telegram_world, telegram_error + string) proc" where
  "post_with_markup env chat txt markup = attempt (telegram_call env (PostMessage chat txt markup)) id (\<lambda>r.
     ret (case r of Inl e \<Rightarrow> Inl e | Inr sent \<Rightarrow> Inr (sent_id sent)))"

definition send_with_markup ::
  "'e telegram_env_scheme \<Rightarrow> string \<Rightarrow> string \<Rightarrow> tg_keyboard option \<Rightarrow> (telegram_world, string) proc" where
  "send_with_markup env chat txt markup = attempt (post_with_markup env chat txt markup) id (\<lambda>r. case r of
     Inl e \<Rightarrow> fail (error_of env e) | Inr i \<Rightarrow> ret i)"

definition send_returning_id :: "'e telegram_env_scheme \<Rightarrow> outgoing \<Rightarrow> (telegram_world, string) proc" where
  "send_returning_id env out =
     (if og_provider out \<noteq> ProviderTelegram
      then fail (errors_new (''telegram client cannot deliver to '' @ og_provider out))
      else case outgoing_validate out of
        Some e \<Rightarrow> fail e
      | None \<Rightarrow>
        if og_request_own_contact out
        then attempt (telegram_call env (PostContactRequest (og_thread_id out) (og_text out))) id (\<lambda>r. case r of
            Inl e \<Rightarrow> fail (error_of env e)
          | Inr None \<Rightarrow> fail (errors_new ''invalid JSON in the result'')
          | Inr (Some i) \<Rightarrow> ret (decimal i))
        else send_with_markup env (og_thread_id out) (og_text out) (keyboard_for_message out))"

definition telegram_send :: "'e telegram_env_scheme \<Rightarrow> outgoing \<Rightarrow> (telegram_world, unit) proc" where
  "telegram_send env out =
     (if og_provider out \<noteq> ProviderTelegram
      then fail (errors_new (''telegram client cannot deliver to '' @ og_provider out))
      else case outgoing_validate out of
        Some e \<Rightarrow> fail e
      | None \<Rightarrow> attempt (send_returning_id env out) id (\<lambda>_. ret ()))"

definition send_typing :: "'e telegram_env_scheme \<Rightarrow> string \<Rightarrow> (telegram_world, unit) proc" where
  "send_typing env chat = telegram_do env (PostTyping chat)"

definition answer_callback :: "'e telegram_env_scheme \<Rightarrow> string \<Rightarrow> string \<Rightarrow> (telegram_world, unit) proc" where
  "answer_callback env query_id txt = telegram_do env (PostAnswerCallback query_id txt)"

definition show_selected_text :: "'e telegram_env_scheme \<Rightarrow> string \<Rightarrow> int \<Rightarrow> string \<Rightarrow> (telegram_world, unit) proc" where
  "show_selected_text env chat message_id txt = telegram_do env (PostEditText chat message_id txt)"

text \<open>A keyboard that is already gone counts as removed.\<close>

definition clear_keyboard :: "'e telegram_env_scheme \<Rightarrow> string \<Rightarrow> int \<Rightarrow> (telegram_world, unit) proc" where
  "clear_keyboard env chat message_id = attempt (telegram_call env (PostEditMarkup chat message_id)) id (\<lambda>r. case r of
     Inr _ \<Rightarrow> ret ()
   | Inl (ApiError a) \<Rightarrow>
     if ae_code a = 400 \<and> contains (ae_description a) ''message is not modified'' then ret ()
     else fail (error_of env (ApiError a))
   | Inl e \<Rightarrow> fail (error_of env e))"

definition retire_telegram_choices :: "'e telegram_env_scheme \<Rightarrow> string \<Rightarrow> string \<Rightarrow> (telegram_world, unit) proc" where
  "retire_telegram_choices env thread message_id = (case parse_int64 message_id of
       None \<Rightarrow> fail (error_of env InvalidId)
     | Some i \<Rightarrow> if i \<le> 0 then fail (error_of env InvalidId) else clear_keyboard env thread i)"

definition set_commands ::
  "'e telegram_env_scheme \<Rightarrow> string \<Rightarrow> string \<Rightarrow> (string \<times> string) list \<Rightarrow>
   (telegram_world, telegram_error option) proc" where
  "set_commands env scope lang commands =
     attempt (telegram_call env (PostCommands (map (\<lambda>(name, description). (trim_prefix name ''/'', description)) commands)
         lang scope)) id (\<lambda>r. ret (case r of Inl e \<Rightarrow> Some e | Inr _ \<Rightarrow> None))"

definition set_webhook :: "'e telegram_env_scheme \<Rightarrow> string \<Rightarrow> string \<Rightarrow> (telegram_world, unit) proc" where
  "set_webhook env url secret = telegram_do env (PostWebhook url secret)"

text \<open>The id a chat can be reached at, and the error of the probe when it says nothing of a move.\<close>

definition resolve_chat_id :: "'e telegram_env_scheme \<Rightarrow> string \<Rightarrow> (telegram_world, string \<times> telegram_error option) proc" where
  "resolve_chat_id env chat = attempt (set_commands env chat [] []) id (\<lambda>r. ret (case r of
       None \<Rightarrow> (chat, None)
     | Some e \<Rightarrow> if migrated_chat_id e \<noteq> [] then (migrated_chat_id e, None) else (chat, Some e)))"

definition contact_message :: "'e telegram_env_scheme \<Rightarrow> string \<Rightarrow> string \<Rightarrow> bool \<Rightarrow> (telegram_world, unit) proc" where
  "contact_message env chat txt remove = telegram_do env (PostContactMessage chat txt remove)"

end
