(* ===== verification/TelegramStaff.thy ===== *)
theory TelegramStaff
  imports TelegramClient
begin

text \<open>
  The staff chat (\<open>messaging/telegram/staff.go\<close>, \<open>inbox.go\<close>): the notice that a customer needs a
  person, the copies of messages that arrive while a person answers, and the pages of the private
  inbox. Instants are rendered by parameters for the location of the studio; the sentence about an
  unresolved booking is the parameter \<open>tb_detail\<close>. The repository is the in-process store.
\<close>

record staff_env = telegram_env +
  tb_detail :: "handoff_detail \<Rightarrow> string"
  tb_date :: "time \<Rightarrow> string"
  tb_minute :: "time \<Rightarrow> string"
  tb_full_minute :: "time \<Rightarrow> string"
  tb_linked_threads :: bool

definition staff_transcript_lines :: nat where "staff_transcript_lines = 6"
definition staff_message_limit :: nat where "staff_message_limit = 3500"

section \<open>The notice\<close>

text \<open>\<open>digitsOnly\<close>: bytes and runes agree, because a byte of a longer sequence is no digit.\<close>

definition digits_only :: "string \<Rightarrow> string" where
  "digits_only v = filter digit v"

definition text_line :: "string \<Rightarrow> string \<Rightarrow> string" where
  "text_line lead v = lead @ v @ newline"

definition write_channel :: "handoff_notice \<Rightarrow> string" where
  "write_channel n =
     (if hn_provider n = ProviderMessenger
      then text_line ''Channel: Facebook Messenger'' [] @
        text_line ''Open the inbox: '' ''https://business.facebook.com/latest/inbox/messenger''
      else if hn_provider n = ProviderInstagram
      then text_line ''Channel: Instagram'' [] @
        text_line ''Open the inbox: '' ''https://business.facebook.com/latest/inbox/instagram''
      else if hn_provider n = ProviderWhatsApp
      then text_line ''Channel: WhatsApp'' [] @
        (let digits = digits_only (hn_user_id n); others = digits_only (cu_phone (hn_customer n)) in
         if digits \<noteq> [] then text_line ''Open the chat: https://wa.me/'' digits
         else if others \<noteq> [] then text_line ''Open the chat: https://wa.me/'' others else [])
      else if hn_handle n \<noteq> [] then text_line ''Open the chat: https://t.me/'' (trim_prefix (hn_handle n) ''@'')
      else if hn_user_id n \<noteq> [] then text_line ''Open the chat: tg://user?id='' (hn_user_id n)
      else text_line ''Channel: '' (hn_provider n))"

definition transcript_who :: "stored_message \<Rightarrow> string" where
  "transcript_who m =
     (if ms_direction m = DirectionOutbound
      then (if ms_external_id m \<noteq> [] then ''Administrator'' else ''Assistant'') else ''Customer'')"

definition format_transcript :: "stored_message list \<Rightarrow> string" where
  "format_transcript messages =
     (let messages = (if length messages > staff_transcript_lines
         then drop (length messages - staff_transcript_lines) messages else messages) in
      concat (map (\<lambda>m. let txt = trim_space (ms_text m) in
        if txt = [] then [] else ''  '' @ text_line (transcript_who m @ '': '') txt) messages))"

definition handoff_title :: "string \<Rightarrow> string" where
  "handoff_title reason =
     (if reason = ReasonStaffReplied then staff_replied_title
      else if reason = ReasonChannelUnavailable then channel_unavailable_title
      else if urgent reason then unresolved_title else waiting_title)"

definition format_draft :: "'e staff_env_scheme \<Rightarrow> draft \<Rightarrow> string" where
  "format_draft env d =
     newline @ text_line ''Appointment in question: '' (join_with '', '' (dr_service_names d) @ '' with '' @ dr_staff_name d @
       '', '' @ tb_date env (dr_starts_at d)) @
     (if dr_phone d \<noteq> [] then text_line ''Booked under: '' (dr_customer_name d @ '', '' @ dr_phone d) else [])"

definition handoff_body :: "'e staff_env_scheme \<Rightarrow> handoff_notice \<Rightarrow> string" where
  "handoff_body env n =
     (let name = trim_space (cu_name (hn_customer n)); phone = trim_space (cu_phone (hn_customer n));
          detail = trim_space (tb_detail env (hn_detail n)); transcript = format_transcript (hn_recent n) in
      handoff_title (hn_reason n) @
      (if name \<noteq> [] then text_line ''Customer: '' name
       else if hn_handle n \<noteq> [] then text_line ''Customer: '' (hn_handle n) else []) @
      (if phone \<noteq> [] then text_line ''Phone: '' phone else []) @
      write_channel n @
      (if detail \<noteq> [] then newline @ text_line ''Why: '' detail else []) @
      (case hn_draft n of None \<Rightarrow> [] | Some d \<Rightarrow> format_draft env d) @
      (if transcript \<noteq> [] then newline @ text_line ''Last messages:'' [] @ transcript else []))"

definition truncation_mark :: string where "truncation_mark = newline @ ''[truncated]'' @ newline"

definition format_handoff :: "'e staff_env_scheme \<Rightarrow> handoff_notice \<Rightarrow> string" where
  "format_handoff env n =
     (let txt = handoff_body env n; pieces = split_inbox_text txt staff_message_limit;
          txt = (if length pieces > 1 then hd pieces @ truncation_mark else txt) in
      txt @ (if hn_provider n = ProviderTelegram then telegram_footer else native_footer))"

section \<open>Posting notices\<close>

definition data_button :: "string \<Rightarrow> string \<Rightarrow> tg_button" where
  "data_button label data = \<lparr>bt_text = label, bt_url = [], bt_data = data\<rparr>"

definition handoff_buttons :: "string \<Rightarrow> tg_keyboard option" where
  "handoff_buttons conversation_id =
     (if conversation_id = [] then None
      else Some [[data_button done_label (staff_action_data ''resume'' conversation_id)]])"

definition open_button :: "string \<Rightarrow> tg_keyboard" where
  "open_button conversation_id = [[data_button open_conversation_label (inbox_data ''open'' conversation_id)]]"

definition link_notice :: "'e staff_env_scheme \<Rightarrow> handoff_notice \<Rightarrow> string \<Rightarrow> (telegram_world, unit) proc" where
  "link_notice env n message_id =
     (if hn_provider n = ProviderTelegram \<and> tb_linked_threads env \<and> message_id \<noteq> []
      then inside (store env (link_staff_thread message_id (hn_conversation n))) else ret ())"

definition post_notice ::
  "'e staff_env_scheme \<Rightarrow> handoff_notice \<Rightarrow> tg_keyboard option \<Rightarrow> (telegram_world, telegram_error + string) proc" where
  "post_notice env n markup t =
     observe (post_with_markup env (tw_staff_chat t) (format_handoff env n) markup) (\<lambda>r. case r of
       Inl e \<Rightarrow> fail e
     | Inr (Inl e) \<Rightarrow>
       if migrated_chat_id e = [] then ret (Inl e)
       else (\<lambda>t. post_with_markup env (migrated_chat_id e) (format_handoff env n) markup
                   (t\<lparr>tw_staff_chat := migrated_chat_id e\<rparr>))
     | Inr (Inr i) \<Rightarrow> ret (Inr i)) t"

text \<open>
  A Telegram notice about no conversation would append to a keyboard that is nil: a panic, an error
  here. Notices always name their conversation.
\<close>

definition notice_keyboard :: "handoff_notice \<Rightarrow> tg_keyboard option result" where
  "notice_keyboard n = (case handoff_buttons (hn_conversation n) of
       None \<Rightarrow> if hn_provider n = ProviderTelegram then Inl (errors_new ''nil pointer dereference'') else Inr None
     | Some rws \<Rightarrow> Inr (Some (if hn_provider n = ProviderTelegram then open_button (hn_conversation n) @ rws else rws)))"

definition telegram_notify_handoff :: "'e staff_env_scheme \<Rightarrow> handoff_notice \<Rightarrow> (telegram_world, unit) proc" where
  "telegram_notify_handoff env n =
     attempt (given (notice_keyboard n)) id (\<lambda>markup.
     attempt (post_notice env n markup) id (\<lambda>r. case r of
       Inl e \<Rightarrow> fail (error_of env e)
     | Inr message_id \<Rightarrow> link_notice env n message_id))"

text \<open>One message after the other; the last carries the keyboard, each is tied to the conversation.\<close>

fun post_chunks ::
  "'e staff_env_scheme \<Rightarrow> handoff_notice \<Rightarrow> string list \<Rightarrow> (telegram_world, unit) proc" where
  "post_chunks env n [] = ret ()"
| "post_chunks env n (piece # pieces) = (\<lambda>t.
     attempt (send_with_markup env (tw_staff_chat t) piece
       (if pieces = [] \<and> hn_provider n = ProviderTelegram then Some (open_button (hn_conversation n)) else None)) id
     (\<lambda>message_id. attempt (link_notice env n message_id) id (\<lambda>_. post_chunks env n pieces)) t)"

definition inbound_text :: "handoff_notice \<Rightarrow> string \<Rightarrow> string" where
  "inbound_text n txt =
     (let name = trim_space (cu_name (hn_customer n)); name = (if name = [] then hn_user_id n else name);
          txt = (if trim_space txt = [] then attachment_notice else txt);
          header = new_message_title @ name @ newline;
          header = (if hn_provider n = ProviderTelegram then header
            else header @ write_channel n @
              (if cu_phone (hn_customer n) \<noteq> [] then newline @ ''Phone: '' @ cu_phone (hn_customer n) else []))
      in header @ newline @ txt)"

definition telegram_notify_inbound :: "'e staff_env_scheme \<Rightarrow> handoff_notice \<Rightarrow> string \<Rightarrow> (telegram_world, unit) proc" where
  "telegram_notify_inbound env n txt = post_chunks env n (split_inbox_text (inbound_text n txt) 3500)"

section \<open>The private inbox\<close>

text \<open>\<open>chat\<close> is the staff chat the inbox was configured for.\<close>

definition short_inbox_name :: "customer \<Rightarrow> conversation \<Rightarrow> string" where
  "short_inbox_name cust conv =
     (let name = join_with '' '' (string_fields (cu_name cust));
          name = (if name = [] then customer_label @ cv_thread_id conv else name);
          rs = runes name in
      if length rs > 32 then utf8 (take 32 rs) @ utf8 [0x2026] else name)"

definition list_row :: "'e staff_env_scheme \<Rightarrow> customer \<Rightarrow> conversation \<Rightarrow> tg_button list" where
  "list_row env cust conv =
     (let label = short_inbox_name cust conv @ middle_dot @ tb_minute env (cv_last_message_at conv);
          label = (case cv_state conv of
            StateHumanRequested \<Rightarrow> waits_label @ label | StateHumanActive \<Rightarrow> team_label @ label | _ \<Rightarrow> label)
      in [data_button label (inbox_data ''open'' (cv_id conv))])"

fun list_rows :: "'e staff_env_scheme \<Rightarrow> conversation list \<Rightarrow> tg_keyboard \<Rightarrow> (telegram_world, tg_keyboard) proc" where
  "list_rows env [] rws = ret rws"
| "list_rows env (conv # convs) rws =
     attempt (inside (store env (inbox_customer (cv_customer_id conv)))) id (\<lambda>cust.
       list_rows env convs (rws @ [list_row env cust conv]))"

definition page_retention :: duration where "page_retention = 30 * 24 * hour"

definition new_page :: "'e staff_env_scheme \<Rightarrow> (string \<Rightarrow> time \<Rightarrow> inbox_page) \<Rightarrow> (telegram_world, inbox_page) proc" where
  "new_page env build =
     attempt (inside (fresh env)) id (\<lambda>i.
     attempt (inside (clock env)) id (\<lambda>now.
     attempt (inside (clock env)) id (\<lambda>later.
     let page = build i (now + page_retention) in
     attempt (inside (store env (save_inbox_page later page))) id (\<lambda>_. ret page))))"

definition inbox_list :: "'e staff_env_scheme \<Rightarrow> string \<Rightarrow> cursor option \<Rightarrow> (telegram_world, unit) proc" where
  "inbox_list env chat boundary =
     attempt (inside (store env (telegram_conversations boundary conversation_limit))) id (\<lambda>(items, nxt).
     attempt (new_page env (\<lambda>i expires. \<lparr>ip_id = i, ip_chat_id = chat, ip_conversation_id = [], ip_next = nxt,
         ip_history_before = [], ip_history_start = [], ip_previous = [], ip_expires_at = expires\<rparr>)) id (\<lambda>page.
     attempt (list_rows env items []) id (\<lambda>rws.
     let txt = list_title @ (if length items = 0 then empty_list else []);
         navigation = [data_button refresh_label (inbox_data ''list'' [])] @
           (if nxt \<noteq> None then [data_button next_page_label (inbox_data ''next'' (ip_id page))] else []) in
     attempt (send_with_markup env chat txt (Some (rws @ [navigation]))) id (\<lambda>_. ret ()))))"

definition state_text :: "conv_state \<Rightarrow> string" where
  "state_text st = (case st of
     StateHumanRequested \<Rightarrow> waits_for_team | StateHumanActive \<Rightarrow> team_answers | StateClosed \<Rightarrow> conversation_closed
   | _ \<Rightarrow> assistant_answers)"

definition history_line :: "'e staff_env_scheme \<Rightarrow> stored_message \<Rightarrow> string" where
  "history_line env m =
     (let who = (if ms_direction m = DirectionOutbound then our_side_who else customer_who);
          body = (if trim_space (ms_text m) = [] then ''['' @ ms_content_type m @ '']'' else ms_text m) in
      who @ middle_dot @ tb_full_minute env (ms_created_at m) @ newline @ body @ newline @ newline)"

definition history_text :: "'e staff_env_scheme \<Rightarrow> customer \<Rightarrow> conversation \<Rightarrow> stored_message list \<Rightarrow> string" where
  "history_text env cust conv messages =
     short_inbox_name cust conv @ newline @
     (if cu_phone cust \<noteq> [] then phone_label @ cu_phone cust @ newline else []) @
     state_text (cv_state conv) @ newline @ newline @ concat (map (history_line env) messages) @ history_footer"

definition history_keyboard :: "string \<Rightarrow> inbox_page \<Rightarrow> tg_keyboard" where
  "history_keyboard conversation_id page =
     (let navigation =
        (if ip_history_before page \<noteq> [] then [data_button older_label (inbox_data ''older'' (ip_id page))] else []) @
        (if ip_previous page \<noteq> [] then [data_button back_label (inbox_data ''back'' (ip_id page))] else []) in
      (if length navigation > 0 then [navigation] else []) @
      [[data_button latest_label (inbox_data ''open'' conversation_id), data_button list_label (inbox_data ''list'' [])],
       [data_button take_label (inbox_data ''take'' conversation_id), data_button resume_label (inbox_data ''resume'' conversation_id)]])"

fun post_history ::
  "'e staff_env_scheme \<Rightarrow> string \<Rightarrow> string \<Rightarrow> tg_keyboard \<Rightarrow> string list \<Rightarrow> (telegram_world, unit) proc" where
  "post_history env chat conversation_id markup [] = ret ()"
| "post_history env chat conversation_id markup (piece # pieces) =
     attempt (send_with_markup env chat piece (if pieces = [] then Some markup else None)) id (\<lambda>message_id.
       if message_id = [] then fail (errors_new ''inbox: Telegram returned no message id'')
       else attempt (inside (store env (link_staff_thread message_id conversation_id))) id (\<lambda>_.
         post_history env chat conversation_id markup pieces))"

definition inbox_history_page ::
  "'e staff_env_scheme \<Rightarrow> string \<Rightarrow> string \<Rightarrow> string \<Rightarrow> string \<Rightarrow> (telegram_world, unit) proc" where
  "inbox_history_page env chat conversation_id boundary previous =
     attempt (inside (store env (find_by_id conversation_id))) id (\<lambda>conv.
     if cv_provider conv \<noteq> ProviderTelegram then fail (errors_new ''inbox: not a Telegram conversation'')
     else attempt (inside (store env (inbox_customer (cv_customer_id conv)))) id (\<lambda>cust.
     attempt (inside (store env (inbox_history conversation_id boundary history_limit))) id (\<lambda>(messages, older).
     attempt (new_page env (\<lambda>i expires. \<lparr>ip_id = i, ip_chat_id = chat, ip_conversation_id = conversation_id, ip_next = None,
         ip_history_before = older, ip_history_start = boundary, ip_previous = previous, ip_expires_at = expires\<rparr>)) id (\<lambda>page.
       post_history env chat conversation_id (history_keyboard conversation_id page)
         (split_inbox_text (history_text env cust conv messages) 3500)))))"

end
