(* ===== verification/TelegramHandler.thy ===== *)
theory TelegramHandler
  imports TelegramStaff Notifications
begin

text \<open>
  The Telegram webhook (\<open>messaging/telegram/handler.go\<close>, \<open>feedback.go\<close>, \<open>notifications.go\<close> and the
  inbox buttons of \<open>inbox.go\<close>): what one delivery does and the status it is answered with. Decoding
  the body and lower-casing are parameters of the environment. The typing indicator, a cosmetic call
  of a goroutine that cannot fail anything, and the log are left out; time limits of cosmetic calls
  are part of the environment's answers.
\<close>

record native_notifications =
  nn_service :: notify_env
  nn_identity :: "cabinet_env option"
  nn_assistant :: bool
  nn_staff_chat :: string
  nn_copy :: "string \<Rightarrow> string \<Rightarrow> string"
  nn_linked_copy :: "string \<Rightarrow> string"

record tg_handler =
  hd_secret :: string
  hd_staff_chat :: string
  hd_desk :: bool
  hd_threads :: bool
  hd_replies :: "string option"
  hd_acks :: bool
  hd_selection :: bool
  hd_inbox :: "string option"
  hd_notifications :: "native_notifications option"

record hook_env = staff_env +
  tb_decode :: "string \<Rightarrow> tg_update option"
  tb_lower :: "string \<Rightarrow> string"

section \<open>Feedback\<close>

definition tell_staff :: "'e telegram_env_scheme \<Rightarrow> tg_handler \<Rightarrow> string \<Rightarrow> (telegram_world, unit) proc" where
  "tell_staff env h txt = (case hd_replies h of
       None \<Rightarrow> ret ()
     | Some chat \<Rightarrow> observe (telegram_send env (plain_message ProviderTelegram chat txt)) (\<lambda>_. ret ()))"

definition acknowledge :: "'e telegram_env_scheme \<Rightarrow> tg_handler \<Rightarrow> string \<Rightarrow> string \<Rightarrow> (telegram_world, unit) proc" where
  "acknowledge env h query_id txt =
     (if \<not> hd_acks h \<or> query_id = [] then ret () else observe (answer_callback env query_id txt) (\<lambda>_. ret ()))"

definition clear_answered :: "'e telegram_env_scheme \<Rightarrow> tg_handler \<Rightarrow> string \<Rightarrow> int \<Rightarrow> (telegram_world, unit) proc" where
  "clear_answered env h chat message_id =
     (if \<not> hd_acks h \<or> chat = [] \<or> message_id = 0 then ret ()
      else observe (clear_keyboard env chat message_id) (\<lambda>_. ret ()))"

definition press_label :: "press \<Rightarrow> string" where
  "press_label p = (case ps_envelope p of None \<Rightarrow> [] | Some e \<Rightarrow> co_text (en_content e))"

definition show_selection :: "'e telegram_env_scheme \<Rightarrow> tg_handler \<Rightarrow> press \<Rightarrow> (telegram_world, unit) proc" where
  "show_selection env h p =
     (let txt = selected_question (ps_message_text p) (press_label p);
          clear = clear_answered env h (ps_chat_id p) (ps_message_id p) in
      if hd_acks h \<and> hd_selection h \<and> txt \<noteq> []
      then observe (show_selected_text env (ps_chat_id p) (ps_message_id p) txt) (\<lambda>r. case r of
          Inr _ \<Rightarrow> ret () | Inl _ \<Rightarrow> clear)
      else clear)"

section \<open>Buttons of the private inbox\<close>

definition command_of :: "string \<Rightarrow> staff_command" where
  "command_of c = (if c = ''resume'' then CommandResume else if c = ''take'' then CommandTake else OtherCommand c)"

definition inbox_command ::
  "'e hook_env_scheme \<Rightarrow> tg_handler \<Rightarrow> string \<Rightarrow> string \<Rightarrow> string \<Rightarrow> (telegram_world, unit) proc" where
  "inbox_command env h chat action reference =
     attempt (inside (store env (find_by_id reference))) (\<lambda>_. errors_new ''inbox: unavailable Telegram conversation'') (\<lambda>conv.
       if cv_provider conv \<noteq> ProviderTelegram then fail (errors_new ''inbox: unavailable Telegram conversation'')
       else if \<not> hd_desk h then fail (errors_new ''inbox: no staff desk'')
       else attempt (inside (run_staff_command env (command_of action) reference)) id (\<lambda>_.
         inbox_history_page env chat reference [] []))"

definition stored_page :: "'e hook_env_scheme \<Rightarrow> string \<Rightarrow> (telegram_world, inbox_page) proc" where
  "stored_page env reference =
     attempt (inside (clock env)) id (\<lambda>now. inside (store env (find_inbox_page now reference)))"

definition inbox_turn ::
  "'e hook_env_scheme \<Rightarrow> tg_handler \<Rightarrow> string \<Rightarrow> string \<Rightarrow> string \<Rightarrow> (telegram_world, unit) proc" where
  "inbox_turn env h chat action reference =
     attempt (stored_page env reference) id (\<lambda>page.
       if ip_chat_id page \<noteq> hd_staff_chat h then fail (errors_new ''inbox: page belongs to another chat'')
       else if action = ''next'' \<and> ip_next page \<noteq> None then inbox_list env chat (ip_next page)
       else if action = ''older'' \<and> ip_history_before page \<noteq> []
       then inbox_history_page env chat (ip_conversation_id page) (ip_history_before page) (ip_id page)
       else if action = ''back'' \<and> ip_previous page \<noteq> []
       then attempt (stored_page env (ip_previous page)) (\<lambda>_. errors_new ''inbox: previous page unavailable'') (\<lambda>previous.
         if ip_chat_id previous \<noteq> hd_staff_chat h \<or> ip_conversation_id previous \<noteq> ip_conversation_id page
         then fail (errors_new ''inbox: previous page unavailable'')
         else inbox_history_page env chat (ip_conversation_id previous) (ip_history_start previous) (ip_previous previous))
       else ret ())"

definition inbox_action ::
  "'e hook_env_scheme \<Rightarrow> tg_handler \<Rightarrow> string \<Rightarrow> string \<Rightarrow> string \<Rightarrow> (telegram_world, unit) proc" where
  "inbox_action env h chat action reference =
     (if action = ''list'' then inbox_list env chat None
      else if action = ''open'' then inbox_history_page env chat reference [] []
      else if action = ''take'' \<or> action = ''resume'' then inbox_command env h chat action reference
      else if action = ''next'' \<or> action = ''older'' \<or> action = ''back'' then inbox_turn env h chat action reference
      else ret ())"

text \<open>The action and reference a press of the inbox names, when it is well formed.\<close>

definition inbox_target :: "string \<Rightarrow> (string \<times> string) option" where
  "inbox_target data =
     (let fields = split_on (CHR '':'') data in
      if length fields \<noteq> 3 \<or> length (fields ! 2) > 36 \<or> CHR ''/'' \<in> set (fields ! 2) \<or> CHR 0x5C \<in> set (fields ! 2)
      then None else Some (fields ! 1, fields ! 2))"

text \<open>Whether the press was one of the inbox.\<close>

definition handle_inbox_press :: "'e hook_env_scheme \<Rightarrow> tg_handler \<Rightarrow> press \<Rightarrow> (telegram_world, bool) proc" where
  "handle_inbox_press env h p =
     (if \<not> has_prefix (ps_data p) ''inbox:'' then ret False
      else attempt (acknowledge env h (ps_query_id p) []) id (\<lambda>_. case hd_inbox h of
          None \<Rightarrow> ret True
        | Some chat \<Rightarrow>
          if hd_staff_chat h = [] \<or> ps_chat_id p \<noteq> hd_staff_chat h then ret True
          else (case inbox_target (ps_data p) of
            None \<Rightarrow> ret True
          | Some (action, reference) \<Rightarrow> observe (inbox_action env h chat action reference) (\<lambda>r. case r of
              Inl _ \<Rightarrow> attempt (tell_staff env h page_failed) id (\<lambda>_. ret True)
            | Inr _ \<Rightarrow> ret True))))"

section \<open>Presses\<close>

text \<open>Whether the keyboard of the notice is to be taken away.\<close>

definition handle_staff_action :: "'e hook_env_scheme \<Rightarrow> tg_handler \<Rightarrow> press \<Rightarrow> staff_action \<Rightarrow> (telegram_world, bool) proc" where
  "handle_staff_action env h p action =
     (if \<not> hd_desk h then ret False
      else if hd_staff_chat h = [] \<or> ps_chat_id p \<noteq> hd_staff_chat h then ret False
      else if command_of (sa_command action) \<noteq> CommandResume then ret True
      else observe (inside (run_staff_command env (command_of (sa_command action)) (sa_conversation action))) (\<lambda>r. case r of
        Inl e \<Rightarrow> attempt (tell_staff env h (''That did not work: '' @ message e)) id (\<lambda>_. ret False)
      | Inr answer \<Rightarrow> attempt (tell_staff env h answer) id (\<lambda>_. ret True)))"

text \<open>Whether the delivery may be answered 200.\<close>

definition handle_customer_press :: "'e hook_env_scheme \<Rightarrow> tg_handler \<Rightarrow> press \<Rightarrow> (telegram_world, bool) proc" where
  "handle_customer_press env h p = (case ps_envelope p of
       None \<Rightarrow> attempt (acknowledge env h (ps_query_id p)
           ''That menu is no longer available. Please type your answer instead.'') id (\<lambda>_. ret True)
     | Some e \<Rightarrow>
       attempt (acknowledge env h (ps_query_id p) []) id (\<lambda>_.
       attempt (show_selection env h p) id (\<lambda>_.
       observe (inside (handle env e)) (\<lambda>r. ret (case r of Inl _ \<Rightarrow> False | Inr _ \<Rightarrow> True)))))"

definition handle_press :: "'e hook_env_scheme \<Rightarrow> tg_handler \<Rightarrow> press \<Rightarrow> (telegram_world, bool) proc" where
  "handle_press env h p =
     attempt (handle_inbox_press env h p) id (\<lambda>of_inbox.
       if of_inbox then ret True
       else case parse_staff_action (ps_data p) of
         Some action \<Rightarrow>
           attempt (acknowledge env h (ps_query_id p) []) id (\<lambda>_.
           attempt (handle_staff_action env h p action) id (\<lambda>done_with.
             if done_with then attempt (clear_answered env h (ps_chat_id p) (ps_message_id p)) id (\<lambda>_. ret True) else ret True))
       | None \<Rightarrow>
         if hd_staff_chat h \<noteq> [] \<and> ps_chat_id p = hd_staff_chat h
         then attempt (acknowledge env h (ps_query_id p) []) id (\<lambda>_. ret True)
         else handle_customer_press env h p)"

section \<open>Messages of the staff chat\<close>

definition relay_text :: "'e hook_env_scheme \<Rightarrow> staff_message \<Rightarrow> string \<Rightarrow> string \<Rightarrow> (telegram_world, unit) proc" where
  "relay_text env sm conversation_id txt = inside (relay_staff_reply env
     \<lparr>sr_conversation = conversation_id, sr_author = sm_author sm, sr_text = txt, sr_event = sm_event sm\<rparr>)"

definition run_typed_command ::
  "'e hook_env_scheme \<Rightarrow> tg_handler \<Rightarrow> staff_message \<Rightarrow> string \<Rightarrow> (telegram_world, unit) proc" where
  "run_typed_command env h sm conversation_id = (case command_of (sm_command sm) of
       OtherCommand c \<Rightarrow> tell_staff env h (describe_unknown_command c)
     | c \<Rightarrow> observe (inside (run_staff_command env c conversation_id)) (\<lambda>r. case r of
         Inl e \<Rightarrow> tell_staff env h (''That did not work: '' @ message e)
       | Inr answer \<Rightarrow> attempt (tell_staff env h answer) id (\<lambda>_.
           let txt = staff_reply_text sm in
           if txt \<noteq> [] then observe (relay_text env sm conversation_id txt) (\<lambda>_. ret ()) else ret ())))"

text \<open>With an inbox only conversations of Telegram are answered in the staff chat.\<close>

definition answerable :: "'e hook_env_scheme \<Rightarrow> tg_handler \<Rightarrow> string \<Rightarrow> (telegram_world, bool) proc" where
  "answerable env h conversation_id =
     (if hd_inbox h = None then ret True
      else observe (inside (store env (find_by_id conversation_id))) (\<lambda>r. ret (case r of
        Inl _ \<Rightarrow> False | Inr conv \<Rightarrow> cv_provider conv = ProviderTelegram)))"

definition answer_customer ::
  "'e hook_env_scheme \<Rightarrow> tg_handler \<Rightarrow> staff_message \<Rightarrow> string \<Rightarrow> (telegram_world, unit) proc" where
  "answer_customer env h sm conversation_id =
     attempt (answerable env h conversation_id) id (\<lambda>possible.
       if \<not> possible then tell_staff env h answer_elsewhere
       else if is_command sm then run_typed_command env h sm conversation_id
       else observe (relay_text env sm conversation_id (sm_text sm)) (\<lambda>r. case r of
         Inl _ \<Rightarrow> tell_staff env h relay_unconfirmed | Inr _ \<Rightarrow> tell_staff env h relay_done))"

definition handle_staff_message :: "'e hook_env_scheme \<Rightarrow> tg_handler \<Rightarrow> tg_update option \<Rightarrow> (telegram_world, unit) proc" where
  "handle_staff_message env h body =
     (if \<not> hd_desk h \<or> \<not> hd_threads h then ret ()
      else case parse_staff_message (tb_lower env) body of
        None \<Rightarrow> ret ()
      | Some sm \<Rightarrow> (case (hd_inbox h, sm_command sm = ''inbox'') of
          (Some chat, True) \<Rightarrow> observe (inbox_list env chat None) (\<lambda>r. case r of
              Inl _ \<Rightarrow> tell_staff env h list_failed | Inr _ \<Rightarrow> ret ())
        | _ \<Rightarrow>
          if sm_reply_to sm = [] then (if is_command sm then tell_staff env h use_reply else ret ())
          else observe (inside (store env (conversation_for_staff_thread (sm_reply_to sm)))) (\<lambda>r. case r of
            Inl _ \<Rightarrow> tell_staff env h ''Sorry, I could not work out which customer that reply was for.''
          | Inr conversation_id \<Rightarrow> if conversation_id = [] then ret () else answer_customer env h sm conversation_id)))"

section \<open>Commands and contacts for booking notices\<close>

text \<open>Whether the delivery was handled, and the error that ends it.\<close>

type_synonym handled = "bool \<times> go_error option"

definition handled_by :: "(telegram_world, unit) proc \<Rightarrow> (telegram_world, handled) proc" where
  "handled_by m = observe m (\<lambda>r. ret (True, case r of Inl e \<Rightarrow> Some e | Inr _ \<Rightarrow> None))"

definition say :: "'e telegram_env_scheme \<Rightarrow> string \<Rightarrow> string \<Rightarrow> (telegram_world, unit) proc" where
  "say env chat txt = attempt (send_with_markup env chat txt None) id (\<lambda>_. ret ())"

text \<open>\<open>if err := m(); err != nil { say a } else { say b }\<close>\<close>

definition say_outcome ::
  "'e telegram_env_scheme \<Rightarrow> string \<Rightarrow> (world, unit) proc \<Rightarrow> string \<Rightarrow> string \<Rightarrow> (telegram_world, unit) proc" where
  "say_outcome env chat m refused accepted =
     observe (inside m) (\<lambda>r. case r of Inl _ \<Rightarrow> say env chat refused | Inr _ \<Rightarrow> say env chat accepted)"

definition sms_state :: "native_notifications \<Rightarrow> string" where
  "sms_state n = (if nv_sms_ready (nn_service n) then sms_last else sms_off)"

definition status_text :: "native_notifications \<Rightarrow> entry \<Rightarrow> entry list \<Rightarrow> string" where
  "status_text n row pending =
     status_order @ (if ne_order row = ''whatsapp'' then whatsapp_first else telegram_first) @ status_full_stop @
     sms_state n @ status_waiting @ decimal (int (length pending)) @ status_account @
     (if nv_telegram_account (nn_service n) then account_on else account_off) @ status_usage"

definition set_order_row :: "string \<Rightarrow> entry \<Rightarrow> (unit \<times> entry) result" where
  "set_order_row order row = Inr ((), row\<lparr>ne_kind := ''policy'', ne_order := order\<rparr>)"

definition staff_notification ::
  "'e telegram_env_scheme \<Rightarrow> native_notifications \<Rightarrow> string \<Rightarrow> string list \<Rightarrow> (telegram_world, handled) proc" where
  "staff_notification env n chat command =
     (let sv = nn_service n in case command of
        [] \<Rightarrow> ret (False, None)
      | c # params \<Rightarrow>
        if c = ''/notification_status''
        then handled_by (
          attempt (inside (get_entry sv ''policy'')) id (\<lambda>row.
          attempt (inside (store sv pending_notifications)) id (\<lambda>pending.
            say env chat (status_text n row pending))))
        else if c = ''/notification_allow''
        then handled_by (case params of
            [phone, lang] \<Rightarrow> say_outcome env chat (allow_phone sv phone lang) check_phone_language (request_recorded @ sms_state n)
          | _ \<Rightarrow> say env chat allow_usage)
        else if c = ''/notification_block''
        then handled_by (case params of
            [phone] \<Rightarrow> say_outcome env chat (block_phone sv phone) check_phone phone_blocked
          | _ \<Rightarrow> say env chat block_usage)
        else if c = ''/notification_order''
        then handled_by (case params of
            [order] \<Rightarrow>
              if order = ''telegram'' \<or> order = ''whatsapp''
              then attempt (inside (transact_row sv ''policy'' (set_order_row order))) id (\<lambda>_. say env chat (order_saved @ sms_state n))
              else say env chat order_usage
          | _ \<Rightarrow> say env chat order_usage)
        else ret (False, None))"

definition base_language :: "(string \<Rightarrow> string) \<Rightarrow> string \<Rightarrow> string" where
  "base_language lower lang = takeWhile (\<lambda>c. c \<noteq> CHR ''-'') (lower lang)"

definition notification_copy :: "(string \<Rightarrow> string) \<Rightarrow> native_notifications \<Rightarrow> string \<Rightarrow> string \<Rightarrow> string" where
  "notification_copy lower n lang kind =
     (let lang = base_language lower lang in
      nn_copy n (if lang = ''en'' \<or> lang = ''ru'' \<or> lang = ''hy'' then lang else ''en'') kind)"

definition cabinet_linked_copy :: "(string \<Rightarrow> string) \<Rightarrow> native_notifications \<Rightarrow> string \<Rightarrow> string" where
  "cabinet_linked_copy lower n lang =
     (let lang = base_language lower lang in nn_linked_copy n (if lang = ''hy'' \<or> lang = ''ru'' then lang else ''en''))"

definition appointments_request :: "string \<Rightarrow> int \<Rightarrow> string \<Rightarrow> envelope" where
  "appointments_request chat message_id lang =
     \<lparr>en_provider = ProviderTelegram, en_message_id = decimal message_id, en_choice_message_id = [], en_user_id = chat,
      en_thread_id = chat, en_sent_at = zero_time, en_received_at = zero_time,
      en_sender = \<lparr>sn_display_name = [], sn_language = lang, sn_username = []\<rparr>, en_content = text_content ''/appointments''\<rparr>"

text \<open>Linking the contact for notices, when the cabinet did not ask for it.\<close>

definition link_contact ::
  "'e hook_env_scheme \<Rightarrow> native_notifications \<Rightarrow> string \<Rightarrow> string \<Rightarrow> tg_contact \<Rightarrow> (telegram_world, handled) proc" where
  "link_contact env n chat lang c =
     observe (inside (link_telegram (nn_service n) chat (tn_phone_number c))) (\<lambda>r.
       handled_by (contact_message env chat
         (notification_copy (tb_lower env) n lang (case r of Inl _ \<Rightarrow> ''retry'' | Inr _ \<Rightarrow> ''linked'')) True))"

definition share_contact ::
  "'e hook_env_scheme \<Rightarrow> native_notifications \<Rightarrow> string \<Rightarrow> string \<Rightarrow> tg_message \<Rightarrow> int \<Rightarrow> tg_contact \<Rightarrow>
   (telegram_world, handled) proc" where
  "share_contact env n chat lang m user_id c =
     (if tn_user_id c \<noteq> user_id
      then handled_by (contact_message env chat (notification_copy (tb_lower env) n lang ''own'') True)
      else case nn_identity n of
        None \<Rightarrow> link_contact env n chat lang c
      | Some cab \<Rightarrow> observe (inside (accept_telegram_contact cab chat (tn_phone_number c) (decimal (tm_id m)))) (\<lambda>r. case r of
          Inl e \<Rightarrow> if errors_is e VerificationExpired then link_contact env n chat lang c else ret (True, Some e)
        | Inr first_time \<Rightarrow> handled_by (
            attempt (if first_time then contact_message env chat (cabinet_linked_copy (tb_lower env) n lang) True else ret ()) id (\<lambda>_.
              if nn_assistant n then inside (handle env (appointments_request chat (tm_id m) lang)) else ret ()))))"

definition customer_notification ::
  "'e hook_env_scheme \<Rightarrow> native_notifications \<Rightarrow> string \<Rightarrow> string list \<Rightarrow> tg_message \<Rightarrow> tg_user \<Rightarrow> (telegram_world, handled) proc" where
  "customer_notification env n chat command m u =
     (let lang = us_language_code u; word = (case command of [] \<Rightarrow> [] | c # _ \<Rightarrow> c);
          on = (word = ''/notifications'' \<or> word = ''/start'' \<and> length command > 1 \<and> command ! 1 = ''notifications'');
          off = (word = ''/notifications_off'') in
      if off then handled_by (attempt (inside (unlink_telegram (nn_service n) chat)) id (\<lambda>_.
          contact_message env chat (notification_copy (tb_lower env) n lang ''off'') True))
      else if on then handled_by (attempt (inside (request_contact (nn_service n) chat lang)) id (\<lambda>_.
          contact_message env chat (notification_copy (tb_lower env) n lang ''request'') False))
      else case tm_contact m of
        Some c \<Rightarrow> share_contact env n chat lang m (us_id u) c
      | None \<Rightarrow> ret (False, None))"

definition command_words :: "string \<Rightarrow> string list" where
  "command_words txt = (case string_fields txt of
     [] \<Rightarrow> [] | w # ws \<Rightarrow> takeWhile (\<lambda>c. c \<noteq> CHR ''@'') w # ws)"

definition handle_telegram ::
  "'e hook_env_scheme \<Rightarrow> native_notifications \<Rightarrow> tg_update option \<Rightarrow> (telegram_world, handled) proc" where
  "handle_telegram env n body = (case Option.bind body up_message of
       None \<Rightarrow> ret (False, None)
     | Some m \<Rightarrow> (case (tm_chat m, tm_from m) of
         (Some ch, Some u) \<Rightarrow>
           let chat = decimal (tc_id ch); command = command_words (tm_text m) in
           if chat = nn_staff_chat n \<and> command \<noteq> [] then staff_notification env n chat command
           else if tc_type ch \<noteq> ''private'' \<or> tc_id ch \<noteq> us_id u then ret (False, None)
           else customer_notification env n chat command m u
       | _ \<Rightarrow> ret (False, None)))"

section \<open>The endpoint\<close>

definition status_ok :: int where "status_ok = 200"
definition status_bad_request :: int where "status_bad_request = 400"
definition status_unauthorized :: int where "status_unauthorized = 401"
definition status_failed :: int where "status_failed = 500"

fun serve_envelopes ::
  "'e hook_env_scheme \<Rightarrow> tg_handler \<Rightarrow> tg_update option \<Rightarrow> envelope list \<Rightarrow> (telegram_world, int) proc" where
  "serve_envelopes env h body [] = ret status_ok"
| "serve_envelopes env h body (e # es) =
     (if hd_staff_chat h \<noteq> [] \<and> en_thread_id e = hd_staff_chat h
      then attempt (handle_staff_message env h body) id (\<lambda>_. serve_envelopes env h body es)
      else observe (inside (handle env e)) (\<lambda>r. case r of
        Inl _ \<Rightarrow> ret status_failed | Inr _ \<Rightarrow> serve_envelopes env h body es))"

definition serve_message :: "'e hook_env_scheme \<Rightarrow> tg_handler \<Rightarrow> tg_update option \<Rightarrow> (telegram_world, int) proc" where
  "serve_message env h body =
     attempt (inside (clock env)) id (\<lambda>now. case parse_update now body of
       Inl _ \<Rightarrow> ret status_ok | Inr es \<Rightarrow> serve_envelopes env h body es)"

definition serve_update :: "'e hook_env_scheme \<Rightarrow> tg_handler \<Rightarrow> tg_update option \<Rightarrow> (telegram_world, int) proc" where
  "serve_update env h body =
     attempt (inside (clock env)) id (\<lambda>now. case parse_callback now body of
       Inl _ \<Rightarrow> ret status_ok
     | Inr (Some p) \<Rightarrow> attempt (handle_press env h p) id (\<lambda>ok. ret (if ok then status_ok else status_failed))
     | Inr None \<Rightarrow> serve_message env h body)"

text \<open>A body of \<open>None\<close> could not be read.\<close>

definition serve_telegram :: "'e hook_env_scheme \<Rightarrow> tg_handler \<Rightarrow> string \<Rightarrow> string option \<Rightarrow> (telegram_world, int) proc" where
  "serve_telegram env h received body =
     (if received \<noteq> hd_secret h then ret status_unauthorized
      else case body of
        None \<Rightarrow> ret status_bad_request
      | Some raw \<Rightarrow> let upd = tb_decode env raw in (case hd_notifications h of
          None \<Rightarrow> serve_update env h upd
        | Some n \<Rightarrow> attempt (handle_telegram env n upd) id (\<lambda>(done_with, failure).
            if failure \<noteq> None then ret status_failed
            else if done_with then ret status_ok
            else serve_update env h upd)))"

end
