(* ===== verification/TelegramLaws.thy ===== *)
theory TelegramLaws
  imports TelegramHandler RelayLaws StepLaws
begin

text \<open>
  Laws of the webhook. Two relations are steps of the adapter (\<open>StepLaws\<close>): a step that only answers presses, and a step that sends no customer anything. From
  the second follows that one delivery sends a customer at most one message.
\<close>

section \<open>Only answers to presses\<close>

definition answers_only :: "telegram_world \<Rightarrow> telegram_world \<Rightarrow> bool" where
  "answers_only t u \<longleftrightarrow> w_db (tw_world u) = w_db (tw_world t) \<and> w_log (tw_world u) = w_log (tw_world t) \<and>
     tw_staff_chat u = tw_staff_chat t \<and>
     (\<exists>new. tw_calls u = tw_calls t @ new \<and>
        list_all (\<lambda>(req, e). case req of PostAnswerCallback i txt \<Rightarrow> txt = [] | _ \<Rightarrow> False) new)"

interpretation answering: adapter_step answers_only
  by unfold_locales (auto simp: answers_only_def)

lemma answering_ack: "hops answers_only (acknowledge env h query_id [])"
  by (auto simp: acknowledge_def hops_def observe_apply answer_callback_def telegram_do_def attempt_apply telegram_call_def
      ret_def fail_def answers_only_def Let_def tick_def split: sum.split)

lemma answering_clock: "hops answers_only (inside (clock env))"
  by (simp add: hops_def inside_def clock_apply answers_only_def)

text \<open>A press of staff's buttons, or of the inbox, from any other chat.\<close>

definition staff_button :: "string \<Rightarrow> bool" where
  "staff_button data \<longleftrightarrow> has_prefix data ''inbox:'' \<or> parse_staff_action data \<noteq> None"

lemma outside_inbox_press:
  assumes "ps_chat_id p \<noteq> hd_staff_chat h"
  shows "hops answers_only (handle_inbox_press env h p)"
  using assms unfolding handle_inbox_press_def
  by (auto intro!: hop_intros answering_ack)

lemma acknowledge_done: "fst (acknowledge env h query_id tx t) = Inr ()"
  by (simp add: acknowledge_def observe_apply ret_def split: prod.split)

lemma clear_done: "fst (clear_answered env h chat i t) = Inr ()"
  by (simp add: clear_answered_def observe_apply ret_def split: prod.split)

lemma after_ack:
  "attempt (acknowledge env h query_id tx) f k t = k () (snd (acknowledge env h query_id tx t))"
  using acknowledge_done [of env h query_id tx t]
  by (cases "acknowledge env h query_id tx t") (simp add: attempt_apply)

lemma attempt_value: "m t = (Inr x, u) \<Longrightarrow> attempt m f k t = k x u"
  by (simp add: attempt_apply)

lemma inbox_press_handled:
  assumes "has_prefix (ps_data p) ''inbox:''" "ps_chat_id p \<noteq> hd_staff_chat h"
  shows "fst (handle_inbox_press env h p t) = Inr True"
  using assms by (simp add: handle_inbox_press_def after_ack ret_def split: option.split)

lemma outside_staff_press:
  assumes "staff_button (ps_data p)" "ps_chat_id p \<noteq> hd_staff_chat h"
  shows "answers_only t (snd (handle_press env h p t)) \<and> fst (handle_press env h p t) = Inr True"
proof (cases "has_prefix (ps_data p) ''inbox:''")
  case True
  with inbox_press_handled [OF True assms(2), of env t] outside_inbox_press [OF assms(2), of env]
  show ?thesis by (cases "handle_inbox_press env h p t")
      (auto simp: handle_press_def attempt_apply ret_def hops_def dest: spec [of _ t])
next
  case False
  then obtain action where action: "parse_staff_action (ps_data p) = Some action"
    using assms(1) by (auto simp: staff_button_def)
  have refused: "handle_staff_action env h p action u = (Inr False, u)" for u
    using assms(2) by (auto simp: handle_staff_action_def ret_def)
  let ?u = "snd (acknowledge env h (ps_query_id p) [] t)"
  from False have "handle_inbox_press env h p t = (Inr False, t)" by (simp add: handle_inbox_press_def ret_def)
  then have "handle_press env h p t = (Inr True, ?u)"
    unfolding handle_press_def by (subst attempt_value, assumption) (simp add: action after_ack attempt_value [OF refused] ret_def)
  then show ?thesis using answering_ack [of env h "ps_query_id p", unfolded hops_def] by simp
qed

lemma press_of_query:
  assumes "parse_callback now body = Inr (Some p)"
  shows "\<exists>upd q m ch. body = Some upd \<and> up_query upd = Some q \<and> cq_message q = Some m \<and> tm_chat m = Some ch \<and>
    ps_chat_id p = decimal (tc_id ch) \<and> ps_data p = cq_data q"
  using assms
  by (auto simp: parse_callback_def press_of_def Let_def split: option.splits if_splits sum.splits)

lemma outside_update:
  assumes "up_query upd = Some q" "staff_button (cq_data q)"
    "\<forall>m ch. cq_message q = Some m \<longrightarrow> tm_chat m = Some ch \<longrightarrow> decimal (tc_id ch) \<noteq> hd_staff_chat h"
  shows "answers_only t (snd (serve_update env h (Some upd) t)) \<and> fst (serve_update env h (Some upd) t) = Inr status_ok"
proof -
  obtain now u where clock: "inside (clock env) t = (Inr now, u)" by (simp add: inside_def clock_apply)
  with answering_clock [of env] have "answers_only t u" unfolding hops_def by (metis snd_conv)
  show ?thesis
  proof (cases "parse_callback now (Some upd)")
    case (Inl e)
    with clock \<open>answers_only t u\<close> show ?thesis by (simp add: serve_update_def attempt_apply ret_def)
  next
    case (Inr pressed)
    with assms(1) obtain p where p: "pressed = Some p"
      by (auto simp: parse_callback_def Let_def split: option.splits if_splits sum.splits)
    with press_of_query [of now "Some upd" p] Inr assms have "ps_chat_id p \<noteq> hd_staff_chat h" "ps_data p = cq_data q" by auto
    with outside_staff_press [of p h u env] assms(2)
    have "answers_only u (snd (handle_press env h p u))" "fst (handle_press env h p u) = Inr True" by simp_all
    with clock Inr p answering.R_trans [OF \<open>answers_only t u\<close>] show ?thesis
      by (cases "handle_press env h p u") (simp add: serve_update_def attempt_apply ret_def)
  qed
qed

section \<open>Nothing sent to customers\<close>

definition unsent :: "telegram_world \<Rightarrow> telegram_world \<Rightarrow> bool" where
  "unsent t u \<longleftrightarrow> same_sends (tw_world t) (tw_world u)"

interpretation unsent: adapter_step unsent
  by unfold_locales (auto simp: unsent_def)

lemma unsent_inside [hop_intros]: "steps same_sends m \<Longrightarrow> hops unsent (inside m)"
  unfolding hops_def
proof
  fix t :: telegram_world
  assume "steps same_sends m"
  then have "same_sends (tw_world t) (snd (m (tw_world t)))" by (simp add: steps_def)
  then show "unsent t (snd (inside m t))" by (cases "m (tw_world t)") (simp add: inside_def unsent_def)
qed

lemma unsent_call [hop_intros]: "hops unsent (telegram_call env req)"
  by (simp add: hops_def telegram_call_def unsent_def Let_def)

lemma unsent_do [hop_intros]: "hops unsent (telegram_do env req)"
  unfolding telegram_do_def by (intro hop_intros)

lemma unsent_post [hop_intros]: "hops unsent (post_with_markup env chat t markup)" "hops unsent (send_with_markup env chat t markup)"
  unfolding post_with_markup_def send_with_markup_def by (intro hop_intros)+

lemma unsent_send [hop_intros]: "hops unsent (telegram_send env out)" "hops unsent (send_returning_id env out)"
  unfolding telegram_send_def send_returning_id_def by (intro hop_intros)+

lemma unsent_clear [hop_intros]: "hops unsent (clear_keyboard env chat i)"
proof -
  have "hops unsent (case e of ApiError a \<Rightarrow> m a | x \<Rightarrow> n)" if "\<And>a. hops unsent (m a)" "hops unsent n" for e m and n :: "(telegram_world, unit) proc"
    using that by (cases e) simp_all
  then show ?thesis unfolding clear_keyboard_def
    by (intro hop_intros) (auto intro!: hop_intros split: telegram_error.split)
qed

lemma unsent_feedback [hop_intros]:
  "hops unsent (tell_staff env h t)" "hops unsent (acknowledge env h i t)" "hops unsent (clear_answered env h chat j)"
  "hops unsent (show_selection env h p)" "hops unsent (contact_message env chat t b)" "hops unsent (say env chat t)"
  unfolding tell_staff_def acknowledge_def clear_answered_def show_selection_def answer_callback_def
    show_selected_text_def contact_message_def say_def Let_def
  by (intro hop_intros)+

lemma silent_staff_command [step_intros]: "steps same_sends (run_staff_command env c i)"
  unfolding run_staff_command_def lock_stored_conversation_def lock_conversation_def unlocking_def
  by (intro step_intros)

lemma silent_services [step_intros]:
  "steps same_sends (transact sv keys fn)" "steps same_sends (transact_row sv k g)" "steps same_sends (get_entry sv k)"
  unfolding transact_def transact_row_def get_entry_def by (intro step_intros)+

lemma silent_contacts [step_intros]:
  "steps same_sends (allow_phone sv raw lang)" "steps same_sends (block_phone sv raw)"
  "steps same_sends (request_contact sv chat lang)" "steps same_sends (link_telegram sv chat raw)"
  "steps same_sends (unlink_telegram sv chat)"
  unfolding allow_phone_def block_phone_def request_contact_def link_telegram_def unlink_telegram_def Let_def
  by (intro step_intros)+

lemma silent_cabinet_contact [step_intros]: "steps same_sends (accept_telegram_contact cab user raw i)"
  unfolding accept_telegram_contact_def cab_store_def Let_def by (intro step_intros)

lemma unsent_pages [hop_intros]:
  "hops unsent (list_rows env convs rws)" "hops unsent (post_history env chat i markup pieces)"
  "hops unsent (new_page env build)" "hops unsent (stored_page env' reference)"
proof -
  show "hops unsent (list_rows env convs rws)"
    by (induction env convs rws rule: list_rows.induct) (auto intro!: hop_intros step_intros)
  show "hops unsent (post_history env chat i markup pieces)"
    by (induction env chat i markup pieces rule: post_history.induct) (auto intro!: hop_intros step_intros)
  show "hops unsent (new_page env build)" "hops unsent (stored_page env' reference)"
    unfolding new_page_def stored_page_def Let_def by (intro hop_intros step_intros)+
qed

lemma unsent_inbox [hop_intros]:
  "hops unsent (inbox_list env chat boundary)" "hops unsent (inbox_history_page env chat i bd previous)"
  unfolding inbox_list_def inbox_history_page_def Let_def by (intro hop_intros step_intros)+

lemma unsent_inbox_action [hop_intros]: "hops unsent (inbox_action env h chat action reference)"
  unfolding inbox_action_def inbox_command_def inbox_turn_def by (intro hop_intros step_intros)

lemma unsent_presses [hop_intros]:
  "hops unsent (handle_inbox_press env h p)" "hops unsent (handle_staff_action env h p action)"
  unfolding handle_inbox_press_def handle_staff_action_def by (intro hop_intros step_intros)+

section \<open>At most one message to a customer\<close>

definition sent_once :: "telegram_world \<Rightarrow> telegram_world \<Rightarrow> bool" where
  "sent_once t u \<longleftrightarrow> adds (\<lambda>_. True) (tw_world t) (tw_world u)"

definition sends_once :: "(telegram_world, 'a) proc \<Rightarrow> bool" where
  "sends_once m \<longleftrightarrow> (\<forall>t. sent_once t (snd (m t)))"

named_theorems once_intros \<open>procedures of the adapter that send at most one message\<close>

lemma once_unsent: "hops unsent m \<Longrightarrow> sends_once m"
  by (simp add: sends_once_def hops_def unsent_def sent_once_def adds_same)

lemma once_inside: "one_send P m \<Longrightarrow> sends_once (inside m)"
  unfolding sends_once_def
proof
  fix t :: telegram_world
  assume "one_send P m"
  then have "adds P (tw_world t) (snd (m (tw_world t)))" by (simp add: one_send_def)
  then have "adds (\<lambda>_. True) (tw_world t) (snd (m (tw_world t)))"
    unfolding adds_def by (elim exE conjE) (intro exI conjI, assumption+, erule list.pred_mono_strong, auto split: effect.split_asm effect.split)
  then show "sent_once t (snd (inside m t))" by (cases "m (tw_world t)") (simp add: inside_def sent_once_def)
qed

lemma once_after: "unsent t u \<Longrightarrow> sent_once u v \<Longrightarrow> sent_once t v"
  unfolding unsent_def sent_once_def by (rule adds_after)

lemma once_before: "sent_once t u \<Longrightarrow> unsent u v \<Longrightarrow> sent_once t v"
  unfolding unsent_def sent_once_def by (rule adds_before)

lemma once_observe [once_intros]:
  assumes "hops unsent m" "\<And>r. sends_once (k r)"
  shows "sends_once (observe m k)"
  unfolding sends_once_def
proof
  fix t
  obtain r u where run: "m t = (r, u)" by force
  with assms(1) have "unsent t u" unfolding hops_def by (metis snd_conv)
  moreover from assms(2) have "sent_once u (snd (k r u))" by (simp add: sends_once_def)
  ultimately show "sent_once t (snd (observe m k t))" by (simp add: observe_apply run once_after)
qed

lemma once_attempt [once_intros]:
  assumes "hops unsent m" "\<And>x. sends_once (k x)"
  shows "sends_once (attempt m f k)"
proof -
  have "attempt m f k = observe m (\<lambda>r. case r of Inl e \<Rightarrow> fail (f e) | Inr x \<Rightarrow> k x)"
    by (rule ext) (simp add: attempt_apply observe_apply fail_def split: prod.split sum.split)
  moreover have "sends_once (case r of Inl e \<Rightarrow> fail (f e) | Inr x \<Rightarrow> k x)" for r
    using assms(2) once_unsent [OF unsent.hops_fail] by (cases r) simp_all
  ultimately show ?thesis by (simp only: once_observe [OF assms(1)])
qed

text \<open>What follows the send is silent.\<close>

lemma once_last:
  assumes "sends_once m" "\<And>r. hops unsent (k r)"
  shows "sends_once (observe m k)"
  unfolding sends_once_def
proof
  fix t
  obtain r u where run: "m t = (r, u)" by force
  with assms(1) have "sent_once t u" unfolding sends_once_def by (metis snd_conv)
  moreover from assms(2) have "unsent u (snd (k r u))" by (simp add: hops_def)
  ultimately show "sent_once t (snd (observe m k t))" by (simp add: observe_apply run once_before)
qed

lemma once_if [once_intros]: "(b \<Longrightarrow> sends_once m) \<Longrightarrow> (\<not> b \<Longrightarrow> sends_once n) \<Longrightarrow> sends_once (if b then m else n)"
  by simp

lemma once_option [once_intros]:
  "sends_once m \<Longrightarrow> (\<And>y. sends_once (n y)) \<Longrightarrow> sends_once (case x of None \<Rightarrow> m | Some y \<Rightarrow> n y)"
  by (cases x) simp_all

lemma once_sum [once_intros]:
  "(\<And>y. sends_once (m y)) \<Longrightarrow> (\<And>y. sends_once (n y)) \<Longrightarrow> sends_once (case x of Inl y \<Rightarrow> m y | Inr y \<Rightarrow> n y)"
  by (cases x) simp_all

lemma once_quiet:
  "sends_once (ret x)" "sends_once (fail e)" "sends_once (tell_staff env h tx)"
  by (auto intro!: once_unsent hop_intros)

lemma once_handle: "sends_once (inside (handle env e))"
  by (rule once_inside [OF one_send_handle])

lemma once_relay: "sends_once (relay_text env sm i tx)"
  unfolding relay_text_def by (rule once_inside [OF one_send_relay_staff])

lemma once_press: "sends_once (handle_press env h p)"
  unfolding handle_press_def handle_customer_press_def
  by (intro once_intros once_last once_handle hop_intros) (auto intro!: once_unsent hop_intros)

lemma once_typed: "sends_once (run_typed_command env h sm i)"
proof -
  have rest: "sends_once (attempt (tell_staff env h a) id (\<lambda>_. let tx = staff_reply_text sm in
      if tx \<noteq> [] then observe (relay_text env sm i tx) (\<lambda>_. ret ()) else ret ()))" for a
    unfolding Let_def by (intro once_intros once_last once_relay hop_intros once_unsent) 
  have "sends_once (observe (inside (run_staff_command env c i)) (\<lambda>r. case r of
         Inl e \<Rightarrow> tell_staff env h (''That did not work: '' @ message e)
       | Inr answer \<Rightarrow> attempt (tell_staff env h answer) id (\<lambda>_.
           let tx = staff_reply_text sm in
           if tx \<noteq> [] then observe (relay_text env sm i tx) (\<lambda>_. ret ()) else ret ())))" for c
    by (intro once_intros rest hop_intros step_intros once_unsent)
  note command = this
  show ?thesis
  proof (cases "command_of (sm_command sm)")
    case CommandResume
    then show ?thesis unfolding run_typed_command_def by (simp only: staff_command.case) (rule command)
  next
    case CommandTake
    then show ?thesis unfolding run_typed_command_def by (simp only: staff_command.case) (rule command)
  next
    case (OtherCommand c)
    then show ?thesis unfolding run_typed_command_def by (simp add: once_unsent unsent_feedback)
  qed
qed

lemma once_staff_message: "sends_once (handle_staff_message env h body)"
proof -
  have possible: "hops unsent (answerable env h i)" for i
    unfolding answerable_def by (intro hop_intros step_intros)
  have "sends_once (answer_customer env h sm i)" for sm i
    unfolding answer_customer_def
    by (intro once_intros possible once_typed once_last once_relay) (auto intro!: once_unsent hop_intros)
  then show ?thesis unfolding handle_staff_message_def
    by (auto intro!: once_intros once_quiet hop_intros step_intros split: option.split bool.split)
qed

text \<open>
  A delivery the notices did not handle sent nothing on the way, so that what follows may still send.
\<close>

definition unless_done :: "(telegram_world, handled) proc \<Rightarrow> bool" where
  "unless_done m \<longleftrightarrow> (\<forall>t. sent_once t (snd (m t)) \<and> (\<forall>e. fst (m t) = Inr (False, e) \<longrightarrow> unsent t (snd (m t))))"

lemma unless_done_unsent: "hops unsent m \<Longrightarrow> unless_done m"
  by (simp add: unless_done_def hops_def unsent_def sent_once_def adds_same)

lemma unless_done_handled:
  assumes "sends_once m"
  shows "unless_done (handled_by m)"
  unfolding unless_done_def
proof
  fix t
  obtain r u where run: "m t = (r, u)" by force
  with assms have "sent_once t u" unfolding sends_once_def by (metis snd_conv)
  with run show "sent_once t (snd (handled_by m t)) \<and> (\<forall>e. fst (handled_by m t) = Inr (False, e) \<longrightarrow> unsent t (snd (handled_by m t)))"
    by (simp add: handled_by_def observe_apply ret_def)
qed

lemma unsent_handled [hop_intros]: "hops unsent m \<Longrightarrow> hops unsent (handled_by m)"
  unfolding handled_by_def by (intro hop_intros)

lemma unsent_outcome [hop_intros]: "steps same_sends m \<Longrightarrow> hops unsent (say_outcome env chat m a b)"
  unfolding say_outcome_def by (intro hop_intros)

lemma unsent_staff_notification: "hops unsent (staff_notification env n chat command)"
  unfolding staff_notification_def Let_def by (intro hop_intros step_intros)

lemma unsent_link_contact [hop_intros]: "hops unsent (link_contact env n chat lang c)"
  unfolding link_contact_def by (intro hop_intros step_intros)

lemma unless_done_observe:
  assumes "hops unsent m" "\<And>r. unless_done (k r)"
  shows "unless_done (observe m k)"
  unfolding unless_done_def
proof
  fix t
  obtain r u where run: "m t = (r, u)" by force
  with assms(1) have quiet: "unsent t u" unfolding hops_def by (metis snd_conv)
  from assms(2) [of r] have "sent_once u (snd (k r u))" "\<forall>e. fst (k r u) = Inr (False, e) \<longrightarrow> unsent u (snd (k r u))"
    by (simp_all add: unless_done_def)
  with quiet show "sent_once t (snd (observe m k t)) \<and> (\<forall>e. fst (observe m k t) = Inr (False, e) \<longrightarrow> unsent t (snd (observe m k t)))"
    using once_after [OF quiet] unsent.R_trans [OF quiet] by (simp add: observe_apply run)
qed

lemma unless_done_share: "unless_done (share_contact env n chat lang m user_id c)"
proof -
  have first: "sends_once (attempt (if b then contact_message env chat x True else ret ()) id (\<lambda>_.
      if nn_assistant n then inside (handle env e) else ret ()))" for b x e
    by (auto intro!: once_intros once_quiet once_handle hop_intros)
  have "unless_done (case r of Inl e \<Rightarrow> if errors_is e VerificationExpired then link_contact env n chat lang c else ret (True, Some e)
      | Inr first_time \<Rightarrow> handled_by (attempt (if first_time then contact_message env chat (cabinet_linked_copy (tb_lower env) n lang) True
          else ret ()) id (\<lambda>_. if nn_assistant n then inside (handle env (appointments_request chat (tm_id m) lang)) else ret ())))" for r
  proof (cases r)
    case (Inl e)
    then show ?thesis by (auto intro!: unless_done_unsent hop_intros)
  next
    case (Inr first_time)
    then show ?thesis by (simp only: sum.case) (rule unless_done_handled [OF first])
  qed
  then have linked: "unless_done (observe (inside (accept_telegram_contact cab chat (tn_phone_number c) (decimal (tm_id m)))) (\<lambda>r. case r of
      Inl e \<Rightarrow> if errors_is e VerificationExpired then link_contact env n chat lang c else ret (True, Some e)
      | Inr first_time \<Rightarrow> handled_by (attempt (if first_time then contact_message env chat (cabinet_linked_copy (tb_lower env) n lang) True
          else ret ()) id (\<lambda>_. if nn_assistant n then inside (handle env (appointments_request chat (tm_id m) lang)) else ret ()))))" for cab
    by (intro unless_done_observe hop_intros step_intros)
  have "unless_done (handled_by (contact_message env chat x True))" "unless_done (link_contact env n chat lang c)" for x
    by (intro unless_done_unsent hop_intros)+
  note parts = this
  show ?thesis
  proof (cases "tn_user_id c = user_id")
    case False
    then show ?thesis unfolding share_contact_def by (subst if_P) (simp, rule parts(1))
  next
    case True
    then show ?thesis unfolding share_contact_def
      by (subst if_not_P) (simp, cases "nn_identity n", simp only: option.case, rule parts(2), simp only: option.case, rule linked)
  qed
qed

lemma unless_done_telegram: "unless_done (handle_telegram env n body)"
proof -
  have "unless_done (customer_notification env n chat command m u)" for chat command m u
    unfolding customer_notification_def Let_def
    by (auto intro!: unless_done_share unless_done_unsent hop_intros step_intros split: option.split)
  then show ?thesis unfolding handle_telegram_def Let_def
    by (auto intro!: unless_done_unsent hop_intros unsent_staff_notification split: option.split)
qed

section \<open>The endpoint\<close>

lemma parse_one: "parse_update now body = Inr es \<Longrightarrow> es = [] \<or> (\<exists>e. es = [e])"
  by (auto simp: parse_update_def split: option.splits sum.splits)

lemma once_envelopes:
  assumes "es = [] \<or> (\<exists>e. es = [e])"
  shows "sends_once (serve_envelopes env h body es)"
proof -
  have "sends_once (observe (handle_staff_message env h body) (\<lambda>_. ret status_ok :: (telegram_world, int) proc))"
    by (intro once_last once_staff_message hop_intros)
  moreover have "attempt m f (\<lambda>_. ret x) = observe m (\<lambda>r. case r of Inl e \<Rightarrow> fail (f e) | Inr _ \<Rightarrow> ret x)" for m :: "(telegram_world, unit) proc" and f and x :: int
    by (rule ext) (simp add: attempt_apply observe_apply fail_def split: prod.split sum.split)
  ultimately show ?thesis using assms
    by (auto intro!: once_intros once_quiet once_last once_handle once_staff_message hop_intros)
qed

lemma once_update: "sends_once (serve_update env h upd)"
proof -
  have "sends_once (case parse_update now upd of Inl _ \<Rightarrow> ret status_ok | Inr es \<Rightarrow> serve_envelopes env h upd es)" for now
    by (cases "parse_update now upd") (simp_all add: once_quiet once_envelopes [OF parse_one])
  then have "sends_once (serve_message env h upd)"
    unfolding serve_message_def by (intro once_attempt hop_intros step_intros)
  moreover have "sends_once (attempt (handle_press env h p) id (\<lambda>ok. ret (if ok then status_ok else status_failed)))" for p
  proof -
    have "attempt (handle_press env h p) id (\<lambda>ok. ret (if ok then status_ok else status_failed)) =
        observe (handle_press env h p) (\<lambda>r. case r of Inl e \<Rightarrow> fail (id e) | Inr ok \<Rightarrow> ret (if ok then status_ok else status_failed))"
      by (rule ext) (simp add: attempt_apply observe_apply fail_def split: prod.split sum.split)
    then show ?thesis by (simp only:) (intro once_last once_press hop_intros)
  qed
  ultimately have "sends_once (case parse_callback now upd of Inl _ \<Rightarrow> ret status_ok
      | Inr (Some p) \<Rightarrow> attempt (handle_press env h p) id (\<lambda>ok. ret (if ok then status_ok else status_failed))
      | Inr None \<Rightarrow> serve_message env h upd)" for now
    by (simp add: once_quiet split: sum.split option.split)
  then show ?thesis unfolding serve_update_def by (intro once_attempt hop_intros step_intros)
qed

lemma once_telegram: "sends_once (serve_telegram env h received body)"
proof -
  have "sends_once (attempt (handle_telegram env n upd) id (\<lambda>(done_with, failure).
      if failure \<noteq> None then ret status_failed else if done_with then ret status_ok else serve_update env h upd))" for n upd
    unfolding sends_once_def
  proof
    fix t
    obtain r u where run: "handle_telegram env n upd t = (r, u)" by force
    from unless_done_telegram [of env n upd] run have once: "sent_once t u" and quiet: "\<forall>e. r = Inr (False, e) \<longrightarrow> unsent t u"
      by (auto simp: unless_done_def dest!: spec [of _ t])
    show "sent_once t (snd (attempt (handle_telegram env n upd) id (\<lambda>(done_with, failure).
        if failure \<noteq> None then ret status_failed else if done_with then ret status_ok else serve_update env h upd) t))"
    proof (cases r)
      case (Inl e)
      with once run show ?thesis by (simp add: attempt_apply)
    next
      case (Inr pair)
      obtain done_with failure where pair: "pair = (done_with, failure)" by force
      show ?thesis
      proof (cases "failure \<noteq> None \<or> done_with")
        case True
        with once run Inr pair show ?thesis by (auto simp: attempt_apply ret_def)
      next
        case False
        with quiet Inr pair have "unsent t u" by simp
        moreover have "sent_once u (snd (serve_update env h upd u))" using once_update [of env h upd] by (simp add: sends_once_def)
        ultimately have "sent_once t (snd (serve_update env h upd u))" by (rule once_after)
        with False run Inr pair show ?thesis by (simp add: attempt_apply)
      qed
    qed
  qed
  then show ?thesis unfolding serve_telegram_def Let_def
    by (auto intro!: once_quiet once_update hop_intros split: option.split)
qed

end
