(* ===== verification/TelegramTexts.thy ===== *)
theory TelegramTexts
  imports TelegramStaff SmsLaws
begin

text \<open>
  Laws of the texts Telegram exchanges: numbers read back, the press of a button gives the words on
  it, a long text is split without loss within Telegram's limit, a staff notice fits into one
  message, and no error shows the bot's token.
\<close>

section \<open>Numbers\<close>

lemma digit_char: "d < 10 \<Longrightarrow> (of_char (char_of (48 + d) :: char) :: nat) = 48 + d"
  by simp

lemma digits_value_snoc: "digits_value (ds @ [c]) = 10 * digits_value ds + (of_char c - 48)"
  by (simp add: digits_value_def)

lemma decimal_nat_reads: "digits_value (decimal_nat n) = n \<and> decimal_nat n \<noteq> [] \<and> list_all digit (decimal_nat n)"
proof (induction n rule: decimal_nat.induct)
  case (1 n)
  show ?case
  proof (cases "n < 10")
    case True
    then show ?thesis
      by (subst (1 2 3) decimal_nat.simps) (simp add: digits_value_def digit_def)
  next
    case False
    then have step: "decimal_nat n = decimal_nat (n div 10) @ [char_of (48 + n mod 10)]"
      by (subst decimal_nat.simps) simp
    from 1 False have "digits_value (decimal_nat (n div 10)) = n div 10" "list_all digit (decimal_nat (n div 10))" by simp_all
    then show ?thesis unfolding step by (simp add: digits_value_snoc) (simp add: digit_def)
  qed
qed

lemma decimal_nat_inj: "decimal_nat m = decimal_nat n \<Longrightarrow> m = n"
  using decimal_nat_reads by metis

lemma decimal_of_nat: "decimal (int n) = decimal_nat n"
  by (simp add: decimal_def)

lemma decimal_nat_head: "decimal_nat n = c # cs \<Longrightarrow> digit c"
  using decimal_nat_reads [of n] by simp

lemma parse_decimal:
  assumes "- (2 ^ 63) \<le> i" "i < 2 ^ 63"
  shows "parse_int64 (decimal i) = Some i"
proof (cases "i < 0")
  case True
  then have "decimal i = CHR ''-'' # decimal_nat (nat (- i))" by (simp add: decimal_def)
  with True assms decimal_nat_reads [of "nat (- i)"] show ?thesis
    by (simp add: parse_int64_def has_prefix_def)
next
  case False
  then have eq: "decimal i = decimal_nat (nat i)" by (simp add: decimal_def)
  obtain c cs where cs: "decimal_nat (nat i) = c # cs" using decimal_nat_reads [of "nat i"] by (cases "decimal_nat (nat i)") auto
  from decimal_nat_head [OF cs] have "c \<noteq> CHR ''-''" "c \<noteq> CHR ''+''" by (auto simp: digit_def)
  with cs have "\<not> has_prefix (decimal_nat (nat i)) ''-''" "\<not> has_prefix (decimal_nat (nat i)) ''+''"
    by (simp_all add: has_prefix_def)
  with False assms decimal_nat_reads [of "nat i"] show ?thesis
    by (simp add: parse_int64_def eq)
qed

section \<open>Keyboards\<close>

lemma lay_out_concat:
  "concat (lay_out per_row cs i row) = row @ map (\<lambda>j. choice_button (cs ! j) (i + j)) [0..<length cs]"
proof (induction per_row cs i row rule: lay_out.induct)
  case (2 per_row c cs i row)
  have "map (\<lambda>j. choice_button ((c # cs) ! j) (i + j)) [0..<length (c # cs)] =
      choice_button c i # map (\<lambda>j. choice_button (cs ! j) (i + 1 + j)) [0..<length cs]"
    by (simp add: upt_conv_Cons map_Suc_upt [symmetric] del: upt_Suc)
  with 2 show ?case by (simp add: Let_def)
qed simp

lemma choice_data_inj: "choice_prefix @ decimal (int i) = choice_prefix @ decimal (int j) \<longleftrightarrow> i = j"
  by (auto simp: decimal_of_nat dest: decimal_nat_inj)

lemma find_nth_map:
  assumes "k < n" "P (f k)" "\<And>j. j < k \<Longrightarrow> \<not> P (f j)"
  shows "find P (map f [0..<n]) = Some (f k)"
  using assms by (auto simp: find_Some_iff intro!: exI [of _ k])

lemma find_append: "find P xs = Some x \<Longrightarrow> find P (xs @ ys) = Some x"
  by (induction xs) auto

lemma label_of_choice:
  assumes "k < length (og_choices out)"
  shows "label_for_callback (keyboard_for_message out) (choice_prefix @ decimal (int k)) =
    (let label = trim_space (ch_label (og_choices out ! k)) in if label = [] then None else Some label)"
proof -
  let ?cs = "og_choices out" and ?data = "choice_prefix @ decimal (int k)"
  let ?laid = "lay_out (buttons_per_row ?cs) ?cs 0 []"
  have "concat ?laid = map (\<lambda>j. choice_button (?cs ! j) j) [0..<length ?cs]"
    by (simp add: lay_out_concat)
  moreover have "find (\<lambda>b. bt_data b = ?data) (map (\<lambda>j. choice_button (?cs ! j) j) [0..<length ?cs]) =
      Some (choice_button (?cs ! k) k)"
    using assms by (rule find_nth_map) (simp_all add: choice_button_def decimal_of_nat, metis decimal_nat_inj nat_neq_iff)
  ultimately have found: "find (\<lambda>b. bt_data b = ?data) (concat ?laid @ ys) = Some (choice_button (?cs ! k) k)" for ys
    by (simp add: find_append)
  from assms have "keyboard_for ?cs = Some ?laid" by (auto simp: keyboard_for_def)
  then show ?thesis using found
    by (simp add: label_for_callback_def keyboard_for_message_def has_prefix_def choice_button_def Let_def)
qed

lemma staff_action_reads:
  assumes "CHR '':'' \<notin> set c" "c \<noteq> []" "i \<noteq> []"
  shows "parse_staff_action (staff_action_data c i) = Some \<lparr>sa_command = c, sa_conversation = i\<rparr>"
proof -
  have "takeWhile (\<lambda>x. x \<noteq> CHR '':'') (c @ '':'' @ i) = c" "dropWhile (\<lambda>x. x \<noteq> CHR '':'') (c @ '':'' @ i) = '':'' @ i"
    using assms(1) by (induction c) auto
  with assms show ?thesis
    by (simp add: parse_staff_action_def staff_action_data_def has_prefix_def cut_at_def)
qed

section \<open>Splitting\<close>

lemma decode_encoded:
  assumes "is_scalar r" "encode_scalar r = b # bs"
  shows "decode_rune b (bs @ t) = (r, length bs)"
proof -
  consider "r < 0x80" | "0x80 \<le> r" "r < 0x800" | "0x800 \<le> r" "r < 0x10000" | "0x10000 \<le> r" by linarith
  then show ?thesis
  proof cases
    case 1
    with assms(2) show ?thesis by (auto simp: encode_scalar_def decode_rune.simps)
  next
    case 2
    then have "2 \<le> r div 64" "r div 64 \<le> 31" by auto
    with 2 assms(2) show ?thesis by (auto simp: encode_scalar_def decode_two)
  next
    case 3
    have "r div 64 mod 64 < 64" "r div 4096 \<le> 15" using 3 by auto
    moreover have "r div 4096 = 0 \<Longrightarrow> 32 \<le> r div 64 mod 64"
      using 3 div_64(1) [of r] by (simp add: div_eq_0_iff)
    moreover have "r div 4096 = 13 \<Longrightarrow> r div 64 mod 64 \<le> 31"
      using assms(1) 3 rune_parts(1) [of r] by (auto simp: is_scalar_def)
    ultimately have "second_ok (0xE0 + r div 4096) (0x80 + r div 64 mod 64)" by (auto simp: second_ok_def continues_def)
    with 3 assms(2) rune_parts(1) [of r] \<open>r div 4096 \<le> 15\<close> show ?thesis by (auto simp: encode_scalar_def decode_three)
  next
    case 4
    have "r \<le> 0x10FFFF" using assms(1) 4 by (auto simp: is_scalar_def)
    then have "r div 262144 \<le> 4" by auto
    moreover have "r div 262144 = 0 \<Longrightarrow> 16 \<le> r div 4096 mod 64"
      using 4 div_64(2) [of r] by (simp add: div_eq_0_iff)
    moreover have "r div 262144 = 4 \<Longrightarrow> r div 4096 mod 64 \<le> 15"
      using \<open>r \<le> 0x10FFFF\<close> rune_parts(2) [of r] by linarith
    moreover have "r div 4096 mod 64 < 64" by simp
    ultimately have "second_ok (0xF0 + r div 262144) (0x80 + r div 4096 mod 64)" by (auto simp: second_ok_def continues_def)
    with 4 assms(2) rune_parts(2) [of r] \<open>r div 262144 \<le> 4\<close> show ?thesis by (auto simp: encode_scalar_def decode_four)
  qed
qed

lemma split_runes_step:
  assumes "is_scalar r"
  shows "split_runes limit current units (utf8 (r # rs)) =
    (if units + rune_units r > limit then current # split_runes limit (utf8 [r]) (rune_units r) (utf8 rs)
     else split_runes limit (current @ utf8 [r]) (units + rune_units r) (utf8 rs))"
proof -
  obtain b bs where bytes: "encode_scalar r = b # bs" by (cases "encode_scalar r") (auto simp: encode_scalar_def split: if_splits)
  let ?cs = "map char_of bs :: string"
  have enc: "encode_rune r = b # bs" using assms bytes by (simp add: encode_rune_def)
  then have written: "utf8 (r # rs) = char_of b # (?cs @ utf8 rs)" "utf8 [r] = char_of b # ?cs"
    by (simp_all add: utf8_def)
  have b: "b < 256" "\<forall>x \<in> set bs. x < 256" using encode_scalar_bytes [OF assms] by (auto simp: bytes)
  let ?tail = "map of_char (utf8 rs) :: nat list"
  have bytes_back: "map of_char (?cs @ utf8 rs) = bs @ ?tail" using b by (auto simp: map_idI)
  have "decode_rune (of_char (char_of b :: char)) (map of_char (?cs @ utf8 rs)) = (r, length bs)"
    unfolding bytes_back using b decode_encoded [OF assms bytes] by simp
  then show ?thesis unfolding written by (simp add: Let_def)
qed

text \<open>
  A text that is well formed is cut between runes: the pieces are well formed, none is empty or over
  the limit, and together they are the text.
\<close>

lemma split_runes_utf8:
  assumes "list_all is_scalar rs" "utf16_units (utf8 qs) = units" "units \<le> limit" "2 \<le> limit" "qs = [] \<longrightarrow> rs \<noteq> [] \<longrightarrow> units = 0"
  shows "concat (split_runes limit (utf8 qs) units (utf8 rs)) = utf8 qs @ utf8 rs \<and>
    list_all (\<lambda>p. valid_text p \<and> p \<noteq> [] \<and> utf16_units p \<le> limit) (split_runes limit (utf8 qs) units (utf8 rs))"
  using assms
proof (induction rs arbitrary: qs units)
  case Nil
  then show ?case by simp
next
  case (Cons r rs)
  then have r: "is_scalar r" and rs: "list_all is_scalar rs" by simp_all
  have one: "utf16_units (utf8 [r]) = rune_units r" "rune_units r \<le> 2" using r by (simp_all add: units_rune rune_units_def)
  have nonempty: "utf8 (x # xs) \<noteq> []" for x xs by (simp add: utf8_def encode_rune_def encode_scalar_def)
  have written: "utf8 (r # rs) = utf8 [r] @ utf8 rs" using utf8_append [of "[r]" rs] by simp
  show ?case
  proof (cases "units + rune_units r > limit")
    case True
    with Cons.prems one have "qs \<noteq> []" by auto
    then have "utf8 qs \<noteq> []" using nonempty by (cases qs) auto
    moreover have "concat (split_runes limit (utf8 [r]) (rune_units r) (utf8 rs)) = utf8 [r] @ utf8 rs \<and>
        list_all (\<lambda>p. valid_text p \<and> p \<noteq> [] \<and> utf16_units p \<le> limit) (split_runes limit (utf8 [r]) (rune_units r) (utf8 rs))"
      using Cons.prems one rs by (intro Cons.IH) simp_all
    ultimately show ?thesis unfolding split_runes_step [OF r] using True Cons.prems by (simp add: written)
  next
    case False
    have "utf16_units (utf8 (qs @ [r])) = units + rune_units r"
      unfolding utf8_append using Cons.prems one by (simp add: units_append)
    then have "concat (split_runes limit (utf8 (qs @ [r])) (units + rune_units r) (utf8 rs)) = utf8 (qs @ [r]) @ utf8 rs \<and>
        list_all (\<lambda>p. valid_text p \<and> p \<noteq> [] \<and> utf16_units p \<le> limit)
          (split_runes limit (utf8 (qs @ [r])) (units + rune_units r) (utf8 rs))"
      using False Cons.prems rs by (intro Cons.IH) simp_all
    then show ?thesis unfolding split_runes_step [OF r] using False by (simp add: utf8_append written)
  qed
qed

lemma valid_scalars:
  assumes "valid_text s"
  obtains rs where "list_all is_scalar rs" "s = utf8 rs"
proof
  let ?rs = "map (\<lambda>r. if is_scalar r then r else replacement_rune) (runes s)"
  have "is_scalar replacement_rune" by (simp add: is_scalar_def replacement_rune_def)
  then show "list_all is_scalar ?rs" by (auto simp: list_all_iff)
  from assms have "s = utf8 (runes s)" by (simp add: valid_text_def)
  moreover have "utf8 (map (\<lambda>r. if is_scalar r then r else replacement_rune) rs) = utf8 rs" for rs
    using encode_rune_scalar by (induction rs) (simp_all add: utf8_Cons encode_rune_def)
  ultimately show "s = utf8 ?rs" by simp
qed

lemma split_pieces:
  assumes "valid_text s" "2 \<le> limit"
  shows "concat (split_inbox_text s limit) = s"
    "list_all (\<lambda>p. valid_text p \<and> p \<noteq> [] \<and> utf16_units p \<le> limit) (split_inbox_text s limit)"
proof -
  obtain rs where rs: "list_all is_scalar rs" "s = utf8 rs" using assms(1) by (rule valid_scalars)
  from split_runes_utf8 [of rs "[]" 0 limit] rs assms(2)
  show "concat (split_inbox_text s limit) = s"
    "list_all (\<lambda>p. valid_text p \<and> p \<noteq> [] \<and> utf16_units p \<le> limit) (split_inbox_text s limit)"
    by (simp_all add: split_inbox_text_def)
qed

lemma split_short:
  assumes "length (split_inbox_text s limit) \<le> 1" "valid_text s" "2 \<le> limit"
  shows "utf16_units s \<le> limit"
proof (cases "split_inbox_text s limit")
  case Nil
  with split_pieces(1) [OF assms(2,3)] have "s = []" by simp
  then show ?thesis by simp
next
  case (Cons p ps)
  with assms(1) split_pieces [OF assms(2,3)] show ?thesis by simp
qed

section \<open>Notices to staff\<close>

text \<open>A notice is cut at 3500 units before its footer, so it stays within the 4096 Telegram takes.\<close>

lemma footers_fit:
  "utf16_units telegram_footer \<le> 200" "valid_text telegram_footer"
  "utf16_units native_footer \<le> 400"
  "utf16_units truncation_mark = 13" "valid_text truncation_mark"
proof -
  have ascii: "valid_text s" "utf16_units s = length s" if "ascii_text s" for s using ascii_ok [OF that] by simp_all
  show "utf16_units telegram_footer \<le> 200" "valid_text telegram_footer"
    by (simp_all add: telegram_footer_def units_append valid_append ascii ascii_text_def utf16_units_def [of "utf8 _"]
        runes_utf8 is_scalar_def rune_units_def del: append_Cons)
  show "utf16_units native_footer \<le> 400"
    by (simp add: native_footer_def units_append valid_append ascii ascii_text_def utf16_units_def [of "utf8 _"]
        runes_utf8 is_scalar_def rune_units_def del: append_Cons)
  show "utf16_units truncation_mark = 13" "valid_text truncation_mark"
    using ascii_ok [of truncation_mark] by (simp_all add: truncation_mark_def newline_def ascii_text_def)
qed

lemma notice_fits:
  assumes "valid_text (handoff_body env n)"
  shows "utf16_units (format_handoff env n) \<le> 4096"
proof -
  let ?body = "handoff_body env n" and ?pieces = "split_inbox_text (handoff_body env n) staff_message_limit"
  let ?cut = "if length ?pieces > 1 then hd ?pieces @ truncation_mark else ?body"
  note pieces = split_pieces [OF assms, of staff_message_limit]
  have cut: "valid_text ?cut \<and> utf16_units ?cut \<le> 3513"
  proof (cases "length ?pieces > 1")
    case True
    then have "hd ?pieces \<in> set ?pieces" by (cases ?pieces) auto
    with pieces(2) have "valid_text (hd ?pieces)" "utf16_units (hd ?pieces) \<le> 3500"
      by (auto simp: list_all_iff staff_message_limit_def)
    with True show ?thesis using footers_fit by (simp add: valid_append units_append)
  next
    case False
    with split_short [of ?body staff_message_limit] assms show ?thesis by (simp add: staff_message_limit_def)
  qed
  then have "utf16_units (?cut @ f) \<le> 3513 + utf16_units f" for f by (simp add: units_append)
  from this [of telegram_footer] this [of native_footer] footers_fit show ?thesis
    unfolding format_handoff_def Let_def by (cases "hn_provider n = ProviderTelegram") simp_all
qed

section \<open>The token\<close>

text \<open>No end of the redacted text begins with the token.\<close>

lemma replace_all_prefix:
  assumes "has_prefix (replace_all old new s) p" "CHR ''['' \<notin> set p" "hd new = CHR ''[''" "new \<noteq> []"
  shows "has_prefix s p"
  using assms
proof (induction old new s arbitrary: p rule: replace_all.induct)
  case (2 old new c s)
  show ?case
  proof (cases "old \<noteq> [] \<and> has_prefix (c # s) old")
    case True
    with 2 have "p = []" by (cases p; cases new) (auto simp: has_prefix_def)
    then show ?thesis by (simp add: has_prefix_def)
  next
    case False
    with 2 show ?thesis by (cases p) (auto simp: has_prefix_def)
  qed
qed simp

definition never_shows :: "string \<Rightarrow> string \<Rightarrow> bool" where
  "never_shows token txt \<longleftrightarrow> (\<forall>k \<le> length txt. \<not> has_prefix (drop k txt) token)"

lemma never_shows_Cons: "never_shows t (c # s) \<longleftrightarrow> \<not> has_prefix (c # s) t \<and> never_shows t s"
proof -
  have "(\<forall>k \<le> Suc n. P k) \<longleftrightarrow> P 0 \<and> (\<forall>k \<le> n. P (Suc k))" for n and P :: "nat \<Rightarrow> bool"
    by (metis Suc_le_mono le0 not0_implies_Suc)
  then show ?thesis by (simp add: never_shows_def)
qed

lemma redacted_never_shows:
  assumes "CHR '':'' \<in> set token" "CHR ''['' \<notin> set token" "CHR '']'' \<notin> set token"
  shows "never_shows token (redact token txt)"
proof -
  let ?new = "''[REDACTED]''"
  obtain a b where token: "token = a # b" using assms(1) by (cases token) auto
  have marked: "never_shows token (?new @ s)" if s: "never_shows token s" for s
  proof -
    have absurd: "\<not> has_prefix (w @ '']'' @ s) token" if "CHR '':'' \<notin> set w" for w
    proof
      assume "has_prefix (w @ '']'' @ s) token"
      then have "take (length token) (w @ '']'' @ s) = token" by (simp add: has_prefix_def)
      moreover have "CHR '']'' \<in> set (take (length token) (w @ '']'' @ s))" if "length w < length token"
        using that by (simp add: take_Cons' )
      ultimately have "length token \<le> length w" using assms(3) by (metis not_le)
      with \<open>take (length token) (w @ '']'' @ s) = token\<close> have "take (length token) w = token" by simp
      then have "set token \<subseteq> set w" by (metis set_take_subset)
      with assms(1) that show False by blast
    qed
    have "\<not> has_prefix ('']'' @ s) token" using absurd [of "[]"] by simp
    with s absurd [of "''D''"] absurd [of "''ED''"] absurd [of "''TED''"] absurd [of "''CTED''"] absurd [of "''ACTED''"]
      absurd [of "''DACTED''"] absurd [of "''EDACTED''"] absurd [of "''REDACTED''"] absurd [of "''[REDACTED''"]
    show ?thesis by (simp add: never_shows_Cons)
  qed
  have "never_shows token (replace_all token ?new txt)"
  proof (induction "txt" rule: length_induct)
    case (1 s)
    show ?case
    proof (cases s)
      case Nil
      then show ?thesis by (simp add: never_shows_def has_prefix_def token)
    next
      case (Cons c cs)
      show ?thesis
      proof (cases "has_prefix s token")
        case True
        with 1 Cons token marked [of "replace_all token ?new (drop (length b) cs)"] show ?thesis by simp
      next
        case False
        have "\<not> has_prefix (c # replace_all token ?new cs) token"
        proof
          assume "has_prefix (c # replace_all token ?new cs) token"
          then have "has_prefix (replace_all token ?new cs) b" "a = c" by (simp_all add: token has_prefix_def)
          moreover have "CHR ''['' \<notin> set b" using assms(2) token by simp
          ultimately have "has_prefix cs b" using replace_all_prefix [of token ?new cs b] by simp
          with \<open>a = c\<close> False Cons show False by (simp add: token has_prefix_def)
        qed
        with False Cons 1 token show ?thesis by (simp add: never_shows_Cons)
      qed
    qed
  qed
  then show ?thesis by (simp add: redact_def token)
qed

end
