(* ===== verification/TelegramProperties.thy ===== *)
theory TelegramProperties
  imports TelegramLaws TelegramTexts AssistantProperties
begin

text \<open>
  What the Telegram adapter guarantees: one delivery sends a customer at most one message, staff's
  buttons work in the staff chat only, a pressed button reaches the assistant as the words on it, a
  notice to staff fits into one message, and no error text shows the bot's token.
\<close>

text \<open>
  C19. One delivery of the webhook, whatever it holds (a message, a press, a shared contact, something
  said in the staff chat), makes the assistant send customers at most one message.
\<close>

theorem webhook_sends_once:
  "\<exists>new. logged sends (tw_world (snd (serve_telegram env h received body t))) = logged sends (tw_world t) @ new \<and>
     length new \<le> 1"
  using once_telegram [of env h received body] unfolding sends_once_def sent_once_def adds_def by blast

text \<open>
  C20. A button of a staff notice or of the inbox, pressed in any chat but the staff chat, changes nothing
  stored, causes no effect and shows nothing: at most the press is acknowledged, without words.
\<close>

theorem staff_buttons_need_staff_chat:
  assumes "tb_decode env raw = Some upd" "up_message upd = None" "up_query upd = Some q" "staff_button (cq_data q)"
    "\<forall>m ch. cq_message q = Some m \<longrightarrow> tm_chat m = Some ch \<longrightarrow> decimal (tc_id ch) \<noteq> hd_staff_chat h"
  shows "answers_only t (snd (serve_telegram env h received (Some raw) t))"
proof (cases "received = hd_secret h")
  case False
  then show ?thesis by (simp add: serve_telegram_def ret_def answering.R_refl)
next
  case True
  have "handle_telegram env n (Some upd) t = (Inr (False, None), t)" for n
    using assms(2) by (simp add: handle_telegram_def ret_def)
  then have "serve_telegram env h received (Some raw) t = serve_update env h (Some upd) t"
    using True assms(1) by (auto simp: serve_telegram_def attempt_apply Let_def split: option.split)
  with outside_update [OF assms(3-5), of t env] show ?thesis by simp
qed

definition sample_hook :: hook_env where
  "sample_hook = staff_env.extend (telegram_env.extend (handle_env.extend (sample_handle True)
       (telegram_env.fields ''1:tok'' (\<lambda>n req. Answered 200 (Some \<lparr>ar_ok = True, ar_sent = Some 7, ar_code = 0,
          ar_description = [], ar_parameters = None\<rparr>)) (\<lambda>d. [])))
     (staff_env.fields (\<lambda>d. []) (\<lambda>d. []) (\<lambda>d. []) (\<lambda>d. []) True))
     (hook_env.fields (\<lambda>raw. Some \<lparr>up_id = 1, up_message = None, up_query = Some \<lparr>cq_id = ''q'', cq_from = None,
        cq_message = None, cq_data = raw\<rparr>\<rparr>) (\<lambda>s. s))"

definition sample_handler :: tg_handler where
  "sample_handler = \<lparr>hd_secret = ''secret'', hd_staff_chat = ''42'', hd_desk = True, hd_threads = True, hd_replies = Some ''42'',
     hd_acks = True, hd_selection = True, hd_inbox = Some ''42'', hd_notifications = None\<rparr>"

definition empty_telegram :: telegram_world where
  "empty_telegram = \<lparr>tw_world = \<lparr>w_db = new_store, w_tick = 0, w_log = []\<rparr>, tw_calls = [], tw_staff_chat = ''42''\<rparr>"

theorem staff_buttons_need_staff_chat_witness:
  "answers_only empty_telegram
     (snd (serve_telegram sample_hook sample_handler ''secret'' (Some ''inbox:open:c1'') empty_telegram))"
proof (rule staff_buttons_need_staff_chat)
  let ?q = "\<lparr>cq_id = ''q'', cq_from = None, cq_message = None, cq_data = ''inbox:open:c1''\<rparr> :: tg_query"
  show "tb_decode sample_hook ''inbox:open:c1'' = Some \<lparr>up_id = 1, up_message = None, up_query = Some ?q\<rparr>"
    by (simp add: sample_hook_def staff_env.defs telegram_env.defs handle_env.defs hook_env.defs)
  show "staff_button (cq_data ?q)" by (simp add: staff_button_def has_prefix_def)
qed simp_all

text \<open>
  C21. A customer's press of any button of the keyboard a reply was sent with reaches the assistant as the
  words on that button, as a message of the person who pressed it in the chat of the keyboard.
\<close>

theorem pressed_button_becomes_words:
  assumes "k < length (og_choices out)" "trim_space (ch_label (og_choices out ! k)) \<noteq> []" "cq_id q \<noteq> []"
    "cq_from q = Some u" "cq_message q = Some m" "tm_chat m = Some ch" "up_query upd = Some q"
    "tm_markup m = keyboard_for_message out" "cq_data q = choice_prefix @ decimal (int k)"
  shows "\<exists>p e. parse_callback now (Some upd) = Inr (Some p) \<and> ps_envelope p = Some e \<and>
    en_content e = text_content (trim_space (ch_label (og_choices out ! k))) \<and>
    en_user_id e = decimal (us_id u) \<and> en_thread_id e = decimal (tc_id ch) \<and>
    en_choice_message_id e = decimal (tm_id m)"
proof -
  have "decimal i \<noteq> []" for i by (simp add: decimal_def decimal_nat_reads)
  then have "checked_envelope (press_envelope now q u m (decimal (tc_id ch)) l) =
      Inr (press_envelope now q u m (decimal (tc_id ch)) l)" for l
    by (simp add: checked_envelope_def envelope_validate_def press_envelope_def text_content_def)
  with assms label_of_choice [OF assms(1)] show ?thesis
    by (simp add: parse_callback_def press_of_def Let_def) (simp add: press_envelope_def)
qed

definition asked :: outgoing where
  "asked = (plain_message ProviderTelegram ''5'' ''When?'')\<lparr>og_choices := [\<lparr>ch_label = ''10:00''\<rparr>, \<lparr>ch_label = ''11:30''\<rparr>]\<rparr>"

definition asked_message :: tg_message where
  "asked_message = \<lparr>tm_id = 9, tm_from = None, tm_chat = Some \<lparr>tc_id = 5, tc_type = ''private''\<rparr>, tm_date = 0, tm_text = ''When?'',
     tm_caption = [], tm_reply_to = None, tm_markup = keyboard_for_message asked, tm_photo = [], tm_voice = None,
     tm_audio = None, tm_video = None, tm_video_note = None, tm_document = None, tm_sticker = None, tm_location = False,
     tm_contact = None\<rparr>"

definition asked_press :: tg_update where
  "asked_press = \<lparr>up_id = 2, up_message = None, up_query = Some \<lparr>cq_id = ''q1'', cq_from = Some \<lparr>us_id = 5, us_is_bot = False,
     us_first_name = ''Ann'', us_last_name = [], us_username = [], us_language_code = ''en''\<rparr>,
     cq_message = Some asked_message, cq_data = choice_prefix @ decimal (int 1)\<rparr>\<rparr>"

theorem pressed_button_becomes_words_witness:
  "\<exists>p e. parse_callback 0 (Some asked_press) = Inr (Some p) \<and> ps_envelope p = Some e \<and>
     en_content e = text_content (trim_space ''11:30'')"
proof -
  have "leading_code space_codes ''11:30'' = None" "leading_code (map rev space_codes) (rev ''11:30'') = None"
    by (simp_all add: leading_code_def space_codes_def has_prefix_def)
  then have "trim_space ''11:30'' = ''11:30''" by (simp add: trim_space_def trim_left_def trim_right_def strip_id)
  then show ?thesis
    using pressed_button_becomes_words [of 1 asked "the (up_query asked_press)" "the (cq_from (the (up_query asked_press)))"
        asked_message "\<lparr>tc_id = 5, tc_type = ''private''\<rparr>" asked_press 0]
    by (simp add: asked_def asked_press_def asked_message_def plain_message_def) blast
qed

text \<open>
  The notice that a customer needs a person fits into one Telegram message of 4096 UTF-16 units,
  however long the conversation, the name or the reason is.
\<close>

theorem staff_notice_fits:
  assumes "valid_text (handoff_body env n)"
  shows "utf16_units (format_handoff env n) \<le> 4096"
  using assms by (rule notice_fits)

definition sample_notice :: handoff_notice where
  "sample_notice = \<lparr>hn_conversation = ''c1'', hn_reason = ''customer_asked'', hn_detail = NoDetail, hn_provider = ProviderTelegram,
     hn_customer = \<lparr>cu_id = ''u1'', cu_name = [], cu_phone = [], cu_verified_phone = [], cu_created_at = 0, cu_updated_at = 0\<rparr>,
     hn_handle = ''@ann'', hn_user_id = ''5'', hn_recent = [], hn_draft = None, hn_requested_at = 0\<rparr>"

theorem staff_notice_fits_witness: "utf16_units (format_handoff sample_hook sample_notice) \<le> 4096"
proof (rule staff_notice_fits)
  have "handoff_body sample_hook sample_notice = waiting_title @ ''Customer: @ann'' @ newline @ ''Open the chat: https://t.me/ann'' @ newline"
    by (simp add: handoff_body_def sample_notice_def sample_hook_def staff_env.defs telegram_env.defs handle_env.defs
        hook_env.defs handoff_title_def urgent_def text_line_def write_channel_def format_transcript_def trim_prefix_def
        has_prefix_def)
  moreover have "ascii_text (waiting_title @ ''Customer: @ann'' @ newline @ ''Open the chat: https://t.me/ann'' @ newline)"
    by (simp add: ascii_text_def waiting_title_def newline_def utf8_def encode_rune_def is_scalar_def encode_scalar_def)
  ultimately show "valid_text (handoff_body sample_hook sample_notice)" using ascii_ok by simp
qed

text \<open>
  A text longer than a message is sent in pieces that lose nothing and that each fit: none is empty,
  each is well-formed text of at most the limit, and joined they are the text.
\<close>

theorem inbox_text_split_whole:
  assumes "valid_text s" "2 \<le> limit"
  shows "concat (split_inbox_text s limit) = s \<and>
    list_all (\<lambda>p. valid_text p \<and> p \<noteq> [] \<and> utf16_units p \<le> limit) (split_inbox_text s limit)"
  using split_pieces [OF assms] by simp

theorem inbox_text_split_whole_witness:
  "concat (split_inbox_text (utf8 [0x540, 0x1F600, 0x41]) 2) = utf8 [0x540, 0x1F600, 0x41]"
  using inbox_text_split_whole [of "utf8 [0x540, 0x1F600, 0x41]" 2] by simp

text \<open>
  The printed form of a transport error, which carries the URL and with it the bot's token, never
  shows the token. A token is the bot's number, a colon and a secret without brackets.
\<close>

theorem token_never_shown:
  assumes "CHR '':'' \<in> set (tb_token env)" "CHR ''['' \<notin> set (tb_token env)" "CHR '']'' \<notin> set (tb_token env)"
    "read_answer (tb_token env) meth answer = Inl (Redacted shown)"
  shows "never_shows (tb_token env) shown"
  using assms redacted_never_shows [OF assms(1-3)]
  by (auto simp: read_answer_def split: http_answer.splits option.splits if_splits)

theorem token_never_shown_witness:
  "never_shows ''1:tok'' (redact ''1:tok'' (''telegram getFile: '' @ ''Post https://api/bot1:tok/getFile: EOF''))"
proof -
  have "tb_token sample_hook = ''1:tok''"
    by (simp add: sample_hook_def staff_env.defs telegram_env.defs handle_env.defs hook_env.defs)
  then show ?thesis
    using token_never_shown [of sample_hook "''getFile''" "TransportFailed ''Post https://api/bot1:tok/getFile: EOF''"]
    by (simp add: read_answer_def)
qed

end
