(* ===== verification/MetaUpdates.thy ===== *)
theory MetaUpdates
  imports TelegramUpdates SmsLaws
begin

text \<open>
  The messages Meta's platforms exchange (\<open>messaging/meta/types.go\<close>, \<open>choices.go\<close>, \<open>webhook.go\<close>, and
  the parsing halves of \<open>whatsapp.go\<close>, \<open>coexistence.go\<close>, \<open>direct.go\<close>, \<open>direct_echo.go\<close>): what a webhook
  delivers and how it becomes envelopes and staff replies, the choices written into payloads and read
  back, texts cut to a provider's limit, and the signature of a delivery. JSON decoding and HMAC are
  parameters; of a reply to buttons only the ids are kept, which is what the code reads. Instants in
  Unix seconds or milliseconds are taken to lie where Go represents them.

  What Meta's webhooks deliver (\<open>messaging/meta/types.go\<close>) and how it becomes envelopes of customers
  and replies of staff (\<open>whatsapp.go\<close>, \<open>coexistence.go\<close>, \<open>direct.go\<close>, \<open>direct_echo.go\<close>), and the two
  proofs of \<open>webhook.go\<close>: the handshake and the signature. A decoded body is \<open>None\<close> when it is not
  JSON for an update.
\<close>

section \<open>Base 64\<close>

text \<open>\<open>base64.RawURLEncoding\<close>. Decoding skips line ends and ignores the unused bits of the last letter.\<close>

definition base64_letter :: "nat \<Rightarrow> char" where
  "base64_letter n = (if n < 26 then char_of (65 + n) else if n < 52 then char_of (71 + n)
     else if n < 62 then char_of (n - 4) else if n = 62 then CHR ''-'' else CHR ''_'')"

definition base64_value :: "char \<Rightarrow> nat option" where
  "base64_value c = (let n = of_char c :: nat in
     if 65 \<le> n \<and> n \<le> 90 then Some (n - 65) else if 97 \<le> n \<and> n \<le> 122 then Some (n - 71)
     else if 48 \<le> n \<and> n \<le> 57 then Some (n + 4) else if n = 45 then Some 62 else if n = 95 then Some 63 else None)"

fun sextets :: "nat list \<Rightarrow> nat list" where
  "sextets [] = []"
| "sextets [a] = [a div 4, a mod 4 * 16]"
| "sextets [a, b] = [a div 4, a mod 4 * 16 + b div 16, b mod 16 * 4]"
| "sextets (a # b # c # bs) =
     [a div 4, a mod 4 * 16 + b div 16, b mod 16 * 4 + c div 64, c mod 64] @ sextets bs"

fun octets :: "nat list \<Rightarrow> nat list option" where
  "octets [] = Some []"
| "octets [a] = None"
| "octets [a, b] = Some [a * 4 + b div 16]"
| "octets [a, b, c] = Some [a * 4 + b div 16, b mod 16 * 16 + c div 4]"
| "octets (a # b # c # d # ss) = map_option (\<lambda>bs. [a * 4 + b div 16, b mod 16 * 16 + c div 4, c mod 4 * 64 + d] @ bs) (octets ss)"

definition base64_encode :: "string \<Rightarrow> string" where
  "base64_encode s = map base64_letter (sextets (map of_char s))"

definition base64_decode :: "string \<Rightarrow> string option" where
  "base64_decode s =
     (let values = map base64_value (filter (\<lambda>c. c \<noteq> CHR 0x0D \<and> c \<noteq> CHR 0x0A) s) in
      if None \<in> set values then None else map_option (map char_of) (octets (map the values)))"

section \<open>Choices\<close>

definition choice_payload :: "string \<Rightarrow> string \<Rightarrow> string" where
  "choice_payload token label = ''c:'' @ token @ '':'' @ base64_encode label"

definition expired_choice :: "string \<times> string" where
  "expired_choice = (''invalid'', ''Expired choice'')"

definition decode_choice :: "string \<Rightarrow> string \<times> string" where
  "decode_choice payload =
     (case cut_at (CHR '':'') payload of None \<Rightarrow> expired_choice
      | Some (kind, rest) \<Rightarrow> (case cut_at (CHR '':'') rest of None \<Rightarrow> expired_choice
      | Some (token, encoded) \<Rightarrow>
        if kind \<noteq> ''c'' \<or> token = [] \<or> length payload > 1000 then expired_choice
        else (case base64_decode encoded of None \<Rightarrow> expired_choice
        | Some decoded \<Rightarrow> if \<not> valid_text decoded \<or> decoded = [] then expired_choice else (token, decoded))))"

definition shortened :: "string \<Rightarrow> nat \<Rightarrow> string" where
  "shortened txt limit =
     (let r = runes txt in if length r \<le> limit then txt else utf8 (take (limit - 1) r) @ ellipsis)"

definition choice_title :: "string \<Rightarrow> nat \<Rightarrow> string" where
  "choice_title label limit = shortened (trim_space label) limit"

record quick_reply =
  qr_title :: string
  qr_payload :: string

definition quick_replies :: "outgoing \<Rightarrow> quick_reply list" where
  "quick_replies out =
     map (\<lambda>c. \<lparr>qr_title = choice_title (ch_label c) 20, qr_payload = choice_payload (og_choice_token out) (ch_label c)\<rparr>)
       (filter (\<lambda>c. length (choice_payload (og_choice_token out) (ch_label c)) \<le> 1000) (take 13 (og_choices out)))"

record menu_row =
  lr_id :: string
  lr_title :: string

datatype wa_controls = WaList "menu_row list" | WaButtons "menu_row list"

definition whatsapp_interactive :: "outgoing \<Rightarrow> wa_controls option" where
  "whatsapp_interactive out =
     (let rws = map (\<lambda>c. \<lparr>lr_id = choice_payload (og_choice_token out) (ch_label c), lr_title = choice_title (ch_label c) 24\<rparr>)
            (filter (\<lambda>c. length (choice_payload (og_choice_token out) (ch_label c)) \<le> 200) (take 10 (og_choices out))) in
      if length rws = 0 then None
      else if length rws \<le> 3 then Some (WaButtons (map (\<lambda>r. r\<lparr>lr_title := shortened (lr_title r) 20\<rparr>) rws))
      else Some (WaList rws))"

record direct_button =
  bd_type :: string
  bd_url :: string
  bd_title :: string
  bd_payload :: string

definition direct_choice_buttons :: "outgoing \<Rightarrow> direct_button list" where
  "direct_choice_buttons out =
     map (\<lambda>c. \<lparr>bd_type = ''postback'', bd_url = [], bd_title = choice_title (ch_label c) 20,
         bd_payload = choice_payload (og_choice_token out) (ch_label c)\<rparr>)
       (filter (\<lambda>c. length (choice_payload (og_choice_token out) (ch_label c)) \<le> 1000) (og_choices out))"

section \<open>Cutting texts\<close>

definition line_feed :: nat where "line_feed = 0x0A"

text \<open>Where the first piece ends: at the last line end past the middle, or at the limit.\<close>

definition chunk_end :: "nat list \<Rightarrow> nat \<Rightarrow> nat" where
  "chunk_end rs limit =
     (case find (\<lambda>i. rs ! i = line_feed) (rev [limit div 2 + 1..<limit]) of Some i \<Rightarrow> i | None \<Rightarrow> limit)"

definition without_line_feeds :: "string \<Rightarrow> string" where
  "without_line_feeds s = dropWhile (\<lambda>c. c = CHR 0x0A) s"

lemma runes_line_feed: "runes (CHR 0x0A # s) = line_feed # runes s"
  by (simp add: runes_def line_feed_def decode_rune.simps)

lemma trimmed_runes: "runes (without_line_feeds s) = dropWhile (\<lambda>r. r = line_feed) (runes s)"
proof (induction s)
  case (Cons c s)
  show ?case
  proof (cases "c = CHR 0x0A")
    case True
    with Cons show ?thesis by (simp add: without_line_feeds_def runes_line_feed)
  next
    case False
    let ?a = "of_char c :: nat" and ?bs = "map of_char s :: nat list"
    have other: "of_char c \<noteq> (10 :: nat)"
    proof
      assume "of_char c = (10 :: nat)"
      then have "of_char c = (of_char (CHR 0x0A) :: nat)" by simp
      then have "c = CHR 0x0A" by (simp only: of_char_eq_iff)
      with False show False by simp
    qed
    have "fst (decode_rune ?a ?bs) \<noteq> line_feed"
    proof (cases "?a < 0x80")
      case True
      with other show ?thesis by (simp add: decode_rune.simps line_feed_def)
    next
      case big: False
      show ?thesis
        by (subst decode_rune.simps)
          (use big in \<open>auto simp: line_feed_def replacement_rune_def second_ok_def continues_def split: list.splits\<close>)
    qed
    with False show ?thesis by (simp add: without_line_feeds_def runes_def)
  qed
qed (simp add: without_line_feeds_def runes_def)

lemma chunk_end_bounds: "0 < limit \<Longrightarrow> 0 < chunk_end rs limit \<and> chunk_end rs limit \<le> limit"
proof -
  have "i \<in> {limit div 2 + 1..<limit}" if "find P (rev [limit div 2 + 1..<limit]) = Some i" for P i
  proof -
    from that have "i \<in> set (rev [limit div 2 + 1..<limit])" unfolding find_Some_iff by (metis nth_mem)
    then show ?thesis by simp
  qed
  then show "0 < limit \<Longrightarrow> 0 < chunk_end rs limit \<and> chunk_end rs limit \<le> limit"
    by (fastforce simp: chunk_end_def split: option.split)
qed

lemma runes_utf8_length: "length (runes (utf8 rs)) = length rs"
  by (simp add: runes_utf8)

text \<open>With a limit of zero the code's loop does not end; its callers give 640, 1000, 1024 and 4096.\<close>

function text_chunks :: "string \<Rightarrow> nat \<Rightarrow> string list" where
  "text_chunks txt limit =
     (if limit > 0 \<and> rune_count txt > limit
      then let rs = runes txt; stop_at = chunk_end rs limit in
        utf8 (take stop_at rs) # text_chunks (without_line_feeds (utf8 (drop stop_at rs))) limit
      else if txt \<noteq> [] then [txt] else [])"
  by pat_completeness auto
termination
proof (relation "measure (\<lambda>(txt, limit). rune_count txt)")
  fix t :: string and limit :: nat and rs stop_at
  assume big: "limit > 0 \<and> rune_count t > limit" and rs: "rs = runes t" and stop_at: "stop_at = chunk_end rs limit"
  have "length (dropWhile P xs) \<le> length xs" for P and xs :: "nat list" by (rule length_dropWhile_le)
  then have "rune_count (without_line_feeds (utf8 (drop stop_at rs))) \<le> length (drop stop_at rs)"
    unfolding rune_count_def trimmed_runes using runes_utf8_length [of "drop stop_at rs"] by (metis)
  also have "\<dots> < rune_count t"
    using big chunk_end_bounds [of limit rs] by (auto simp: rs stop_at rune_count_def)
  finally show "((without_line_feeds (utf8 (drop stop_at rs)), limit), t, limit) \<in> measure (\<lambda>(txt, limit). rune_count txt)"
    by simp
qed simp

declare text_chunks.simps [simp del]

section \<open>Updates\<close>

record meta_caption =
  mc_id :: string
  mc_caption :: string

record meta_media =
  mx_id :: string
  mx_mime_type :: string

record wa_interactive =
  wi_type :: string
  wi_button_id :: string
  wi_list_id :: string

record wa_message =
  wm_from :: string
  wm_id :: string
  wm_timestamp :: string
  wm_type :: string
  wm_interactive :: "wa_interactive option"
  wm_body :: string
  wm_image :: "meta_caption option"
  wm_video :: "meta_caption option"
  wm_document :: "meta_caption option"
  wm_audio :: "meta_media option"
  wm_voice :: "meta_media option"
  wm_sticker :: "meta_media option"
  wm_location :: bool
  wm_contacts :: nat

record wa_echo =
  we_message :: wa_message
  we_to :: string

record wa_change =
  wc_field :: string
  wc_product :: string
  wc_phone_number_id :: string
  wc_contacts :: "(string \<times> string) list"
  wc_messages :: "wa_message list"
  wc_echoes :: "wa_echo list"

record direct_attachment =
  da_type :: string
  da_url :: string

record direct_message =
  dg_mid :: string
  dg_quick_reply :: "string option"
  dg_text :: string
  dg_attachments :: "direct_attachment list"
  dg_is_echo :: bool
  dg_app_id :: string
  dg_is_deleted :: bool

record direct_postback =
  pb_mid :: string
  pb_payload :: string

record direct_reaction =
  rx_mid :: string
  rx_action :: string
  rx_reaction :: string
  rx_emoji :: string

record direct_event =
  de_sender :: string
  de_recipient :: string
  de_timestamp :: int
  de_message :: "direct_message option"
  de_postback :: "direct_postback option"
  de_reaction :: "direct_reaction option"

record meta_entry =
  me_id :: string
  me_changes :: "wa_change list"
  me_messaging :: "direct_event list"

record meta_update =
  mu_object :: string
  mu_entries :: "meta_entry list"

text \<open>The part of a delivery that carries receipts, decoded on its own.\<close>

record wa_status =
  ws_reference :: string
  ws_recipient :: string
  ws_state :: string

record receipt_change =
  rc_field :: string
  rc_phone_number_id :: string
  rc_statuses :: "wa_status list"

record receipt_update =
  ru_object :: string
  ru_changes :: "receipt_change list"

section \<open>Shared\<close>

definition meta_malformed :: "string \<Rightarrow> go_error" where
  "meta_malformed t = errors_new (''malformed meta update: '' @ t)"

definition meta_checked :: "envelope \<Rightarrow> envelope result" where
  "meta_checked e = (case envelope_validate e of
     Some err \<Rightarrow> Inl (wrap_error ''malformed meta update'' err) | None \<Rightarrow> Inr e)"

text \<open>A loop that appends to a list and returns at the first error.\<close>

fun gather :: "('a \<Rightarrow> 'b list result) \<Rightarrow> 'a list \<Rightarrow> 'b list result" where
  "gather f [] = Inr []"
| "gather f (x # xs) = (case f x of Inl e \<Rightarrow> Inl e
     | Inr ys \<Rightarrow> (case gather f xs of Inl e \<Rightarrow> Inl e | Inr zs \<Rightarrow> Inr (ys @ zs)))"

definition one :: "'a result \<Rightarrow> 'a list result" where
  "one r = (case r of Inl e \<Rightarrow> Inl e | Inr x \<Rightarrow> Inr [x])"

definition unix_milli :: "int \<Rightarrow> time" where
  "unix_milli ms = 62135596800 * second + ms * 1000000"

definition unknown_sender :: sender where
  "unknown_sender = \<lparr>sn_display_name = [], sn_language = [], sn_username = []\<rparr>"

definition described :: "content_type \<Rightarrow> string \<Rightarrow> string \<Rightarrow> content" where
  "described kind txt description = \<lparr>co_type = kind, co_text = txt, co_audio = None, co_description = description\<rparr>"

definition audio_at :: "string \<Rightarrow> string \<Rightarrow> audio" where
  "audio_at reference mime = \<lparr>au_reference = reference, au_mime_type = mime, au_filename = [], au_size_bytes = 0, au_duration_seconds = 0\<rparr>"

section \<open>WhatsApp\<close>

definition describe_whatsapp_attachment :: "wa_message \<Rightarrow> string" where
  "describe_whatsapp_attachment m =
     (if wm_image m \<noteq> None then ''photo'' else if wm_voice m \<noteq> None then ''voice message''
      else if wm_audio m \<noteq> None then ''audio file'' else if wm_video m \<noteq> None then ''video''
      else if wm_sticker m \<noteq> None then ''sticker'' else if wm_document m \<noteq> None then ''file''
      else if wm_location m then ''location'' else if wm_contacts m > 0 then ''contact'' else ''message'')"

definition whatsapp_content :: "wa_message \<Rightarrow> content" where
  "whatsapp_content m =
     (if wm_body m \<noteq> [] then text_content (wm_body m)
      else case List.extract (\<lambda>a. a \<noteq> None) [wm_voice m, wm_audio m] of
        Some (_, Some a, _) \<Rightarrow> (described ContentTypeAudio [] ''voice message'')\<lparr>co_audio := Some (audio_at (mx_id a) (mx_mime_type a))\<rparr>
      | _ \<Rightarrow> (case find (\<lambda>t. t \<noteq> []) (map (\<lambda>c. case c of None \<Rightarrow> [] | Some c \<Rightarrow> mc_caption c) [wm_image m, wm_video m, wm_document m]) of
          Some caption \<Rightarrow> text_content caption
        | None \<Rightarrow> described ContentTypeUnsupported [] (describe_whatsapp_attachment m)))"

text \<open>The id of the pressed button or row.\<close>

definition interactive_payload :: "wa_interactive \<Rightarrow> string" where
  "interactive_payload i = (if wi_type i = ''button_reply'' then wi_button_id i else wi_list_id i)"

definition whatsapp_sent_at :: "wa_message \<Rightarrow> time" where
  "whatsapp_sent_at m = (case parse_int64 (wm_timestamp m) of
     Some seconds \<Rightarrow> if seconds > 0 then unix_time seconds else zero_time | None \<Rightarrow> zero_time)"

definition whatsapp_envelope :: "wa_message \<Rightarrow> string \<Rightarrow> time \<Rightarrow> envelope result" where
  "whatsapp_envelope m profile_name now =
     (if wm_from m = [] \<or> wm_id m = [] then Inl (meta_malformed ''message has no sender or id'')
      else let e = \<lparr>en_provider = ProviderWhatsApp, en_message_id = wm_id m, en_choice_message_id = [],
             en_user_id = wm_from m, en_thread_id = wm_from m, en_sent_at = whatsapp_sent_at m, en_received_at = now,
             en_sender = unknown_sender\<lparr>sn_display_name := profile_name\<rparr>, en_content = whatsapp_content m\<rparr> in
        meta_checked (case wm_interactive m of None \<Rightarrow> e
        | Some i \<Rightarrow> (case decode_choice (interactive_payload i) of (token, label) \<Rightarrow>
            e\<lparr>en_choice_message_id := token, en_content := text_content label\<rparr>)))"

definition profile_names :: "wa_change \<Rightarrow> string table" where
  "profile_names c = fold (\<lambda>(wa_id, name) names. put_row wa_id name names) (wc_contacts c) []"

definition parse_whatsapp_for_number :: "time \<Rightarrow> string \<Rightarrow> meta_update option \<Rightarrow> envelope list result" where
  "parse_whatsapp_for_number now number body = (case body of
       None \<Rightarrow> Inl (meta_malformed ''invalid JSON'')
     | Some u \<Rightarrow>
       if mu_object u \<noteq> ''whatsapp_business_account'' then Inr []
       else gather (\<lambda>c. if wc_field c \<noteq> ''messages'' \<or> (number \<noteq> [] \<and> wc_phone_number_id c \<noteq> number) then Inr []
           else gather (\<lambda>m. one (whatsapp_envelope m (row_or [] (profile_names c) (wm_from m)) now)) (wc_messages c))
         (concat (map me_changes (mu_entries u))))"

definition parse_whatsapp :: "time \<Rightarrow> meta_update option \<Rightarrow> envelope list result" where
  "parse_whatsapp now body = parse_whatsapp_for_number now [] body"

section \<open>Replies written in the Business app\<close>

definition whatsapp_phone :: "string \<Rightarrow> bool" where
  "whatsapp_phone v \<longleftrightarrow> v \<noteq> [] \<and> list_all digit v"

definition echo_content :: "wa_message \<Rightarrow> content" where
  "echo_content m = (let c = whatsapp_content m in
     if co_type c \<noteq> ContentTypeText
     then described ContentTypeUnsupported (''[Staff sent '' @ describe_whatsapp_attachment m @ '' from the WhatsApp Business app]'') []
     else c)"

definition whatsapp_echo :: "time \<Rightarrow> wa_echo \<Rightarrow> external_reply list result" where
  "whatsapp_echo now echo =
     (let m = we_message echo in
      if wm_type m = ''edit'' \<or> wm_type m = ''revoke'' then Inr []
      else case parse_int64 (wm_timestamp m) of
        None \<Rightarrow> Inl (meta_malformed ''invalid business app echo'')
      | Some seconds \<Rightarrow>
        if seconds \<le> 0 \<or> wm_id m = [] \<or> \<not> whatsapp_phone (wm_from m) \<or> \<not> whatsapp_phone (we_to echo) \<or> wm_from m = we_to echo
        then Inl (meta_malformed ''invalid business app echo'')
        else Inr [\<lparr>er_provider = ProviderWhatsApp, er_message_id = wm_id m, er_thread_id = we_to echo,
               er_content = echo_content m,
               er_sent_at = (if after (unix_time seconds) now then now else unix_time seconds), er_received_at = now\<rparr>])"

definition parse_whatsapp_external_replies :: "time \<Rightarrow> string \<Rightarrow> meta_update option \<Rightarrow> external_reply list result" where
  "parse_whatsapp_external_replies now number body =
     (if number = [] then Inr []
      else case body of
        None \<Rightarrow> Inl (meta_malformed ''invalid JSON'')
      | Some u \<Rightarrow>
        if mu_object u \<noteq> ''whatsapp_business_account'' then Inr []
        else gather (\<lambda>c. if wc_field c \<noteq> ''smb_message_echoes'' \<or> wc_product c \<noteq> ''whatsapp'' \<or> wc_phone_number_id c \<noteq> number
            then Inr [] else gather (whatsapp_echo now) (wc_echoes c))
          (concat (map me_changes (mu_entries u))))"

section \<open>Instagram and Messenger\<close>

definition direct_object :: "provider \<Rightarrow> string" where
  "direct_object p = (if p = ProviderInstagram then ''instagram'' else ''page'')"

definition event_time :: "time \<Rightarrow> direct_event \<Rightarrow> time" where
  "event_time now ev = (if de_timestamp ev > 0 then unix_milli (de_timestamp ev) else now)"

definition direct_envelope :: "provider \<Rightarrow> time \<Rightarrow> direct_event \<Rightarrow> string \<Rightarrow> string \<Rightarrow> content \<Rightarrow> envelope" where
  "direct_envelope p now ev mid token c =
     \<lparr>en_provider = p, en_message_id = mid, en_choice_message_id = token, en_user_id = de_sender ev,
      en_thread_id = de_sender ev, en_sent_at = event_time now ev, en_received_at = now, en_sender = unknown_sender, en_content = c\<rparr>"

definition postback_envelope :: "provider \<Rightarrow> time \<Rightarrow> direct_event \<Rightarrow> direct_postback \<Rightarrow> envelope" where
  "postback_envelope p now ev pb = (case decode_choice (pb_payload pb) of (token, label) \<Rightarrow>
     direct_envelope p now ev
       (if pb_mid pb = [] then ''postback:'' @ de_sender ev @ '':'' @ decimal (de_timestamp ev) else pb_mid pb)
       token (text_content label))"

text \<open>
  \<open>strings.EqualFold\<close> with a word of ASCII letters: besides the capitals, the long s and the Kelvin
  sign fold to letters of ASCII.
\<close>

definition fold_rune :: "nat \<Rightarrow> nat" where
  "fold_rune r = (if r = 0x17F then 0x73 else if r = 0x212A then 0x6B else if 65 \<le> r \<and> r \<le> 90 then r + 32 else r)"

definition equal_fold :: "string \<Rightarrow> string \<Rightarrow> bool" where
  "equal_fold s word \<longleftrightarrow> map fold_rune (runes s) = map fold_rune (runes word)"

definition reaction_text :: "direct_reaction \<Rightarrow> string" where
  "reaction_text r =
     (let reaction = (if trim_space (rx_emoji r) = [] then trim_space (rx_reaction r) else trim_space (rx_emoji r)) in
      if equal_fold (rx_action r) ''unreact'' \<or> equal_fold (rx_action r) ''remove''
      then ''[The customer removed a reaction from a previous message. This is feedback only, not confirmation of a booking or change.]''
      else ''[The customer reacted '' @ reaction @
        '' to a previous message. This is feedback only, not confirmation of a booking or change.]'')"

definition reaction_envelope :: "provider \<Rightarrow> time \<Rightarrow> direct_event \<Rightarrow> direct_reaction \<Rightarrow> envelope" where
  "reaction_envelope p now ev r = direct_envelope p now ev
     (''reaction:'' @ rx_mid r @ '':'' @ decimal (de_timestamp ev) @ '':'' @ rx_action r) [] (text_content (reaction_text r))"

definition describe_direct_attachment :: "direct_message \<Rightarrow> string" where
  "describe_direct_attachment m = (case dg_attachments m of
       [] \<Rightarrow> ''attachment''
     | a # _ \<Rightarrow> if da_type a = ''image'' then ''photo'' else if da_type a = ''audio'' then ''voice message''
         else if da_type a = ''video'' then ''video'' else if da_type a = ''file'' then ''file''
         else if da_type a = ''share'' \<or> da_type a = ''ig_reel'' \<or> da_type a = ''reel'' then ''shared post'' else ''attachment'')"

definition direct_content :: "direct_message \<Rightarrow> content" where
  "direct_content m = (case dg_attachments m of
       a # _ \<Rightarrow>
         if da_type a = ''audio'' \<and> da_url a \<noteq> []
         then (described ContentTypeAudio (dg_text m) ''voice message'')\<lparr>co_audio := Some (audio_at (da_url a) [])\<rparr>
         else if dg_text m = [] then described ContentTypeUnsupported [] (describe_direct_attachment m)
         else text_content (dg_text m)
     | [] \<Rightarrow> if dg_text m = [] then described ContentTypeUnsupported [] ''attachment'' else text_content (dg_text m))"

definition direct_message_envelope :: "provider \<Rightarrow> time \<Rightarrow> direct_event \<Rightarrow> direct_message \<Rightarrow> envelope" where
  "direct_message_envelope p now ev m = (case dg_quick_reply m of
       None \<Rightarrow> direct_envelope p now ev (dg_mid m) [] (direct_content m)
     | Some payload \<Rightarrow> (case decode_choice payload of (token, label) \<Rightarrow>
         direct_envelope p now ev (dg_mid m) token (text_content label)))"

text \<open>What the account did not send itself, and was sent to it.\<close>

definition incoming :: "string \<Rightarrow> direct_event \<Rightarrow> bool" where
  "incoming account ev \<longleftrightarrow> de_sender ev \<noteq> account \<and> de_recipient ev = account"

definition direct_event_envelopes :: "provider \<Rightarrow> string \<Rightarrow> time \<Rightarrow> direct_event \<Rightarrow> envelope list result" where
  "direct_event_envelopes p account now ev =
     (if \<not> incoming account ev then Inr []
      else case (de_postback ev, de_message ev, de_reaction ev) of
        (Some pb, _, _) \<Rightarrow> one (meta_checked (postback_envelope p now ev pb))
      | (None, Some m, _) \<Rightarrow>
        if dg_is_echo m \<or> dg_is_deleted m then Inr [] else one (meta_checked (direct_message_envelope p now ev m))
      | (None, None, Some r) \<Rightarrow>
        if rx_mid r = [] \<or> rx_action r = [] then Inl (meta_malformed ''reaction is missing its message or action'')
        else one (meta_checked (reaction_envelope p now ev r))
      | (None, None, None) \<Rightarrow> Inr [])"

definition parse_direct :: "time \<Rightarrow> provider \<Rightarrow> string \<Rightarrow> meta_update option \<Rightarrow> envelope list result" where
  "parse_direct now p account body = (case body of
       None \<Rightarrow> Inl (meta_malformed ''invalid JSON'')
     | Some u \<Rightarrow>
       if mu_object u \<noteq> direct_object p \<or> account = [] then Inr []
       else gather (\<lambda>entry. if me_id entry \<noteq> account then Inr []
           else gather (direct_event_envelopes p account now) (me_messaging entry)) (mu_entries u))"

section \<open>Replies written in the business inbox\<close>

text \<open>An app id that is missing, or says none, in the JSON it is kept as.\<close>

definition no_app_id :: "string \<Rightarrow> bool" where
  "no_app_id raw \<longleftrightarrow> raw = [] \<or> raw = ''null'' \<or> raw = ''0'' \<or> raw = [CHR 0x22, CHR 0x22]"

definition inbox_echo :: "direct_message \<Rightarrow> content" where
  "inbox_echo m =
     (if dg_text m = [] then described ContentTypeUnsupported ''[Administrator sent an attachment from the business inbox]'' []
      else text_content (dg_text m))"

definition direct_echo :: "provider \<Rightarrow> string \<Rightarrow> time \<Rightarrow> direct_event \<Rightarrow> external_reply list result" where
  "direct_echo p account now ev = (case de_message ev of
       None \<Rightarrow> Inr []
     | Some m \<Rightarrow>
       if \<not> dg_is_echo m \<or> dg_is_deleted m \<or> de_sender ev \<noteq> account \<or> de_recipient ev = [] \<or> de_recipient ev = account
       then Inr []
       else if \<not> no_app_id (dg_app_id m) then Inr []
       else if dg_mid m = [] \<or> de_timestamp ev \<le> 0 then Inl (meta_malformed ''incomplete outbound echo'')
       else let at = unix_milli (de_timestamp ev) in
         Inr [\<lparr>er_provider = p, er_message_id = dg_mid m, er_thread_id = de_recipient ev, er_content = inbox_echo m,
           er_sent_at = (if after at now then now else at), er_received_at = now\<rparr>])"

definition parse_direct_external_replies :: "time \<Rightarrow> provider \<Rightarrow> string \<Rightarrow> meta_update option \<Rightarrow> external_reply list result" where
  "parse_direct_external_replies now p account body = (case body of
       None \<Rightarrow> Inl (meta_malformed ''invalid JSON'')
     | Some u \<Rightarrow>
       if account = [] \<or> mu_object u \<noteq> direct_object p then Inr []
       else gather (\<lambda>entry. if me_id entry \<noteq> account then Inr []
           else gather (direct_echo p account now) (me_messaging entry)) (mu_entries u))"

section \<open>Proofs of origin\<close>

definition first_value :: "string list table \<Rightarrow> string \<Rightarrow> string" where
  "first_value query key = (case get_row query key of Some (v # _) \<Rightarrow> v | _ \<Rightarrow> [])"

definition verify_challenge :: "string \<Rightarrow> string list table \<Rightarrow> string option" where
  "verify_challenge verify_token query =
     (if first_value query ''hub.mode'' \<noteq> ''subscribe'' then None
      else if first_value query ''hub.verify_token'' \<noteq> verify_token then None
      else let challenge = first_value query ''hub.challenge'' in if challenge = [] then None else Some challenge)"

definition hex_value :: "char \<Rightarrow> nat option" where
  "hex_value c = (let n = of_char c :: nat in
     if 48 \<le> n \<and> n \<le> 57 then Some (n - 48) else if 97 \<le> n \<and> n \<le> 102 then Some (n - 87)
     else if 65 \<le> n \<and> n \<le> 70 then Some (n - 55) else None)"

text \<open>\<open>hex.DecodeString\<close>\<close>

fun hex_decode :: "string \<Rightarrow> string option" where
  "hex_decode [] = Some []"
| "hex_decode [c] = None"
| "hex_decode (c # d # s) = (case (hex_value c, hex_value d, hex_decode s) of
     (Some a, Some b, Some t) \<Rightarrow> Some (char_of (16 * a + b) # t) | _ \<Rightarrow> None)"

definition verify_signature :: "(string \<Rightarrow> string \<Rightarrow> string) \<Rightarrow> string \<Rightarrow> string \<Rightarrow> string \<Rightarrow> bool" where
  "verify_signature hmac secret header body =
     (has_prefix header ''sha256='' \<and>
      (case hex_decode (trim_prefix header ''sha256='') of None \<Rightarrow> False | Some want \<Rightarrow> hmac secret body = want))"

end
