(* ===== verification/MetaClient.thy ===== *)
theory MetaClient
  imports MetaUpdates Handle Notifications
begin

text \<open>
  The Graph API client (\<open>messaging/meta/client.go\<close>, \<open>health.go\<close>, \<open>reminder.go\<close>,
  \<open>booking_notifications.go\<close>, and the sending halves of \<open>whatsapp.go\<close> and \<open>direct.go\<close>): one call as a
  request whose answer the environment gives, the classification of that answer, and the operations
  built from calls. The state adds to the assistant's world the posts Meta was sent with their
  answers, and the profiles the channel's client remembers. A request that cannot be built or
  encoded does not occur for these payloads; constructing the HTTP client is left out.
\<close>

section \<open>Calls\<close>

datatype graph_payload =
    WaText string string
  | WaInteractive string string wa_controls
  | WaRead string
  | WaTemplate string string string "string list" string
  | DirectText string string string "quick_reply list"
  | DirectButtons string string string "direct_button list"
  | DirectAction string string

text \<open>The name and language of the template a body carries, empty when it carries none.\<close>

fun payload_template :: "graph_payload \<Rightarrow> string \<times> string" where
  "payload_template (WaTemplate recipient name lang values reference) = (name, lang)"
| "payload_template p = ([], [])"

text \<open>What reading the answer as JSON gives; fields that are not there are empty.\<close>

record graph_body =
  gb_message :: string
  gb_user_message :: string
  gb_code :: int
  gb_subcode :: int
  gb_message_id :: string

datatype graph_answer =
    Unreachable string
  | Unread string
  | GraphAnswered int graph_body

text \<open>The answer to a read, with the value decoded from it when it was a success.\<close>

datatype 'a get_answer =
    GetUnreachable string
  | GetUnread string
  | GetAnswered int graph_body "'a option"

definition graph_translate :: "(int \<Rightarrow> string) \<Rightarrow> string \<Rightarrow> int \<Rightarrow> graph_body \<Rightarrow> go_error" where
  "graph_translate status_text path st b =
     (let txt = (if gb_user_message b \<noteq> [] then gb_user_message b
          else if gb_message b = [] then status_text st else gb_message b);
          report = (\<lambda>kinds. GoErr kinds (''meta '' @ path @ '': '' @ txt)) in
      if gb_code b = 190 \<or> gb_code b = 102 \<or> st = 401 then report [GraphRejected, GraphAuthorization]
      else if gb_code b = 131047 \<or> gb_subcode b = 131047 then report [OutsideServiceWindow]
      else if st = 429 \<or> st \<ge> 500 then report [GraphUnavailable]
      else report [GraphRejected])"

definition success :: "int \<Rightarrow> bool" where "success st \<longleftrightarrow> 200 \<le> st \<and> st < 300"

definition unanswered :: "sentinel list \<Rightarrow> string \<Rightarrow> string \<Rightarrow> go_error" where
  "unanswered kinds path t = GoErr kinds (''meta '' @ path @ '': '' @ t)"

text \<open>\<open>fmt.Errorf\<close> with another sentinel in front.\<close>

definition marked :: "sentinel \<Rightarrow> go_error \<Rightarrow> go_error" where
  "marked s e = GoErr (s # wraps e) (message e)"

text \<open>The end of \<open>post\<close>: the id in an accepted answer, or the error.\<close>

definition read_post :: "(int \<Rightarrow> string) \<Rightarrow> string \<Rightarrow> graph_answer \<Rightarrow> string result" where
  "read_post status_text path answer = (case answer of
       Unreachable t \<Rightarrow> Inl (unanswered [DeliveryUncertain, GraphUnavailable] path t)
     | Unread t \<Rightarrow> Inl (unanswered [DeliveryUncertain, GraphUnavailable] path (''read response: '' @ t))
     | GraphAnswered st b \<Rightarrow>
       if success st then Inr (gb_message_id b)
       else let e = graph_translate status_text path st b in
         Inl (if errors_is e GraphRejected \<or> errors_is e OutsideServiceWindow then marked DeliveryRejected e
              else if st \<ge> 500 then marked DeliveryUncertain e else e))"

definition read_get :: "(int \<Rightarrow> string) \<Rightarrow> string \<Rightarrow> 'a get_answer \<Rightarrow> 'a result" where
  "read_get status_text path answer = (case answer of
       GetUnreachable t \<Rightarrow> Inl (unanswered [GraphUnavailable] path t)
     | GetUnread t \<Rightarrow> Inl (unanswered [GraphUnavailable] path (''read response: '' @ t))
     | GetAnswered st b got \<Rightarrow>
       if \<not> success st then Inl (graph_translate status_text path st b)
       else (case got of None \<Rightarrow> Inl (errors_new (''meta '' @ path @ '': decode response'')) | Some v \<Rightarrow> Inr v))"

section \<open>The client over the world\<close>

record direct_profile =
  dq_name :: string
  dq_username :: string
  dq_first_name :: string
  dq_last_name :: string
  dq_locale :: string

record direct_account =
  dx_id :: string
  dx_data :: bool

record health_entity =
  he_id :: string
  he_type :: string
  he_can_send :: string

record phone_health =
  ph_can_send :: string
  ph_entities :: "health_entity list"
  ph_quality :: string
  ph_platform :: string

record template_status =
  ts_name :: string
  ts_language :: string
  ts_status :: string
  ts_category :: string

record template_page =
  tp_data :: "template_status list"
  tp_next :: string
  tp_after :: string

record meta_world =
  gw_world :: world
  gw_posts :: "(graph_payload \<times> graph_answer) list"
  gw_profiles :: "sender table"

record meta_env = handle_env +
  mt_post :: "nat \<Rightarrow> string \<Rightarrow> graph_payload \<Rightarrow> graph_answer"
  mt_profile :: "nat \<Rightarrow> string \<Rightarrow> string \<Rightarrow> direct_profile get_answer"
  mt_account :: "nat \<Rightarrow> string \<Rightarrow> direct_account get_answer"
  mt_phone :: "nat \<Rightarrow> string \<Rightarrow> phone_health get_answer"
  mt_templates :: "nat \<Rightarrow> string \<Rightarrow> string \<Rightarrow> template_page get_answer"
  mt_status_text :: "int \<Rightarrow> string"
  mt_escape :: "string \<Rightarrow> string"
  mt_date :: "time \<Rightarrow> string"
  mt_clock :: "time \<Rightarrow> string"
  mt_wait :: "nat \<Rightarrow> go_error option"
  mt_decode :: "string \<Rightarrow> meta_update option"
  mt_receipts :: "string \<Rightarrow> receipt_update option"
  mt_hmac :: "string \<Rightarrow> string \<Rightarrow> string"

text \<open>A client of one app: its WhatsApp number, the health guard, and where accepted sends are recorded.\<close>

record graph_client =
  gk_number :: string
  gk_guard :: "notify_env option"
  gk_observer :: "(notify_env \<times> provider \<times> string) option"

text \<open>A step of the assistant inside the adapter's world.\<close>

definition within :: "(world, 'a) proc \<Rightarrow> (meta_world, 'a) proc" where
  "within m t = (case m (gw_world t) of (r, w) \<Rightarrow> (r, t\<lparr>gw_world := w\<rparr>))"

definition messages_path :: "string \<Rightarrow> string" where "messages_path i = i @ ''/messages''"

definition post_call :: "'e meta_env_scheme \<Rightarrow> string \<Rightarrow> graph_payload \<Rightarrow> (meta_world, string) proc" where
  "post_call env path payload t =
     (let answer = mt_post env (w_tick (gw_world t)) path payload in
      (read_post (mt_status_text env) path answer,
       t\<lparr>gw_world := tick (gw_world t), gw_posts := gw_posts t @ [(payload, answer)]\<rparr>))"

definition get_call :: "'e meta_env_scheme \<Rightarrow> string \<Rightarrow> (nat \<Rightarrow> 'a get_answer) \<Rightarrow> (meta_world, 'a) proc" where
  "get_call env path answer t =
     (read_get (mt_status_text env) path (answer (w_tick (gw_world t))), t\<lparr>gw_world := tick (gw_world t)\<rparr>)"

definition delivery_guard :: "graph_client \<Rightarrow> string \<Rightarrow> graph_payload \<Rightarrow> (meta_world, bool) proc" where
  "delivery_guard c path payload = (case gk_guard c of
       Some sv \<Rightarrow> if path = messages_path (gk_number c)
         then within (health_allows_send sv (fst (payload_template payload)) (snd (payload_template payload))) else ret True
     | None \<Rightarrow> ret True)"

definition observe_response :: "graph_client \<Rightarrow> string \<Rightarrow> string \<Rightarrow> (meta_world, unit) proc" where
  "observe_response c path message_id = (case gk_observer c of
       Some (sv, p, account) \<Rightarrow>
         if path \<noteq> messages_path account \<or> message_id = [] then ret () else within (record_direct_send sv p message_id)
     | None \<Rightarrow> ret ())"

definition delivery_paused :: go_error where
  "delivery_paused = GoErr [GraphRejected, DeliveryRejected] ''WhatsApp delivery paused''"

definition graph_post :: "'e meta_env_scheme \<Rightarrow> graph_client \<Rightarrow> string \<Rightarrow> graph_payload \<Rightarrow> (meta_world, unit) proc" where
  "graph_post env c path payload =
     attempt (delivery_guard c path payload) (wrap_error ''check WhatsApp delivery health'') (\<lambda>allowed.
       if \<not> allowed then fail delivery_paused
       else attempt (post_call env path payload) id (\<lambda>message_id.
         attempt (observe_response c path message_id)
           (\<lambda>e. wrap_error ''record accepted Meta send'' (marked DeliveryUncertain e)) ret))"

section \<open>WhatsApp\<close>

definition partial_reply :: "go_error \<Rightarrow> go_error" where
  "partial_reply e = marked DeliveryUncertain (wrap_error ''partial reply'' e)"

text \<open>Sending the pieces of a text: a failure after the first piece leaves a part of the reply sent.\<close>

fun send_pieces :: "(string \<Rightarrow> (meta_world, unit) proc) \<Rightarrow> nat \<Rightarrow> string list \<Rightarrow> (meta_world, unit) proc" where
  "send_pieces send i [] = ret ()"
| "send_pieces send i (p # ps) =
     attempt (send p) (\<lambda>e. if i > 0 then partial_reply e else e) (\<lambda>_. send_pieces send (i + 1) ps)"

definition link_lines :: "outgoing \<Rightarrow> string" where
  "link_lines out = og_text out @ concat (map (\<lambda>l. [CHR 0x0A, CHR 0x0A] @ lk_label l @ '': '' @ lk_url l) (og_links out))"

definition whatsapp_texts ::
  "'e meta_env_scheme \<Rightarrow> graph_client \<Rightarrow> (string \<Rightarrow> (meta_world, unit) proc) \<Rightarrow> outgoing \<Rightarrow> (meta_world, unit) proc" where
  "whatsapp_texts env c self out =
     (let parts = text_chunks (og_text out) 4096 in
      if length parts > 1 then send_pieces self 0 parts
      else graph_post env c (messages_path (gk_number c)) (WaText (og_thread_id out) (og_text out)))"

text \<open>The body of \<open>SendWhatsApp\<close>, with the function it calls on a piece of the text.\<close>

definition whatsapp_body ::
  "'e meta_env_scheme \<Rightarrow> graph_client \<Rightarrow> (outgoing \<Rightarrow> (meta_world, unit) proc) \<Rightarrow> outgoing \<Rightarrow> (meta_world, unit) proc" where
  "whatsapp_body env c self out =
     (if og_provider out \<noteq> ProviderWhatsApp then fail (errors_new (''whatsapp client cannot deliver to '' @ og_provider out))
      else case outgoing_validate out of Some e \<Rightarrow> fail e
      | None \<Rightarrow>
        if gk_number c = [] then fail (errors_new ''whatsapp: no phone number id is configured'')
        else let self = (\<lambda>part. self (plain_message (og_provider out) (og_thread_id out) part));
                 out = out\<lparr>og_text := link_lines out, og_links := []\<rparr>;
                 parts = text_chunks (og_text out) 1024; final = out\<lparr>og_text := last parts\<rparr> in
          if length (og_choices out) > 0
          then attempt (send_pieces self 0 (butlast parts)) id (\<lambda>_. case whatsapp_interactive final of
              Some controls \<Rightarrow> attempt (graph_post env c (messages_path (gk_number c))
                  (WaInteractive (og_thread_id out) (og_text final) controls))
                (\<lambda>e. if length parts > 1 then partial_reply e else e) ret
            | None \<Rightarrow> whatsapp_texts env c self final)
          else whatsapp_texts env c self out)"

text \<open>
  The calls of \<open>SendWhatsApp\<close> on itself, nested at most \<open>n\<close> deep. A piece is short enough not to be
  cut again, so two levels are all there are.
\<close>

fun whatsapp_nested ::
  "nat \<Rightarrow> 'e meta_env_scheme \<Rightarrow> graph_client \<Rightarrow> outgoing \<Rightarrow> (meta_world, unit) proc" where
  "whatsapp_nested 0 env c out = fail (errors_new ''nested too deep'')"
| "whatsapp_nested (Suc n) env c out = whatsapp_body env c (whatsapp_nested n env c) out"

definition whatsapp_levels :: nat where "whatsapp_levels = 2"

definition send_whatsapp :: "'e meta_env_scheme \<Rightarrow> graph_client \<Rightarrow> outgoing \<Rightarrow> (meta_world, unit) proc" where
  "send_whatsapp env c out = whatsapp_nested whatsapp_levels env c out"

definition whatsapp_begin_feedback :: "'e meta_env_scheme \<Rightarrow> graph_client \<Rightarrow> envelope \<Rightarrow> (meta_world, unit) proc" where
  "whatsapp_begin_feedback env c e =
     (if gk_number c = [] \<or> en_message_id e = [] then ret ()
      else graph_post env c (messages_path (gk_number c)) (WaRead (en_message_id e)))"

definition whatsapp_end_feedback :: "envelope \<Rightarrow> (meta_world, unit) proc" where
  "whatsapp_end_feedback e = ret ()"

section \<open>Templates\<close>

definition em_dash_text :: string where "em_dash_text = utf8 [0x2014]"

definition template_value :: "string \<Rightarrow> string" where
  "template_value v = (let v = join_with '' '' (string_fields v) in if v = [] then em_dash_text else v)"

definition send_booking_template_with_reference ::
  "'e meta_env_scheme \<Rightarrow> graph_client \<Rightarrow> string \<Rightarrow> string \<Rightarrow> string \<Rightarrow> string list \<Rightarrow> string \<Rightarrow> (meta_world, unit) proc" where
  "send_booking_template_with_reference env c recipient name lang values reference =
     graph_post env c (messages_path (gk_number c))
       (WaTemplate recipient name lang (map template_value values) reference)"

definition send_booking_template ::
  "'e meta_env_scheme \<Rightarrow> graph_client \<Rightarrow> string \<Rightarrow> string \<Rightarrow> string \<Rightarrow> string list \<Rightarrow> (meta_world, unit) proc" where
  "send_booking_template env c recipient name lang values =
     send_booking_template_with_reference env c recipient name lang values []"

record template_reminders =
  tr_client :: graph_client
  tr_templates :: "string table"

definition template_supported :: "template_reminders \<Rightarrow> string \<Rightarrow> bool" where
  "template_supported s lang \<longleftrightarrow> row_or [] (tr_templates s) lang \<noteq> []"

definition send_reminder_with_reference ::
  "'e meta_env_scheme \<Rightarrow> template_reminders \<Rightarrow> outgoing \<Rightarrow> string \<Rightarrow> booking \<Rightarrow> string \<Rightarrow> string \<Rightarrow> (meta_world, unit) proc" where
  "send_reminder_with_reference env s out lang b calendar_url reference =
     (let name = row_or [] (tr_templates s) lang in
      if name = [] \<or> og_provider out \<noteq> ProviderWhatsApp \<or> calendar_url = []
      then fail (errors_new ''approved reminder template or private calendar link unavailable'')
      else graph_post env (tr_client s) (messages_path (gk_number (tr_client s)))
        (WaTemplate (og_thread_id out) name lang
          (map template_value [bk_customer_name b, mt_date env (bk_starts_at b), mt_clock env (bk_starts_at b),
             join_with '', '' (bk_service_names b), bk_staff_name b, calendar_url]) reference))"

definition send_reminder_template ::
  "'e meta_env_scheme \<Rightarrow> template_reminders \<Rightarrow> outgoing \<Rightarrow> string \<Rightarrow> booking \<Rightarrow> string \<Rightarrow> (meta_world, unit) proc" where
  "send_reminder_template env s out lang b calendar_url = send_reminder_with_reference env s out lang b calendar_url []"

section \<open>Health of the WhatsApp number\<close>

definition entity_blocks :: "phone_health \<Rightarrow> bool" where
  "entity_blocks p \<longleftrightarrow> list_ex (\<lambda>n. he_can_send n = ''BLOCKED'') (ph_entities p)"

definition business_account :: "phone_health \<Rightarrow> string" where
  "business_account p = fold (\<lambda>n waba. if he_type n = ''WABA'' then he_id n else waba) (ph_entities p) []"

definition number_health :: "phone_health \<Rightarrow> channel_health" where
  "number_health p = zero_health\<lparr>hl_known := True,
     hl_blocked := (ph_can_send p = ''BLOCKED'' \<or> (ph_platform p \<noteq> [] \<and> ph_platform p \<noteq> ''CLOUD_API'') \<or> entity_blocks p),
     hl_proactive_paused := (ph_quality p = ''RED'')\<rparr>"

definition note_template :: "bool table \<Rightarrow> template_status \<Rightarrow> bool table \<Rightarrow> bool table" where
  "note_template expected ts approved =
     (let key = ts_name ts @ '':'' @ ts_language ts in
      if row_or False expected key
      then put_row key (ts_status ts = ''APPROVED'' \<and> ts_category ts = ''UTILITY'') approved else approved)"

fun read_template_pages ::
  "nat \<Rightarrow> 'e meta_env_scheme \<Rightarrow> string \<Rightarrow> bool table \<Rightarrow> string \<Rightarrow> bool table \<Rightarrow> (meta_world, bool table) proc" where
  "read_template_pages 0 env waba expected after_cursor approved = fail (errors_new ''meta template listing did not complete'')"
| "read_template_pages (Suc n) env waba expected after_cursor approved =
     attempt (get_call env (waba @ ''/message_templates'') (\<lambda>k. mt_templates env k waba after_cursor)) id (\<lambda>page.
       let approved = fold (note_template expected) (tp_data page) approved in
       if tp_next page = [] then ret approved
       else if trim_space (tp_after page) = [] then fail (errors_new ''meta template listing did not complete'')
       else read_template_pages n env waba expected (tp_after page) approved)"

definition template_page_bound :: nat where "template_page_bound = 10"

definition read_utility_templates ::
  "'e meta_env_scheme \<Rightarrow> string \<Rightarrow> bool table \<Rightarrow> (meta_world, bool table) proc" where
  "read_utility_templates env waba expected =
     read_template_pages template_page_bound env waba expected [] (map (\<lambda>(key, _). (key, False)) expected)"

definition read_whatsapp_health ::
  "'e meta_env_scheme \<Rightarrow> graph_client \<Rightarrow> bool table \<Rightarrow> (meta_world, channel_health) proc" where
  "read_whatsapp_health env c expected =
     attempt (get_call env (gk_number c) (\<lambda>k. mt_phone env k (gk_number c))) id (\<lambda>p.
       if ph_can_send p \<notin> {''AVAILABLE'', ''LIMITED'', ''BLOCKED''} then fail (errors_new ''meta did not report messaging health'')
       else let health = number_health p; waba = business_account p in
         if hl_blocked health \<or> length expected = 0 \<or> waba = [] then ret health
         else observe (read_utility_templates env waba expected) (\<lambda>r. ret (case r of
           Inl _ \<Rightarrow> health | Inr approved \<Rightarrow> health\<lparr>hl_templates := approved, hl_templates_known := True\<rparr>)))"

section \<open>Instagram and Messenger\<close>

record direct_client =
  dk_client :: graph_client
  dk_provider :: provider
  dk_account :: string
  dk_auth :: "notify_env option"

definition new_direct_client :: "provider \<Rightarrow> string \<Rightarrow> direct_client" where
  "new_direct_client p account = \<lparr>dk_client = \<lparr>gk_number = [], gk_guard = None, gk_observer = None\<rparr>,
     dk_provider = p, dk_account = account, dk_auth = None\<rparr>"

definition set_auth_rejected :: "notify_env \<Rightarrow> direct_client \<Rightarrow> direct_client" where
  "set_auth_rejected sv c = c\<lparr>dk_auth := Some sv\<rparr>"

definition set_outbound_recorder :: "notify_env \<Rightarrow> direct_client \<Rightarrow> direct_client" where
  "set_outbound_recorder sv c = c\<lparr>dk_client := (dk_client c)\<lparr>gk_observer := Some (sv, dk_provider c, dk_account c)\<rparr>\<rparr>"

text \<open>\<open>errors.Join\<close> of the failure and a failure to record it.\<close>

definition joined :: "go_error \<Rightarrow> go_error \<Rightarrow> go_error" where
  "joined e f = the (errors_join (Some e) (Some f))"

definition direct_post :: "'e meta_env_scheme \<Rightarrow> direct_client \<Rightarrow> graph_payload \<Rightarrow> (meta_world, unit) proc" where
  "direct_post env c payload =
     observe (graph_post env (dk_client c) (messages_path (dk_account c)) payload) (\<lambda>r. case r of
       Inr _ \<Rightarrow> ret ()
     | Inl e \<Rightarrow> (case dk_auth c of
         Some sv \<Rightarrow>
           if errors_is e GraphAuthorization
           then observe (within (health_block sv)) (\<lambda>saved. case saved of
               Inl f \<Rightarrow> fail (joined e (wrap_error ''record channel authentication failure'' f)) | Inr _ \<Rightarrow> fail e)
           else fail e
       | None \<Rightarrow> fail e))"

fun in_threes :: "'a list \<Rightarrow> 'a list list" where
  "in_threes (a # b # c # d # xs) = [a, b, c] # in_threes (d # xs)"
| "in_threes [] = []"
| "in_threes xs = [xs]"

fun each :: "('a \<Rightarrow> ('s, unit) proc) \<Rightarrow> 'a list \<Rightarrow> ('s, unit) proc" where
  "each f [] = ret ()"
| "each f (x # xs) = attempt (f x) id (\<lambda>_. each f xs)"

definition message_type :: "direct_client \<Rightarrow> string" where
  "message_type c = (if dk_provider c = ProviderMessenger then ''RESPONSE'' else [])"

definition continued_mark :: string where "continued_mark = utf8 [0x21B3]"

text \<open>Groups of buttons; the text stands above the first, an arrow above the others.\<close>

definition button_payloads :: "direct_client \<Rightarrow> string \<Rightarrow> string \<Rightarrow> direct_button list \<Rightarrow> graph_payload list" where
  "button_payloads c thread txt bs =
     (case in_threes bs of [] \<Rightarrow> []
      | g # gs \<Rightarrow> DirectButtons thread (message_type c) txt g # map (DirectButtons thread (message_type c) continued_mark) gs)"

definition link_buttons :: "outgoing \<Rightarrow> direct_button list" where
  "link_buttons out =
     map (\<lambda>l. \<lparr>bd_type = ''web_url'', bd_url = lk_url l, bd_title = shortened (lk_label l) 20, bd_payload = []\<rparr>) (og_links out)"

definition direct_limit :: "outgoing \<Rightarrow> nat" where
  "direct_limit out = (if length (og_links out) > 0 \<or> length (og_choices out) > 0 then 640 else 1000)"

text \<open>The posts of the last piece of a text, which carries the controls, and of the others.\<close>

definition last_payloads :: "direct_client \<Rightarrow> outgoing \<Rightarrow> string \<Rightarrow> graph_payload list" where
  "last_payloads c out part =
     (if length (og_links out) > 0 then button_payloads c (og_thread_id out) part (link_buttons out)
      else if length (og_choices out) > 0 \<and> length (direct_choice_buttons out) > 0
      then button_payloads c (og_thread_id out) part (direct_choice_buttons out)
      else [DirectText (og_thread_id out) (message_type c) part
        (if length (og_choices out) > 0 then quick_replies out else [])])"

definition direct_payloads :: "direct_client \<Rightarrow> outgoing \<Rightarrow> graph_payload list" where
  "direct_payloads c out =
     (case text_chunks (og_text out) (direct_limit out) of [] \<Rightarrow> []
      | parts \<Rightarrow> map (\<lambda>p. DirectText (og_thread_id out) (message_type c) p []) (butlast parts) @ last_payloads c out (last parts))"

definition link_labels :: "outgoing \<Rightarrow> string" where
  "link_labels out = join_with middle_dot (map lk_label (og_links out))"

definition direct_check :: "direct_client \<Rightarrow> outgoing \<Rightarrow> go_error option" where
  "direct_check c out =
     (if og_provider out \<noteq> dk_provider c
      then Some (errors_new (dk_provider c @ '' client cannot deliver to '' @ og_provider out)) else outgoing_validate out)"

text \<open>Links beside choices go out first, as a message of their own under their labels.\<close>

definition direct_send :: "'e meta_env_scheme \<Rightarrow> direct_client \<Rightarrow> outgoing \<Rightarrow> (meta_world, unit) proc" where
  "direct_send env c out =
     (case direct_check c out of Some e \<Rightarrow> fail e
      | None \<Rightarrow>
        if length (og_links out) > 0 \<and> length (og_choices out) > 0
        then let links = out\<lparr>og_choices := [], og_text := link_labels out\<rparr> in
          (case direct_check c links of Some e \<Rightarrow> fail e
           | None \<Rightarrow> attempt (each (direct_post env c) (direct_payloads c links)) id (\<lambda>_.
               each (direct_post env c) (direct_payloads c (out\<lparr>og_links := []\<rparr>))))
        else each (direct_post env c) (direct_payloads c out))"

definition direct_action :: "'e meta_env_scheme \<Rightarrow> direct_client \<Rightarrow> string \<Rightarrow> string \<Rightarrow> (meta_world, unit) proc" where
  "direct_action env c thread action = direct_post env c (DirectAction thread action)"

definition direct_begin_feedback :: "'e meta_env_scheme \<Rightarrow> direct_client \<Rightarrow> envelope \<Rightarrow> (meta_world, unit) proc" where
  "direct_begin_feedback env c e = direct_action env c (en_thread_id e) ''typing_on''"

definition direct_end_feedback :: "'e meta_env_scheme \<Rightarrow> direct_client \<Rightarrow> envelope \<Rightarrow> (meta_world, unit) proc" where
  "direct_end_feedback env c e = direct_action env c (en_thread_id e) ''typing_off''"

definition account_path :: "direct_client \<Rightarrow> string" where
  "account_path c = dk_account c @ (if dk_provider c = ProviderMessenger then ''/subscribed_apps'' else [])"

definition direct_read_health :: "'e meta_env_scheme \<Rightarrow> direct_client \<Rightarrow> (meta_world, channel_health) proc" where
  "direct_read_health env c =
     observe (get_call env (account_path c) (\<lambda>k. mt_account env k (account_path c))) (\<lambda>r. case r of
       Inl e \<Rightarrow> if errors_is e GraphAuthorization then ret (zero_health\<lparr>hl_known := True, hl_blocked := True\<rparr>) else fail e
     | Inr a \<Rightarrow>
       if dx_id a = [] \<and> \<not> dx_data a then fail (errors_new ''meta health identity unavailable'')
       else ret (zero_health\<lparr>hl_known := True\<rparr>))"

definition profile_sender :: "direct_profile \<Rightarrow> sender" where
  "profile_sender p =
     (let name = trim_space (dq_name p);
          name = (if name = [] then trim_space (dq_first_name p @ '' '' @ dq_last_name p) else name);
          name = (if name = [] then trim_space (dq_username p) else name) in
      \<lparr>sn_display_name = name, sn_language = map (\<lambda>c. if c = CHR ''_'' then CHR ''-'' else c) (dq_locale p),
       sn_username = trim_prefix (trim_space (dq_username p)) ''@''\<rparr>)"

definition remember_profile :: "string \<Rightarrow> sender \<Rightarrow> (meta_world, unit) proc" where
  "remember_profile user p t = (Inr (), t\<lparr>gw_profiles := put_row user p (gw_profiles t)\<rparr>)"

definition profile_fields :: "direct_client \<Rightarrow> string" where
  "profile_fields c = (if dk_provider c = ProviderMessenger then ''first_name,last_name,locale'' else ''name,username'')"

definition resolve_profile :: "'e meta_env_scheme \<Rightarrow> direct_client \<Rightarrow> envelope \<Rightarrow> (meta_world, sender) proc" where
  "resolve_profile env c e t =
     (case get_row (gw_profiles t) (en_user_id e) of
        Some cached \<Rightarrow> (Inr cached, t)
      | None \<Rightarrow> observe (get_call env (mt_escape env (en_user_id e))
            (\<lambda>k. mt_profile env k (mt_escape env (en_user_id e)) (profile_fields c))) (\<lambda>r. case r of
          Inl err \<Rightarrow> attempt (if errors_is err GraphRejected then remember_profile (en_user_id e) unknown_sender else ret ()) id
            (\<lambda>_. fail err)
        | Inr p \<Rightarrow> let found = profile_sender p in
            attempt (if found = unknown_sender then ret () else remember_profile (en_user_id e) found) id (\<lambda>_. ret found)) t)"

end
