(* ===== verification/MetaHandler.thy ===== *)
theory MetaHandler
  imports MetaClient Relay
begin

text \<open>
  The Meta webhooks (\<open>messaging/meta/handler.go\<close>) and the layer of notification commands before the
  assistant (\<open>notificationMessages\<close> of \<open>cmd/gateway/notifications.go\<close>): what one delivery does and the
  status it is answered with. A body of \<open>None\<close> could not be read. Time limits of cosmetic calls are
  part of the environment's answers; the log is left out. The words of the answers to preference
  commands are a parameter.
\<close>

section \<open>The handlers of messages\<close>

record message_layer =
  ml_service :: "notify_env option"
  ml_client :: graph_client
  ml_copy :: "string \<Rightarrow> string \<Rightarrow> string"

datatype meta_channel = WhatsAppNumber string | DirectAccount provider string

datatype meta_feedback = NoFeedback | WhatsAppFeedback graph_client | DirectFeedback direct_client

record meta_handler =
  mh_secret :: string
  mh_verify_token :: string
  mh_channel :: meta_channel
  mh_layer :: "message_layer option"
  mh_feedback :: meta_feedback
  mh_profiles :: "direct_client option"
  mh_statuses :: "(string \<times> notify_env) option"

definition registry_unavailable :: go_error where
  "registry_unavailable = errors_new ''outbound echo registry unavailable''"

text \<open>
  Whether the message is one the service itself sent. The registry is asked again, since the echo may
  overtake the answer that names the message; a wait in between may be cancelled.
\<close>

fun own_echo :: "'e meta_env_scheme \<Rightarrow> notify_env \<Rightarrow> external_reply \<Rightarrow> nat \<Rightarrow> (world, bool) proc" where
  "own_echo env sv r 0 = ret False"
| "own_echo env sv r (Suc n) =
     attempt (is_direct_send sv (er_provider r) (er_message_id r)) id (\<lambda>own.
       if own then ret True
       else attempt (if n > 0 then ask (\<lambda>k. case mt_wait env k of Some e \<Rightarrow> Inl e | None \<Rightarrow> Inr ()) else ret ()) id
         (\<lambda>_. own_echo env sv r n))"

definition echo_attempts :: nat where "echo_attempts = 4"

definition layer_external_reply :: "'e meta_env_scheme \<Rightarrow> message_layer \<Rightarrow> external_reply \<Rightarrow> (world, unit) proc" where
  "layer_external_reply env l r =
     (if er_provider r = ProviderInstagram \<or> er_provider r = ProviderMessenger
      then (case ml_service l of
          None \<Rightarrow> fail registry_unavailable
        | Some sv \<Rightarrow> attempt (own_echo env sv r echo_attempts) id (\<lambda>own.
            if own then ret () else observe_staff_reply env r))
      else observe_staff_reply env r)"

text \<open>Whether updates are wanted, in which language, when the text is a command about them.\<close>

definition whatsapp_notification_preference :: "string \<Rightarrow> string \<Rightarrow> (bool \<times> string) option" where
  "whatsapp_notification_preference txt language =
     (let lang = parse_language language in case string_fields txt of
        [w] \<Rightarrow> if w = ''/notifications_off'' \<or> equal_fold w ''STOP'' then Some (False, lang)
          else if w = ''/notifications'' then Some (True, lang) else None
      | [w, l] \<Rightarrow> if w = ''/notifications'' \<and> (l = ''en'' \<or> l = ''ru'') then Some (True, l) else None
      | _ \<Rightarrow> None)"

definition set_preference :: "notify_env \<Rightarrow> envelope \<Rightarrow> string \<Rightarrow> bool \<Rightarrow> (world, unit) proc" where
  "set_preference sv e lang enabled =
     (if equal_fold (trim_space (co_text (en_content e))) ''STOP'' then block_phone sv (en_user_id e)
      else link_whatsapp sv (en_user_id e) lang enabled)"

definition preference_kind :: "notify_env \<Rightarrow> string \<Rightarrow> bool \<Rightarrow> string" where
  "preference_kind sv lang enabled =
     (if \<not> enabled then ''disabled''
      else if row_or [] (nv_templates sv) (BookingCreated @ '':'' @ lang) = [] then ''unavailable'' else ''enabled'')"

definition answer_preference ::
  "'e meta_env_scheme \<Rightarrow> message_layer \<Rightarrow> notify_env \<Rightarrow> envelope \<Rightarrow> bool \<Rightarrow> string \<Rightarrow> (meta_world, unit) proc" where
  "answer_preference env l sv e enabled lang =
     attempt (within (set_preference sv e lang enabled)) id (\<lambda>_.
       send_whatsapp env (ml_client l)
         (plain_message ProviderWhatsApp (en_thread_id e) (ml_copy l (preference_kind sv lang enabled) lang)))"

definition layer_handle :: "'e meta_env_scheme \<Rightarrow> message_layer \<Rightarrow> envelope \<Rightarrow> (meta_world, unit) proc" where
  "layer_handle env l e =
     (case (whatsapp_notification_preference (co_text (en_content e)) (sn_language (en_sender e)), ml_service l) of
        (Some (enabled, lang), Some sv) \<Rightarrow>
          if en_provider e \<noteq> ProviderWhatsApp then within (handle env e) else answer_preference env l sv e enabled lang
      | _ \<Rightarrow> within (handle env e))"

definition record_staff_echo :: "'e meta_env_scheme \<Rightarrow> meta_handler \<Rightarrow> external_reply \<Rightarrow> (meta_world, unit) proc" where
  "record_staff_echo env h r = within (case mh_layer h of
     None \<Rightarrow> observe_staff_reply env r | Some l \<Rightarrow> layer_external_reply env l r)"

definition handle_envelope :: "'e meta_env_scheme \<Rightarrow> meta_handler \<Rightarrow> envelope \<Rightarrow> (meta_world, unit) proc" where
  "handle_envelope env h e = (case mh_layer h of
     None \<Rightarrow> within (handle env e) | Some l \<Rightarrow> layer_handle env l e)"

section \<open>The endpoint\<close>

text \<open>The answer to the handshake: 200 with the challenge, or 403.\<close>

definition serve_challenge :: "meta_handler \<Rightarrow> string list table \<Rightarrow> int \<times> string" where
  "serve_challenge h query = (case verify_challenge (mh_verify_token h) query of
     None \<Rightarrow> (403, ''forbidden'') | Some challenge \<Rightarrow> (200, challenge))"

definition begin_feedback :: "'e meta_env_scheme \<Rightarrow> meta_handler \<Rightarrow> envelope \<Rightarrow> (meta_world, unit) proc" where
  "begin_feedback env h e = (case mh_feedback h of
     NoFeedback \<Rightarrow> ret ()
   | WhatsAppFeedback c \<Rightarrow> observe (whatsapp_begin_feedback env c e) (\<lambda>_. ret ())
   | DirectFeedback c \<Rightarrow> observe (direct_begin_feedback env c e) (\<lambda>_. ret ()))"

definition end_feedback :: "'e meta_env_scheme \<Rightarrow> meta_handler \<Rightarrow> envelope \<Rightarrow> (meta_world, unit) proc" where
  "end_feedback env h e = (case mh_feedback h of
     NoFeedback \<Rightarrow> ret ()
   | WhatsAppFeedback c \<Rightarrow> observe (whatsapp_end_feedback e) (\<lambda>_. ret ())
   | DirectFeedback c \<Rightarrow> observe (direct_end_feedback env c e) (\<lambda>_. ret ()))"

definition parse_external_replies :: "meta_handler \<Rightarrow> time \<Rightarrow> meta_update option \<Rightarrow> external_reply list result" where
  "parse_external_replies h now body = (case mh_channel h of
     WhatsAppNumber number \<Rightarrow> parse_whatsapp_external_replies now number body
   | DirectAccount p account \<Rightarrow> parse_direct_external_replies now p account body)"

definition parse_messages :: "meta_handler \<Rightarrow> time \<Rightarrow> meta_update option \<Rightarrow> envelope list result" where
  "parse_messages h now body = (case mh_channel h of
     WhatsAppNumber number \<Rightarrow> parse_whatsapp_for_number now number body
   | DirectAccount p account \<Rightarrow> parse_direct now p account body)"

definition apply_status :: "notify_env \<Rightarrow> wa_status \<Rightarrow> (meta_world, unit) proc" where
  "apply_status sv st = (case normalize_phone (nv_lib sv) (''+'' @ trim_prefix (ws_recipient st) ''+'') of
     Inl _ \<Rightarrow> ret ()
   | Inr phone \<Rightarrow> within (whatsapp_status sv (ws_reference st) phone (ws_state st)))"

definition statuses_of :: "string \<Rightarrow> receipt_update \<Rightarrow> wa_status list" where
  "statuses_of number u =
     concat (map rc_statuses (filter (\<lambda>c. rc_field c = ''messages'' \<and> rc_phone_number_id c = number) (ru_changes u)))"

text \<open>The receipts of a delivery; an error ends it with 500.\<close>

definition serve_receipts :: "'e meta_env_scheme \<Rightarrow> meta_handler \<Rightarrow> string \<Rightarrow> (meta_world, unit) proc" where
  "serve_receipts env h raw = (case (mh_statuses h, mt_receipts env raw) of
       (Some (number, sv), Some u) \<Rightarrow>
         if ru_object u \<noteq> ''whatsapp_business_account'' then ret () else each (apply_status sv) (statuses_of number u)
     | _ \<Rightarrow> ret ())"

definition in_service_window :: "time \<Rightarrow> envelope \<Rightarrow> bool" where
  "in_service_window now e \<longleftrightarrow>
     \<not> is_zero (en_sent_at e) \<and> after (en_sent_at e) (now - 24 * hour) \<and> \<not> after (en_sent_at e) (now + 5 * minute)"

definition with_profile :: "'e meta_env_scheme \<Rightarrow> meta_handler \<Rightarrow> envelope \<Rightarrow> (meta_world, envelope) proc" where
  "with_profile env h e = (case mh_profiles h of
       None \<Rightarrow> ret e
     | Some c \<Rightarrow> observe (resolve_profile env c e) (\<lambda>r. ret (case r of Inl _ \<Rightarrow> e | Inr s \<Rightarrow> e\<lparr>en_sender := s\<rparr>)))"

text \<open>One message, and whether the delivery may go on.\<close>

definition serve_envelope :: "'e meta_env_scheme \<Rightarrow> meta_handler \<Rightarrow> time \<Rightarrow> envelope \<Rightarrow> (meta_world, bool) proc" where
  "serve_envelope env h now e =
     (if en_provider e = ProviderWhatsApp \<and> \<not> in_service_window now e then ret True
      else attempt (with_profile env h e) id (\<lambda>e.
        attempt (begin_feedback env h e) id (\<lambda>_.
        observe (handle_envelope env h e) (\<lambda>r.
        attempt (end_feedback env h e) id (\<lambda>_. ret (case r of
          Inr _ \<Rightarrow> True | Inl err \<Rightarrow> terminal_delivery (Some err)))))))"

fun serve_messages :: "'e meta_env_scheme \<Rightarrow> meta_handler \<Rightarrow> time \<Rightarrow> envelope list \<Rightarrow> (meta_world, int) proc" where
  "serve_messages env h now [] = ret 200"
| "serve_messages env h now (e # es) =
     attempt (serve_envelope env h now e) id (\<lambda>ok. if ok then serve_messages env h now es else ret 500)"

text \<open>Staff's replies are recorded before the messages of customers are handled.\<close>

definition serve_content :: "'e meta_env_scheme \<Rightarrow> meta_handler \<Rightarrow> time \<Rightarrow> meta_update option \<Rightarrow> (meta_world, int) proc" where
  "serve_content env h now body = (case parse_external_replies h now body of
       Inl _ \<Rightarrow> ret 200
     | Inr replies \<Rightarrow> observe (each (record_staff_echo env h) replies) (\<lambda>recorded. case recorded of
         Inl _ \<Rightarrow> ret 500
       | Inr _ \<Rightarrow> (case parse_messages h now body of
           Inl _ \<Rightarrow> ret 200 | Inr es \<Rightarrow> serve_messages env h now es)))"

definition serve_delivery :: "'e meta_env_scheme \<Rightarrow> meta_handler \<Rightarrow> string \<Rightarrow> string option \<Rightarrow> (meta_world, int) proc" where
  "serve_delivery env h signature body = (case body of
       None \<Rightarrow> ret 400
     | Some raw \<Rightarrow>
       if \<not> verify_signature (mt_hmac env) (mh_secret h) signature raw then ret 401
       else attempt (within (clock env)) id (\<lambda>now.
         observe (serve_receipts env h raw) (\<lambda>receipts. case receipts of
           Inl _ \<Rightarrow> ret 500 | Inr _ \<Rightarrow> serve_content env h now (mt_decode env raw))))"

end
