(* ===== verification/MetaTexts.thy ===== *)
theory MetaTexts
  imports MetaUpdates TelegramTexts
begin

text \<open>
  Laws of the texts Meta's platforms exchange: base 64 read back, a button's payload read back as the
  choice it stands for, and texts cut to a provider's limit with nothing lost but line ends.
\<close>

section \<open>Base 64\<close>

lemma base64_reads: "n < 64 \<Longrightarrow> base64_value (base64_letter n) = Some n"
  by (auto simp: base64_value_def base64_letter_def Let_def)

lemma base64_not_line_end:
  assumes "n < 64"
  shows "base64_letter n \<noteq> CHR 0x0D" "base64_letter n \<noteq> CHR 0x0A"
  using base64_reads [OF assms] by (auto simp: base64_value_def)

lemma byte_bounds:
  "(a :: nat) < 256 \<Longrightarrow> a div 4 < 64" "(a :: nat) < 256 \<Longrightarrow> a div 16 < 16" "(a :: nat) < 256 \<Longrightarrow> a div 64 < 4"
  by (simp_all add: less_mult_imp_div_less)

lemma sextet_bounds:
  "(b :: nat) < 256 \<Longrightarrow> a mod 4 * 16 + b div 16 < 64" "(a :: nat) mod 4 * 16 < 64"
  "(b :: nat) mod 16 * 4 < 64" "(c :: nat) < 256 \<Longrightarrow> b mod 16 * 4 + c div 64 < 64"
  using mod_less_divisor [of 4 a] mod_less_divisor [of 16 b] byte_bounds [of b] byte_bounds [of c] by linarith+

lemma sextets_small: "list_all (\<lambda>b. b < 256) bs \<Longrightarrow> list_all (\<lambda>s. s < 64) (sextets bs)"
  by (induction bs rule: sextets.induct) (simp_all add: byte_bounds sextet_bounds)

lemma octets_sextets: "list_all (\<lambda>b. b < 256) bs \<Longrightarrow> octets (sextets bs) = Some bs"
  by (induction bs rule: sextets.induct) (simp_all add: byte_bounds)

lemma base64_decode_encode: "base64_decode (base64_encode s) = Some s"
proof -
  let ?ss = "sextets (map of_char s)"
  have bytes: "list_all (\<lambda>b. b < 256) (map of_char s :: nat list)" by (simp add: list_all_iff)
  then have small: "\<forall>n \<in> set ?ss. n < 64" using sextets_small [OF bytes] by (simp add: list_all_iff)
  then have "filter (\<lambda>c. c \<noteq> CHR 0x0D \<and> c \<noteq> CHR 0x0A) (base64_encode s) = base64_encode s"
    using base64_not_line_end by (auto simp: base64_encode_def filter_id_conv)
  moreover have "map base64_value (base64_encode s) = map Some ?ss"
    using small base64_reads by (simp add: base64_encode_def)
  ultimately show ?thesis
    using octets_sextets [OF bytes] by (simp add: base64_decode_def Let_def comp_def del: map_map) (simp add: map_idI)
qed

section \<open>Choices\<close>

lemma cut_at_token: "CHR '':'' \<notin> set t \<Longrightarrow> cut_at (CHR '':'') (t @ CHR '':'' # s) = Some (t, s)"
  by (induction t) (auto simp: cut_at_def)

text \<open>The payload of a label reads back as the label with the token of its message.\<close>

definition good_token :: "string \<Rightarrow> bool" where
  "good_token token \<longleftrightarrow> token \<noteq> [] \<and> CHR '':'' \<notin> set token"

definition good_labels :: "outgoing \<Rightarrow> bool" where
  "good_labels out \<longleftrightarrow> list_all (\<lambda>c. valid_text (ch_label c) \<and> ch_label c \<noteq> []) (og_choices out)"

lemma choice_reads:
  assumes "good_token token" "valid_text label" "label \<noteq> []" "length (choice_payload token label) \<le> 1000"
  shows "decode_choice (choice_payload token label) = (token, label)"
proof -
  let ?p = "choice_payload token label"
  have p: "?p = ''c'' @ CHR '':'' # token @ CHR '':'' # base64_encode label" by (simp add: choice_payload_def)
  have "cut_at (CHR '':'') ?p = Some (''c'', token @ CHR '':'' # base64_encode label)"
    unfolding p by (rule cut_at_token) simp
  moreover have "cut_at (CHR '':'') (token @ CHR '':'' # base64_encode label) = Some (token, base64_encode label)"
    using assms(1) by (intro cut_at_token) (simp add: good_token_def)
  ultimately show ?thesis
    using assms by (simp add: decode_choice_def good_token_def base64_decode_encode)
qed

text \<open>The payloads of the controls a message is sent with.\<close>

definition whatsapp_payloads :: "outgoing \<Rightarrow> string list" where
  "whatsapp_payloads out = (case whatsapp_interactive out of
     None \<Rightarrow> [] | Some (WaList rws) \<Rightarrow> map lr_id rws | Some (WaButtons rws) \<Rightarrow> map lr_id rws)"

definition meta_payloads :: "outgoing \<Rightarrow> string list" where
  "meta_payloads out = whatsapp_payloads out @ map qr_payload (quick_replies out) @ map bd_payload (direct_choice_buttons out)"

lemma whatsapp_payload_choice:
  "p \<in> set (whatsapp_payloads out) \<Longrightarrow>
   \<exists>c \<in> set (og_choices out). p = choice_payload (og_choice_token out) (ch_label c) \<and> length p \<le> 200"
  by (auto simp: whatsapp_payloads_def whatsapp_interactive_def Let_def dest!: in_set_takeD split: if_splits)

lemma payload_choice:
  assumes "p \<in> set (meta_payloads out)"
  shows "\<exists>c \<in> set (og_choices out). p = choice_payload (og_choice_token out) (ch_label c) \<and> length p \<le> 1000"
  using assms whatsapp_payload_choice [of p out]
  by (fastforce simp: meta_payloads_def quick_replies_def direct_choice_buttons_def dest: in_set_takeD)

lemma payload_reads:
  assumes "p \<in> set (meta_payloads out)" "good_token (og_choice_token out)" "good_labels out"
  shows "\<exists>c \<in> set (og_choices out). decode_choice p = (og_choice_token out, ch_label c)"
proof -
  from payload_choice [OF assms(1)] obtain c
    where c: "c \<in> set (og_choices out)" "p = choice_payload (og_choice_token out) (ch_label c)" "length p \<le> 1000" by blast
  with assms(3) have "valid_text (ch_label c)" "ch_label c \<noteq> []" by (auto simp: good_labels_def list_all_iff)
  with c choice_reads [OF assms(2)] show ?thesis by metis
qed

section \<open>Cutting texts\<close>

lemma chunk_single: "rune_count p \<le> limit \<Longrightarrow> text_chunks p limit = (if p = [] then [] else [p])"
  by (simp add: text_chunks.simps)

lemma chunk_none: "text_chunks [] limit = []"
  by (simp add: text_chunks.simps rune_count_def runes_def)

lemma utf8_nonempty: "rs \<noteq> [] \<Longrightarrow> utf8 rs \<noteq> []"
  by (cases rs) (simp_all add: utf8_def encode_rune_def encode_scalar_def)

text \<open>Whatever the bytes, a piece is not empty and not longer than the limit.\<close>

lemma chunks_fit: "0 < limit \<Longrightarrow> list_all (\<lambda>p. p \<noteq> [] \<and> rune_count p \<le> limit) (text_chunks t limit)"
proof (induction t limit rule: text_chunks.induct)
  case (1 t limit)
  show ?case
  proof (cases "rune_count t > limit")
    case True
    let ?rs = "runes t" and ?e = "chunk_end (runes t) limit"
    from True have "?rs \<noteq> []" by (auto simp: rune_count_def)
    moreover have "0 < ?e" "?e \<le> limit" using chunk_end_bounds [OF "1.prems"] by simp_all
    ultimately have "utf8 (take ?e ?rs) \<noteq> []" "rune_count (utf8 (take ?e ?rs)) \<le> limit"
      by (simp_all add: utf8_nonempty rune_count_def runes_utf8_length)
    moreover have "text_chunks t limit = utf8 (take ?e ?rs) # text_chunks (without_line_feeds (utf8 (drop ?e ?rs))) limit"
      using True "1.prems" by (subst text_chunks.simps) (simp add: Let_def)
    moreover have "list_all (\<lambda>p. p \<noteq> [] \<and> rune_count p \<le> limit) (text_chunks (without_line_feeds (utf8 (drop ?e ?rs))) limit)"
      using True "1.prems" by (intro "1.IH") simp_all
    ultimately show ?thesis by simp
  next
    case False
    then show ?thesis by (simp add: chunk_single)
  qed
qed

lemma kept_text: "filter (\<lambda>c. c \<noteq> CHR 0x0A) (without_line_feeds s) = filter (\<lambda>c. c \<noteq> CHR 0x0A) s"
  by (induction s) (simp_all add: without_line_feeds_def)

lemma valid_without_line_feeds: "valid_text s \<Longrightarrow> valid_text (without_line_feeds s)"
proof (induction s)
  case (Cons c s)
  show ?case
  proof (cases "c = CHR 0x0A")
    case True
    have "valid_text [CHR 0x0A]" using ascii_ok [of "[CHR 0x0A]"] by (simp add: ascii_text_def)
    with Cons True show ?thesis using valid_suffix [of "[CHR 0x0A]" s] by (simp add: without_line_feeds_def)
  next
    case False
    with Cons.prems show ?thesis by (simp add: without_line_feeds_def)
  qed
qed (simp add: without_line_feeds_def)

text \<open>A well-formed text loses nothing but line ends.\<close>

lemma chunks_keep:
  "valid_text t \<Longrightarrow> filter (\<lambda>c. c \<noteq> CHR 0x0A) (concat (text_chunks t limit)) = filter (\<lambda>c. c \<noteq> CHR 0x0A) t \<and>
    list_all valid_text (text_chunks t limit)"
proof (induction t limit rule: text_chunks.induct)
  case (1 t limit)
  show ?case
  proof (cases "limit > 0 \<and> rune_count t > limit")
    case True
    let ?rs = "runes t" and ?e = "chunk_end (runes t) limit"
    let ?rest = "without_line_feeds (utf8 (drop ?e ?rs))"
    have t: "t = utf8 (take ?e ?rs) @ utf8 (drop ?e ?rs)"
      using "1.prems" by (metis append_take_drop_id utf8_append valid_text_def)
    have "filter (\<lambda>c. c \<noteq> CHR 0x0A) (concat (text_chunks ?rest limit)) = filter (\<lambda>c. c \<noteq> CHR 0x0A) ?rest \<and>
        list_all valid_text (text_chunks ?rest limit)"
      using True "1.IH" [OF True refl refl] by (simp add: valid_without_line_feeds)
    moreover have "text_chunks t limit = utf8 (take ?e ?rs) # text_chunks ?rest limit"
      using True by (subst text_chunks.simps) (simp add: Let_def)
    moreover have "filter (\<lambda>c. c \<noteq> CHR 0x0A) t =
        filter (\<lambda>c. c \<noteq> CHR 0x0A) (utf8 (take ?e ?rs)) @ filter (\<lambda>c. c \<noteq> CHR 0x0A) (utf8 (drop ?e ?rs))"
      by (subst t) simp
    ultimately show ?thesis by (simp add: kept_text)
  next
    case False
    then have "text_chunks t limit = (if t = [] then [] else [t])" by (subst text_chunks.simps) auto
    with "1.prems" show ?thesis by simp
  qed
qed

end
