(* ===== verification/MetaLaws.thy ===== *)
theory MetaLaws
  imports MetaHandler MetaTexts TelegramLaws
begin

text \<open>
  Laws of Meta's webhooks and client. A step of the adapter that makes the assistant send nothing is
  the interpretation \<open>quiet\<close> of the contract of \<open>StepLaws\<close>; from it follows how many messages a
  delivery makes the assistant send. A failure of the WhatsApp client that may be tried again means
  that Meta refused whatever was posted.
\<close>

section \<open>Sends of a delivery\<close>

definition quietly :: "meta_world \<Rightarrow> meta_world \<Rightarrow> bool" where
  "quietly t u \<longleftrightarrow> same_sends (gw_world t) (gw_world u)"

interpretation quiet: adapter_step quietly
  by unfold_locales (auto simp: quietly_def)

lemma quiet_within [hop_intros]: "steps same_sends m \<Longrightarrow> hops quietly (within m)"
  unfolding hops_def
proof
  fix t :: meta_world
  assume "steps same_sends m"
  then have "same_sends (gw_world t) (snd (m (gw_world t)))" by (simp add: steps_def)
  then show "quietly t (snd (within m t))" by (cases "m (gw_world t)") (simp add: within_def quietly_def)
qed

lemma quiet_calls [hop_intros]: "hops quietly (post_call env path p)" "hops quietly (get_call env path answer)"
  "hops quietly (remember_profile user s)"
  by (simp_all add: hops_def post_call_def get_call_def remember_profile_def quietly_def Let_def)

lemma silent_health [step_intros]:
  "steps same_sends (health_refresh sv)" "steps same_sends (health_allows_send sv name lang)" "steps same_sends (health_block sv)"
proof -
  show refresh [step_intros]: "steps same_sends (health_refresh sv)" for sv :: "'a notify_env_scheme"
    unfolding health_refresh_def by (intro step_intros) simp_all
  show "steps same_sends (health_allows_send sv name lang)" "steps same_sends (health_block sv)"
    unfolding health_allows_send_def health_block_def by (intro step_intros)+
qed

lemma silent_direct [step_intros]:
  "steps same_sends (record_direct_send sv p i)" "steps same_sends (is_direct_send sv p i)"
  "steps same_sends (link_whatsapp sv raw lang enabled)" "steps same_sends (schedule_notification sv i name)"
  "steps same_sends (whatsapp_status sv reference phone receipt)"
  unfolding record_direct_send_def is_direct_send_def link_whatsapp_def whatsapp_status_def schedule_notification_def Let_def
  by (intro step_intros; simp)+

lemma silent_own_echo [step_intros]: "steps same_sends (own_echo env sv r n)"
  by (induction n) (auto intro!: step_intros)

lemma silent_observed [step_intros]: "steps same_sends (observe_staff_reply env r)"
  unfolding observe_staff_reply_def announce_staff_reply_def by (intro silent_store step_intros)

lemma silent_layer_reply [step_intros]: "steps same_sends (layer_external_reply env l r)"
  unfolding layer_external_reply_def by (intro step_intros)

lemma quiet_post [hop_intros]: "hops quietly (graph_post env c path p)"
  unfolding graph_post_def delivery_guard_def observe_response_def by (intro hop_intros step_intros)

lemma quiet_direct_post [hop_intros]: "hops quietly (direct_post env d p)"
  unfolding direct_post_def by (intro hop_intros step_intros)

lemma quiet_pieces: "(\<And>p. hops quietly (send p)) \<Longrightarrow> hops quietly (send_pieces send i ps)"
  by (induction send i ps rule: send_pieces.induct) (auto intro!: hop_intros)

lemma quiet_whatsapp: "hops quietly (whatsapp_nested n env c out)"
proof (induction n arbitrary: out)
  case (Suc n)
  have texts: "hops quietly (whatsapp_texts env c (\<lambda>p. whatsapp_nested n env c (f p)) o')" for o' :: outgoing and f
    unfolding whatsapp_texts_def Let_def by (intro hop_intros quiet_pieces Suc)
  show ?case unfolding whatsapp_nested.simps whatsapp_body_def Let_def
    by (intro hop_intros quiet_pieces Suc texts)
qed (simp add: quiet.hops_fail)

lemma quiet_send_whatsapp [hop_intros]: "hops quietly (send_whatsapp env c out)"
  unfolding send_whatsapp_def by (rule quiet_whatsapp)

lemma quiet_profile [hop_intros]: "hops quietly (resolve_profile env d e)"
proof -
  have "hops quietly (observe (get_call env path answer) (\<lambda>r. case r of
      Inl err \<Rightarrow> attempt (if errors_is err GraphRejected then remember_profile user unknown_sender else ret ()) id (\<lambda>_. fail err)
    | Inr p \<Rightarrow> let found = profile_sender p in
        attempt (if found = unknown_sender then ret () else remember_profile user found) id (\<lambda>_. ret found)))" for path answer user
    unfolding Let_def by (intro hop_intros)
  then show ?thesis
    unfolding resolve_profile_def hops_def by (auto simp: quiet.R_refl split: option.split)
qed

lemma quiet_feedback [hop_intros]: "hops quietly (begin_feedback env h e)" "hops quietly (end_feedback env h e)"
  unfolding begin_feedback_def end_feedback_def whatsapp_begin_feedback_def whatsapp_end_feedback_def direct_begin_feedback_def
    direct_end_feedback_def direct_action_def
  by (auto intro!: hop_intros split: meta_feedback.split)

lemma quiet_each: "(\<And>x. hops quietly (f x)) \<Longrightarrow> hops quietly (each f xs)"
  by (induction xs) (auto intro!: hop_intros)

lemma quiet_echo [hop_intros]: "hops quietly (record_staff_echo env h r)"
  unfolding record_staff_echo_def by (cases "mh_layer h") (auto intro!: hop_intros step_intros)

lemma quiet_receipts [hop_intros]: "hops quietly (serve_receipts env h raw)"
  unfolding serve_receipts_def apply_status_def
  by (auto intro!: hop_intros quiet_each step_intros split: option.split)

text \<open>What handling the messages \<open>es\<close> may make the assistant send: at most one for each, to its chat.\<close>

definition sends_for :: "envelope list \<Rightarrow> meta_world \<Rightarrow> meta_world \<Rightarrow> bool" where
  "sends_for es t u \<longleftrightarrow> (\<exists>new. logged sends (gw_world u) = logged sends (gw_world t) @ new \<and> length new \<le> length es \<and>
     list_all (\<lambda>(eff, x). case eff of SendMessage out \<Rightarrow> \<exists>e \<in> set es. to_chat e out | _ \<Rightarrow> False) new)"

lemma sends_for_none: "sends_for [] t u \<longleftrightarrow> quietly t u"
  by (auto simp: sends_for_def quietly_def)

lemma sends_for_refl: "quietly t u \<Longrightarrow> sends_for es t u"
  by (auto simp: sends_for_def quietly_def)

lemma sends_for_around: "quietly t u \<Longrightarrow> sends_for es u v \<Longrightarrow> quietly v w \<Longrightarrow> sends_for es t w"
  by (auto simp: sends_for_def quietly_def)

lemma sends_for_append:
  assumes "sends_for xs t u" "sends_for ys u v"
  shows "sends_for (xs @ ys) t v"
proof -
  from assms obtain new1 new2 where n1: "logged sends (gw_world u) = logged sends (gw_world t) @ new1" "length new1 \<le> length xs"
      "list_all (\<lambda>(eff, x). case eff of SendMessage out \<Rightarrow> \<exists>e \<in> set xs. to_chat e out | _ \<Rightarrow> False) new1"
    and n2: "logged sends (gw_world v) = logged sends (gw_world u) @ new2" "length new2 \<le> length ys"
      "list_all (\<lambda>(eff, x). case eff of SendMessage out \<Rightarrow> \<exists>e \<in> set ys. to_chat e out | _ \<Rightarrow> False) new2"
    by (auto simp: sends_for_def)
  have "list_all (\<lambda>(eff, x). case eff of SendMessage out \<Rightarrow> \<exists>e \<in> set (xs @ ys). to_chat e out | _ \<Rightarrow> False) new1"
    by (rule list.pred_mono_strong [OF n1(3)]) (auto split: effect.split_asm effect.split)
  moreover have "list_all (\<lambda>(eff, x). case eff of SendMessage out \<Rightarrow> \<exists>e \<in> set (xs @ ys). to_chat e out | _ \<Rightarrow> False) new2"
    by (rule list.pred_mono_strong [OF n2(3)]) (auto split: effect.split_asm effect.split)
  ultimately show ?thesis
    using n1 n2 unfolding sends_for_def by (intro exI [of _ "new1 @ new2"]) simp
qed

lemma sends_handle: "sends_for [e] t (snd (within (handle env e) t))"
proof -
  from one_send_handle [of e env] have "adds (to_chat e) (gw_world t) (snd (handle env e (gw_world t)))" by (simp add: one_send_def)
  then show ?thesis
    by (cases "handle env e (gw_world t)") (simp add: adds_def sends_for_def within_def cong: effect.case_cong)
qed

lemma sends_envelope: "sends_for [e] t (snd (handle_envelope env h e t))"
proof (cases "mh_layer h")
  case None
  then show ?thesis by (simp add: handle_envelope_def sends_handle)
next
  case (Some l)
  have answer: "hops quietly (answer_preference env l sv e enabled lang)" for sv enabled lang
    unfolding answer_preference_def set_preference_def by (intro hop_intros step_intros)
  have "sends_for [e] t (snd (layer_handle env l e t))"
    using answer unfolding layer_handle_def hops_def
    by (auto simp: sends_handle intro!: sends_for_refl split: option.split)
  with Some show ?thesis by (simp add: handle_envelope_def)
qed

lemma to_chat_sender [simp]: "to_chat (e\<lparr>en_sender := s\<rparr>) = to_chat e"
  by (rule ext) (simp add: to_chat_def)

lemma sends_for_sender: "sends_for [e\<lparr>en_sender := s\<rparr>] t u \<longleftrightarrow> sends_for [e] t u"
  by (simp add: sends_for_def cong: effect.case_cong)

lemma with_profile_result: "with_profile env h e t = (Inr e', u) \<Longrightarrow> quietly t u \<and> (\<exists>s. e' = e\<lparr>en_sender := s\<rparr>)"
proof -
  assume run: "with_profile env h e t = (Inr e', u)"
  have "hops quietly (with_profile env h e)"
    unfolding with_profile_def by (intro hop_intros)
  with run have "quietly t u" unfolding hops_def by (metis snd_conv)
  moreover have same: "\<exists>s. x = x\<lparr>en_sender := s\<rparr>" for x :: envelope by (rule exI [of _ "en_sender x"]) simp
  then have "\<exists>s. e' = e\<lparr>en_sender := s\<rparr>"
    using run by (auto intro!: same simp: with_profile_def ret_def observe_apply split: option.splits prod.splits sum.splits)
  ultimately show ?thesis by simp
qed

lemma with_profile_done: "\<exists>e' u. with_profile env h e t = (Inr e', u)"
  by (auto simp: with_profile_def ret_def observe_apply split: option.split prod.split)

lemma begin_done: "\<exists>u. begin_feedback env h e t = (Inr (), u)" "\<exists>u. end_feedback env h e t = (Inr (), u)"
  by (auto simp: begin_feedback_def end_feedback_def ret_def observe_apply split: meta_feedback.split prod.split)

lemma served_envelope: "sends_for [e] t (snd (serve_envelope env h now e t)) \<and> (\<exists>ok. fst (serve_envelope env h now e t) = Inr ok)"
proof (cases "en_provider e = ProviderWhatsApp \<and> \<not> in_service_window now e")
  case True
  then have "serve_envelope env h now e t = (Inr True, t)" by (simp add: serve_envelope_def ret_def)
  then show ?thesis by (auto simp: sends_for_refl quiet.R_refl)
next
  case False
  obtain e' u where profile: "with_profile env h e t = (Inr e', u)" using with_profile_done by blast
  obtain v where started: "begin_feedback env h e' u = (Inr (), v)" using begin_done by blast
  obtain r w where handled: "handle_envelope env h e' v = (r, w)" by force
  obtain x where ended: "end_feedback env h e' w = (Inr (), x)" using begin_done by blast
  have "serve_envelope env h now e t =
      (Inr (case r of Inr _ \<Rightarrow> True | Inl err \<Rightarrow> terminal_delivery (Some err)), x)"
    unfolding serve_envelope_def using False profile started handled ended
    by (auto simp: attempt_apply observe_apply ret_def)
  moreover have "sends_for [e] t x"
  proof (rule sends_for_around)
    from with_profile_result [OF profile] obtain s where s: "quietly t u" "e' = e\<lparr>en_sender := s\<rparr>" by blast
    have "quietly u v" using quiet_feedback(1) [of env h e'] started unfolding hops_def by (metis snd_conv)
    with s show "quietly t v" using quiet.R_trans by blast
    from sends_envelope [of e' v env h] handled s show "sends_for [e] v w" by (simp add: sends_for_sender)
    show "quietly w x" using quiet_feedback(2) [of env h e'] ended unfolding hops_def by (metis snd_conv)
  qed
  ultimately show ?thesis by simp
qed

lemma served_messages: "sends_for es t (snd (serve_messages env h now es t))"
proof (induction es arbitrary: t)
  case Nil
  then show ?case by (simp add: ret_def sends_for_refl quiet.R_refl)
next
  case (Cons e es)
  obtain ok u where served: "serve_envelope env h now e t = (Inr ok, u)"
    using served_envelope [of e t env h now] by (cases "serve_envelope env h now e t") auto
  with served_envelope [of e t env h now] have "sends_for [e] t u" by simp
  moreover have "sends_for es u (snd ((if ok then serve_messages env h now es else ret 500) u))"
    using Cons [of u] by (simp add: ret_def sends_for_refl quiet.R_refl)
  ultimately have "sends_for ([e] @ es) t (snd ((if ok then serve_messages env h now es else ret 500) u))"
    by (rule sends_for_append)
  with served show ?case by (simp add: attempt_apply)
qed

text \<open>The messages a delivery holds for this channel, and none when it is not one.\<close>

definition delivered_messages :: "'e meta_env_scheme \<Rightarrow> meta_handler \<Rightarrow> time \<Rightarrow> string option \<Rightarrow> envelope list" where
  "delivered_messages env h now body = (case body of None \<Rightarrow> []
     | Some raw \<Rightarrow> (case parse_messages h now (mt_decode env raw) of Inl _ \<Rightarrow> [] | Inr es \<Rightarrow> es))"

lemma served_content:
  assumes "body = mt_decode env raw"
  shows "sends_for (delivered_messages env h now (Some raw)) t (snd (serve_content env h now body t))"
proof (cases "parse_external_replies h now body")
  case (Inl e)
  then show ?thesis by (simp add: serve_content_def ret_def sends_for_refl quiet.R_refl)
next
  case (Inr replies)
  obtain r u where echoes: "each (record_staff_echo env h) replies t = (r, u)" by force
  moreover have "hops quietly (each (record_staff_echo env h) replies)" by (intro quiet_each hop_intros)
  ultimately have quiet: "quietly t u" unfolding hops_def by (metis snd_conv)
  show ?thesis
  proof (cases r)
    case (Inl e)
    with Inr echoes quiet show ?thesis by (simp add: serve_content_def observe_apply ret_def sends_for_refl)
  next
    case done_with: (Inr x)
    have "sends_for es t (snd (serve_messages env h now es u))" for es
      using sends_for_around [OF quiet served_messages quiet.R_refl] .
    with Inr echoes done_with assms quiet show ?thesis
      by (auto simp: serve_content_def observe_apply ret_def delivered_messages_def sends_for_refl split: sum.split)
  qed
qed

lemma served_delivery:
  "sends_for (delivered_messages env h (e_now env (w_tick (gw_world t))) body) t (snd (serve_delivery env h signature body t))"
proof (cases "\<exists>raw. body = Some raw \<and> verify_signature (mt_hmac env) (mh_secret h) signature raw")
  case False
  then show ?thesis by (auto simp: serve_delivery_def ret_def sends_for_refl quiet.R_refl split: option.split)
next
  case True
  then obtain raw where raw: "body = Some raw" "verify_signature (mt_hmac env) (mh_secret h) signature raw" by blast
  let ?now = "e_now env (w_tick (gw_world t))"
  obtain u where clock: "within (clock env) t = (Inr ?now, u)" by (simp add: within_def clock_apply)
  have start: "quietly t u" using quiet_within [of "clock env"] clock step_intros unfolding hops_def
    by (metis silent.steps_clock snd_conv)
  obtain r v where receipts: "serve_receipts env h raw u = (r, v)" by force
  have "quietly u v" using quiet_receipts [of env h raw] receipts unfolding hops_def by (metis snd_conv)
  with start have quiet: "quietly t v" using quiet.R_trans by blast
  have run: "serve_delivery env h signature body t =
      (case r of Inl _ \<Rightarrow> ret 500 | Inr _ \<Rightarrow> serve_content env h ?now (mt_decode env raw)) v"
    using raw clock receipts by (simp add: serve_delivery_def attempt_apply observe_apply)
  show ?thesis
  proof (cases r)
    case (Inl e)
    with run quiet show ?thesis by (simp add: ret_def sends_for_refl)
  next
    case (Inr x)
    have "sends_for (delivered_messages env h ?now (Some raw)) t (snd (serve_content env h ?now (mt_decode env raw) v))"
      using sends_for_around [OF quiet served_content [OF refl] quiet.R_refl] .
    with Inr run raw show ?thesis by simp
  qed
qed

section \<open>Failures of the WhatsApp client\<close>

text \<open>An answer that says Meta did not take the message.\<close>

definition definitely_refused :: "graph_answer \<Rightarrow> bool" where
  "definitely_refused a = (case a of GraphAnswered st b \<Rightarrow> \<not> success st \<and> st < 500 | _ \<Rightarrow> False)"

definition posts_refused :: "meta_world \<Rightarrow> meta_world \<Rightarrow> bool" where
  "posts_refused t u \<longleftrightarrow> (\<exists>new. gw_posts u = gw_posts t @ new \<and> list_all (\<lambda>(p, a). definitely_refused a) new)"

text \<open>A failure that may be tried again comes with refused posts only.\<close>

definition clean_failures :: "(meta_world, unit) proc \<Rightarrow> bool" where
  "clean_failures m \<longleftrightarrow> (\<forall>t e u. m t = (Inl e, u) \<longrightarrow> \<not> terminal_delivery (Some e) \<longrightarrow> posts_refused t u)"

lemma clean_fail: "clean_failures (fail e)"
  by (auto simp: clean_failures_def fail_def posts_refused_def)

lemma errors_is_marked [simp]: "errors_is (marked s' e) s \<longleftrightarrow> s = s' \<or> errors_is e s"
  by (auto simp: marked_def errors_is_def)

lemma partial_terminal: "terminal_delivery (Some (partial_reply e))"
  by (simp add: terminal_delivery_def partial_reply_def)

lemma read_post_failure:
  assumes "read_post st path a = Inl e" "\<not> terminal_delivery (Some e)"
  shows "definitely_refused a"
  using assms
  by (auto simp: read_post_def definitely_refused_def unanswered_def terminal_delivery_def errors_is_def Let_def
      split: graph_answer.splits if_splits) (auto simp: marked_def)

lemma within_posts: "gw_posts (snd (within m t)) = gw_posts t"
  by (simp add: within_def split: prod.split)

lemma guard_posts: "delivery_guard c path p t = (r, u) \<Longrightarrow> gw_posts u = gw_posts t"
  by (auto simp: delivery_guard_def ret_def within_def split: option.splits if_splits prod.splits)

lemma clean_post:
  assumes "gk_observer c = None"
  shows "clean_failures (graph_post env c path p)"
  unfolding clean_failures_def
proof (intro allI impI)
  fix t e u
  assume run: "graph_post env c path p t = (Inl e, u)" and retry: "\<not> terminal_delivery (Some e)"
  obtain r v where guard: "delivery_guard c path p t = (r, v)" by force
  then have same: "gw_posts v = gw_posts t" by (rule guard_posts)
  show "posts_refused t u"
  proof (cases "r = Inr True")
    case False
    with run guard have "u = v" by (cases r) (auto simp: graph_post_def attempt_apply fail_def)
    with same show ?thesis by (simp add: posts_refused_def)
  next
    case True
    let ?a = "mt_post env (w_tick (gw_world v)) path p"
    from True run guard assms have "read_post (mt_status_text env) path ?a = Inl e" "gw_posts u = gw_posts v @ [(p, ?a)]"
      by (auto simp: graph_post_def attempt_apply post_call_def observe_response_def ret_def Let_def split: sum.splits)
    with read_post_failure [OF _ retry] same show ?thesis by (simp add: posts_refused_def)
  qed
qed

lemma pieces_after_first:
  "send_pieces send (Suc i) ps t = (Inl e, u) \<Longrightarrow> terminal_delivery (Some e)"
proof (induction ps arbitrary: i t)
  case (Cons p ps)
  obtain r v where run: "send p t = (r, v)" by force
  then show ?case
  proof (cases r)
    case (Inl f)
    with run Cons.prems show ?thesis by (auto simp: attempt_apply partial_terminal)
  next
    case (Inr x)
    with run Cons show ?thesis by (simp add: attempt_apply)
  qed
qed (simp add: ret_def)

lemma clean_pieces:
  assumes "\<And>p. clean_failures (send p)"
  shows "clean_failures (send_pieces send 0 ps)"
  unfolding clean_failures_def
proof (intro allI impI)
  fix t e u
  assume run: "send_pieces send 0 ps t = (Inl e, u)" and retry: "\<not> terminal_delivery (Some e)"
  then obtain p rest where ps: "ps = p # rest" by (cases ps) (auto simp: ret_def)
  obtain r v where first: "send p t = (r, v)" by force
  show "posts_refused t u"
  proof (cases r)
    case (Inl f)
    with run first ps have "send p t = (Inl e, u)" by (simp add: attempt_apply)
    with assms retry show ?thesis by (auto simp: clean_failures_def)
  next
    case (Inr x)
    with run first ps have "send_pieces send (Suc 0) rest v = (Inl e, u)" by (simp add: attempt_apply)
    from pieces_after_first [OF this] retry show ?thesis by simp
  qed
qed

lemma clean_texts:
  assumes "gk_observer c = None" "\<And>p. clean_failures (self p)"
  shows "clean_failures (whatsapp_texts env c self out)"
  unfolding whatsapp_texts_def Let_def by (auto intro!: clean_post [OF assms(1)] clean_pieces assms(2))

lemma interactive_text: "whatsapp_interactive (out\<lparr>og_text := t, og_links := ls\<rparr>) = whatsapp_interactive out"
  "whatsapp_interactive (out\<lparr>og_text := t\<rparr>) = whatsapp_interactive out" "whatsapp_interactive (out\<lparr>og_links := ls\<rparr>) = whatsapp_interactive out"
  by (simp_all add: whatsapp_interactive_def)

lemma clean_attempt_last:
  assumes "clean_failures m" "\<And>t u e. k t = (Inl e, u) \<Longrightarrow> terminal_delivery (Some e)"
  shows "clean_failures (attempt m id (\<lambda>_. k))"
  using assms by (fastforce simp: clean_failures_def attempt_apply split: prod.splits sum.splits)

text \<open>Whether the choices, if there are any, leave buttons or rows to show.\<close>

definition shows_choices :: "outgoing \<Rightarrow> bool" where
  "shows_choices out \<longleftrightarrow> og_choices out = [] \<or> whatsapp_interactive out \<noteq> None"

lemma clean_body:
  assumes "gk_observer c = None" "\<And>p thread part. clean_failures (self (plain_message p thread part))" "shows_choices out"
  shows "clean_failures (whatsapp_body env c self out)"
proof -
  let ?out = "out\<lparr>og_text := link_lines out, og_links := []\<rparr>"
  let ?self = "\<lambda>part. self (plain_message (og_provider ?out) (og_thread_id ?out) part)"
  let ?parts = "text_chunks (og_text ?out) 1024"
  have texts: "clean_failures (whatsapp_texts env c ?self ?out)"
    by (rule clean_texts [OF assms(1)]) (rule assms(2))
  have last_post: "clean_failures (attempt (send_pieces ?self 0 (butlast ?parts)) id (\<lambda>_.
      attempt (graph_post env c path p) (\<lambda>e. if length ?parts > 1 then partial_reply e else e) ret))" for path p
  proof (cases "length ?parts > 1")
    case True
    have "clean_failures (send_pieces ?self 0 (butlast ?parts))" by (rule clean_pieces) (rule assms(2))
    then show ?thesis
      by (rule clean_attempt_last)
        (use True in \<open>auto simp: attempt_apply partial_terminal ret_def split: prod.splits sum.splits\<close>)
  next
    case False
    then have "butlast ?parts = []" by (cases ?parts rule: rev_cases) auto
    moreover have "clean_failures (graph_post env c path p)" by (rule clean_post [OF assms(1)])
    ultimately show ?thesis using False
      by (auto simp: clean_failures_def attempt_apply ret_def split: prod.splits sum.splits)
  qed
  have "whatsapp_interactive (?out\<lparr>og_text := last ?parts\<rparr>) = whatsapp_interactive out"
    by (simp add: interactive_text)
  with texts last_post assms(3) show ?thesis
    unfolding whatsapp_body_def Let_def
    by (auto simp: shows_choices_def clean_fail interactive_text split: option.split)
qed

lemma plain_shows [simp]: "shows_choices (plain_message p thread t)"
  by (simp add: shows_choices_def plain_message_def)

lemma clean_nested:
  assumes "gk_observer c = None"
  shows "shows_choices out \<Longrightarrow> clean_failures (whatsapp_nested n env c out)"
proof (induction n arbitrary: out)
  case 0
  then show ?case by (simp add: clean_fail)
next
  case (Suc n)
  have "clean_failures (whatsapp_nested n env c (plain_message p thread part))" for p thread part
    by (rule Suc.IH) simp
  then show ?case unfolding whatsapp_nested.simps by (rule clean_body [OF assms]) (rule Suc.prems)
qed

section \<open>Two levels are enough\<close>

lemma single_texts: "og_text out \<noteq> [] \<Longrightarrow> rune_count (og_text out) \<le> 4096 \<Longrightarrow>
    whatsapp_texts env c self out = graph_post env c (messages_path (gk_number c)) (WaText (og_thread_id out) (og_text out))"
  by (simp add: whatsapp_texts_def chunk_single)

lemma short_body:
  assumes "rune_count part \<le> 4096"
  shows "whatsapp_body env c self (plain_message p thread part) = whatsapp_body env c self' (plain_message p thread part)"
proof (cases "part = []")
  case True
  then show ?thesis by (simp add: whatsapp_body_def outgoing_validate_def plain_message_def)
next
  case False
  with assms show ?thesis
    by (auto simp: whatsapp_body_def Let_def plain_message_def link_lines_def single_texts split: option.split)
qed

lemma pieces_cong: "(\<And>p. p \<in> set ps \<Longrightarrow> send p = send' p) \<Longrightarrow> send_pieces send i ps = send_pieces send' i ps"
  by (induction ps arbitrary: i) simp_all

lemma chunk_pieces:
  assumes "p \<in> set (text_chunks t limit)" "0 < limit"
  shows "rune_count p \<le> limit"
  using chunks_fit [OF assms(2), of t] assms(1) by (auto simp: list_all_iff)

lemma body_cong:
  assumes "\<And>part. rune_count part \<le> 4096 \<Longrightarrow>
      self (plain_message (og_provider out) (og_thread_id out) part) = self' (plain_message (og_provider out) (og_thread_id out) part)"
  shows "whatsapp_body env c self out = whatsapp_body env c self' out"
proof -
  let ?f = "\<lambda>self part. self (plain_message (og_provider out) (og_thread_id out) part)"
  have small: "send_pieces (?f self) 0 (butlast (text_chunks t 1024)) = send_pieces (?f self') 0 (butlast (text_chunks t 1024))" for t
    by (intro pieces_cong assms) (auto dest!: in_set_butlastD chunk_pieces)
  have large: "send_pieces (?f self) 0 (text_chunks t 4096) = send_pieces (?f self') 0 (text_chunks t 4096)" for t
    by (intro pieces_cong assms) (auto dest!: chunk_pieces)
  then have texts: "whatsapp_texts env c (?f self) o' = whatsapp_texts env c (?f self') o'" for o'
    by (simp add: whatsapp_texts_def Let_def)
  show ?thesis unfolding whatsapp_body_def Let_def
    by (simp only: small texts cong del: option.case_cong_weak if_weak_cong)
qed

text \<open>\<open>SendWhatsApp\<close> calls itself: what is sent is the body over itself.\<close>

lemma send_whatsapp_unfold: "send_whatsapp env c out = whatsapp_body env c (send_whatsapp env c) out"
proof -
  let ?base = "whatsapp_nested 0 env c"
  have one: "whatsapp_nested (Suc 0) env c = whatsapp_body env c ?base" by (rule ext) simp
  have two: "send_whatsapp env c = whatsapp_body env c (whatsapp_body env c ?base)"
    unfolding send_whatsapp_def whatsapp_levels_def numeral_2_eq_2 by (rule ext) (simp only: whatsapp_nested.simps one)
  show ?thesis unfolding two by (rule body_cong) (rule short_body)
qed

end
