(* ===== verification/SmsGate.thy ===== *)
theory SmsGate
  imports TelegramUpdates Notifications
begin

text \<open>
  The client of the SMS gateway (\<open>messaging/smsgate/client.go\<close>): what a configuration must hold, the
  checks before a message leaves, and the classification of the gateway's answers. A request over HTTP
  is answered by the environment; URL parsing and the JSON of a status are parameters.
\<close>

section \<open>Configuration\<close>

record sms_config =
  sc_base_url :: string
  sc_username :: string
  sc_password :: string
  sc_device_id :: string
  sc_sim_number :: int

text \<open>A parsed URL: scheme, host, host name, path, and whether it has a user, a query or a fragment.\<close>

record parsed_url =
  pu_scheme :: string
  pu_host :: string
  pu_hostname :: string
  pu_path :: string
  pu_extra :: bool

definition default_sms_url :: string where "default_sms_url = ''https://api.sms-gate.app/3rdparty/v1''"

definition trim_right_slashes :: "string \<Rightarrow> string" where
  "trim_right_slashes s = rev (dropWhile (\<lambda>c. c = CHR ''/'') (rev s))"

definition sms_url_ok :: "parsed_url option \<Rightarrow> bool" where
  "sms_url_ok u = (case u of None \<Rightarrow> False
     | Some u \<Rightarrow> pu_host u \<noteq> [] \<and> \<not> pu_extra u \<and> has_suffix (pu_path u) ''/3rdparty/v1'')"

definition sms_url_safe :: "parsed_url \<Rightarrow> bool" where
  "sms_url_safe u \<longleftrightarrow> pu_scheme u = ''https'' \<or>
     (pu_scheme u = ''http'' \<and> (pu_hostname u = ''127.0.0.1'' \<or> pu_hostname u = ''localhost'' \<or> pu_hostname u = ''::1''))"

definition new_sms_client :: "(string \<Rightarrow> parsed_url option) \<Rightarrow> sms_config \<Rightarrow> sms_config result" where
  "new_sms_client parse config =
     (let config = config\<lparr>sc_base_url := trim_right_slashes
            (if sc_base_url config = [] then default_sms_url else sc_base_url config)\<rparr>;
          u = parse (sc_base_url config) in
      if \<not> sms_url_ok u then Inl (errors_new ''smsgate: invalid API base URL'')
      else if \<not> sms_url_safe (the u) then Inl (errors_new ''smsgate: HTTPS is required'')
      else if trim_space (sc_username config) = [] \<or> CHR '':'' \<in> set (sc_username config) \<or> sc_password config = [] \<or>
         trim_space (sc_device_id config) = [] \<or> sc_sim_number config < 1 \<or> sc_sim_number config > 3
      then Inl (errors_new ''smsgate: username, password, device and SIM (1-3) are required'')
      else Inr config)"

section \<open>Requests and answers\<close>

record sms_message =
  sx_id :: string
  sx_phone :: string
  sx_text :: string
  sx_valid_until :: time
  sx_priority :: int

record sms_status =
  sy_id :: string
  sy_state :: string

datatype sms_kind = SmsRejected | SmsUncertain | SmsUnavailable | SmsNotFound

datatype sms_error = SmsError (sms_error_kind: sms_kind) string

datatype sms_request = SmsPost sms_message | SmsGet string

text \<open>What came back: nothing, a status code with an unreadable or oversized body, or with a body read as JSON.\<close>

datatype sms_answer = SmsNoAnswer | SmsUnreadable int | SmsAnswered int "sms_status option"

definition sms_states :: "string list" where
  "sms_states = [''Pending'', ''Processed'', ''Sent'', ''Delivered'', ''Failed'', ''Cancelling'', ''Cancelled'']"

definition valid_status_for :: "string \<Rightarrow> sms_status \<Rightarrow> bool" where
  "valid_status_for i st \<longleftrightarrow> sy_id st = i \<and> sy_state st \<in> set sms_states"

text \<open>\<open>^[A-Za-z0-9_-]{1,32}$\<close>\<close>

definition sms_id_char :: "char \<Rightarrow> bool" where
  "sms_id_char c = (let n = of_char c :: nat in
     (65 \<le> n \<and> n \<le> 90) \<or> (97 \<le> n \<and> n \<le> 122) \<or> (48 \<le> n \<and> n \<le> 57) \<or> n = 95 \<or> n = 45)"

definition sms_id_ok :: "string \<Rightarrow> bool" where
  "sms_id_ok i \<longleftrightarrow> 1 \<le> length i \<and> length i \<le> 32 \<and> list_all sms_id_char i"

definition failure_of :: "sms_request \<Rightarrow> sms_kind" where
  "failure_of req = (case req of SmsPost m \<Rightarrow> SmsUncertain | SmsGet i \<Rightarrow> SmsUnavailable)"

definition refused_status :: "int \<Rightarrow> bool" where
  "refused_status st \<longleftrightarrow> st = 400 \<or> st = 401 \<or> st = 403 \<or> st = 404 \<or> st = 422"

definition sms_success :: "int \<Rightarrow> bool" where "sms_success st \<longleftrightarrow> 200 \<le> st \<and> st < 300"

definition refused_answer :: "sms_request \<Rightarrow> int \<Rightarrow> sms_error" where
  "refused_answer req st =
     (if st = 404 \<and> failure_of req = SmsUnavailable then SmsError SmsNotFound []
      else SmsError (if refused_status st then SmsRejected else failure_of req) (''HTTP '' @ decimal st))"

definition read_sms_answer :: "sms_request \<Rightarrow> string \<Rightarrow> sms_answer \<Rightarrow> sms_error + sms_status" where
  "read_sms_answer req i answer = (case answer of
       SmsNoAnswer \<Rightarrow> Inl (SmsError (failure_of req) ''transport failed'')
     | SmsUnreadable st \<Rightarrow>
       if \<not> sms_success st then Inl (refused_answer req st)
       else Inl (SmsError (failure_of req) ''incomplete or oversized response'')
     | SmsAnswered st body \<Rightarrow>
       if \<not> sms_success st then Inl (refused_answer req st)
       else (case body of
           Some status \<Rightarrow> if valid_status_for i status then Inr status
             else Inl (SmsError (failure_of req) ''invalid status response'')
         | None \<Rightarrow> Inl (SmsError (failure_of req) ''invalid status response'')))"

definition sms_message_ok :: "(string \<Rightarrow> string option) \<Rightarrow> time \<Rightarrow> sms_message \<Rightarrow> bool" where
  "sms_message_ok lib now m \<longleftrightarrow>
     sms_id_ok (sx_id m) \<and> normalize_phone lib (sx_phone m) = Inr (sx_phone m) \<and> trim_space (sx_text m) \<noteq> [] \<and>
     utf8 (runes (sx_text m)) = sx_text m \<and> rune_count (sx_text m) \<le> 4096 \<and> after (sx_valid_until m) now \<and>
     -128 \<le> sx_priority m \<and> sx_priority m \<le> 127"

section \<open>The client\<close>

text \<open>The requests that left, with their answers, beside the assistant's world.\<close>

record sms_world =
  sw_world :: world
  sw_requests :: "(sms_request \<times> sms_answer) list"

record sms_env =
  sz_lib :: "string \<Rightarrow> string option"
  sz_now :: "nat \<Rightarrow> time"
  sz_answer :: "nat \<Rightarrow> sms_request \<Rightarrow> sms_answer"

definition sms_call :: "sms_env \<Rightarrow> sms_request \<Rightarrow> string \<Rightarrow> (sms_world, sms_error + sms_status) proc" where
  "sms_call env req i s =
     (let answer = sz_answer env (w_tick (sw_world s)) req in
      (Inr (read_sms_answer req i answer),
       s\<lparr>sw_world := tick (sw_world s), sw_requests := sw_requests s @ [(req, answer)]\<rparr>))"

definition sms_send :: "sms_env \<Rightarrow> sms_message \<Rightarrow> (sms_world, sms_error + sms_status) proc" where
  "sms_send env m s =
     (if \<not> sms_message_ok (sz_lib env) (sz_now env (w_tick (sw_world s))) m
      then (Inr (Inl (SmsError SmsRejected ''invalid ID, E.164 recipient, text, expiry or priority'')),
        s\<lparr>sw_world := tick (sw_world s)\<rparr>)
      else sms_call env (SmsPost m) (sx_id m) (s\<lparr>sw_world := tick (sw_world s)\<rparr>))"

definition sms_read_status :: "sms_env \<Rightarrow> string \<Rightarrow> (sms_world, sms_error + sms_status) proc" where
  "sms_read_status env i =
     (if \<not> sms_id_ok i then ret (Inl (SmsError SmsRejected ''invalid message ID''))
      else sms_call env (SmsGet i) i)"

text \<open>The code of the cabinet (\<open>cmd/gateway/cabinet.go\<close>).\<close>

definition send_cabinet_code ::
  "sms_env \<Rightarrow> string \<Rightarrow> string \<Rightarrow> string \<Rightarrow> time \<Rightarrow> (sms_world, unit) proc" where
  "send_cabinet_code env phone txt i expiry =
     attempt (sms_send env \<lparr>sx_id = i, sx_phone = phone, sx_text = txt, sx_valid_until = expiry, sx_priority = 100\<rparr>) id
       (\<lambda>r. case r of
          Inl (SmsError kind t) \<Rightarrow> fail (errors_new (''smsgate: '' @ t))
        | Inr st \<Rightarrow> if sy_state st = ''Failed'' \<or> sy_state st = ''Cancelled''
            then fail (errors_new ''SMS verification delivery failed'') else ret ())"

end
