(* ===== verification/GatewayContext.thy ===== *)
theory GatewayContext
  imports MetaUpdates Notifications CalendarExport
begin

text \<open>
  The bridge to the studio's website (\<open>cmd/gateway/booking_context.go\<close>): a signed, fresh body names an
  action on one phone's appointments, and the answer is a status or a value. Optional readers of the
  calendar are options; JSON decoding, HMAC and the texts of instants are parameters. The helpers of
  the same file prove who may manage an appointment and keep the id of its calendar entry.
\<close>

section \<open>The request\<close>

record context_body =
  cb_action :: string
  cb_phone :: string
  cb_locale :: string
  cb_explicit :: bool
  cb_consent :: bool
  cb_record_id :: string
  cb_proof :: string
  cb_minutes :: int

record review_visit =
  rv_id :: string
  rv_staff_id :: string
  rv_staff_name :: string
  rv_service_name :: string
  rv_datetime :: string

datatype context_answer =
    ContextRefused int
  | StaffSetting bool
  | LocaleAnswer string
  | VisitAnswer string review_visit
  | VisitsAnswer string "review_visit list"
  | EligibleAnswer string bool
  | ConfirmedAnswer string "link_parts option"

record context_env =
  ce_service :: notify_env
  ce_token :: string
  ce_base :: string
  ce_hmac :: "string \<Rightarrow> string \<Rightarrow> string"
  ce_decode :: "string \<Rightarrow> context_body option"
  ce_any_staff :: "(nat \<Rightarrow> bool result) option"
  ce_list_phone :: "(nat \<Rightarrow> string \<Rightarrow> time \<Rightarrow> booking list result) option"
  ce_read_booking :: "(nat \<Rightarrow> booking \<Rightarrow> booking result) option"
  ce_calendar :: calendar_env
  ce_format :: "time \<Rightarrow> string"

text \<open>\<open>hex.EncodeToString\<close>\<close>

definition hex_digit :: "nat \<Rightarrow> char" where
  "hex_digit n = char_of (if n < 10 then 48 + n else 87 + n)"

definition hex_encode :: "string \<Rightarrow> string" where
  "hex_encode s = concat (map (\<lambda>c. let n = of_char c :: nat in [hex_digit (n div 16), hex_digit (n mod 16)]) s)"

definition context_signature :: "(string \<Rightarrow> string \<Rightarrow> string) \<Rightarrow> string \<Rightarrow> string \<Rightarrow> string \<Rightarrow> string" where
  "context_signature hmac user_token timestamp body =
     hex_encode (hmac (hmac user_token ''emotion-ecosystem-auth-v1'')
       (timestamp @ newline @ ''POST'' @ newline @ ''/internal/booking-context'' @ newline @ body))"

text \<open>\<open>strconv.ParseUint(s, 10, 64)\<close>\<close>

definition parse_uint64 :: "string \<Rightarrow> nat option" where
  "parse_uint64 s = (if s = [] \<or> \<not> list_all digit s \<or> digits_value s > 2 ^ 64 - 1 then None else Some (digits_value s))"

section \<open>Appointments\<close>

definition ninety_days :: duration where "ninety_days = 90 * 24 * hour"

definition review_eligible :: "booking \<Rightarrow> time \<Rightarrow> bool" where
  "review_eligible b now \<longleftrightarrow>
     bk_status b \<noteq> StatusCancelled \<and> \<not> bk_no_show b \<and> bk_staff_id b \<noteq> [] \<and> bk_staff_id b \<noteq> ''0'' \<and> bk_duration b > 0 \<and>
     \<not> is_zero (bk_starts_at b) \<and> \<not> before (bk_starts_at b) (now - ninety_days) \<and>
     \<not> after (bk_starts_at b + bk_duration b) now"

definition review_visit_of :: "context_env \<Rightarrow> booking \<Rightarrow> review_visit" where
  "review_visit_of env b = \<lparr>rv_id = bk_external_id b, rv_staff_id = bk_staff_id b, rv_staff_name = bk_staff_name b,
     rv_service_name = join_with '', '' (bk_service_names b), rv_datetime = ce_format env (bk_starts_at b)\<rparr>"

definition web_management_proof :: "notify_env option \<Rightarrow> string \<Rightarrow> string \<Rightarrow> (world, string \<times> string) proc" where
  "web_management_proof service reference phone = (case service of
       None \<Rightarrow> ret ([], [])
     | Some sv \<Rightarrow> attempt (get_entry sv (key_of sv ''record'' reference)) id (\<lambda>row.
         if phone = [] \<or> ne_management_phone row \<noteq> phone \<or> ne_calendar_phone row \<noteq> phone then ret ([], [])
         else ret (ne_calendar_id row, ne_management_token row)))"

definition calendar_row :: "string \<Rightarrow> snapshot \<Rightarrow> entry \<Rightarrow> (booking \<times> entry) result" where
  "calendar_row new_id snap row =
     (let row = (if ne_calendar_id row = [] \<or> ne_calendar_phone row \<noteq> sp_phone snap
            then row\<lparr>ne_calendar_id := new_id, ne_calendar_phone := sp_phone snap\<rparr> else row) in
      Inr ((sp_booking snap)\<lparr>bk_id := ne_calendar_id row\<rparr>, row))"

definition ensure_native_calendar :: "notify_env \<Rightarrow> string \<Rightarrow> snapshot \<Rightarrow> (world, booking) proc" where
  "ensure_native_calendar sv i snap =
     attempt (fresh sv) id (\<lambda>new_id. transact_row sv (key_of sv ''record'' i) (calendar_row new_id snap))"

definition native_calendar_reader :: "notify_env \<Rightarrow> calendar_env \<Rightarrow> string \<Rightarrow> string \<Rightarrow> (world, booking) proc" where
  "native_calendar_reader sv cal i key =
     attempt (get_entry sv (key_of sv ''record'' i)) id (\<lambda>row.
       if ne_calendar_id row = [] then fail (sentinel_error BookingNotFound)
       else if \<not> valid_capability cal (zero_booking\<lparr>bk_id := ne_calendar_id row, bk_external_id := i\<rparr>) key
       then fail (sentinel_error BookingNotFound)
       else attempt (ask (\<lambda>n. nv_reader sv n i)) id (\<lambda>snap.
         if sp_phone snap \<noteq> ne_calendar_phone row then fail (sentinel_error BookingNotFound)
         else let b = (sp_booking snap)\<lparr>bk_id := ne_calendar_id row\<rparr> in
           if bk_duration b \<le> 0 then fail (errors_new ''invalid duration'') else ret b))"

section \<open>The actions\<close>

definition status_unavailable :: int where "status_unavailable = 503"

text \<open>\<open>if err != nil { unavailable; return }\<close>\<close>

definition or_unavailable ::
  "(world, 'a) proc \<Rightarrow> ('a \<Rightarrow> (world, context_answer) proc) \<Rightarrow> (world, context_answer) proc" where
  "or_unavailable m k = observe m (\<lambda>r. case r of Inl _ \<Rightarrow> ret (ContextRefused status_unavailable) | Inr x \<Rightarrow> k x)"

definition booking_settings :: "context_env \<Rightarrow> (world, context_answer) proc" where
  "booking_settings env = (case ce_any_staff env of
       None \<Rightarrow> ret (ContextRefused status_unavailable)
     | Some read_setting \<Rightarrow> or_unavailable (ask read_setting) (\<lambda>enabled. ret (StaffSetting enabled)))"

definition web_permission_row :: "string \<Rightarrow> string \<Rightarrow> time \<Rightarrow> time \<Rightarrow> entry \<Rightarrow> (unit \<times> entry) result" where
  "web_permission_row phone lang now1 now2 row =
     Inr ((), row\<lparr>ne_kind := ''web_permission'',
       ne_contact := (ne_contact zero_entry)\<lparr>ct_phone := phone, ct_language := lang, ct_requested_at := now1,
         ct_expires_at := now2 + 180 * 24 * hour\<rparr>\<rparr>)"

definition prepare_booking_context :: "context_env \<Rightarrow> string \<Rightarrow> string \<Rightarrow> bool \<Rightarrow> (world, context_answer) proc" where
  "prepare_booking_context env phone lang consent =
     (let sv = ce_service env in
      if \<not> consent then ret (ContextRefused 400)
      else attempt (clock sv) id (\<lambda>now1. attempt (clock sv) id (\<lambda>now2.
        or_unavailable (transact_row sv (key_of sv ''web_phone'' phone) (web_permission_row phone lang now1 now2))
          (\<lambda>_. ret (LocaleAnswer lang)))))"

definition queue_reminder_action :: "context_env \<Rightarrow> context_body \<Rightarrow> string \<Rightarrow> string \<Rightarrow> (world, context_answer) proc" where
  "queue_reminder_action env body phone lang =
     or_unavailable (queue_web_reminder (ce_service env) (cb_record_id body) phone (cb_proof body) (cb_minutes body))
       (\<lambda>_. ret (LocaleAnswer lang))"

definition review_check :: "context_env \<Rightarrow> string \<Rightarrow> string \<Rightarrow> string \<Rightarrow> (world, context_answer) proc" where
  "review_check env record_id phone lang =
     (let sv = ce_service env in
      if parse_uint64 record_id = None \<or> parse_uint64 record_id = Some 0 then ret (ContextRefused 400)
      else or_unavailable (ask (\<lambda>n. nv_reader sv n record_id)) (\<lambda>snap.
        attempt (clock sv) id (\<lambda>now.
          if sp_phone snap \<noteq> phone \<or> \<not> review_eligible (sp_booking snap) now then ret (ContextRefused 404)
          else ret (VisitAnswer lang (review_visit_of env (sp_booking snap))))))"

definition review_visits :: "context_env \<Rightarrow> string \<Rightarrow> string \<Rightarrow> (world, context_answer) proc" where
  "review_visits env phone lang = (case ce_list_phone env of
       None \<Rightarrow> ret (ContextRefused status_unavailable)
     | Some list_phone \<Rightarrow>
       attempt (clock (ce_service env)) id (\<lambda>now.
         or_unavailable (ask (\<lambda>n. list_phone n phone (now - ninety_days))) (\<lambda>bs.
           attempt (clock (ce_service env)) id (\<lambda>now.
             ret (VisitsAnswer lang (map (review_visit_of env) (filter (\<lambda>b. review_eligible b now) bs)))))))"

text \<open>Whether the record was made through the studio's own pages, or is bound to the phone.\<close>

definition made_online :: "context_body \<Rightarrow> snapshot \<Rightarrow> bool" where
  "made_online body snap \<longleftrightarrow>
     has_prefix (sp_api_id snap) ''emotion-web-v2-'' \<or>
     (cb_action body = ''record-context'' \<and> has_prefix (sp_api_id snap) ''omnichannel-web-'') \<or>
     (cb_action body = ''confirmed'' \<and> cb_proof body \<noteq> [] \<and> sp_online snap)"

definition bound_to :: "string \<Rightarrow> entry \<Rightarrow> bool" where
  "bound_to phone row \<longleftrightarrow>
     ne_management_token row \<noteq> [] \<and> ne_management_phone row = phone \<and> ne_calendar_phone row = phone"

definition record_eligible :: "string \<Rightarrow> bool \<Rightarrow> snapshot \<Rightarrow> time \<Rightarrow> bool" where
  "record_eligible phone owned snap now \<longleftrightarrow>
     sp_phone snap = phone \<and> owned \<and> bk_status (sp_booking snap) = StatusConfirmed \<and> after (bk_starts_at (sp_booking snap)) now"

definition proof_row :: "string \<Rightarrow> string \<Rightarrow> entry \<Rightarrow> (unit \<times> entry) result" where
  "proof_row phone token row =
     (if ne_calendar_phone row \<noteq> phone then Inl (sentinel_error BookingNotFound)
      else Inr ((), row\<lparr>ne_management_token := token, ne_management_phone := phone\<rparr>))"

text \<open>The proof is tried on the calendar before it is kept.\<close>

definition keep_proof :: "context_env \<Rightarrow> context_body \<Rightarrow> string \<Rightarrow> booking \<Rightarrow> (world, booking) proc" where
  "keep_proof env body phone b =
     (if cb_proof body = [] then ret b
      else case ce_read_booking env of
        None \<Rightarrow> fail (errors_new ''unavailable'')
      | Some read_booking \<Rightarrow>
        if length (cb_proof body) > 256 then fail (errors_new ''unavailable'')
        else let b = b\<lparr>bk_management_token := cb_proof body\<rparr>; sv = ce_service env in
          attempt (ask (\<lambda>n. read_booking n b)) id (\<lambda>_.
          attempt (transact_row sv (key_of sv ''record'' (cb_record_id body)) (proof_row phone (cb_proof body))) id (\<lambda>_. ret b)))"

definition confirmation_event :: "context_env \<Rightarrow> string \<Rightarrow> event" where
  "confirmation_event env record_id = zero_event\<lparr>ev_id := nv_uuid (ce_service env) (''emotion-web-confirmation:'' @ record_id),
     ev_record_id := record_id, ev_status := ''create''\<rparr>"

definition confirm_context :: "context_env \<Rightarrow> context_body \<Rightarrow> string \<Rightarrow> string \<Rightarrow> snapshot \<Rightarrow> (world, context_answer) proc" where
  "confirm_context env body phone lang snap =
     or_unavailable (ensure_native_calendar (ce_service env) (cb_record_id body) snap) (\<lambda>b.
       or_unavailable (keep_proof env body phone b) (\<lambda>b.
         or_unavailable (ingest (ce_service env) (confirmation_event env (cb_record_id body))) (\<lambda>_.
           ret (ConfirmedAnswer lang (calendar_link (ce_calendar env) (ce_base env) b lang)))))"

definition record_context :: "context_env \<Rightarrow> context_body \<Rightarrow> string \<Rightarrow> string \<Rightarrow> (world, context_answer) proc" where
  "record_context env body phone lang =
     (let sv = ce_service env; of_record = (cb_action body = ''record-context'') in
      if parse_uint64 (cb_record_id body) = None then ret (ContextRefused 400)
      else or_unavailable (ask (\<lambda>n. nv_reader sv n (cb_record_id body))) (\<lambda>snap.
        or_unavailable
          (if of_record \<and> \<not> made_online body snap
           then attempt (get_entry sv (key_of sv ''record'' (cb_record_id body))) id (\<lambda>row. ret (bound_to phone row))
           else ret (made_online body snap)) (\<lambda>owned.
        attempt (clock sv) id (\<lambda>now.
          let eligible = record_eligible phone owned snap now in
          if of_record then ret (EligibleAnswer lang eligible)
          else if \<not> eligible then ret (ContextRefused status_unavailable)
          else confirm_context env body phone lang snap))))"

definition context_actions :: "string list" where
  "context_actions = [''context'', ''prepare'', ''confirmed'', ''record-context'', ''review-visits'', ''review-check'', ''reminder'']"

definition context_action :: "context_env \<Rightarrow> context_body \<Rightarrow> (world, context_answer) proc" where
  "context_action env body =
     (let sv = ce_service env; action = cb_action body in
      if action = ''certificate-types'' \<or> action = ''client-certificates'' then ret (ContextRefused 410)
      else if action = ''booking-settings'' then booking_settings env
      else case normalize_phone (nv_lib sv) (cb_phone body) of
        Inl _ \<Rightarrow> ret (ContextRefused 400)
      | Inr phone \<Rightarrow>
        if action \<notin> set context_actions then ret (ContextRefused 400)
        else or_unavailable (resolve_notification_language sv phone (cb_locale body) (cb_explicit body)) (\<lambda>lang.
          if action = ''prepare'' then prepare_booking_context env phone lang (cb_consent body)
          else if action = ''reminder'' then queue_reminder_action env body phone lang
          else if action = ''review-check'' then review_check env (cb_record_id body) phone lang
          else if action = ''review-visits'' then review_visits env phone lang
          else if action = ''confirmed'' \<or> action = ''record-context'' then record_context env body phone lang
          else ret (LocaleAnswer lang)))"

section \<open>The endpoint\<close>

text \<open>A body of \<open>None\<close> could not be read.\<close>

definition serve_context :: "context_env \<Rightarrow> string \<Rightarrow> string \<Rightarrow> string option \<Rightarrow> (world, context_answer) proc" where
  "serve_context env timestamp signature body =
     attempt (clock (ce_service env)) id (\<lambda>now. case parse_int64 timestamp of
         None \<Rightarrow> ret (ContextRefused 401)
       | Some seconds \<Rightarrow>
         if ce_token env = [] \<or> \<bar>time_sub now (unix_time seconds)\<bar> > minute then ret (ContextRefused 401)
         else (case body of
             None \<Rightarrow> ret (ContextRefused 400)
           | Some raw \<Rightarrow>
             if length raw > 4096 then ret (ContextRefused 400)
             else if signature \<noteq> context_signature (ce_hmac env) (ce_token env) timestamp raw then ret (ContextRefused 401)
             else (case ce_decode env raw of None \<Rightarrow> ret (ContextRefused 400) | Some b \<Rightarrow> context_action env b)))"

end
