(* ===== verification/GatewayNotices.thy ===== *)
theory GatewayNotices
  imports MetaClient TelegramClient SmsGate GatewayContext TaskQueues
begin

text \<open>
  Booking notices at the edge of the process (\<open>cmd/gateway/notifications.go\<close>): the webhook that takes
  events of the calendar in, the task that delivers them, and the sender that turns one route of a
  notice into a call of WhatsApp, SMS, the studio's Telegram account or its bot, and says whether the
  provider certainly refused it. The words in three languages, the digest and the layout of dates are
  parameters; the studio's account, a third-party protocol, answers as the environment says.
\<close>

section \<open>Events of the calendar\<close>

record hook_body =
  hb_company_id :: string
  hb_resource :: string
  hb_resource_id :: string
  hb_status :: string

text \<open>The header holds the event's id; a body of \<open>None\<close> could not be decoded.\<close>

record hook_request =
  hr_key :: string
  hr_authorization :: string
  hr_event_id :: string
  hr_body :: "hook_body option"

definition hook_secret_given :: "hook_request \<Rightarrow> string" where
  "hook_secret_given r = (if hr_key r = [] then trim_prefix (hr_authorization r) ''Bearer '' else hr_key r)"

definition record_id_ok :: "string \<Rightarrow> bool" where
  "record_id_ok s \<longleftrightarrow> (case parse_int64 s of None \<Rightarrow> False | Some i \<Rightarrow> i > 0)"

definition notification_webhook :: "string \<Rightarrow> string \<Rightarrow> notify_env \<Rightarrow> hook_request \<Rightarrow> (world, int) proc" where
  "notification_webhook secret company sv r =
     (if length secret < 32 \<or> hook_secret_given r \<noteq> secret then ret 401
      else case hr_body r of None \<Rightarrow> ret 400
      | Some b \<Rightarrow>
        if hb_company_id b \<noteq> company then ret 403
        else if hb_resource b \<noteq> ''record'' then ret 204
        else if \<not> nv_is_uuid sv (hr_event_id r) then ret 400
        else if \<not> record_id_ok (hb_resource_id b) then ret 400
        else if hb_status b \<noteq> ''create'' \<and> hb_status b \<noteq> ''update'' \<and> hb_status b \<noteq> ''delete'' then ret 400
        else observe (ingest sv (zero_event\<lparr>ev_id := hr_event_id r, ev_record_id := hb_resource_id b, ev_status := hb_status b\<rparr>))
          (\<lambda>done_with. ret (case done_with of Inl _ \<Rightarrow> 503 | Inr _ \<Rightarrow> 204)))"

record task_body =
  tk_event_id :: string
  tk_reconcile :: bool

definition notification_task ::
  "(string \<Rightarrow> go_error option) \<Rightarrow> notify_env \<Rightarrow> string \<Rightarrow> task_body option \<Rightarrow> (world, int) proc" where
  "notification_task auth sv authorization body =
     (if auth authorization \<noteq> None then ret 401
      else case body of None \<Rightarrow> ret 400
      | Some b \<Rightarrow>
        if \<not> tk_reconcile b \<and> \<not> nv_is_uuid sv (tk_event_id b) then ret 400
        else observe (if tk_reconcile b then reconcile_notifications sv else deliver_notification sv (tk_event_id b))
          (\<lambda>done_with. ret (case done_with of Inl _ \<Rightarrow> 503 | Inr _ \<Rightarrow> 204)))"

section \<open>The sender\<close>

record gateway_world =
  gx_telegram :: telegram_world
  gx_posts :: "(graph_payload \<times> graph_answer) list"
  gx_sms :: "(sms_request \<times> sms_answer) list"
  gx_account :: "(string \<times> bool \<times> go_error option) list"

definition via_telegram :: "(telegram_world, 'a) proc \<Rightarrow> (gateway_world, 'a) proc" where
  "via_telegram m g = (case m (gx_telegram g) of (r, t) \<Rightarrow> (r, g\<lparr>gx_telegram := t\<rparr>))"

definition via_world :: "(world, 'a) proc \<Rightarrow> (gateway_world, 'a) proc" where
  "via_world m = via_telegram (inside m)"

definition via_meta :: "(meta_world, 'a) proc \<Rightarrow> (gateway_world, 'a) proc" where
  "via_meta m g =
     (case m \<lparr>gw_world = tw_world (gx_telegram g), gw_posts = gx_posts g, gw_profiles = []\<rparr> of
        (r, t) \<Rightarrow> (r, g\<lparr>gx_telegram := (gx_telegram g)\<lparr>tw_world := gw_world t\<rparr>, gx_posts := gw_posts t\<rparr>))"

definition via_sms :: "(sms_world, 'a) proc \<Rightarrow> (gateway_world, 'a) proc" where
  "via_sms m g =
     (case m \<lparr>sw_world = tw_world (gx_telegram g), sw_requests = gx_sms g\<rparr> of
        (r, s) \<Rightarrow> (r, g\<lparr>gx_telegram := (gx_telegram g)\<lparr>tw_world := sw_world s\<rparr>, gx_sms := sw_requests s\<rparr>))"

record notice_env =
  no_service :: notify_env
  no_telegram :: telegram_env
  no_meta :: meta_env
  no_sms_env :: sms_env
  no_sms :: bool
  no_whatsapp :: "graph_client option"
  no_account :: "(nat \<Rightarrow> string \<Rightarrow> string \<Rightarrow> string \<Rightarrow> bool \<times> go_error option) option"
  no_touch :: "(string \<Rightarrow> time \<Rightarrow> (db, unit) proc) option"
  no_renderer :: renderer
  no_calendar :: calendar_env
  no_link_text :: "link_parts \<Rightarrow> string"
  no_calendar_label :: "string \<Rightarrow> string"
  no_title :: "string \<Rightarrow> purpose \<Rightarrow> string"
  no_labels :: "string \<Rightarrow> string \<times> string"
  no_when :: "time \<Rightarrow> string"
  no_booking_url :: string
  no_website_url :: string
  no_digest :: "string \<Rightarrow> string"

definition native_sms_message_id :: "(string \<Rightarrow> string) \<Rightarrow> string \<Rightarrow> string \<Rightarrow> string" where
  "native_sms_message_id digest event_id phone = hex_encode (take 16 (digest (''smsgate:'' @ event_id @ '':'' @ phone)))"

text \<open>
  The outcome of the bot's send: an error before the call, or the call's own error. It is \<open>Send\<close> of the
  client with the error kept apart, which \<open>errors.As\<close> looks for.
\<close>

definition bot_send :: "'e telegram_env_scheme \<Rightarrow> outgoing \<Rightarrow> (telegram_world, (go_error + telegram_error) option) proc" where
  "bot_send env out = (case outgoing_validate out of Some e \<Rightarrow> ret (Some (Inl e))
     | None \<Rightarrow> attempt (post_with_markup env (og_thread_id out) (og_text out) (keyboard_for_message out)) id (\<lambda>r.
         ret (case r of Inl e \<Rightarrow> Some (Inr e) | Inr _ \<Rightarrow> None)))"

definition bot_refused :: "(go_error + telegram_error) option \<Rightarrow> bool" where
  "bot_refused r = (case r of Some (Inr (ApiError a)) \<Rightarrow> 400 \<le> ae_status a \<and> ae_status a < 500 \<and> ae_code a \<noteq> 429 | _ \<Rightarrow> False)"

definition bot_error :: "'e telegram_env_scheme \<Rightarrow> (go_error + telegram_error) option \<Rightarrow> go_error option" where
  "bot_error env r = (case r of None \<Rightarrow> None | Some (Inl e) \<Rightarrow> Some e | Some (Inr e) \<Rightarrow> Some (error_of env e))"

text \<open>\<open>telegramAlertRejected\<close>, for the alert about a failed SMS.\<close>

definition telegram_alert_rejected :: "(go_error + telegram_error) option \<Rightarrow> bool" where
  "telegram_alert_rejected r = (case r of Some (Inr (ApiError a)) \<Rightarrow> 400 \<le> ae_code a \<and> ae_code a < 500 | _ \<Rightarrow> False)"

text \<open>The appointment with the link to its calendar entry, when the entry is bound to this phone.\<close>

definition notice_booking :: "notice_env \<Rightarrow> notice \<Rightarrow> string \<Rightarrow> (world, booking \<times> string) proc" where
  "notice_booking env notc lang =
     (let sv = no_service env; b = sp_booking (nt_snapshot notc) in
      if nt_purpose notc = BookingCancelled then ret (b, [])
      else attempt (get_entry sv (key_of sv ''record'' (bk_external_id b))) id (\<lambda>row.
        if ne_calendar_id row = [] \<or> ne_calendar_phone row \<noteq> sp_phone (nt_snapshot notc) then ret (b, [])
        else let b = b\<lparr>bk_id := ne_calendar_id row\<rparr> in
          ret (b, case calendar_link (no_calendar env) (no_booking_url env) b lang of None \<Rightarrow> [] | Some l \<Rightarrow> no_link_text env l)))"

definition notice_appointment :: "booking \<Rightarrow> string \<Rightarrow> string \<Rightarrow> appointment" where
  "notice_appointment b name calendar_url = \<lparr>ap_customer_name = name, ap_starts_at = bk_starts_at b,
     ap_service = join_with '', '' (bk_service_names b), ap_specialist = bk_staff_name b,
     ap_reference = bk_external_id b, ap_calendar_url = calendar_url\<rparr>"

definition sms_valid_until :: "time \<Rightarrow> notice \<Rightarrow> booking \<Rightarrow> time" where
  "sms_valid_until now notc b =
     (let limit = now + 15 * minute in
      if nt_purpose notc \<noteq> BookingCancelled \<and> before (bk_starts_at b) limit then bk_starts_at b else limit)"

definition sms_go_error :: "sms_error \<Rightarrow> go_error" where
  "sms_go_error e = (case e of SmsError kind t \<Rightarrow> errors_new (''smsgate: '' @ t))"

text \<open>Whether the provider refused for sure, and the error.\<close>

type_synonym send_outcome = "bool \<times> go_error option"

definition notice_by_sms ::
  "notice_env \<Rightarrow> target \<Rightarrow> notice \<Rightarrow> string \<Rightarrow> booking \<Rightarrow> string \<Rightarrow> (gateway_world, send_outcome) proc" where
  "notice_by_sms env tgt notc lang b calendar_url =
     (if \<not> no_sms env then ret (True, Some (errors_new ''SMS unavailable''))
      else attempt (via_world (clock (no_service env))) id (\<lambda>now.
        attempt (via_sms (sms_send (no_sms_env env)
          \<lparr>sx_id = native_sms_message_id (no_digest env) (nt_id notc) (tg_address tgt), sx_phone = tg_address tgt,
           sx_text = sms_text (no_renderer env) (no_title env lang (nt_purpose notc)) (notice_appointment b [] calendar_url) lang,
           sx_valid_until = sms_valid_until now notc b, sx_priority = 0\<rparr>)) id (\<lambda>r.
          ret (case r of Inl e \<Rightarrow> (sms_error_kind e = SmsRejected, Some (sms_go_error e)) | Inr _ \<Rightarrow> (False, None)))))"

definition notice_details :: "booking \<Rightarrow> string" where
  "notice_details b =
     (let details = join_with '', '' (bk_service_names b) in
      if bk_staff_name b \<noteq> [] then (if details \<noteq> [] then details @ middle_dot else details) @ bk_staff_name b else details)"

definition graph_outcome :: "unit result \<Rightarrow> send_outcome" where
  "graph_outcome r = (case r of Inl e \<Rightarrow> (errors_is e GraphRejected, Some e) | Inr _ \<Rightarrow> (False, None))"

text \<open>A reminder has a template of its own; the other notices fill the template of their purpose.\<close>

definition whatsapp_notice ::
  "notice_env \<Rightarrow> graph_client \<Rightarrow> target \<Rightarrow> notice \<Rightarrow> string \<Rightarrow> booking \<Rightarrow> string \<Rightarrow> (meta_world, unit) proc" where
  "whatsapp_notice env c tgt notc lang b calendar_url =
     (let reference = ''native-booking:'' @ nt_id notc in
      if nt_purpose notc = BookingReminder
      then send_reminder_with_reference (no_meta env)
        \<lparr>tr_client = c, tr_templates = [(lang, tg_template_id tgt)]\<rparr>
        (plain_message ProviderWhatsApp (tg_address tgt) []) lang b calendar_url reference
      else send_booking_template_with_reference (no_meta env) c (tg_address tgt) (tg_template_id tgt) lang
        [no_title env lang (nt_purpose notc), no_when env (bk_starts_at b), notice_details b] reference)"

definition notice_by_whatsapp ::
  "notice_env \<Rightarrow> target \<Rightarrow> notice \<Rightarrow> string \<Rightarrow> booking \<Rightarrow> string \<Rightarrow> (gateway_world, send_outcome) proc" where
  "notice_by_whatsapp env tgt notc lang b calendar_url = (case no_whatsapp env of
       None \<Rightarrow> ret (True, Some (errors_new ''WhatsApp unavailable''))
     | Some c \<Rightarrow> observe (via_meta (whatsapp_notice env c tgt notc lang b calendar_url)) (\<lambda>r. ret (graph_outcome r)))"

definition notice_kind :: "purpose \<Rightarrow> message_kind" where
  "notice_kind p = (if p = BookingChanged then KindChanged else if p = BookingCancelled then KindCancelled
     else if p = BookingReminder then KindReminder else KindConfirmed)"

definition notice_links :: "notice_env \<Rightarrow> string \<Rightarrow> appointment \<Rightarrow> link list" where
  "notice_links env lang a =
     visit_links (no_renderer env) lang (no_calendar_label env lang) a @
     [\<lparr>lk_label = fst (no_labels env lang), lk_url = no_booking_url env\<rparr>,
      \<lparr>lk_label = snd (no_labels env lang), lk_url = no_website_url env\<rparr>]"

definition account_text :: "string \<Rightarrow> link list \<Rightarrow> string" where
  "account_text txt links =
     txt @ concat (map (\<lambda>l. newline @ lk_label l @ '': '' @ lk_url l) (filter (\<lambda>l. lk_url l \<noteq> []) links))"

definition account_send ::
  "(nat \<Rightarrow> string \<Rightarrow> string \<Rightarrow> string \<Rightarrow> bool \<times> go_error option) \<Rightarrow> string \<Rightarrow> string \<Rightarrow> string \<Rightarrow>
   (gateway_world, send_outcome) proc" where
  "account_send answer address txt i g =
     (let w = tw_world (gx_telegram g); r = answer (w_tick w) address txt i in
      (Inr r, g\<lparr>gx_telegram := (gx_telegram g)\<lparr>tw_world := tick w\<rparr>, gx_account := gx_account g @ [(txt, r)]\<rparr>))"

text \<open>The notice joins the conversation it was sent into; a failure is only logged.\<close>

definition record_transcript :: "notice_env \<Rightarrow> outgoing \<Rightarrow> notice \<Rightarrow> string \<Rightarrow> (world, unit) proc" where
  "record_transcript env out notc lang =
     (let sv = no_service env; name = bk_customer_name (sp_booking (nt_snapshot notc)) in
      attempt (clock sv) id (\<lambda>now.
      attempt (fresh sv) id (\<lambda>identity_id.
      attempt (fresh sv) id (\<lambda>customer_id.
      attempt (store sv (find_or_create_by_channel_identity
          \<lparr>ci_id = identity_id, ci_customer_id = [], ci_provider = og_provider out, ci_user_id = og_thread_id out,
           ci_display_name = name, ci_language = lang, ci_created_at = now\<rparr>
          \<lparr>cu_id = customer_id, cu_name = name, cu_phone = [], cu_verified_phone = [], cu_created_at = now,
           cu_updated_at = now\<rparr>)) id (\<lambda>cust.
      attempt (fresh sv) id (\<lambda>conversation_id.
      attempt (store sv (find_or_open (opened conversation_id cust (og_provider out) (og_thread_id out) now))) id (\<lambda>conv.
      attempt (fresh sv) id (\<lambda>message_id.
      attempt (store sv (append_message \<lparr>ms_id = message_id, ms_conversation_id = cv_id conv,
          ms_direction = DirectionOutbound, ms_content_type = ContentTypeText, ms_text = og_text out,
          ms_external_id = ''native:'' @ nt_id notc, ms_created_at = now\<rparr>)) id (\<lambda>_.
        case no_touch env of None \<Rightarrow> ret () | Some touch \<Rightarrow> store sv (touch (conv_key conv) now))))))))))"

definition notice_by_telegram ::
  "notice_env \<Rightarrow> target \<Rightarrow> notice \<Rightarrow> string \<Rightarrow> booking \<Rightarrow> string \<Rightarrow> (gateway_world, send_outcome) proc" where
  "notice_by_telegram env tgt notc lang b calendar_url =
     (let a = notice_appointment b (bk_customer_name b) calendar_url;
          txt = render (no_renderer env) lang a (notice_kind (nt_purpose notc));
          links = notice_links env lang a;
          out = with_links (plain_message ProviderTelegram (tg_address tgt) txt) links in
      if tg_studio_account tgt
      then (case no_account env of
          None \<Rightarrow> ret (True, Some (errors_new ''studio Telegram account unavailable''))
        | Some answer \<Rightarrow> account_send answer (tg_address tgt) (account_text txt links) (nt_id notc))
      else attempt (via_telegram (bot_send (no_telegram env) out)) id (\<lambda>r.
        attempt (if r = None then observe (via_world (record_transcript env out notc lang)) (\<lambda>_. ret ()) else ret ()) id (\<lambda>_.
          ret (bot_refused r, bot_error (no_telegram env) r))))"

definition send_notice :: "notice_env \<Rightarrow> target \<Rightarrow> notice \<Rightarrow> string \<Rightarrow> (gateway_world, send_outcome) proc" where
  "send_notice env tgt notc tag =
     (let lang = parse_language tag in
      observe (via_world (notice_booking env notc lang)) (\<lambda>r. case r of
        Inl e \<Rightarrow> ret (True, Some e)
      | Inr (b, calendar_url) \<Rightarrow>
        if tg_channel tgt = SMS then notice_by_sms env tgt notc lang b calendar_url
        else if tg_channel tgt = WhatsApp then notice_by_whatsapp env tgt notc lang b calendar_url
        else notice_by_telegram env tgt notc lang b calendar_url))"

end
