(* ===== verification/GatewayLaws.thy ===== *)
theory GatewayLaws
  imports GatewayNotices MetaLaws
begin

text \<open>
  Laws of the gateway: an action of the website's bridge runs only for a fresh signed body, an event
  that is acknowledged is stored and its task scheduled, and a notice reported as refused was taken by
  no provider.
\<close>

section \<open>The bridge to the website\<close>

lemma or_unavailable_passed:
  assumes "or_unavailable m k w = (Inr a, w')" "\<And>st. a \<noteq> ContextRefused st"
  obtains x v where "m w = (Inr x, v)" "k x v = (Inr a, w')"
  using assms by (auto simp: or_unavailable_def observe_apply ret_def split: prod.splits sum.splits)

text \<open>What the bridge asks of a request before it does anything.\<close>

definition signed_request :: "context_env \<Rightarrow> time \<Rightarrow> string \<Rightarrow> string \<Rightarrow> string option \<Rightarrow> bool" where
  "signed_request env now timestamp signature body \<longleftrightarrow>
     (\<exists>seconds raw. parse_int64 timestamp = Some seconds \<and> \<bar>time_sub now (unix_time seconds)\<bar> \<le> minute \<and> ce_token env \<noteq> [] \<and>
        body = Some raw \<and> length raw \<le> 4096 \<and> signature = context_signature (ce_hmac env) (ce_token env) timestamp raw)"

lemma unsigned_refused:
  assumes "\<not> signed_request env (e_now (ce_service env) (w_tick w)) timestamp signature body"
  shows "\<exists>st. serve_context env timestamp signature body w = (Inr (ContextRefused st), tick w)"
  using assms
  by (auto simp: serve_context_def attempt_apply clock_apply ret_def signed_request_def not_less split: option.split)

lemma signed_served:
  assumes "signed_request env (e_now (ce_service env) (w_tick w)) timestamp signature (Some raw)"
  shows "serve_context env timestamp signature (Some raw) w =
    (case ce_decode env raw of None \<Rightarrow> ret (ContextRefused 400) | Some b \<Rightarrow> context_action env b) (tick w)"
proof -
  from assms obtain seconds where "parse_int64 timestamp = Some seconds"
    "\<not> \<bar>time_sub (e_now (ce_service env) (w_tick w)) (unix_time seconds)\<bar> > minute" "ce_token env \<noteq> []" "\<not> length raw > 4096"
    "signature = context_signature (ce_hmac env) (ce_token env) timestamp raw"
    by (auto simp: signed_request_def)
  then show ?thesis
    unfolding serve_context_def attempt_apply clock_apply by (simp only: option.case prod.case sum.case if_False simp_thms)
qed

lemma keep_proof_tried:
  assumes "keep_proof env body phone b w = (Inr b', v)" "cb_proof body \<noteq> []"
  shows "\<exists>read n b''. ce_read_booking env = Some read \<and> read n (b\<lparr>bk_management_token := cb_proof body\<rparr>) = Inr b''"
  using assms
  by (auto simp: keep_proof_def fail_def attempt_apply ask_def Let_def split: option.splits if_splits sum.splits prod.splits)

lemma ensured_booking:
  assumes "ensure_native_calendar sv i snap w = (Inr b, v)"
  shows "\<exists>c. b = (sp_booking snap)\<lparr>bk_id := c\<rparr>"
  using assms
  by (auto simp: ensure_native_calendar_def attempt_apply fresh_apply transact_row_def transact_def store_def
      transact_notifications_def on_row_def calendar_row_def Let_def split: fault.splits)

text \<open>The appointment a confirmation is given for.\<close>

definition confirmed_for :: "context_env \<Rightarrow> context_body \<Rightarrow> string \<Rightarrow> bool" where
  "confirmed_for env body phone \<longleftrightarrow>
     (\<exists>n snap now. nv_reader (ce_service env) n (cb_record_id body) = Inr snap \<and> sp_phone snap = phone \<and>
        bk_status (sp_booking snap) = StatusConfirmed \<and> after (bk_starts_at (sp_booking snap)) now \<and>
        (has_prefix (sp_api_id snap) ''emotion-web-v2-'' \<or> cb_proof body \<noteq> [] \<and> sp_online snap) \<and>
        (cb_proof body \<noteq> [] \<longrightarrow> (\<exists>read m c b. ce_read_booking env = Some read \<and>
           read m ((sp_booking snap)\<lparr>bk_id := c, bk_management_token := cb_proof body\<rparr>) = Inr b)))"

lemma confirmation_owned:
  assumes "record_context env body phone lang w = (Inr (ConfirmedAnswer l link), w')"
  shows "confirmed_for env body phone"
proof -
  let ?sv = "ce_service env" and ?of = "cb_action body = ''record-context''"
  from assms have rid: "parse_uint64 (cb_record_id body) \<noteq> None"
    by (cases "parse_uint64 (cb_record_id body)") (simp_all add: record_context_def ret_def Let_def)
  from assms obtain snap v owned v' now v'' where
    read: "ask (\<lambda>n. nv_reader ?sv n (cb_record_id body)) w = (Inr snap, v)" and
    own: "(if ?of \<and> \<not> made_online body snap
           then attempt (get_entry ?sv (key_of ?sv ''record'' (cb_record_id body))) id (\<lambda>row. ret (bound_to phone row))
           else ret (made_online body snap)) v = (Inr owned, v')" and
    clock: "clock ?sv v' = (Inr now, v'')" and
    rest: "(let eligible = record_eligible phone owned snap now in
          if ?of then ret (EligibleAnswer lang eligible)
          else if \<not> eligible then ret (ContextRefused status_unavailable)
          else confirm_context env body phone lang snap) v'' = (Inr (ConfirmedAnswer l link), w')"
    using rid unfolding record_context_def Let_def
    by (auto elim!: or_unavailable_passed simp: attempt_apply clock_apply)
  from rest have action: "\<not> ?of" and eligible: "record_eligible phone owned snap now"
    and confirmed: "confirm_context env body phone lang snap v'' = (Inr (ConfirmedAnswer l link), w')"
    by (auto simp: ret_def Let_def split: if_splits)
  from own action have owned: "owned = made_online body snap" by (simp add: ret_def)
  from confirmed obtain b x where ensured: "ensure_native_calendar ?sv (cb_record_id body) snap v'' = (Inr b, x)"
    and proved: "\<exists>b' y. keep_proof env body phone b x = (Inr b', y)"
    unfolding confirm_context_def by (auto elim!: or_unavailable_passed)
  from ensured_booking [OF ensured] obtain c where c: "b = (sp_booking snap)\<lparr>bk_id := c\<rparr>" by blast
  have "cb_proof body \<noteq> [] \<longrightarrow> (\<exists>read m c b. ce_read_booking env = Some read \<and>
           read m ((sp_booking snap)\<lparr>bk_id := c, bk_management_token := cb_proof body\<rparr>) = Inr b)"
    using proved keep_proof_tried [of env body phone b x] c by fastforce
  moreover have "nv_reader ?sv (w_tick w) (cb_record_id body) = Inr snap" using read by (simp add: ask_def)
  moreover have "has_prefix (sp_api_id snap) ''emotion-web-v2-'' \<or> cb_proof body \<noteq> [] \<and> sp_online snap"
    using eligible owned action by (auto simp: record_eligible_def made_online_def)
  ultimately show ?thesis
    using eligible unfolding confirmed_for_def record_eligible_def by blast
qed

lemma confirmed_action:
  assumes "context_action env body w = (Inr (ConfirmedAnswer l link), w')"
  shows "\<exists>phone. normalize_phone (nv_lib (ce_service env)) (cb_phone body) = Inr phone \<and> confirmed_for env body phone"
proof -
  have others: "booking_settings env v \<noteq> (Inr (ConfirmedAnswer l link), w')"
    "prepare_booking_context env p g t v \<noteq> (Inr (ConfirmedAnswer l link), w')"
    "queue_reminder_action env body p g v \<noteq> (Inr (ConfirmedAnswer l link), w')"
    "review_check env i p g v \<noteq> (Inr (ConfirmedAnswer l link), w')"
    "review_visits env p g v \<noteq> (Inr (ConfirmedAnswer l link), w')" for v p g t i
    by (auto simp: booking_settings_def prepare_booking_context_def queue_reminder_action_def review_check_def review_visits_def
        or_unavailable_def observe_apply attempt_apply ask_def clock_def ret_def Let_def
        split: option.splits sum.splits prod.splits if_splits)
  from assms others obtain phone where phone: "normalize_phone (nv_lib (ce_service env)) (cb_phone body) = Inr phone"
    by (auto simp: context_action_def Let_def ret_def split: if_splits sum.splits)
  let ?k = "\<lambda>lang. if cb_action body = ''prepare'' then prepare_booking_context env phone lang (cb_consent body)
      else if cb_action body = ''reminder'' then queue_reminder_action env body phone lang
      else if cb_action body = ''review-check'' then review_check env (cb_record_id body) phone lang
      else if cb_action body = ''review-visits'' then review_visits env phone lang
      else if cb_action body = ''confirmed'' \<or> cb_action body = ''record-context'' then record_context env body phone lang
      else ret (LocaleAnswer lang)"
  from assms others phone have "or_unavailable (resolve_notification_language (ce_service env) phone (cb_locale body) (cb_explicit body)) ?k w =
      (Inr (ConfirmedAnswer l link), w')"
    unfolding context_action_def Let_def by (simp add: ret_def split: if_splits)
  then obtain lang v where "?k lang v = (Inr (ConfirmedAnswer l link), w')" by (rule or_unavailable_passed) simp_all
  with others have "\<exists>lang v. record_context env body phone lang v = (Inr (ConfirmedAnswer l link), w')"
    by (auto simp: ret_def split: if_splits)
  with phone confirmation_owned show ?thesis by blast
qed

section \<open>Events of the calendar\<close>

lemma stored_event:
  assumes "transact_row sv key (ingest_event e) w = (Inr x, v)"
  shows "ne_kind (row_or zero_entry (db_entries (w_db v)) key) \<noteq> []"
  using assms
  by (auto simp: transact_row_def transact_def store_def transact_notifications_def on_row_def ingest_event_def
      row_or_def zero_entry_def split: fault.splits option.splits if_splits)

lemma ingested_event:
  assumes "ingest sv e w = (Inr x, w')"
  shows "ne_kind (row_or zero_entry (db_entries (w_db w')) (key_of sv ''event'' (ev_id e))) \<noteq> [] \<and>
    (\<exists>at. (ScheduleNotification (key_of sv ''native'' (ev_id e @ '':initial'')) (ev_id e) at, None) \<in> set (w_log w'))"
proof -
  let ?e = "e\<lparr>ev_received_at := e_now sv (w_tick w)\<rparr>"
  obtain r v where row: "transact_row sv (key_of sv ''event'' (ev_id e)) (ingest_event ?e) (tick w) = (r, v)" by force
  with assms have r: "r = Inr ()" by (cases r) (auto simp: ingest_def attempt_apply clock_apply Let_def)
  with assms row have done_with: "schedule_notification sv (ev_id e) ''initial'' v = (Inr x, w')"
    by (simp add: ingest_def attempt_apply clock_apply Let_def)
  from stored_event [OF row [unfolded r]] have "ne_kind (row_or zero_entry (db_entries (w_db v)) (key_of sv ''event'' (ev_id e))) \<noteq> []" .
  moreover from done_with have "w_db w' = w_db v" "e_outcome sv (Suc (w_tick v)) = None"
    by (auto simp: schedule_notification_def attempt_apply clock_apply perform_def split: option.splits)
  ultimately show ?thesis using done_with
    by (auto simp: schedule_notification_def attempt_apply clock_apply perform_def)
qed

section \<open>Notices a provider refused\<close>

definition refused_post :: "graph_answer \<Rightarrow> bool" where
  "refused_post a = (case a of GraphAnswered st b \<Rightarrow> \<not> success st \<and> (st < 500 \<or> gb_code b = 190 \<or> gb_code b = 102) | _ \<Rightarrow> False)"

definition refused_sms :: "sms_answer \<Rightarrow> bool" where
  "refused_sms a = (case a of SmsNoAnswer \<Rightarrow> False | SmsUnreadable st \<Rightarrow> refused_status st | SmsAnswered st b \<Rightarrow> refused_status st)"

definition refused_call :: "telegram_error option \<Rightarrow> bool" where
  "refused_call e = (case e of Some (ApiError a) \<Rightarrow> 400 \<le> ae_status a \<and> ae_status a < 500 | _ \<Rightarrow> False)"

text \<open>Whatever left for a provider between two states was refused by it.\<close>

definition grown_by :: "('b \<Rightarrow> bool) \<Rightarrow> ('a \<times> 'b) list \<Rightarrow> ('a \<times> 'b) list \<Rightarrow> bool" where
  "grown_by P xs ys \<longleftrightarrow> (\<exists>new. ys = xs @ new \<and> list_all (P \<circ> snd) new)"

definition taken_by_none :: "gateway_world \<Rightarrow> gateway_world \<Rightarrow> bool" where
  "taken_by_none g h \<longleftrightarrow>
     grown_by refused_post (gx_posts g) (gx_posts h) \<and> grown_by refused_sms (gx_sms g) (gx_sms h) \<and>
     grown_by refused_call (tw_calls (gx_telegram g)) (tw_calls (gx_telegram h)) \<and>
     grown_by fst (gx_account g) (gx_account h)"

lemma grown_refl [simp]: "grown_by P xs xs"
  by (simp add: grown_by_def)

lemma grown_one: "P b \<Longrightarrow> grown_by P xs (xs @ [(a, b)])"
  by (simp add: grown_by_def)

lemma none_refl [simp]: "taken_by_none g g"
  by (simp add: taken_by_none_def)

text \<open>Steps of the process itself leave the calls alone.\<close>

lemma world_steps: "via_world m g = (r, h) \<Longrightarrow>
    gx_posts h = gx_posts g \<and> gx_sms h = gx_sms g \<and> gx_account h = gx_account g \<and> tw_calls (gx_telegram h) = tw_calls (gx_telegram g)"
  by (auto simp: via_world_def via_telegram_def inside_def split: prod.splits)

lemma none_after:
  assumes "via_world m g = (r, h)" "taken_by_none h k"
  shows "taken_by_none g k"
  using assms(2) world_steps [OF assms(1)] by (simp add: taken_by_none_def)

lemma rejected_read:
  "read_post words path a = Inl e \<Longrightarrow> errors_is e GraphRejected \<Longrightarrow> refused_post a"
  by (auto simp: read_post_def refused_post_def unanswered_def graph_translate_def errors_is_def success_def Let_def marked_def
      split: graph_answer.splits if_splits)

lemma rejected_post:
  assumes "graph_post env c path p t = (Inl e, u)" "errors_is e GraphRejected" "gk_observer c = None"
  shows "grown_by refused_post (gw_posts t) (gw_posts u)"
proof -
  obtain r v where guard: "delivery_guard c path p t = (r, v)" by force
  then have same: "gw_posts v = gw_posts t" by (rule guard_posts)
  show ?thesis
  proof (cases "r = Inr True")
    case False
    with assms guard have "u = v" by (cases r) (auto simp: graph_post_def attempt_apply fail_def)
    with same show ?thesis by simp
  next
    case True
    let ?a = "mt_post env (w_tick (gw_world v)) path p"
    from True assms guard have "read_post (mt_status_text env) path ?a = Inl e" "gw_posts u = gw_posts v @ [(p, ?a)]"
      by (auto simp: graph_post_def attempt_apply post_call_def observe_response_def ret_def Let_def split: sum.splits)
    with rejected_read assms(2) same show ?thesis by (simp add: grown_one)
  qed
qed

lemma whatsapp_refused:
  assumes "notice_by_whatsapp env tgt notc lang b url g = (Inr (True, e), h)"
    and "\<And>c. no_whatsapp env = Some c \<Longrightarrow> gk_observer c = None"
  shows "taken_by_none g h"
proof (cases "no_whatsapp env")
  case None
  with assms(1) show ?thesis by (auto simp: notice_by_whatsapp_def ret_def)
next
  case (Some c)
  let ?m = "whatsapp_notice env c tgt notc lang b url"
  let ?t = "\<lparr>gw_world = tw_world (gx_telegram g), gw_posts = gx_posts g, gw_profiles = []\<rparr>"
  obtain r u where run: "?m ?t = (r, u)" by force
  with assms(1) Some have out: "graph_outcome r = (True, e)"
    and h: "h = g\<lparr>gx_telegram := (gx_telegram g)\<lparr>tw_world := gw_world u\<rparr>, gx_posts := gw_posts u\<rparr>"
    by (auto simp: notice_by_whatsapp_def observe_apply via_meta_def ret_def)
  from out obtain f where f: "r = Inl f" "errors_is f GraphRejected" by (auto simp: graph_outcome_def split: sum.splits)
  have "grown_by refused_post (gw_posts ?t) (gw_posts u)"
    using run f rejected_post [OF _ f(2), where t = ?t and u = u] assms(2) Some
    by (auto simp: whatsapp_notice_def send_reminder_with_reference_def send_booking_template_with_reference_def fail_def Let_def
        split: if_splits)
  with h show ?thesis by (simp add: taken_by_none_def)
qed

lemma rejected_sms: "read_sms_answer (SmsPost m) i a = Inl e \<Longrightarrow> sms_error_kind e = SmsRejected \<Longrightarrow> refused_sms a"
  by (auto simp: read_sms_answer_def refused_sms_def refused_answer_def failure_of_def split: sms_answer.splits if_splits option.splits)

lemma sms_refused:
  assumes "notice_by_sms env tgt notc lang b url g = (Inr (True, e), h)"
  shows "taken_by_none g h"
proof (cases "no_sms env")
  case True
  obtain r v where clock: "via_world (clock (no_service env)) g = (r, v)" by force
  have "taken_by_none v h"
    using assms True clock
    by (auto simp: notice_by_sms_def attempt_apply via_sms_def sms_send_def sms_call_def ret_def Let_def taken_by_none_def
        intro!: grown_one rejected_sms split: sum.splits if_splits prod.splits)
  with clock show ?thesis by (rule none_after)
qed (use assms in \<open>auto simp: notice_by_sms_def ret_def\<close>)

lemma bot_sent:
  assumes "via_telegram (bot_send env out) g = (r, v)"
  shows "\<exists>x. r = Inr x \<and> (bot_refused x \<longrightarrow> taken_by_none g v)"
proof (cases "outgoing_validate out")
  case None
  let ?q = "PostMessage (og_thread_id out) (og_text out) (keyboard_for_message out)"
  let ?a = "read_answer (tb_token env) (request_method ?q) (tb_answer env (w_tick (tw_world (gx_telegram g))) ?q)"
  from assms None show ?thesis
    by (cases ?a)
      (auto simp: via_telegram_def bot_send_def attempt_apply post_with_markup_def telegram_call_def ret_def Let_def
        taken_by_none_def bot_refused_def refused_call_def intro!: grown_one split: telegram_error.splits)
qed (use assms in \<open>auto simp: via_telegram_def bot_send_def ret_def bot_refused_def\<close>)

lemma telegram_refused:
  assumes "notice_by_telegram env tgt notc lang b url g = (Inr (True, e), h)"
  shows "taken_by_none g h"
proof (cases "tg_studio_account tgt")
  case True
  with assms show ?thesis
    by (auto simp: notice_by_telegram_def account_send_def ret_def Let_def taken_by_none_def intro!: grown_one split: option.splits)
next
  case False
  let ?a = "notice_appointment b (bk_customer_name b) url"
  let ?out = "with_links (plain_message ProviderTelegram (tg_address tgt)
      (render (no_renderer env) lang ?a (notice_kind (nt_purpose notc)))) (notice_links env lang ?a)"
  obtain r v where sent: "via_telegram (bot_send (no_telegram env) ?out) g = (r, v)" by force
  from bot_sent [OF sent] obtain x where r: "r = Inr x" and none: "bot_refused x \<Longrightarrow> taken_by_none g v" by blast
  have "bot_refused x" "h = v"
    using assms False sent r
    by (auto simp: notice_by_telegram_def attempt_apply observe_apply ret_def Let_def bot_refused_def split: if_splits prod.splits)
  with none show ?thesis by simp
qed

lemma refused_notice:
  assumes "send_notice env tgt notc tag g = (Inr (True, e), h)"
    and "\<And>c. no_whatsapp env = Some c \<Longrightarrow> gk_observer c = None"
  shows "taken_by_none g h"
proof -
  obtain r v where prep: "via_world (notice_booking env notc (parse_language tag)) g = (r, v)" by force
  have "taken_by_none v h"
    using assms(1) prep
    by (auto simp: send_notice_def observe_apply ret_def Let_def intro: sms_refused whatsapp_refused [OF _ assms(2)] telegram_refused
        split: sum.splits if_splits prod.splits)
  with prep show ?thesis by (rule none_after)
qed

end
