(* ===== verification/GatewayProperties.thy ===== *)
theory GatewayProperties
  imports GatewayLaws AssistantProperties ExportProperties TelegramProperties DeliveryProperties
begin

text \<open>
  What the edge of the process guarantees: nothing is read or written for an unsigned request of the
  website, a confirmation is given only for the caller's own future appointment, an event that is
  acknowledged is stored and scheduled, and a notice reported as refused was taken by no provider.
\<close>

text \<open>
  A request of the website that is not signed with the shared secret, or whose timestamp is more than
  a minute away, is refused before anything is read or written.
\<close>

theorem unsigned_request_refused:
  assumes "\<not> signed_request env (e_now (ce_service env) (w_tick w)) timestamp signature body"
  shows "\<exists>st. serve_context env timestamp signature body w = (Inr (ContextRefused st), tick w)"
  by (rule unsigned_refused [OF assms])

definition bridge_visit :: snapshot where
  "bridge_visit = zero_snapshot\<lparr>sp_phone := ''+37491000000'', sp_api_id := ''emotion-web-v2-1'',
     sp_booking := zero_booking\<lparr>bk_external_id := ''7'', bk_status := StatusConfirmed, bk_starts_at := unix_time 900\<rparr>\<rparr>"

definition confirm_body :: context_body where
  "confirm_body = \<lparr>cb_action = ''confirmed'', cb_phone = ''+37491000000'', cb_locale = ''en'', cb_explicit = False,
     cb_consent = False, cb_record_id = ''7'', cb_proof = [], cb_minutes = 0\<rparr>"

definition sample_context :: context_env where
  "sample_context = \<lparr>ce_service = sample_notify\<lparr>nv_reader := \<lambda>n i. Inr bridge_visit, e_now := \<lambda>n. unix_time 0\<rparr>, ce_token = ''t'', ce_base = ''https://s'',
     ce_hmac = (\<lambda>k m. m), ce_decode = (\<lambda>raw. Some confirm_body), ce_any_staff = None, ce_list_phone = None,
     ce_read_booking = None, ce_calendar = sample_calendar, ce_format = (\<lambda>t. [])\<rparr>"

theorem unsigned_request_refused_witness:
  "\<exists>st. serve_context sample_context ''0'' [] (Some ''{}'') sample_world = (Inr (ContextRefused st), tick sample_world)"
  by (rule unsigned_request_refused) (simp add: signed_request_def sample_context_def context_signature_def hex_encode_def Let_def)









text \<open>
  When the webhook of the calendar acknowledges an event about a record, the caller knew the shared
  secret, the event is stored, and its delivery has been handed to the task queue.
\<close>

theorem accepted_event_stored:
  assumes "notification_webhook secret company sv r w = (Inr 204, w')" "hr_body r = Some b" "hb_resource b = ''record''"
  shows "length secret \<ge> 32 \<and> hook_secret_given r = secret \<and>
    ne_kind (row_or zero_entry (db_entries (w_db w')) (key_of sv ''event'' (hr_event_id r))) \<noteq> [] \<and>
    (\<exists>at. (ScheduleNotification (key_of sv ''native'' (hr_event_id r @ '':initial'')) (hr_event_id r) at, None) \<in> set (w_log w'))"
proof -
  let ?e = "zero_event\<lparr>ev_id := hr_event_id r, ev_record_id := hb_resource_id b, ev_status := hb_status b\<rparr>"
  have known: "length secret \<ge> 32" "hook_secret_given r = secret"
    using assms by (auto simp: notification_webhook_def ret_def split: if_splits)
  from assms obtain x where "ingest sv ?e w = (Inr x, w')"
    by (auto simp: notification_webhook_def ret_def observe_apply split: if_splits prod.splits sum.splits)
  from ingested_event [OF this] known show ?thesis by simp
qed

definition sample_hook_request :: hook_request where
  "sample_hook_request = \<lparr>hr_key = replicate 32 (CHR ''k''), hr_authorization = [], hr_event_id = ''e1'',
     hr_body = Some \<lparr>hb_company_id = ''1'', hb_resource = ''record'', hb_resource_id = ''7'', hb_status = ''create''\<rparr>\<rparr>"

theorem accepted_event_stored_witness:
  "ne_kind (row_or zero_entry (db_entries (w_db (snd (notification_webhook (replicate 32 (CHR ''k'')) ''1'' sample_notify
     sample_hook_request sample_world)))) (key_of sample_notify ''event'' ''e1'')) \<noteq> []"
proof -
  have "record_id_ok ''7''" by code_simp
  then have "notification_webhook (replicate 32 (CHR ''k'')) ''1'' sample_notify sample_hook_request sample_world =
      (Inr 204, snd (notification_webhook (replicate 32 (CHR ''k'')) ''1'' sample_notify sample_hook_request sample_world))"
    by (simp add: notification_webhook_def sample_hook_request_def hook_secret_given_def sample_notify_def observe_apply ret_def
        ingest_def attempt_apply clock_apply transact_row_def transact_def reliable_store reliable_def sample_world_def
        transact_notifications_def on_row_def ingest_event_def row_or_def zero_entry_def schedule_notification_def perform_def Let_def)
  from accepted_event_stored [OF this] show ?thesis by (simp add: sample_hook_request_def)
qed

text \<open>
  C24. When the sender of booking notices reports that a provider refused one (so that the next route may
  be tried), no provider took it: whatever was posted to WhatsApp, the SMS gateway or the bot was
  answered with a refusal, and the studio's account itself said it refused.
\<close>

theorem rejected_notice_not_taken:
  assumes "send_notice env tgt notc tag g = (Inr (True, e), h)"
    and "\<And>c. no_whatsapp env = Some c \<Longrightarrow> gk_observer c = None"
  shows "taken_by_none g h"
  by (rule refused_notice [OF assms])

definition sample_notice_env :: notice_env where
  "sample_notice_env = \<lparr>no_service = sample_notify, no_telegram = handle_env.extend (sample_handle True)
       (telegram_env.fields ''secret'' (\<lambda>n q. TransportFailed []) (\<lambda>d. [])),
     no_meta = handle_env.extend (sample_handle True)
     (meta_env.fields
       (\<lambda>n path p. GraphAnswered 400 \<lparr>gb_message = ''no template'', gb_user_message = [], gb_code = 132001, gb_subcode = 0, gb_message_id = []\<rparr>)
       (\<lambda>n i f. GetUnreachable []) (\<lambda>n p. GetUnreachable []) (\<lambda>n p. GetUnreachable []) (\<lambda>n w a. GetUnreachable [])
       (\<lambda>s. []) (\<lambda>s. s) (\<lambda>t. []) (\<lambda>t. []) (\<lambda>n. None) (\<lambda>s. None) (\<lambda>s. None) (\<lambda>k b. b)),
     no_sms_env = \<lparr>sz_lib = sample_lib, sz_now = (\<lambda>n. 0), sz_answer = (\<lambda>n q. SmsNoAnswer)\<rparr>, no_sms = False,
     no_whatsapp = Some \<lparr>gk_number = ''100'', gk_guard = None, gk_observer = None\<rparr>, no_account = None, no_touch = None,
     no_renderer = sample_renderer, no_calendar = sample_calendar, no_link_text = (\<lambda>l. []), no_calendar_label = (\<lambda>s. []),
     no_title = (\<lambda>l p. ''Cancelled''), no_labels = (\<lambda>l. ([], [])), no_when = (\<lambda>t. []), no_booking_url = [],
     no_website_url = [], no_digest = (\<lambda>s. s)\<rparr>"

definition cancelled_notice :: notice where
  "cancelled_notice = \<lparr>nt_id = ''e1'', nt_snapshot = bridge_visit, nt_purpose = BookingCancelled, nt_fingerprint = []\<rparr>"

definition whatsapp_route :: target where
  "whatsapp_route = \<lparr>tg_channel = WhatsApp, tg_address = ''374'', tg_template_id = ''t'', tg_studio_account = False\<rparr>"

definition empty_gateway :: gateway_world where
  "empty_gateway = \<lparr>gx_telegram = empty_telegram, gx_posts = [], gx_sms = [], gx_account = []\<rparr>"

theorem rejected_notice_not_taken_witness:
  "taken_by_none empty_gateway (snd (send_notice sample_notice_env whatsapp_route cancelled_notice ''en'' empty_gateway))"
proof -
  have "\<exists>e h. send_notice sample_notice_env whatsapp_route cancelled_notice ''en'' empty_gateway = (Inr (True, Some e), h)"
    by (simp add: send_notice_def observe_apply via_world_def via_telegram_def inside_def notice_booking_def cancelled_notice_def
        ret_def Let_def whatsapp_route_def notice_by_whatsapp_def sample_notice_env_def via_meta_def whatsapp_notice_def
        send_booking_template_with_reference_def graph_post_def attempt_apply delivery_guard_def post_call_def
        handle_env.defs meta_env.defs read_post_def success_def graph_translate_def errors_is_def graph_outcome_def marked_def)
  then show ?thesis
    using rejected_notice_not_taken [of sample_notice_env whatsapp_route cancelled_notice "''en''" empty_gateway]
    by (auto simp: sample_notice_env_def)
qed

end
