(* ===== verification/Spec2Isabelle.thy ===== *)
theory Spec2Isabelle
  imports DeliveryProperties BookingProperties AssistantProperties StoreProperties PlatformProperties ExportProperties TelegramProperties MetaProperties GatewayProperties
begin

text \<open>
  A model of the omnichannel booking assistant (Go), and the properties that make it correct.

  \<^bold>\<open>The program.\<close> Customers write to a studio through WhatsApp, Instagram and Telegram. Each channel has
  an adapter (\<open>internal/adapters/messaging\<close>) that turns a webhook delivery into an envelope and hands it
  to the assistant (\<open>internal/application/assistant\<close>). The assistant claims the delivery in the store, so
  that a redelivery is handled once, loads the conversation, lets a language model or a fixed answer
  compose a reply with tools over the studio's calendar, and sends it. Appointments are changed only
  after the customer agreed to a proposal made in an earlier message. Staff follow in a chat of their own,
  take a conversation over, and answer through the bot or on the channel itself. Reminders
  (\<open>internal/application/reminders\<close>) and notices about bookings (\<open>internal/application/notifications\<close>) are
  delivered later by workers that a queue of delayed tasks wakes. The store
  (\<open>internal/adapters/persistence\<close>) exists twice: in process memory, and in a hosted document database.
  A private cabinet shows customers their appointments after a proof of the phone, and a signed link
  exports one appointment as a calendar file.

  \<^bold>\<open>How it is modelled.\<close> Structs are records with the fields of the code, closed string types are
  datatypes, errors are values of the type \<open>fault\<close> with the sentinels they wrap (Prelude), strings that
  the code cuts are byte lists, and instants are integers in nanoseconds with \<open>zero_time\<close> for Go's zero
  time (the hosted store keeps whole microseconds). A method of the in-process store is a function of the record \<open>db\<close>; its
  mutex makes each call one step. Code that calls others is a procedure: a function from a state to an
  error or a value, and a state. The assistant runs over a \<open>world\<close> (World): the store, the calendar with a log of
  the calls made on it, the messages sent, the alerts to staff and the ticks of the clock.

  \<^bold>\<open>Theories and sources.\<close>
  \<^item> Prelude and Utf8: instants, faults, procedures, tables, Go's byte string functions, runes.
  \<^item> \<open>internal/domain\<close>: Booking, Messaging, Customer, Conversation (with reminders), with the properties in
    DomainProperties.
  \<^item> \<open>persistence/memory\<close>: MemoryStore; its laws in StoreLaws and StoreContracts (with the pages of the
    inbox), the lease contract in Leases, the properties of both stores in StoreProperties.
  \<^item> \<open>persistence/firestore\<close>: FireStore (documents), FireLaws (methods, round trips and contracts),
    FireRefines, FireConversations and FireRuns (the abstraction, operation by operation, and runs of calls).
  \<^item> \<open>application/reminders\<close>: Reminders, ReminderLaws.
  \<^item> \<open>application/notifications\<close>: Routing (plan of routes), NotificationRows (transactions),
    Notifications (delivery, contacts, receipts, recovery), NotificationLaws,
    and DeliveryRace (workers interleaved); the properties of all that is sent later are in DeliveryProperties.
  \<^item> \<open>application/cabinet\<close>: Cabinet.
  \<^item> \<open>application/assistant\<close>: World and Session (environment and session), BookingTools,
    ChangeTools, ToolDispatch (tools), TurnLogic and TurnLaws (what a turn may do to appointments),
    Choices and Pressed (labels, buttons and what is read back), Desk (staff and relayed answers) and
    Dialogue (cabinet dialogue, fixed answers and the catalogue), Reply (composing), ReplyChanges and ReplyMoves (laws of a whole
    reply), Handle, HandleLaws and RelayLaws (one inbound message),
    ActiveTurns (cancelling overtaken turns); BookingProperties and AssistantProperties.
  \<^item> \<open>application/calendar\<close> and \<open>application/appointmentmessage\<close>: CalendarExport,
    AppointmentMessages, SmsLaws, ExportProperties.
  \<^item> \<open>adapters/messaging/telegram\<close>: TelegramUpdates (updates, keyboards, texts), TelegramClient
    (sentences to staff, calls of the Bot API), TelegramStaff (staff chat and inbox), TelegramHandler (the
    webhook); laws in TelegramTexts and TelegramLaws, TelegramProperties.
  \<^item> \<open>adapters/messaging/meta\<close>: MetaUpdates (choices, pieces of text and what a webhook
    delivers), MetaClient (posts and reads of the Graph API, WhatsApp and the direct channels), MetaHandler (the
    webhook, with the command layer of \<open>cmd/gateway\<close> before the assistant); MetaTexts, MetaLaws, MetaProperties.
  \<^item> \<open>adapters/messaging/smsgate\<close>: SmsGate.
  \<^item> \<open>cmd/gateway\<close>: GatewayContext (the website's bridge), GatewayNotices (the calendar's webhook, the
    delivery task and the sender of notices over all channels), GatewayLaws, GatewayProperties.
  \<^item> \<open>adapters/tasks\<close> and \<open>platform/config\<close>: TaskQueues, Settings, PlatformProperties.

  \<^bold>\<open>Interfaces.\<close> The locale \<open>lease\<close> (Leases) is the contract a worker relies on when it claims, finishes and
  releases a key; it is interpreted on deliveries and on reminders of the in-process store
  (StoreContracts) and on deliveries of the hosted one (FireLaws). \<open>conversation_repository\<close> is the contract of
  revisions that keeps a stale turn from overwriting a takeover. \<open>simulation\<close> (FireRuns) lifts a
  step-wise refinement to runs of calls; its interpretation is the hosted store over the in-process one.
  \<open>step_law\<close> and \<open>write_law\<close> (StepLaws, HandleLaws) state once what every step of composing and of
  handling keeps; their interpretations read off how many messages are sent and what happens to the
  deliveries. \<open>adapter_step\<close> (StepLaws) does the same for the webhooks: \<open>answering\<close> and \<open>unsent\<close> (TelegramLaws),
  \<open>quiet\<close> (MetaLaws). \<open>scheduler\<close> (TaskQueues) is the
  contract of a queue of delayed work.

  \<^bold>\<open>What is shown.\<close> Store: its invariant over every run of calls, leases exclude each other until they
  expire, takeovers win over stale saves, pages of the inbox partition it; the hosted store refines the
  in-process one. Delivery: wakes are in the future and end; a reminder is sent at most once and
  for the appointment as it is now; a withdrawn customer is told nothing; workers running at
  once do not send a notice twice; receipts and recoveries keep the rows consistent. Cabinet: at
  most five guesses per code and five codes per hour, over every run. Assistant: one inbound
  message sends the customer at most one message; an appointment is booked, moved or cancelled only as an
  earlier message proposed; the buttons shown are read back as what they say in each language; a
  colleague's answer goes out at most once. Edges: the calendar file folds back to what it was,
  an SMS fits three segments, the webhook's staff buttons work in the staff chat only; one delivery of
  Meta is answered once per message, a failed WhatsApp reply that may be tried again has sent nothing, a
  notice reported as refused was taken by no provider, the website's bridge acts on signed requests only.

  \<^bold>\<open>Bounds and fuel.\<close> \<open>lock_rounds\<close> (Desk) bounds the attempts to claim a customer's lock: the code polls
  until its context ends, at 1200 rounds at the latest. \<open>max_tool_rounds\<close> (Reply) is the code's own
  bound of 6. \<open>navigation_rounds\<close> (Dialogue) is 2: a step of the catalogue leads to at most one further step, since
  only the first can skip. The walk over the pages of the inbox takes fuel, and is shown to end within the number of rows.
  \<open>whatsapp_levels\<close> (MetaClient) is 2: a long text is cut into pieces that are not cut again, which is shown to
  lose nothing. \<open>template_page_bound\<close> and \<open>echo_attempts\<close> are the code's own 10 and 4.
  Every other recursion is on the data.

  \<^bold>\<open>Parameters.\<close> What is not under \<open>src/\<close> is an argument of the definitions that use it: Unicode folding and
  lowering, parsing of times, URLs, durations and JSON, hashes and HMAC, the phone number library, the
  calendar, the language model, the queue's client, the answers of HTTP servers, and cancellation of
  contexts (an oracle of the world). No law is assumed of them unless a theorem names it as a hypothesis. Long
  sentences are symbolic or parameters; labels that are read back are kept as bytes.

  \<^bold>\<open>Not modelled.\<close> The HTTP clients of the calendar and the language model (their answers are
  arbitrary), the download of voice messages, the HTTP server and its middleware, logging and random identifiers, goroutines
  other than those named above, and the prose of the model's instructions.
\<close>

end
